(* ===== verification/Prelude.thy ===== *)
theory Prelude
  imports Complex_Main "HOL-Library.Char_ord" "HOL-Library.List_Lexorder" "HOL-Library.AList"
    "HOL-Library.Multiset" "HOL-Library.Code_Target_Nat"
begin

text \<open>
  What every component of the development shares: the values of JavaScript the sources
  handle, the string operations they use, decimal numerals, and the generic lemmas about
  lists and association lists that carry the component proofs.

  \<^item> A string of the sources is a \<^typ>\<open>string\<close>: a list of code units, restricted to the
    code units 0 to 255.  The order of strings is the lexicographic order of code units, as
    JavaScript's \<open><\<close> on strings.
  \<^item> A value of the static type \<open>unknown\<close> is a \<open>js_value\<close>.  An own property of an
    object is a data property or an accessor; an accessor carries what its getter answers.
  \<^item> A \<open>Map\<close> of the sources is an association list, in insertion order.
\<close>

section \<open>Collections of simplification rules\<close>

named_theorems decimal_simps \<open>digits, decimal texts and their values\<close>
named_theorems outcome_simps \<open>outcomes of fallible operations\<close>

section \<open>JavaScript values\<close>

text \<open>
  A number is an integral double, the negative zero, a double with a fractional part, or one
  of the three non-finite values.
\<close>

datatype js_number =
    NumInt int
  | NumNegZero
  | NumFrac rat
  | NumNaN
  | NumInfinity bool

datatype 'v js_prop = DataProp 'v | AccessorProp 'v

datatype js_value =
    JSUndefined
  | JSNull
  | JSBool bool
  | JSNumber js_number
  | JSString string
  | JSArray "js_value list"
  | JSObject bool "(string \<times> js_value js_prop) list"
  | JSFunction

text \<open>
  The flag of an object says whether its prototype is \<open>Object.prototype\<close> or \<open>null\<close>.
\<close>

text \<open>The errors a standard operation of the sources throws.\<close>

datatype js_error = RangeError string | TypeError string

definition MAX_SAFE_INTEGER :: int where
  "MAX_SAFE_INTEGER = 2 ^ 53 - 1"

fun isSafeInteger :: "js_number \<Rightarrow> bool" where
  "isSafeInteger (NumInt i) = (\<bar>i\<bar> \<le> MAX_SAFE_INTEGER)"
| "isSafeInteger NumNegZero = True"
| "isSafeInteger _ = False"

fun prop_value :: "'v js_prop \<Rightarrow> 'v" where
  "prop_value (DataProp v) = v"
| "prop_value (AccessorProp v) = v"

fun js_get :: "js_value \<Rightarrow> string \<Rightarrow> js_value" where
  "js_get (JSObject p ps) k =
     (case map_of ps k of None \<Rightarrow> JSUndefined | Some q \<Rightarrow> prop_value q)"
| "js_get _ k = JSUndefined"

fun js_is_object :: "js_value \<Rightarrow> bool" where
  "js_is_object (JSArray xs) = True"
| "js_is_object (JSObject p ps) = True"
| "js_is_object _ = False"

text \<open>
  Comparison of numbers: \<open>===\<close> distinguishes \<open>NaN\<close> from itself and identifies the two
  zeros; \<open><=\<close> is false as soon as one side is \<open>NaN\<close>.
\<close>

fun js_finite :: "js_number \<Rightarrow> rat option" where
  "js_finite (NumInt i) = Some (of_int i)"
| "js_finite NumNegZero = Some 0"
| "js_finite (NumFrac q) = Some q"
| "js_finite _ = None"

definition js_num_eq :: "js_number \<Rightarrow> js_number \<Rightarrow> bool" where
  "js_num_eq a b =
     (case (js_finite a, js_finite b) of
        (Some p, Some q) \<Rightarrow> p = q
      | (None, None) \<Rightarrow> a = b \<and> a \<noteq> NumNaN
      | _ \<Rightarrow> False)"

fun js_num_le :: "js_number \<Rightarrow> js_number \<Rightarrow> bool" where
  "js_num_le NumNaN b = False"
| "js_num_le a NumNaN = False"
| "js_num_le (NumInfinity positive) b = (positive \<longrightarrow> b = NumInfinity True)"
| "js_num_le a (NumInfinity positive) = positive"
| "js_num_le a b = (the (js_finite a) \<le> the (js_finite b))"

definition js_num_less :: "js_number \<Rightarrow> js_number \<Rightarrow> bool" where
  "js_num_less a b \<longleftrightarrow> js_num_le a b \<and> \<not> js_num_eq a b"

lemma js_num_eq_int [simp]: "js_num_eq (NumInt i) (NumInt j) \<longleftrightarrow> i = j"
  by (simp add: js_num_eq_def)

lemma js_num_less_int [simp]: "js_num_less (NumInt i) (NumInt j) \<longleftrightarrow> i < j"
  by (auto simp add: js_num_less_def)

section \<open>The host platform\<close>

text \<open>
  What the sources take from the host and the language leaves to it: the SHA-256 digest of
  Node's \<open>crypto\<close> in hexadecimal, \<open>Date.parse\<close> on texts outside the date-time format of the
  language, the spelling of numbers that are not safe integers, \<open>localeCompare\<close>, and, in double
  arithmetic, the product \<open>seconds * 1000\<close> of a fractional number of seconds and its sum
  \<open>anchor + seconds * 1000\<close> with an instant.
\<close>

record platform =
  sha256_hex :: "string \<Rightarrow> string"
  date_parse_other :: "string \<Rightarrow> int option"
  number_toString_other :: "js_number \<Rightarrow> string"
  locale_compare :: "string \<Rightarrow> string \<Rightarrow> int"
  fractional_horizon :: "int \<Rightarrow> rat \<Rightarrow> int option"
  fractional_millis :: "rat \<Rightarrow> rat"

section \<open>Characters and strings\<close>

definition code_unit :: "char \<Rightarrow> nat" where
  "code_unit c = of_char c"

definition is_digit :: "char \<Rightarrow> bool" where
  "is_digit c \<longleftrightarrow> 48 \<le> code_unit c \<and> code_unit c \<le> 57"

definition is_upper :: "char \<Rightarrow> bool" where
  "is_upper c \<longleftrightarrow> 65 \<le> code_unit c \<and> code_unit c \<le> 90"

definition is_lower :: "char \<Rightarrow> bool" where
  "is_lower c \<longleftrightarrow> 97 \<le> code_unit c \<and> code_unit c \<le> 122"

definition is_alnum :: "char \<Rightarrow> bool" where
  "is_alnum c \<longleftrightarrow> is_digit c \<or> is_upper c \<or> is_lower c"

definition is_space :: "char \<Rightarrow> bool" where
  "is_space c \<longleftrightarrow> (9 \<le> code_unit c \<and> code_unit c \<le> 13) \<or> code_unit c = 32 \<or> code_unit c = 160"

definition is_control :: "char \<Rightarrow> bool" where
  "is_control c \<longleftrightarrow> code_unit c \<le> 31 \<or> (127 \<le> code_unit c \<and> code_unit c \<le> 159)"

definition js_trim :: "string \<Rightarrow> string" where
  "js_trim s = rev (dropWhile is_space (rev (dropWhile is_space s)))"

fun indexOf :: "char \<Rightarrow> string \<Rightarrow> nat option" where
  "indexOf c [] = None"
| "indexOf c (x # xs) = (if x = c then Some 0 else map_option Suc (indexOf c xs))"

definition padStart :: "nat \<Rightarrow> char \<Rightarrow> string \<Rightarrow> string" where
  "padStart n c s = replicate (n - length s) c @ s"

lemma indexOf_none_iff: "indexOf c s = None \<longleftrightarrow> c \<notin> set s"
  by (induction s) auto

lemma indexOf_append:
  "c \<notin> set w \<Longrightarrow> indexOf c (w @ c # r) = Some (length w)"
  by (induction w) auto

lemma indexOf_some_split:
  assumes "indexOf c s = Some i"
  shows "\<exists>w r. s = w @ c # r \<and> c \<notin> set w \<and> i = length w"
  using assms
proof (induction s arbitrary: i)
  case Nil
  then show ?case by simp
next
  case (Cons x xs)
  show ?case
  proof (cases "x = c")
    case True
    with Cons.prems show ?thesis by (intro exI [of _ "[]"] exI [of _ xs]) simp
  next
    case False
    with Cons.prems obtain j where j: "indexOf c xs = Some j" "i = Suc j" by auto
    from Cons.IH [OF j(1)] obtain w r where
      "xs = w @ c # r \<and> c \<notin> set w \<and> j = length w" by auto
    with False j show ?thesis by (intro exI [of _ "x # w"] exI [of _ r]) auto
  qed
qed

section \<open>Decimal numerals\<close>

definition digit_value :: "char \<Rightarrow> nat" where
  "digit_value c = code_unit c - 48"

definition digit_char :: "nat \<Rightarrow> char" where
  "digit_char n = char_of (48 + n)"

definition digits_value :: "string \<Rightarrow> nat" where
  "digits_value ds = foldl (\<lambda>n c. 10 * n + digit_value c) 0 ds"

fun nat_toString :: "nat \<Rightarrow> string" where
  "nat_toString n =
     (if n < 10 then [digit_char n] else nat_toString (n div 10) @ [digit_char (n mod 10)])"

definition int_toString :: "int \<Rightarrow> string" where
  "int_toString i = (if i < 0 then CHR ''-'' # nat_toString (nat (- i)) else nat_toString (nat i))"

declare nat_toString.simps [simp del]

lemma code_unit_digit_char [decimal_simps]: "n < 10 \<Longrightarrow> code_unit (digit_char n) = 48 + n"
  by (simp add: code_unit_def digit_char_def)

lemma digit_value_digit_char [decimal_simps]: "n < 10 \<Longrightarrow> digit_value (digit_char n) = n"
  by (simp add: digit_value_def code_unit_digit_char)

lemma is_digit_digit_char [decimal_simps]: "n < 10 \<Longrightarrow> is_digit (digit_char n)"
  by (simp add: is_digit_def code_unit_digit_char)

lemma digit_char_digit_value [decimal_simps]: "is_digit c \<Longrightarrow> digit_char (digit_value c) = c"
  by (simp add: digit_char_def digit_value_def is_digit_def code_unit_def)

lemma digit_value_less [decimal_simps]: "is_digit c \<Longrightarrow> digit_value c < 10"
  by (auto simp add: digit_value_def is_digit_def)

lemma code_unit_inject [simp]: "code_unit c = code_unit d \<longleftrightarrow> c = d"
  by (simp add: code_unit_def)

lemma code_unit_0 [simp]: "code_unit (CHR ''0'') = 48"
  by (simp add: code_unit_def)

lemma digit_value_0_iff: "is_digit c \<Longrightarrow> digit_value c = 0 \<longleftrightarrow> c = CHR ''0''"
  using code_unit_inject [of c "CHR ''0''"]
  by (auto simp add: digit_value_def is_digit_def)

lemma digit_not_dot [simp]: "is_digit c \<Longrightarrow> c \<noteq> CHR ''.''"
  by (auto simp add: is_digit_def code_unit_def)

lemma is_digit_0 [simp]: "is_digit (CHR ''0'')"
  by (simp add: is_digit_def)

lemma digit_char_0 [simp]: "digit_char 0 = CHR ''0''"
  using digit_char_digit_value [of "CHR ''0''"] by (simp add: digit_value_def)

lemma digits_value_Nil [simp]: "digits_value [] = 0"
  by (simp add: digits_value_def)

lemma digits_value_snoc [decimal_simps]:
  "digits_value (ds @ [c]) = 10 * digits_value ds + digit_value c"
  by (simp add: digits_value_def)

lemma digits_value_append [decimal_simps]:
  "digits_value (ds @ es) = digits_value ds * 10 ^ length es + digits_value es"
proof (induction es rule: rev_induct)
  case Nil
  then show ?case by simp
next
  case (snoc e es)
  have "digits_value (ds @ es @ [e]) = 10 * digits_value (ds @ es) + digit_value e"
    using digits_value_snoc [of "ds @ es" e] by simp
  with snoc show ?case by (simp add: digits_value_snoc algebra_simps)
qed

lemma digits_value_Cons [decimal_simps]:
  "digits_value (c # ds) = digit_value c * 10 ^ length ds + digits_value ds"
  using digits_value_append [of "[c]" ds] by (simp add: digits_value_def)

lemma digit_value_zero [simp]: "digit_value (CHR ''0'') = 0"
  by (simp add: digit_value_def)

lemma digits_value_replicate_0 [decimal_simps]:
  "digits_value (replicate n (CHR ''0'')) = 0"
  by (induction n) (simp_all add: digits_value_Cons)

lemma digits_value_toString [decimal_simps]: "digits_value (nat_toString n) = n"
proof (induction n rule: nat_toString.induct)
  case (1 n)
  show ?case
  proof (cases "n < 10")
    case True
    then show ?thesis
      by (subst nat_toString.simps) (simp add: digits_value_def digit_value_digit_char)
  next
    case False
    with 1 show ?thesis
      by (subst nat_toString.simps) (simp add: digits_value_snoc digit_value_digit_char)
  qed
qed

lemma nat_toString_digits: "list_all is_digit (nat_toString n)"
proof (induction n rule: nat_toString.induct)
  case (1 n)
  then show ?case
    by (subst nat_toString.simps) (simp add: is_digit_digit_char)
qed

lemma nat_toString_not_Nil [simp]: "nat_toString n \<noteq> []"
  by (subst nat_toString.simps) simp

lemma nat_toString_inject [simp]: "nat_toString m = nat_toString n \<longleftrightarrow> m = n"
  by (metis digits_value_toString)

lemma nat_toString_0 [simp]: "nat_toString 0 = ''0''"
  by (subst nat_toString.simps) simp

text \<open>Printing the value of a digit string gives the string without its leading zeros.\<close>

lemma nat_toString_snoc:
  assumes "0 < m" "d < 10"
  shows "nat_toString (10 * m + d) = nat_toString m @ [digit_char d]"
proof -
  have "\<not> 10 * m + d < 10" "(10 * m + d) div 10 = m" "(10 * m + d) mod 10 = d"
    using assms by auto
  then show ?thesis by (subst nat_toString.simps) simp
qed

lemma dropWhile_zero_Nil_value:
  assumes "list_all is_digit ds"
  shows "dropWhile (\<lambda>c. c = CHR ''0'') ds = [] \<longleftrightarrow> digits_value ds = 0"
  using assms
  by (induction ds) (auto simp add: digits_value_Cons digit_value_0_iff)

lemma nat_toString_digits_value:
  assumes "list_all is_digit ds" "digits_value ds \<noteq> 0"
  shows "nat_toString (digits_value ds) = dropWhile (\<lambda>c. c = CHR ''0'') ds"
  using assms
proof (induction ds rule: rev_induct)
  case Nil
  then show ?case by simp
next
  case (snoc d ds)
  then have dg: "is_digit d" "list_all is_digit ds" by auto
  show ?case
  proof (cases "digits_value ds = 0")
    case True
    then have drop: "dropWhile (\<lambda>c. c = CHR ''0'') ds = []"
      using dropWhile_zero_Nil_value [OF dg(2)] by simp
    have nz: "d \<noteq> CHR ''0''"
      using snoc.prems True dg by (auto simp add: digits_value_snoc)
    have "nat_toString (digit_value d) = [d]"
      using dg by (subst nat_toString.simps) (simp add: digit_value_less digit_char_digit_value)
    then show ?thesis
      using True drop nz by (auto simp add: digits_value_snoc dropWhile_append)
  next
    case False
    then have "dropWhile (\<lambda>c. c = CHR ''0'') ds \<noteq> []"
      using dropWhile_zero_Nil_value [OF dg(2)] by simp
    then have drop: "dropWhile (\<lambda>c. c = CHR ''0'') (ds @ [d]) = dropWhile (\<lambda>c. c = CHR ''0'') ds @ [d]"
      by (simp add: dropWhile_append)
    have "nat_toString (digits_value (ds @ [d])) = nat_toString (digits_value ds) @ [d]"
      using False dg
      by (simp add: digits_value_snoc nat_toString_snoc digit_value_less digit_char_digit_value)
    with False drop snoc.IH dg show ?thesis by simp
  qed
qed

lemma padStart_dropWhile:
  "length ds = n \<Longrightarrow> padStart n c (dropWhile (\<lambda>d. d = c) ds) = ds"
proof (induction ds arbitrary: n)
  case Nil
  then show ?case by (simp add: padStart_def)
next
  case (Cons d ds)
  have le: "length (dropWhile (\<lambda>d. d = c) ds) \<le> length ds"
    by (rule length_dropWhile_le)
  with Cons show ?case
    by (auto simp add: padStart_def Suc_diff_le)
qed

section \<open>Sets, sorting and maps\<close>

text \<open>A \<open>Set\<close> built from a list keeps the first occurrence of each member.\<close>

definition js_set_add :: "'a list \<Rightarrow> 'a \<Rightarrow> 'a list" where
  "js_set_add xs x = (if x \<in> set xs then xs else xs @ [x])"

definition js_set :: "'a list \<Rightarrow> 'a list" where
  "js_set xs = foldl js_set_add [] xs"

lemma js_set_foldl:
  "distinct acc \<Longrightarrow>
     set (foldl js_set_add acc xs) = set acc \<union> set xs \<and> distinct (foldl js_set_add acc xs)"
  by (induction xs arbitrary: acc) (auto simp add: js_set_add_def)

lemma set_js_set [simp]: "set (js_set xs) = set xs"
  using js_set_foldl [of "[]" xs] by (simp add: js_set_def)

lemma distinct_js_set [simp]: "distinct (js_set xs)"
  using js_set_foldl [of "[]" xs] by (simp add: js_set_def)

lemma sort_js_set_cong:
  "set xs = set ys \<Longrightarrow> sort (js_set xs) = sort (js_set (ys :: 'a :: linorder list))"
  by (simp add: sorted_distinct_set_unique)

lemma sort_js_set_sorted_distinct:
  "sorted xs \<Longrightarrow> distinct xs \<Longrightarrow> sort (js_set xs) = (xs :: 'a :: linorder list)"
  by (simp add: sorted_distinct_set_unique)

text \<open>
  \<open>Array.prototype.sort\<close> with a comparator: a stable sort.
\<close>

fun insert_by :: "('a \<Rightarrow> 'a \<Rightarrow> int) \<Rightarrow> 'a \<Rightarrow> 'a list \<Rightarrow> 'a list" where
  "insert_by cmp x [] = [x]"
| "insert_by cmp x (y # ys) = (if cmp x y \<le> 0 then x # y # ys else y # insert_by cmp x ys)"

definition sort_by :: "('a \<Rightarrow> 'a \<Rightarrow> int) \<Rightarrow> 'a list \<Rightarrow> 'a list" where
  "sort_by cmp xs = foldr (insert_by cmp) xs []"

lemma mset_insert_by [simp]: "mset (insert_by cmp x ys) = add_mset x (mset ys)"
  by (induction ys) auto

lemma mset_sort_by [simp]: "mset (sort_by cmp xs) = mset xs"
  by (induction xs) (simp_all add: sort_by_def)

lemma set_sort_by [simp]: "set (sort_by cmp xs) = set xs"
  by (rule mset_eq_setD) simp

lemma sort_by_Nil_iff [simp]: "sort_by cmp xs = [] \<longleftrightarrow> xs = []"
  by (metis mset_sort_by mset_zero_iff)

text \<open>The first element of a sorted list has the least key the comparator sorts by first.\<close>

lemma insert_by_head:
  assumes "\<And>a b. key a < key b \<Longrightarrow> cmp a b \<le> 0" "\<And>a b. key b < key a \<Longrightarrow> \<not> cmp a b \<le> 0"
    and "\<forall>y \<in> set ys. key (hd ys) \<le> (key y :: int)"
  shows "\<forall>y \<in> set (insert_by cmp x ys). key (hd (insert_by cmp x ys)) \<le> key y"
proof (cases ys)
  case (Cons z zs)
  have s: "set (insert_by cmp x ys) = insert x (set ys)"
    by (metis mset_insert_by set_mset_add_mset_insert set_mset_mset)
  show ?thesis
  proof (cases "cmp x z \<le> 0")
    case True
    then have "key x \<le> key z" using assms(2) [of z x] by force
    then show ?thesis using True assms(3) Cons by force
  next
    case False
    then have "key z \<le> key x" using assms(1) [of x z] by force
    moreover have "hd (insert_by cmp x ys) = z" using False Cons by simp
    ultimately show ?thesis using s assms(3) Cons by simp
  qed
qed simp

lemma sort_by_head:
  assumes "\<And>a b. key a < key b \<Longrightarrow> cmp a b \<le> 0" "\<And>a b. key b < key a \<Longrightarrow> \<not> cmp a b \<le> 0"
  shows "\<forall>y \<in> set xs. key (hd (sort_by cmp xs)) \<le> (key y :: int)"
proof -
  have "\<forall>y \<in> set (sort_by cmp xs). key (hd (sort_by cmp xs)) \<le> key y"
  proof (induction xs)
    case Nil
    then show ?case by (simp add: sort_by_def)
  next
    case (Cons x xs)
    then show ?case using insert_by_head [of key cmp "sort_by cmp xs" x] assms by (simp add: sort_by_def)
  qed
  then show ?thesis by simp
qed

lemma map_of_update [simp]: "map_of (AList.update k v al) = (map_of al)(k \<mapsto> v)"
  by (rule update_conv')

lemma update_new_key: "k \<notin> fst ` set al \<Longrightarrow> AList.update k v al = al @ [(k, v)]"
  by (induction al) auto

section \<open>Printing of numbers and lists\<close>

definition js_number_toString :: "platform \<Rightarrow> js_number \<Rightarrow> string" where
  "js_number_toString P n =
     (case n of
        NumInt i \<Rightarrow> if \<bar>i\<bar> \<le> MAX_SAFE_INTEGER then int_toString i else number_toString_other P n
      | NumNegZero \<Rightarrow> ''0''
      | NumNaN \<Rightarrow> ''NaN''
      | NumInfinity positive \<Rightarrow> if positive then ''Infinity'' else ''-Infinity''
      | NumFrac q \<Rightarrow> number_toString_other P n)"

fun join :: "string \<Rightarrow> string list \<Rightarrow> string" where
  "join sep [] = []"
| "join sep [x] = x"
| "join sep (x # y # xs) = x @ sep @ join sep (y # xs)"

section \<open>Instants\<close>

text \<open>
  Days since 1970-01-01 of a date of the proleptic Gregorian calendar, and back; the years are
  counted from March so that the leap day comes last.
\<close>

definition days_from_civil :: "int \<Rightarrow> int \<Rightarrow> int \<Rightarrow> int" where
  "days_from_civil year month day =
     (let y = (if month \<le> 2 then year - 1 else year);
          era = y div 400;
          yoe = y - era * 400;
          mp = (month + 9) mod 12;
          doy = (153 * mp + 2) div 5 + day - 1;
          doe = yoe * 365 + yoe div 4 - yoe div 100 + doy
      in era * 146097 + doe - 719468)"

definition civil_from_days :: "int \<Rightarrow> int \<times> int \<times> int" where
  "civil_from_days days =
     (let z = days + 719468;
          era = z div 146097;
          doe = z - era * 146097;
          yoe = (doe - doe div 1460 + doe div 36524 - doe div 146096) div 365;
          doy = doe - (365 * yoe + yoe div 4 - yoe div 100);
          mp = (5 * doy + 2) div 153;
          d = doy - (153 * mp + 2) div 5 + 1;
          m = (if mp < 10 then mp + 3 else mp - 9);
          y = yoe + era * 400
      in (if m \<le> 2 then y + 1 else y, m, d))"

definition days_in_month :: "int \<Rightarrow> int \<Rightarrow> int" where
  "days_in_month year month =
     (if month = 2 then (if year mod 4 = 0 \<and> (year mod 100 \<noteq> 0 \<or> year mod 400 = 0) then 29 else 28)
      else if month \<in> {4, 6, 9, 11} then 30 else 31)"

definition instant :: "int \<Rightarrow> int \<Rightarrow> int \<Rightarrow> int \<Rightarrow> int \<Rightarrow> int \<Rightarrow> int \<Rightarrow> int" where
  "instant y mo d h mi sec ms =
     (((days_from_civil y mo d * 24 + h) * 60 + mi) * 60 + sec) * 1000 + ms"

definition digits_at :: "string \<Rightarrow> nat \<Rightarrow> nat \<Rightarrow> int option" where
  "digits_at s i n =
     (let ds = take n (drop i s)
      in if length ds = n \<and> list_all is_digit ds then Some (int (digits_value ds)) else None)"

definition char_at :: "string \<Rightarrow> nat \<Rightarrow> char \<Rightarrow> bool" where
  "char_at s i c \<longleftrightarrow> i < length s \<and> s ! i = c"

text \<open>The offset that ends a date-time: \<open>Z\<close>, or hours and minutes, in minutes.\<close>

definition iso_offset :: "string \<Rightarrow> int option" where
  "iso_offset s =
     (if s = ''Z'' then Some 0
      else if length s = 6 \<and> (char_at s 0 (CHR ''+'') \<or> char_at s 0 (CHR ''-'')) \<and> char_at s 3 (CHR '':'') then
        (case (digits_at s 1 2, digits_at s 4 2) of
           (Some h, Some m) \<Rightarrow>
             if h \<le> 23 \<and> m \<le> 59 then
               Some (if char_at s 0 (CHR ''-'') then - (h * 60 + m) else h * 60 + m)
             else None
         | _ \<Rightarrow> None)
      else None)"

text \<open>The date-time format of the language with seconds, optional milliseconds and an offset.\<close>

definition iso_parse :: "string \<Rightarrow> int option" where
  "iso_parse s =
     (let millis = char_at s 19 (CHR ''.'');
          tail = drop (if millis then 23 else 19) s
      in case (digits_at s 0 4, digits_at s 5 2, digits_at s 8 2, digits_at s 11 2, digits_at s 14 2, digits_at s 17 2) of
        (Some y, Some mo, Some d, Some h, Some mi, Some sec) \<Rightarrow>
          if char_at s 4 (CHR ''-'') \<and> char_at s 7 (CHR ''-'') \<and> char_at s 10 (CHR ''T'') \<and>
             char_at s 13 (CHR '':'') \<and> char_at s 16 (CHR '':'') \<and>
             1 \<le> mo \<and> mo \<le> 12 \<and> 1 \<le> d \<and> d \<le> days_in_month y mo \<and> h \<le> 23 \<and> mi \<le> 59 \<and> sec \<le> 59
          then
            (case (if millis then digits_at s 20 3 else Some 0, iso_offset tail) of
               (Some ms, Some off) \<Rightarrow> Some (instant y mo d h mi sec ms - off * 60000)
             | _ \<Rightarrow> None)
          else None
      | _ \<Rightarrow> None)"

text \<open>\<open>Date.parse\<close>, where \<^term>\<open>None\<close> is \<open>NaN\<close>.\<close>

definition Date_parse :: "platform \<Rightarrow> string \<Rightarrow> int option" where
  "Date_parse P s = (case iso_parse s of Some t \<Rightarrow> Some t | None \<Rightarrow> date_parse_other P s)"

definition pad_digits :: "nat \<Rightarrow> int \<Rightarrow> string" where
  "pad_digits n i = padStart n (CHR ''0'') (int_toString i)"

definition MAX_DATE :: int where
  "MAX_DATE = 8640000000000000"

text \<open>\<open>new Date(t).toISOString()\<close>: a \<open>RangeError\<close> outside the range of dates.\<close>

definition toISOString :: "int \<Rightarrow> js_error + string" where
  "toISOString t =
     (if \<bar>t\<bar> > MAX_DATE then Inl (RangeError ''Invalid time value'')
      else
        let (y, mo, d) = civil_from_days (t div 86400000);
            r = t mod 86400000;
            year = (if 0 \<le> y \<and> y \<le> 9999 then pad_digits 4 y
                    else if y < 0 then CHR ''-'' # pad_digits 6 (- y) else CHR ''+'' # pad_digits 6 y)
        in Inr (year @ ''-'' @ pad_digits 2 mo @ ''-'' @ pad_digits 2 d @ ''T'' @
                pad_digits 2 (r div 3600000) @ '':'' @ pad_digits 2 (r div 60000 mod 60) @ '':'' @
                pad_digits 2 (r div 1000 mod 60) @ ''.'' @ pad_digits 3 (r mod 1000) @ ''Z''))"

end
