(* ===== verification/Canonical_Decimal.thy ===== *)
theory Canonical_Decimal
  imports Prelude
begin

text \<open>
  Exact non-negative decimals as text: \<open>monetary-runtime/domain/canonical-decimal.ts\<close>.

  The theory gives the grammar of canonical decimals, the one canonicalizer of untrusted text,
  exact addition, subtraction and comparison over coefficient and scale, and the conversion of
  JSON number lexemes.  The lemmas show that canonical texts and quantities correspond one to
  one, and that every operation is exact.  The locale \<open>exact_decimal\<close> is what the aggregate
  controls and the bounds rely on; it is interpreted here on the code's operations.

  The limit \<open>Number.MAX_SAFE_INTEGER\<close> on the number of digits holds of every string of the
  language (a string has at most that many code units); the model writes it \<^term>\<open>None\<close>.
\<close>

section \<open>The interface: exact decimals\<close>

locale exact_decimal =
  fixes canonical :: "'d \<Rightarrow> bool"
    and quantity :: "'d \<Rightarrow> rat"
    and zero :: 'd
    and add :: "'d \<Rightarrow> 'd \<Rightarrow> 'e + 'd"
    and cmp :: "'d \<Rightarrow> 'd \<Rightarrow> 'e + int"
  assumes zero_canonical: "canonical zero"
    and zero_quantity: "quantity zero = 0"
    and quantity_nonneg: "canonical a \<Longrightarrow> 0 \<le> quantity a"
    and quantity_inject: "canonical a \<Longrightarrow> canonical b \<Longrightarrow> quantity a = quantity b \<Longrightarrow> a = b"
    and add_exact: "canonical a \<Longrightarrow> canonical b \<Longrightarrow>
          \<exists>c. add a b = Inr c \<and> canonical c \<and> quantity c = quantity a + quantity b"
    and cmp_exact: "canonical a \<Longrightarrow> canonical b \<Longrightarrow>
          cmp a b = Inr (if quantity a < quantity b then - 1
                         else if quantity b < quantity a then 1 else 0)"
begin

fun sum_from :: "'d \<Rightarrow> 'd list \<Rightarrow> 'e + 'd" where
  "sum_from acc [] = Inr acc"
| "sum_from acc (x # xs) = (case add acc x of Inl e \<Rightarrow> Inl e | Inr s \<Rightarrow> sum_from s xs)"

lemma sum_from_exact:
  assumes "canonical acc" "\<forall>x \<in> set xs. canonical x"
  shows "\<exists>s. sum_from acc xs = Inr s \<and> canonical s \<and>
    quantity s = quantity acc + sum_list (map quantity xs)"
  using assms
proof (induction xs arbitrary: acc)
  case Nil
  then show ?case by simp
next
  case (Cons x xs)
  then have ok: "canonical acc" "canonical x" by auto
  obtain c where c: "add acc x = Inr c" "canonical c" "quantity c = quantity acc + quantity x"
    using add_exact [OF ok] by blast
  from Cons.IH [OF c(2)] Cons.prems obtain s where
    "sum_from c xs = Inr s \<and> canonical s \<and> quantity s = quantity c + sum_list (map quantity xs)"
    by auto
  with c show ?case by simp
qed

lemma cmp_le_iff:
  "canonical a \<Longrightarrow> canonical b \<Longrightarrow> (\<exists>k. cmp a b = Inr k \<and> k \<le> 0) \<longleftrightarrow> quantity a \<le> quantity b"
  by (auto simp add: cmp_exact)

lemma cmp_eq_0_iff: "canonical a \<Longrightarrow> canonical b \<Longrightarrow> cmp a b = Inr 0 \<longleftrightarrow> a = b"
  by (auto simp add: cmp_exact dest: quantity_inject)

end

section \<open>The grammar\<close>

definition MONETARY_DECIMAL_MAXIMUM_DIGITS :: nat where
  "MONETARY_DECIMAL_MAXIMUM_DIGITS = 128"

definition MONETARY_DECIMAL_MAXIMUM_TEXT_LENGTH :: nat where
  "MONETARY_DECIMAL_MAXIMUM_TEXT_LENGTH = 256"

text \<open>The integer part \<open>(0|[1-9][0-9]*)\<close> shared by the three regular expressions.\<close>

definition integer_part :: "string \<Rightarrow> bool" where
  "integer_part w \<longleftrightarrow>
     w = ''0'' \<or> (w \<noteq> [] \<and> list_all is_digit w \<and> hd w \<noteq> CHR ''0'')"

definition before_point :: "string \<Rightarrow> string" where
  "before_point s = takeWhile (\<lambda>c. c \<noteq> CHR ''.'') s"

definition from_point :: "string \<Rightarrow> string" where
  "from_point s = dropWhile (\<lambda>c. c \<noteq> CHR ''.'') s"

definition CANONICAL_DECIMAL :: "string \<Rightarrow> bool" where
  "CANONICAL_DECIMAL s \<longleftrightarrow> integer_part (before_point s) \<and>
     (case from_point s of [] \<Rightarrow> True
      | _ # f \<Rightarrow> f \<noteq> [] \<and> list_all is_digit f \<and> last f \<noteq> CHR ''0'')"

definition PLAIN_DECIMAL :: "string \<Rightarrow> bool" where
  "PLAIN_DECIMAL s \<longleftrightarrow> integer_part (before_point s) \<and>
     (case from_point s of [] \<Rightarrow> True | _ # f \<Rightarrow> f \<noteq> [] \<and> list_all is_digit f)"

definition digitCount :: "string \<Rightarrow> nat" where
  "digitCount s = length (remove1 (CHR ''.'') s)"

fun within_digits :: "nat \<Rightarrow> nat option \<Rightarrow> bool" where
  "within_digits n None = True"
| "within_digits n (Some m) = (n \<le> m)"

fun isCanonicalDecimal :: "js_value \<Rightarrow> nat option \<Rightarrow> bool" where
  "isCanonicalDecimal (JSString s) maximumDigits =
     (CANONICAL_DECIMAL s \<and> within_digits (digitCount s) maximumDigits)"
| "isCanonicalDecimal _ maximumDigits = False"

section \<open>The canonicalizer\<close>

fun trim_zeros_end :: "string \<Rightarrow> nat \<Rightarrow> nat \<Rightarrow> nat" where
  "trim_zeros_end v point e =
     (if point + 1 < e \<and> v ! (e - 1) = CHR ''0'' then trim_zeros_end v point (e - 1) else e)"

declare trim_zeros_end.simps [simp del]

fun canonicalizeDecimalText :: "js_value \<Rightarrow> string option" where
  "canonicalizeDecimalText (JSString v) =
     (if v = [] \<or> length v > MONETARY_DECIMAL_MAXIMUM_TEXT_LENGTH then None
      else if \<not> PLAIN_DECIMAL v then None
      else
        let canonical =
          (case indexOf (CHR ''.'') v of None \<Rightarrow> v
           | Some point \<Rightarrow>
               let e = trim_zeros_end v point (length v)
               in if e = point + 1 then take point v else take e v)
        in if isCanonicalDecimal (JSString canonical) (Some MONETARY_DECIMAL_MAXIMUM_DIGITS)
           then Some canonical else None)"
| "canonicalizeDecimalText _ = None"

section \<open>Coefficient and scale\<close>

record exact_decimal_value =
  coefficient :: int
  scale :: nat

definition parse :: "string \<Rightarrow> exact_decimal_value" where
  "parse text = (case indexOf (CHR ''.'') text of
     None \<Rightarrow> \<lparr>coefficient = int (digits_value text), scale = 0\<rparr>
   | Some point \<Rightarrow>
       \<lparr>coefficient = int (digits_value (take point text @ drop (point + 1) text)),
        scale = length text - point - 1\<rparr>)"

fun format_loop :: "int \<Rightarrow> nat \<Rightarrow> int \<times> nat" where
  "format_loop c k =
     (if 0 < k \<and> c mod 10 = 0 then format_loop (c div 10) (k - 1) else (c, k))"

declare format_loop.simps [simp del]

definition format :: "exact_decimal_value \<Rightarrow> string" where
  "format v =
     (let (c, k) = format_loop (coefficient v) (scale v)
      in if c = 0 then ''0''
         else let digits = int_toString c
              in if k = 0 then digits
                 else let padded = padStart (k + 1) (CHR ''0'') digits
                      in take (length padded - k) padded @ CHR ''.'' # drop (length padded - k) padded)"

definition align :: "exact_decimal_value \<Rightarrow> exact_decimal_value \<Rightarrow> int \<times> int \<times> nat" where
  "align l r =
     (let k = max (scale l) (scale r)
      in (coefficient l * 10 ^ (k - scale l), coefficient r * 10 ^ (k - scale r), k))"

definition requireCanonical :: "string \<Rightarrow> string \<Rightarrow> js_error option" where
  "requireCanonical v label =
     (if isCanonicalDecimal (JSString v) None then None
      else Some (RangeError (label @ '' is not a canonical decimal.'')))"

definition canonicalDecimalScale :: "string \<Rightarrow> js_error + nat" where
  "canonicalDecimalScale canonical =
     (case requireCanonical canonical ''value'' of Some e \<Rightarrow> Inl e
      | None \<Rightarrow> Inr (case indexOf (CHR ''.'') canonical of
          None \<Rightarrow> 0 | Some point \<Rightarrow> length canonical - point - 1))"

definition require_operands :: "string \<Rightarrow> string \<Rightarrow> js_error option" where
  "require_operands l r =
     (case requireCanonical l ''left operand'' of Some e \<Rightarrow> Some e
      | None \<Rightarrow> requireCanonical r ''right operand'')"

definition addCanonicalDecimals :: "string \<Rightarrow> string \<Rightarrow> js_error + string" where
  "addCanonicalDecimals l r =
     (case require_operands l r of Some e \<Rightarrow> Inl e
      | None \<Rightarrow> let (a, b, k) = align (parse l) (parse r)
                in Inr (format \<lparr>coefficient = a + b, scale = k\<rparr>))"

definition subtractCanonicalDecimals :: "string \<Rightarrow> string \<Rightarrow> js_error + string" where
  "subtractCanonicalDecimals l r =
     (case require_operands l r of Some e \<Rightarrow> Inl e
      | None \<Rightarrow> let (a, b, k) = align (parse l) (parse r)
                in if a < b then
                     Inl (RangeError ''The difference of two canonical decimals would be negative.'')
                   else Inr (format \<lparr>coefficient = a - b, scale = k\<rparr>))"

definition compareCanonicalDecimals :: "string \<Rightarrow> string \<Rightarrow> js_error + int" where
  "compareCanonicalDecimals l r =
     (case require_operands l r of Some e \<Rightarrow> Inl e
      | None \<Rightarrow> let (a, b, k) = align (parse l) (parse r)
                in Inr (if a < b then - 1 else if b < a then 1 else 0))"

section \<open>JSON number lexemes\<close>

record json_number_match =
  match_negative :: bool
  match_integer :: string
  match_fraction :: "string option"
  match_exponent :: "string option"

fun optional_sign :: "string \<Rightarrow> bool \<times> string" where
  "optional_sign (c # cs) =
     (if c = CHR ''+'' then (False, cs) else if c = CHR ''-'' then (True, cs) else (False, c # cs))"
| "optional_sign [] = (False, [])"

fun match_fraction_part :: "string \<Rightarrow> (string option \<times> string) option" where
  "match_fraction_part (c # cs) =
     (if c = CHR ''.'' then
        let f = takeWhile is_digit cs
        in if f = [] then None else Some (Some f, dropWhile is_digit cs)
      else Some (None, c # cs))"
| "match_fraction_part [] = Some (None, [])"

fun match_exponent_part :: "string \<Rightarrow> string option option" where
  "match_exponent_part (c # cs) =
     (if c = CHR ''e'' \<or> c = CHR ''E'' then
        let ds = snd (optional_sign cs)
        in if list_all is_digit ds \<and> 1 \<le> length ds \<and> length ds \<le> 4 then Some (Some cs) else None
      else None)"
| "match_exponent_part [] = Some None"

definition JSON_NUMBER_LEXEME :: "string \<Rightarrow> json_number_match option" where
  "JSON_NUMBER_LEXEME s =
     (let negative = (s \<noteq> [] \<and> hd s = CHR ''-'');
          unsigned = (if negative then tl s else s);
          i = takeWhile is_digit unsigned
      in if \<not> integer_part i then None
         else case match_fraction_part (dropWhile is_digit unsigned) of None \<Rightarrow> None
           | Some (f, rest) \<Rightarrow>
               (case match_exponent_part rest of None \<Rightarrow> None
                | Some e \<Rightarrow> Some \<lparr>match_negative = negative, match_integer = i,
                                   match_fraction = f, match_exponent = e\<rparr>))"

fun trim_leading_zeros :: "string \<Rightarrow> string" where
  "trim_leading_zeros (c # d # cs) =
     (if c = CHR ''0'' \<and> is_digit d then trim_leading_zeros (d # cs) else c # d # cs)"
| "trim_leading_zeros s = s"

definition lexeme_exponent :: "json_number_match \<Rightarrow> int" where
  "lexeme_exponent m =
     (let (minus, ds) = optional_sign (case match_exponent m of None \<Rightarrow> ''0'' | Some e \<Rightarrow> e)
      in if minus then - int (digits_value ds) else int (digits_value ds))"

definition lexeme_plain :: "string \<Rightarrow> int \<Rightarrow> string" where
  "lexeme_plain digits point =
     (if point \<le> 0 then ''0.'' @ replicate (nat (- point)) (CHR ''0'') @ digits
      else if int (length digits) \<le> point then
        digits @ replicate (nat (point - int (length digits))) (CHR ''0'')
      else take (nat point) digits @ CHR ''.'' # drop (nat point) digits)"

fun canonicalDecimalFromJsonNumberLexeme :: "js_value \<Rightarrow> string option" where
  "canonicalDecimalFromJsonNumberLexeme (JSString lexeme) =
     (if lexeme = [] \<or> length lexeme > MONETARY_DECIMAL_MAXIMUM_TEXT_LENGTH then None
      else case JSON_NUMBER_LEXEME lexeme of None \<Rightarrow> None
      | Some m \<Rightarrow>
          let fraction = (case match_fraction m of None \<Rightarrow> [] | Some f \<Rightarrow> f);
              digits = match_integer m @ fraction;
              point = int (length (match_integer m)) + lexeme_exponent m
          in if point > int MONETARY_DECIMAL_MAXIMUM_TEXT_LENGTH
                \<or> point < - int MONETARY_DECIMAL_MAXIMUM_TEXT_LENGTH then None
             else
               let plain = lexeme_plain digits point;
                   trimmedWhole = trim_leading_zeros (before_point plain)
               in case canonicalizeDecimalText (JSString (trimmedWhole @ from_point plain)) of
                    None \<Rightarrow> None
                  | Some canonical \<Rightarrow>
                      if match_negative m then (if canonical = ''0'' then Some ''0'' else None)
                      else Some canonical)"
| "canonicalDecimalFromJsonNumberLexeme _ = None"

section \<open>Shape of canonical texts\<close>

definition canonical_text :: "string \<Rightarrow> bool" where
  "canonical_text s \<longleftrightarrow> isCanonicalDecimal (JSString s) None"

definition exact_quantity :: "exact_decimal_value \<Rightarrow> rat" where
  "exact_quantity v = of_int (coefficient v) / 10 ^ scale v"

definition decimal_quantity :: "string \<Rightarrow> rat" where
  "decimal_quantity s = exact_quantity (parse s)"

lemma canonical_text_iff [simp]: "canonical_text s \<longleftrightarrow> CANONICAL_DECIMAL s"
  by (simp add: canonical_text_def)

lemma integer_part_digits: "integer_part w \<Longrightarrow> list_all is_digit w"
  by (auto simp add: integer_part_def)

lemma integer_part_not_Nil: "integer_part w \<Longrightarrow> w \<noteq> []"
  by (auto simp add: integer_part_def)

lemma digits_no_point: "list_all is_digit w \<Longrightarrow> CHR ''.'' \<notin> set w"
  by (auto simp add: list_all_iff dest: digit_not_dot)

lemma integer_part_no_point: "integer_part w \<Longrightarrow> CHR ''.'' \<notin> set w"
  by (simp add: digits_no_point integer_part_digits)

lemma split_no_point:
  assumes "CHR ''.'' \<notin> set w"
  shows "before_point w = w" "from_point w = []"
    "before_point (w @ CHR ''.'' # f) = w" "from_point (w @ CHR ''.'' # f) = CHR ''.'' # f"
  using assms
  by (auto simp add: before_point_def from_point_def takeWhile_append dropWhile_append
      takeWhile_eq_all_conv)

lemma point_split: "s = before_point s @ from_point s"
  by (simp add: before_point_def from_point_def)

lemma before_point_no_point: "CHR ''.'' \<notin> set (before_point s)"
  unfolding before_point_def by (auto dest: set_takeWhileD)

lemma from_point_cases: "from_point s = [] \<or> (\<exists>f. from_point s = CHR ''.'' # f)"
proof (cases "from_point s")
  case (Cons c f)
  then have "c = CHR ''.''"
    unfolding from_point_def using hd_dropWhile [of "\<lambda>c. c \<noteq> CHR ''.''" s] by auto
  with Cons show ?thesis by simp
qed simp

lemma CANONICAL_DECIMAL_cases:
  "CANONICAL_DECIMAL s \<longleftrightarrow>
     integer_part s \<or>
     (\<exists>w f. s = w @ CHR ''.'' # f \<and> integer_part w \<and> f \<noteq> [] \<and> list_all is_digit f \<and> last f \<noteq> CHR ''0'')"
  (is "?L \<longleftrightarrow> ?R")
proof
  assume L: ?L
  show ?R
  proof (cases "from_point s")
    case Nil
    then show ?thesis using L point_split [of s] by (simp add: CANONICAL_DECIMAL_def)
  next
    case (Cons c f)
    then have "s = before_point s @ CHR ''.'' # f"
      using from_point_cases [of s] point_split [of s] by simp
    then show ?thesis
      using L Cons by (intro disjI2 exI [of _ "before_point s"] exI [of _ f])
        (simp add: CANONICAL_DECIMAL_def)
  qed
next
  assume ?R
  then show ?L
    by (auto simp add: CANONICAL_DECIMAL_def split_no_point integer_part_no_point)
qed

lemma PLAIN_DECIMAL_cases:
  "PLAIN_DECIMAL s \<longleftrightarrow>
     integer_part s \<or>
     (\<exists>w f. s = w @ CHR ''.'' # f \<and> integer_part w \<and> f \<noteq> [] \<and> list_all is_digit f)"
  (is "?L \<longleftrightarrow> ?R")
proof
  assume L: ?L
  show ?R
  proof (cases "from_point s")
    case Nil
    then show ?thesis using L point_split [of s] by (simp add: PLAIN_DECIMAL_def)
  next
    case (Cons c f)
    then have "s = before_point s @ CHR ''.'' # f"
      using from_point_cases [of s] point_split [of s] by simp
    then show ?thesis
      using L Cons by (intro disjI2 exI [of _ "before_point s"] exI [of _ f])
        (simp add: PLAIN_DECIMAL_def)
  qed
next
  assume ?R
  then show ?L
    by (auto simp add: PLAIN_DECIMAL_def split_no_point integer_part_no_point)
qed

lemma CANONICAL_fractionI:
  "integer_part w \<Longrightarrow> f \<noteq> [] \<Longrightarrow> list_all is_digit f \<Longrightarrow> last f \<noteq> CHR ''0'' \<Longrightarrow>
     CANONICAL_DECIMAL (w @ CHR ''.'' # f)"
  by (auto simp add: CANONICAL_DECIMAL_cases)

lemma canonical_is_plain: "CANONICAL_DECIMAL s \<Longrightarrow> PLAIN_DECIMAL s"
  by (auto simp add: CANONICAL_DECIMAL_cases PLAIN_DECIMAL_cases)

lemma parse_no_point [decimal_simps]:
  "CHR ''.'' \<notin> set w \<Longrightarrow> parse w = \<lparr>coefficient = int (digits_value w), scale = 0\<rparr>"
  by (simp add: parse_def indexOf_none_iff [THEN iffD2])

lemma parse_point [decimal_simps]:
  "CHR ''.'' \<notin> set w \<Longrightarrow>
     parse (w @ CHR ''.'' # f) = \<lparr>coefficient = int (digits_value (w @ f)), scale = length f\<rparr>"
  by (simp add: parse_def indexOf_append)

lemma parse_coefficient_nonneg: "0 \<le> coefficient (parse s)"
  by (auto simp add: parse_def split: option.splits)

lemma decimal_quantity_nonneg: "0 \<le> decimal_quantity s"
  by (simp add: decimal_quantity_def exact_quantity_def parse_coefficient_nonneg)

section \<open>Formatting\<close>

lemma format_step: "format \<lparr>coefficient = c * 10, scale = Suc k\<rparr> = format \<lparr>coefficient = c, scale = k\<rparr>"
  by (simp add: format_def format_loop.simps [of "c * 10" "Suc k"])

lemma format_shift: "format \<lparr>coefficient = c * 10 ^ n, scale = k + n\<rparr> = format \<lparr>coefficient = c, scale = k\<rparr>"
proof (induction n)
  case 0
  then show ?case by simp
next
  case (Suc n)
  then show ?case
    using format_step [of "c * 10 ^ n" "k + n"] by (simp add: mult.left_commute mult.commute)
qed

text \<open>Formatting depends on the quantity only.\<close>

lemma format_quantity_le:
  assumes "exact_quantity u = exact_quantity v" "scale u \<le> scale v"
  shows "format u = format v"
proof -
  obtain n where n: "scale v = scale u + n" using assms(2) le_Suc_ex by blast
  have "(of_int (coefficient u) :: rat) * 10 ^ scale v = of_int (coefficient v) * 10 ^ scale u"
    using assms(1) by (simp add: exact_quantity_def frac_eq_eq)
  then have "(of_int (coefficient u) :: rat) * 10 ^ n = of_int (coefficient v)"
    by (simp add: n power_add)
  then have "coefficient u * 10 ^ n = coefficient v"
    by (metis of_int_eq_iff of_int_mult of_int_numeral of_int_power)
  then show ?thesis
    using format_shift [of "coefficient u" n "scale u"] n by (cases u; cases v) simp
qed

lemma format_quantity:
  assumes "exact_quantity u = exact_quantity v"
  shows "format u = format v"
  using format_quantity_le [OF assms] format_quantity_le [OF assms [symmetric]] nat_le_linear
  by (metis)

lemma format_stop:
  assumes "k = 0 \<or> c mod 10 \<noteq> 0" "c \<noteq> 0"
  shows "format \<lparr>coefficient = c, scale = k\<rparr> =
    (if k = 0 then int_toString c
     else let padded = padStart (k + 1) (CHR ''0'') (int_toString c)
          in take (length padded - k) padded @ CHR ''.'' # drop (length padded - k) padded)"
  using assms by (auto simp add: format_def format_loop.simps [of c k])

lemma format_zero: "format \<lparr>coefficient = 0, scale = k\<rparr> = ''0''"
proof (induction k)
  case 0
  then show ?case by (simp add: format_def format_loop.simps)
next
  case (Suc k)
  then show ?case using format_step [of 0 k] by simp
qed

lemma last_digit_mod:
  assumes "f \<noteq> []"
  shows "digits_value f mod 10 = digit_value (last f) mod 10"
proof -
  have "digits_value f = 10 * digits_value (butlast f) + digit_value (last f)"
    using digits_value_snoc [of "butlast f" "last f"] assms by simp
  then show ?thesis by simp
qed

lemma integer_part_toString:
  assumes "integer_part w"
  shows "nat_toString (digits_value w) = w"
proof (cases "w = ''0''")
  case True
  then show ?thesis by (simp add: digits_value_def)
next
  case False
  with assms have w: "w \<noteq> []" "list_all is_digit w" "hd w \<noteq> CHR ''0''"
    by (auto simp add: integer_part_def)
  then have d: "dropWhile (\<lambda>c. c = CHR ''0'') w = w" by (cases w) auto
  then have "digits_value w \<noteq> 0"
    using dropWhile_zero_Nil_value [OF w(2)] w(1) by metis
  with w d show ?thesis using nat_toString_digits_value by metis
qed

lemma padded_digits:
  assumes "integer_part w" "list_all is_digit f" "digits_value (w @ f) \<noteq> 0"
  shows "padStart (length f + 1) (CHR ''0'') (nat_toString (digits_value (w @ f))) = w @ f"
proof -
  have dg: "list_all is_digit (w @ f)" using assms integer_part_digits by simp
  have ts: "nat_toString (digits_value (w @ f)) = dropWhile (\<lambda>c. c = CHR ''0'') (w @ f)"
    using nat_toString_digits_value [OF dg assms(3)] .
  show ?thesis
  proof (cases "w = ''0''")
    case True
    then show ?thesis using ts padStart_dropWhile [of "w @ f" "length f + 1" "CHR ''0''"] by simp
  next
    case False
    with assms(1) have "w \<noteq> []" "hd w \<noteq> CHR ''0''" by (auto simp add: integer_part_def)
    then have "dropWhile (\<lambda>c. c = CHR ''0'') (w @ f) = w @ f" "length f + 1 \<le> length (w @ f)"
      by (cases w; simp)+
    with ts show ?thesis by (simp add: padStart_def)
  qed
qed

lemma fraction_nonzero:
  assumes "list_all is_digit f" "f \<noteq> []" "last f \<noteq> CHR ''0''"
  shows "digits_value (w @ f) mod 10 \<noteq> 0"
proof -
  have "is_digit (last f)" using assms by (simp add: list_all_iff)
  then have "digit_value (last f) mod 10 \<noteq> 0"
    using assms(3) digit_value_0_iff digit_value_less by (metis mod_less)
  then show ?thesis using last_digit_mod [of "w @ f"] assms(2) by simp
qed

lemma format_parse_canonical:
  assumes "CANONICAL_DECIMAL s"
  shows "format (parse s) = s"
proof -
  consider (int) "integer_part s"
    | (frac) w f where "s = w @ CHR ''.'' # f" "integer_part w" "f \<noteq> []" "list_all is_digit f"
        "last f \<noteq> CHR ''0''"
    using assms CANONICAL_DECIMAL_cases by blast
  then show ?thesis
  proof cases
    case int
    have p: "parse s = \<lparr>coefficient = int (digits_value s), scale = 0\<rparr>"
      using parse_no_point integer_part_no_point int by blast
    show ?thesis
    proof (cases "digits_value s = 0")
      case True
      then show ?thesis using p integer_part_toString [OF int] by (simp add: format_zero)
    next
      case False
      then show ?thesis
        using p integer_part_toString [OF int] by (simp add: format_stop int_toString_def)
    qed
  next
    case frac
    have p: "parse s = \<lparr>coefficient = int (digits_value (w @ f)), scale = length f\<rparr>"
      using parse_point integer_part_no_point frac by blast
    have m: "digits_value (w @ f) mod 10 \<noteq> 0" using fraction_nonzero frac by blast
    then have nz: "digits_value (w @ f) \<noteq> 0" by (metis mod_0)
    have m': "int (digits_value (w @ f)) mod 10 \<noteq> 0" using m by presburger
    have pad: "padStart (length f + 1) (CHR ''0'') (int_toString (int (digits_value (w @ f)))) = w @ f"
      using padded_digits frac nz by (simp add: int_toString_def)
    then show ?thesis
      using p m' nz frac by (simp add: format_stop)
  qed
qed

lemma format_loop_spec:
  assumes "format_loop c k = (c', k')"
  shows "exact_quantity \<lparr>coefficient = c', scale = k'\<rparr> = exact_quantity \<lparr>coefficient = c, scale = k\<rparr>"
    and "k' = 0 \<or> c' mod 10 \<noteq> 0"
  using assms
proof (induction c k rule: format_loop.induct)
  case (1 c k)
  {
    case 1
    show ?case
    proof (cases "0 < k \<and> c mod 10 = 0")
      case True
      then obtain j where j: "k = Suc j" using gr0_implies_Suc by blast
      obtain d where d: "c = 10 * d" using True by auto
      have loop: "format_loop d j = (c', k')"
        using 1 True j d by (simp add: format_loop.simps [of "10 * d" "Suc j"])
      then have "exact_quantity \<lparr>coefficient = c', scale = k'\<rparr> = exact_quantity \<lparr>coefficient = d, scale = j\<rparr>"
        using "1.IH"(1) True j d by simp
      then show ?thesis using j d by (simp add: exact_quantity_def)
    next
      case False
      with 1 have "c' = c" "k' = k" by (auto simp add: format_loop.simps [of c k] split: if_splits)
      then show ?thesis by simp
    qed
  next
    case 2
    show ?case
    proof (cases "0 < k \<and> c mod 10 = 0")
      case True
      then show ?thesis using 2 "1.IH"(2) by (simp add: format_loop.simps [of c k])
    next
      case False
      then show ?thesis using 2 by (auto simp add: format_loop.simps [of c k] split: if_splits)
    qed
  }
qed

lemma nat_toString_hd: "n \<noteq> 0 \<Longrightarrow> hd (nat_toString n) \<noteq> CHR ''0''"
  using nat_toString_digits_value [OF nat_toString_digits, of n]
    hd_dropWhile [of "\<lambda>c. c = CHR ''0''" "nat_toString n"]
  by (simp add: digits_value_toString)

lemma integer_part_toString_iff: "integer_part (nat_toString n)"
  using nat_toString_hd nat_toString_digits by (cases "n = 0") (auto simp add: integer_part_def)

lemma padded_shape:
  assumes "n mod 10 \<noteq> 0" "0 < k"
  defines "p \<equiv> padStart (k + 1) (CHR ''0'') (nat_toString n)"
  shows "integer_part (take (length p - k) p)" (is ?int)
    and "list_all is_digit (drop (length p - k) p)" (is ?dig)
    and "last (drop (length p - k) p) \<noteq> CHR ''0''" (is ?last)
    and "length (drop (length p - k) p) = k" (is ?len)
    and "digits_value p = n" (is ?val)
proof -
  have dg: "list_all is_digit (nat_toString n)" by (rule nat_toString_digits)
  have n: "n \<noteq> 0" using assms(1) by auto
  have len: "k + 1 \<le> length p" by (simp add: p_def padStart_def)
  have all: "list_all is_digit p" using dg by (auto simp add: p_def padStart_def list_all_iff)
  show ?len using len by simp
  show ?dig using all by (metis append_take_drop_id list_all_append)
  show ?val by (simp add: p_def padStart_def digits_value_append digits_value_replicate_0
        digits_value_toString)
  then have "digits_value p mod 10 \<noteq> 0" using assms(1) by simp
  moreover have "last (drop (length p - k) p) = last p" using len assms(2) by (simp add: last_drop)
  moreover have "p \<noteq> []" using len by auto
  ultimately show ?last using last_digit_mod [of p] by auto
  show ?int
  proof (cases "length (nat_toString n) \<le> k")
    case True
    then have "length p - k = 1" "p = CHR ''0'' # tl p"
      by (auto simp add: p_def padStart_def Suc_diff_le)
    then have "take (length p - k) p = ''0''" by (metis One_nat_def take0 take_Suc_Cons)
    then show ?thesis by (simp add: integer_part_def)
  next
    case False
    then have p: "p = nat_toString n" by (simp add: p_def padStart_def)
    with False have "hd (take (length p - k) p) = hd (nat_toString n)"
      by (simp add: hd_take)
    then show ?thesis
      using all p False nat_toString_hd [OF n]
      by (auto simp add: integer_part_def list_all_iff dest: in_set_takeD)
  qed
qed

lemma format_canonical:
  assumes "0 \<le> coefficient v"
  shows "CANONICAL_DECIMAL (format v)" "decimal_quantity (format v) = exact_quantity v"
proof -
  obtain c k where ck: "format_loop (coefficient v) (scale v) = (c, k)" by force
  have q: "exact_quantity \<lparr>coefficient = c, scale = k\<rparr> = exact_quantity v"
    using format_loop_spec(1) [OF ck] by (simp add: exact_quantity_def)
  have stop: "k = 0 \<or> c mod 10 \<noteq> 0" using format_loop_spec(2) [OF ck] .
  have "0 \<le> (of_int c :: rat) / 10 ^ k"
    using q assms by (simp add: exact_quantity_def)
  then have "0 \<le> c" using divide_neg_pos [of "of_int c :: rat" "10 ^ k"] by fastforce
  then obtain n where n: "c = int n" using zero_le_imp_eq_int by blast
  have f: "format v = format \<lparr>coefficient = c, scale = k\<rparr>" using format_quantity [OF q] by simp
  have "CANONICAL_DECIMAL (format \<lparr>coefficient = c, scale = k\<rparr>) \<and>
    parse (format \<lparr>coefficient = c, scale = k\<rparr>) = \<lparr>coefficient = c, scale = k\<rparr>"
  proof (cases "c = 0 \<or> k = 0")
    case True
    then have k0: "k = 0" using stop by auto
    then have "format \<lparr>coefficient = c, scale = k\<rparr> = nat_toString n"
      using n by (cases "c = 0") (auto simp add: format_zero format_stop int_toString_def)
    then show ?thesis
      using integer_part_toString_iff [of n] n k0
      by (simp add: CANONICAL_DECIMAL_cases parse_no_point integer_part_no_point digits_value_toString)
  next
    case False
    then have nz: "n mod 10 \<noteq> 0" "0 < k" using stop n by presburger+
    define p where "p = padStart (k + 1) (CHR ''0'') (nat_toString n)"
    note shape = padded_shape [OF nz, folded p_def]
    have "format \<lparr>coefficient = c, scale = k\<rparr> = take (length p - k) p @ CHR ''.'' # drop (length p - k) p"
      using False n stop by (simp add: format_stop p_def int_toString_def Let_def)
    moreover have "drop (length p - k) p \<noteq> []" using shape(4) nz(2) by force
    ultimately show ?thesis
      using n CANONICAL_fractionI [OF shape(1) _ shape(2,3)] parse_point [OF integer_part_no_point [OF shape(1)]]
        shape(4,5)
      by simp
  qed
  then show "CANONICAL_DECIMAL (format v)" "decimal_quantity (format v) = exact_quantity v"
    using f q by (simp_all add: decimal_quantity_def)
qed

lemma canonical_quantity_inject:
  assumes "CANONICAL_DECIMAL a" "CANONICAL_DECIMAL b" "decimal_quantity a = decimal_quantity b"
  shows "a = b"
  using assms format_parse_canonical format_quantity unfolding decimal_quantity_def by metis

section \<open>Exactness of the operations\<close>

lemma require_operands_canonical [outcome_simps]:
  "canonical_text l \<Longrightarrow> canonical_text r \<Longrightarrow> require_operands l r = None"
  by (simp add: require_operands_def requireCanonical_def)

lemma align_exact:
  assumes "align u v = (a, b, k)"
  shows "of_int a / 10 ^ k = exact_quantity u" "of_int b / 10 ^ k = exact_quantity v"
proof -
  have split: "(10::rat) ^ k = 10 ^ (k - m) * 10 ^ m" if "m \<le> k" for m
    using that by (simp flip: power_add)
  have k: "scale u \<le> k" "scale v \<le> k" and
    ab: "a = coefficient u * 10 ^ (k - scale u)" "b = coefficient v * 10 ^ (k - scale v)"
    using assms by (auto simp add: align_def Let_def)
  show "of_int a / 10 ^ k = exact_quantity u"
    unfolding ab exact_quantity_def using split [OF k(1)] by simp
  show "of_int b / 10 ^ k = exact_quantity v"
    unfolding ab exact_quantity_def using split [OF k(2)] by simp
qed

lemma align_less:
  assumes "align u v = (a, b, k)"
  shows "a < b \<longleftrightarrow> exact_quantity u < exact_quantity v"
  using align_exact [OF assms, symmetric]
  by (simp add: divide_less_cancel)

lemma align_less':
  assumes "align u v = (a, b, k)"
  shows "b < a \<longleftrightarrow> exact_quantity v < exact_quantity u"
  using align_exact [OF assms, symmetric]
  by (simp add: divide_less_cancel)

lemma align_parse_nonneg:
  assumes "align (parse l) (parse r) = (a, b, k)"
  shows "0 \<le> a" "0 \<le> b"
  using assms parse_coefficient_nonneg [of l] parse_coefficient_nonneg [of r]
  by (auto simp add: align_def Let_def)

lemma add_exact_text:
  assumes "canonical_text l" "canonical_text r"
  shows "\<exists>z. addCanonicalDecimals l r = Inr z \<and> canonical_text z \<and>
    decimal_quantity z = decimal_quantity l + decimal_quantity r"
proof -
  obtain a b k where al: "align (parse l) (parse r) = (a, b, k)" by (metis prod_cases3)
  let ?v = "\<lparr>coefficient = a + b, scale = k\<rparr>"
  have "0 \<le> coefficient ?v" using align_parse_nonneg [OF al] by simp
  note form = format_canonical [OF this]
  have "exact_quantity ?v = decimal_quantity l + decimal_quantity r"
    using align_exact [OF al] by (simp add: exact_quantity_def decimal_quantity_def add_divide_distrib)
  with form assms al show ?thesis
    by (auto simp add: addCanonicalDecimals_def require_operands_canonical)
qed

lemma subtract_exact_text:
  assumes "canonical_text l" "canonical_text r"
  shows "if decimal_quantity l < decimal_quantity r
    then subtractCanonicalDecimals l r =
      Inl (RangeError ''The difference of two canonical decimals would be negative.'')
    else \<exists>z. subtractCanonicalDecimals l r = Inr z \<and> canonical_text z \<and>
      decimal_quantity z = decimal_quantity l - decimal_quantity r"
proof -
  obtain a b k where al: "align (parse l) (parse r) = (a, b, k)" by (metis prod_cases3)
  let ?v = "\<lparr>coefficient = a - b, scale = k\<rparr>"
  have lt: "a < b \<longleftrightarrow> decimal_quantity l < decimal_quantity r"
    using align_less [OF al] by (simp add: decimal_quantity_def)
  have q: "exact_quantity ?v = decimal_quantity l - decimal_quantity r"
    using align_exact [OF al] by (simp add: exact_quantity_def decimal_quantity_def diff_divide_distrib)
  show ?thesis
  proof (cases "a < b")
    case True
    then show ?thesis
      using lt assms al by (simp add: subtractCanonicalDecimals_def require_operands_canonical)
  next
    case False
    then have "0 \<le> coefficient ?v" by simp
    with format_canonical [OF this] False lt q assms al show ?thesis
      by (simp add: subtractCanonicalDecimals_def require_operands_canonical)
  qed
qed

lemma compare_exact_text:
  assumes "canonical_text l" "canonical_text r"
  shows "compareCanonicalDecimals l r =
    Inr (if decimal_quantity l < decimal_quantity r then - 1
         else if decimal_quantity r < decimal_quantity l then 1 else 0)"
proof -
  obtain a b k where al: "align (parse l) (parse r) = (a, b, k)" by (metis prod_cases3)
  show ?thesis
    using assms al align_less [OF al] align_less' [OF al]
    by (simp add: compareCanonicalDecimals_def require_operands_canonical decimal_quantity_def)
qed

interpretation dec: exact_decimal canonical_text decimal_quantity "''0''"
  addCanonicalDecimals compareCanonicalDecimals
proof unfold_locales
  show "canonical_text ''0''" by (simp add: CANONICAL_DECIMAL_cases integer_part_def)
  show "decimal_quantity ''0'' = 0"
    by (simp add: decimal_quantity_def parse_def exact_quantity_def digits_value_def)
qed (simp_all add: decimal_quantity_nonneg canonical_quantity_inject add_exact_text [simplified]
      compare_exact_text [simplified])

section \<open>The canonicalizer\<close>

definition strip_zeros :: "string \<Rightarrow> string" where
  "strip_zeros f = rev (dropWhile (\<lambda>c. c = CHR ''0'') (rev f))"

lemma strip_zeros_snoc:
  "strip_zeros (f @ [c]) = (if c = CHR ''0'' then strip_zeros f else f @ [c])"
  by (simp add: strip_zeros_def)

lemma strip_zeros_split: "\<exists>n. f = strip_zeros f @ replicate n (CHR ''0'')"
proof (induction f rule: rev_induct)
  case Nil
  then show ?case by (simp add: strip_zeros_def)
next
  case (snoc c f)
  then obtain n where n: "f = strip_zeros f @ replicate n (CHR ''0'')" by blast
  show ?case
  proof (cases "c = CHR ''0''")
    case True
    then show ?thesis
      using n by (intro exI [of _ "Suc n"]) (simp add: strip_zeros_snoc flip: replicate_append_same)
  qed (auto simp add: strip_zeros_snoc intro: exI [of _ 0])
qed

lemma strip_zeros_last: "strip_zeros f \<noteq> [] \<Longrightarrow> last (strip_zeros f) \<noteq> CHR ''0''"
  unfolding strip_zeros_def
  using hd_dropWhile [of "\<lambda>c. c = CHR ''0''" "rev f"] by (auto simp add: last_rev)

lemma trim_zeros_end_spec:
  assumes "k \<le> length f"
  shows "trim_zeros_end (w @ CHR ''.'' # f) (length w) (length w + 1 + k) =
    length w + 1 + length (strip_zeros (take k f))"
  using assms
proof (induction k)
  case 0
  then show ?case by (simp add: trim_zeros_end.simps strip_zeros_def)
next
  case (Suc k)
  then have tk: "take (Suc k) f = take k f @ [f ! k]" by (simp add: take_Suc_conv_app_nth)
  have nth: "(w @ CHR ''.'' # f) ! (length w + 1 + k) = f ! k" by (simp add: nth_append)
  show ?case
    using Suc nth
    by (subst trim_zeros_end.simps) (auto simp add: tk strip_zeros_snoc)
qed

text \<open>The canonical spelling of a plain decimal, and that it keeps the quantity.\<close>

definition canonical_spelling :: "string \<Rightarrow> string" where
  "canonical_spelling v =
     (case from_point v of [] \<Rightarrow> v
      | _ # f \<Rightarrow> if strip_zeros f = [] then before_point v else before_point v @ CHR ''.'' # strip_zeros f)"

lemma canonicalize_eq:
  "canonicalizeDecimalText (JSString v) =
     (if v \<noteq> [] \<and> length v \<le> MONETARY_DECIMAL_MAXIMUM_TEXT_LENGTH \<and> PLAIN_DECIMAL v \<and>
         isCanonicalDecimal (JSString (canonical_spelling v)) (Some MONETARY_DECIMAL_MAXIMUM_DIGITS)
      then Some (canonical_spelling v) else None)"
proof (cases "PLAIN_DECIMAL v")
  case True
  then consider "integer_part v"
    | w f where "v = w @ CHR ''.'' # f" "integer_part w" "f \<noteq> []" "list_all is_digit f"
    using PLAIN_DECIMAL_cases by blast
  then show ?thesis
  proof cases
    case 1
    then have np: "CHR ''.'' \<notin> set v" by (rule integer_part_no_point)
    then have "canonical_spelling v = v" by (simp add: canonical_spelling_def split_no_point)
    with np True show ?thesis by (auto simp add: indexOf_none_iff [THEN iffD2])
  next
    case 2
    then have np: "CHR ''.'' \<notin> set w" by (simp add: integer_part_no_point)
    obtain n where n: "f = strip_zeros f @ replicate n (CHR ''0'')" using strip_zeros_split by blast
    then have tk: "take (length (strip_zeros f)) f = strip_zeros f" by (metis append_eq_conv_conj)
    have "trim_zeros_end v (length w) (length v) = length w + 1 + length (strip_zeros f)"
      using trim_zeros_end_spec [of "length f" f w] 2(1) by simp
    then show ?thesis
      using True 2(1) np tk
      by (auto simp add: indexOf_append canonical_spelling_def split_no_point Let_def)
  qed
qed simp

lemma plain_spelling:
  assumes "PLAIN_DECIMAL v"
  shows "CANONICAL_DECIMAL (canonical_spelling v)"
    and "decimal_quantity (canonical_spelling v) = decimal_quantity v"
proof -
  have "CANONICAL_DECIMAL (canonical_spelling v) \<and>
    decimal_quantity (canonical_spelling v) = decimal_quantity v"
  proof (cases "integer_part v")
    case True
    then show ?thesis
      by (simp add: CANONICAL_DECIMAL_cases canonical_spelling_def split_no_point integer_part_no_point)
  next
    case False
    then obtain w f where v: "v = w @ CHR ''.'' # f" "integer_part w" "f \<noteq> []" "list_all is_digit f"
      using assms PLAIN_DECIMAL_cases by blast
    then have np: "CHR ''.'' \<notin> set w" by (simp add: integer_part_no_point)
    obtain n where n: "f = strip_zeros f @ replicate n (CHR ''0'')" using strip_zeros_split by blast
    have dg: "list_all is_digit (strip_zeros f)" using n v(4) by (metis list_all_append)
    have vals: "digits_value (w @ f) = digits_value (w @ strip_zeros f) * 10 ^ n"
      using digits_value_append [of "w @ strip_zeros f" "replicate n (CHR ''0'')"] n
      by (simp add: digits_value_replicate_0)
    have lens: "length f = length (strip_zeros f) + n"
      using arg_cong [OF n, of length] by simp
    have q: "decimal_quantity v = rat_of_nat (digits_value (w @ strip_zeros f)) / 10 ^ length (strip_zeros f)"
      using v(1) np
      by (simp add: decimal_quantity_def exact_quantity_def parse_point vals lens power_add)
    show ?thesis
    proof (cases "strip_zeros f = []")
      case True
      then have "canonical_spelling v = w" using v(1) np by (simp add: canonical_spelling_def split_no_point)
      then show ?thesis using v(2) np q True
        by (simp add: CANONICAL_DECIMAL_cases decimal_quantity_def exact_quantity_def parse_no_point)
    next
      case False
      then have "canonical_spelling v = w @ CHR ''.'' # strip_zeros f"
        using v(1) np by (simp add: canonical_spelling_def split_no_point)
      then show ?thesis using v(2) np q False dg strip_zeros_last [OF False]
        by (auto simp add: CANONICAL_DECIMAL_cases decimal_quantity_def exact_quantity_def parse_point)
    qed
  qed
  then show "CANONICAL_DECIMAL (canonical_spelling v)"
    and "decimal_quantity (canonical_spelling v) = decimal_quantity v" by simp_all
qed

lemma canonicalize_sound:
  assumes "canonicalizeDecimalText (JSString v) = Some c"
  shows "canonical_text c" "decimal_quantity c = decimal_quantity v"
    "isCanonicalDecimal (JSString c) (Some MONETARY_DECIMAL_MAXIMUM_DIGITS)"
  using assms plain_spelling [of v]
  by (simp_all only: canonicalize_eq) (auto split: if_splits)

lemma canonical_spelling_length: "length (canonical_spelling v) \<le> length v"
proof (cases "from_point v")
  case Nil
  then show ?thesis by (simp add: canonical_spelling_def)
next
  case (Cons c f)
  obtain n where "f = strip_zeros f @ replicate n (CHR ''0'')" using strip_zeros_split by blast
  then have "length (strip_zeros f) \<le> length f" by (metis le_add1 length_append)
  moreover have "length v = length (before_point v) + Suc (length f)"
    using arg_cong [OF point_split [of v], of length] Cons by simp
  ultimately show ?thesis using Cons by (simp add: canonical_spelling_def)
qed

lemma canonicalize_complete:
  assumes "PLAIN_DECIMAL v" "length v \<le> MONETARY_DECIMAL_MAXIMUM_DIGITS"
  shows "canonicalizeDecimalText (JSString v) = Some (canonical_spelling v)"
proof -
  have "digitCount (canonical_spelling v) \<le> MONETARY_DECIMAL_MAXIMUM_DIGITS"
    using canonical_spelling_length [of v] assms(2) by (auto simp add: digitCount_def length_remove1)
  moreover have "v \<noteq> []"
    using assms(1) integer_part_not_Nil by (auto simp add: PLAIN_DECIMAL_cases)
  moreover have "length v \<le> MONETARY_DECIMAL_MAXIMUM_TEXT_LENGTH"
    using assms(2) by (simp add: MONETARY_DECIMAL_MAXIMUM_DIGITS_def MONETARY_DECIMAL_MAXIMUM_TEXT_LENGTH_def)
  ultimately show ?thesis
    using assms(1) plain_spelling(1) [OF assms(1)] by (simp only: canonicalize_eq) simp
qed

lemma isCanonicalDecimal_length:
  assumes "isCanonicalDecimal (JSString c) (Some m)"
  shows "length c \<le> m + 1" "c \<noteq> []"
proof -
  have "length c \<le> digitCount c + 1"
    by (cases c) (auto simp add: digitCount_def length_remove1)
  then show "length c \<le> m + 1" using assms by simp
  show "c \<noteq> []"
    using assms integer_part_not_Nil by (auto simp add: CANONICAL_DECIMAL_cases)
qed

lemma canonical_spelling_id:
  assumes "CANONICAL_DECIMAL c"
  shows "canonical_spelling c = c"
  using assms plain_spelling [OF canonical_is_plain [OF assms]] canonical_quantity_inject by blast

lemma canonicalize_canonical:
  assumes "isCanonicalDecimal (JSString c) (Some MONETARY_DECIMAL_MAXIMUM_DIGITS)"
  shows "canonicalizeDecimalText (JSString c) = Some c"
proof -
  have c: "CANONICAL_DECIMAL c" using assms by simp
  have "length c \<le> MONETARY_DECIMAL_MAXIMUM_TEXT_LENGTH"
    using isCanonicalDecimal_length [OF assms]
    by (simp add: MONETARY_DECIMAL_MAXIMUM_DIGITS_def MONETARY_DECIMAL_MAXIMUM_TEXT_LENGTH_def)
  then show ?thesis
    using assms isCanonicalDecimal_length(2) [OF assms] canonical_is_plain [OF c] canonical_spelling_id [OF c]
    by (simp only: canonicalize_eq) simp
qed

section \<open>JSON number lexemes\<close>

text \<open>The quantity a lexeme names: its digits shifted by its exponent.\<close>

definition lexeme_magnitude :: "json_number_match \<Rightarrow> rat" where
  "lexeme_magnitude m =
     (let fraction = (case match_fraction m of None \<Rightarrow> [] | Some f \<Rightarrow> f)
      in rat_of_nat (digits_value (match_integer m @ fraction)) *
         power_int 10 (lexeme_exponent m - int (length fraction)))"

lemma trim_leading_zeros_value: "digits_value (trim_leading_zeros w) = digits_value w"
  by (induction w rule: trim_leading_zeros.induct) (auto simp add: digits_value_Cons)

lemma trim_leading_zeros_subset: "set (trim_leading_zeros w) \<subseteq> set w"
  by (induction w rule: trim_leading_zeros.induct) auto

lemma decimal_quantity_point:
  assumes "CHR ''.'' \<notin> set w"
  shows "decimal_quantity (trim_leading_zeros w @ CHR ''.'' # f) =
    rat_of_nat (digits_value (w @ f)) / 10 ^ length f"
proof -
  have "CHR ''.'' \<notin> set (trim_leading_zeros w)" using assms trim_leading_zeros_subset by blast
  then show ?thesis
    by (simp add: decimal_quantity_def exact_quantity_def parse_point digits_value_append
        trim_leading_zeros_value)
qed

lemma decimal_quantity_no_point:
  assumes "CHR ''.'' \<notin> set w"
  shows "decimal_quantity (trim_leading_zeros w) = rat_of_nat (digits_value w)"
proof -
  have "CHR ''.'' \<notin> set (trim_leading_zeros w)" using assms trim_leading_zeros_subset by blast
  then show ?thesis
    by (simp add: decimal_quantity_def exact_quantity_def parse_no_point trim_leading_zeros_value)
qed

lemma lexeme_plain_quantity:
  assumes "list_all is_digit ds"
  shows "decimal_quantity (trim_leading_zeros (before_point (lexeme_plain ds p)) @ from_point (lexeme_plain ds p)) =
    rat_of_nat (digits_value ds) * power_int 10 (p - int (length ds))"
proof -
  note np = digits_no_point [OF assms]
  consider (low) "p \<le> 0" | (high) "0 < p" "int (length ds) \<le> p" | (mid) "0 < p" "p < int (length ds)"
    by linarith
  then show ?thesis
  proof cases
    case low
    define z where "z = replicate (nat (- p)) (CHR ''0'')"
    have plain: "lexeme_plain ds p = ''0'' @ CHR ''.'' # (z @ ds)" using low by (simp add: lexeme_plain_def z_def)
    have e: "p - int (length ds) = - int (length (z @ ds))" using low by (simp add: z_def)
    have "digits_value (''0'' @ z @ ds) = digits_value ds"
      by (simp add: digits_value_append digits_value_Cons z_def digits_value_replicate_0)
    then have "decimal_quantity (trim_leading_zeros ''0'' @ CHR ''.'' # (z @ ds)) =
      rat_of_nat (digits_value ds) / 10 ^ length (z @ ds)"
      using decimal_quantity_point [of "''0''" "z @ ds"] by simp
    moreover have "before_point (lexeme_plain ds p) = ''0''" "from_point (lexeme_plain ds p) = CHR ''.'' # (z @ ds)"
      unfolding plain by (rule split_no_point; simp)+
    ultimately show ?thesis unfolding e power_int_minus power_int_of_nat
      by (simp only: divide_inverse)
  next
    case high
    define z where "z = replicate (nat (p - int (length ds))) (CHR ''0'')"
    have plain: "lexeme_plain ds p = ds @ z" using high by (simp add: lexeme_plain_def z_def)
    have np': "CHR ''.'' \<notin> set (ds @ z)" using np by (simp add: z_def)
    have e: "p - int (length ds) = int (length z)" using high by (simp add: z_def)
    have "digits_value (ds @ z) = digits_value ds * 10 ^ length z"
      by (simp add: digits_value_append z_def digits_value_replicate_0)
    then show ?thesis
      using decimal_quantity_no_point [OF np'] split_no_point(1,2) [OF np']
      by (simp add: plain e)
  next
    case mid
    define w f where "w = take (nat p) ds" and "f = drop (nat p) ds"
    have plain: "lexeme_plain ds p = w @ CHR ''.'' # f" using mid by (simp add: lexeme_plain_def w_def f_def)
    have np': "CHR ''.'' \<notin> set w" using np by (auto simp add: w_def dest: in_set_takeD)
    have e: "p - int (length ds) = - int (length f)" using mid by (simp add: f_def)
    have "w @ f = ds" by (simp add: w_def f_def)
    then show ?thesis
      using decimal_quantity_point [OF np', of f] split_no_point(3,4) [OF np', of f]
      by (simp add: plain e power_int_minus divide_inverse)
  qed
qed

lemma JSON_NUMBER_LEXEME_digits:
  assumes "JSON_NUMBER_LEXEME s = Some m"
  shows "list_all is_digit (match_integer m @ (case match_fraction m of None \<Rightarrow> [] | Some f \<Rightarrow> f))"
proof -
  have tw: "list_all is_digit (takeWhile is_digit xs)" for xs
    by (simp add: list_all_iff) (meson set_takeWhileD)
  have fr: "list_all is_digit f" if "match_fraction_part xs = Some (Some f, r)" for xs f r
    using that tw by (cases xs) (auto simp add: Let_def split: if_splits)
  from assms show ?thesis
    using tw fr by (auto simp add: JSON_NUMBER_LEXEME_def Let_def split: if_splits option.splits)
qed

lemma lexeme_sound:
  assumes "canonicalDecimalFromJsonNumberLexeme (JSString s) = Some c"
  shows "\<exists>m. JSON_NUMBER_LEXEME s = Some m \<and> canonical_text c \<and>
    decimal_quantity c = lexeme_magnitude m \<and> (match_negative m \<longrightarrow> lexeme_magnitude m = 0)"
proof -
  obtain m where m: "JSON_NUMBER_LEXEME s = Some m"
    using assms by (auto split: if_splits option.splits)
  define f where "f = (case match_fraction m of None \<Rightarrow> [] | Some f \<Rightarrow> f)"
  define p where "p = int (length (match_integer m)) + lexeme_exponent m"
  define plain where "plain = lexeme_plain (match_integer m @ f) p"
  have c: "canonicalizeDecimalText (JSString (trim_leading_zeros (before_point plain) @ from_point plain)) = Some c"
    and neg: "match_negative m \<longrightarrow> c = ''0''"
    using assms m
    by (auto simp add: f_def p_def plain_def Let_def simp del: canonicalizeDecimalText.simps
        split: if_splits option.splits)
  have "decimal_quantity c = rat_of_nat (digits_value (match_integer m @ f)) *
    power_int 10 (p - int (length (match_integer m @ f)))"
    using canonicalize_sound(2) [OF c] lexeme_plain_quantity [OF JSON_NUMBER_LEXEME_digits [OF m]]
    by (simp add: plain_def f_def)
  then have "decimal_quantity c = lexeme_magnitude m"
    by (simp add: lexeme_magnitude_def p_def f_def Let_def)
  with m neg canonicalize_sound(1) [OF c] dec.zero_quantity show ?thesis by auto
qed

section \<open>Properties\<close>

text \<open>
  C33: the canonical texts are exactly the spellings of the quantities: two canonical decimals
  with the same quantity are the same string, reading a canonical decimal into coefficient and
  scale and formatting it gives the string back, and what formatting prints of a non-negative
  coefficient is canonical and has the quantity it was given.
\<close>

theorem canonical_decimal_bijective:
  "(canonical_text a \<and> canonical_text b \<longrightarrow> (decimal_quantity a = decimal_quantity b \<longleftrightarrow> a = b)) \<and>
   (canonical_text a \<longrightarrow> format (parse a) = a) \<and>
   (0 \<le> coefficient v \<longrightarrow>
      canonical_text (format v) \<and> decimal_quantity (format v) = exact_quantity v)"
  using canonical_quantity_inject format_parse_canonical format_canonical by auto

theorem canonical_decimal_bijective_witness:
  "canonical_text ''12.05'' \<and> format (parse ''12.05'') = ''12.05'' \<and>
   canonical_text (format \<lparr>coefficient = 1200, scale = 3\<rparr>) \<and>
   decimal_quantity (format \<lparr>coefficient = 1200, scale = 3\<rparr>) = 6 / 5"
proof -
  have c: "canonical_text ''12.05''"
    by (simp add: CANONICAL_DECIMAL_def before_point_def from_point_def integer_part_def is_digit_def
        code_unit_def)
  then show ?thesis
    using canonical_decimal_bijective [of "''12.05''" "''12.05''" "\<lparr>coefficient = 1200, scale = 3\<rparr>"]
    by (simp add: exact_quantity_def del: canonical_text_iff)
qed

text \<open>
  addition, subtraction and comparison of canonical decimals are exact: a sum is canonical
  and has the sum of the quantities, a difference is refused when it would be negative and is
  exact otherwise, and a comparison is the sign of the difference.  An operand that is not
  canonical is refused.
\<close>

theorem decimal_arithmetic_exact:
  "if canonical_text l \<and> canonical_text r then
     (\<exists>z. addCanonicalDecimals l r = Inr z \<and> canonical_text z \<and>
        decimal_quantity z = decimal_quantity l + decimal_quantity r) \<and>
     (if decimal_quantity l < decimal_quantity r
      then subtractCanonicalDecimals l r =
        Inl (RangeError ''The difference of two canonical decimals would be negative.'')
      else \<exists>z. subtractCanonicalDecimals l r = Inr z \<and> canonical_text z \<and>
        decimal_quantity z = decimal_quantity l - decimal_quantity r) \<and>
     compareCanonicalDecimals l r =
       Inr (if decimal_quantity l < decimal_quantity r then - 1
            else if decimal_quantity r < decimal_quantity l then 1 else 0)
   else
     (\<exists>e. addCanonicalDecimals l r = Inl e \<and> subtractCanonicalDecimals l r = Inl e \<and>
        compareCanonicalDecimals l r = Inl e)"
proof (cases "canonical_text l \<and> canonical_text r")
  case True
  then show ?thesis
    using add_exact_text subtract_exact_text compare_exact_text by (simp del: canonical_text_iff)
next
  case False
  then have "\<exists>e. require_operands l r = Some e"
    by (auto simp add: require_operands_def requireCanonical_def)
  with False show ?thesis
    by (auto simp add: addCanonicalDecimals_def subtractCanonicalDecimals_def compareCanonicalDecimals_def)
qed

text \<open>
  the canonicalizer answers only for plain decimal text of at most 256 code units, keeps the
  quantity, answers a canonical decimal of at most 128 digits, and gives back every canonical
  decimal unchanged (so it is idempotent).
\<close>

theorem canonicalize_exact:
  "(canonicalizeDecimalText (JSString v) = Some c \<longrightarrow>
      PLAIN_DECIMAL v \<and> length v \<le> 256 \<and>
      isCanonicalDecimal (JSString c) (Some 128) \<and> decimal_quantity c = decimal_quantity v \<and>
      canonicalizeDecimalText (JSString c) = Some c) \<and>
   (PLAIN_DECIMAL v \<and> length v \<le> 128 \<longrightarrow> canonicalizeDecimalText (JSString v) \<noteq> None) \<and>
   (isCanonicalDecimal (JSString v) (Some 128) \<longrightarrow> canonicalizeDecimalText (JSString v) = Some v)"
proof (intro conjI impI)
  assume c: "canonicalizeDecimalText (JSString v) = Some c"
  show "PLAIN_DECIMAL v" "length v \<le> 256"
    using c by (simp_all only: canonicalize_eq)
      (auto simp add: MONETARY_DECIMAL_MAXIMUM_TEXT_LENGTH_def split: if_splits)
  show "isCanonicalDecimal (JSString c) (Some 128)" "decimal_quantity c = decimal_quantity v"
    using canonicalize_sound [OF c] by (simp_all add: MONETARY_DECIMAL_MAXIMUM_DIGITS_def)
  show "canonicalizeDecimalText (JSString c) = Some c"
    using canonicalize_canonical [OF canonicalize_sound(3) [OF c]] .
next
  assume "PLAIN_DECIMAL v \<and> length v \<le> 128"
  then show "canonicalizeDecimalText (JSString v) \<noteq> None"
    using canonicalize_complete [of v] by (simp add: MONETARY_DECIMAL_MAXIMUM_DIGITS_def)
next
  assume "isCanonicalDecimal (JSString v) (Some 128)"
  then show "canonicalizeDecimalText (JSString v) = Some v"
    using canonicalize_canonical [of v] by (simp only: MONETARY_DECIMAL_MAXIMUM_DIGITS_def)
qed

theorem canonicalize_exact_witness:
  "PLAIN_DECIMAL ''10.50'' \<and> isCanonicalDecimal (JSString ''10.5'') (Some 128) \<and>
   decimal_quantity ''10.5'' = decimal_quantity ''10.50'' \<and>
   canonicalizeDecimalText (JSString ''10.5'') = Some ''10.5''"
proof -
  have "canonicalizeDecimalText (JSString ''10.50'') = Some ''10.5''" by code_simp
  then show ?thesis using canonicalize_exact [of "''10.50''" "''10.5''"] by blast
qed

text \<open>
  a JSON number lexeme that yields a canonical decimal yields exactly the quantity it
  spells, exponent applied; a negative lexeme yields one only when it spells zero.
\<close>

theorem json_lexeme_exact:
  assumes "canonicalDecimalFromJsonNumberLexeme (JSString s) = Some c"
  shows "\<exists>m. JSON_NUMBER_LEXEME s = Some m \<and> canonical_text c \<and>
    decimal_quantity c = lexeme_magnitude m \<and> (match_negative m \<longrightarrow> lexeme_magnitude m = 0)"
  using lexeme_sound [OF assms] .

theorem json_lexeme_exact_witness:
  "\<exists>m. JSON_NUMBER_LEXEME ''1.5e3'' = Some m \<and> canonical_text ''1500'' \<and>
    decimal_quantity ''1500'' = lexeme_magnitude m \<and> (match_negative m \<longrightarrow> lexeme_magnitude m = 0)"
proof -
  have "canonicalDecimalFromJsonNumberLexeme (JSString ''1.5e3'') = Some ''1500''"
    by code_simp
  from json_lexeme_exact [OF this] show ?thesis .
qed

end
