(* ===== verification/Monetary.thy ===== *)
theory Monetary
  imports Canonical_Decimal
begin

text \<open>
  Assets, amounts and the financial classification of actions:
  \<open>monetary-runtime/domain/monetary-asset.ts\<close>, \<open>monetary-amount.ts\<close> and
  \<open>financial-action.ts\<close>.  The theory gives the construction of the trusted asset registry
  from untrusted configuration, the single ingress of amounts, and the comparison of amounts.
  Texts of error messages are kept without their inner quotation marks.
  The locale \<open>trusted_registry\<close> is what every registry built from host configuration promises
  its readers; it is interpreted here on the asset registry.
\<close>

section \<open>The interface: registries built from host configuration\<close>

locale trusted_registry =
  fixes build :: "'raw \<Rightarrow> 'e + 'reg"
    and get :: "'reg \<Rightarrow> string \<Rightarrow> 'd option"
    and ids :: "'reg \<Rightarrow> string list"
    and ident :: "'d \<Rightarrow> string"
    and valid :: "'d \<Rightarrow> bool"
  assumes build_ids: "build raw = Inr reg \<Longrightarrow>
      sorted (ids reg) \<and> distinct (ids reg) \<and> set (ids reg) = {i. get reg i \<noteq> None}"
    and get_ident: "build raw = Inr reg \<Longrightarrow> get reg i = Some d \<Longrightarrow> ident d = i \<and> valid d"
begin

lemma listed_iff: "build raw = Inr reg \<Longrightarrow> i \<in> set (ids reg) \<longleftrightarrow> (\<exists>d. get reg i = Some d)"
  using build_ids by auto

lemma one_identifier:
  "build raw = Inr reg \<Longrightarrow> get reg i = Some d \<Longrightarrow> get reg j = Some d \<Longrightarrow> i = j"
  using get_ident by metis

lemma listing_determined:
  assumes "build raw = Inr reg" "build raw' = Inr reg'" "get reg = get reg'"
  shows "ids reg = ids reg'"
  using build_ids [OF assms(1)] build_ids [OF assms(2)] assms(3)
  by (simp add: sorted_distinct_set_unique)

end

section \<open>Assets\<close>

definition asset_id_char :: "char \<Rightarrow> bool" where
  "asset_id_char c \<longleftrightarrow> is_alnum c \<or> c \<in> set ''._:/-''"

definition MONETARY_ASSET_ID_PATTERN :: "string \<Rightarrow> bool" where
  "MONETARY_ASSET_ID_PATTERN s \<longleftrightarrow>
     s \<noteq> [] \<and> length s \<le> 128 \<and> is_alnum (hd s) \<and> list_all asset_id_char (tl s)"

definition MONETARY_ASSET_MAXIMUM_SCALE :: int where
  "MONETARY_ASSET_MAXIMUM_SCALE = 36"

definition MONETARY_ASSET_REGISTRY_MAXIMUM_ASSETS :: nat where
  "MONETARY_ASSET_REGISTRY_MAXIMUM_ASSETS = 256"

record monetary_asset_definition =
  assetId :: string
  asset_scale :: nat

record monetary_asset_registry =
  asset_byId :: "(string \<times> monetary_asset_definition) list"
  assetIds :: "string list"

datatype monetary_configuration_error = MonetaryConfigurationError string

fun isCanonicalMonetaryAssetId :: "js_value \<Rightarrow> bool" where
  "isCanonicalMonetaryAssetId (JSString s) = MONETARY_ASSET_ID_PATTERN s"
| "isCanonicalMonetaryAssetId _ = False"

fun isPlainRecord :: "js_value \<Rightarrow> bool" where
  "isPlainRecord (JSObject plain ps) = plain"
| "isPlainRecord _ = False"

fun ownKeys :: "js_value \<Rightarrow> string list" where
  "ownKeys (JSObject plain ps) = map fst ps"
| "ownKeys _ = []"

fun ownData :: "js_value \<Rightarrow> string \<Rightarrow> monetary_configuration_error + js_value" where
  "ownData (JSObject plain ps) key =
     (case map_of ps key of
        None \<Rightarrow> Inr JSUndefined
      | Some (DataProp v) \<Rightarrow> Inr v
      | Some (AccessorProp v) \<Rightarrow>
          Inl (MonetaryConfigurationError (''Asset definition '' @ key @ '' is an accessor, not a value.'')))"
| "ownData _ key = Inr JSUndefined"

text \<open>
  The scale of a definition as a natural number: the guard is the code's, and a negative zero
  passes it and compares as zero.
\<close>

fun asset_scale_of :: "js_value \<Rightarrow> nat option" where
  "asset_scale_of (JSNumber n) =
     (if isSafeInteger n then
        (case n of NumInt i \<Rightarrow> if i < 0 \<or> i > MONETARY_ASSET_MAXIMUM_SCALE then None else Some (nat i)
         | _ \<Rightarrow> Some 0)
      else None)"
| "asset_scale_of _ = None"

definition definition_error :: "nat \<Rightarrow> string \<Rightarrow> monetary_configuration_error" where
  "definition_error index what =
     MonetaryConfigurationError (''Asset definition #'' @ nat_toString index @ what)"

definition snapshotDefinition ::
  "js_value \<Rightarrow> nat \<Rightarrow> monetary_configuration_error + monetary_asset_definition" where
  "snapshotDefinition raw index =
     (if \<not> isPlainRecord raw then Inl (definition_error index '' must be a plain object.'')
      else let keys = ownKeys raw
      in if length keys \<noteq> 2 \<or> \<not> list_all (\<lambda>key. key = ''assetId'' \<or> key = ''scale'') keys
         then Inl (definition_error index '' must state exactly assetId and scale.'')
         else case ownData raw ''assetId'' of Inl e \<Rightarrow> Inl e
         | Inr assetIdValue \<Rightarrow>
           (case ownData raw ''scale'' of Inl e \<Rightarrow> Inl e
            | Inr scaleValue \<Rightarrow>
              (case assetIdValue of
                 JSString assetIdText \<Rightarrow>
                   if \<not> isCanonicalMonetaryAssetId assetIdValue
                   then Inl (definition_error index '' has a malformed assetId.'')
                   else (case asset_scale_of scaleValue of
                      None \<Rightarrow> Inl (MonetaryConfigurationError
                        (''Asset '' @ assetIdText @ '' must declare an integer scale between 0 and 36.''))
                    | Some k \<Rightarrow> Inr \<lparr>assetId = assetIdText, asset_scale = k\<rparr>)
               | _ \<Rightarrow> Inl (definition_error index '' has a malformed assetId.''))))"

fun collect_definitions ::
  "js_value list \<Rightarrow> nat \<Rightarrow> (string \<times> monetary_asset_definition) list
     \<Rightarrow> monetary_configuration_error + (string \<times> monetary_asset_definition) list" where
  "collect_definitions [] index byId = Inr byId"
| "collect_definitions (raw # raws) index byId =
     (case snapshotDefinition raw index of Inl e \<Rightarrow> Inl e
      | Inr d \<Rightarrow>
          if map_of byId (assetId d) \<noteq> None
          then Inl (MonetaryConfigurationError (''Asset '' @ assetId d @ '' is defined more than once.''))
          else collect_definitions raws (index + 1) (AList.update (assetId d) d byId))"

fun createMonetaryAssetRegistry ::
  "js_value \<Rightarrow> monetary_configuration_error + monetary_asset_registry" where
  "createMonetaryAssetRegistry (JSArray definitions) =
     (if length definitions > MONETARY_ASSET_REGISTRY_MAXIMUM_ASSETS
      then Inl (MonetaryConfigurationError ''At most 256 assets may be defined.'')
      else case collect_definitions definitions 0 [] of Inl e \<Rightarrow> Inl e
      | Inr byId \<Rightarrow> Inr \<lparr>asset_byId = byId, assetIds = sort (map fst byId)\<rparr>)"
| "createMonetaryAssetRegistry _ = Inl (MonetaryConfigurationError ''Asset definitions must be an array.'')"

fun resolveAsset :: "monetary_asset_registry \<Rightarrow> js_value \<Rightarrow> monetary_asset_definition option" where
  "resolveAsset reg (JSString s) = map_of (asset_byId reg) s"
| "resolveAsset reg _ = None"

section \<open>Financial actions\<close>

datatype governed_action_class = Financial | NonFinancial

record financial_action_classifier =
  financial :: "string list"
  financialActions :: "string list"

fun isActionIdentifier :: "js_value \<Rightarrow> bool" where
  "isActionIdentifier (JSString s) =
     (s \<noteq> [] \<and> length s \<le> 256 \<and> s = js_trim s \<and> \<not> list_ex is_control s)"
| "isActionIdentifier _ = False"

fun collect_actions :: "js_value list \<Rightarrow> string list \<Rightarrow> monetary_configuration_error + string list" where
  "collect_actions [] acc = Inr acc"
| "collect_actions (a # as) acc =
     (case a of
        JSString s \<Rightarrow>
          if isActionIdentifier a then collect_actions as (js_set_add acc s)
          else Inl (MonetaryConfigurationError ''financialActions must contain only canonical action identifiers.'')
      | _ \<Rightarrow> Inl (MonetaryConfigurationError ''financialActions must contain only canonical action identifiers.''))"

definition createFinancialActionClassifier ::
  "js_value \<Rightarrow> monetary_configuration_error + financial_action_classifier" where
  "createFinancialActionClassifier configuration =
     (case js_get configuration ''financialActions'' of
        JSArray listed \<Rightarrow>
          (case collect_actions listed [] of Inl e \<Rightarrow> Inl e
           | Inr fs \<Rightarrow> Inr \<lparr>financial = fs, financialActions = sort fs\<rparr>)
      | _ \<Rightarrow> Inl (MonetaryConfigurationError ''financialActions must be an array of action identifiers.''))"

fun classify :: "financial_action_classifier \<Rightarrow> js_value \<Rightarrow> governed_action_class" where
  "classify c (JSString action) = (if action \<in> set (financial c) then Financial else NonFinancial)"
| "classify c _ = NonFinancial"

section \<open>Amounts\<close>

record monetary_amount =
  amount_value :: string
  amount_unit :: string

datatype monetary_amount_violation =
    MONETARY_VALUE_NOT_TEXT
  | MONETARY_VALUE_MALFORMED
  | MONETARY_UNIT_UNKNOWN
  | MONETARY_SCALE_EXCEEDED

datatype amount_order = Ordered int | Incomparable

text \<open>A parse throws only where \<open>canonicalDecimalScale\<close> does.\<close>

definition parseMonetaryAmount ::
  "js_value \<Rightarrow> js_value \<Rightarrow> monetary_asset_registry
     \<Rightarrow> js_error + (monetary_amount_violation + monetary_amount)" where
  "parseMonetaryAmount inputValue inputUnit assets =
     (case inputValue of
        JSString _ \<Rightarrow>
          (case canonicalizeDecimalText inputValue of
             None \<Rightarrow> Inr (Inl MONETARY_VALUE_MALFORMED)
           | Some v \<Rightarrow>
             (case resolveAsset assets inputUnit of
                None \<Rightarrow> Inr (Inl MONETARY_UNIT_UNKNOWN)
              | Some asset \<Rightarrow>
                (case canonicalDecimalScale v of Inl e \<Rightarrow> Inl e
                 | Inr k \<Rightarrow>
                     if k > asset_scale asset then Inr (Inl MONETARY_SCALE_EXCEEDED)
                     else Inr (Inr \<lparr>amount_value = v, amount_unit = assetId asset\<rparr>))))
      | _ \<Rightarrow> Inr (Inl MONETARY_VALUE_NOT_TEXT))"

definition isWellFormedMonetaryAmount :: "js_value \<Rightarrow> bool" where
  "isWellFormedMonetaryAmount v \<longleftrightarrow>
     js_is_object v \<and>
     isCanonicalDecimal (js_get v ''value'') (Some MONETARY_DECIMAL_MAXIMUM_DIGITS) \<and>
     isCanonicalMonetaryAssetId (js_get v ''unit'')"

text \<open>A typed amount as the value the structural checks read.\<close>

definition amount_js :: "monetary_amount \<Rightarrow> js_value" where
  "amount_js a = JSObject True
     [(''value'', DataProp (JSString (amount_value a))), (''unit'', DataProp (JSString (amount_unit a)))]"

definition isPositiveMonetaryAmount :: "monetary_amount \<Rightarrow> bool" where
  "isPositiveMonetaryAmount a \<longleftrightarrow> isWellFormedMonetaryAmount (amount_js a) \<and> amount_value a \<noteq> ''0''"

text \<open>
  The last alternative of the comparison is not reached: both values are canonical there
  (\<open>compareMonetaryAmounts_cases\<close>).
\<close>

definition compareMonetaryAmounts :: "monetary_amount \<Rightarrow> monetary_amount \<Rightarrow> amount_order" where
  "compareMonetaryAmounts l r =
     (if \<not> isWellFormedMonetaryAmount (amount_js l) \<or> \<not> isWellFormedMonetaryAmount (amount_js r)
      then Incomparable
      else if amount_unit l \<noteq> amount_unit r then Incomparable
      else case compareCanonicalDecimals (amount_value l) (amount_value r) of
             Inr k \<Rightarrow> Ordered k
           | Inl _ \<Rightarrow> Incomparable)"

section \<open>The asset registry\<close>

definition valid_definition :: "monetary_asset_definition \<Rightarrow> bool" where
  "valid_definition d \<longleftrightarrow>
     MONETARY_ASSET_ID_PATTERN (assetId d) \<and> int (asset_scale d) \<le> MONETARY_ASSET_MAXIMUM_SCALE"

definition byId_ok :: "(string \<times> monetary_asset_definition) list \<Rightarrow> bool" where
  "byId_ok al \<longleftrightarrow> distinct (map fst al) \<and> (\<forall>(k, d) \<in> set al. assetId d = k \<and> valid_definition d)"

lemma asset_scale_of_bound:
  "asset_scale_of v = Some k \<Longrightarrow> int k \<le> MONETARY_ASSET_MAXIMUM_SCALE"
  by (cases v)
    (auto simp add: MONETARY_ASSET_MAXIMUM_SCALE_def split: if_splits js_number.splits)

lemma snapshotDefinition_valid:
  "snapshotDefinition raw i = Inr d \<Longrightarrow> valid_definition d"
  by (auto simp add: snapshotDefinition_def valid_definition_def Let_def dest: asset_scale_of_bound
      split: if_splits sum.splits js_value.splits option.splits)

lemma byId_ok_update:
  assumes "byId_ok al" "valid_definition d" "map_of al (assetId d) = None"
  shows "byId_ok (AList.update (assetId d) d al)"
proof -
  have "assetId d \<notin> fst ` set al" using assms(3) by (simp add: map_of_eq_None_iff)
  then have "AList.update (assetId d) d al = al @ [(assetId d, d)]"
    by (simp add: update_new_key)
  with assms show ?thesis by (auto simp add: byId_ok_def map_of_eq_None_iff)
qed

lemma collect_definitions_ok:
  "collect_definitions raws i al = Inr al' \<Longrightarrow> byId_ok al \<Longrightarrow> byId_ok al'"
  by (induction raws arbitrary: i al)
    (auto simp add: byId_ok_update dest: snapshotDefinition_valid split: sum.splits if_splits)

lemma createMonetaryAssetRegistry_ok:
  assumes "createMonetaryAssetRegistry raw = Inr reg"
  shows "byId_ok (asset_byId reg)" "assetIds reg = sort (map fst (asset_byId reg))"
proof -
  obtain ds al where "collect_definitions ds 0 [] = Inr al" "asset_byId reg = al"
    "assetIds reg = sort (map fst al)"
    using assms by (cases raw) (auto split: if_splits sum.splits)
  then show "byId_ok (asset_byId reg)" "assetIds reg = sort (map fst (asset_byId reg))"
    using collect_definitions_ok by (auto simp add: byId_ok_def)
qed

interpretation assets: trusted_registry createMonetaryAssetRegistry
  "\<lambda>reg i. resolveAsset reg (JSString i)" assetIds assetId valid_definition
proof unfold_locales
  fix raw reg i d
  assume b: "createMonetaryAssetRegistry raw = Inr reg"
  note ok = createMonetaryAssetRegistry_ok [OF b]
  have "set (map fst (asset_byId reg)) = {i. map_of (asset_byId reg) i \<noteq> None}"
    by (auto simp add: map_of_eq_None_iff image_iff)
  then show "sorted (assetIds reg) \<and> distinct (assetIds reg) \<and>
      set (assetIds reg) = {i. resolveAsset reg (JSString i) \<noteq> None}"
    using ok by (simp add: byId_ok_def)
  assume "resolveAsset reg (JSString i) = Some d"
  then show "assetId d = i \<and> valid_definition d"
    using ok by (auto simp add: byId_ok_def dest: map_of_SomeD)
qed

section \<open>Amounts\<close>

lemma wf_amount_iff [simp]:
  "isWellFormedMonetaryAmount (amount_js a) \<longleftrightarrow>
     isCanonicalDecimal (JSString (amount_value a)) (Some MONETARY_DECIMAL_MAXIMUM_DIGITS) \<and>
     MONETARY_ASSET_ID_PATTERN (amount_unit a)"
  by (simp add: isWellFormedMonetaryAmount_def amount_js_def)

lemma canonicalDecimalScale_canonical:
  "CANONICAL_DECIMAL v \<Longrightarrow> canonicalDecimalScale v = Inr (scale (parse v))"
  by (simp add: canonicalDecimalScale_def requireCanonical_def parse_def split: option.splits)

lemma parseMonetaryAmount_text:
  "parseMonetaryAmount (JSString t) u reg =
     (case canonicalizeDecimalText (JSString t) of
        None \<Rightarrow> Inr (Inl MONETARY_VALUE_MALFORMED)
      | Some v \<Rightarrow>
        (case resolveAsset reg u of
           None \<Rightarrow> Inr (Inl MONETARY_UNIT_UNKNOWN)
         | Some asset \<Rightarrow>
             if scale (parse v) > asset_scale asset then Inr (Inl MONETARY_SCALE_EXCEEDED)
             else Inr (Inr \<lparr>amount_value = v, amount_unit = assetId asset\<rparr>)))"
proof (cases "canonicalizeDecimalText (JSString t)")
  case None
  then show ?thesis by (simp add: parseMonetaryAmount_def)
next
  case (Some v)
  then have "canonicalDecimalScale v = Inr (scale (parse v))"
    using canonicalize_sound(1) canonicalDecimalScale_canonical by simp
  with Some show ?thesis
    by (auto simp add: parseMonetaryAmount_def simp del: canonicalizeDecimalText.simps
        split: option.splits)
qed

lemma compareMonetaryAmounts_cases:
  "compareMonetaryAmounts l r =
     (if isWellFormedMonetaryAmount (amount_js l) \<and> isWellFormedMonetaryAmount (amount_js r) \<and>
         amount_unit l = amount_unit r
      then Ordered (if decimal_quantity (amount_value l) < decimal_quantity (amount_value r) then - 1
                    else if decimal_quantity (amount_value r) < decimal_quantity (amount_value l) then 1
                    else 0)
      else Incomparable)"
  using compare_exact_text [of "amount_value l" "amount_value r"]
  by (auto simp add: compareMonetaryAmounts_def)

section \<open>Financial actions\<close>

lemma collect_actions_ok:
  assumes "list_all isActionIdentifier listed" "distinct acc"
  shows "\<exists>fs. collect_actions listed acc = Inr fs \<and> distinct fs \<and>
    JSString ` set fs = JSString ` set acc \<union> set listed"
  using assms
proof (induction listed arbitrary: acc)
  case Nil
  then show ?case by simp
next
  case (Cons v vs)
  then obtain s where s: "v = JSString s" by (cases v) auto
  have "distinct (js_set_add acc s)" "set (js_set_add acc s) = insert s (set acc)"
    using Cons.prems by (auto simp add: js_set_add_def)
  with Cons.IH [of "js_set_add acc s"] Cons.prems s show ?case
    by (auto simp del: isActionIdentifier.simps)
qed

lemma collect_actions_only:
  "collect_actions listed acc = Inr fs \<Longrightarrow> list_all isActionIdentifier listed"
  by (induction listed arbitrary: acc)
    (auto simp del: isActionIdentifier.simps split: js_value.splits if_splits)

section \<open>Properties\<close>

text \<open>
  the ingress of amounts never throws, and an amount it lets in keeps the quantity of the
  text it was given, is well formed, is denominated in the very unit the input named, which the
  registry recognizes, fits that asset's trusted scale, and parses to itself.
\<close>

theorem parse_amount_exact:
  assumes "createMonetaryAssetRegistry raw = Inr reg"
  shows "(\<exists>res. parseMonetaryAmount v u reg = Inr res) \<and>
    (parseMonetaryAmount v u reg = Inr (Inr a) \<longrightarrow>
       (\<exists>t asset. v = JSString t \<and> decimal_quantity (amount_value a) = decimal_quantity t \<and>
          u = JSString (amount_unit a) \<and> resolveAsset reg u = Some asset \<and>
          scale (parse (amount_value a)) \<le> asset_scale asset \<and> asset_scale asset \<le> 36) \<and>
       isWellFormedMonetaryAmount (amount_js a) \<and>
       parseMonetaryAmount (JSString (amount_value a)) (JSString (amount_unit a)) reg = Inr (Inr a))"
proof (cases v)
  case (JSString t)
  show ?thesis
  proof (intro conjI impI)
    show "\<exists>res. parseMonetaryAmount v u reg = Inr res"
      by (auto simp add: JSString parseMonetaryAmount_text simp del: canonicalizeDecimalText.simps
          split: option.splits)
    assume "parseMonetaryAmount v u reg = Inr (Inr a)"
    then obtain c asset where c: "canonicalizeDecimalText (JSString t) = Some c"
      and r: "resolveAsset reg u = Some asset" and k: "scale (parse c) \<le> asset_scale asset"
      and a: "a = \<lparr>amount_value = c, amount_unit = assetId asset\<rparr>"
      by (auto simp add: JSString parseMonetaryAmount_text simp del: canonicalizeDecimalText.simps
          split: option.splits if_splits)
    then obtain i where u: "u = JSString i" by (cases u) auto
    have d: "assetId asset = i" "valid_definition asset"
      using assets.get_ident [OF assms] r u by auto
    show "\<exists>t asset. v = JSString t \<and> decimal_quantity (amount_value a) = decimal_quantity t \<and>
          u = JSString (amount_unit a) \<and> resolveAsset reg u = Some asset \<and>
          scale (parse (amount_value a)) \<le> asset_scale asset \<and> asset_scale asset \<le> 36"
      using JSString canonicalize_sound(2) [OF c] r u k a d
      by (simp add: valid_definition_def MONETARY_ASSET_MAXIMUM_SCALE_def)
    show "isWellFormedMonetaryAmount (amount_js a)"
      using canonicalize_sound(3) [OF c] d a by (simp add: valid_definition_def)
    show "parseMonetaryAmount (JSString (amount_value a)) (JSString (amount_unit a)) reg = Inr (Inr a)"
      using canonicalize_canonical [OF canonicalize_sound(3) [OF c]] r u k a d
      by (simp add: parseMonetaryAmount_text del: canonicalizeDecimalText.simps)
  qed
qed (simp_all add: parseMonetaryAmount_def)

definition usd_configuration :: js_value where
  "usd_configuration = JSArray [JSObject True
     [(''assetId'', DataProp (JSString ''USD'')), (''scale'', DataProp (JSNumber (NumInt 2)))]]"

theorem parse_amount_exact_witness:
  "\<exists>reg. createMonetaryAssetRegistry usd_configuration = Inr reg \<and>
     parseMonetaryAmount (JSString ''10.50'') (JSString ''USD'') reg =
       Inr (Inr \<lparr>amount_value = ''10.5'', amount_unit = ''USD''\<rparr>) \<and>
     isWellFormedMonetaryAmount (amount_js \<lparr>amount_value = ''10.5'', amount_unit = ''USD''\<rparr>)"
proof -
  let ?reg = "\<lparr>asset_byId = [(''USD'', \<lparr>assetId = ''USD'', asset_scale = 2\<rparr>)], assetIds = [''USD'']\<rparr>"
  have r: "createMonetaryAssetRegistry usd_configuration = Inr ?reg" by code_simp
  have p: "parseMonetaryAmount (JSString ''10.50'') (JSString ''USD'') ?reg =
    Inr (Inr \<lparr>amount_value = ''10.5'', amount_unit = ''USD''\<rparr>)" by code_simp
  show ?thesis
    using parse_amount_exact [OF r, of "JSString ''10.50''" "JSString ''USD''"
        "\<lparr>amount_value = ''10.5'', amount_unit = ''USD''\<rparr>"] r p by blast
qed

text \<open>
  A classifier is built exactly from a list of canonical identifiers, and then an action is
  financial exactly when the trusted configuration lists it, whatever value is classified; the
  published list is the configured one, sorted and without duplicates.
\<close>

theorem classify_exact:
  "case createFinancialActionClassifier configuration of
     Inr c \<Rightarrow>
       (\<exists>listed. js_get configuration ''financialActions'' = JSArray listed \<and>
          list_all isActionIdentifier listed \<and>
          (\<forall>v. classify c v = Financial \<longleftrightarrow> v \<in> set listed) \<and>
          sorted (financialActions c) \<and> distinct (financialActions c) \<and>
          JSString ` set (financialActions c) = set listed)
   | Inl e \<Rightarrow>
       (\<nexists>listed. js_get configuration ''financialActions'' = JSArray listed \<and>
          list_all isActionIdentifier listed)"
proof (cases "\<exists>listed. js_get configuration ''financialActions'' = JSArray listed \<and>
    list_all isActionIdentifier listed")
  case True
  then obtain listed where listed: "js_get configuration ''financialActions'' = JSArray listed"
    "list_all isActionIdentifier listed" by blast
  obtain fs where fs: "collect_actions listed [] = Inr fs" "distinct fs" "JSString ` set fs = set listed"
    using collect_actions_ok [OF listed(2), of "[]"] by auto
  have "classify \<lparr>financial = fs, financialActions = sort fs\<rparr> v = Financial \<longleftrightarrow> v \<in> set listed" for v
    using fs(3) by (cases v) auto
  with fs listed show ?thesis
    by (simp add: createFinancialActionClassifier_def)
next
  case False
  then show ?thesis
    using collect_actions_only
    by (fastforce simp add: createFinancialActionClassifier_def split: js_value.splits sum.splits)
qed

end
