(* ===== verification/Canonical_JSON.thy ===== *)
theory Canonical_JSON
  imports Prelude
begin

text \<open>
  The texts \<open>JSON.stringify\<close> and the hand-written canonical serializers of the sources produce:
  values as trees, members in the order given, no white space.  The serializers of the
  components print such trees; that one text never stands for two trees is proved here once, and
  every component derives from it that its canonical text determines what it serializes.
  The locale \<open>self_delimiting\<close> is that contract.
\<close>

section \<open>The interface: texts that determine what they encode\<close>

locale self_delimiting =
  fixes enc :: "'a \<Rightarrow> string"
    and ok :: "'a \<Rightarrow> bool"
    and follow :: "string \<Rightarrow> bool"
  assumes unique: "ok x \<Longrightarrow> ok y \<Longrightarrow> follow u \<Longrightarrow> follow v \<Longrightarrow> enc x @ u = enc y @ v \<Longrightarrow> x = y \<and> u = v"
    and follow_Nil: "follow []"
begin

lemma injective: "ok x \<Longrightarrow> ok y \<Longrightarrow> enc x = enc y \<longleftrightarrow> x = y"
  using unique [of x y "[]" "[]"] follow_Nil by auto

lemma pair_unique:
  assumes "ok x" "ok y" "ok x'" "ok y'" "\<And>w. follow (sep @ w)" "follow u" "follow v"
    and "enc x @ sep @ enc x' @ u = enc y @ sep @ enc y' @ v"
  shows "x = y \<and> x' = y' \<and> u = v"
proof -
  have "x = y \<and> sep @ enc x' @ u = sep @ enc y' @ v"
    using unique [OF assms(1,2) assms(5) assms(5)] assms(8) by blast
  then show ?thesis using unique [OF assms(3,4,6,7)] by simp
qed

end

section \<open>Strings\<close>

definition hex_digit :: "nat \<Rightarrow> char" where
  "hex_digit n = (if n < 10 then char_of (48 + n) else char_of (87 + n))"

definition json_escape_char :: "char \<Rightarrow> string" where
  "json_escape_char c =
     (if c = CHR 0x22 then [CHR 0x5C, CHR 0x22]
      else if c = CHR 0x5C then [CHR 0x5C, CHR 0x5C]
      else if c = CHR 0x08 then [CHR 0x5C, CHR ''b'']
      else if c = CHR 0x0C then [CHR 0x5C, CHR ''f'']
      else if c = CHR 0x0A then [CHR 0x5C, CHR ''n'']
      else if c = CHR 0x0D then [CHR 0x5C, CHR ''r'']
      else if c = CHR 0x09 then [CHR 0x5C, CHR ''t'']
      else if code_unit c < 32 then
        [CHR 0x5C, CHR ''u'', CHR ''0'', CHR ''0'', hex_digit (code_unit c div 16), hex_digit (code_unit c mod 16)]
      else [c])"

definition json_string :: "string \<Rightarrow> string" where
  "json_string s = CHR 0x22 # concat (map json_escape_char s) @ [CHR 0x22]"

section \<open>Trees\<close>

definition json_number :: "platform \<Rightarrow> js_number \<Rightarrow> string" where
  "json_number P n = (if js_finite n = None then ''null'' else js_number_toString P n)"

definition json_bool :: "bool \<Rightarrow> string" where
  "json_bool b = (if b then ''true'' else ''false'')"

datatype json =
    JNull
  | JBool bool
  | JNum js_number
  | JStr string
  | JArr "json list"
  | JObj "(string \<times> json) list"

primrec json_print :: "platform \<Rightarrow> json \<Rightarrow> string" where
  "json_print P JNull = ''null''"
| "json_print P (JBool b) = json_bool b"
| "json_print P (JNum n) = json_number P n"
| "json_print P (JStr s) = json_string s"
| "json_print P (JArr xs) = ''['' @ join '','' (map (json_print P) xs) @ '']''"
| "json_print P (JObj ms) =
     ''{'' @ join '','' (map (\<lambda>(k, t). json_string k @ '':'' @ t) (map (map_prod id (json_print P)) ms)) @ ''}''"

text \<open>One member, and one object, of a text assembled by hand.\<close>

definition json_member :: "string \<Rightarrow> string \<Rightarrow> string" where
  "json_member key text = json_string key @ '':'' @ text"

definition json_object :: "string list \<Rightarrow> string" where
  "json_object members = ''{'' @ join '','' members @ ''}''"

text \<open>Trees whose numbers are safe integers.\<close>

primrec json_ok :: "json \<Rightarrow> bool" where
  "json_ok JNull = True"
| "json_ok (JBool b) = True"
| "json_ok (JNum n) = (\<exists>i. n = NumInt i \<and> \<bar>i\<bar> \<le> MAX_SAFE_INTEGER)"
| "json_ok (JStr s) = True"
| "json_ok (JArr xs) = list_all json_ok xs"
| "json_ok (JObj ms) = list_all (\<lambda>p. snd p) (map (map_prod id json_ok) ms)"

definition json_follow :: "string \<Rightarrow> bool" where
  "json_follow u \<longleftrightarrow> u = [] \<or> hd u \<in> {CHR '','', CHR '']'', CHR ''}''}"

section \<open>Strings are self-delimiting\<close>

definition hex_value :: "char \<Rightarrow> nat" where
  "hex_value c = (if code_unit c < 65 then code_unit c - 48 else code_unit c - 87)"

lemma hex_value_digit: "n < 16 \<Longrightarrow> hex_value (hex_digit n) = n"
  by (auto simp add: hex_value_def hex_digit_def code_unit_def)

fun json_unescape :: "string \<Rightarrow> (char \<times> string) option" where
  "json_unescape (c # cs) =
     (if c \<noteq> CHR 0x5C then Some (c, cs)
      else case cs of
        e # es \<Rightarrow>
          if e = CHR ''b'' then Some (CHR 0x08, es)
          else if e = CHR ''f'' then Some (CHR 0x0C, es)
          else if e = CHR ''n'' then Some (CHR 0x0A, es)
          else if e = CHR ''r'' then Some (CHR 0x0D, es)
          else if e = CHR ''t'' then Some (CHR 0x09, es)
          else if e = CHR ''u'' then
            (case es of _ # _ # h # l # r \<Rightarrow> Some (char_of (16 * hex_value h + hex_value l), r) | _ \<Rightarrow> None)
          else Some (e, es)
      | [] \<Rightarrow> None)"
| "json_unescape [] = None"

lemma json_unescape_u:
  "a < 16 \<Longrightarrow> b < 16 \<Longrightarrow>
     json_unescape (CHR 0x5C # CHR ''u'' # x # y # hex_digit a # hex_digit b # r) = Some (char_of (16 * a + b), r)"
  by (simp add: hex_value_digit)

lemma json_unescape_escape: "json_unescape (json_escape_char c @ r) = Some (c, r)"
proof (cases "code_unit c < 32 \<and> c \<notin> {CHR 0x22, CHR 0x5C, CHR 0x08, CHR 0x0C, CHR 0x0A, CHR 0x0D, CHR 0x09}")
  case True
  then have e: "json_escape_char c =
      [CHR 0x5C, CHR ''u'', CHR ''0'', CHR ''0'', hex_digit (code_unit c div 16), hex_digit (code_unit c mod 16)]"
    unfolding json_escape_char_def by simp
  have n: "code_unit c div 16 < 16" "code_unit c mod 16 < 16" using True by auto
  have "char_of (16 * (code_unit c div 16) + code_unit c mod 16) = c"
    by (simp only: mult_div_mod_eq) (simp add: code_unit_def)
  then show ?thesis unfolding e using json_unescape_u [OF n] by (simp del: json_unescape.simps)
next
  case False
  then show ?thesis by (auto simp add: json_escape_char_def)
qed

lemma json_escape_unique:
  "json_escape_char c @ x = json_escape_char d @ y \<Longrightarrow> c = d \<and> x = y"
  by (metis json_unescape_escape option.inject prod.inject)

lemma json_escape_not_quote [simp]:
  "json_escape_char c \<noteq> CHR 0x22 # es" "CHR 0x22 # es \<noteq> json_escape_char c"
  by (auto simp add: json_escape_char_def split: if_splits)

lemma json_escape_not_Nil [simp]: "json_escape_char c \<noteq> []"
  by (simp add: json_escape_char_def)

lemma json_body_unique:
  "concat (map json_escape_char s) @ CHR 0x22 # u = concat (map json_escape_char t) @ CHR 0x22 # v \<Longrightarrow>
     s = t \<and> u = v"
proof (induction s arbitrary: t)
  case Nil
  then show ?case
    by (cases t) (auto simp add: append_eq_Cons_conv Cons_eq_append_conv)
next
  case (Cons c s)
  show ?case
  proof (cases t)
    case Nil
    then show ?thesis
      using Cons.prems
      by (auto simp add: append_eq_Cons_conv Cons_eq_append_conv)
  next
    case (Cons d t')
    then show ?thesis
      using Cons.IH [of t'] Cons.prems json_escape_unique [of c _ d] by (auto simp del: append_assoc simp flip: append_assoc)
  qed
qed

lemma json_string_unique: "json_string s @ u = json_string t @ v \<Longrightarrow> s = t \<and> u = v"
  using json_body_unique [of s u t v] by (simp add: json_string_def)

interpretation json_strings: self_delimiting json_string "\<lambda>s. True" "\<lambda>u. True"
  by unfold_locales (auto dest: json_string_unique)

section \<open>Trees are self-delimiting\<close>

lemma join_Cons: "join sep (x # xs) = x @ concat (map (\<lambda>y. sep @ y) xs)"
  by (induction xs arbitrary: x) auto

text \<open>
  A list of items, each determined by its text before a delimiter, is determined by the text of
  the list.
\<close>

lemma items_unique:
  assumes each: "\<And>x y u v. x \<in> set xs \<Longrightarrow> y \<in> set ys \<Longrightarrow> json_follow u \<Longrightarrow> json_follow v \<Longrightarrow>
      enc x @ u = enc y @ v \<Longrightarrow> x = y \<and> u = v"
    and start: "\<And>x w. x \<in> set xs \<union> set ys \<Longrightarrow> enc x @ w \<noteq> stop # u \<and> enc x @ w \<noteq> stop # v"
    and stop: "stop \<in> {CHR '']'', CHR ''}''}"
    and eq: "join '','' (map enc xs) @ stop # u = join '','' (map enc ys) @ stop # v"
  shows "xs = ys \<and> u = v"
proof -
  have tails: "as = bs \<and> u = v"
    if "set as \<subseteq> set xs" "set bs \<subseteq> set ys"
      "concat (map (\<lambda>x. '','' @ enc x) as) @ stop # u = concat (map (\<lambda>x. '','' @ enc x) bs) @ stop # v"
    for as bs
    using that
  proof (induction as arbitrary: bs)
    case Nil
    then show ?case using stop by (cases bs) auto
  next
    case (Cons a as)
    then obtain b bs' where bs: "bs = b # bs'" using stop by (cases bs) auto
    let ?r = "concat (map (\<lambda>x. '','' @ enc x) as) @ stop # u"
    let ?s = "concat (map (\<lambda>x. '','' @ enc x) bs') @ stop # v"
    have f: "json_follow ?r" "json_follow ?s"
      using stop by (cases as; cases bs'; auto simp add: json_follow_def)+
    have "a = b \<and> ?r = ?s"
      using each [of a b ?r ?s] Cons.prems bs f by simp
    then show ?case using Cons.IH [of bs'] Cons.prems bs by simp
  qed
  show ?thesis
  proof (cases xs)
    case Nil
    have "enc y @ concat (map (\<lambda>x. '','' @ enc x) ys') @ stop # v = stop # u" if "ys = y # ys'" for y ys'
      using eq Nil that by (simp add: join_Cons o_def)
    then have "ys = []" using start by (metis UnCI list.exhaust list.set_intros(1))
    then show ?thesis using eq Nil by simp
  next
    case (Cons x xs')
    have "enc x @ concat (map (\<lambda>x. '','' @ enc x) xs') @ stop # u = stop # v" if "ys = []"
      using eq Cons that by (simp add: join_Cons o_def)
    then have "ys \<noteq> []" using start [of x] Cons by (metis UnCI list.set_intros(1))
    then obtain y ys' where ys: "ys = y # ys'" by (cases ys) auto
    let ?r = "concat (map (\<lambda>x. '','' @ enc x) xs') @ stop # u"
    let ?s = "concat (map (\<lambda>x. '','' @ enc x) ys') @ stop # v"
    have f: "json_follow ?r" "json_follow ?s"
      using stop by (cases xs'; cases ys'; auto simp add: json_follow_def)+
    have "x = y \<and> ?r = ?s"
      using each [of x y ?r ?s] eq Cons ys f by (simp add: join_Cons o_def)
    then show ?thesis using tails [of xs' ys'] Cons ys by auto
  qed
qed

lemma json_follow_not_digit: "json_follow u \<Longrightarrow> takeWhile is_digit u = [] \<and> dropWhile is_digit u = u"
  by (cases u) (auto simp add: json_follow_def is_digit_def code_unit_def)

lemma digits_follow_split:
  assumes "list_all is_digit ds" "json_follow u"
  shows "takeWhile is_digit (ds @ u) = ds \<and> dropWhile is_digit (ds @ u) = u"
  using assms json_follow_not_digit by (induction ds) auto

lemma digits_follow_unique:
  assumes "list_all is_digit ds" "list_all is_digit es" "json_follow u" "json_follow v" "ds @ u = es @ v"
  shows "ds = es \<and> u = v"
  using digits_follow_split [OF assms(1,3)] digits_follow_split [OF assms(2,4)] unfolding assms(5) by metis

lemma nat_toString_hd_digit: "nat_toString n = c # cs \<Longrightarrow> is_digit c"
  using nat_toString_digits [of n] by simp

lemma not_digit_chars [simp]:
  "\<not> is_digit (CHR ''-'')" "\<not> is_digit (CHR ''n'')" "\<not> is_digit (CHR ''t'')" "\<not> is_digit (CHR ''f'')"
  "\<not> is_digit (CHR ''['')" "\<not> is_digit (CHR ''{'')" "\<not> is_digit (CHR '']'')" "\<not> is_digit (CHR ''}'')"
  "\<not> is_digit (CHR 0x22)"
  by (simp_all add: is_digit_def code_unit_def)

lemma nat_toString_not_minus: "nat_toString a @ w \<noteq> CHR ''-'' # w'"
  using nat_toString_hd_digit [of a "CHR ''-''"] by (auto simp add: append_eq_Cons_conv)

lemma nat_toString_follow_unique:
  assumes "json_follow u" "json_follow v" "nat_toString a @ u = nat_toString b @ v"
  shows "a = b \<and> u = v"
  using digits_follow_unique [OF nat_toString_digits nat_toString_digits assms] by simp

lemma int_toString_unique:
  assumes "json_follow u" "json_follow v" "int_toString i @ u = int_toString j @ v"
  shows "i = j \<and> u = v"
proof (cases "i < 0"; cases "j < 0")
  assume "i < 0" "j < 0"
  then show ?thesis
    using assms nat_toString_follow_unique [OF assms(1,2), of "nat (- i)" "nat (- j)"]
    by (auto simp add: int_toString_def)
next
  assume "i < 0" "\<not> j < 0"
  then show ?thesis using assms(3) nat_toString_not_minus [of "nat j" v] by (simp add: int_toString_def) metis
next
  assume "\<not> i < 0" "j < 0"
  then show ?thesis using assms(3) nat_toString_not_minus [of "nat i" u] by (simp add: int_toString_def)
next
  assume "\<not> i < 0" "\<not> j < 0"
  then show ?thesis
    using assms nat_toString_follow_unique [OF assms(1,2), of "nat i" "nat j"]
    by (auto simp add: int_toString_def)
qed

text \<open>The first code unit of a text tells the constructor of the tree.\<close>

fun json_head :: "json \<Rightarrow> char \<Rightarrow> bool" where
  "json_head JNull c = (c = CHR ''n'')"
| "json_head (JBool b) c = (c = (if b then CHR ''t'' else CHR ''f''))"
| "json_head (JNum n) c = (c = CHR ''-'' \<or> is_digit c)"
| "json_head (JStr s) c = (c = CHR 0x22)"
| "json_head (JArr xs) c = (c = CHR ''['')"
| "json_head (JObj ms) c = (c = CHR ''{'')"

lemma json_number_int: "\<bar>i\<bar> \<le> MAX_SAFE_INTEGER \<Longrightarrow> json_number P (NumInt i) = int_toString i"
  by (simp add: json_number_def js_number_toString_def)

lemma json_print_head:
  assumes "json_ok j"
  shows "\<exists>c cs. json_print P j = c # cs \<and> json_head j c"
proof (cases j)
  case (JNum n)
  then obtain i where "json_print P j = int_toString i" using assms json_number_int by auto
  moreover have "\<exists>c cs. int_toString i = c # cs \<and> (c = CHR ''-'' \<or> is_digit c)"
  proof (cases "i < 0")
    case False
    obtain c cs where "nat_toString (nat i) = c # cs" using nat_toString_not_Nil list.exhaust by metis
    then show ?thesis using False nat_toString_hd_digit by (simp add: int_toString_def)
  qed (simp add: int_toString_def)
  ultimately show ?thesis using JNum by simp
qed (auto simp add: json_bool_def json_string_def)

lemma json_print_not_stop:
  assumes "json_ok j" "stop \<in> {CHR '']'', CHR ''}''}"
  shows "json_print P j @ w \<noteq> stop # u"
proof -
  obtain c cs where "json_print P j = c # cs" "json_head j c" using json_print_head [OF assms(1)] by blast
  then show ?thesis using assms(2) by (cases j) (auto split: if_splits)
qed

definition json_same_shape :: "json \<Rightarrow> json \<Rightarrow> bool" where
  "json_same_shape j k \<longleftrightarrow>
     (j = JNull \<and> k = JNull) \<or> (\<exists>b. j = JBool b \<and> k = JBool b) \<or> (\<exists>m n. j = JNum m \<and> k = JNum n) \<or>
     (\<exists>s t. j = JStr s \<and> k = JStr t) \<or> (\<exists>xs ys. j = JArr xs \<and> k = JArr ys) \<or>
     (\<exists>ms ns. j = JObj ms \<and> k = JObj ns)"

lemma json_head_same: "json_head j c \<Longrightarrow> json_head k c \<Longrightarrow> json_same_shape j k"
  by (cases j; cases k) (auto simp add: json_same_shape_def split: if_splits)

lemma json_print_same_shape:
  assumes "json_ok j" "json_ok k" "json_print P j @ u = json_print P k @ v"
  shows "json_same_shape j k"
proof -
  obtain c cs where c: "json_print P k = c # cs" "json_head k c" using json_print_head [OF assms(2)] by blast
  obtain d ds where d: "json_print P j = d # ds" "json_head j d" using json_print_head [OF assms(1)] by blast
  have "c = d" using assms(3) c(1) d(1) by simp
  then show ?thesis using json_head_same c(2) d(2) by blast
qed

lemma member_unique:
  assumes "json_ok j" "json_ok k" "json_follow u" "json_follow v"
    and IH: "\<And>u v. json_follow u \<Longrightarrow> json_follow v \<Longrightarrow> json_print P j @ u = json_print P k @ v \<Longrightarrow> j = k \<and> u = v"
    and eq: "(json_string a @ '':'' @ json_print P j) @ u = (json_string b @ '':'' @ json_print P k) @ v"
  shows "(a, j) = (b, k) \<and> u = v"
proof -
  have "a = b \<and> CHR '':'' # json_print P j @ u = CHR '':'' # json_print P k @ v"
    using json_string_unique [of a "CHR '':'' # json_print P j @ u" b "CHR '':'' # json_print P k @ v"] eq by simp
  then show ?thesis using IH [OF assms(3,4)] by simp
qed

lemma json_ok_JObj: "json_ok (JObj ms) \<longleftrightarrow> (\<forall>(k, j) \<in> set ms. json_ok j)"
  by (force simp add: list_all_iff)

lemma json_ok_members: "json_ok (JObj ms) \<longleftrightarrow> list_all (\<lambda>(k, j). json_ok j) ms"
  unfolding json_ok_JObj by (simp add: list_all_iff)

lemma json_print_JObj:
  "json_print P (JObj ms) = ''{'' @ join '','' (map (\<lambda>(k, j). json_string k @ '':'' @ json_print P j) ms) @ ''}''"
  by (simp add: case_prod_unfold o_def)

lemma json_object_print:
  "json_object (map (\<lambda>(k, j). json_member k (json_print P j)) ms) = json_print P (JObj ms)"
  by (simp add: json_object_def json_member_def json_print_JObj del: json_print.simps(6))

lemma json_print_unique:
  assumes "json_ok j" "json_ok k" "json_follow u" "json_follow v" "json_print P j @ u = json_print P k @ v"
  shows "j = k \<and> u = v"
  using assms
proof (induction j arbitrary: k u v)
  case JNull
  then have "json_same_shape JNull k" using json_print_same_shape by blast
  then show ?case using JNull.prems(5) by (auto simp add: json_same_shape_def)
next
  case (JBool b)
  then have "json_same_shape (JBool b) k" using json_print_same_shape by blast
  then have "k = JBool b" by (auto simp add: json_same_shape_def)
  then show ?case using JBool.prems(5) by simp
next
  case (JNum n)
  then have "json_same_shape (JNum n) k" using json_print_same_shape by blast
  then obtain m where k: "k = JNum m" by (auto simp add: json_same_shape_def)
  obtain a b where "n = NumInt a" "m = NumInt b" "\<bar>a\<bar> \<le> MAX_SAFE_INTEGER" "\<bar>b\<bar> \<le> MAX_SAFE_INTEGER"
    using JNum.prems k by auto
  then show ?case
    using JNum.prems(5) k int_toString_unique [OF JNum.prems(3,4)] by (simp add: json_number_int)
next
  case (JStr s)
  then have "json_same_shape (JStr s) k" using json_print_same_shape by blast
  then obtain t where k: "k = JStr t" by (auto simp add: json_same_shape_def)
  then have "json_string s @ u = json_string t @ v" using JStr.prems(5) by simp
  then show ?case using k json_string_unique by blast
next
  case (JArr xs)
  then have "json_same_shape (JArr xs) k" using json_print_same_shape by blast
  then obtain ys where k: "k = JArr ys" by (auto simp add: json_same_shape_def)
  have ok: "\<forall>x \<in> set xs \<union> set ys. json_ok x" using JArr.prems(1,2) k by (auto simp add: list_all_iff)
  have eq: "join '','' (map (json_print P) xs) @ CHR '']'' # u = join '','' (map (json_print P) ys) @ CHR '']'' # v"
    using JArr.prems(5) k by simp
  have "xs = ys \<and> u = v"
    by (rule items_unique [OF _ _ _ eq]) (use ok JArr.IH json_print_not_stop in \<open>blast+\<close>)
  then show ?case using k by simp
next
  case (JObj ms)
  then have "json_same_shape (JObj ms) k" using json_print_same_shape by blast
  then obtain ns where k: "k = JObj ns" by (auto simp add: json_same_shape_def)
  let ?enc = "\<lambda>(k, j). json_string k @ '':'' @ json_print P j"
  have ok: "\<forall>p \<in> set ms \<union> set ns. json_ok (snd p)"
    using JObj.prems(1) JObj.prems(2) [unfolded k] unfolding json_ok_JObj by auto
  have eq: "join '','' (map ?enc ms) @ CHR ''}'' # u = join '','' (map ?enc ns) @ CHR ''}'' # v"
    using JObj.prems(5) [unfolded k] unfolding json_print_JObj by simp
  have each: "p = q \<and> u = v" if p: "p \<in> set ms" and q: "q \<in> set ns" and f: "json_follow u" "json_follow v"
    and e: "?enc p @ u = ?enc q @ v" for p q u v
  proof -
    obtain a i b l where ab: "p = (a, i)" "q = (b, l)" by (cases p; cases q)
    have il: "json_ok i" "json_ok l" using bspec [OF ok, of p] bspec [OF ok, of q] p q ab by auto
    have "i \<in> Basic_BNFs.snds p" using ab by (simp add: snds.simps)
    then have IH: "json_print P i @ u = json_print P l @ v \<Longrightarrow> json_follow u \<Longrightarrow> json_follow v \<Longrightarrow> i = l \<and> u = v" for u v
      using JObj.IH [OF p] il by blast
    have "(a, i) = (b, l) \<and> u = v"
      by (rule member_unique [OF il f]) (use IH e ab in auto)
    then show ?thesis using ab by simp
  qed
  have start: "?enc p @ w \<noteq> CHR ''}'' # r" for p w r by (cases p) (simp add: json_string_def)
  have "ms = ns \<and> u = v"
    by (rule items_unique [OF each _ _ eq]) (use start in auto)
  then show ?case using k by simp
qed

interpretation json_trees: self_delimiting "json_print P" json_ok json_follow
proof unfold_locales
  show "json_follow []" by (simp add: json_follow_def)
qed (rule json_print_unique)

section \<open>Objects with sorted members\<close>

text \<open>
  The serializers that sort: members that are \<open>undefined\<close> are left out, the others sorted by name.
\<close>

definition canonical_object :: "(string \<times> json option) list \<Rightarrow> json" where
  "canonical_object members =
     JObj (map (\<lambda>(k, v). (k, the v)) (sort_key fst (filter (\<lambda>(k, v). v \<noteq> None) members)))"

definition strings_json :: "string list \<Rightarrow> json" where
  "strings_json ss = JArr (map JStr ss)"

text \<open>With the names fixed, the tree determines the members.\<close>

lemma canonical_object_member:
  "canonical_object ms = JObj xs \<Longrightarrow> (k, v) \<in> set xs \<longleftrightarrow> (k, Some v) \<in> set ms"
  by (force simp add: canonical_object_def image_iff)

lemma canonical_object_inject:
  assumes eq: "canonical_object ms = canonical_object ms'"
    and keys: "map fst ms = map fst ms'" and distinct: "distinct (map fst ms)"
  shows "ms = ms'"
proof -
  obtain xs where xs: "canonical_object ms = JObj xs" by (simp add: canonical_object_def)
  have members: "(k, Some v) \<in> set ms \<longleftrightarrow> (k, Some v) \<in> set ms'" for k v
    using canonical_object_member [OF xs] canonical_object_member [of ms' xs] xs eq by simp
  have distinct': "distinct (map fst ms')" using keys distinct by simp
  show ?thesis
  proof (rule nth_equalityI)
    show len: "length ms = length ms'" using keys by (metis length_map)
    fix i
    assume i: "i < length ms"
    obtain k a where a: "ms ! i = (k, a)" by (rule prod.exhaust)
    obtain b where b: "ms' ! i = (k, b)"
      using a i len keys by (metis fst_conv nth_map prod.exhaust)
    have in1: "(k, a) \<in> set ms" using a i by (metis nth_mem)
    have in2: "(k, b) \<in> set ms'" using b i len by (metis nth_mem)
    have "a = b"
    proof (cases a)
      case (Some v)
      then have "(k, Some v) \<in> set ms'" using in1 members by simp
      then show ?thesis using in2 distinct' Some by (meson eq_key_imp_eq_value)
    next
      case None
      show ?thesis
      proof (cases b)
        case (Some v)
        then have "(k, Some v) \<in> set ms" using in2 members by simp
        then have "a = Some v" using eq_key_imp_eq_value [OF distinct in1] by simp
        then show ?thesis using None by simp
      qed (simp add: None)
    qed
    then show "ms ! i = ms' ! i" using a b by simp
  qed
qed

lemma json_ok_canonical_object:
  assumes "\<And>k v. (k, Some v) \<in> set ms \<Longrightarrow> json_ok v"
  shows "json_ok (canonical_object ms)"
  unfolding canonical_object_def json_ok_members
  using assms by (auto simp add: list_all_iff)

lemma json_print_injective: "json_ok a \<Longrightarrow> json_ok b \<Longrightarrow> json_print P a = json_print P b \<Longrightarrow> a = b"
  using json_trees.injective by blast

end
