(* ===== verification/Governed_Parameters.thy ===== *)
theory Governed_Parameters
  imports Monetary Canonical_JSON
begin

text \<open>
  Typed parameters of governed actions, their declared dimensions and their bound algebra:
  \<open>governed-parameter-runtime/domain\<close>.  The locale \<open>bound_algebra\<close> states what a bound algebra
  promises the attenuation engine: comparison is a partial order on well-formed bounds, and a
  bound that compares as equal or narrower admits no value its source does not admit.  It is
  interpreted here on the parameter bounds, and again on the bounds of grants.
\<close>

section \<open>The interface: bound algebras\<close>

datatype bound_comparison = Equal | Narrower | Broader | IncomparableBound

definition governedParameterBoundComparisonPermits :: "bound_comparison \<Rightarrow> bool" where
  "governedParameterBoundComparisonPermits c \<longleftrightarrow> c = Equal \<or> c = Narrower"

locale bound_algebra =
  fixes wf_bound :: "'b \<Rightarrow> bool"
    and compare :: "'b \<Rightarrow> 'b \<Rightarrow> bound_comparison"
    and admits :: "'b \<Rightarrow> 'v \<Rightarrow> bool"
  assumes malformed: "\<not> wf_bound a \<or> \<not> wf_bound b \<Longrightarrow> compare a b = IncomparableBound"
    and reflexive: "wf_bound a \<Longrightarrow> compare a a = Equal"
    and transitive: "compare a b \<in> {Equal, Narrower} \<Longrightarrow> compare b c \<in> {Equal, Narrower} \<Longrightarrow>
          compare a c \<in> {Equal, Narrower}"
    and narrower_strict: "compare a b = Narrower \<Longrightarrow> compare b a = Broader"
    and equal_symmetric: "compare a b = Equal \<Longrightarrow> compare b a = Equal"
    and inclusion: "compare a b \<in> {Equal, Narrower} \<Longrightarrow> admits b v \<Longrightarrow> admits a v"
begin

definition covers :: "'b \<Rightarrow> 'b \<Rightarrow> bool" where
  "covers source requested \<longleftrightarrow> compare source requested \<in> {Equal, Narrower}"

fun chain :: "'b list \<Rightarrow> bool" where
  "chain (a # b # bs) = (covers a b \<and> chain (b # bs))"
| "chain _ = True"

lemma covers_wf: "covers a b \<Longrightarrow> wf_bound a \<and> wf_bound b"
  unfolding covers_def using malformed [of a b] by fastforce

lemma covers_refl: "wf_bound a \<Longrightarrow> covers a a"
  by (simp add: covers_def reflexive)

lemma covers_antisym: "covers a b \<Longrightarrow> covers b a \<Longrightarrow> compare a b = Equal"
  using narrower_strict [of a b] by (auto simp add: covers_def)

lemma chain_covers: "chain (a # bs) \<Longrightarrow> bs \<noteq> [] \<Longrightarrow> covers a (last bs)"
proof (induction bs arbitrary: a)
  case Nil
  then show ?case by simp
next
  case (Cons b bs)
  show ?case
  proof (cases "bs = []")
    case False
    with Cons have "covers b (last bs)" "covers a b" by (cases bs; simp)+
    then show ?thesis using False transitive by (auto simp add: covers_def)
  qed (use Cons.prems in simp)
qed

lemma chain_admits:
  assumes "chain (a # bs)" "bs \<noteq> []" "admits (last bs) v"
  shows "admits a v"
  using chain_covers [OF assms(1,2)] inclusion [OF _ assms(3)] by (simp add: covers_def)

end

section \<open>Semantic identifiers\<close>

definition SEMANTIC_IDENTIFIER_MAX_LENGTH :: nat where
  "SEMANTIC_IDENTIFIER_MAX_LENGTH = 64"

text \<open>
  The part after the first letter, where the flag says that a separator was just read: a
  separator is followed by a letter or a digit.
\<close>

fun semantic_rest :: "bool \<Rightarrow> string \<Rightarrow> bool" where
  "semantic_rest separated [] = (\<not> separated)"
| "semantic_rest separated (c # cs) =
     (if is_alnum c then semantic_rest False cs
      else if c \<in> set ''._-'' \<and> \<not> separated then semantic_rest True cs
      else False)"

fun SEMANTIC_IDENTIFIER :: "string \<Rightarrow> bool" where
  "SEMANTIC_IDENTIFIER [] = False"
| "SEMANTIC_IDENTIFIER (c # cs) = (is_lower c \<and> semantic_rest False cs)"

fun isSemanticIdentifier :: "js_value \<Rightarrow> bool" where
  "isSemanticIdentifier (JSString s) =
     (s \<noteq> [] \<and> length s \<le> SEMANTIC_IDENTIFIER_MAX_LENGTH \<and> SEMANTIC_IDENTIFIER s)"
| "isSemanticIdentifier _ = False"

definition to_lower_char :: "char \<Rightarrow> char" where
  "to_lower_char c =
     (if is_upper c \<or> (192 \<le> code_unit c \<and> code_unit c \<le> 222 \<and> code_unit c \<noteq> 215)
      then char_of (code_unit c + 32) else c)"

definition semanticIdentifierFold :: "string \<Rightarrow> string" where
  "semanticIdentifierFold identifier = map to_lower_char identifier"

section \<open>Parameter values\<close>

datatype governed_parameter_type = BooleanType | IntegerType | TokenType

datatype governed_parameter_value =
    IntegerValue js_number
  | TokenValue string
  | BooleanValue bool

record governed_parameter =
  dimension :: string
  param_value :: governed_parameter_value

definition GOVERNED_PARAMETER_TOKEN_MAX_LENGTH :: nat where
  "GOVERNED_PARAMETER_TOKEN_MAX_LENGTH = 128"

definition TOKEN :: "string \<Rightarrow> bool" where
  "TOKEN s \<longleftrightarrow> s \<noteq> [] \<and> is_alnum (hd s) \<and> list_all (\<lambda>c. is_alnum c \<or> c \<in> set ''._:@-'') (tl s)"

fun isGovernedParameterToken :: "js_value \<Rightarrow> bool" where
  "isGovernedParameterToken (JSString s) =
     (s \<noteq> [] \<and> length s \<le> GOVERNED_PARAMETER_TOKEN_MAX_LENGTH \<and> TOKEN s)"
| "isGovernedParameterToken _ = False"

fun isGovernedParameterInteger :: "js_value \<Rightarrow> bool" where
  "isGovernedParameterInteger (JSNumber n) = (isSafeInteger n \<and> n \<noteq> NumNegZero)"
| "isGovernedParameterInteger _ = False"

text \<open>The type a value names, when it names one of the three.\<close>

fun isGovernedParameterType :: "js_value \<Rightarrow> governed_parameter_type option" where
  "isGovernedParameterType (JSString s) =
     (if s = ''boolean'' then Some BooleanType
      else if s = ''integer'' then Some IntegerType
      else if s = ''token'' then Some TokenType else None)"
| "isGovernedParameterType _ = None"

datatype governed_parameter_violation =
    PARAMETER_VALUE_WRONG_TYPE
  | PARAMETER_INTEGER_NOT_SAFE
  | PARAMETER_TOKEN_MALFORMED

fun parseGovernedParameterValue ::
  "governed_parameter_type \<Rightarrow> js_value \<Rightarrow> governed_parameter_violation + governed_parameter_value" where
  "parseGovernedParameterValue IntegerType raw =
     (case raw of
        JSNumber n \<Rightarrow>
          if \<not> isGovernedParameterInteger raw then Inl PARAMETER_INTEGER_NOT_SAFE
          else Inr (IntegerValue n)
      | _ \<Rightarrow> Inl PARAMETER_VALUE_WRONG_TYPE)"
| "parseGovernedParameterValue TokenType raw =
     (case raw of
        JSString s \<Rightarrow>
          if \<not> isGovernedParameterToken raw then Inl PARAMETER_TOKEN_MALFORMED
          else Inr (TokenValue s)
      | _ \<Rightarrow> Inl PARAMETER_VALUE_WRONG_TYPE)"
| "parseGovernedParameterValue BooleanType raw =
     (case raw of
        JSBool b \<Rightarrow> Inr (BooleanValue b)
      | _ \<Rightarrow> Inl PARAMETER_VALUE_WRONG_TYPE)"

fun value_type :: "governed_parameter_value \<Rightarrow> governed_parameter_type" where
  "value_type (IntegerValue n) = IntegerType"
| "value_type (TokenValue s) = TokenType"
| "value_type (BooleanValue b) = BooleanType"

fun isWellFormedGovernedParameterValue :: "governed_parameter_value \<Rightarrow> bool" where
  "isWellFormedGovernedParameterValue (IntegerValue n) = isGovernedParameterInteger (JSNumber n)"
| "isWellFormedGovernedParameterValue (TokenValue s) = isGovernedParameterToken (JSString s)"
| "isWellFormedGovernedParameterValue (BooleanValue b) = True"

definition isWellFormedGovernedParameter :: "governed_parameter \<Rightarrow> bool" where
  "isWellFormedGovernedParameter p \<longleftrightarrow>
     isSemanticIdentifier (JSString (dimension p)) \<and>
     isWellFormedGovernedParameterValue (param_value p)"

fun governedParameterValuesEqual ::
  "governed_parameter_value \<Rightarrow> governed_parameter_value \<Rightarrow> bool" where
  "governedParameterValuesEqual (IntegerValue m) (IntegerValue n) = js_num_eq m n"
| "governedParameterValuesEqual (TokenValue s) (TokenValue t) = (s = t)"
| "governedParameterValuesEqual (BooleanValue a) (BooleanValue b) = (a = b)"
| "governedParameterValuesEqual _ _ = False"

section \<open>Parameter bounds\<close>

datatype governed_parameter_bound_kind = ExactKind | MaximumKind

datatype governed_parameter_bound =
    ExactBound governed_parameter_value
  | MaximumBound js_number

fun isGovernedParameterBoundKind :: "js_value \<Rightarrow> governed_parameter_bound_kind option" where
  "isGovernedParameterBoundKind (JSString s) =
     (if s = ''exact'' then Some ExactKind else if s = ''maximum'' then Some MaximumKind else None)"
| "isGovernedParameterBoundKind _ = None"

definition governedParameterBoundKindSupports ::
  "governed_parameter_bound_kind \<Rightarrow> governed_parameter_type \<Rightarrow> bool" where
  "governedParameterBoundKindSupports kind t \<longleftrightarrow>
     kind = ExactKind \<or> (kind = MaximumKind \<and> t = IntegerType)"

fun bound_type :: "governed_parameter_bound \<Rightarrow> governed_parameter_type" where
  "bound_type (ExactBound v) = value_type v"
| "bound_type (MaximumBound n) = IntegerType"

fun isWellFormedGovernedParameterBound :: "governed_parameter_bound \<Rightarrow> bool" where
  "isWellFormedGovernedParameterBound (ExactBound v) = isWellFormedGovernedParameterValue v"
| "isWellFormedGovernedParameterBound (MaximumBound n) = isGovernedParameterInteger (JSNumber n)"

definition governedParameterBoundFor ::
  "governed_parameter_bound_kind \<Rightarrow> governed_parameter_value \<Rightarrow> governed_parameter_bound option" where
  "governedParameterBoundFor kind v =
     (if \<not> isWellFormedGovernedParameterValue v \<or> \<not> governedParameterBoundKindSupports kind (value_type v)
      then None
      else if kind = MaximumKind then
        (case v of IntegerValue n \<Rightarrow> Some (MaximumBound n) | _ \<Rightarrow> None)
      else Some (ExactBound v))"

definition compareGovernedParameterBound ::
  "governed_parameter_bound \<Rightarrow> governed_parameter_bound \<Rightarrow> bound_comparison" where
  "compareGovernedParameterBound source requested =
     (if \<not> isWellFormedGovernedParameterBound source \<or> \<not> isWellFormedGovernedParameterBound requested
      then IncomparableBound
      else case (source, requested) of
        (ExactBound v, ExactBound w) \<Rightarrow>
          if value_type v \<noteq> value_type w then IncomparableBound
          else if governedParameterValuesEqual v w then Equal else IncomparableBound
      | (MaximumBound m, MaximumBound n) \<Rightarrow>
          if js_num_less m n then Broader
          else if js_num_eq n m then Equal else Narrower
      | _ \<Rightarrow> IncomparableBound)"

definition governedParameterBoundAdmits ::
  "governed_parameter_bound \<Rightarrow> governed_parameter_value \<Rightarrow> bool" where
  "governedParameterBoundAdmits bound v =
     (if \<not> isWellFormedGovernedParameterBound bound \<or> \<not> isWellFormedGovernedParameterValue v then False
      else if bound_type bound \<noteq> value_type v then False
      else case bound of
        ExactBound w \<Rightarrow> governedParameterValuesEqual w v
      | MaximumBound m \<Rightarrow> (case v of IntegerValue n \<Rightarrow> js_num_le n m | _ \<Rightarrow> False))"

fun type_name :: "governed_parameter_type \<Rightarrow> string" where
  "type_name BooleanType = ''boolean''"
| "type_name IntegerType = ''integer''"
| "type_name TokenType = ''token''"

fun parameter_value_json :: "governed_parameter_value \<Rightarrow> json" where
  "parameter_value_json (IntegerValue n) = JNum n"
| "parameter_value_json (TokenValue s) = JStr s"
| "parameter_value_json (BooleanValue b) = JBool b"

text \<open>The members of the canonical text of a bound, in the order the code prints them.\<close>

fun parameter_bound_members :: "governed_parameter_bound \<Rightarrow> (string \<times> json) list" where
  "parameter_bound_members (MaximumBound n) =
     [(''kind'', JStr ''maximum''), (''limit'', JNum n), (''type'', JStr ''integer'')]"
| "parameter_bound_members (ExactBound v) =
     [(''kind'', JStr ''exact''), (''type'', JStr (type_name (value_type v))),
      (''value'', parameter_value_json v)]"

definition serializeGovernedParameterBound :: "platform \<Rightarrow> governed_parameter_bound \<Rightarrow> string" where
  "serializeGovernedParameterBound P b = json_print P (JObj (parameter_bound_members b))"

section \<open>Declared dimensions\<close>

record parameter_dimension_declaration =
  dim_id :: string
  dim_type :: governed_parameter_type
  dim_bound :: governed_parameter_bound_kind

record declared_governed_parameter = governed_parameter +
  declared_bound :: governed_parameter_bound_kind

record parameter_dimension_registry =
  dim_byId :: "(string \<times> parameter_dimension_declaration) list"
  dimensions :: "parameter_dimension_declaration list"

definition PARAMETER_DIMENSION_REGISTRY_MAX_DIMENSIONS :: nat where
  "PARAMETER_DIMENSION_REGISTRY_MAX_DIMENSIONS = 64"

datatype parameter_dimension_configuration_error = ParameterDimensionConfigurationError string

definition DECLARATION_KEYS :: "string list" where
  "DECLARATION_KEYS = [''id'', ''type'', ''bound'']"

definition dimension_error :: "nat \<Rightarrow> string \<Rightarrow> parameter_dimension_configuration_error" where
  "dimension_error index what =
     ParameterDimensionConfigurationError (''parameterDimensions['' @ nat_toString index @ '']'' @ what)"

fun kind_name :: "governed_parameter_bound_kind \<Rightarrow> string" where
  "kind_name ExactKind = ''exact''"
| "kind_name MaximumKind = ''maximum''"

definition read_dimension ::
  "js_value \<Rightarrow> nat \<Rightarrow> parameter_dimension_configuration_error + parameter_dimension_declaration" where
  "read_dimension raw index =
     (if \<not> isPlainRecord raw then Inl (dimension_error index '' must be an object.'')
      else
        let extra = filter (\<lambda>key. key \<notin> set DECLARATION_KEYS) (ownKeys raw)
        in if extra \<noteq> [] then
             Inl (dimension_error index ('' carries undeclared properties: '' @ join '', '' extra @ ''.''))
           else case js_get raw ''id'' of
             JSString i \<Rightarrow>
               if \<not> isSemanticIdentifier (JSString i)
               then Inl (dimension_error index ''.id is not a semantic identifier.'')
               else (case isGovernedParameterType (js_get raw ''type'') of
                 None \<Rightarrow> Inl (dimension_error index ''.type must be one of integer, token, boolean.'')
               | Some t \<Rightarrow>
                 (case isGovernedParameterBoundKind (js_get raw ''bound'') of
                    None \<Rightarrow> Inl (dimension_error index ''.bound must be one of exact, maximum.'')
                  | Some b \<Rightarrow>
                      if \<not> governedParameterBoundKindSupports b t
                      then Inl (dimension_error index ('' declares a '' @ kind_name b @ '' bound, which a ''
                             @ type_name t @ '' cannot support.''))
                      else Inr \<lparr>dim_id = i, dim_type = t, dim_bound = b\<rparr>))
           | _ \<Rightarrow> Inl (dimension_error index ''.id is not a semantic identifier.''))"

fun collect_dimensions ::
  "js_value list \<Rightarrow> nat \<Rightarrow> (string \<times> parameter_dimension_declaration) list \<Rightarrow> string list
     \<Rightarrow> parameter_dimension_configuration_error + (string \<times> parameter_dimension_declaration) list" where
  "collect_dimensions [] index byId folds = Inr byId"
| "collect_dimensions (raw # raws) index byId folds =
     (case read_dimension raw index of Inl e \<Rightarrow> Inl e
      | Inr d \<Rightarrow>
          let fold = semanticIdentifierFold (dim_id d)
          in if fold \<in> set folds
             then Inl (dimension_error index (''.id '' @ dim_id d @
                    '' duplicates another dimension (identifiers are unique regardless of case).''))
             else collect_dimensions raws (index + 1) (AList.update (dim_id d) d byId) (js_set_add folds fold))"

fun createParameterDimensionRegistry ::
  "js_value \<Rightarrow> parameter_dimension_configuration_error + parameter_dimension_registry" where
  "createParameterDimensionRegistry (JSArray declarations) =
     (if length declarations > PARAMETER_DIMENSION_REGISTRY_MAX_DIMENSIONS
      then Inl (ParameterDimensionConfigurationError ''At most 64 parameter dimensions may be declared.'')
      else case collect_dimensions declarations 0 [] [] of Inl e \<Rightarrow> Inl e
      | Inr byId \<Rightarrow> Inr \<lparr>dim_byId = byId, dimensions = sort_key dim_id (map snd byId)\<rparr>)"
| "createParameterDimensionRegistry _ =
     Inl (ParameterDimensionConfigurationError ''parameterDimensions must be an array.'')"

definition getDimension ::
  "parameter_dimension_registry \<Rightarrow> string \<Rightarrow> parameter_dimension_declaration option" where
  "getDimension reg i = map_of (dim_byId reg) i"

definition compareDimensionIds :: "string \<Rightarrow> string \<Rightarrow> int" where
  "compareDimensionIds l r = (if l < r then - 1 else if r < l then 1 else 0)"

section \<open>Semantics of governed actions\<close>

record governance_profile_reference =
  profile_id :: string
  profile_version :: js_number
  profile_digest :: string

record governed_action_semantics =
  sem_actionClass :: string
  sem_resourceClass :: string
  sem_governanceProfile :: governance_profile_reference

definition GOVERNANCE_PROFILE_VERSION_MAX :: int where
  "GOVERNANCE_PROFILE_VERSION_MAX = 2147483647"

definition GOVERNED_PARAMETERS_MAX :: nat where
  "GOVERNED_PARAMETERS_MAX = 32"

definition is_lower_hex :: "char \<Rightarrow> bool" where
  "is_lower_hex c \<longleftrightarrow> is_digit c \<or> (97 \<le> code_unit c \<and> code_unit c \<le> 102)"

definition DIGEST :: "string \<Rightarrow> bool" where
  "DIGEST s \<longleftrightarrow> take 7 s = ''sha256:'' \<and> length s = 71 \<and> list_all is_lower_hex (drop 7 s)"

fun isGovernanceProfileVersion :: "js_value \<Rightarrow> bool" where
  "isGovernanceProfileVersion (JSNumber n) =
     (isSafeInteger n \<and> js_num_le (NumInt 1) n \<and> js_num_le n (NumInt GOVERNANCE_PROFILE_VERSION_MAX))"
| "isGovernanceProfileVersion _ = False"

definition isWellFormedGovernanceProfileReference :: "governance_profile_reference \<Rightarrow> bool" where
  "isWellFormedGovernanceProfileReference ref \<longleftrightarrow>
     isSemanticIdentifier (JSString (profile_id ref)) \<and>
     isGovernanceProfileVersion (JSNumber (profile_version ref)) \<and>
     DIGEST (profile_digest ref)"

definition formatGovernanceProfileReference :: "platform \<Rightarrow> governance_profile_reference \<Rightarrow> string" where
  "formatGovernanceProfileReference P ref =
     profile_id ref @ ''@'' @ js_number_toString P (profile_version ref) @ ''#'' @ profile_digest ref"

definition isWellFormedGovernedActionSemantics :: "governed_action_semantics \<Rightarrow> bool" where
  "isWellFormedGovernedActionSemantics s \<longleftrightarrow>
     isSemanticIdentifier (JSString (sem_actionClass s)) \<and>
     isSemanticIdentifier (JSString (sem_resourceClass s)) \<and>
     isWellFormedGovernanceProfileReference (sem_governanceProfile s)"

definition isWellFormedDeclaredGovernedParameters :: "declared_governed_parameter list \<Rightarrow> bool" where
  "isWellFormedDeclaredGovernedParameters parameters \<longleftrightarrow>
     parameters \<noteq> [] \<and> length parameters \<le> GOVERNED_PARAMETERS_MAX \<and>
     list_all (\<lambda>i.
       isWellFormedGovernedParameter (governed_parameter.truncate (parameters ! i)) \<and>
       governedParameterBoundKindSupports (declared_bound (parameters ! i)) (value_type (param_value (parameters ! i))) \<and>
       (i = 0 \<or> compareDimensionIds (dimension (parameters ! (i - 1))) (dimension (parameters ! i)) < 0))
     [0..<length parameters]"

section \<open>The parameter bound algebra\<close>

lemma isGovernedParameterInteger_iff:
  "isGovernedParameterInteger (JSNumber n) \<longleftrightarrow> (\<exists>i. n = NumInt i \<and> \<bar>i\<bar> \<le> MAX_SAFE_INTEGER)"
  by (cases n) auto

lemma values_equal_iff:
  assumes "isWellFormedGovernedParameterValue v" "isWellFormedGovernedParameterValue w"
  shows "governedParameterValuesEqual v w \<longleftrightarrow> v = w"
  using assms
  by (cases v; cases w) (auto simp add: isGovernedParameterInteger_iff simp del: isGovernedParameterInteger.simps)

lemma wf_bound_cases:
  assumes "isWellFormedGovernedParameterBound b"
  obtains (exact) v where "b = ExactBound v" "isWellFormedGovernedParameterValue v"
    | (maximum) i where "b = MaximumBound (NumInt i)" "\<bar>i\<bar> \<le> MAX_SAFE_INTEGER"
  using assms
  by (cases b) (auto simp add: isGovernedParameterInteger_iff simp del: isGovernedParameterInteger.simps)

lemma compare_parameter_exact:
  "isWellFormedGovernedParameterValue v \<Longrightarrow> isWellFormedGovernedParameterValue w \<Longrightarrow>
     compareGovernedParameterBound (ExactBound v) (ExactBound w) = (if v = w then Equal else IncomparableBound)"
  by (auto simp add: compareGovernedParameterBound_def values_equal_iff)

lemma compare_parameter_maximum:
  "\<bar>i\<bar> \<le> MAX_SAFE_INTEGER \<Longrightarrow> \<bar>j\<bar> \<le> MAX_SAFE_INTEGER \<Longrightarrow>
     compareGovernedParameterBound (MaximumBound (NumInt i)) (MaximumBound (NumInt j)) =
       (if i < j then Broader else if i = j then Equal else Narrower)"
  by (auto simp add: compareGovernedParameterBound_def)

lemma compare_parameter_mixed:
  "compareGovernedParameterBound (ExactBound v) (MaximumBound n) = IncomparableBound"
  "compareGovernedParameterBound (MaximumBound n) (ExactBound v) = IncomparableBound"
  by (simp_all add: compareGovernedParameterBound_def)

lemmas compare_parameter = compare_parameter_exact compare_parameter_maximum compare_parameter_mixed

lemma compare_parameter_malformed:
  "\<not> isWellFormedGovernedParameterBound a \<or> \<not> isWellFormedGovernedParameterBound b \<Longrightarrow>
     compareGovernedParameterBound a b = IncomparableBound"
  by (auto simp add: compareGovernedParameterBound_def)

lemma compare_parameter_wf:
  "compareGovernedParameterBound a b \<noteq> IncomparableBound \<Longrightarrow>
     isWellFormedGovernedParameterBound a \<and> isWellFormedGovernedParameterBound b"
  using compare_parameter_malformed by blast

lemma admits_exact:
  "isWellFormedGovernedParameterValue w \<Longrightarrow>
     governedParameterBoundAdmits (ExactBound w) v \<longleftrightarrow> v = w"
  by (auto simp add: governedParameterBoundAdmits_def values_equal_iff)

lemma admits_maximum:
  "\<bar>m\<bar> \<le> MAX_SAFE_INTEGER \<Longrightarrow>
     governedParameterBoundAdmits (MaximumBound (NumInt m)) v \<longleftrightarrow>
       (\<exists>i. v = IntegerValue (NumInt i) \<and> \<bar>i\<bar> \<le> MAX_SAFE_INTEGER \<and> i \<le> m)"
  by (cases v)
    (auto simp add: governedParameterBoundAdmits_def isGovernedParameterInteger_iff
      simp del: isGovernedParameterInteger.simps isWellFormedGovernedParameterBound.simps,
     auto)

text \<open>Between well-formed bounds of one kind, the comparison is inclusion of admitted values.\<close>

lemma compare_parameter_inclusion:
  assumes "compareGovernedParameterBound a b \<in> {Equal, Narrower}" "governedParameterBoundAdmits b v"
  shows "governedParameterBoundAdmits a v"
proof -
  have wf: "isWellFormedGovernedParameterBound a" "isWellFormedGovernedParameterBound b"
    using assms(1) compare_parameter_wf [of a b] by auto
  from wf(1) show ?thesis
  proof (cases rule: wf_bound_cases)
    case (exact v)
    from wf(2) show ?thesis
      by (cases rule: wf_bound_cases) (use exact assms in \<open>auto simp add: compare_parameter split: if_splits\<close>)
  next
    case (maximum i)
    from wf(2) show ?thesis
      by (cases rule: wf_bound_cases)
        (use maximum assms in \<open>auto simp add: compare_parameter admits_maximum split: if_splits\<close>)
  qed
qed

interpretation params: bound_algebra isWellFormedGovernedParameterBound
  compareGovernedParameterBound governedParameterBoundAdmits
proof unfold_locales
  fix a b c :: governed_parameter_bound and v
  show "compareGovernedParameterBound a b = IncomparableBound"
    if "\<not> isWellFormedGovernedParameterBound a \<or> \<not> isWellFormedGovernedParameterBound b"
    using that by (rule compare_parameter_malformed)
  show "compareGovernedParameterBound a a = Equal" if "isWellFormedGovernedParameterBound a"
    using that by (cases rule: wf_bound_cases) (auto simp add: compare_parameter)
  show "compareGovernedParameterBound a c \<in> {Equal, Narrower}"
    if ab: "compareGovernedParameterBound a b \<in> {Equal, Narrower}"
      and bc: "compareGovernedParameterBound b c \<in> {Equal, Narrower}"
  proof -
    have "isWellFormedGovernedParameterBound a" "isWellFormedGovernedParameterBound b"
      "isWellFormedGovernedParameterBound c"
      using ab bc compare_parameter_wf [of a b] compare_parameter_wf [of b c] by auto
    then show ?thesis using ab bc
      by (elim wf_bound_cases) (auto simp add: compare_parameter split: if_splits)
  qed
  show "compareGovernedParameterBound b a = Broader" if "compareGovernedParameterBound a b = Narrower"
  proof -
    have "isWellFormedGovernedParameterBound a" "isWellFormedGovernedParameterBound b"
      using that compare_parameter_wf [of a b] by auto
    then show ?thesis using that
      by (elim wf_bound_cases) (auto simp add: compare_parameter split: if_splits)
  qed
  show "compareGovernedParameterBound b a = Equal" if "compareGovernedParameterBound a b = Equal"
  proof -
    have "isWellFormedGovernedParameterBound a" "isWellFormedGovernedParameterBound b"
      using that compare_parameter_wf [of a b] by auto
    then show ?thesis using that
      by (elim wf_bound_cases) (auto simp add: compare_parameter split: if_splits)
  qed
qed (rule compare_parameter_inclusion)

section \<open>Dimensions\<close>

definition valid_dimension :: "parameter_dimension_declaration \<Rightarrow> bool" where
  "valid_dimension d \<longleftrightarrow> isSemanticIdentifier (JSString (dim_id d)) \<and>
     governedParameterBoundKindSupports (dim_bound d) (dim_type d)"

definition dimensions_ok ::
  "(string \<times> parameter_dimension_declaration) list \<Rightarrow> string list \<Rightarrow> bool" where
  "dimensions_ok al folds \<longleftrightarrow>
     (\<forall>(k, d) \<in> set al. dim_id d = k \<and> valid_dimension d) \<and>
     set folds = semanticIdentifierFold ` fst ` set al \<and>
     distinct (map (semanticIdentifierFold \<circ> fst) al)"

lemma read_dimension_valid: "read_dimension raw i = Inr d \<Longrightarrow> valid_dimension d"
  by (auto simp add: read_dimension_def valid_dimension_def Let_def simp del: isSemanticIdentifier.simps
      split: if_splits js_value.splits option.splits)

lemma dimensions_ok_update:
  assumes "dimensions_ok al folds" "valid_dimension d" "semanticIdentifierFold (dim_id d) \<notin> set folds"
  shows "dimensions_ok (AList.update (dim_id d) d al) (js_set_add folds (semanticIdentifierFold (dim_id d)))"
proof -
  have "dim_id d \<notin> fst ` set al" using assms by (auto simp add: dimensions_ok_def)
  then have "AList.update (dim_id d) d al = al @ [(dim_id d, d)]" by (rule update_new_key)
  with assms show ?thesis by (auto simp add: dimensions_ok_def js_set_add_def)
qed

lemma collect_dimensions_ok:
  "collect_dimensions raws i al folds = Inr al' \<Longrightarrow> dimensions_ok al folds \<Longrightarrow>
     \<exists>folds'. dimensions_ok al' folds'"
  by (induction raws arbitrary: i al folds)
    (auto simp add: Let_def dimensions_ok_update dest: read_dimension_valid split: sum.splits if_splits)

lemma dimension_registry_ok:
  assumes "createParameterDimensionRegistry raw = Inr reg"
  shows "\<exists>folds. dimensions_ok (dim_byId reg) folds"
    and "dimensions reg = sort_key dim_id (map snd (dim_byId reg))"
proof -
  obtain ds al where al: "collect_dimensions ds 0 [] [] = Inr al" "dim_byId reg = al"
    "dimensions reg = sort_key dim_id (map snd al)"
    using assms by (cases raw) (auto split: if_splits sum.splits)
  have "dimensions_ok [] []" by (simp add: dimensions_ok_def)
  with al show "\<exists>folds. dimensions_ok (dim_byId reg) folds"
    using collect_dimensions_ok by blast
  show "dimensions reg = sort_key dim_id (map snd (dim_byId reg))" using al by simp
qed

lemma dimensions_ok_keys:
  assumes "dimensions_ok al folds"
  shows "map dim_id (map snd al) = map fst al" "distinct (map fst al)"
proof -
  show "map dim_id (map snd al) = map fst al" using assms by (auto simp add: dimensions_ok_def)
  have "distinct (map semanticIdentifierFold (map fst al))" using assms by (simp add: dimensions_ok_def)
  then show "distinct (map fst al)" by (simp only: distinct_map)
qed

interpretation dims: trusted_registry createParameterDimensionRegistry getDimension
  "\<lambda>reg. map dim_id (dimensions reg)" dim_id valid_dimension
proof unfold_locales
  fix raw reg i d
  assume b: "createParameterDimensionRegistry raw = Inr reg"
  obtain folds where ok: "dimensions_ok (dim_byId reg) folds" using dimension_registry_ok(1) [OF b] by blast
  let ?ids = "map dim_id (dimensions reg)"
  have perm: "mset ?ids = mset (map fst (dim_byId reg))"
    using dimension_registry_ok(2) [OF b] dimensions_ok_keys(1) [OF ok]
    by (metis mset_map mset_sort)
  have "sorted ?ids" using dimension_registry_ok(2) [OF b] by simp
  moreover have "distinct ?ids" using perm dimensions_ok_keys(2) [OF ok] by (metis mset_eq_imp_distinct_iff)
  moreover have "set ?ids = {i. getDimension reg i \<noteq> None}"
    using mset_eq_setD [OF perm] by (auto simp add: getDimension_def map_of_eq_None_iff image_iff)
  ultimately show "sorted ?ids \<and> distinct ?ids \<and> set ?ids = {i. getDimension reg i \<noteq> None}" by blast
  assume "getDimension reg i = Some d"
  then show "dim_id d = i \<and> valid_dimension d"
    using ok by (auto simp add: getDimension_def dimensions_ok_def dest: map_of_SomeD)
qed

lemma fold_unique:
  assumes "dimensions_ok al folds" "map_of al i = Some d" "map_of al j = Some e"
    "semanticIdentifierFold i = semanticIdentifierFold j"
  shows "i = j"
proof -
  have "i \<in> fst ` set al" "j \<in> fst ` set al"
    using assms(2,3) by (force dest: map_of_SomeD)+
  moreover have "inj_on semanticIdentifierFold (fst ` set al)"
    using assms(1) by (simp add: dimensions_ok_def distinct_map flip: map_map)
  ultimately show ?thesis using assms(4) by (meson inj_onD)
qed

section \<open>Profile references\<close>

lemma semantic_rest_chars:
  "semantic_rest b cs \<Longrightarrow> c \<in> set cs \<Longrightarrow> is_alnum c \<or> c \<in> set ''._-''"
  by (induction b cs rule: semantic_rest.induct) (auto split: if_splits)

lemma semantic_identifier_chars:
  assumes "isSemanticIdentifier (JSString s)" "c \<in> set s"
  shows "is_alnum c \<or> c \<in> set ''._-''"
  using assms semantic_rest_chars [of False "tl s" c]
  by (cases s) (auto simp add: is_alnum_def)

lemma semantic_identifier_no_at: "isSemanticIdentifier (JSString s) \<Longrightarrow> CHR ''@'' \<notin> set s"
  using semantic_identifier_chars [of s "CHR ''@''"]
  by (auto simp add: is_alnum_def is_digit_def is_upper_def is_lower_def code_unit_def
      simp del: isSemanticIdentifier.simps)

lemma profile_version_int:
  assumes "isGovernanceProfileVersion (JSNumber n)"
  obtains i where "n = NumInt i" "1 \<le> i" "i \<le> MAX_SAFE_INTEGER"
  using assms by (cases n) (auto simp add: GOVERNANCE_PROFILE_VERSION_MAX_def)

lemma version_text:
  "1 \<le> i \<Longrightarrow> i \<le> MAX_SAFE_INTEGER \<Longrightarrow> js_number_toString P (NumInt i) = nat_toString (nat i)"
  by (simp add: js_number_toString_def int_toString_def)

lemma nat_toString_no_hash: "CHR ''#'' \<notin> set (nat_toString n)"
proof
  assume "CHR ''#'' \<in> set (nat_toString n)"
  then have "is_digit (CHR ''#'')" using nat_toString_digits [of n] by (simp add: list_all_iff)
  then show False by (simp add: is_digit_def code_unit_def)
qed

lemma append_sep_inject:
  assumes "c \<notin> set xs" "c \<notin> set ys" "xs @ c # us = ys @ c # vs"
  shows "xs = ys \<and> us = vs"
  using assms
proof (induction xs arbitrary: ys)
  case Nil
  then show ?case by (cases ys) auto
next
  case (Cons x xs)
  then show ?case by (cases ys) auto
qed

section \<open>Canonical texts of bounds\<close>

lemma parameter_bound_members_ok:
  "isWellFormedGovernedParameterBound b \<Longrightarrow> json_ok (JObj (parameter_bound_members b))"
  by (erule wf_bound_cases)
    (auto simp add: json_ok_JObj isGovernedParameterInteger_iff
      simp del: json_ok.simps(6) isGovernedParameterInteger.simps
      elim!: isWellFormedGovernedParameterValue.elims)

lemma parameter_bound_members_inject:
  "parameter_bound_members a = parameter_bound_members b \<longleftrightarrow> a = b"
proof -
  have "parameter_value_json v = parameter_value_json w \<longleftrightarrow> v = w" for v w
    by (cases v; cases w) auto
  then show ?thesis by (cases a; cases b) auto
qed

section \<open>Properties\<close>

text \<open>
  C34: on parameter bounds of one kind, a requested bound compares as equal or narrower exactly
  when both are well formed and it admits no value the source does not admit; bounds of
  different kinds are never permitted.
\<close>

theorem parameter_bound_containment:
  "(governedParameterBoundComparisonPermits (compareGovernedParameterBound a b) \<longleftrightarrow>
     isWellFormedGovernedParameterBound a \<and> isWellFormedGovernedParameterBound b \<and>
     ((\<exists>v w. a = ExactBound v \<and> b = ExactBound w) \<or> (\<exists>m n. a = MaximumBound m \<and> b = MaximumBound n)) \<and>
     {v. governedParameterBoundAdmits b v} \<subseteq> {v. governedParameterBoundAdmits a v})"
  (is "?L \<longleftrightarrow> ?R")
proof
  assume L: ?L
  then have p: "compareGovernedParameterBound a b \<in> {Equal, Narrower}"
    by (simp add: governedParameterBoundComparisonPermits_def)
  then have "isWellFormedGovernedParameterBound a \<and> isWellFormedGovernedParameterBound b"
    using compare_parameter_wf [of a b] by auto
  moreover have "(\<exists>v w. a = ExactBound v \<and> b = ExactBound w) \<or> (\<exists>m n. a = MaximumBound m \<and> b = MaximumBound n)"
    using p by (cases a; cases b) (auto simp add: compare_parameter_mixed)
  ultimately show ?R using params.inclusion [OF p] by blast
next
  assume R: ?R
  then have wf: "isWellFormedGovernedParameterBound a" "isWellFormedGovernedParameterBound b" by auto
  from wf(1) show ?L
  proof (cases rule: wf_bound_cases)
    case (exact v)
    from wf(2) show ?thesis
      by (cases rule: wf_bound_cases)
        (use R exact in \<open>auto simp add: compare_parameter admits_exact governedParameterBoundComparisonPermits_def\<close>)
  next
    case (maximum i)
    from wf(2) show ?thesis
    proof (cases rule: wf_bound_cases)
      case (maximum j)
      have "governedParameterBoundAdmits b (IntegerValue (NumInt j))"
        using maximum by (simp add: admits_maximum)
      then have "governedParameterBoundAdmits a (IntegerValue (NumInt j))" using R by blast
      then have "j \<le> i" using \<open>a = MaximumBound (NumInt i)\<close> \<open>\<bar>i\<bar> \<le> MAX_SAFE_INTEGER\<close> by (simp add: admits_maximum)
      then show ?thesis
        using maximum \<open>a = MaximumBound (NumInt i)\<close> \<open>\<bar>i\<bar> \<le> MAX_SAFE_INTEGER\<close>
        by (simp add: compare_parameter governedParameterBoundComparisonPermits_def)
    qed (use R maximum in auto)
  qed
qed

text \<open>
  in a registry of dimensions every lookup answers a declaration with exactly the
  identifier asked for and a bound kind its type supports, two declared identifiers never
  differ only by case, and the published list is sorted by identifier.
\<close>

theorem dimension_registry_closed:
  assumes "createParameterDimensionRegistry raw = Inr reg"
  shows "(getDimension reg i = Some d \<longrightarrow>
      dim_id d = i \<and> isSemanticIdentifier (JSString i) \<and> governedParameterBoundKindSupports (dim_bound d) (dim_type d)) \<and>
    (getDimension reg i \<noteq> None \<and> getDimension reg j \<noteq> None \<and>
       semanticIdentifierFold i = semanticIdentifierFold j \<longrightarrow> i = j) \<and>
    sorted (map dim_id (dimensions reg)) \<and>
    set (map dim_id (dimensions reg)) = {i. getDimension reg i \<noteq> None}"
proof -
  obtain folds where "dimensions_ok (dim_byId reg) folds" using dimension_registry_ok(1) [OF assms] by blast
  then show ?thesis
    using dims.get_ident [OF assms] dims.build_ids [OF assms] fold_unique
    by (auto simp add: valid_dimension_def getDimension_def simp del: isSemanticIdentifier.simps)
qed

definition record_count_configuration :: js_value where
  "record_count_configuration = JSArray [JSObject True
     [(''id'', DataProp (JSString ''recordCount'')), (''type'', DataProp (JSString ''integer'')),
      (''bound'', DataProp (JSString ''maximum''))]]"

theorem dimension_registry_closed_witness:
  "\<exists>reg. createParameterDimensionRegistry record_count_configuration = Inr reg \<and>
     getDimension reg ''recordCount'' \<noteq> None \<and> sorted (map dim_id (dimensions reg))"
proof -
  let ?d = "\<lparr>dim_id = ''recordCount'', dim_type = IntegerType, dim_bound = MaximumKind\<rparr>"
  let ?reg = "\<lparr>dim_byId = [(''recordCount'', ?d)], dimensions = [?d]\<rparr>"
  have r: "createParameterDimensionRegistry record_count_configuration = Inr ?reg" by code_simp
  have g: "getDimension ?reg ''recordCount'' \<noteq> None" by (simp add: getDimension_def)
  show ?thesis using dimension_registry_closed [OF r] r g by blast
qed

text \<open>
  The one string form of a governance profile reference is unambiguous: two well-formed
  references with the same text are the same reference.
\<close>

theorem profile_reference_unambiguous:
  assumes "isWellFormedGovernanceProfileReference a" "isWellFormedGovernanceProfileReference b"
  shows "formatGovernanceProfileReference P a = formatGovernanceProfileReference P b \<longleftrightarrow> a = b"
proof
  assume eq: "formatGovernanceProfileReference P a = formatGovernanceProfileReference P b"
  obtain i where i: "profile_version a = NumInt i" "1 \<le> i" "i \<le> MAX_SAFE_INTEGER"
    using assms(1) profile_version_int unfolding isWellFormedGovernanceProfileReference_def by metis
  obtain j where j: "profile_version b = NumInt j" "1 \<le> j" "j \<le> MAX_SAFE_INTEGER"
    using assms(2) profile_version_int unfolding isWellFormedGovernanceProfileReference_def by metis
  have at: "CHR ''@'' \<notin> set (profile_id a)" "CHR ''@'' \<notin> set (profile_id b)"
    using assms semantic_identifier_no_at unfolding isWellFormedGovernanceProfileReference_def by blast+
  have 1: "profile_id a = profile_id b"
    and 2: "nat_toString (nat i) @ CHR ''#'' # profile_digest a = nat_toString (nat j) @ CHR ''#'' # profile_digest b"
    using append_sep_inject [OF at] eq i j
    by (auto simp add: formatGovernanceProfileReference_def version_text)
  from append_sep_inject [OF nat_toString_no_hash nat_toString_no_hash 2]
  show "a = b" using 1 i j by (intro governance_profile_reference.equality) auto
qed simp

theorem profile_reference_unambiguous_witness:
  "\<forall>P. formatGovernanceProfileReference P
      \<lparr>profile_id = ''export'', profile_version = NumInt 1, profile_digest = ''sha256:'' @ replicate 64 (CHR ''a'')\<rparr>
   \<noteq> formatGovernanceProfileReference P
      \<lparr>profile_id = ''export'', profile_version = NumInt 2, profile_digest = ''sha256:'' @ replicate 64 (CHR ''a'')\<rparr>"
  (is "\<forall>P. formatGovernanceProfileReference P ?a \<noteq> formatGovernanceProfileReference P ?b")
proof -
  have a: "isWellFormedGovernanceProfileReference ?a" by code_simp
  have b: "isWellFormedGovernanceProfileReference ?b" by code_simp
  show ?thesis using profile_reference_unambiguous [OF a b] by simp
qed

end
