(* ===== verification/Grant_Bounds.thy ===== *)
theory Grant_Bounds
  imports Governed_Parameters
begin

text \<open>
  The bounds of grants, scopes and the attenuation engine:
  \<open>grant-runtime/domain/grant-bound.ts\<close>, \<open>grant-scope.ts\<close>, \<open>grant-reason-codes.ts\<close> and
  \<open>grant-attenuation.ts\<close>.  The optional axis fields of a scope are a function from the closed
  set of keys; the lemmas show the settling invariant, that what attenuation derives lies within
  the scope it derives from, on every axis and on every declared parameter.
\<close>

section \<open>Reason codes\<close>

datatype grant_reason_code =
    GRANT_AUTHORIZATION_NOT_PERMITTED
  | GRANT_OBLIGATIONS_UNSATISFIED
  | GRANT_SOURCE_BOUNDS_INCOMPLETE
  | GRANT_SCOPE_BROADENING
  | GRANT_BOUND_INCOMPARABLE
  | GRANT_SUBJECT_INVALID
  | GRANT_CORRELATION_INVALID
  | GRANT_VALIDITY_INVALID
  | GRANT_ELIGIBILITY_CHANGED
  | GRANT_ALREADY_ISSUED
  | GRANT_EXPIRED
  | GRANT_REVOKED
  | GRANT_NOT_FOUND
  | GRANT_SEMANTICS_FORMAT_INVALID

section \<open>Bounds\<close>

datatype grant_bound =
    IdentityBound string
  | SetBound "string list"
  | CeilingBound (ceiling_limit: string) (ceiling_unit: string)
  | WindowBound string

datatype grant_bound_kind = IdentityKind | SetKind | CeilingKind | WindowKind

fun bound_kind :: "grant_bound \<Rightarrow> grant_bound_kind" where
  "bound_kind (IdentityBound v) = IdentityKind"
| "bound_kind (SetBound vs) = SetKind"
| "bound_kind (CeilingBound l u) = CeilingKind"
| "bound_kind (WindowBound t) = WindowKind"

definition grantBoundComparisonPermits :: "bound_comparison \<Rightarrow> bool" where
  "grantBoundComparisonPermits c \<longleftrightarrow> c = Equal \<or> c = Narrower"

definition canonicalGrantSetValues :: "string list \<Rightarrow> string list" where
  "canonicalGrantSetValues vs = sort (js_set vs)"

definition setsEqual :: "string list \<Rightarrow> string list \<Rightarrow> bool" where
  "setsEqual l r \<longleftrightarrow> length l = length r \<and> list_all (\<lambda>i. l ! i = r ! i) [0..<length l]"

fun isWellFormedGrantBound :: "platform \<Rightarrow> grant_bound \<Rightarrow> bool" where
  "isWellFormedGrantBound P (IdentityBound v) = (v \<noteq> [])"
| "isWellFormedGrantBound P (SetBound vs) = (vs \<noteq> [] \<and> list_all (\<lambda>v. v \<noteq> []) vs)"
| "isWellFormedGrantBound P (CeilingBound l u) =
     isWellFormedMonetaryAmount (amount_js \<lparr>amount_value = l, amount_unit = u\<rparr>)"
| "isWellFormedGrantBound P (WindowBound t) = (Date_parse P t \<noteq> None)"

definition compareGrantBound :: "platform \<Rightarrow> grant_bound \<Rightarrow> grant_bound \<Rightarrow> bound_comparison" where
  "compareGrantBound P source requested =
     (if \<not> isWellFormedGrantBound P source \<or> \<not> isWellFormedGrantBound P requested then IncomparableBound
      else case (source, requested) of
        (IdentityBound v, IdentityBound w) \<Rightarrow> if v = w then Equal else IncomparableBound
      | (SetBound vs, SetBound ws) \<Rightarrow>
          let parentValues = canonicalGrantSetValues vs; childValues = canonicalGrantSetValues ws
          in if \<not> list_all (\<lambda>v. v \<in> set parentValues) childValues then Broader
             else if setsEqual parentValues childValues then Equal else Narrower
      | (CeilingBound l u, CeilingBound l' u') \<Rightarrow>
          (case compareMonetaryAmounts \<lparr>amount_value = l', amount_unit = u'\<rparr> \<lparr>amount_value = l, amount_unit = u\<rparr> of
             Incomparable \<Rightarrow> IncomparableBound
           | Ordered k \<Rightarrow> if k > 0 then Broader else if k = 0 then Equal else Narrower)
      | (WindowBound t, WindowBound t') \<Rightarrow>
          (case (Date_parse P t, Date_parse P t') of
             (Some parentInstant, Some childInstant) \<Rightarrow>
               if childInstant > parentInstant then Broader
               else if childInstant = parentInstant then Equal else Narrower
           | _ \<Rightarrow> IncomparableBound)
      | _ \<Rightarrow> IncomparableBound)"

fun canonicalGrantBound :: "grant_bound \<Rightarrow> grant_bound" where
  "canonicalGrantBound (SetBound vs) = SetBound (canonicalGrantSetValues vs)"
| "canonicalGrantBound b = b"

section \<open>Scopes\<close>

datatype grant_bound_key =
    KAction | KActionClass | KAmount | KCounterparty | KGovernanceProfile | KOrganization
  | KResourceClass | KResources

fun key_name :: "grant_bound_key \<Rightarrow> string" where
  "key_name KAction = ''action''"
| "key_name KActionClass = ''actionClass''"
| "key_name KAmount = ''amount''"
| "key_name KCounterparty = ''counterparty''"
| "key_name KGovernanceProfile = ''governanceProfile''"
| "key_name KOrganization = ''organization''"
| "key_name KResourceClass = ''resourceClass''"
| "key_name KResources = ''resources''"

definition GRANT_BOUND_KEYS :: "grant_bound_key list" where
  "GRANT_BOUND_KEYS =
     [KAction, KActionClass, KAmount, KCounterparty, KGovernanceProfile, KOrganization, KResourceClass, KResources]"

fun GRANT_BOUND_KINDS_BY_KEY :: "grant_bound_key \<Rightarrow> grant_bound_kind" where
  "GRANT_BOUND_KINDS_BY_KEY KAmount = CeilingKind"
| "GRANT_BOUND_KINDS_BY_KEY KResources = SetKind"
| "GRANT_BOUND_KINDS_BY_KEY _ = IdentityKind"

record grant_parameter_bound =
  pb_dimension :: string
  pb_bound :: governed_parameter_bound

record grant_scope =
  axes :: "grant_bound_key \<Rightarrow> grant_bound option"
  parameters :: "grant_parameter_bound list option"

definition GRANT_SEMANTICS_FORMAT_V1 :: string where
  "GRANT_SEMANTICS_FORMAT_V1 = ''frontera.grant-semantics.v1''"

definition GRANT_SEMANTIC_AXES :: "grant_bound_key list" where
  "GRANT_SEMANTIC_AXES = [KActionClass, KGovernanceProfile, KResourceClass]"

definition GRANT_PARAMETER_BOUNDS_MAX :: nat where
  "GRANT_PARAMETER_BOUNDS_MAX = 64"

definition grantScopeCarriesSemantics :: "grant_scope \<Rightarrow> bool" where
  "grantScopeCarriesSemantics scope \<longleftrightarrow>
     list_ex (\<lambda>key. axes scope key \<noteq> None) GRANT_SEMANTIC_AXES \<or> parameters scope \<noteq> None"

definition hasCompleteGrantSemantics :: "grant_scope \<Rightarrow> bool" where
  "hasCompleteGrantSemantics scope =
     (let stated = length (filter (\<lambda>key. axes scope key \<noteq> None) GRANT_SEMANTIC_AXES)
      in if stated = 0 then parameters scope = None else stated = length GRANT_SEMANTIC_AXES)"

definition isConsistentGrantSemantics :: "grant_scope \<Rightarrow> string option \<Rightarrow> bool" where
  "isConsistentGrantSemantics scope semanticsFormat =
     (case semanticsFormat of
        None \<Rightarrow> \<not> grantScopeCarriesSemantics scope
      | Some f \<Rightarrow> f = GRANT_SEMANTICS_FORMAT_V1 \<and> grantScopeCarriesSemantics scope \<and> hasCompleteGrantSemantics scope)"

definition statedGrantBoundKeys :: "grant_scope \<Rightarrow> grant_bound_key list" where
  "statedGrantBoundKeys scope = filter (\<lambda>key. axes scope key \<noteq> None) GRANT_BOUND_KEYS"

definition isWellFormedGrantParameterBounds :: "grant_parameter_bound list \<Rightarrow> bool" where
  "isWellFormedGrantParameterBounds ps \<longleftrightarrow>
     ps \<noteq> [] \<and> length ps \<le> GRANT_PARAMETER_BOUNDS_MAX \<and>
     list_all (\<lambda>i.
       isSemanticIdentifier (JSString (pb_dimension (ps ! i))) \<and>
       isWellFormedGovernedParameterBound (pb_bound (ps ! i)) \<and>
       (i = 0 \<or> compareDimensionIds (pb_dimension (ps ! (i - 1))) (pb_dimension (ps ! i)) < 0))
     [0..<length ps]"

definition isWellFormedGrantScope :: "platform \<Rightarrow> grant_scope \<Rightarrow> bool" where
  "isWellFormedGrantScope P scope \<longleftrightarrow>
     list_all (\<lambda>key. case axes scope key of None \<Rightarrow> False
       | Some b \<Rightarrow> bound_kind b = GRANT_BOUND_KINDS_BY_KEY key \<and> isWellFormedGrantBound P b)
       (statedGrantBoundKeys scope) \<and>
     hasCompleteGrantSemantics scope \<and>
     (case parameters scope of None \<Rightarrow> True | Some ps \<Rightarrow> isWellFormedGrantParameterBounds ps)"

text \<open>An entry rebuilt from its declared fields is the entry: a record has no others.\<close>

definition canonicalGrantParameterBounds :: "grant_parameter_bound list \<Rightarrow> grant_parameter_bound list" where
  "canonicalGrantParameterBounds ps = sort_key pb_dimension ps"

definition grantParameterBound ::
  "grant_parameter_bound list option \<Rightarrow> string \<Rightarrow> grant_parameter_bound option" where
  "grantParameterBound ps d = (case ps of None \<Rightarrow> None | Some l \<Rightarrow> find (\<lambda>entry. pb_dimension entry = d) l)"

definition canonicalGrantScope :: "grant_scope \<Rightarrow> grant_scope" where
  "canonicalGrantScope scope =
     \<lparr>axes = (\<lambda>key. map_option canonicalGrantBound (axes scope key)),
      parameters = map_option canonicalGrantParameterBounds (parameters scope)\<rparr>"

fun grant_bound_json :: "grant_bound \<Rightarrow> json" where
  "grant_bound_json (IdentityBound v) = JObj [(''kind'', JStr ''identity''), (''value'', JStr v)]"
| "grant_bound_json (SetBound vs) = JObj [(''kind'', JStr ''set''), (''values'', JArr (map JStr vs))]"
| "grant_bound_json (CeilingBound l u) =
     JObj [(''kind'', JStr ''ceiling''), (''limit'', JStr l), (''unit'', JStr u)]"
| "grant_bound_json (WindowBound t) = JObj [(''kind'', JStr ''window''), (''notAfter'', JStr t)]"

definition serializeBound :: "platform \<Rightarrow> grant_bound \<Rightarrow> string" where
  "serializeBound P b = json_print P (grant_bound_json b)"

definition serializeGrantParameterBound :: "platform \<Rightarrow> grant_parameter_bound \<Rightarrow> string" where
  "serializeGrantParameterBound P entry =
     ''{'' @ json_string ''dimension'' @ '':'' @ json_string (pb_dimension entry) @ '','' @
     drop 1 (serializeGovernedParameterBound P (pb_bound entry))"

datatype serialized_scope_key = AxisPart grant_bound_key | ParametersPart

definition SERIALIZED_SCOPE_KEYS :: "serialized_scope_key list" where
  "SERIALIZED_SCOPE_KEYS =
     [AxisPart KAction, AxisPart KActionClass, AxisPart KAmount, AxisPart KCounterparty,
      AxisPart KGovernanceProfile, AxisPart KOrganization, ParametersPart, AxisPart KResourceClass,
      AxisPart KResources]"

fun scope_part :: "platform \<Rightarrow> grant_scope \<Rightarrow> serialized_scope_key \<Rightarrow> string list" where
  "scope_part P canonical ParametersPart =
     (case parameters canonical of None \<Rightarrow> []
      | Some ps \<Rightarrow> [json_string ''parameters'' @ '':['' @ join '','' (map (serializeGrantParameterBound P) ps) @ '']''])"
| "scope_part P canonical (AxisPart key) =
     (case axes canonical key of None \<Rightarrow> []
      | Some b \<Rightarrow> [json_string (key_name key) @ '':'' @ serializeBound P b])"

definition serializeGrantScope :: "platform \<Rightarrow> grant_scope \<Rightarrow> string" where
  "serializeGrantScope P scope =
     (let canonical = canonicalGrantScope scope
      in ''{'' @ join '','' (concat (map (scope_part P canonical) SERIALIZED_SCOPE_KEYS)) @ ''}'')"

definition grantScopeEquals :: "platform \<Rightarrow> grant_scope \<Rightarrow> grant_scope \<Rightarrow> bool" where
  "grantScopeEquals P l r \<longleftrightarrow> serializeGrantScope P l = serializeGrantScope P r"

section \<open>Attenuation\<close>

datatype grant_attenuation_key = AxisKey grant_bound_key | ParametersKey | ParameterKey string

record grant_bound_attenuation =
  att_key :: grant_attenuation_key
  att_comparison :: bound_comparison
  narrowingRequested :: bool
  permitted :: bool

record grant_attenuation_violation =
  vio_key :: grant_attenuation_key
  vio_reasonCode :: grant_reason_code
  vio_comparison :: bound_comparison

datatype grant_attenuation_outcome =
    Attenuated grant_scope "grant_bound_attenuation list"
  | Refused "grant_attenuation_violation list" "grant_bound_attenuation list"

definition violationFor :: "grant_attenuation_key \<Rightarrow> bound_comparison \<Rightarrow> grant_attenuation_violation" where
  "violationFor key comparison =
     \<lparr>vio_key = key,
      vio_reasonCode = (if comparison = Broader then GRANT_SCOPE_BROADENING else GRANT_BOUND_INCOMPARABLE),
      vio_comparison = comparison\<rparr>"

text \<open>The three lists the loop of the engine writes.\<close>

record 'd attenuation_state =
  st_bounds :: "grant_bound_attenuation list"
  st_violations :: "grant_attenuation_violation list"
  st_derived :: 'd

definition report ::
  "grant_attenuation_key \<Rightarrow> bound_comparison \<Rightarrow> bool \<Rightarrow> bool \<Rightarrow> 'd attenuation_state \<Rightarrow> 'd attenuation_state" where
  "report key comparison requested ok st = st
     \<lparr>st_bounds := st_bounds st @
        [\<lparr>att_key = key, att_comparison = comparison, narrowingRequested = requested, permitted = ok\<rparr>],
      st_violations := st_violations st @ (if ok then [] else [violationFor key comparison])\<rparr>"

definition attenuate_axis ::
  "platform \<Rightarrow> grant_scope \<Rightarrow> grant_scope \<Rightarrow> (grant_bound_key \<Rightarrow> grant_bound option) attenuation_state
     \<Rightarrow> grant_bound_key \<Rightarrow> (grant_bound_key \<Rightarrow> grant_bound option) attenuation_state" where
  "attenuate_axis P source requested st key =
     (case axes requested key of
        None \<Rightarrow>
          (case axes source key of
             None \<Rightarrow> st
           | Some sourceBound \<Rightarrow>
               if \<not> isWellFormedGrantBound P sourceBound \<or> bound_kind sourceBound \<noteq> GRANT_BOUND_KINDS_BY_KEY key
               then report (AxisKey key) IncomparableBound False False st
               else report (AxisKey key) Equal False True
                      (st\<lparr>st_derived := (st_derived st)(key := Some sourceBound)\<rparr>))
      | Some requestedBound \<Rightarrow>
          (case axes source key of
             None \<Rightarrow> report (AxisKey key) IncomparableBound True False st
           | Some sourceBound \<Rightarrow>
               if bound_kind requestedBound \<noteq> GRANT_BOUND_KINDS_BY_KEY key
                  \<or> bound_kind sourceBound \<noteq> GRANT_BOUND_KINDS_BY_KEY key
               then report (AxisKey key) IncomparableBound True False st
               else
                 let comparison = compareGrantBound P sourceBound requestedBound
                 in if \<not> grantBoundComparisonPermits comparison
                    then report (AxisKey key) comparison True False st
                    else report (AxisKey key) comparison True True
                           (st\<lparr>st_derived := (st_derived st)(key := Some requestedBound)\<rparr>)))"

definition attenuate_parameter ::
  "grant_parameter_bound list option \<Rightarrow> grant_parameter_bound list option
     \<Rightarrow> grant_parameter_bound list attenuation_state \<Rightarrow> string \<Rightarrow> grant_parameter_bound list attenuation_state" where
  "attenuate_parameter source requested st d =
     (case grantParameterBound requested d of
        None \<Rightarrow>
          (case grantParameterBound source d of
             None \<Rightarrow> st
           | Some sourceBound \<Rightarrow>
               report (ParameterKey d) Equal False True (st\<lparr>st_derived := st_derived st @ [sourceBound]\<rparr>))
      | Some requestedBound \<Rightarrow>
          (case grantParameterBound source d of
             None \<Rightarrow> report (ParameterKey d) IncomparableBound True False st
           | Some sourceBound \<Rightarrow>
               let comparison = compareGovernedParameterBound (pb_bound sourceBound) (pb_bound requestedBound)
               in if \<not> governedParameterBoundComparisonPermits comparison
                  then report (ParameterKey d) comparison True False st
                  else report (ParameterKey d) comparison True True
                         (st\<lparr>st_derived := st_derived st @ [requestedBound]\<rparr>)))"

definition option_list :: "'a list option \<Rightarrow> 'a list" where
  "option_list ps = (case ps of None \<Rightarrow> [] | Some l \<Rightarrow> l)"

definition unusable_parameters :: "grant_parameter_bound list option \<Rightarrow> bool" where
  "unusable_parameters ps = (case ps of None \<Rightarrow> False | Some l \<Rightarrow> \<not> isWellFormedGrantParameterBounds l)"

text \<open>The parameter half: the derived list, and the two lists the axes began.\<close>

definition attenuateParameterBounds ::
  "grant_parameter_bound list option \<Rightarrow> grant_parameter_bound list option
     \<Rightarrow> grant_bound_attenuation list \<Rightarrow> grant_attenuation_violation list
     \<Rightarrow> grant_parameter_bound list option attenuation_state" where
  "attenuateParameterBounds source requested bounds violations =
     (if source = None \<and> requested = None
      then \<lparr>st_bounds = bounds, st_violations = violations, st_derived = None\<rparr>
      else if unusable_parameters source \<or> unusable_parameters requested
      then report ParametersKey IncomparableBound (requested \<noteq> None) False
             \<lparr>st_bounds = bounds, st_violations = violations, st_derived = None\<rparr>
      else
        let dims = sort (js_set (map pb_dimension (option_list source @ option_list requested)));
            st = foldl (attenuate_parameter source requested)
                   \<lparr>st_bounds = bounds, st_violations = violations, st_derived = []\<rparr> dims
        in \<lparr>st_bounds = st_bounds st, st_violations = st_violations st,
            st_derived = (if st_derived st \<noteq> [] then Some (st_derived st) else None)\<rparr>)"

definition attenuateGrantScope ::
  "platform \<Rightarrow> grant_scope \<Rightarrow> grant_scope \<Rightarrow> grant_attenuation_outcome" where
  "attenuateGrantScope P source requested =
     (let ax = foldl (attenuate_axis P source requested)
                 \<lparr>st_bounds = [], st_violations = [], st_derived = (\<lambda>key. None)\<rparr> GRANT_BOUND_KEYS;
          ps = attenuateParameterBounds (parameters source) (parameters requested) (st_bounds ax) (st_violations ax)
      in if st_violations ps \<noteq> [] then Refused (st_violations ps) (st_bounds ps)
         else Attenuated (canonicalGrantScope \<lparr>axes = st_derived ax, parameters = st_derived ps\<rparr>) (st_bounds ps))"

definition parameterBoundsAreWithin ::
  "grant_parameter_bound list option \<Rightarrow> grant_parameter_bound list option \<Rightarrow> bool" where
  "parameterBoundsAreWithin parent child =
     (case child of
        None \<Rightarrow> parent = None
      | Some cs \<Rightarrow>
          (case parent of
             None \<Rightarrow> False
           | Some ps \<Rightarrow>
               isWellFormedGrantParameterBounds ps \<and> isWellFormedGrantParameterBounds cs \<and>
               length cs = length ps \<and>
               list_all (\<lambda>parentBound.
                 case grantParameterBound child (pb_dimension parentBound) of
                   None \<Rightarrow> False
                 | Some childBound \<Rightarrow>
                     governedParameterBoundComparisonPermits
                       (compareGovernedParameterBound (pb_bound parentBound) (pb_bound childBound))) ps))"

definition grantScopeIsWithin :: "platform \<Rightarrow> grant_scope \<Rightarrow> grant_scope \<Rightarrow> bool" where
  "grantScopeIsWithin P parent child \<longleftrightarrow>
     list_all (\<lambda>key.
       case axes child key of
         None \<Rightarrow> True
       | Some childBound \<Rightarrow>
           (case axes parent key of
              None \<Rightarrow> False
            | Some parentBound \<Rightarrow> grantBoundComparisonPermits (compareGrantBound P parentBound childBound)))
       GRANT_BOUND_KEYS \<and>
     parameterBoundsAreWithin (parameters parent) (parameters child)"

text \<open>The empty narrowing, the default of the code.\<close>

definition no_narrowing :: grant_scope where
  "no_narrowing = \<lparr>axes = (\<lambda>key. None), parameters = None\<rparr>"

section \<open>Keys are ordered by name\<close>

lemma key_name_inject [simp]: "key_name a = key_name b \<longleftrightarrow> a = b"
  by (cases a; cases b) simp_all

instantiation grant_bound_key :: linorder
begin

definition less_eq_grant_bound_key :: "grant_bound_key \<Rightarrow> grant_bound_key \<Rightarrow> bool" where
  "less_eq_grant_bound_key a b \<longleftrightarrow> key_name a \<le> key_name b"

definition less_grant_bound_key :: "grant_bound_key \<Rightarrow> grant_bound_key \<Rightarrow> bool" where
  "less_grant_bound_key a b \<longleftrightarrow> key_name a < key_name b"

instance
proof
  fix a b c :: grant_bound_key
  show "a < b \<longleftrightarrow> a \<le> b \<and> \<not> b \<le> a"
    by (simp add: less_eq_grant_bound_key_def less_grant_bound_key_def less_le_not_le)
  show "a \<le> a" by (simp add: less_eq_grant_bound_key_def)
  show "a \<le> b \<Longrightarrow> b \<le> c \<Longrightarrow> a \<le> c"
    unfolding less_eq_grant_bound_key_def by (rule order.trans)
  show "a \<le> b \<Longrightarrow> b \<le> a \<Longrightarrow> a = b"
    unfolding less_eq_grant_bound_key_def by (rule key_name_inject [THEN iffD1], rule order.antisym)
  show "a \<le> b \<or> b \<le> a" unfolding less_eq_grant_bound_key_def by (rule linear)
qed

end

lemma set_GRANT_BOUND_KEYS [simp]: "set GRANT_BOUND_KEYS = UNIV"
proof -
  have "k \<in> set GRANT_BOUND_KEYS" for k by (cases k) (simp_all add: GRANT_BOUND_KEYS_def)
  then show ?thesis by blast
qed

lemma distinct_GRANT_BOUND_KEYS [simp]: "distinct GRANT_BOUND_KEYS"
  by (simp add: GRANT_BOUND_KEYS_def)

section \<open>The grant bound algebra\<close>

lemma setsEqual_iff: "setsEqual l r \<longleftrightarrow> l = r"
  by (auto simp add: setsEqual_def list_eq_iff_nth_eq [of l r] list_all_iff)

lemma set_canonicalGrantSetValues [simp]: "set (canonicalGrantSetValues vs) = set vs"
  by (simp add: canonicalGrantSetValues_def)

lemma canonicalGrantSetValues_eq_iff [simp]:
  "canonicalGrantSetValues vs = canonicalGrantSetValues ws \<longleftrightarrow> set vs = set ws"
  by (metis canonicalGrantSetValues_def set_canonicalGrantSetValues sort_js_set_cong)

lemma compare_set:
  "isWellFormedGrantBound P (SetBound vs) \<Longrightarrow> isWellFormedGrantBound P (SetBound ws) \<Longrightarrow>
     compareGrantBound P (SetBound vs) (SetBound ws) =
       (if \<not> set ws \<subseteq> set vs then Broader else if set vs = set ws then Equal else Narrower)"
  by (auto simp add: compareGrantBound_def Let_def setsEqual_iff list_all_iff)

lemma compare_identity:
  "v \<noteq> [] \<Longrightarrow> w \<noteq> [] \<Longrightarrow>
     compareGrantBound P (IdentityBound v) (IdentityBound w) = (if v = w then Equal else IncomparableBound)"
  by (simp add: compareGrantBound_def)

lemma compare_ceiling:
  "isWellFormedGrantBound P (CeilingBound l u) \<Longrightarrow> isWellFormedGrantBound P (CeilingBound l' u') \<Longrightarrow>
     compareGrantBound P (CeilingBound l u) (CeilingBound l' u') =
       (if u \<noteq> u' then IncomparableBound
        else if decimal_quantity l < decimal_quantity l' then Broader
        else if decimal_quantity l = decimal_quantity l' then Equal else Narrower)"
  by (auto simp add: compareGrantBound_def compareMonetaryAmounts_cases)

lemma compare_window:
  "Date_parse P t = Some n \<Longrightarrow> Date_parse P t' = Some n' \<Longrightarrow>
     compareGrantBound P (WindowBound t) (WindowBound t') =
       (if n < n' then Broader else if n = n' then Equal else Narrower)"
  by (auto simp add: compareGrantBound_def)

lemma compare_grant_malformed:
  "\<not> isWellFormedGrantBound P a \<or> \<not> isWellFormedGrantBound P b \<Longrightarrow> compareGrantBound P a b = IncomparableBound"
  by (auto simp add: compareGrantBound_def)

lemma compare_grant_kinds:
  "bound_kind a \<noteq> bound_kind b \<Longrightarrow> compareGrantBound P a b = IncomparableBound"
  by (cases a; cases b) (simp_all add: compareGrantBound_def)

lemma compare_grant_wf:
  assumes "compareGrantBound P a b \<noteq> IncomparableBound"
  shows "isWellFormedGrantBound P a" "isWellFormedGrantBound P b" "bound_kind a = bound_kind b"
  using assms compare_grant_malformed compare_grant_kinds by blast+

text \<open>What a bound admits: a value, an amount of an asset, or an instant.\<close>

datatype axis_attempt = AttemptValue string | AttemptAmount string rat | AttemptInstant int

fun grant_bound_admits :: "platform \<Rightarrow> grant_bound \<Rightarrow> axis_attempt \<Rightarrow> bool" where
  "grant_bound_admits P (IdentityBound v) (AttemptValue w) = (v = w)"
| "grant_bound_admits P (SetBound vs) (AttemptValue w) = (w \<in> set vs)"
| "grant_bound_admits P (CeilingBound l u) (AttemptAmount u' q) = (u = u' \<and> q \<le> decimal_quantity l)"
| "grant_bound_admits P (WindowBound t) (AttemptInstant i) =
     (case Date_parse P t of None \<Rightarrow> False | Some n \<Rightarrow> i \<le> n)"
| "grant_bound_admits P _ _ = False"

lemmas compare_grant = compare_identity compare_set compare_ceiling compare_window

lemma grant_bound_pair_cases [consumes 1, case_names identity set ceiling window]:
  assumes "compareGrantBound P a b \<noteq> IncomparableBound"
  obtains v w where "a = IdentityBound v" "b = IdentityBound w" "v \<noteq> []" "w \<noteq> []"
    | vs ws where "a = SetBound vs" "b = SetBound ws" "isWellFormedGrantBound P a" "isWellFormedGrantBound P b"
    | l u l' u' where "a = CeilingBound l u" "b = CeilingBound l' u'"
        "isWellFormedGrantBound P a" "isWellFormedGrantBound P b"
    | t t' n n' where "a = WindowBound t" "b = WindowBound t'" "Date_parse P t = Some n" "Date_parse P t' = Some n'"
  using compare_grant_wf [OF assms] by (cases a; cases b) auto

lemma compare_grant_transitive:
  assumes ab: "compareGrantBound P a b \<in> {Equal, Narrower}" and bc: "compareGrantBound P b c \<in> {Equal, Narrower}"
  shows "compareGrantBound P a c \<in> {Equal, Narrower}"
proof -
  have 1: "compareGrantBound P a b \<noteq> IncomparableBound" and 2: "compareGrantBound P b c \<noteq> IncomparableBound"
    using ab bc by auto
  note wf = compare_grant_wf [OF 1] compare_grant_wf [OF 2]
  from 1 show ?thesis
  proof (cases rule: grant_bound_pair_cases)
    case identity
    with ab bc show ?thesis by (auto simp add: compare_identity split: if_splits)
  next
    case (set vs ws)
    with wf obtain xs where "c = SetBound xs" by (cases c) auto
    with set wf ab bc show ?thesis by (auto simp add: compare_set simp del: isWellFormedGrantBound.simps split: if_splits)
  next
    case (ceiling l u l' u')
    with wf obtain m x where "c = CeilingBound m x" by (cases c) auto
    with ceiling wf ab bc show ?thesis
      by (auto simp add: compare_ceiling simp del: isWellFormedGrantBound.simps split: if_splits)
  next
    case (window t t' n n')
    with wf obtain s m where "c = WindowBound s" "Date_parse P s = Some m" by (cases c) auto
    with window ab bc show ?thesis by (auto simp add: compare_window split: if_splits)
  qed
qed

interpretation grants: bound_algebra "isWellFormedGrantBound P" "compareGrantBound P" "grant_bound_admits P"
proof unfold_locales
  fix a b c :: grant_bound and v
  show "compareGrantBound P a b = IncomparableBound"
    if "\<not> isWellFormedGrantBound P a \<or> \<not> isWellFormedGrantBound P b"
    using that by (rule compare_grant_malformed)
  show "compareGrantBound P a a = Equal" if wf: "isWellFormedGrantBound P a"
  proof (cases a)
    case (IdentityBound v)
    then show ?thesis using wf by (simp add: compare_identity)
  next
    case (SetBound vs)
    then show ?thesis using wf compare_set [of P vs vs] by (simp del: isWellFormedGrantBound.simps)
  next
    case (CeilingBound l u)
    then show ?thesis using wf compare_ceiling [of P l u l u] by (simp del: isWellFormedGrantBound.simps)
  next
    case (WindowBound t)
    then obtain n where "Date_parse P t = Some n" using wf by (cases "Date_parse P t") auto
    then show ?thesis using WindowBound compare_window [of P t n t n] by simp
  qed
  show "compareGrantBound P a c \<in> {Equal, Narrower}"
    if "compareGrantBound P a b \<in> {Equal, Narrower}" "compareGrantBound P b c \<in> {Equal, Narrower}"
    using that by (rule compare_grant_transitive)
  show "compareGrantBound P b a = Broader" if n: "compareGrantBound P a b = Narrower"
  proof -
    have "compareGrantBound P a b \<noteq> IncomparableBound" using n by simp
    then show ?thesis
      by (cases rule: grant_bound_pair_cases)
        (use n in \<open>auto simp add: compare_grant simp del: isWellFormedGrantBound.simps split: if_splits\<close>)
  qed
  show "compareGrantBound P b a = Equal" if n: "compareGrantBound P a b = Equal"
  proof -
    have "compareGrantBound P a b \<noteq> IncomparableBound" using n by simp
    then show ?thesis
      by (cases rule: grant_bound_pair_cases)
        (use n in \<open>auto simp add: compare_grant simp del: isWellFormedGrantBound.simps split: if_splits\<close>)
  qed
  show "grant_bound_admits P a v"
    if n: "compareGrantBound P a b \<in> {Equal, Narrower}" and ad: "grant_bound_admits P b v"
  proof -
    have "compareGrantBound P a b \<noteq> IncomparableBound" using n by auto
    then show ?thesis
      by (cases rule: grant_bound_pair_cases)
        (use n ad in \<open>cases v; auto simp add: compare_grant simp del: isWellFormedGrantBound.simps split: if_splits\<close>)+
  qed
qed

lemma compare_canonical:
  "compareGrantBound P a (canonicalGrantBound b) = compareGrantBound P a b"
proof (cases b)
  case (SetBound vs)
  have wf: "isWellFormedGrantBound P (SetBound (canonicalGrantSetValues vs)) = isWellFormedGrantBound P (SetBound vs)"
    using set_canonicalGrantSetValues [of vs] by (auto simp add: list_all_iff simp flip: set_empty)
  show ?thesis
  proof (cases "isWellFormedGrantBound P a \<and> isWellFormedGrantBound P (SetBound vs) \<and> bound_kind a = SetKind")
    case True
    then obtain ws where "a = SetBound ws" by (cases a) auto
    with True SetBound wf show ?thesis by (simp add: compare_set del: isWellFormedGrantBound.simps)
  next
    case False
    then show ?thesis
      using SetBound wf compare_grant_malformed compare_grant_kinds
      by (metis bound_kind.simps(2) canonicalGrantBound.simps(1))
  qed
qed simp_all

section \<open>What attenuation derives\<close>

definition axis_permitted :: "platform \<Rightarrow> grant_scope \<Rightarrow> grant_scope \<Rightarrow> grant_bound_key \<Rightarrow> bool" where
  "axis_permitted P source requested key =
     (case (axes source key, axes requested key) of
        (None, None) \<Rightarrow> True
      | (None, Some _) \<Rightarrow> False
      | (Some sb, None) \<Rightarrow> isWellFormedGrantBound P sb \<and> bound_kind sb = GRANT_BOUND_KINDS_BY_KEY key
      | (Some sb, Some rb) \<Rightarrow>
          bound_kind sb = GRANT_BOUND_KINDS_BY_KEY key \<and> bound_kind rb = GRANT_BOUND_KINDS_BY_KEY key \<and>
          grantBoundComparisonPermits (compareGrantBound P sb rb))"

definition overridden :: "'a option \<Rightarrow> 'a option \<Rightarrow> 'a option" where
  "overridden source requested = (case requested of None \<Rightarrow> source | Some b \<Rightarrow> Some b)"

lemma report_simps [simp]:
  "st_derived (report key c r ok st) = st_derived st"
  "st_violations (report key c r ok st) = [] \<longleftrightarrow> st_violations st = [] \<and> ok"
  "st_bounds (report key c r ok st) \<noteq> []"
  by (simp_all add: report_def)

lemma attenuate_axis_step:
  shows "st_violations (attenuate_axis P s r st key) = [] \<longleftrightarrow> st_violations st = [] \<and> axis_permitted P s r key"
    and "axis_permitted P s r key \<Longrightarrow> st_derived (attenuate_axis P s r st key) =
      (if axes s key = None then st_derived st
       else (st_derived st)(key := overridden (axes s key) (axes r key)))"
  by (auto simp add: attenuate_axis_def axis_permitted_def overridden_def Let_def
      split: option.splits if_splits)

lemma attenuate_axes:
  assumes "distinct keys"
  shows "st_violations (foldl (attenuate_axis P s r) st keys) = [] \<longleftrightarrow>
      st_violations st = [] \<and> (\<forall>key \<in> set keys. axis_permitted P s r key)"
    and "(\<forall>key \<in> set keys. axis_permitted P s r key) \<Longrightarrow> (\<forall>key \<in> set keys. st_derived st key = None) \<Longrightarrow>
      st_derived (foldl (attenuate_axis P s r) st keys) =
        (\<lambda>key. if key \<in> set keys then overridden (axes s key) (axes r key) else st_derived st key)"
  using assms
proof (induction keys arbitrary: st)
  case Nil
  {
    case 1
    show ?case by simp
  next
    case 2
    show ?case by simp
  }
next
  case (Cons k ks)
  {
    case 1
    then show ?case using Cons.IH(1) by (simp add: attenuate_axis_step(1))
  next
    case 2
    then have k: "axis_permitted P s r k" by simp
    note step = attenuate_axis_step(2) [OF k, of st]
    have none: "axes s k = None \<Longrightarrow> overridden (axes s k) (axes r k) = None"
      using k by (auto simp add: axis_permitted_def overridden_def split: option.splits)
    have "\<forall>key \<in> set ks. st_derived (attenuate_axis P s r st k) key = None"
      using 2 step by auto
    then have "st_derived (foldl (attenuate_axis P s r) (attenuate_axis P s r st k) ks) =
        (\<lambda>key. if key \<in> set ks then overridden (axes s key) (axes r key)
               else st_derived (attenuate_axis P s r st k) key)"
      using Cons.IH(2) 2 by simp
    then show ?case using 2 step none by (auto simp add: fun_eq_iff)
  }
qed

text \<open>Parameter lists that are well formed as stored are strictly ascending.\<close>

lemma compareDimensionIds_less [simp]: "compareDimensionIds a b < 0 \<longleftrightarrow> a < b"
  by (simp add: compareDimensionIds_def)

lemma list_all_index:
  "list_all (\<lambda>i. A (xs ! i) \<and> B (xs ! i) \<and> C i) [0..<length xs] \<longleftrightarrow> (\<forall>x \<in> set xs. A x \<and> B x) \<and> (\<forall>i < length xs. C i)"
  by (auto simp add: list_all_iff all_set_conv_all_nth)

lemma consecutive_index:
  "(\<forall>i < n. i = 0 \<or> Q (i - 1) i) \<longleftrightarrow> (\<forall>i. Suc i < n \<longrightarrow> Q i (Suc i))"
proof
  assume L: "\<forall>i < n. i = 0 \<or> Q (i - 1) i"
  show "\<forall>i. Suc i < n \<longrightarrow> Q i (Suc i)" using L by force
next
  assume R: "\<forall>i. Suc i < n \<longrightarrow> Q i (Suc i)"
  show "\<forall>i < n. i = 0 \<or> Q (i - 1) i"
  proof (intro allI impI)
    fix i assume "i < n"
    then show "i = 0 \<or> Q (i - 1) i" using R by (cases i) auto
  qed
qed

lemma wf_parameters_iff:
  "isWellFormedGrantParameterBounds ps \<longleftrightarrow>
     ps \<noteq> [] \<and> length ps \<le> GRANT_PARAMETER_BOUNDS_MAX \<and>
     (\<forall>e \<in> set ps. isSemanticIdentifier (JSString (pb_dimension e)) \<and> isWellFormedGovernedParameterBound (pb_bound e)) \<and>
     sorted_wrt (<) (map pb_dimension ps)"
proof -
  have "sorted_wrt (<) (map pb_dimension ps) \<longleftrightarrow>
      (\<forall>i. Suc i < length ps \<longrightarrow> pb_dimension (ps ! i) < pb_dimension (ps ! Suc i))"
    by (subst sorted_wrt_iff_nth_Suc_transp) (auto simp add: transp_def)
  moreover note list_all_index [of "\<lambda>e. isSemanticIdentifier (JSString (pb_dimension e))" ps
      "\<lambda>e. isWellFormedGovernedParameterBound (pb_bound e)"
      "\<lambda>i. i = 0 \<or> pb_dimension (ps ! (i - 1)) < pb_dimension (ps ! i)"]
  moreover note consecutive_index [of "length ps" "\<lambda>a b. pb_dimension (ps ! a) < pb_dimension (ps ! b)"]
  ultimately show ?thesis
    unfolding isWellFormedGrantParameterBounds_def compareDimensionIds_less by (simp only:)
qed

lemma find_dimension:
  assumes "distinct (map pb_dimension ps)" "e \<in> set ps"
  shows "find (\<lambda>entry. pb_dimension entry = pb_dimension e) ps = Some e"
  using assms by (induction ps) (auto simp add: image_iff)

lemma grantParameterBound_iff:
  assumes "distinct (map pb_dimension ps)"
  shows "grantParameterBound (Some ps) d = Some e \<longleftrightarrow> e \<in> set ps \<and> pb_dimension e = d"
  using find_dimension [OF assms] by (auto simp add: grantParameterBound_def find_Some_iff)

lemma grantParameterBound_None_iff:
  "grantParameterBound (Some ps) d = None \<longleftrightarrow> d \<notin> pb_dimension ` set ps"
  by (auto simp add: grantParameterBound_def find_None_iff)

lemma grantParameterBound_dimension:
  "grantParameterBound ps d = Some e \<Longrightarrow> pb_dimension e = d"
  by (auto simp add: grantParameterBound_def find_Some_iff split: option.splits)


lemma wf_parameters_distinct:
  "isWellFormedGrantParameterBounds ps \<Longrightarrow> distinct (map pb_dimension ps)"
  using wf_parameters_iff strict_sorted_iff by blast

definition parameter_permitted ::
  "grant_parameter_bound list option \<Rightarrow> grant_parameter_bound list option \<Rightarrow> string \<Rightarrow> bool" where
  "parameter_permitted source requested d =
     (case (grantParameterBound source d, grantParameterBound requested d) of
        (_, None) \<Rightarrow> True
      | (None, Some _) \<Rightarrow> False
      | (Some sb, Some rb) \<Rightarrow>
          governedParameterBoundComparisonPermits (compareGovernedParameterBound (pb_bound sb) (pb_bound rb)))"

definition derived_parameter ::
  "grant_parameter_bound list option \<Rightarrow> grant_parameter_bound list option \<Rightarrow> string \<Rightarrow> grant_parameter_bound list" where
  "derived_parameter source requested d =
     (case overridden (grantParameterBound source d) (grantParameterBound requested d) of
        None \<Rightarrow> [] | Some e \<Rightarrow> [e])"

lemma attenuate_parameter_step:
  shows "st_violations (attenuate_parameter s r st d) = [] \<longleftrightarrow> st_violations st = [] \<and> parameter_permitted s r d"
    and "parameter_permitted s r d \<Longrightarrow>
      st_derived (attenuate_parameter s r st d) = st_derived st @ derived_parameter s r d"
  by (auto simp add: attenuate_parameter_def parameter_permitted_def derived_parameter_def overridden_def Let_def
      split: option.splits if_splits)

lemma attenuate_parameters_fold:
  shows "st_violations (foldl (attenuate_parameter s r) st ds) = [] \<longleftrightarrow>
      st_violations st = [] \<and> (\<forall>d \<in> set ds. parameter_permitted s r d)"
    and "\<forall>d \<in> set ds. parameter_permitted s r d \<Longrightarrow>
      st_derived (foldl (attenuate_parameter s r) st ds) = st_derived st @ concat (map (derived_parameter s r) ds)"
  by (induction ds arbitrary: st) (simp_all add: attenuate_parameter_step)

text \<open>When a narrowing of the parameters is permitted, and what it derives.\<close>

definition parameters_permitted ::
  "grant_parameter_bound list option \<Rightarrow> grant_parameter_bound list option \<Rightarrow> bool" where
  "parameters_permitted source requested =
     (case source of
        None \<Rightarrow> requested = None
      | Some ps \<Rightarrow>
          isWellFormedGrantParameterBounds ps \<and>
          (case requested of
             None \<Rightarrow> True
           | Some rs \<Rightarrow> isWellFormedGrantParameterBounds rs \<and>
               (\<forall>e \<in> set rs. parameter_permitted source requested (pb_dimension e))))"

definition narrowed_entry ::
  "grant_parameter_bound list option \<Rightarrow> grant_parameter_bound \<Rightarrow> grant_parameter_bound" where
  "narrowed_entry requested e =
     (case grantParameterBound requested (pb_dimension e) of None \<Rightarrow> e | Some b \<Rightarrow> b)"

lemma narrowed_entry_dimension [simp]: "pb_dimension (narrowed_entry r e) = pb_dimension e"
  by (auto simp add: narrowed_entry_def grantParameterBound_dimension split: option.splits)

lemma requested_dimensions:
  assumes "parameters_permitted (Some ps) requested"
  shows "pb_dimension ` set (option_list requested) \<subseteq> pb_dimension ` set ps"
proof
  fix d assume "d \<in> pb_dimension ` set (option_list requested)"
  then obtain rs e where rs: "requested = Some rs" "e \<in> set rs" "d = pb_dimension e"
    by (auto simp add: option_list_def split: option.splits)
  then have "isWellFormedGrantParameterBounds rs" "parameter_permitted (Some ps) requested d"
    using assms by (auto simp add: parameters_permitted_def)
  moreover have "grantParameterBound requested d = Some e"
    using rs grantParameterBound_iff wf_parameters_distinct calculation(1) by blast
  ultimately show "d \<in> pb_dimension ` set ps"
    using grantParameterBound_None_iff [of ps d]
    by (auto simp add: parameter_permitted_def split: option.splits)
qed

lemma dimensions_of_permitted:
  assumes "parameters_permitted (Some ps) requested"
  shows "sort (js_set (map pb_dimension (ps @ option_list requested))) = map pb_dimension ps"
proof -
  have wf: "isWellFormedGrantParameterBounds ps" using assms by (simp add: parameters_permitted_def)
  have "set (map pb_dimension (ps @ option_list requested)) = set (map pb_dimension ps)"
    using requested_dimensions [OF assms] by auto
  then have "sort (js_set (map pb_dimension (ps @ option_list requested))) = sort (js_set (map pb_dimension ps))"
    by (rule sort_js_set_cong)
  also have "\<dots> = map pb_dimension ps"
    using wf wf_parameters_iff strict_sorted_iff by (blast intro: sort_js_set_sorted_distinct)
  finally show ?thesis .
qed

lemma derived_parameter_entry:
  assumes "distinct (map pb_dimension ps)" "e \<in> set ps"
  shows "derived_parameter (Some ps) requested (pb_dimension e) = [narrowed_entry requested e]"
  using grantParameterBound_iff [OF assms(1), of "pb_dimension e" e] assms(2)
  by (auto simp add: derived_parameter_def overridden_def narrowed_entry_def split: option.splits)

lemma parameter_permitted_no_request: "grantParameterBound r d = None \<Longrightarrow> parameter_permitted s r d"
  by (auto simp add: parameter_permitted_def split: option.splits)

lemma parameters_permitted_dimensions:
  assumes "\<not> unusable_parameters s" "\<not> unusable_parameters r" "s \<noteq> None \<or> r \<noteq> None"
  shows "(\<forall>d \<in> pb_dimension ` (set (option_list s) \<union> set (option_list r)). parameter_permitted s r d) \<longleftrightarrow>
    parameters_permitted s r"
proof (cases s)
  case None
  with assms obtain rs where r: "r = Some rs" "isWellFormedGrantParameterBounds rs"
    by (auto simp add: unusable_parameters_def)
  then obtain e where e: "e \<in> set rs" using wf_parameters_iff by (metis ex_in_conv set_empty)
  have "\<not> parameter_permitted None (Some rs) (pb_dimension e)"
    using grantParameterBound_iff [OF wf_parameters_distinct [OF r(2)], of "pb_dimension e" e] e
    by (simp add: parameter_permitted_def grantParameterBound_def)
  then show ?thesis using None r e by (auto simp add: parameters_permitted_def option_list_def)
next
  case (Some ps)
  have outside: "parameter_permitted s r d" if "d \<notin> pb_dimension ` set (option_list r)" for d
  proof (rule parameter_permitted_no_request)
    show "grantParameterBound r d = None"
      using that grantParameterBound_None_iff by (cases r) (auto simp add: option_list_def grantParameterBound_def)
  qed
  have "(\<forall>d \<in> pb_dimension ` (set (option_list s) \<union> set (option_list r)). parameter_permitted s r d) \<longleftrightarrow>
      (\<forall>d \<in> pb_dimension ` set (option_list r). parameter_permitted s r d)"
    using outside by blast
  then show ?thesis
    using Some assms(1,2)
    by (auto simp add: parameters_permitted_def unusable_parameters_def option_list_def split: option.splits)
qed

lemma attenuateParameterBounds_spec:
  shows "st_violations (attenuateParameterBounds s r bounds violations) = [] \<longleftrightarrow>
      violations = [] \<and> parameters_permitted s r" (is ?v)
    and "parameters_permitted s r \<Longrightarrow>
      st_derived (attenuateParameterBounds s r bounds violations) = map_option (map (narrowed_entry r)) s"
      (is "_ \<Longrightarrow> ?d")
proof -
  let ?dims = "sort (js_set (map pb_dimension (option_list s @ option_list r)))"
  let ?st = "\<lparr>st_bounds = bounds, st_violations = violations, st_derived = []\<rparr>"
  have dims: "set ?dims = pb_dimension ` (set (option_list s) \<union> set (option_list r))" by auto
  consider (none) "s = None" "r = None" | (bad) "unusable_parameters s \<or> unusable_parameters r"
    | (ok) "s \<noteq> None \<or> r \<noteq> None" "\<not> unusable_parameters s" "\<not> unusable_parameters r" by blast
  then have both: "?v \<and> (parameters_permitted s r \<longrightarrow> ?d)"
  proof cases
    case none
    then show ?thesis by (simp add: attenuateParameterBounds_def parameters_permitted_def)
  next
    case bad
    then have "\<not> (s = None \<and> r = None)" "\<not> parameters_permitted s r"
      by (auto simp add: unusable_parameters_def parameters_permitted_def split: option.splits)
    with bad show ?thesis by (auto simp add: attenuateParameterBounds_def)
  next
    case ok
    have perm: "(\<forall>d \<in> set ?dims. parameter_permitted s r d) \<longleftrightarrow> parameters_permitted s r"
      using parameters_permitted_dimensions ok dims by simp
    have v: ?v
      using ok perm attenuate_parameters_fold(1) [of s r ?st ?dims]
      by (auto simp add: attenuateParameterBounds_def Let_def)
    have ?d if p: "parameters_permitted s r"
    proof -
      obtain ps where s: "s = Some ps" using ok p by (cases s) (auto simp add: parameters_permitted_def)
      then have wf: "isWellFormedGrantParameterBounds ps" using p by (simp add: parameters_permitted_def)
      have "?dims = map pb_dimension ps" using dimensions_of_permitted p s by (simp add: option_list_def)
      then have "concat (map (derived_parameter s r) ?dims) = concat (map (\<lambda>e. [narrowed_entry r e]) ps)"
        using derived_parameter_entry [OF wf_parameters_distinct [OF wf]] s by (simp cong: map_cong)
      also have "\<dots> = map (narrowed_entry r) ps" by (induction ps) simp_all
      finally have d: "st_derived (foldl (attenuate_parameter s r) ?st ?dims) = map (narrowed_entry r) ps"
        using attenuate_parameters_fold(2) [of ?dims s r ?st] perm p by simp
      have "ps \<noteq> []" using wf wf_parameters_iff by blast
      then show ?thesis using ok s d by (simp add: attenuateParameterBounds_def Let_def)
    qed
    with v show ?thesis by blast
  qed
  then show ?v "parameters_permitted s r \<Longrightarrow> ?d" by blast+
qed

text \<open>The outcome of attenuation, exactly.\<close>

definition narrowing_permitted :: "platform \<Rightarrow> grant_scope \<Rightarrow> grant_scope \<Rightarrow> bool" where
  "narrowing_permitted P source requested \<longleftrightarrow>
     (\<forall>key. axis_permitted P source requested key) \<and>
     parameters_permitted (parameters source) (parameters requested)"

definition narrowed_scope :: "grant_scope \<Rightarrow> grant_scope \<Rightarrow> grant_scope" where
  "narrowed_scope source requested = canonicalGrantScope
     \<lparr>axes = (\<lambda>key. overridden (axes source key) (axes requested key)),
      parameters = map_option (map (narrowed_entry (parameters requested))) (parameters source)\<rparr>"

lemma attenuate_outcome:
  "case attenuateGrantScope P s r of
     Attenuated scope bounds \<Rightarrow> narrowing_permitted P s r \<and> scope = narrowed_scope s r
   | Refused violations bounds \<Rightarrow> violations \<noteq> [] \<and> \<not> narrowing_permitted P s r"
proof -
  let ?ax = "foldl (attenuate_axis P s r) \<lparr>st_bounds = [], st_violations = [], st_derived = (\<lambda>key. None)\<rparr> GRANT_BOUND_KEYS"
  let ?ps = "attenuateParameterBounds (parameters s) (parameters r) (st_bounds ?ax) (st_violations ?ax)"
  have v: "st_violations ?ps = [] \<longleftrightarrow> narrowing_permitted P s r"
    using attenuateParameterBounds_spec(1) attenuate_axes(1) [OF distinct_GRANT_BOUND_KEYS]
    by (auto simp add: narrowing_permitted_def)
  have d: "canonicalGrantScope \<lparr>axes = st_derived ?ax, parameters = st_derived ?ps\<rparr> = narrowed_scope s r"
    if "narrowing_permitted P s r"
    using that attenuateParameterBounds_spec(2)
      attenuate_axes(2) [OF distinct_GRANT_BOUND_KEYS, of P s r "\<lparr>st_bounds = [], st_violations = [], st_derived = (\<lambda>key. None)\<rparr>"]
    by (simp add: narrowing_permitted_def narrowed_scope_def)
  show ?thesis using v d by (simp add: attenuateGrantScope_def Let_def)
qed

section \<open>Containment of scopes\<close>

lemma parameter_permits:
  "governedParameterBoundComparisonPermits (compareGovernedParameterBound a b) \<longleftrightarrow> params.covers a b"
  by (simp add: governedParameterBoundComparisonPermits_def params.covers_def)

lemma bound_permits:
  "grantBoundComparisonPermits (compareGrantBound P a b) \<longleftrightarrow> grants.covers P a b"
  by (simp add: grantBoundComparisonPermits_def grants.covers_def)

lemma parameters_within_iff:
  "parameterBoundsAreWithin (Some ps) (Some cs) \<longleftrightarrow>
     isWellFormedGrantParameterBounds ps \<and> isWellFormedGrantParameterBounds cs \<and>
     map pb_dimension cs = map pb_dimension ps \<and>
     list_all2 (\<lambda>p c. params.covers (pb_bound p) (pb_bound c)) ps cs"
  (is "?L \<longleftrightarrow> ?R")
proof
  assume L: ?L
  then have wf: "isWellFormedGrantParameterBounds ps" "isWellFormedGrantParameterBounds cs"
    and len: "length cs = length ps" by (auto simp add: parameterBoundsAreWithin_def)
  have each: "\<exists>c \<in> set cs. pb_dimension c = pb_dimension p \<and> params.covers (pb_bound p) (pb_bound c)"
    if "p \<in> set ps" for p
  proof -
    have "case grantParameterBound (Some cs) (pb_dimension p) of None \<Rightarrow> False
      | Some c \<Rightarrow> params.covers (pb_bound p) (pb_bound c)"
      using L that unfolding parameterBoundsAreWithin_def list_all_iff parameter_permits by simp
    then obtain c where "grantParameterBound (Some cs) (pb_dimension p) = Some c"
      "params.covers (pb_bound p) (pb_bound c)" by (cases "grantParameterBound (Some cs) (pb_dimension p)") auto
    then show ?thesis using grantParameterBound_iff [OF wf_parameters_distinct [OF wf(2)]] by blast
  qed
  have "pb_dimension ` set ps \<subseteq> pb_dimension ` set cs"
    using each by (metis (no_types, lifting) image_iff image_subsetI)
  moreover have "card (pb_dimension ` set cs) = card (pb_dimension ` set ps)"
    using len distinct_card [OF wf_parameters_distinct [OF wf(1)]] distinct_card [OF wf_parameters_distinct [OF wf(2)]]
    by simp
  ultimately have "set (map pb_dimension cs) = set (map pb_dimension ps)"
    using card_subset_eq [of "pb_dimension ` set cs" "pb_dimension ` set ps"] by simp
  moreover have "sorted_wrt (<) (map pb_dimension cs)" "sorted_wrt (<) (map pb_dimension ps)"
    using wf wf_parameters_iff by blast+
  ultimately have dims: "map pb_dimension cs = map pb_dimension ps"
    using strict_sorted_equal by blast
  have "params.covers (pb_bound (ps ! i)) (pb_bound (cs ! i))" if i: "i < length ps" for i
  proof -
    have d: "pb_dimension (cs ! i) = pb_dimension (ps ! i)" using dims i len by (metis nth_map)
    obtain c where c: "c \<in> set cs" "pb_dimension c = pb_dimension (ps ! i)" "params.covers (pb_bound (ps ! i)) (pb_bound c)"
      using each i by (meson nth_mem)
    have "c = cs ! i"
      using c(1,2) d i len wf_parameters_distinct [OF wf(2)] by (metis distinct_map inj_on_def nth_mem)
    then show ?thesis using c(3) by simp
  qed
  then show ?R using wf dims len by (simp add: list_all2_conv_all_nth)
next
  assume R: ?R
  then have wf: "isWellFormedGrantParameterBounds ps" "isWellFormedGrantParameterBounds cs" by auto
  have len: "length cs = length ps" using R by (metis length_map)
  have "grantParameterBound (Some cs) (pb_dimension (ps ! i)) = Some (cs ! i)" if "i < length ps" for i
    using R that len grantParameterBound_iff [OF wf_parameters_distinct [OF wf(2)]] by (metis nth_map nth_mem)
  then show ?L
    using R len
    by (auto simp add: parameterBoundsAreWithin_def list_all_length list_all2_conv_all_nth params.covers_def
        governedParameterBoundComparisonPermits_def)
qed

lemma parameters_within_transitive:
  assumes "parameterBoundsAreWithin a b" "parameterBoundsAreWithin b c"
  shows "parameterBoundsAreWithin a c"
proof (cases "b = None \<or> a = None \<or> c = None")
  case True
  then show ?thesis using assms by (auto simp add: parameterBoundsAreWithin_def split: option.splits)
next
  case False
  then obtain as bs cs where abc: "a = Some as" "b = Some bs" "c = Some cs" by auto
  have "list_all2 (\<lambda>p c. params.covers (pb_bound p) (pb_bound c)) as cs"
    by (rule list_all2_trans [of "\<lambda>p c. params.covers (pb_bound p) (pb_bound c)" "\<lambda>p c. params.covers (pb_bound p) (pb_bound c)" _ as bs cs])
      (use assms abc params.transitive in \<open>auto simp add: parameters_within_iff params.covers_def\<close>)
  then show ?thesis using assms abc by (simp add: parameters_within_iff)
qed

lemma scope_within_iff:
  "grantScopeIsWithin P parent child \<longleftrightarrow>
     (\<forall>key cb. axes child key = Some cb \<longrightarrow> (\<exists>pb. axes parent key = Some pb \<and> grants.covers P pb cb)) \<and>
     parameterBoundsAreWithin (parameters parent) (parameters child)"
  by (simp add: grantScopeIsWithin_def list_all_iff grants.covers_def grantBoundComparisonPermits_def
      split: option.splits) (metis option.distinct(1) option.exhaust option.inject)

lemma scope_within_transitive:
  assumes "grantScopeIsWithin P a b" "grantScopeIsWithin P b c"
  shows "grantScopeIsWithin P a c"
proof -
  have "\<exists>ab. axes a key = Some ab \<and> grants.covers P ab cb" if cb: "axes c key = Some cb" for key cb
  proof -
    obtain bb where "axes b key = Some bb" "grants.covers P bb cb" using assms(2) cb by (auto simp add: scope_within_iff)
    moreover obtain ab where "axes a key = Some ab" "grants.covers P ab bb"
      using assms(1) calculation(1) by (auto simp add: scope_within_iff)
    ultimately show ?thesis using grants.transitive unfolding grants.covers_def by blast
  qed
  then show ?thesis
    using assms parameters_within_transitive by (auto simp add: scope_within_iff)
qed

section \<open>Attenuation lies within its source\<close>

lemma canonical_parameters_id:
  "isWellFormedGrantParameterBounds ps \<Longrightarrow> canonicalGrantParameterBounds ps = ps"
  using wf_parameters_iff strict_sorted_iff
  by (auto simp add: canonicalGrantParameterBounds_def intro!: sort_key_id_if_sorted)

lemma narrowed_entry_cases:
  assumes "parameters_permitted (Some ps) r" "e \<in> set ps"
  shows "params.covers (pb_bound e) (pb_bound (narrowed_entry r e))"
    and "isWellFormedGovernedParameterBound (pb_bound (narrowed_entry r e))"
proof -
  have wf: "isWellFormedGrantParameterBounds ps" using assms(1) by (simp add: parameters_permitted_def)
  have e: "isWellFormedGovernedParameterBound (pb_bound e)" using wf wf_parameters_iff assms(2) by blast
  show c: "params.covers (pb_bound e) (pb_bound (narrowed_entry r e))"
  proof (cases "grantParameterBound r (pb_dimension e)")
    case None
    then show ?thesis using e params.covers_refl by (simp add: narrowed_entry_def)
  next
    case (Some b)
    then obtain rs where rs: "r = Some rs" "isWellFormedGrantParameterBounds rs" "b \<in> set rs"
      using assms(1)
      by (cases r) (auto simp add: grantParameterBound_def parameters_permitted_def find_Some_iff)
    have "pb_dimension b = pb_dimension e" using Some grantParameterBound_dimension by blast
    then have "parameter_permitted (Some ps) r (pb_dimension e)"
      using assms(1) rs by (auto simp add: parameters_permitted_def)
    moreover have "grantParameterBound (Some ps) (pb_dimension e) = Some e"
      using grantParameterBound_iff [OF wf_parameters_distinct [OF wf]] assms(2) by blast
    ultimately show ?thesis
      using Some by (simp add: parameter_permitted_def narrowed_entry_def parameter_permits)
  qed
  show "isWellFormedGovernedParameterBound (pb_bound (narrowed_entry r e))"
    using params.covers_wf [OF c] by blast
qed

lemma narrowed_parameters_wf:
  assumes "parameters_permitted (Some ps) r"
  shows "isWellFormedGrantParameterBounds (map (narrowed_entry r) ps)"
proof -
  have wf: "isWellFormedGrantParameterBounds ps" using assms by (simp add: parameters_permitted_def)
  have "map pb_dimension (map (narrowed_entry r) ps) = map pb_dimension ps" by simp
  then show ?thesis
    using wf narrowed_entry_cases(2) [OF assms] unfolding wf_parameters_iff
    by (auto simp add: o_def simp del: isSemanticIdentifier.simps)
qed

lemma narrowed_within:
  assumes "narrowing_permitted P s r"
  shows "grantScopeIsWithin P s (narrowed_scope s r)"
proof -
  have ax: "\<exists>pb. axes s key = Some pb \<and> grants.covers P pb cb"
    if stated: "axes (narrowed_scope s r) key = Some cb" for key cb
  proof -
    have perm: "axis_permitted P s r key" using assms by (simp add: narrowing_permitted_def)
    obtain b where b: "overridden (axes s key) (axes r key) = Some b" "cb = canonicalGrantBound b"
      using stated by (auto simp add: narrowed_scope_def canonicalGrantScope_def)
    obtain pb where pb: "axes s key = Some pb" "grants.covers P pb b"
      using perm b(1) grants.covers_refl
      by (cases "axes s key"; cases "axes r key")
        (auto simp add: axis_permitted_def overridden_def bound_permits)
    then show ?thesis using b(2) by (simp add: grants.covers_def compare_canonical)
  qed
  have "parameterBoundsAreWithin (parameters s) (parameters (narrowed_scope s r))"
  proof (cases "parameters s")
    case None
    then show ?thesis by (simp add: narrowed_scope_def canonicalGrantScope_def parameterBoundsAreWithin_def)
  next
    case (Some ps)
    then have perm: "parameters_permitted (Some ps) (parameters r)" using assms by (simp add: narrowing_permitted_def)
    have wf: "isWellFormedGrantParameterBounds ps" using perm by (simp add: parameters_permitted_def)
    have "parameters (narrowed_scope s r) = Some (map (narrowed_entry (parameters r)) ps)"
      using Some canonical_parameters_id [OF narrowed_parameters_wf [OF perm]]
      by (simp add: narrowed_scope_def canonicalGrantScope_def)
    then show ?thesis
      using Some wf narrowed_parameters_wf [OF perm] narrowed_entry_cases(1) [OF perm]
      by (simp add: parameters_within_iff list_all2_conv_all_nth)
  qed
  with ax show ?thesis by (auto simp add: scope_within_iff)
qed

lemma narrowed_axes_stated:
  assumes "narrowing_permitted P s r"
  shows "axes (narrowed_scope s r) key = None \<longleftrightarrow> axes s key = None"
proof -
  have "axis_permitted P s r key" using assms by (simp add: narrowing_permitted_def)
  then show ?thesis
    by (auto simp add: narrowed_scope_def canonicalGrantScope_def axis_permitted_def overridden_def split: option.splits)
qed

text \<open>What a scope admits: an attempt on every stated axis and every bounded parameter.\<close>

record attempt =
  at_axis :: "grant_bound_key \<Rightarrow> axis_attempt"
  at_parameter :: "string \<Rightarrow> governed_parameter_value"

definition scope_admits :: "platform \<Rightarrow> grant_scope \<Rightarrow> attempt \<Rightarrow> bool" where
  "scope_admits P scope att \<longleftrightarrow>
     list_all (\<lambda>key. case axes scope key of None \<Rightarrow> True | Some b \<Rightarrow> grant_bound_admits P b (at_axis att key)) GRANT_BOUND_KEYS \<and>
     list_all (\<lambda>e. governedParameterBoundAdmits (pb_bound e) (at_parameter att (pb_dimension e))) (option_list (parameters scope))"

lemma within_axis:
  assumes "grantScopeIsWithin P parent child" "axes child key = Some cb"
  shows "\<exists>b. axes parent key = Some b \<and> (\<forall>a. grant_bound_admits P cb a \<longrightarrow> grant_bound_admits P b a)"
proof -
  obtain b where b: "axes parent key = Some b" "grants.covers P b cb" using assms unfolding scope_within_iff by blast
  then show ?thesis using grants.inclusion unfolding grants.covers_def by blast
qed

lemma within_parameter:
  assumes "grantScopeIsWithin P parent child" "e \<in> set (option_list (parameters parent))"
    and "list_all (\<lambda>c. governedParameterBoundAdmits (pb_bound c) (attempted (pb_dimension c))) (option_list (parameters child))"
  shows "governedParameterBoundAdmits (pb_bound e) (attempted (pb_dimension e))"
proof -
  obtain ps where ps: "parameters parent = Some ps" "e \<in> set ps"
    using assms(2) by (cases "parameters parent") (auto simp add: option_list_def)
  then obtain cs where cs: "parameters child = Some cs"
    using assms(1) by (cases "parameters child") (auto simp add: grantScopeIsWithin_def parameterBoundsAreWithin_def)
  then have w: "map pb_dimension cs = map pb_dimension ps"
    "list_all2 (\<lambda>p c. params.covers (pb_bound p) (pb_bound c)) ps cs"
    using assms(1) ps by (auto simp add: scope_within_iff parameters_within_iff)
  obtain i where i: "i < length ps" "e = ps ! i" using ps(2) by (metis in_set_conv_nth)
  have len: "length cs = length ps" using w(1) by (metis length_map)
  have "pb_dimension (cs ! i) = pb_dimension e" using w(1) i len by (metis nth_map)
  moreover have "governedParameterBoundAdmits (pb_bound (cs ! i)) (attempted (pb_dimension (cs ! i)))"
    using assms(3) cs i len by (auto simp add: option_list_def list_all_iff)
  moreover have "params.covers (pb_bound e) (pb_bound (cs ! i))" using w(2) i by (simp add: list_all2_conv_all_nth)
  ultimately show ?thesis using params.inclusion unfolding params.covers_def by metis
qed

lemma within_admits:
  assumes "grantScopeIsWithin P parent child" "\<And>key. axes parent key \<noteq> None \<Longrightarrow> axes child key \<noteq> None"
    and "scope_admits P child att"
  shows "scope_admits P parent att"
proof -
  have "grant_bound_admits P b (at_axis att key)" if "axes parent key = Some b" for key b
  proof -
    obtain cb where cb: "axes child key = Some cb" using assms(2) [of key] \<open>axes parent key = Some b\<close> by auto
    have "grant_bound_admits P cb (at_axis att key)"
      using assms(3) cb by (auto simp add: scope_admits_def list_all_iff split: option.splits)
    then show ?thesis using within_axis [OF assms(1) cb] that by auto
  qed
  moreover have "governedParameterBoundAdmits (pb_bound e) (at_parameter att (pb_dimension e))"
    if "e \<in> set (option_list (parameters parent))" for e
    using within_parameter [OF assms(1) that, of "at_parameter att"] assms(3) by (simp add: scope_admits_def)
  ultimately show ?thesis by (auto simp add: scope_admits_def list_all_iff split: option.splits)
qed

section \<open>The canonical text of a scope\<close>

definition parameter_entry_json :: "grant_parameter_bound \<Rightarrow> json" where
  "parameter_entry_json e = JObj ((''dimension'', JStr (pb_dimension e)) # parameter_bound_members (pb_bound e))"

fun part_name :: "serialized_scope_key \<Rightarrow> string" where
  "part_name (AxisPart key) = key_name key"
| "part_name ParametersPart = ''parameters''"

fun part_json :: "grant_scope \<Rightarrow> serialized_scope_key \<Rightarrow> json option" where
  "part_json scope (AxisPart key) = map_option grant_bound_json (axes scope key)"
| "part_json scope ParametersPart = map_option (\<lambda>ps. JArr (map parameter_entry_json ps)) (parameters scope)"

definition scope_members :: "grant_scope \<Rightarrow> serialized_scope_key \<Rightarrow> (string \<times> json) list" where
  "scope_members scope k = (case part_json scope k of None \<Rightarrow> [] | Some j \<Rightarrow> [(part_name k, j)])"

definition scope_json :: "grant_scope \<Rightarrow> json" where
  "scope_json scope = JObj (concat (map (scope_members scope) SERIALIZED_SCOPE_KEYS))"

lemma parameter_entry_text: "serializeGrantParameterBound P e = json_print P (parameter_entry_json e)"
proof -
  obtain m ms where m: "parameter_bound_members (pb_bound e) = m # ms" by (cases "pb_bound e") auto
  show ?thesis
    by (simp add: serializeGrantParameterBound_def serializeGovernedParameterBound_def parameter_entry_json_def
        m json_print_JObj join_Cons del: json_print.simps(6))
qed

lemma scope_part_text:
  "scope_part P scope k = map (\<lambda>(n, j). json_string n @ '':'' @ json_print P j) (scope_members scope k)"
proof (cases k)
  case ParametersPart
  have "serializeGrantParameterBound P = json_print P \<circ> parameter_entry_json"
    by (simp add: fun_eq_iff parameter_entry_text)
  then show ?thesis
    using ParametersPart by (simp add: scope_members_def split: option.splits)
qed (simp add: scope_members_def serializeBound_def split: option.splits)

lemma serialize_scope_json: "serializeGrantScope P scope = json_print P (scope_json (canonicalGrantScope scope))"
proof -
  have "scope_part P (canonicalGrantScope scope) =
      (\<lambda>k. map (\<lambda>(n, j). json_string n @ '':'' @ json_print P j) (scope_members (canonicalGrantScope scope) k))"
    by (rule ext) (rule scope_part_text)
  then show ?thesis
    by (simp add: serializeGrantScope_def scope_json_def json_print_JObj map_concat o_def Let_def
        del: json_print.simps(6))
qed

lemma scope_members_lookup:
  "map_of (scope_members scope k) n = (if n = part_name k then part_json scope k else None)"
  by (simp add: scope_members_def split: option.splits)

lemma scope_json_lookup:
  assumes "scope_json a = scope_json b"
  shows "part_json a k = part_json b k"
proof -
  have "map_of (concat (map (scope_members a) SERIALIZED_SCOPE_KEYS)) (part_name k) =
      map_of (concat (map (scope_members b) SERIALIZED_SCOPE_KEYS)) (part_name k)"
    using assms by (simp add: scope_json_def)
  moreover have "map_of (concat (map (scope_members c) SERIALIZED_SCOPE_KEYS)) (part_name k) = part_json c k" for c
  proof (cases k)
    case (AxisPart key)
    then show ?thesis
      by (cases key)
        (simp_all add: SERIALIZED_SCOPE_KEYS_def map_add_def scope_members_lookup split: option.splits)
  next
    case ParametersPart
    then show ?thesis
      by (simp add: SERIALIZED_SCOPE_KEYS_def map_add_def scope_members_lookup split: option.splits)
  qed
  ultimately show ?thesis by simp
qed

lemma grant_bound_json_inject: "grant_bound_json a = grant_bound_json b \<longleftrightarrow> a = b"
  by (cases a; cases b) (auto simp add: inj_map_eq_map inj_def)

lemma parameter_entry_json_inject: "parameter_entry_json a = parameter_entry_json b \<longleftrightarrow> a = b"
  by (cases a; cases b) (auto simp add: parameter_entry_json_def parameter_bound_members_inject)

lemma scope_json_inject: "scope_json a = scope_json b \<longleftrightarrow> a = b"
proof
  assume eq: "scope_json a = scope_json b"
  have "axes a key = axes b key" for key
    using scope_json_lookup [OF eq, of "AxisPart key"] grant_bound_json_inject
    by (cases "axes a key"; cases "axes b key") auto
  moreover have "parameters a = parameters b"
    using scope_json_lookup [OF eq, of ParametersPart] parameter_entry_json_inject
    by (cases "parameters a"; cases "parameters b") (auto simp add: inj_map_eq_map inj_def)
  ultimately show "a = b" by (intro grant_scope.equality) auto
qed simp

definition scope_numbers_ok :: "grant_scope \<Rightarrow> bool" where
  "scope_numbers_ok scope \<longleftrightarrow>
     list_all (\<lambda>e. isWellFormedGovernedParameterBound (pb_bound e)) (option_list (parameters scope))"

lemma grant_bound_json_ok: "json_ok (grant_bound_json b)"
  by (cases b) (auto simp add: json_ok_JObj list_all_iff simp del: json_ok.simps(6))

lemma part_json_ok:
  assumes "scope_numbers_ok scope" "part_json scope k = Some j"
  shows "json_ok j"
proof (cases k)
  case (AxisPart key)
  then show ?thesis using assms(2) grant_bound_json_ok by auto
next
  case ParametersPart
  then obtain ps where ps: "parameters scope = Some ps" "j = JArr (map parameter_entry_json ps)"
    using assms(2) by auto
  have "json_ok (parameter_entry_json e)" if "e \<in> set ps" for e
    using parameter_bound_members_ok [of "pb_bound e"] that assms(1) ps(1)
    by (auto simp add: parameter_entry_json_def json_ok_JObj scope_numbers_ok_def option_list_def list_all_iff
        simp del: json_ok.simps(6))
  then show ?thesis using ps(2) by (simp add: list_all_iff)
qed

lemma scope_json_ok: "scope_numbers_ok scope \<Longrightarrow> json_ok (scope_json scope)"
  using part_json_ok
  by (auto simp add: scope_json_def json_ok_JObj scope_members_def simp del: json_ok.simps(6) split: option.splits)

lemma scope_numbers_ok_canonical: "scope_numbers_ok (canonicalGrantScope scope) \<longleftrightarrow> scope_numbers_ok scope"
  by (cases "parameters scope")
    (auto simp add: scope_numbers_ok_def canonicalGrantScope_def canonicalGrantParameterBounds_def option_list_def list_all_iff)

section \<open>Properties\<close>

text \<open>
  C18: grant containment, the settling invariant.  Whatever narrowing is requested, a scope that
  attenuation derives is within its source, states exactly the axes the source states, and
  admits no attempt the source does not admit.
\<close>

theorem attenuation_contained:
  assumes "attenuateGrantScope P source requested = Attenuated scope bounds"
  shows "grantScopeIsWithin P source scope \<and>
    (\<forall>key. axes scope key = None \<longleftrightarrow> axes source key = None) \<and>
    {att. scope_admits P scope att} \<subseteq> {att. scope_admits P source att}"
proof -
  have n: "narrowing_permitted P source requested" "scope = narrowed_scope source requested"
    using attenuate_outcome [of P source requested] assms by simp_all
  note within = narrowed_within [OF n(1)] narrowed_axes_stated [OF n(1)]
  then show ?thesis using n(2) within_admits [OF within(1)] by auto
qed

text \<open>The platform and the scopes of the examples.\<close>

definition example_platform :: platform where
  "example_platform = \<lparr>sha256_hex = (\<lambda>s. replicate 64 (CHR ''0'')), date_parse_other = (\<lambda>s. None),
     number_toString_other = (\<lambda>n. ''0''), locale_compare = (\<lambda>a b. if a < b then - 1 else if b < a then 1 else 0),
     fractional_horizon = (\<lambda>a q. None), fractional_millis = (\<lambda>q. q * 1000)\<rparr>"

definition example_source :: grant_scope where
  "example_source = \<lparr>axes = (\<lambda>key. if key = KAction then Some (IdentityBound ''payment'')
     else if key = KResources then Some (SetBound [''b'', ''a''])
     else if key = KAmount then Some (CeilingBound ''100'' ''USD'') else None), parameters = None\<rparr>"

definition example_request :: grant_scope where
  "example_request = \<lparr>axes = (\<lambda>key. if key = KAmount then Some (CeilingBound ''40.5'' ''USD'')
     else if key = KResources then Some (SetBound [''a'']) else None), parameters = None\<rparr>"

lemma example_permitted: "narrowing_permitted example_platform example_source example_request"
proof -
  have "list_all (axis_permitted example_platform example_source example_request) GRANT_BOUND_KEYS"
    by code_simp
  then have "axis_permitted example_platform example_source example_request key" for key
    by (simp add: list_all_iff)
  then show ?thesis
    by (simp add: narrowing_permitted_def parameters_permitted_def example_source_def example_request_def)
qed

theorem attenuation_contained_witness:
  "grantScopeIsWithin example_platform example_source (narrowed_scope example_source example_request) \<and>
   axes (narrowed_scope example_source example_request) KAmount \<noteq> None"
proof -
  obtain bounds where "attenuateGrantScope example_platform example_source example_request =
      Attenuated (narrowed_scope example_source example_request) bounds"
    using attenuate_outcome [of example_platform example_source example_request] example_permitted
    by (cases "attenuateGrantScope example_platform example_source example_request") auto
  from attenuation_contained [OF this] show ?thesis by (simp add: example_source_def)
qed

text \<open>
  C22: attenuation is exact.  It answers a scope exactly when, on every axis, the source states a
  well-formed bound of the axis' shape or nothing is requested there, every requested bound is
  equal or narrower, and the same holds dimension by dimension of well-formed parameter lists;
  the scope is then the source with the requested bounds in place, in canonical form.  Otherwise
  it is refused with at least one violation.
\<close>

theorem attenuation_exact:
  "case attenuateGrantScope P source requested of
     Attenuated scope bounds \<Rightarrow> narrowing_permitted P source requested \<and> scope = narrowed_scope source requested
   | Refused violations bounds \<Rightarrow> violations \<noteq> [] \<and> \<not> narrowing_permitted P source requested"
  by (rule attenuate_outcome)

text \<open>
  containment of scopes is transitive, so a chain of attenuations never leaves the
  authority it began with.
\<close>

theorem scope_containment_transitive:
  assumes "grantScopeIsWithin P a b" "grantScopeIsWithin P b c"
  shows "grantScopeIsWithin P a c"
  using assms by (rule scope_within_transitive)

theorem scope_containment_transitive_witness:
  "grantScopeIsWithin example_platform example_source (narrowed_scope example_source example_request)"
proof (rule scope_containment_transitive)
  show "grantScopeIsWithin example_platform example_source example_source" by code_simp
  show "grantScopeIsWithin example_platform example_source (narrowed_scope example_source example_request)"
    by code_simp
qed

text \<open>
  the canonical text of a scope determines it: two scopes whose parameter bounds are well
  formed serialize to the same text exactly when they have the same canonical form.
\<close>

theorem scope_text_determines:
  assumes "scope_numbers_ok a" "scope_numbers_ok b"
  shows "grantScopeEquals P a b \<longleftrightarrow> canonicalGrantScope a = canonicalGrantScope b"
  using json_trees.injective [of "scope_json (canonicalGrantScope a)" "scope_json (canonicalGrantScope b)" P]
    scope_json_ok assms
  by (simp add: grantScopeEquals_def serialize_scope_json scope_json_inject scope_numbers_ok_canonical)

theorem scope_text_determines_witness:
  "\<not> grantScopeEquals example_platform example_source (narrowed_scope example_source example_request)"
proof -
  have "canonicalGrantScope example_source \<noteq> canonicalGrantScope (narrowed_scope example_source example_request)"
  proof
    assume "canonicalGrantScope example_source = canonicalGrantScope (narrowed_scope example_source example_request)"
    then have "axes (canonicalGrantScope example_source) KAmount =
        axes (canonicalGrantScope (narrowed_scope example_source example_request)) KAmount" by (rule arg_cong)
    then show False
      by (simp add: canonicalGrantScope_def example_source_def example_request_def narrowed_scope_def overridden_def)
  qed
  moreover have "scope_numbers_ok example_source" "scope_numbers_ok (narrowed_scope example_source example_request)"
    by code_simp+
  ultimately show ?thesis using scope_text_determines by blast
qed

end
