(* ===== verification/Grants.thy ===== *)
theory Grants
  imports Grant_Bounds
begin

text \<open>
  What a grant is and what it derives from: \<open>grant-runtime/domain/grant-correlation.ts\<close>,
  \<open>grant-validity.ts\<close>, \<open>grant-source-authorization.ts\<close>, \<open>grant-eligibility.ts\<close>,
  \<open>bounded-grant.ts\<close>, \<open>grant-revocation.ts\<close>, \<open>grant-exercise.ts\<close> and
  \<open>services/grant-declaration.ts\<close>.  Digests are over canonical texts; the lemmas show that these
  texts determine the grant, its identity and its source.  Nothing is assumed of SHA-256.
\<close>

section \<open>Correlations\<close>

record grant_correlation =
  requestId :: string
  decisionId :: string
  corr_action :: string
  resourceScope :: string

definition grantCorrelationMatches :: "grant_correlation \<Rightarrow> grant_correlation \<Rightarrow> bool" where
  "grantCorrelationMatches l r \<longleftrightarrow>
     requestId l = requestId r \<and> decisionId l = decisionId r \<and>
     corr_action l = corr_action r \<and> resourceScope l = resourceScope r"

definition correlation_parts :: "grant_correlation \<Rightarrow> string list" where
  "correlation_parts c =
     [json_member ''action'' (json_string (corr_action c)),
      json_member ''decisionId'' (json_string (decisionId c)),
      json_member ''requestId'' (json_string (requestId c)),
      json_member ''resourceScope'' (json_string (resourceScope c))]"

definition serializeGrantCorrelation :: "grant_correlation \<Rightarrow> string" where
  "serializeGrantCorrelation c = join '','' (correlation_parts c)"

definition isWellFormedGrantCorrelation :: "grant_correlation \<Rightarrow> bool" where
  "isWellFormedGrantCorrelation c \<longleftrightarrow>
     requestId c \<noteq> [] \<and> decisionId c \<noteq> [] \<and> corr_action c \<noteq> [] \<and> resourceScope c \<noteq> []"

section \<open>Validity\<close>

datatype grant_validity_ceiling_source = DecisionCeiling | AuthorityCeiling | DeploymentCeiling

fun ceiling_source_name :: "grant_validity_ceiling_source \<Rightarrow> string" where
  "ceiling_source_name DecisionCeiling = ''decision''"
| "ceiling_source_name AuthorityCeiling = ''authority''"
| "ceiling_source_name DeploymentCeiling = ''deployment''"

record grant_validity_ceiling =
  ceiling_source :: grant_validity_ceiling_source
  notAfter :: string

record grant_validity_resolution =
  accepted :: bool
  res_expiresAt :: "string option"
  effectiveCeiling :: "grant_validity_ceiling option"
  res_reasonCodes :: "grant_reason_code list"

definition instant_of :: "platform \<Rightarrow> grant_validity_ceiling \<Rightarrow> int" where
  "instant_of P c = (case Date_parse P (notAfter c) of None \<Rightarrow> 0 | Some t \<Rightarrow> t)"

text \<open>
  The order of ceilings by instant and then by source name; it is applied to ceilings whose
  instants parse.
\<close>

definition orderedCeilings ::
  "platform \<Rightarrow> grant_validity_ceiling list \<Rightarrow> grant_validity_ceiling list" where
  "orderedCeilings P ceilings = sort_by (\<lambda>l r.
     let byInstant = instant_of P l - instant_of P r
     in if byInstant \<noteq> 0 then byInstant
        else locale_compare P (ceiling_source_name (ceiling_source l)) (ceiling_source_name (ceiling_source r))) ceilings"

definition effectiveGrantValidityCeiling ::
  "platform \<Rightarrow> grant_validity_ceiling list \<Rightarrow> grant_validity_ceiling option" where
  "effectiveGrantValidityCeiling P ceilings =
     (let parseable = filter (\<lambda>c. Date_parse P (notAfter c) \<noteq> None) ceilings
      in if length parseable \<noteq> length ceilings then None
         else case orderedCeilings P parseable of [] \<Rightarrow> None | c # _ \<Rightarrow> Some c)"

definition validity_refusal ::
  "grant_validity_ceiling option \<Rightarrow> grant_reason_code \<Rightarrow> grant_validity_resolution" where
  "validity_refusal cap code =
     \<lparr>accepted = False, res_expiresAt = None, effectiveCeiling = cap, res_reasonCodes = [code]\<rparr>"

definition resolveGrantValidity ::
  "platform \<Rightarrow> string \<Rightarrow> string option \<Rightarrow> grant_validity_ceiling list \<Rightarrow> grant_validity_resolution" where
  "resolveGrantValidity P issuedAt requestedExpiresAt ceilings =
     (case requestedExpiresAt of
        None \<Rightarrow> validity_refusal None GRANT_VALIDITY_INVALID
      | Some proposal \<Rightarrow>
          if proposal = [] then validity_refusal None GRANT_VALIDITY_INVALID
          else (case (Date_parse P issuedAt, Date_parse P proposal) of
            (Some issued, Some requested) \<Rightarrow>
              if requested \<le> issued then validity_refusal None GRANT_VALIDITY_INVALID
              else if list_ex (\<lambda>c. Date_parse P (notAfter c) = None) ceilings
              then validity_refusal None GRANT_VALIDITY_INVALID
              else (case effectiveGrantValidityCeiling P ceilings of
                None \<Rightarrow>
                  \<lparr>accepted = True, res_expiresAt = Some proposal, effectiveCeiling = None, res_reasonCodes = []\<rparr>
              | Some cap \<Rightarrow>
                  if \<not> grantBoundComparisonPermits
                         (compareGrantBound P (WindowBound (notAfter cap)) (WindowBound proposal))
                  then validity_refusal (Some cap) GRANT_SCOPE_BROADENING
                  else \<lparr>accepted = True, res_expiresAt = Some proposal, effectiveCeiling = Some cap,
                        res_reasonCodes = []\<rparr>)
          | _ \<Rightarrow> validity_refusal None GRANT_VALIDITY_INVALID))"

section \<open>Source authorizations\<close>

record grant_source_authorization =
  src_correlation :: grant_correlation
  src_subject :: string
  src_scope :: grant_scope
  authorizationPermitsExercise :: bool
  allBlockingObligationsSatisfied :: bool
  evaluatedAt :: string
  validityCeilings :: "grant_validity_ceiling list"
  contextDigest :: "string option"
  approvalDigest :: "string option"

definition MANDATORY_GRANT_BOUND_KEYS :: "grant_bound_key list" where
  "MANDATORY_GRANT_BOUND_KEYS = [KAction, KResources]"

definition missingMandatoryGrantBounds :: "grant_source_authorization \<Rightarrow> grant_bound_key list" where
  "missingMandatoryGrantBounds source =
     (let stated = statedGrantBoundKeys (src_scope source)
      in filter (\<lambda>key. key \<notin> set stated) MANDATORY_GRANT_BOUND_KEYS)"

definition isDerivableGrantSource :: "platform \<Rightarrow> grant_source_authorization \<Rightarrow> bool" where
  "isDerivableGrantSource P source \<longleftrightarrow>
     isWellFormedGrantCorrelation (src_correlation source) \<and>
     src_subject source \<noteq> [] \<and>
     Date_parse P (evaluatedAt source) \<noteq> None \<and>
     isWellFormedGrantScope P (src_scope source) \<and>
     missingMandatoryGrantBounds source = []"

definition orderedValidityCeilings ::
  "platform \<Rightarrow> grant_validity_ceiling list \<Rightarrow> grant_validity_ceiling list" where
  "orderedValidityCeilings P ceilings = sort_by (\<lambda>l r.
     if ceiling_source l = ceiling_source r then locale_compare P (notAfter l) (notAfter r)
     else locale_compare P (ceiling_source_name (ceiling_source l)) (ceiling_source_name (ceiling_source r))) ceilings"

definition optional_member :: "string \<Rightarrow> string option \<Rightarrow> string list" where
  "optional_member key v = (case v of None \<Rightarrow> [] | Some s \<Rightarrow> [json_member key (json_string s)])"

definition serializeGrantSourceAuthorization :: "platform \<Rightarrow> grant_source_authorization \<Rightarrow> string" where
  "serializeGrantSourceAuthorization P source = join '',''
     ([json_member ''allBlockingObligationsSatisfied'' (json_bool (allBlockingObligationsSatisfied source))] @
      optional_member ''approvalDigest'' (approvalDigest source) @
      [json_member ''authorizationPermitsExercise'' (json_bool (authorizationPermitsExercise source))] @
      optional_member ''contextDigest'' (contextDigest source) @
      [json_member ''correlation'' (json_object (correlation_parts (src_correlation source))),
       json_member ''evaluatedAt'' (json_string (evaluatedAt source)),
       json_member ''scope'' (serializeGrantScope P (src_scope source)),
       json_member ''validityCeilings''
         (''['' @ join '','' (map (\<lambda>c. json_object
            [json_member ''notAfter'' (json_string (notAfter c)),
             json_member ''source'' (json_string (ceiling_source_name (ceiling_source c)))])
            (orderedValidityCeilings P (validityCeilings source))) @ '']''),
       json_member ''subject'' (json_string (src_subject source))])"

definition withGrantValidityCeiling ::
  "grant_source_authorization \<Rightarrow> grant_validity_ceiling \<Rightarrow> grant_source_authorization" where
  "withGrantValidityCeiling source cap =
     source\<lparr>validityCeilings := validityCeilings source @ [cap]\<rparr>"

definition grantSourceMatchesCorrelation :: "grant_source_authorization \<Rightarrow> grant_correlation \<Rightarrow> bool" where
  "grantSourceMatchesCorrelation source c = grantCorrelationMatches (src_correlation source) c"

definition withGrantAmountCeiling ::
  "platform \<Rightarrow> grant_source_authorization \<Rightarrow> grant_bound \<Rightarrow> grant_source_authorization option" where
  "withGrantAmountCeiling P source cap =
     (if bound_kind cap \<noteq> CeilingKind \<or> \<not> isWellFormedGrantBound P cap then None
      else
        let narrowed = (\<lambda>amount. Some (source\<lparr>src_scope := canonicalGrantScope
              ((src_scope source)\<lparr>axes := (axes (src_scope source))(KAmount := Some amount)\<rparr>)\<rparr>))
        in case axes (src_scope source) KAmount of
             None \<Rightarrow> narrowed cap
           | Some existing \<Rightarrow>
               if bound_kind existing \<noteq> CeilingKind then None
               else (case compareGrantBound P existing cap of
                 IncomparableBound \<Rightarrow> None
               | Broader \<Rightarrow> narrowed existing
               | _ \<Rightarrow> narrowed cap))"

section \<open>Eligibility\<close>

record grant_eligibility_assessment =
  eligible :: bool
  elig_reasonCodes :: "grant_reason_code list"

definition assessGrantEligibility ::
  "platform \<Rightarrow> grant_source_authorization \<Rightarrow> grant_eligibility_assessment" where
  "assessGrantEligibility P source =
     (let reasonCodes =
        (if \<not> authorizationPermitsExercise source then [GRANT_AUTHORIZATION_NOT_PERMITTED] else []) @
        (if \<not> allBlockingObligationsSatisfied source then [GRANT_OBLIGATIONS_UNSATISFIED] else []) @
        (if \<not> isDerivableGrantSource P source then [GRANT_SOURCE_BOUNDS_INCOMPLETE] else [])
      in \<lparr>eligible = (reasonCodes = []), elig_reasonCodes = reasonCodes\<rparr>)"

section \<open>Bounded grants\<close>

record bounded_grant =
  grant_id :: string
  g_correlation :: grant_correlation
  g_subject :: string
  g_scope :: grant_scope
  g_issuedAt :: string
  g_expiresAt :: string
  g_sourceDigest :: string
  g_authorityBindingDigest :: "string option"
  g_semanticsFormat :: "string option"
  g_digest :: string

definition isWellFormedBoundedGrantSemantics :: "bounded_grant \<Rightarrow> bool" where
  "isWellFormedBoundedGrantSemantics g = isConsistentGrantSemantics (g_scope g) (g_semanticsFormat g)"

text \<open>The text a grant's identity is the hash of.\<close>

definition grant_identity_text ::
  "platform \<Rightarrow> grant_correlation \<Rightarrow> string \<Rightarrow> grant_scope \<Rightarrow> string \<Rightarrow> string option \<Rightarrow> string option \<Rightarrow> string" where
  "grant_identity_text P c subj sc expires binding fmt = json_object
     (optional_member ''authorityBindingDigest'' binding @
      correlation_parts c @
      [json_member ''expiresAt'' (json_string expires),
       json_member ''scope'' (serializeGrantScope P sc)] @
      optional_member ''semanticsFormat'' fmt @
      [json_member ''subject'' (json_string subj)])"

definition boundedGrantId ::
  "platform \<Rightarrow> grant_correlation \<Rightarrow> string \<Rightarrow> grant_scope \<Rightarrow> string \<Rightarrow> string option \<Rightarrow> string option \<Rightarrow> string" where
  "boundedGrantId P c subj sc expires binding fmt =
     ''aoc.grant:'' @ take 32 (sha256_hex P (grant_identity_text P c subj sc expires binding fmt))"

definition serializeBoundedGrant :: "platform \<Rightarrow> bounded_grant \<Rightarrow> string" where
  "serializeBoundedGrant P g = json_object
     (optional_member ''authorityBindingDigest'' (g_authorityBindingDigest g) @
      [json_member ''correlation'' (json_object (correlation_parts (g_correlation g))),
       json_member ''digest'' (json_string (g_digest g)),
       json_member ''expiresAt'' (json_string (g_expiresAt g)),
       json_member ''id'' (json_string (grant_id g)),
       json_member ''issuedAt'' (json_string (g_issuedAt g)),
       json_member ''scope'' (serializeGrantScope P (g_scope g))] @
      optional_member ''semanticsFormat'' (g_semanticsFormat g) @
      [json_member ''sourceDigest'' (json_string (g_sourceDigest g)),
       json_member ''subject'' (json_string (g_subject g))])"

definition grantSourceDigest :: "platform \<Rightarrow> grant_source_authorization \<Rightarrow> string" where
  "grantSourceDigest P source =
     ''sha256:'' @ sha256_hex P (''{'' @ serializeGrantSourceAuthorization P source @ ''}'')"

definition boundedGrantDigest :: "platform \<Rightarrow> bounded_grant \<Rightarrow> string" where
  "boundedGrantDigest P g = ''sha256:'' @ sha256_hex P (serializeBoundedGrant P (g\<lparr>g_digest := []\<rparr>))"

definition boundedGrantDigestMatches :: "platform \<Rightarrow> bounded_grant \<Rightarrow> bool" where
  "boundedGrantDigestMatches P g \<longleftrightarrow> g_digest g = boundedGrantDigest P g"

section \<open>Revocations and exercise\<close>

datatype grant_revocation_reason =
    AdministratorRevoked | RevokedExpired | ManualRevocation | PolicyChanged
  | PrincipalDisabled | ResourceRemoved | SecurityIncident

fun revocation_reason_name :: "grant_revocation_reason \<Rightarrow> string" where
  "revocation_reason_name AdministratorRevoked = ''administrator-revoked''"
| "revocation_reason_name RevokedExpired = ''expired''"
| "revocation_reason_name ManualRevocation = ''manual-revocation''"
| "revocation_reason_name PolicyChanged = ''policy-changed''"
| "revocation_reason_name PrincipalDisabled = ''principal-disabled''"
| "revocation_reason_name ResourceRemoved = ''resource-removed''"
| "revocation_reason_name SecurityIncident = ''security-incident''"

definition GRANT_REVOCATION_REASONS :: "grant_revocation_reason list" where
  "GRANT_REVOCATION_REASONS =
     [AdministratorRevoked, RevokedExpired, ManualRevocation, PolicyChanged, PrincipalDisabled,
      ResourceRemoved, SecurityIncident]"

text \<open>The reason a text names, when it names one.\<close>

definition isGrantRevocationReason :: "string \<Rightarrow> grant_revocation_reason option" where
  "isGrantRevocationReason v = find (\<lambda>r. revocation_reason_name r = v) GRANT_REVOCATION_REASONS"

record grant_revocation =
  rev_grantId :: string
  revokedAt :: string
  rev_reason :: grant_revocation_reason
  issuerRef :: string

record grant_exercise_assessment =
  exercisable :: bool
  ex_reasonCodes :: "grant_reason_code list"

definition assessGrantExercise ::
  "platform \<Rightarrow> bounded_grant \<Rightarrow> grant_revocation option \<Rightarrow> string \<Rightarrow> grant_exercise_assessment" where
  "assessGrantExercise P g revocation at' =
     (let reasonCodes =
        (if \<not> boundedGrantDigestMatches P g then [GRANT_CORRELATION_INVALID] else []) @
        (if \<not> isWellFormedBoundedGrantSemantics g then [GRANT_SEMANTICS_FORMAT_INVALID] else []) @
        (if revocation \<noteq> None then [GRANT_REVOKED] else []) @
        (case (Date_parse P (g_expiresAt g), Date_parse P at') of
           (Some expiry, Some now) \<Rightarrow> if now \<ge> expiry then [GRANT_EXPIRED] else []
         | _ \<Rightarrow> [GRANT_EXPIRED])
      in \<lparr>exercisable = (reasonCodes = []), ex_reasonCodes = reasonCodes\<rparr>)"

section \<open>The deployment cap\<close>

record grant_declaration =
  maximumGrantLifetimeSeconds :: "js_number option"

datatype grant_configuration_error = GrantConfigurationError string

definition assertValidGrantDeclaration :: "grant_declaration \<Rightarrow> grant_configuration_error + unit" where
  "assertValidGrantDeclaration declaration =
     (case maximumGrantLifetimeSeconds declaration of
        None \<Rightarrow> Inr ()
      | Some n \<Rightarrow>
          (case js_finite n of
             None \<Rightarrow> Inl (GrantConfigurationError ''maximumGrantLifetimeSeconds must be positive and finite'')
           | Some q \<Rightarrow>
               if q \<le> 0 then Inl (GrantConfigurationError ''maximumGrantLifetimeSeconds must be positive and finite'')
               else Inr ()))"

text \<open>
  The horizon in double arithmetic: integral summands are added exactly as far as a date can
  reach, and a sum past the largest double is not finite.
\<close>

definition MAX_DOUBLE_BOUND :: int where
  "MAX_DOUBLE_BOUND = 2 ^ 1024 - 2 ^ 970"

definition grant_horizon :: "platform \<Rightarrow> int \<Rightarrow> js_number \<Rightarrow> int option" where
  "grant_horizon P anchor n =
     (case n of
        NumInt i \<Rightarrow> if \<bar>anchor + i * 1000\<bar> \<ge> MAX_DOUBLE_BOUND then None else Some (anchor + i * 1000)
      | NumNegZero \<Rightarrow> Some anchor
      | NumFrac q \<Rightarrow> fractional_horizon P anchor q
      | _ \<Rightarrow> None)"

definition deploymentGrantValidityCeiling ::
  "platform \<Rightarrow> grant_declaration \<Rightarrow> string \<Rightarrow> js_error + grant_validity_ceiling option" where
  "deploymentGrantValidityCeiling P declaration evaluated =
     (case maximumGrantLifetimeSeconds declaration of
        None \<Rightarrow> Inr None
      | Some n \<Rightarrow>
          (case Date_parse P evaluated of
             None \<Rightarrow> Inr None
           | Some anchor \<Rightarrow>
               (case grant_horizon P anchor n of
                  None \<Rightarrow> Inr None
                | Some horizon \<Rightarrow>
                    (case toISOString horizon of
                       Inl e \<Rightarrow> Inl e
                     | Inr text \<Rightarrow> Inr (Some \<lparr>ceiling_source = DeploymentCeiling, notAfter = text\<rparr>)))))"

section \<open>Validity\<close>

lemma effectiveGrantValidityCeiling_all:
  assumes "\<forall>c \<in> set cs. Date_parse P (notAfter c) \<noteq> None"
  shows "effectiveGrantValidityCeiling P cs = (if cs = [] then None else Some (hd (orderedCeilings P cs)))"
proof -
  have f: "filter (\<lambda>c. Date_parse P (notAfter c) \<noteq> None) cs = cs"
    using assms by (simp add: filter_id_conv)
  show ?thesis
  proof (cases "orderedCeilings P cs")
    case Nil
    then have "cs = []" by (simp add: orderedCeilings_def)
    then show ?thesis by (simp add: effectiveGrantValidityCeiling_def orderedCeilings_def sort_by_def)
  next
    case (Cons c rest)
    then have "cs \<noteq> []" by (auto simp add: orderedCeilings_def sort_by_def)
    then show ?thesis using f Cons by (simp add: effectiveGrantValidityCeiling_def Let_def)
  qed
qed

text \<open>The effective ceiling is one of the ceilings, and none is earlier.\<close>

lemma effective_ceiling_least:
  assumes "\<forall>c \<in> set cs. Date_parse P (notAfter c) \<noteq> None" "effectiveGrantValidityCeiling P cs = Some c"
  shows "c \<in> set cs" "\<forall>d \<in> set cs. instant_of P c \<le> instant_of P d"
proof -
  have ne: "cs \<noteq> []" and c: "c = hd (orderedCeilings P cs)"
    using effectiveGrantValidityCeiling_all [OF assms(1)] assms(2) by (auto split: if_splits)
  have "orderedCeilings P cs \<noteq> []" using ne by (simp add: orderedCeilings_def)
  moreover have "set (orderedCeilings P cs) = set cs" by (simp add: orderedCeilings_def)
  ultimately show "c \<in> set cs" unfolding c using hd_in_set by blast
  show "\<forall>d \<in> set cs. instant_of P c \<le> instant_of P d"
    unfolding c orderedCeilings_def by (rule sort_by_head) (simp_all add: Let_def)
qed

lemma window_permits:
  assumes "Date_parse P a = Some m" "Date_parse P b = Some n"
  shows "grantBoundComparisonPermits (compareGrantBound P (WindowBound a) (WindowBound b)) \<longleftrightarrow> n \<le> m"
  using assms by (auto simp add: compare_window grantBoundComparisonPermits_def)

definition within_ceiling :: "platform \<Rightarrow> int \<Rightarrow> grant_validity_ceiling \<Rightarrow> bool" where
  "within_ceiling P t c = (case Date_parse P (notAfter c) of None \<Rightarrow> False | Some n \<Rightarrow> t \<le> n)"

lemma validity_accepted_iff:
  "accepted (resolveGrantValidity P issued proposal cs) \<longleftrightarrow>
     (\<exists>e i r. proposal = Some e \<and> e \<noteq> [] \<and> Date_parse P issued = Some i \<and> Date_parse P e = Some r \<and>
        i < r \<and> list_all (within_ceiling P r) cs)"
proof (cases "\<exists>e i r. proposal = Some e \<and> e \<noteq> [] \<and> Date_parse P issued = Some i \<and> Date_parse P e = Some r \<and> i < r")
  case False
  then show ?thesis
    by (auto simp add: resolveGrantValidity_def validity_refusal_def split: option.splits)
next
  case True
  then obtain e i r where e: "proposal = Some e" "e \<noteq> []" "Date_parse P issued = Some i" "Date_parse P e = Some r" "i < r"
    by blast
  show ?thesis
  proof (cases "\<forall>c \<in> set cs. Date_parse P (notAfter c) \<noteq> None")
    case False
    then have "\<not> list_all (within_ceiling P r) cs"
      by (force simp add: list_all_iff within_ceiling_def)
    moreover have "list_ex (\<lambda>c. Date_parse P (notAfter c) = None) cs" using False by (auto simp add: list_ex_iff)
    ultimately show ?thesis using e by (simp add: resolveGrantValidity_def validity_refusal_def)
  next
    case ok: True
    have le: "within_ceiling P r c \<longleftrightarrow> r \<le> instant_of P c" if "c \<in> set cs" for c
      using ok that by (auto simp add: within_ceiling_def instant_of_def split: option.splits)
    show ?thesis
    proof (cases "effectiveGrantValidityCeiling P cs")
      case None
      then have "cs = []" using effectiveGrantValidityCeiling_all [OF ok] by (simp split: if_splits)
      then show ?thesis using e None by (simp add: resolveGrantValidity_def)
    next
      case (Some c)
      note least = effective_ceiling_least [OF ok Some]
      obtain n where n: "Date_parse P (notAfter c) = Some n" "instant_of P c = n"
        using ok least(1) by (auto simp add: instant_of_def)
      have "list_all (within_ceiling P r) cs \<longleftrightarrow> r \<le> n"
        using le least n(2) by (force simp add: list_all_iff)
      moreover have "\<not> list_ex (\<lambda>c. Date_parse P (notAfter c) = None) cs" using ok by (auto simp add: list_ex_iff)
      ultimately show ?thesis
        using e Some window_permits [OF n(1) e(4)] by (simp add: resolveGrantValidity_def validity_refusal_def)
    qed
  qed
qed

lemma validity_expiry:
  "accepted (resolveGrantValidity P issued proposal cs) \<Longrightarrow>
     res_expiresAt (resolveGrantValidity P issued proposal cs) = proposal"
  by (auto simp add: resolveGrantValidity_def validity_refusal_def split: option.splits if_splits)

lemma validity_refused:
  "\<not> accepted (resolveGrantValidity P issued proposal cs) \<Longrightarrow>
     res_expiresAt (resolveGrantValidity P issued proposal cs) = None \<and>
     res_reasonCodes (resolveGrantValidity P issued proposal cs) \<noteq> []"
  by (auto simp add: resolveGrantValidity_def validity_refusal_def split: option.splits if_splits)

section \<open>Canonical texts\<close>

definition optional_tree :: "string \<Rightarrow> string option \<Rightarrow> (string \<times> json) list" where
  "optional_tree key v = (case v of None \<Rightarrow> [] | Some s \<Rightarrow> [(key, JStr s)])"

definition correlation_tree :: "grant_correlation \<Rightarrow> (string \<times> json) list" where
  "correlation_tree c =
     [(''action'', JStr (corr_action c)), (''decisionId'', JStr (decisionId c)),
      (''requestId'', JStr (requestId c)), (''resourceScope'', JStr (resourceScope c))]"

definition scope_tree :: "grant_scope \<Rightarrow> json" where
  "scope_tree sc = scope_json (canonicalGrantScope sc)"

definition members_text :: "platform \<Rightarrow> (string \<times> json) list \<Rightarrow> string list" where
  "members_text P ms = map (\<lambda>(k, j). json_member k (json_print P j)) ms"

lemma members_text_simps [simp]:
  "members_text P [] = []"
  "members_text P ((k, j) # ms) = json_member k (json_print P j) # members_text P ms"
  "members_text P (ms @ ns) = members_text P ms @ members_text P ns"
  by (simp_all add: members_text_def)

lemma members_object: "json_object (members_text P ms) = json_print P (JObj ms)"
  unfolding members_text_def by (rule json_object_print)

lemma optional_member_text: "optional_member k v = members_text P (optional_tree k v)"
  by (simp add: optional_member_def optional_tree_def split: option.splits)

lemma correlation_text: "correlation_parts c = members_text P (correlation_tree c)"
  by (simp add: correlation_parts_def correlation_tree_def)

lemma scope_text: "serializeGrantScope P sc = json_print P (scope_tree sc)"
  by (simp add: serialize_scope_json scope_tree_def)

definition identity_tree ::
  "grant_correlation \<Rightarrow> string \<Rightarrow> grant_scope \<Rightarrow> string \<Rightarrow> string option \<Rightarrow> string option \<Rightarrow> json" where
  "identity_tree c subj sc expires binding fmt = JObj
     (optional_tree ''authorityBindingDigest'' binding @ correlation_tree c @
      [(''expiresAt'', JStr expires), (''scope'', scope_tree sc)] @
      optional_tree ''semanticsFormat'' fmt @ [(''subject'', JStr subj)])"

definition grant_tree :: "bounded_grant \<Rightarrow> json" where
  "grant_tree g = JObj
     (optional_tree ''authorityBindingDigest'' (g_authorityBindingDigest g) @
      [(''correlation'', JObj (correlation_tree (g_correlation g))), (''digest'', JStr (g_digest g)),
       (''expiresAt'', JStr (g_expiresAt g)), (''id'', JStr (grant_id g)), (''issuedAt'', JStr (g_issuedAt g)),
       (''scope'', scope_tree (g_scope g))] @
      optional_tree ''semanticsFormat'' (g_semanticsFormat g) @
      [(''sourceDigest'', JStr (g_sourceDigest g)), (''subject'', JStr (g_subject g))])"

lemma identity_text_tree:
  "grant_identity_text P c subj sc expires binding fmt = json_print P (identity_tree c subj sc expires binding fmt)"
  unfolding grant_identity_text_def identity_tree_def members_object [symmetric]
    optional_member_text [of _ _ P] correlation_text [of _ P] scope_text
  by (simp del: json_print.simps(6))

lemma grant_text_tree: "serializeBoundedGrant P g = json_print P (grant_tree g)"
  unfolding serializeBoundedGrant_def grant_tree_def members_object [symmetric]
    optional_member_text [of _ _ P] correlation_text [of _ P] scope_text
  by (simp add: members_object del: json_print.simps(6))

lemma scope_tree_ok: "scope_numbers_ok sc \<Longrightarrow> json_ok (scope_tree sc)"
  by (simp add: scope_tree_def scope_json_ok scope_numbers_ok_canonical)

lemma optional_tree_ok [simp]: "list_all (\<lambda>(k, j). json_ok j) (optional_tree key v)"
  by (simp add: optional_tree_def split: option.splits)

lemma correlation_tree_ok [simp]: "list_all (\<lambda>(k, j). json_ok j) (correlation_tree c)"
  by (simp add: correlation_tree_def)

lemma identity_tree_ok: "scope_numbers_ok sc \<Longrightarrow> json_ok (identity_tree c subj sc expires binding fmt)"
  by (simp add: identity_tree_def json_ok_members scope_tree_ok del: json_ok.simps(6))

lemma grant_tree_ok: "scope_numbers_ok (g_scope g) \<Longrightarrow> json_ok (grant_tree g)"
  by (simp add: grant_tree_def json_ok_members scope_tree_ok del: json_ok.simps(6))

lemma scope_tree_inject: "scope_tree a = scope_tree b \<longleftrightarrow> canonicalGrantScope a = canonicalGrantScope b"
  by (simp add: scope_tree_def scope_json_inject)

lemma correlation_tree_inject: "correlation_tree a = correlation_tree b \<longleftrightarrow> a = b"
  by (cases a; cases b) (auto simp add: correlation_tree_def)

lemma identity_tree_inject:
  "identity_tree c subj sc expires binding fmt = identity_tree c' subj' sc' expires' binding' fmt' \<longleftrightarrow>
     c = c' \<and> subj = subj' \<and> canonicalGrantScope sc = canonicalGrantScope sc' \<and> expires = expires' \<and>
     binding = binding' \<and> fmt = fmt'"
  by (cases c; cases c'; cases binding; cases binding'; cases fmt; cases fmt')
    (auto simp add: identity_tree_def optional_tree_def correlation_tree_def scope_tree_inject)

text \<open>A grant with its scope in canonical form.\<close>

definition canonical_grant :: "bounded_grant \<Rightarrow> bounded_grant" where
  "canonical_grant g = g\<lparr>g_scope := canonicalGrantScope (g_scope g)\<rparr>"

lemma grant_tree_inject: "grant_tree g = grant_tree h \<longleftrightarrow> canonical_grant g = canonical_grant h"
  by (cases g; cases h)
    (auto simp add: grant_tree_def optional_tree_def correlation_tree_inject scope_tree_inject canonical_grant_def
      split: option.splits)

lemma grant_text_inject:
  assumes "scope_numbers_ok (g_scope g)" "scope_numbers_ok (g_scope h)"
  shows "serializeBoundedGrant P g = serializeBoundedGrant P h \<longleftrightarrow> canonical_grant g = canonical_grant h"
  using json_trees.injective [OF grant_tree_ok grant_tree_ok, OF assms] by (simp add: grant_text_tree grant_tree_inject)

lemma identity_text_inject:
  assumes "scope_numbers_ok sc" "scope_numbers_ok sc'"
  shows "grant_identity_text P c subj sc expires binding fmt = grant_identity_text P c' subj' sc' expires' binding' fmt' \<longleftrightarrow>
     c = c' \<and> subj = subj' \<and> canonicalGrantScope sc = canonicalGrantScope sc' \<and> expires = expires' \<and>
     binding = binding' \<and> fmt = fmt'"
  unfolding identity_text_tree json_trees.injective [OF identity_tree_ok identity_tree_ok, OF assms]
  by (rule identity_tree_inject)

section \<open>Amount ceilings\<close>

lemma withGrantAmountCeiling_scope:
  assumes "withGrantAmountCeiling P source cap = Some source'"
  shows "\<exists>amount. source' = source\<lparr>src_scope := canonicalGrantScope
      ((src_scope source)\<lparr>axes := (axes (src_scope source))(KAmount := Some amount)\<rparr>)\<rparr> \<and>
    bound_kind amount = CeilingKind \<and> grants.covers P cap amount \<and>
    (\<forall>existing. axes (src_scope source) KAmount = Some existing \<longrightarrow> grants.covers P existing amount)"
proof -
  have cap: "bound_kind cap = CeilingKind" "isWellFormedGrantBound P cap"
    using assms by (auto simp add: withGrantAmountCeiling_def split: if_splits)
  show ?thesis
  proof (cases "axes (src_scope source) KAmount")
    case None
    then show ?thesis
      using assms cap grants.covers_refl by (auto simp add: withGrantAmountCeiling_def Let_def)
  next
    case (Some existing)
    then have k: "bound_kind existing = CeilingKind" and c: "compareGrantBound P existing cap \<noteq> IncomparableBound"
      using assms by (auto simp add: withGrantAmountCeiling_def Let_def split: if_splits bound_comparison.splits)
    have wf: "isWellFormedGrantBound P existing" using compare_grant_wf [OF c] by blast
    show ?thesis
    proof (cases "compareGrantBound P existing cap = Broader")
      case True
      obtain l u m v where lu: "existing = CeilingBound l u" "cap = CeilingBound m v"
        using k cap(1) by (cases existing; cases cap) auto
      have "grants.covers P cap existing"
        using True lu wf cap(2) by (auto simp add: grants.covers_def compare_ceiling simp del: isWellFormedGrantBound.simps split: if_splits)
      then show ?thesis
        using assms True Some k cap wf grants.covers_refl by (auto simp add: withGrantAmountCeiling_def Let_def)
    next
      case False
      then have "grants.covers P existing cap" using c by (cases "compareGrantBound P existing cap") (auto simp add: grants.covers_def)
      then show ?thesis
        using assms False c Some k cap grants.covers_refl
        by (cases "compareGrantBound P existing cap") (auto simp add: withGrantAmountCeiling_def Let_def)
    qed
  qed
qed

section \<open>Properties\<close>

text \<open>
  a proposed expiry is accepted exactly when it is a parseable instant after the issuance
  and no later than every ceiling, all of which parse; what is accepted is the proposal itself,
  never a clamped value, and a refusal always names a reason.
\<close>

theorem validity_contained:
  "let res = resolveGrantValidity P issued proposal ceilings in
   (accepted res \<longleftrightarrow>
      (\<exists>e i r. proposal = Some e \<and> e \<noteq> [] \<and> Date_parse P issued = Some i \<and> Date_parse P e = Some r \<and>
         i < r \<and> list_all (within_ceiling P r) ceilings)) \<and>
   (if accepted res then res_expiresAt res = proposal else res_expiresAt res = None \<and> res_reasonCodes res \<noteq> [])"
  using validity_accepted_iff validity_expiry validity_refused by (simp add: Let_def)

text \<open>
  C24: the canonical texts determine what is hashed: two grants have the same canonical text
  exactly when they agree on every field (scopes in canonical form), and two issuances hash the
  same identity text exactly when they agree on correlation, subject, canonical scope, expiry,
  authority binding and semantic format.  The digest of the source is in the canonical text and so
  in the grant's digest; it is not in the identity text, although the comments on the source
  authorization place it inside the grant's identity: two grants that differ in it alone have one
  identity.  Two different grants that both match one recorded digest give two texts, the
  canonical texts without the digest, on which the hash collides.
\<close>

theorem grant_texts_determine:
  assumes "scope_numbers_ok (g_scope g)" "scope_numbers_ok (g_scope h)"
  shows "(serializeBoundedGrant P g = serializeBoundedGrant P h \<longleftrightarrow> canonical_grant g = canonical_grant h) \<and>
    (grant_identity_text P (g_correlation g) (g_subject g) (g_scope g) (g_expiresAt g) (g_authorityBindingDigest g) (g_semanticsFormat g) =
     grant_identity_text P (g_correlation h) (g_subject h) (g_scope h) (g_expiresAt h) (g_authorityBindingDigest h) (g_semanticsFormat h) \<longleftrightarrow>
       g_correlation g = g_correlation h \<and> g_subject g = g_subject h \<and>
       canonicalGrantScope (g_scope g) = canonicalGrantScope (g_scope h) \<and> g_expiresAt g = g_expiresAt h \<and>
       g_authorityBindingDigest g = g_authorityBindingDigest h \<and> g_semanticsFormat g = g_semanticsFormat h) \<and>
    (boundedGrantDigestMatches P g \<and> boundedGrantDigestMatches P h \<and> g_digest g = g_digest h \<and>
       canonical_grant g \<noteq> canonical_grant h \<longrightarrow>
       serializeBoundedGrant P (g\<lparr>g_digest := []\<rparr>) \<noteq> serializeBoundedGrant P (h\<lparr>g_digest := []\<rparr>) \<and>
       sha256_hex P (serializeBoundedGrant P (g\<lparr>g_digest := []\<rparr>)) = sha256_hex P (serializeBoundedGrant P (h\<lparr>g_digest := []\<rparr>)))"
proof -
  let ?g = "g\<lparr>g_digest := []\<rparr>" and ?h = "h\<lparr>g_digest := []\<rparr>"
  have "serializeBoundedGrant P ?g \<noteq> serializeBoundedGrant P ?h \<and>
      sha256_hex P (serializeBoundedGrant P ?g) = sha256_hex P (serializeBoundedGrant P ?h)"
    if m: "boundedGrantDigestMatches P g" "boundedGrantDigestMatches P h" "g_digest g = g_digest h"
      "canonical_grant g \<noteq> canonical_grant h"
  proof -
    have "canonical_grant ?g \<noteq> canonical_grant ?h"
      using m(3,4) by (cases g; cases h) (simp add: canonical_grant_def)
    then have "serializeBoundedGrant P ?g \<noteq> serializeBoundedGrant P ?h"
      using grant_text_inject [of ?g ?h P] assms by simp
    then show ?thesis using m(1-3) by (simp add: boundedGrantDigestMatches_def boundedGrantDigest_def)
  qed
  then show ?thesis using grant_text_inject [OF assms] identity_text_inject [OF assms] by blast
qed

definition example_correlation :: grant_correlation where
  "example_correlation = \<lparr>requestId = ''req-1'', decisionId = ''dec-1'', corr_action = ''payment'', resourceScope = ''a''\<rparr>"

definition example_grant :: "string \<Rightarrow> bounded_grant" where
  "example_grant expiry = \<lparr>grant_id = ''g'', g_correlation = example_correlation, g_subject = ''agent'',
     g_scope = example_source, g_issuedAt = ''2024-01-01T00:00:00Z'', g_expiresAt = expiry,
     g_sourceDigest = ''s'', g_authorityBindingDigest = None, g_semanticsFormat = None, g_digest = ''d''\<rparr>"

theorem grant_texts_determine_witness:
  "serializeBoundedGrant example_platform (example_grant ''2024-01-01T00:10:00Z'') \<noteq>
   serializeBoundedGrant example_platform (example_grant ''2024-01-01T00:20:00Z'')"
proof -
  have "scope_numbers_ok (g_scope (example_grant e))" for e
    by (simp add: example_grant_def example_source_def scope_numbers_ok_def option_list_def)
  then show ?thesis
    using grant_texts_determine [of "example_grant ''2024-01-01T00:10:00Z''" "example_grant ''2024-01-01T00:20:00Z''"
        example_platform]
    by (simp add: canonical_grant_def example_grant_def)
qed

text \<open>
  a held grant is exercisable exactly when its fields still match its digest, its semantic
  marker agrees with its axes, no revocation stands and the instant of use is parseable and
  before a parseable expiry; otherwise it is unusable and the reasons are named.
\<close>

theorem exercise_assessment_exact:
  "let res = assessGrantExercise P g revocation now in
   (exercisable res \<longleftrightarrow>
      boundedGrantDigestMatches P g \<and> isWellFormedBoundedGrantSemantics g \<and> revocation = None \<and>
      (\<exists>e n. Date_parse P (g_expiresAt g) = Some e \<and> Date_parse P now = Some n \<and> n < e)) \<and>
   (exercisable res \<longleftrightarrow> ex_reasonCodes res = [])"
  by (auto simp add: assessGrantExercise_def Let_def split: option.splits)

text \<open>
  adding an authority-sourced amount ceiling only narrows: the resulting source states a
  ceiling within the one added and within the one it stated before, on no other axis does it
  differ but for canonical form, and a source that already stood within another scope still
  does on that axis.
\<close>

theorem amount_ceiling_narrows:
  assumes "withGrantAmountCeiling P source cap = Some source'"
  shows "\<exists>amount. axes (src_scope source') KAmount = Some amount \<and> grants.covers P cap amount \<and>
      (\<forall>existing. axes (src_scope source) KAmount = Some existing \<longrightarrow> grants.covers P existing amount) \<and>
      (\<forall>key. key \<noteq> KAmount \<longrightarrow> axes (src_scope source') key = map_option canonicalGrantBound (axes (src_scope source) key)) \<and>
      parameters (src_scope source') = map_option canonicalGrantParameterBounds (parameters (src_scope source))"
proof -
  obtain amount where a: "source' = source\<lparr>src_scope := canonicalGrantScope
      ((src_scope source)\<lparr>axes := (axes (src_scope source))(KAmount := Some amount)\<rparr>)\<rparr>"
    "bound_kind amount = CeilingKind" "grants.covers P cap amount"
    "\<forall>existing. axes (src_scope source) KAmount = Some existing \<longrightarrow> grants.covers P existing amount"
    using withGrantAmountCeiling_scope [OF assms] by blast
  have "canonicalGrantBound amount = amount" using a(2) by (cases amount) auto
  then show ?thesis using a by (intro exI [of _ amount]) (auto simp add: canonicalGrantScope_def)
qed

definition example_source_authorization :: grant_source_authorization where
  "example_source_authorization = \<lparr>src_correlation = example_correlation, src_subject = ''agent'',
     src_scope = example_source, authorizationPermitsExercise = True, allBlockingObligationsSatisfied = True,
     evaluatedAt = ''2024-01-01T00:00:00Z'', validityCeilings = [], contextDigest = None, approvalDigest = None\<rparr>"

theorem amount_ceiling_narrows_witness:
  "\<exists>source'. withGrantAmountCeiling example_platform example_source_authorization (CeilingBound ''60'' ''USD'') = Some source' \<and>
     (\<exists>amount. axes (src_scope source') KAmount = Some amount \<and>
        grants.covers example_platform (CeilingBound ''60'' ''USD'') amount)"
proof -
  have "compareGrantBound example_platform (CeilingBound ''100'' ''USD'') (CeilingBound ''60'' ''USD'') = Narrower"
    "isWellFormedGrantBound example_platform (CeilingBound ''60'' ''USD'')" by code_simp+
  then obtain source' where
    "withGrantAmountCeiling example_platform example_source_authorization (CeilingBound ''60'' ''USD'') = Some source'"
    by (simp add: withGrantAmountCeiling_def example_source_authorization_def example_source_def Let_def
        del: isWellFormedGrantBound.simps)
  with amount_ceiling_narrows [OF this] show ?thesis by blast
qed

text \<open>
  the deployment ceiling is not total: a declaration that validates can state a lifetime
  whose horizon is past the last date the language has, and computing the ceiling then throws.
\<close>

theorem deployment_ceiling_throws:
  "assertValidGrantDeclaration \<lparr>maximumGrantLifetimeSeconds = Some (NumInt 9000000000000)\<rparr> = Inr () \<and>
   deploymentGrantValidityCeiling P \<lparr>maximumGrantLifetimeSeconds = Some (NumInt 9000000000000)\<rparr>
     ''2024-01-01T00:00:00Z'' = Inl (RangeError ''Invalid time value'')"
proof -
  have "iso_parse ''2024-01-01T00:00:00Z'' = Some 1704067200000" by code_simp
  then have "Date_parse P ''2024-01-01T00:00:00Z'' = Some 1704067200000" by (simp add: Date_parse_def)
  moreover have "grant_horizon P 1704067200000 (NumInt 9000000000000) = Some 9001704067200000"
    by (simp add: grant_horizon_def MAX_DOUBLE_BOUND_def)
  moreover have "toISOString 9001704067200000 = Inl (RangeError ''Invalid time value'')"
    by (simp add: toISOString_def MAX_DATE_def)
  ultimately show ?thesis
    by (simp add: assertValidGrantDeclaration_def deploymentGrantValidityCeiling_def)
qed

end
