(* ===== verification/Grant_Issuance.thy ===== *)
theory Grant_Issuance
  imports Grants
begin

text \<open>
  The store of grants and the issuance service: \<open>grant-runtime/domain/grant-store-port.ts\<close>,
  \<open>services/in-memory-bounded-grant-store.ts\<close> and \<open>services/grant-issuance-service.ts\<close>.
  The port of the store is a record of functions on an arbitrary store state; the service is
  parameterized by it, as the code is.  The locale \<open>grant_store_contract\<close> states what the port
  promises (idempotent issuance, visible and permanent revocation); the lemmas about arbitrary
  histories of store operations are proved inside it, and it is interpreted on the in-memory
  store, whose every operation is one synchronous section.
\<close>

section \<open>The port\<close>

record grant_commit_precondition =
  pre_permitted :: bool
  pre_reasonCodes :: "grant_reason_code list"

datatype issue_outcome =
    Issued bounded_grant
  | AlreadyIssued bounded_grant
  | IssueRefused "grant_reason_code list"

record revoke_input =
  rv_grantId :: string
  rv_reason :: string
  rv_revokedAt :: string
  rv_issuerRef :: string

datatype revoke_outcome =
    Revoked grant_revocation
  | AlreadyRevoked grant_revocation
  | RevokeRefused "grant_reason_code list"

record 's grant_store_port =
  port_issue :: "'s \<Rightarrow> bounded_grant \<Rightarrow> (unit \<Rightarrow> grant_commit_precondition) \<Rightarrow> issue_outcome \<times> 's"
  port_read :: "'s \<Rightarrow> string \<Rightarrow> bounded_grant option \<times> grant_revocation option"
  port_revoke :: "'s \<Rightarrow> revoke_input \<Rightarrow> revoke_outcome \<times> 's"

section \<open>The interface: the contract of a grant store\<close>

datatype store_operation =
    OpIssue bounded_grant grant_commit_precondition
  | OpRevoke revoke_input

locale grant_store_contract =
  fixes issue :: "'s \<Rightarrow> bounded_grant \<Rightarrow> (unit \<Rightarrow> grant_commit_precondition) \<Rightarrow> issue_outcome \<times> 's"
    and read :: "'s \<Rightarrow> string \<Rightarrow> bounded_grant option \<times> grant_revocation option"
    and revoke :: "'s \<Rightarrow> revoke_input \<Rightarrow> revoke_outcome \<times> 's"
  assumes issue_refused: "issue st g guard = (IssueRefused codes, st') \<Longrightarrow> st' = st \<and> codes \<noteq> []"
    and issue_already: "issue st g guard = (AlreadyIssued h, st') \<Longrightarrow>
          st' = st \<and> fst (read st (grant_id g)) = Some h"
    and issue_issued: "issue st g guard = (Issued h, st') \<Longrightarrow>
          h = g \<and> isWellFormedBoundedGrantSemantics g \<and> pre_permitted (guard ()) \<and>
          read st (grant_id g) = (None, None) \<and> read st' (grant_id g) = (Some g, None) \<and>
          (\<forall>i. i \<noteq> grant_id g \<longrightarrow> read st' i = read st i)"
    and issue_possible: "isWellFormedBoundedGrantSemantics g \<Longrightarrow> pre_permitted (guard ()) \<Longrightarrow>
          read st (grant_id g) = (None, None) \<Longrightarrow> \<exists>st'. issue st g guard = (Issued g, st')"
    and revoke_refused: "revoke st inp = (RevokeRefused codes, st') \<Longrightarrow> st' = st"
    and revoke_already: "revoke st inp = (AlreadyRevoked r, st') \<Longrightarrow>
          st' = st \<and> snd (read st (rv_grantId inp)) = Some r"
    and revoke_revoked: "revoke st inp = (Revoked r, st') \<Longrightarrow>
          fst (read st (rv_grantId inp)) \<noteq> None \<and> snd (read st (rv_grantId inp)) = None \<and>
          read st' (rv_grantId inp) = (fst (read st (rv_grantId inp)), Some r) \<and>
          rev_grantId r = rv_grantId inp \<and>
          (\<forall>i. i \<noteq> rv_grantId inp \<longrightarrow> read st' i = read st i)"
    and revoke_possible: "fst (read st (rv_grantId inp)) \<noteq> None \<Longrightarrow>
          isGrantRevocationReason (rv_reason inp) \<noteq> None \<Longrightarrow> snd (read st (rv_grantId inp)) = None \<Longrightarrow>
          \<exists>r st'. revoke st inp = (Revoked r, st')"
begin

fun apply_operation :: "'s \<Rightarrow> store_operation \<Rightarrow> 's" where
  "apply_operation st (OpIssue g pre) = snd (issue st g (\<lambda>_. pre))"
| "apply_operation st (OpRevoke inp) = snd (revoke st inp)"

definition history :: "'s \<Rightarrow> store_operation list \<Rightarrow> 's" where
  "history st ops = foldl apply_operation st ops"

text \<open>No operation changes a grant that is held, or a revocation that stands.\<close>

lemma operation_keeps:
  "fst (read st i) = Some g \<Longrightarrow> fst (read (apply_operation st op) i) = Some g"
  "snd (read st i) = Some r \<Longrightarrow> snd (read (apply_operation st op) i) = Some r"
proof -
  have "(fst (read st i) = Some g \<longrightarrow> fst (read (apply_operation st op) i) = Some g) \<and>
    (snd (read st i) = Some r \<longrightarrow> snd (read (apply_operation st op) i) = Some r)"
  proof (cases op)
    case (OpIssue h pre)
    obtain out st' where o: "issue st h (\<lambda>_. pre) = (out, st')" by force
    then have a: "apply_operation st op = st'" using OpIssue by simp
    show ?thesis
    proof (cases out)
      case (Issued k)
      note iss = issue_issued [OF o [unfolded Issued]]
      show ?thesis using iss a by (cases "i = grant_id h") simp_all
    next
      case (AlreadyIssued k)
      show ?thesis using issue_already [OF o [unfolded AlreadyIssued]] a by simp
    next
      case (IssueRefused codes)
      show ?thesis using issue_refused [OF o [unfolded IssueRefused]] a by simp
    qed
  next
    case (OpRevoke inp)
    obtain out st' where o: "revoke st inp = (out, st')" by force
    then have a: "apply_operation st op = st'" using OpRevoke by simp
    show ?thesis
    proof (cases out)
      case (Revoked k)
      note rv = revoke_revoked [OF o [unfolded Revoked]]
      show ?thesis using rv a by (cases "i = rv_grantId inp") simp_all
    next
      case (AlreadyRevoked k)
      show ?thesis using revoke_already [OF o [unfolded AlreadyRevoked]] a by simp
    next
      case (RevokeRefused codes)
      show ?thesis using revoke_refused [OF o [unfolded RevokeRefused]] a by simp
    qed
  qed
  then show "fst (read st i) = Some g \<Longrightarrow> fst (read (apply_operation st op) i) = Some g"
    "snd (read st i) = Some r \<Longrightarrow> snd (read (apply_operation st op) i) = Some r" by blast+
qed

lemma history_keeps:
  "fst (read st i) = Some g \<Longrightarrow> fst (read (history st ops) i) = Some g"
  "snd (read st i) = Some r \<Longrightarrow> snd (read (history st ops) i) = Some r"
  unfolding history_def by (induction ops arbitrary: st) (auto intro: operation_keeps)

lemma reissue_is_idempotent:
  assumes "issue st g guard = (Issued g, st')" "issue (history st' ops) h guard' = (out, st'')" "grant_id h = grant_id g"
  shows "st'' = history st' ops \<and> out \<noteq> Issued h"
proof -
  have held: "fst (read (history st' ops) (grant_id h)) = Some g"
    using issue_issued [OF assms(1)] history_keeps(1) assms(3) by simp
  show ?thesis
  proof (cases out)
    case (Issued k)
    then show ?thesis using issue_issued [of "history st' ops" h guard' k st''] assms(2) held by simp
  next
    case (AlreadyIssued k)
    then show ?thesis using issue_already [of "history st' ops" h guard' k st''] assms(2) by simp
  next
    case (IssueRefused codes)
    then show ?thesis using issue_refused [of "history st' ops" h guard' codes st''] assms(2) by simp
  qed
qed

end

section \<open>The in-memory store\<close>

record grant_store =
  store_grants :: "(string \<times> bounded_grant) list"
  store_revocations :: "(string \<times> grant_revocation) list"

definition empty_grant_store :: grant_store where
  "empty_grant_store = \<lparr>store_grants = [], store_revocations = []\<rparr>"

definition mem_issue ::
  "grant_store \<Rightarrow> bounded_grant \<Rightarrow> (unit \<Rightarrow> grant_commit_precondition) \<Rightarrow> issue_outcome \<times> grant_store" where
  "mem_issue st g commitGuard =
     (if \<not> isWellFormedBoundedGrantSemantics g then (IssueRefused [GRANT_SEMANTICS_FORMAT_INVALID], st)
      else case map_of (store_grants st) (grant_id g) of
        Some existing \<Rightarrow> (AlreadyIssued existing, st)
      | None \<Rightarrow>
          if map_of (store_revocations st) (grant_id g) \<noteq> None then (IssueRefused [GRANT_REVOKED], st)
          else
            let precondition = commitGuard ()
            in if \<not> pre_permitted precondition then
                 (IssueRefused (if pre_reasonCodes precondition \<noteq> [] then pre_reasonCodes precondition
                                else [GRANT_ELIGIBILITY_CHANGED]), st)
               else (Issued g, st\<lparr>store_grants := AList.update (grant_id g) g (store_grants st)\<rparr>))"

definition mem_read :: "grant_store \<Rightarrow> string \<Rightarrow> bounded_grant option \<times> grant_revocation option" where
  "mem_read st i = (map_of (store_grants st) i, map_of (store_revocations st) i)"

definition mem_revoke :: "grant_store \<Rightarrow> revoke_input \<Rightarrow> revoke_outcome \<times> grant_store" where
  "mem_revoke st inp =
     (case isGrantRevocationReason (rv_reason inp) of
        None \<Rightarrow> (RevokeRefused [GRANT_REVOKED], st)
      | Some reason \<Rightarrow>
          if map_of (store_grants st) (rv_grantId inp) = None then (RevokeRefused [GRANT_NOT_FOUND], st)
          else (case map_of (store_revocations st) (rv_grantId inp) of
            Some existing \<Rightarrow> (AlreadyRevoked existing, st)
          | None \<Rightarrow>
              let revocation = \<lparr>rev_grantId = rv_grantId inp, revokedAt = rv_revokedAt inp, rev_reason = reason,
                                issuerRef = rv_issuerRef inp\<rparr>
              in (Revoked revocation,
                  st\<lparr>store_revocations := AList.update (rv_grantId inp) revocation (store_revocations st)\<rparr>)))"

definition createInMemoryBoundedGrantStore :: "grant_store grant_store_port" where
  "createInMemoryBoundedGrantStore = \<lparr>port_issue = mem_issue, port_read = mem_read, port_revoke = mem_revoke\<rparr>"

section \<open>The issuance service\<close>

record grant_issuance_request =
  req_source :: grant_source_authorization
  requestedBounds :: "grant_scope option"
  req_subject :: string
  req_correlation :: grant_correlation
  req_issuedAt :: string
  req_expiresAt :: string
  additionalValidityCeilings :: "grant_validity_ceiling list option"
  req_authorityBindingDigest :: "string option"

datatype grant_issuance_outcome =
    GrantIssued bounded_grant "grant_bound_attenuation list" "grant_validity_ceiling option"
  | GrantAlreadyIssued bounded_grant "grant_bound_attenuation list" "grant_validity_ceiling option"
  | GrantRefused "grant_reason_code list" "grant_attenuation_violation list" "grant_validity_ceiling option"

definition refusal ::
  "grant_reason_code list \<Rightarrow> grant_attenuation_violation list \<Rightarrow> grant_issuance_outcome" where
  "refusal codes violations = GrantRefused codes violations None"

text \<open>The grant the service builds once the scope and the expiry are settled.\<close>

definition build_grant ::
  "platform \<Rightarrow> grant_issuance_request \<Rightarrow> grant_scope \<Rightarrow> string \<Rightarrow> string option \<Rightarrow> bounded_grant" where
  "build_grant P request sc expires fmt =
     (let withoutDigest =
        \<lparr>grant_id = boundedGrantId P (req_correlation request) (req_subject request) sc expires
                      (req_authorityBindingDigest request) fmt,
         g_correlation = req_correlation request, g_subject = req_subject request, g_scope = sc,
         g_issuedAt = req_issuedAt request, g_expiresAt = expires,
         g_sourceDigest = grantSourceDigest P (req_source request),
         g_authorityBindingDigest = req_authorityBindingDigest request, g_semanticsFormat = fmt, g_digest = []\<rparr>
      in withoutDigest\<lparr>g_digest := boundedGrantDigest P withoutDigest\<rparr>)"

definition commit_guard ::
  "platform \<Rightarrow> (grant_correlation \<Rightarrow> grant_source_authorization option) option \<Rightarrow> grant_issuance_request
     \<Rightarrow> bounded_grant \<Rightarrow> grant_commit_precondition" where
  "commit_guard P revalidateSource request g =
     (case revalidateSource of
        None \<Rightarrow> \<lparr>pre_permitted = True, pre_reasonCodes = []\<rparr>
      | Some revalidate \<Rightarrow>
          (case revalidate (req_correlation request) of
             None \<Rightarrow> \<lparr>pre_permitted = False, pre_reasonCodes = [GRANT_CORRELATION_INVALID]\<rparr>
           | Some current \<Rightarrow>
               let currentEligibility = assessGrantEligibility P current
               in if \<not> eligible currentEligibility
                  then \<lparr>pre_permitted = False, pre_reasonCodes = elig_reasonCodes currentEligibility\<rparr>
                  else if src_subject current \<noteq> req_subject request
                  then \<lparr>pre_permitted = False, pre_reasonCodes = [GRANT_SUBJECT_INVALID]\<rparr>
                  else if \<not> grantScopeIsWithin P (src_scope current) (g_scope g)
                  then \<lparr>pre_permitted = False, pre_reasonCodes = [GRANT_SCOPE_BROADENING]\<rparr>
                  else
                    let currentValidity = resolveGrantValidity P (req_issuedAt request) (Some (g_expiresAt g))
                          (validityCeilings current @ option_list (additionalValidityCeilings request))
                    in if \<not> accepted currentValidity
                       then \<lparr>pre_permitted = False, pre_reasonCodes = res_reasonCodes currentValidity\<rparr>
                       else \<lparr>pre_permitted = True, pre_reasonCodes = []\<rparr>))"

definition issueGrant ::
  "platform \<Rightarrow> 's grant_store_port \<Rightarrow> (grant_correlation \<Rightarrow> grant_source_authorization option) option
     \<Rightarrow> 's \<Rightarrow> grant_issuance_request \<Rightarrow> grant_issuance_outcome \<times> 's" where
  "issueGrant P store revalidateSource st request =
     (let source = req_source request
      in if \<not> isWellFormedGrantCorrelation (req_correlation request)
            \<or> \<not> grantSourceMatchesCorrelation source (req_correlation request)
         then (refusal [GRANT_CORRELATION_INVALID] [], st)
         else
           let eligibility = assessGrantEligibility P source
           in if \<not> eligible eligibility then (refusal (elig_reasonCodes eligibility) [], st)
              else if req_subject request \<noteq> src_subject source then (refusal [GRANT_SUBJECT_INVALID] [], st)
              else (case attenuateGrantScope P (src_scope source)
                           (case requestedBounds request of None \<Rightarrow> no_narrowing | Some b \<Rightarrow> b) of
                Refused violations bounds \<Rightarrow> (refusal (js_set (map vio_reasonCode violations)) violations, st)
              | Attenuated sc bounds \<Rightarrow>
                  if \<not> grantScopeIsWithin P (src_scope source) sc then (refusal [GRANT_SCOPE_BROADENING] [], st)
                  else
                    let validity = resolveGrantValidity P (req_issuedAt request) (Some (req_expiresAt request))
                          (validityCeilings source @ option_list (additionalValidityCeilings request))
                    in (case (accepted validity, res_expiresAt validity) of
                      (True, Some expires) \<Rightarrow>
                        let fmt = (if grantScopeCarriesSemantics sc then Some GRANT_SEMANTICS_FORMAT_V1 else None)
                        in if \<not> isConsistentGrantSemantics sc fmt
                           then (refusal [GRANT_SEMANTICS_FORMAT_INVALID] [], st)
                           else
                             let g = build_grant P request sc expires fmt
                             in (case port_issue store st g (\<lambda>_. commit_guard P revalidateSource request g) of
                                   (IssueRefused codes, st') \<Rightarrow> (refusal codes [], st')
                                 | (Issued h, st') \<Rightarrow> (GrantIssued h bounds (effectiveCeiling validity), st')
                                 | (AlreadyIssued h, st') \<Rightarrow>
                                     (GrantAlreadyIssued h bounds (effectiveCeiling validity), st'))
                    | _ \<Rightarrow>
                        (GrantRefused
                           (if res_reasonCodes validity \<noteq> [] then res_reasonCodes validity else [GRANT_VALIDITY_INVALID])
                           [] (effectiveCeiling validity), st))))"

definition assessExercise ::
  "platform \<Rightarrow> 's grant_store_port \<Rightarrow> 's \<Rightarrow> string \<Rightarrow> string \<Rightarrow> grant_exercise_assessment" where
  "assessExercise P store st grantId now =
     (case port_read store st grantId of
        (None, _) \<Rightarrow> \<lparr>exercisable = False, ex_reasonCodes = [GRANT_NOT_FOUND]\<rparr>
      | (Some g, revocation) \<Rightarrow> assessGrantExercise P g revocation now)"

definition revokeGrant :: "'s grant_store_port \<Rightarrow> 's \<Rightarrow> revoke_input \<Rightarrow> revoke_outcome \<times> 's" where
  "revokeGrant store st inp = port_revoke store st inp"

section \<open>The in-memory store honours the contract\<close>

interpretation mem: grant_store_contract mem_issue mem_read mem_revoke
proof unfold_locales
  fix st st' :: grant_store and g h guard codes inp r
  show "st' = st \<and> codes \<noteq> []" if "mem_issue st g guard = (IssueRefused codes, st')"
    using that by (auto simp add: mem_issue_def Let_def split: if_splits option.splits)
  show "st' = st \<and> fst (mem_read st (grant_id g)) = Some h" if "mem_issue st g guard = (AlreadyIssued h, st')"
    using that by (auto simp add: mem_issue_def mem_read_def Let_def split: if_splits option.splits)
  show "h = g \<and> isWellFormedBoundedGrantSemantics g \<and> pre_permitted (guard ()) \<and>
      mem_read st (grant_id g) = (None, None) \<and> mem_read st' (grant_id g) = (Some g, None) \<and>
      (\<forall>i. i \<noteq> grant_id g \<longrightarrow> mem_read st' i = mem_read st i)"
    if "mem_issue st g guard = (Issued h, st')"
    using that by (auto simp add: mem_issue_def mem_read_def Let_def split: if_splits option.splits)
  show "\<exists>st'. mem_issue st g guard = (Issued g, st')"
    if "isWellFormedBoundedGrantSemantics g" "pre_permitted (guard ())" "mem_read st (grant_id g) = (None, None)"
    using that by (simp add: mem_issue_def mem_read_def Let_def)
  show "st' = st" if "mem_revoke st inp = (RevokeRefused codes, st')"
    using that by (auto simp add: mem_revoke_def Let_def split: if_splits option.splits)
  show "st' = st \<and> snd (mem_read st (rv_grantId inp)) = Some r" if "mem_revoke st inp = (AlreadyRevoked r, st')"
    using that by (auto simp add: mem_revoke_def mem_read_def Let_def split: if_splits option.splits)
  show "fst (mem_read st (rv_grantId inp)) \<noteq> None \<and> snd (mem_read st (rv_grantId inp)) = None \<and>
      mem_read st' (rv_grantId inp) = (fst (mem_read st (rv_grantId inp)), Some r) \<and> rev_grantId r = rv_grantId inp \<and>
      (\<forall>i. i \<noteq> rv_grantId inp \<longrightarrow> mem_read st' i = mem_read st i)"
    if "mem_revoke st inp = (Revoked r, st')"
    using that by (auto simp add: mem_revoke_def mem_read_def Let_def split: if_splits option.splits)
  show "\<exists>r st'. mem_revoke st inp = (Revoked r, st')"
    if "fst (mem_read st (rv_grantId inp)) \<noteq> None" "isGrantRevocationReason (rv_reason inp) \<noteq> None"
      "snd (mem_read st (rv_grantId inp)) = None"
    using that by (auto simp add: mem_revoke_def mem_read_def Let_def)
qed

section \<open>What an issuance establishes\<close>

text \<open>The checks an issuance passes before it reaches the store, for a derived scope.\<close>

definition issuable :: "platform \<Rightarrow> grant_issuance_request \<Rightarrow> grant_scope \<Rightarrow> bool" where
  "issuable P request sc \<longleftrightarrow>
     isWellFormedGrantCorrelation (req_correlation request) \<and>
     grantSourceMatchesCorrelation (req_source request) (req_correlation request) \<and>
     eligible (assessGrantEligibility P (req_source request)) \<and>
     req_subject request = src_subject (req_source request) \<and>
     (\<exists>bounds. attenuateGrantScope P (src_scope (req_source request))
        (case requestedBounds request of None \<Rightarrow> no_narrowing | Some b \<Rightarrow> b) = Attenuated sc bounds) \<and>
     accepted (resolveGrantValidity P (req_issuedAt request) (Some (req_expiresAt request))
        (validityCeilings (req_source request) @ option_list (additionalValidityCeilings request)))"

definition semantics_marker :: "grant_scope \<Rightarrow> string option" where
  "semantics_marker sc = (if grantScopeCarriesSemantics sc then Some GRANT_SEMANTICS_FORMAT_V1 else None)"

definition issued_grant :: "platform \<Rightarrow> grant_issuance_request \<Rightarrow> grant_scope \<Rightarrow> bounded_grant" where
  "issued_grant P request sc = build_grant P request sc (req_expiresAt request) (semantics_marker sc)"

lemma attenuated_within:
  "attenuateGrantScope P s r = Attenuated sc bounds \<Longrightarrow> grantScopeIsWithin P s sc"
  using attenuate_outcome [of P s r] narrowed_within [of P s r] by simp

lemma issueGrant_cases:
  assumes "issueGrant P port revalidate st request = (outcome, st')"
  obtains (refused) codes violations cap where "outcome = GrantRefused codes violations cap" "st' = st"
      "\<nexists>sc. issuable P request sc \<and> isConsistentGrantSemantics sc (semantics_marker sc)"
    | (stored) sc out where "issuable P request sc" "isConsistentGrantSemantics sc (semantics_marker sc)"
      "port_issue port st (issued_grant P request sc)
         (\<lambda>_. commit_guard P revalidate request (issued_grant P request sc)) = (out, st')"
      "(case out of IssueRefused codes \<Rightarrow> outcome = GrantRefused codes [] None
         | Issued h \<Rightarrow> (\<exists>bounds cap. outcome = GrantIssued h bounds cap)
         | AlreadyIssued h \<Rightarrow> (\<exists>bounds cap. outcome = GrantAlreadyIssued h bounds cap))"
proof (cases "\<exists>sc. issuable P request sc \<and> isConsistentGrantSemantics sc (semantics_marker sc)")
  case True
  then obtain sc bounds where sc: "issuable P request sc" "isConsistentGrantSemantics sc (semantics_marker sc)"
    and at: "attenuateGrantScope P (src_scope (req_source request))
        (case requestedBounds request of None \<Rightarrow> no_narrowing | Some b \<Rightarrow> b) = Attenuated sc bounds"
    unfolding issuable_def by blast
  let ?v = "resolveGrantValidity P (req_issuedAt request) (Some (req_expiresAt request))
        (validityCeilings (req_source request) @ option_list (additionalValidityCeilings request))"
  have v: "accepted ?v" "res_expiresAt ?v = Some (req_expiresAt request)"
    using sc(1) validity_expiry by (auto simp add: issuable_def)
  obtain out st'' where out: "port_issue port st (issued_grant P request sc)
      (\<lambda>_. commit_guard P revalidate request (issued_grant P request sc)) = (out, st'')" by force
  have "issueGrant P port revalidate st request =
    (case (out, st'') of (IssueRefused codes, st') \<Rightarrow> (refusal codes [], st')
     | (Issued h, st') \<Rightarrow> (GrantIssued h bounds (effectiveCeiling ?v), st')
     | (AlreadyIssued h, st') \<Rightarrow> (GrantAlreadyIssued h bounds (effectiveCeiling ?v), st'))"
    using sc at v out attenuated_within [OF at]
    by (simp add: issueGrant_def Let_def issuable_def issued_grant_def semantics_marker_def)
  then show ?thesis
    using assms sc out by (cases out) (auto simp add: refusal_def intro!: stored [OF sc])
next
  case False
  let ?v = "resolveGrantValidity P (req_issuedAt request) (Some (req_expiresAt request))
        (validityCeilings (req_source request) @ option_list (additionalValidityCeilings request))"
  have "\<exists>codes violations cap. issueGrant P port revalidate st request = (GrantRefused codes violations cap, st)"
  proof (cases "attenuateGrantScope P (src_scope (req_source request))
      (case requestedBounds request of None \<Rightarrow> no_narrowing | Some b \<Rightarrow> b)")
    case (Refused vs bs)
    then show ?thesis by (simp add: issueGrant_def Let_def refusal_def)
  next
    case (Attenuated sc bounds)
    then have not: "\<not> (issuable P request sc \<and> isConsistentGrantSemantics sc (semantics_marker sc))"
      and within: "grantScopeIsWithin P (src_scope (req_source request)) sc"
      using False attenuated_within by blast+
    show ?thesis
    proof (cases "accepted ?v")
      case True
      then have "res_expiresAt ?v = Some (req_expiresAt request)" by (rule validity_expiry)
      then show ?thesis
        using not within True Attenuated
        by (auto simp add: issueGrant_def Let_def refusal_def issuable_def semantics_marker_def)
    next
      case na: False
      then show ?thesis using Attenuated by (simp add: issueGrant_def Let_def refusal_def)
    qed
  qed
  then show ?thesis using assms False refused by auto
qed

lemma issued_grant_fields [simp]:
  "g_correlation (issued_grant P request sc) = req_correlation request"
  "g_subject (issued_grant P request sc) = req_subject request"
  "g_scope (issued_grant P request sc) = sc"
  "g_issuedAt (issued_grant P request sc) = req_issuedAt request"
  "g_expiresAt (issued_grant P request sc) = req_expiresAt request"
  "g_semanticsFormat (issued_grant P request sc) = semantics_marker sc"
  "g_sourceDigest (issued_grant P request sc) = grantSourceDigest P (req_source request)"
  "grant_id (issued_grant P request sc) = boundedGrantId P (req_correlation request) (req_subject request) sc
     (req_expiresAt request) (req_authorityBindingDigest request) (semantics_marker sc)"
  by (simp_all add: issued_grant_def build_grant_def Let_def)

lemma issued_grant_digest: "boundedGrantDigestMatches P (issued_grant P request sc)"
  by (simp add: boundedGrantDigestMatches_def boundedGrantDigest_def issued_grant_def build_grant_def Let_def)

lemma issued_grant_semantics:
  "isWellFormedBoundedGrantSemantics (issued_grant P request sc) \<longleftrightarrow>
     isConsistentGrantSemantics sc (semantics_marker sc)"
  by (simp add: isWellFormedBoundedGrantSemantics_def)

lemma commit_guard_permits:
  assumes "pre_permitted (commit_guard P (Some revalidate) request g)"
  shows "\<exists>current. revalidate (req_correlation request) = Some current \<and>
    eligible (assessGrantEligibility P current) \<and> src_subject current = req_subject request \<and>
    grantScopeIsWithin P (src_scope current) (g_scope g) \<and>
    accepted (resolveGrantValidity P (req_issuedAt request) (Some (g_expiresAt g))
      (validityCeilings current @ option_list (additionalValidityCeilings request)))"
  using assms by (auto simp add: commit_guard_def Let_def split: option.splits if_splits)

lemma eligible_iff:
  "eligible (assessGrantEligibility P source) \<longleftrightarrow>
     authorizationPermitsExercise source \<and> allBlockingObligationsSatisfied source \<and> isDerivableGrantSource P source"
  by (simp add: assessGrantEligibility_def Let_def)

section \<open>Properties\<close>

text \<open>
  C19: a grant that is issued is one its source authorization allows.  The source permitted
  exercise and had no blocking obligation open, the correlation is the source's own, the holder
  is the authorized subject, the scope is within the authorized scope, the expiry is the issuer's
  proposal, after the issuance and within every ceiling of the source and of the request, the
  digest matches the fields, and the store held nothing under that identity and now holds
  exactly this grant, not revoked.
\<close>

theorem issuance_establishes:
  assumes "issueGrant P createInMemoryBoundedGrantStore revalidate st request = (GrantIssued g bounds cap, st')"
  shows "authorizationPermitsExercise (req_source request) \<and> allBlockingObligationsSatisfied (req_source request) \<and>
    isDerivableGrantSource P (req_source request) \<and>
    g_correlation g = req_correlation request \<and>
    grantCorrelationMatches (src_correlation (req_source request)) (g_correlation g) \<and>
    g_subject g = src_subject (req_source request) \<and>
    grantScopeIsWithin P (src_scope (req_source request)) (g_scope g) \<and>
    g_expiresAt g = req_expiresAt request \<and>
    (\<exists>i e. Date_parse P (g_issuedAt g) = Some i \<and> Date_parse P (g_expiresAt g) = Some e \<and> i < e \<and>
       list_all (within_ceiling P e) (validityCeilings (req_source request) @ option_list (additionalValidityCeilings request))) \<and>
    boundedGrantDigestMatches P g \<and> isWellFormedBoundedGrantSemantics g \<and>
    mem_read st (grant_id g) = (None, None) \<and> mem_read st' (grant_id g) = (Some g, None)"
  using assms
proof (cases rule: issueGrant_cases)
  case (stored sc out)
  then have out: "out = Issued g" by (auto split: issue_outcome.splits)
  have i: "mem_issue st (issued_grant P request sc)
      (\<lambda>_. commit_guard P revalidate request (issued_grant P request sc)) = (Issued g, st')"
    using stored(3) out by (simp add: createInMemoryBoundedGrantStore_def)
  note mem = mem.issue_issued [OF i]
  have g: "g = issued_grant P request sc" using mem by blast
  have v: "\<exists>i e. Date_parse P (req_issuedAt request) = Some i \<and> Date_parse P (req_expiresAt request) = Some e \<and> i < e \<and>
       list_all (within_ceiling P e) (validityCeilings (req_source request) @ option_list (additionalValidityCeilings request))"
    using stored(1) validity_accepted_iff unfolding issuable_def by blast
  show ?thesis
    using stored(1) mem v attenuated_within issued_grant_digest [of P request sc] g
    by (auto simp add: issuable_def eligible_iff grantSourceMatchesCorrelation_def)
qed simp

definition example_issuance :: grant_issuance_request where
  "example_issuance = \<lparr>req_source = example_source_authorization, requestedBounds = Some example_request,
     req_subject = ''agent'', req_correlation = example_correlation, req_issuedAt = ''2024-01-01T00:00:00Z'',
     req_expiresAt = ''2024-01-01T00:10:00Z'', additionalValidityCeilings = None, req_authorityBindingDigest = None\<rparr>"

lemma example_issuance_issues:
  "\<exists>g bounds cap st'. issueGrant example_platform createInMemoryBoundedGrantStore None empty_grant_store example_issuance =
     (GrantIssued g bounds cap, st')"
proof -
  have "case fst (issueGrant example_platform createInMemoryBoundedGrantStore None empty_grant_store example_issuance) of
      GrantIssued g bounds cap \<Rightarrow> True | _ \<Rightarrow> False" by code_simp
  then show ?thesis
    by (cases "issueGrant example_platform createInMemoryBoundedGrantStore None empty_grant_store example_issuance")
      (auto split: grant_issuance_outcome.splits)
qed

theorem issuance_establishes_witness:
  "\<exists>g bounds cap st'. issueGrant example_platform createInMemoryBoundedGrantStore None empty_grant_store example_issuance =
     (GrantIssued g bounds cap, st') \<and> grantScopeIsWithin example_platform example_source (g_scope g) \<and>
     g_subject g = ''agent'' \<and> mem_read st' (grant_id g) = (Some g, None)"
proof -
  obtain g bounds cap st' where i: "issueGrant example_platform createInMemoryBoundedGrantStore None empty_grant_store
      example_issuance = (GrantIssued g bounds cap, st')"
    using example_issuance_issues by blast
  show ?thesis
    using issuance_establishes [OF i] i by (auto simp add: example_issuance_def example_source_authorization_def)
qed

text \<open>
  C20: the commit guard closes the gap between evaluation and commit.  When the deployment
  re-reads the source at commit, the re-read authority is eligible and of the same subject; on every
  axis the grant states it states a bound that admits whatever the grant's admits, its parameter
  bounds admit whatever the grant's do, and every ceiling of it is kept.  An axis on which the
  grant states nothing is not compared, although the comment on the check promises an equal or
  narrower grant on every axis the authority states: only if the grant states every axis the
  re-read authority does, is what it admits admitted by that authority.
\<close>

theorem issuance_revalidated:
  assumes "issueGrant P createInMemoryBoundedGrantStore (Some revalidate) st request = (GrantIssued g bounds cap, st')"
  shows "\<exists>current. revalidate (req_correlation request) = Some current \<and>
    authorizationPermitsExercise current \<and> allBlockingObligationsSatisfied current \<and>
    src_subject current = g_subject g \<and>
    (\<forall>key b. axes (g_scope g) key = Some b \<longrightarrow>
       (\<exists>b'. axes (src_scope current) key = Some b' \<and> (\<forall>a. grant_bound_admits P b a \<longrightarrow> grant_bound_admits P b' a))) \<and>
    (\<forall>attempted. list_all (\<lambda>e. governedParameterBoundAdmits (pb_bound e) (attempted (pb_dimension e))) (option_list (parameters (g_scope g))) \<longrightarrow>
       list_all (\<lambda>e. governedParameterBoundAdmits (pb_bound e) (attempted (pb_dimension e))) (option_list (parameters (src_scope current)))) \<and>
    ((\<forall>key. axes (src_scope current) key \<noteq> None \<longrightarrow> axes (g_scope g) key \<noteq> None) \<longrightarrow>
       (\<forall>att. scope_admits P (g_scope g) att \<longrightarrow> scope_admits P (src_scope current) att)) \<and>
    (\<exists>e. Date_parse P (g_expiresAt g) = Some e \<and> list_all (within_ceiling P e) (validityCeilings current))"
  using assms
proof (cases rule: issueGrant_cases)
  case (stored sc out)
  then have "out = Issued g" by (auto split: issue_outcome.splits)
  then have i: "mem_issue st (issued_grant P request sc)
      (\<lambda>_. commit_guard P (Some revalidate) request (issued_grant P request sc)) = (Issued g, st')"
    using stored(3) by (simp add: createInMemoryBoundedGrantStore_def)
  have g: "g = issued_grant P request sc" using mem.issue_issued [OF i] by blast
  obtain current where current: "revalidate (req_correlation request) = Some current"
    "eligible (assessGrantEligibility P current)" "src_subject current = req_subject request"
    "grantScopeIsWithin P (src_scope current) (g_scope g)"
    "accepted (resolveGrantValidity P (req_issuedAt request) (Some (g_expiresAt g))
      (validityCeilings current @ option_list (additionalValidityCeilings request)))"
    using commit_guard_permits mem.issue_issued [OF i] by blast
  have "src_subject current = g_subject g" using current(3) g by simp
  moreover have "\<exists>e. Date_parse P (g_expiresAt g) = Some e \<and> list_all (within_ceiling P e) (validityCeilings current)"
    using current(5) by (auto simp add: validity_accepted_iff)
  ultimately show ?thesis
    using current(1,2) within_axis [OF current(4)] within_parameter [OF current(4)] within_admits [OF current(4)]
    by (auto simp add: eligible_iff list_all_iff)
qed simp

theorem issuance_revalidated_witness:
  "\<exists>g bounds cap st'. issueGrant example_platform createInMemoryBoundedGrantStore
      (Some (\<lambda>_. Some example_source_authorization)) empty_grant_store example_issuance = (GrantIssued g bounds cap, st') \<and>
    (\<forall>key b. axes (g_scope g) key = Some b \<longrightarrow>
       (\<exists>b'. axes example_source key = Some b' \<and>
          (\<forall>a. grant_bound_admits example_platform b a \<longrightarrow> grant_bound_admits example_platform b' a)))"
proof -
  have "case fst (issueGrant example_platform createInMemoryBoundedGrantStore (Some (\<lambda>_. Some example_source_authorization))
      empty_grant_store example_issuance) of GrantIssued g bounds cap \<Rightarrow> True | _ \<Rightarrow> False" by code_simp
  then obtain g bounds cap st' where i: "issueGrant example_platform createInMemoryBoundedGrantStore
      (Some (\<lambda>_. Some example_source_authorization)) empty_grant_store example_issuance = (GrantIssued g bounds cap, st')"
    by (cases "issueGrant example_platform createInMemoryBoundedGrantStore (Some (\<lambda>_. Some example_source_authorization))
      empty_grant_store example_issuance") (auto split: grant_issuance_outcome.splits)
  show ?thesis using issuance_revalidated [OF i] i by (auto simp add: example_source_authorization_def)
qed

text \<open>
  A grant can be issued although the re-read authority bounds an axis the grant leaves open: here
  the authority has come to name one counterparty, and the grant names none.
\<close>

definition narrowed_authorization :: grant_source_authorization where
  "narrowed_authorization = example_source_authorization
     \<lparr>src_scope := example_source\<lparr>axes := (axes example_source)(KCounterparty := Some (IdentityBound ''acme''))\<rparr>\<rparr>"

theorem unstated_axis_issued:
  "case issueGrant example_platform createInMemoryBoundedGrantStore (Some (\<lambda>_. Some narrowed_authorization))
       empty_grant_store example_issuance of
     (GrantIssued g bounds cap, st') \<Rightarrow> axes (g_scope g) KCounterparty = None
   | _ \<Rightarrow> False"
  by code_simp

text \<open>
  issuance withholds a grant for no other reason.  When every check passes for the scope
  attenuation derives, the commit guard permits and the identity is free, exactly the grant so
  built is issued; and whatever the request, a refusal leaves the store as it was.
\<close>

theorem issuance_complete:
  "(issuable P request sc \<and> isConsistentGrantSemantics sc (semantics_marker sc) \<and>
    pre_permitted (commit_guard P revalidate request (issued_grant P request sc)) \<and>
    mem_read st (grant_id (issued_grant P request sc)) = (None, None) \<longrightarrow>
      (\<exists>bounds cap st'. issueGrant P createInMemoryBoundedGrantStore revalidate st request =
         (GrantIssued (issued_grant P request sc) bounds cap, st'))) \<and>
   (issueGrant P createInMemoryBoundedGrantStore revalidate st request = (GrantRefused codes violations cap, st') \<longrightarrow>
      st' = st)"
proof (intro conjI impI)
  assume a: "issuable P request sc \<and> isConsistentGrantSemantics sc (semantics_marker sc) \<and>
    pre_permitted (commit_guard P revalidate request (issued_grant P request sc)) \<and>
    mem_read st (grant_id (issued_grant P request sc)) = (None, None)"
  obtain outcome st' where o: "issueGrant P createInMemoryBoundedGrantStore revalidate st request = (outcome, st')" by force
  then show "\<exists>bounds cap st'. issueGrant P createInMemoryBoundedGrantStore revalidate st request =
      (GrantIssued (issued_grant P request sc) bounds cap, st')"
  proof (cases rule: issueGrant_cases)
    case (stored sc' out)
    have same: "sc' = sc" using a stored(1) by (auto simp add: issuable_def)
    obtain st'' where "mem_issue st (issued_grant P request sc)
        (\<lambda>_. commit_guard P revalidate request (issued_grant P request sc)) = (Issued (issued_grant P request sc), st'')"
      using mem.issue_possible [of "issued_grant P request sc"
          "\<lambda>_. commit_guard P revalidate request (issued_grant P request sc)" st] a issued_grant_semantics
      by (auto simp del: issued_grant_fields)
    then have "out = Issued (issued_grant P request sc)"
      using stored(3) same by (simp add: createInMemoryBoundedGrantStore_def)
    then show ?thesis using stored(4) o by auto
  qed (use a in blast)
next
  assume "issueGrant P createInMemoryBoundedGrantStore revalidate st request = (GrantRefused codes violations cap, st')"
  then show "st' = st"
  proof (cases rule: issueGrant_cases)
    case (stored sc out)
    then show ?thesis
      using mem.issue_refused by (auto simp add: createInMemoryBoundedGrantStore_def split: issue_outcome.splits)
  qed
qed

lemma example_issuable: "issuable example_platform example_issuance (narrowed_scope example_source example_request)"
proof -
  obtain bounds where at: "attenuateGrantScope example_platform example_source example_request =
      Attenuated (narrowed_scope example_source example_request) bounds"
    using attenuate_outcome [of example_platform example_source example_request] example_permitted
    by (cases "attenuateGrantScope example_platform example_source example_request") auto
  have "isWellFormedGrantCorrelation (req_correlation example_issuance)"
    "grantSourceMatchesCorrelation (req_source example_issuance) (req_correlation example_issuance)"
    "eligible (assessGrantEligibility example_platform (req_source example_issuance))"
    "req_subject example_issuance = src_subject (req_source example_issuance)"
    "accepted (resolveGrantValidity example_platform (req_issuedAt example_issuance) (Some (req_expiresAt example_issuance))
      (validityCeilings (req_source example_issuance) @ option_list (additionalValidityCeilings example_issuance)))"
    by code_simp+
  then show ?thesis
    using at by (simp add: issuable_def example_issuance_def example_source_authorization_def)
qed

theorem issuance_complete_witness:
  "\<exists>bounds cap st'. issueGrant example_platform createInMemoryBoundedGrantStore None empty_grant_store example_issuance =
     (GrantIssued (issued_grant example_platform example_issuance (narrowed_scope example_source example_request)) bounds cap, st')"
proof -
  have "isConsistentGrantSemantics (narrowed_scope example_source example_request)
      (semantics_marker (narrowed_scope example_source example_request))" by code_simp
  then show ?thesis
    using issuance_complete [of example_platform example_issuance "narrowed_scope example_source example_request" None empty_grant_store]
      example_issuable
    by (simp add: commit_guard_def mem_read_def empty_grant_store_def)
qed

text \<open>
  C21: revocation is permanent and immediate.  Once a grant is revoked, whatever issuances and
  revocations follow, it is never exercisable again at any instant, and its first revocation
  still stands unchanged.
\<close>

theorem revocation_permanent:
  assumes "mem_revoke st inp = (out, st')" "out = Revoked r \<or> out = AlreadyRevoked r"
  shows "snd (mem_read (mem.history st' ops) (rv_grantId inp)) = Some r \<and>
    \<not> exercisable (assessExercise P createInMemoryBoundedGrantStore (mem.history st' ops) (rv_grantId inp) now)"
proof -
  have r: "snd (mem_read st' (rv_grantId inp)) = Some r"
    using assms mem.revoke_revoked [of st inp r st'] mem.revoke_already [of st inp r st'] by auto
  have h: "snd (mem_read (mem.history st' ops) (rv_grantId inp)) = Some r" using mem.history_keeps(2) [OF r] .
  then show ?thesis
    by (auto simp add: assessExercise_def createInMemoryBoundedGrantStore_def assessGrantExercise_def Let_def
        split: prod.splits option.splits)
qed

theorem revocation_permanent_witness:
  "\<exists>st' r. mem_revoke \<lparr>store_grants = [(''g'', example_grant ''2024-01-01T00:10:00Z'')], store_revocations = []\<rparr>
      \<lparr>rv_grantId = ''g'', rv_reason = ''security-incident'', rv_revokedAt = ''2024-01-01T00:05:00Z'', rv_issuerRef = ''ops''\<rparr>
      = (Revoked r, st') \<and>
    \<not> exercisable (assessExercise example_platform createInMemoryBoundedGrantStore st' ''g'' ''2024-01-01T00:06:00Z'')"
proof -
  let ?st = "\<lparr>store_grants = [(''g'', example_grant ''2024-01-01T00:10:00Z'')], store_revocations = []\<rparr>"
  let ?inp = "\<lparr>rv_grantId = ''g'', rv_reason = ''security-incident'', rv_revokedAt = ''2024-01-01T00:05:00Z'', rv_issuerRef = ''ops''\<rparr>"
  obtain r st' where m: "mem_revoke ?st ?inp = (Revoked r, st')"
    by (simp add: mem_revoke_def isGrantRevocationReason_def GRANT_REVOCATION_REASONS_def Let_def)
  have "\<not> exercisable (assessExercise example_platform createInMemoryBoundedGrantStore (mem.history st' []) (rv_grantId ?inp) ''2024-01-01T00:06:00Z'')"
    using revocation_permanent [OF m] by blast
  then show ?thesis using m by (auto simp add: mem.history_def)
qed

end
