(* ===== verification/Exercise_Limits.thy ===== *)
theory Exercise_Limits
  imports Grant_Issuance "HOL-Library.Product_Lexorder"
begin

text \<open>
  The aggregate limits of \<open>exercise-control-runtime/domain\<close>: the decimal wrappers of
  \<open>exercise-decimal.ts\<close>, the reason codes of \<open>exercise-control-reason-codes.ts\<close> and the limit
  contract of \<open>exercise-control-limits.ts\<close>, with the snapshot that validates what a trusted host
  policy answers, the bucket of a limit, the canonical order and the digest of a limit set.
  The lemmas show what a snapshot accepts, that it is canonical whatever order the policy lists
  its limits in, and that buckets and digested texts determine what they are built from.
\<close>

section \<open>Decimals of the exercise control\<close>

definition EXERCISE_DECIMAL_MAXIMUM_DIGITS :: nat where
  "EXERCISE_DECIMAL_MAXIMUM_DIGITS = 128"

definition EXERCISE_DECIMAL_USAGE_DIGITS :: nat where
  "EXERCISE_DECIMAL_USAGE_DIGITS = 400"

definition isCanonicalExerciseDecimal :: "js_value \<Rightarrow> nat \<Rightarrow> bool" where
  "isCanonicalExerciseDecimal v maximumDigits = isCanonicalDecimal v (Some maximumDigits)"

definition addExerciseDecimals :: "string \<Rightarrow> string \<Rightarrow> js_error + string" where
  "addExerciseDecimals l r = addCanonicalDecimals l r"

definition compareExerciseDecimals :: "string \<Rightarrow> string \<Rightarrow> js_error + int" where
  "compareExerciseDecimals l r = compareCanonicalDecimals l r"

lemma canonical_exercise_decimal:
  "isCanonicalExerciseDecimal (JSString s) n \<Longrightarrow> canonical_text s"
  by (simp add: isCanonicalExerciseDecimal_def)

section \<open>Reason codes\<close>

datatype exercise_control_reason_code =
    EXERCISE_CONTROL_POLICY_INVALID
  | EXERCISE_CONTROL_LEDGER_UNAVAILABLE
  | EXERCISE_CONTROL_LIMIT_EXCEEDED
  | EXERCISE_CONTROL_AMOUNT_REQUIRED
  | EXERCISE_CONTROL_UNIT_MISMATCH
  | EXERCISE_CONTROL_EXECUTION_ALREADY_RESERVED
  | EXERCISE_CONTROL_RESERVATION_CONFLICT
  | EXERCISE_CONTROL_AUTHORITY_BINDING_UNVERIFIABLE
  | EXERCISE_CONTROL_AUTHORITY_BINDING_CHANGED
  | EXERCISE_CONTROL_ACTION_CLASS_MISMATCH

fun exercise_code_name :: "exercise_control_reason_code \<Rightarrow> string" where
  "exercise_code_name EXERCISE_CONTROL_POLICY_INVALID = ''EXERCISE_CONTROL_POLICY_INVALID''"
| "exercise_code_name EXERCISE_CONTROL_LEDGER_UNAVAILABLE = ''EXERCISE_CONTROL_LEDGER_UNAVAILABLE''"
| "exercise_code_name EXERCISE_CONTROL_LIMIT_EXCEEDED = ''EXERCISE_CONTROL_LIMIT_EXCEEDED''"
| "exercise_code_name EXERCISE_CONTROL_AMOUNT_REQUIRED = ''EXERCISE_CONTROL_AMOUNT_REQUIRED''"
| "exercise_code_name EXERCISE_CONTROL_UNIT_MISMATCH = ''EXERCISE_CONTROL_UNIT_MISMATCH''"
| "exercise_code_name EXERCISE_CONTROL_EXECUTION_ALREADY_RESERVED =
     ''EXERCISE_CONTROL_EXECUTION_ALREADY_RESERVED''"
| "exercise_code_name EXERCISE_CONTROL_RESERVATION_CONFLICT = ''EXERCISE_CONTROL_RESERVATION_CONFLICT''"
| "exercise_code_name EXERCISE_CONTROL_AUTHORITY_BINDING_UNVERIFIABLE =
     ''EXERCISE_CONTROL_AUTHORITY_BINDING_UNVERIFIABLE''"
| "exercise_code_name EXERCISE_CONTROL_AUTHORITY_BINDING_CHANGED =
     ''EXERCISE_CONTROL_AUTHORITY_BINDING_CHANGED''"
| "exercise_code_name EXERCISE_CONTROL_ACTION_CLASS_MISMATCH = ''EXERCISE_CONTROL_ACTION_CLASS_MISMATCH''"

definition EXERCISE_CONTROL_REASON_CODE_VALUES :: "exercise_control_reason_code list" where
  "EXERCISE_CONTROL_REASON_CODE_VALUES =
     [EXERCISE_CONTROL_POLICY_INVALID, EXERCISE_CONTROL_LEDGER_UNAVAILABLE,
      EXERCISE_CONTROL_LIMIT_EXCEEDED, EXERCISE_CONTROL_AMOUNT_REQUIRED,
      EXERCISE_CONTROL_UNIT_MISMATCH, EXERCISE_CONTROL_EXECUTION_ALREADY_RESERVED,
      EXERCISE_CONTROL_RESERVATION_CONFLICT, EXERCISE_CONTROL_AUTHORITY_BINDING_UNVERIFIABLE,
      EXERCISE_CONTROL_AUTHORITY_BINDING_CHANGED, EXERCISE_CONTROL_ACTION_CLASS_MISMATCH]"

text \<open>The code a value spells, if it spells one.\<close>

fun isExerciseControlReasonCode :: "js_value \<Rightarrow> exercise_control_reason_code option" where
  "isExerciseControlReasonCode (JSString s) =
     find (\<lambda>c. exercise_code_name c = s) EXERCISE_CONTROL_REASON_CODE_VALUES"
| "isExerciseControlReasonCode _ = None"

section \<open>Limits\<close>

definition EXERCISE_CONTROL_MAXIMUM_LIMITS :: nat where
  "EXERCISE_CONTROL_MAXIMUM_LIMITS = 32"

definition EXERCISE_CONTROL_MAXIMUM_ROLLING_SECONDS :: int where
  "EXERCISE_CONTROL_MAXIMUM_ROLLING_SECONDS = 31536000"

definition EXERCISE_CONTROL_SCOPE_KEY_MAXIMUM_BYTES :: nat where
  "EXERCISE_CONTROL_SCOPE_KEY_MAXIMUM_BYTES = 512"

definition EXERCISE_CONTROL_UNIT_MAXIMUM_BYTES :: nat where
  "EXERCISE_CONTROL_UNIT_MAXIMUM_BYTES = 128"

definition EXERCISE_CONTROL_LIMIT_ID_PATTERN :: "string \<Rightarrow> bool" where
  "EXERCISE_CONTROL_LIMIT_ID_PATTERN s \<longleftrightarrow>
     s \<noteq> [] \<and> is_alnum (hd s) \<and> length s \<le> 128 \<and>
     list_all (\<lambda>c. is_alnum c \<or> c \<in> set ''._:/-'') (tl s)"

datatype exercise_control_window = Lifetime | Rolling int

datatype exercise_control_limit =
    CountLimit (limitId: string) (scopeKey: string) (count_maximum: int)
      (limit_window: exercise_control_window)
  | AmountLimit (limitId: string) (scopeKey: string) (amount_maximum: string) (limit_unit: string)
      (limit_window: exercise_control_window)

text \<open>What the policy and the binding resolver are told about one exercise.\<close>

record exercise_control_query =
  q_boundedGrantId :: string
  q_subject :: string
  q_action :: string
  q_resource :: string
  q_counterparty :: "string option"
  q_organization :: "string option"
  q_amount :: "monetary_amount option"
  q_actionClass :: governed_action_class
  q_correlation :: grant_correlation
  q_grantIssuedAt :: string
  q_grantExpiresAt :: string
  q_at :: string

section \<open>Canonical values\<close>

text \<open>
  A code unit below 128 takes one byte of UTF-8 and the others of the model take two.  No code
  unit of the model is a surrogate, so the test for lone surrogates always passes.
\<close>

definition utf8Bytes :: "string \<Rightarrow> nat" where
  "utf8Bytes s = sum_list (map (\<lambda>c. if code_unit c < 128 then 1 else 2) s)"

fun isBoundedOpaqueText :: "js_value \<Rightarrow> nat \<Rightarrow> bool" where
  "isBoundedOpaqueText (JSString s) maximumBytes \<longleftrightarrow>
     length s > 0 \<and> s = js_trim s \<and> \<not> list_ex is_control s \<and> utf8Bytes s \<le> maximumBytes"
| "isBoundedOpaqueText _ maximumBytes = False"

fun isCanonicalExerciseControlLimitId :: "js_value \<Rightarrow> bool" where
  "isCanonicalExerciseControlLimitId (JSString s) = EXERCISE_CONTROL_LIMIT_ID_PATTERN s"
| "isCanonicalExerciseControlLimitId _ = False"

definition isCanonicalExerciseControlScopeKey :: "js_value \<Rightarrow> bool" where
  "isCanonicalExerciseControlScopeKey v = isBoundedOpaqueText v EXERCISE_CONTROL_SCOPE_KEY_MAXIMUM_BYTES"

definition isCanonicalExerciseControlUnit :: "js_value \<Rightarrow> bool" where
  "isCanonicalExerciseControlUnit v = isBoundedOpaqueText v EXERCISE_CONTROL_UNIT_MAXIMUM_BYTES"

section \<open>Reading a policy's answer\<close>

fun limitOwnData :: "js_value \<Rightarrow> string \<Rightarrow> js_error + js_value" where
  "limitOwnData (JSObject plain ps) key =
     (case map_of ps key of
        None \<Rightarrow> Inr JSUndefined
      | Some (DataProp v) \<Rightarrow> Inr v
      | Some (AccessorProp v) \<Rightarrow>
          Inl (TypeError (CHR 0x27 # key @ CHR 0x27 # '' is an accessor, not a value.'')))"
| "limitOwnData _ key = Inr JSUndefined"

definition hasExactlyKeys :: "js_value \<Rightarrow> string list \<Rightarrow> bool" where
  "hasExactlyKeys source keys \<longleftrightarrow>
     length (ownKeys source) = length keys \<and> list_all (\<lambda>key. key \<in> set keys) (ownKeys source)"

text \<open>Sequencing of readings that may throw.\<close>

definition reading :: "'e + 'a \<Rightarrow> ('a \<Rightarrow> 'e + 'b) \<Rightarrow> 'e + 'b" where
  "reading r k = (case r of Inl e \<Rightarrow> Inl e | Inr v \<Rightarrow> k v)"

lemma reading_simps [simp]: "reading (Inl e) k = Inl e" "reading (Inr v) k = k v"
  by (simp_all add: reading_def)

lemma reading_Inr_iff: "reading r k = Inr w \<longleftrightarrow> (\<exists>v. r = Inr v \<and> k v = Inr w)"
  by (cases r) auto

lemma reading_accepted:
  "(case w of None \<Rightarrow> Inr None | Some x \<Rightarrow> k x) = Inr (Some l) \<longleftrightarrow> (\<exists>x. w = Some x \<and> k x = Inr (Some l))"
  "(if c then Inr None else r) = Inr (Some l) \<longleftrightarrow> \<not> c \<and> r = Inr (Some l)"
  "(if c then r else Inr None) = Inr (Some l) \<longleftrightarrow> c \<and> r = Inr (Some l)"
  by (auto split: option.splits)

text \<open>The text of a value whose type the preceding test established, and the numbers read.\<close>

fun js_text :: "js_value \<Rightarrow> string" where
  "js_text (JSString s) = s"
| "js_text _ = []"

fun rolling_seconds :: "js_value \<Rightarrow> int option" where
  "rolling_seconds (JSNumber (NumInt i)) =
     (if \<not> isSafeInteger (NumInt i) \<or> i < 1 \<or> i > EXERCISE_CONTROL_MAXIMUM_ROLLING_SECONDS
      then None else Some i)"
| "rolling_seconds _ = None"

fun positive_count :: "js_value \<Rightarrow> int option" where
  "positive_count (JSNumber (NumInt i)) = (if \<not> isSafeInteger (NumInt i) \<or> i < 1 then None else Some i)"
| "positive_count _ = None"

definition snapshotWindow :: "js_value \<Rightarrow> js_error + exercise_control_window option" where
  "snapshotWindow raw =
     (if \<not> isPlainRecord raw then Inr None
      else reading (limitOwnData raw ''kind'') (\<lambda>kind.
        if kind = JSString ''lifetime'' then
          Inr (if hasExactlyKeys raw [''kind''] then Some Lifetime else None)
        else if kind = JSString ''rolling'' then
          (if \<not> hasExactlyKeys raw [''kind'', ''seconds''] then Inr None
           else reading (limitOwnData raw ''seconds'') (\<lambda>seconds.
             Inr (map_option Rolling (rolling_seconds seconds))))
        else Inr None))"

text \<open>The two arms of the limit contract, once the shared fields are read.\<close>

definition snapshot_count ::
  "js_value \<Rightarrow> string \<Rightarrow> string \<Rightarrow> js_value \<Rightarrow> exercise_control_window \<Rightarrow> js_error + exercise_control_limit option" where
  "snapshot_count raw lid skey maximum window =
     (if \<not> hasExactlyKeys raw [''limitId'', ''scopeKey'', ''metric'', ''maximum'', ''window''] then Inr None
      else Inr (map_option (\<lambda>m. CountLimit lid skey m window) (positive_count maximum)))"

definition snapshot_amount ::
  "js_value \<Rightarrow> string \<Rightarrow> string \<Rightarrow> js_value \<Rightarrow> exercise_control_window \<Rightarrow> js_error + exercise_control_limit option" where
  "snapshot_amount raw lid skey maximum window =
     (if \<not> hasExactlyKeys raw [''limitId'', ''scopeKey'', ''metric'', ''maximum'', ''unit'', ''window''] then Inr None
      else reading (limitOwnData raw ''unit'') (\<lambda>unit.
        if \<not> isCanonicalExerciseDecimal maximum EXERCISE_DECIMAL_MAXIMUM_DIGITS \<or>
           \<not> isCanonicalExerciseControlUnit unit then Inr None
        else Inr (Some (AmountLimit lid skey (js_text maximum) (js_text unit) window))))"

definition snapshotLimit :: "js_value \<Rightarrow> js_error + exercise_control_limit option" where
  "snapshotLimit raw =
     (if \<not> isPlainRecord raw then Inr None
      else reading (limitOwnData raw ''limitId'') (\<lambda>lid.
        reading (limitOwnData raw ''scopeKey'') (\<lambda>skey.
        reading (limitOwnData raw ''metric'') (\<lambda>metric.
        reading (limitOwnData raw ''maximum'') (\<lambda>maximum.
          if \<not> isCanonicalExerciseControlLimitId lid \<or> \<not> isCanonicalExerciseControlScopeKey skey then Inr None
          else reading (limitOwnData raw ''window'') (\<lambda>windowValue.
            reading (snapshotWindow windowValue) (\<lambda>w.
              case w of None \<Rightarrow> Inr None
              | Some window \<Rightarrow>
                if metric = JSString ''count'' then snapshot_count raw (js_text lid) (js_text skey) maximum window
                else if metric = JSString ''amount'' then snapshot_amount raw (js_text lid) (js_text skey) maximum window
                else Inr None)))))))"

definition exerciseControlBucketKey :: "exercise_control_limit \<Rightarrow> string" where
  "exerciseControlBucketKey limit =
     ''['' @ join '','' [json_string (limitId limit), json_string (scopeKey limit)] @ '']''"

definition limit_order :: "exercise_control_limit \<Rightarrow> exercise_control_limit \<Rightarrow> int" where
  "limit_order l r =
     (if limitId l < limitId r then - 1 else if limitId l > limitId r then 1
      else if scopeKey l < scopeKey r then - 1 else if scopeKey l > scopeKey r then 1 else 0)"

definition sortExerciseControlLimits :: "exercise_control_limit list \<Rightarrow> exercise_control_limit list" where
  "sortExerciseControlLimits limits = sort_by limit_order limits"

text \<open>The loop of the snapshot, with the buckets and the limits collected so far.\<close>

fun collect_limits ::
  "js_value list \<Rightarrow> string list \<Rightarrow> exercise_control_limit list \<Rightarrow> js_error + exercise_control_limit list option" where
  "collect_limits [] buckets limits = Inr (Some limits)"
| "collect_limits (raw # rest) buckets limits =
     reading (snapshotLimit raw) (\<lambda>entry.
       case entry of None \<Rightarrow> Inr None
       | Some limit \<Rightarrow>
           if exerciseControlBucketKey limit \<in> set buckets then Inr None
           else collect_limits rest (js_set_add buckets (exerciseControlBucketKey limit)) (limits @ [limit]))"

fun snapshotExerciseControlLimits :: "js_value \<Rightarrow> js_error + exercise_control_limit list option" where
  "snapshotExerciseControlLimits (JSArray raw) =
     (if length raw > EXERCISE_CONTROL_MAXIMUM_LIMITS then Inr None
      else reading (collect_limits raw [] []) (\<lambda>collected.
        Inr (map_option sortExerciseControlLimits collected)))"
| "snapshotExerciseControlLimits _ = Inr None"

section \<open>Digest of a limit set\<close>

fun serializeWindow :: "platform \<Rightarrow> exercise_control_window \<Rightarrow> string" where
  "serializeWindow P Lifetime = json_object [json_member ''kind'' (json_string ''lifetime'')]"
| "serializeWindow P (Rolling s) =
     json_object [json_member ''kind'' (json_string ''rolling''),
                  json_member ''seconds'' (js_number_toString P (NumInt s))]"

fun limit_metric :: "exercise_control_limit \<Rightarrow> string" where
  "limit_metric (CountLimit _ _ _ _) = ''count''"
| "limit_metric (AmountLimit _ _ _ _ _) = ''amount''"

definition serializeExerciseControlLimit :: "platform \<Rightarrow> exercise_control_limit \<Rightarrow> string" where
  "serializeExerciseControlLimit P limit = json_object
     ([json_member ''limitId'' (json_string (limitId limit)),
       json_member ''maximum'' (case limit of
          CountLimit _ _ m _ \<Rightarrow> js_number_toString P (NumInt m)
        | AmountLimit _ _ m _ _ \<Rightarrow> json_string m),
       json_member ''metric'' (json_string (limit_metric limit)),
       json_member ''scopeKey'' (json_string (scopeKey limit))] @
      (case limit of CountLimit _ _ _ _ \<Rightarrow> []
       | AmountLimit _ _ _ u _ \<Rightarrow> [json_member ''unit'' (json_string u)]) @
      [json_member ''window'' (serializeWindow P (limit_window limit))])"

definition limit_set_text :: "platform \<Rightarrow> exercise_control_limit list \<Rightarrow> string" where
  "limit_set_text P limits =
     ''['' @ join '','' (map (serializeExerciseControlLimit P) (sortExerciseControlLimits limits)) @ '']''"

definition exerciseControlPolicyDigest :: "platform \<Rightarrow> exercise_control_limit list \<Rightarrow> string" where
  "exerciseControlPolicyDigest P limits = ''sha256:'' @ sha256_hex P (limit_set_text P limits)"

section \<open>What a snapshot accepts\<close>

fun canonical_window :: "exercise_control_window \<Rightarrow> bool" where
  "canonical_window Lifetime = True"
| "canonical_window (Rolling s) = (1 \<le> s \<and> s \<le> EXERCISE_CONTROL_MAXIMUM_ROLLING_SECONDS)"

fun canonical_maximum :: "exercise_control_limit \<Rightarrow> bool" where
  "canonical_maximum (CountLimit _ _ m _) = (1 \<le> m \<and> m \<le> MAX_SAFE_INTEGER)"
| "canonical_maximum (AmountLimit _ _ m u _) =
     (isCanonicalExerciseDecimal (JSString m) EXERCISE_DECIMAL_MAXIMUM_DIGITS \<and>
      isCanonicalExerciseControlUnit (JSString u))"

definition canonical_limit :: "exercise_control_limit \<Rightarrow> bool" where
  "canonical_limit l \<longleftrightarrow>
     EXERCISE_CONTROL_LIMIT_ID_PATTERN (limitId l) \<and>
     isCanonicalExerciseControlScopeKey (JSString (scopeKey l)) \<and>
     canonical_window (limit_window l) \<and> canonical_maximum l"

text \<open>A typed limit as the value the snapshot reads.\<close>

fun window_js :: "exercise_control_window \<Rightarrow> js_value" where
  "window_js Lifetime = JSObject True [(''kind'', DataProp (JSString ''lifetime''))]"
| "window_js (Rolling s) =
     JSObject True [(''kind'', DataProp (JSString ''rolling'')), (''seconds'', DataProp (JSNumber (NumInt s)))]"

fun limit_js :: "exercise_control_limit \<Rightarrow> js_value" where
  "limit_js (CountLimit i k m w) = JSObject True
     [(''limitId'', DataProp (JSString i)), (''scopeKey'', DataProp (JSString k)),
      (''metric'', DataProp (JSString ''count'')), (''maximum'', DataProp (JSNumber (NumInt m))),
      (''window'', DataProp (window_js w))]"
| "limit_js (AmountLimit i k m u w) = JSObject True
     [(''limitId'', DataProp (JSString i)), (''scopeKey'', DataProp (JSString k)),
      (''metric'', DataProp (JSString ''amount'')), (''maximum'', DataProp (JSString m)),
      (''unit'', DataProp (JSString u)), (''window'', DataProp (window_js w))]"

lemma rolling_seconds_safe: "s \<le> EXERCISE_CONTROL_MAXIMUM_ROLLING_SECONDS \<Longrightarrow> s \<le> MAX_SAFE_INTEGER"
  by (simp add: EXERCISE_CONTROL_MAXIMUM_ROLLING_SECONDS_def MAX_SAFE_INTEGER_def)

lemma rolling_seconds_bound:
  "rolling_seconds v = Some s \<Longrightarrow> 1 \<le> s \<and> s \<le> EXERCISE_CONTROL_MAXIMUM_ROLLING_SECONDS"
  by (cases v rule: rolling_seconds.cases) (auto split: if_splits)

lemma positive_count_bound: "positive_count v = Some m \<Longrightarrow> 1 \<le> m \<and> m \<le> MAX_SAFE_INTEGER"
  by (cases v rule: positive_count.cases) (auto split: if_splits)

lemma limit_texts:
  "isCanonicalExerciseControlLimitId v \<Longrightarrow> EXERCISE_CONTROL_LIMIT_ID_PATTERN (js_text v)"
  "isCanonicalExerciseControlScopeKey v \<Longrightarrow> isCanonicalExerciseControlScopeKey (JSString (js_text v))"
  "isCanonicalExerciseControlUnit v \<Longrightarrow> isCanonicalExerciseControlUnit (JSString (js_text v))"
  "isCanonicalExerciseDecimal v n \<Longrightarrow> isCanonicalExerciseDecimal (JSString (js_text v)) n"
  by (cases v; simp add: isCanonicalExerciseControlScopeKey_def isCanonicalExerciseControlUnit_def
      isCanonicalExerciseDecimal_def)+

lemma snapshotWindow_js: "snapshotWindow (window_js w) = Inr (if canonical_window w then Some w else None)"
  by (cases w) (auto simp add: snapshotWindow_def hasExactlyKeys_def dest: rolling_seconds_safe)

lemma snapshotWindow_canonical: "snapshotWindow raw = Inr (Some w) \<Longrightarrow> canonical_window w"
  by (auto simp add: snapshotWindow_def reading_Inr_iff dest: rolling_seconds_bound split: if_split_asm)

lemma snapshot_arms_canonical:
  assumes "EXERCISE_CONTROL_LIMIT_ID_PATTERN lid" "isCanonicalExerciseControlScopeKey (JSString skey)"
    "canonical_window window"
  shows "snapshot_count raw lid skey maximum window = Inr (Some l) \<Longrightarrow> canonical_limit l"
    and "snapshot_amount raw lid skey maximum window = Inr (Some l) \<Longrightarrow> canonical_limit l"
  using assms
  by (auto simp add: snapshot_count_def snapshot_amount_def reading_Inr_iff canonical_limit_def
      dest: positive_count_bound intro: limit_texts split: if_split_asm)

lemma snapshotLimit_arm:
  assumes "snapshotLimit raw = Inr (Some l)"
  shows "\<exists>lid skey maximum wv window.
    isCanonicalExerciseControlLimitId lid \<and> isCanonicalExerciseControlScopeKey skey \<and>
    snapshotWindow wv = Inr (Some window) \<and>
    (snapshot_count raw (js_text lid) (js_text skey) maximum window = Inr (Some l) \<or>
     snapshot_amount raw (js_text lid) (js_text skey) maximum window = Inr (Some l))"
  using assms unfolding snapshotLimit_def reading_Inr_iff reading_accepted
  apply (elim exE conjE)
  subgoal for lid skey metric maximum wv w window
    by (rule exI [of _ lid], rule exI [of _ skey], rule exI [of _ maximum], rule exI [of _ wv], rule exI [of _ window])
      (auto split: if_split_asm)
  done

lemma snapshotLimit_canonical: "snapshotLimit raw = Inr (Some l) \<Longrightarrow> canonical_limit l"
  using snapshotLimit_arm snapshot_arms_canonical limit_texts(1,2) snapshotWindow_canonical by metis

lemma snapshotLimit_js: "snapshotLimit (limit_js l) = Inr (if canonical_limit l then Some l else None)"
  by (cases l) (auto simp add: snapshotLimit_def snapshot_count_def snapshot_amount_def hasExactlyKeys_def
      canonical_limit_def snapshotWindow_js)

section \<open>Buckets\<close>

definition limit_key :: "exercise_control_limit \<Rightarrow> string \<times> string" where
  "limit_key l = (limitId l, scopeKey l)"

definition bucket_json :: "exercise_control_limit \<Rightarrow> json" where
  "bucket_json l = JArr [JStr (limitId l), JStr (scopeKey l)]"

lemma bucket_key_iff [simp]:
  "exerciseControlBucketKey l = exerciseControlBucketKey m \<longleftrightarrow> limit_key l = limit_key m"
proof -
  have p: "exerciseControlBucketKey x = json_print P (bucket_json x)" for x P
    by (simp add: exerciseControlBucketKey_def bucket_json_def)
  show ?thesis
    unfolding p [of l undefined] p [of m undefined]
    using json_trees.injective [of "bucket_json l" "bucket_json m" undefined]
    by (simp add: bucket_json_def limit_key_def del: json_print.simps)
qed

lemma limit_order_key: "limit_order l m \<le> 0 \<longleftrightarrow> limit_key l \<le> limit_key m"
  by (auto simp add: limit_order_def limit_key_def)

lemma sort_limits: "sortExerciseControlLimits ls = sort_key limit_key ls"
proof -
  have "insert_by limit_order x ys = insort_key limit_key x ys" for x ys
    by (induction ys) (auto simp add: limit_order_key)
  then show ?thesis
    by (simp add: sortExerciseControlLimits_def sort_by_def sort_key_def fun_eq_iff cong: foldr_cong)
qed

lemma set_sort_limits [simp]: "set (sortExerciseControlLimits ls) = set ls"
  by (simp add: sort_limits)

lemma length_sort_limits [simp]: "length (sortExerciseControlLimits ls) = length ls"
  by (simp add: sort_limits)

definition limit_set :: "exercise_control_limit list \<Rightarrow> bool" where
  "limit_set ls \<longleftrightarrow> list_all canonical_limit ls \<and> distinct (map limit_key ls)"

lemma sorted_limits_unique:
  assumes "distinct (map limit_key ls)" "distinct (map limit_key ms)" "set ls = set ms"
  shows "sortExerciseControlLimits ls = sortExerciseControlLimits ms"
proof -
  have keys: "distinct (map limit_key (sort_key limit_key xs)) \<longleftrightarrow> distinct (map limit_key xs)" for xs
    by (metis mset_map mset_sort mset_eq_imp_distinct_iff)
  have "map limit_key (sort_key limit_key ls) = map limit_key (sort_key limit_key ms)"
    using assms keys by (intro sorted_distinct_set_unique) auto
  moreover have "inj_on limit_key (set ls)" using assms(1) by (simp add: distinct_map)
  ultimately show ?thesis unfolding sort_limits
    using assms(3) map_inj_on [of limit_key "sort_key limit_key ls" "sort_key limit_key ms"] by simp
qed

lemma collect_limits_sound:
  assumes "collect_limits raws buckets ls = Inr (Some out)"
  shows "\<exists>ms. out = ls @ ms \<and> length ms = length raws \<and> list_all canonical_limit ms \<and>
    distinct (map limit_key ms) \<and> set (map exerciseControlBucketKey ms) \<inter> set buckets = {}"
  using assms
proof (induction raws arbitrary: buckets ls)
  case Nil
  then show ?case by simp
next
  case (Cons raw raws)
  from Cons.prems obtain l where l: "snapshotLimit raw = Inr (Some l)"
    "exerciseControlBucketKey l \<notin> set buckets"
    "collect_limits raws (js_set_add buckets (exerciseControlBucketKey l)) (ls @ [l]) = Inr (Some out)"
    by (auto simp add: reading_Inr_iff reading_accepted)
  from Cons.IH [OF l(3)] obtain ms where "out = (ls @ [l]) @ ms" "length ms = length raws"
    "list_all canonical_limit ms" "distinct (map limit_key ms)"
    "set (map exerciseControlBucketKey ms) \<inter> insert (exerciseControlBucketKey l) (set buckets) = {}"
    using l(2) by (auto simp add: js_set_add_def)
  then show ?case using l snapshotLimit_canonical [OF l(1)]
    by (intro exI [of _ "l # ms"]) (force simp flip: bucket_key_iff)
qed

lemma collect_limits_typed:
  "collect_limits (map limit_js ms) buckets ls =
     Inr (if limit_set ms \<and> set (map exerciseControlBucketKey ms) \<inter> set buckets = {} then Some (ls @ ms) else None)"
proof (induction ms arbitrary: buckets ls)
  case Nil
  then show ?case by (simp add: limit_set_def)
next
  case (Cons l ms)
  have "limit_key l \<in> limit_key ` set ms \<longleftrightarrow>
      exerciseControlBucketKey l \<in> exerciseControlBucketKey ` set ms"
    by (auto simp add: image_iff)
  then show ?case using Cons.IH by (auto simp add: snapshotLimit_js limit_set_def js_set_add_def)
qed

lemma snapshot_typed:
  "snapshotExerciseControlLimits (JSArray (map limit_js ms)) =
     Inr (if length ms \<le> EXERCISE_CONTROL_MAXIMUM_LIMITS \<and> limit_set ms
          then Some (sortExerciseControlLimits ms) else None)"
  by (simp add: collect_limits_typed)

lemma limit_set_sort [simp]: "limit_set (sortExerciseControlLimits ls) = limit_set ls"
proof -
  have "distinct (map limit_key (sort_key limit_key ls)) \<longleftrightarrow> distinct (map limit_key ls)"
    by (metis mset_map mset_sort mset_eq_imp_distinct_iff)
  then show ?thesis by (simp add: limit_set_def sort_limits list_all_iff)
qed

lemma snapshot_sound:
  assumes "snapshotExerciseControlLimits raw = Inr (Some ls)"
  shows "length ls \<le> EXERCISE_CONTROL_MAXIMUM_LIMITS" "limit_set ls" "sorted (map limit_key ls)"
proof -
  from assms obtain raws ms where "length raws \<le> EXERCISE_CONTROL_MAXIMUM_LIMITS"
    "collect_limits raws [] [] = Inr (Some ms)" "ls = sortExerciseControlLimits ms"
    by (cases raw) (auto simp add: reading_Inr_iff not_less split: if_split_asm)
  with collect_limits_sound [of raws "[]" "[]" ms]
  show "length ls \<le> EXERCISE_CONTROL_MAXIMUM_LIMITS" "limit_set ls" "sorted (map limit_key ls)"
    by (auto simp add: limit_set_def [of ms]) (simp add: sort_limits)
qed

lemma sort_sorted_limits: "sorted (map limit_key ls) \<Longrightarrow> sortExerciseControlLimits ls = ls"
  by (simp add: sort_limits sort_key_id_if_sorted)

section \<open>Canonical texts\<close>

fun window_tree :: "exercise_control_window \<Rightarrow> json" where
  "window_tree Lifetime = JObj [(''kind'', JStr ''lifetime'')]"
| "window_tree (Rolling s) = JObj [(''kind'', JStr ''rolling''), (''seconds'', JNum (NumInt s))]"

definition limit_tree :: "exercise_control_limit \<Rightarrow> json" where
  "limit_tree l = JObj
     ([(''limitId'', JStr (limitId l)),
       (''maximum'', case l of CountLimit _ _ m _ \<Rightarrow> JNum (NumInt m) | AmountLimit _ _ m _ _ \<Rightarrow> JStr m),
       (''metric'', JStr (limit_metric l)), (''scopeKey'', JStr (scopeKey l))] @
      (case l of CountLimit _ _ _ _ \<Rightarrow> [] | AmountLimit _ _ _ u _ \<Rightarrow> [(''unit'', JStr u)]) @
      [(''window'', window_tree (limit_window l))])"

lemma window_text: "serializeWindow P w = json_print P (window_tree w)"
  by (cases w) (simp_all add: json_object_def json_member_def json_number_def)

lemma limit_text: "serializeExerciseControlLimit P l = json_print P (limit_tree l)"
  by (cases l)
    (simp_all add: serializeExerciseControlLimit_def limit_tree_def json_object_def json_member_def
      window_text json_number_def)

lemma window_tree_inject: "window_tree v = window_tree w \<longleftrightarrow> v = w"
  by (cases v; cases w) auto

lemma limit_tree_inject: "limit_tree l = limit_tree m \<longleftrightarrow> l = m"
  by (cases l; cases m) (auto simp add: limit_tree_def window_tree_inject)

lemma limit_tree_ok: "canonical_limit l \<Longrightarrow> json_ok (limit_tree l)"
  by (cases l; cases "limit_window l")
    (auto simp add: limit_tree_def canonical_limit_def dest: rolling_seconds_safe)

lemma limit_set_text_inject:
  assumes "limit_set ls" "limit_set ms"
  shows "limit_set_text P ls = limit_set_text P ms \<longleftrightarrow> set ls = set ms"
proof -
  let ?t = "\<lambda>xs. JArr (map limit_tree (sortExerciseControlLimits xs))"
  have printed: "limit_set_text P xs = json_print P (?t xs)" for xs
    by (simp add: limit_set_text_def limit_text cong: map_cong)
  have "limit_set_text P ls = limit_set_text P ms \<longleftrightarrow> ?t ls = ?t ms"
    unfolding printed using assms
    by (intro json_trees.injective) (auto simp add: list_all_iff limit_set_def intro: limit_tree_ok)
  also have "\<dots> \<longleftrightarrow> sortExerciseControlLimits ls = sortExerciseControlLimits ms"
    using inj_map_eq_map [of limit_tree] by (simp add: inj_on_def limit_tree_inject)
  also have "\<dots> \<longleftrightarrow> set ls = set ms"
    using assms by (metis limit_set_def set_sort_limits sorted_limits_unique)
  finally show ?thesis .
qed

section \<open>Properties\<close>

text \<open>
  C27: Whatever a trusted policy answers, a snapshot that is taken is enforceable as it stands:
  at most 32 limits, each inside the closed contract, no bucket stated twice, in the canonical
  order.  Conversely an array of limits is refused exactly when it is too long, states a limit
  outside the contract or repeats a bucket, and is otherwise taken whole, in canonical order.
\<close>

theorem policy_snapshot_exact:
  "(snapshotExerciseControlLimits raw = Inr (Some ls) \<longrightarrow>
      length ls \<le> 32 \<and> list_all canonical_limit ls \<and> sorted (map limit_key ls) \<and>
      distinct (map exerciseControlBucketKey ls)) \<and>
   snapshotExerciseControlLimits (JSArray (map limit_js ms)) =
     Inr (if length ms \<le> 32 \<and> list_all canonical_limit ms \<and> distinct (map exerciseControlBucketKey ms)
          then Some (sortExerciseControlLimits ms) else None)"
proof -
  have d: "distinct (map exerciseControlBucketKey xs) \<longleftrightarrow> distinct (map limit_key xs)" for xs
    by (induction xs) (auto simp add: image_iff)
  show ?thesis
    using snapshot_sound [of raw ls]
    by (auto simp add: snapshot_typed limit_set_def d EXERCISE_CONTROL_MAXIMUM_LIMITS_def
        simp del: snapshotExerciseControlLimits.simps)
qed

definition example_limits :: "exercise_control_limit list" where
  "example_limits =
     [CountLimit ''velocity'' ''agent-7'' 3 (Rolling 60),
      AmountLimit ''spend'' ''agent-7'' ''100.5'' ''iso4217:USD'' Lifetime]"

theorem policy_snapshot_exact_witness:
  "snapshotExerciseControlLimits (JSArray (map limit_js example_limits)) = Inr (Some (rev example_limits)) \<and>
   sorted (map limit_key (rev example_limits)) \<and> distinct (map exerciseControlBucketKey (rev example_limits))"
proof -
  have s: "snapshotExerciseControlLimits (JSArray (map limit_js example_limits)) = Inr (Some (rev example_limits))"
    by code_simp
  from policy_snapshot_exact [of "JSArray (map limit_js example_limits)" "rev example_limits" "[]"] s
  show ?thesis by blast
qed

text \<open>
  The text a policy digest commits to determines the set of limits, and nothing else: two
  limit sets with one limit per bucket have the same text exactly when they hold the same
  limits, so the order a policy lists them in never changes the digest, and a changed maximum,
  metric, unit, window, bucket or limit id changes the text under it.
\<close>

theorem policy_digest_commits:
  assumes "limit_set ls" "limit_set ms"
  shows "(limit_set_text P ls = limit_set_text P ms \<longleftrightarrow> set ls = set ms) \<and>
    (set ls = set ms \<longrightarrow> exerciseControlPolicyDigest P ls = exerciseControlPolicyDigest P ms)"
  using limit_set_text_inject [OF assms, of P] by (auto simp add: exerciseControlPolicyDigest_def)

theorem policy_digest_commits_witness:
  "exerciseControlPolicyDigest example_platform example_limits =
     exerciseControlPolicyDigest example_platform (rev example_limits) \<and>
   limit_set_text example_platform example_limits \<noteq> limit_set_text example_platform (tl example_limits)"
proof -
  have ok: "limit_set example_limits" "limit_set (rev example_limits)" "limit_set (tl example_limits)"
    by code_simp+
  have "set example_limits \<noteq> set (tl example_limits)" by (simp add: example_limits_def)
  then show ?thesis
    using policy_digest_commits [OF ok(1,3), of example_platform]
      policy_digest_commits [OF ok(1,2), of example_platform] by simp
qed

end
