(* ===== verification/Exercise_Ledger.thy ===== *)
theory Exercise_Ledger
  imports Exercise_Limits
begin

text \<open>
  Reservations of aggregate capacity and the ledger that admits them:
  \<open>exercise-control-runtime/domain/exercise-reservation.ts\<close>,
  \<open>exercise-reservation-resolution.ts\<close>, \<open>exercise-control-ledger-port.ts\<close> and
  \<open>services/in-memory-exercise-control-ledger.ts\<close>.  A reservation is an immutable record; one
  terminal event and one resolution may stand beside it, and whether it consumes is derived from
  both.  The locale \<open>reservation_ledger\<close> states what a ledger promises operation by operation;
  what holds of every history of operations is proved inside it, and it is interpreted on the
  in-memory ledger.  Every operation of the ledger is one synchronous section, so a history of
  concurrent callers is a sequence of operations.  The instant a clock answers inside a section
  is an argument of the operation.
\<close>

section \<open>Reservations\<close>

definition reservation_identity_text :: "string \<Rightarrow> string \<Rightarrow> string" where
  "reservation_identity_text grantId execId =
     json_object [json_member ''boundedGrantId'' (json_string grantId),
                  json_member ''executionId'' (json_string execId)]"

definition exerciseReservationId :: "platform \<Rightarrow> string \<Rightarrow> string \<Rightarrow> string" where
  "exerciseReservationId P grantId execId =
     ''aoc.exercise-reservation:'' @ take 32 (sha256_hex P (reservation_identity_text grantId execId))"

record exercise_reservation_subject =
  sub_boundedGrantId :: string
  sub_executionId :: string
  sub_subject :: string
  sub_action :: string
  sub_resource :: string
  sub_counterparty :: "string option"
  sub_organization :: "string option"
  sub_amount :: "monetary_amount option"
  sub_correlation :: grant_correlation

definition reservation_request_text :: "exercise_reservation_subject \<Rightarrow> string" where
  "reservation_request_text s = json_object
     ((case sub_amount s of None \<Rightarrow> []
       | Some a \<Rightarrow> [json_member ''amount''
           (json_object [json_member ''unit'' (json_string (amount_unit a)),
                         json_member ''value'' (json_string (amount_value a))])]) @
      [json_member ''action'' (json_string (sub_action s)),
       json_member ''boundedGrantId'' (json_string (sub_boundedGrantId s)),
       json_member ''correlation'' (json_object
         [json_member ''action'' (json_string (corr_action (sub_correlation s))),
          json_member ''decisionId'' (json_string (decisionId (sub_correlation s))),
          json_member ''requestId'' (json_string (requestId (sub_correlation s))),
          json_member ''resourceScope'' (json_string (resourceScope (sub_correlation s)))])] @
      optional_member ''counterparty'' (sub_counterparty s) @
      [json_member ''executionId'' (json_string (sub_executionId s))] @
      optional_member ''organization'' (sub_organization s) @
      [json_member ''resource'' (json_string (sub_resource s)),
       json_member ''subject'' (json_string (sub_subject s))])"

definition exerciseReservationRequestDigest :: "platform \<Rightarrow> exercise_reservation_subject \<Rightarrow> string" where
  "exerciseReservationRequestDigest P s = ''sha256:'' @ sha256_hex P (reservation_request_text s)"

record exercise_control_rule_usage =
  rule_limit :: exercise_control_limit
  rule_usage :: string

record exercise_reservation_request =
  rr_reservationId :: string
  rr_executionId :: string
  rr_boundedGrantId :: string
  rr_requestDigest :: string
  rr_policyDigest :: string
  rr_authorityBindingDigest :: string
  rr_rules :: "exercise_control_rule_usage list"

record exercise_reservation_record = exercise_reservation_request +
  rr_reservedAt :: string

section \<open>Terminal events and resolutions\<close>

datatype exercise_terminal_kind = KindSettled | KindReleased

datatype exercise_terminal_reason =
    ReasonExecuted | ReasonExecutionUnconfirmed
  | ReasonExecutionFailed | ReasonEmergencyControl | ReasonExerciseControl | ReasonGrantExercise

definition isExerciseReservationSettleReason :: "exercise_terminal_reason \<Rightarrow> bool" where
  "isExerciseReservationSettleReason r \<longleftrightarrow> r \<in> set [ReasonExecuted, ReasonExecutionUnconfirmed]"

definition isExerciseReservationReleaseReason :: "exercise_terminal_reason \<Rightarrow> bool" where
  "isExerciseReservationReleaseReason r \<longleftrightarrow>
     r \<in> set [ReasonExecutionFailed, ReasonEmergencyControl, ReasonExerciseControl, ReasonGrantExercise]"

definition exerciseReservationTerminalReasonMatches ::
  "exercise_terminal_kind \<Rightarrow> exercise_terminal_reason \<Rightarrow> bool" where
  "exerciseReservationTerminalReasonMatches kind reason =
     (if kind = KindSettled then isExerciseReservationSettleReason reason
      else isExerciseReservationReleaseReason reason)"

record exercise_terminal_event =
  te_reservationId :: string
  te_kind :: exercise_terminal_kind
  te_reason :: exercise_terminal_reason
  te_recordedAt :: string

datatype exercise_resolution = ConfirmedCompleted | ConfirmedNotCompleted

datatype exercise_resolution_basis = InitialObservationUnconfirmed | NoInitialObservation

record exercise_resolution_event =
  rs_reservationId :: string
  rs_executionId :: string
  rs_resolutionDigest :: string
  rs_resolution :: exercise_resolution
  rs_recordedAt :: string

record exercise_resolution_input =
  ri_reservationId :: string
  ri_executionId :: string
  ri_resolutionDigest :: string
  ri_resolution :: exercise_resolution
  ri_basis :: exercise_resolution_basis
  ri_recordedAt :: string

definition exerciseReservationResolutionConsistent ::
  "exercise_terminal_event option \<Rightarrow> exercise_resolution \<Rightarrow> exercise_resolution_basis \<Rightarrow> bool" where
  "exerciseReservationResolutionConsistent terminal resolution basis =
     (case terminal of None \<Rightarrow> True
      | Some e \<Rightarrow>
          if te_kind e = KindSettled \<and> te_reason e = ReasonExecutionUnconfirmed then True
          else if basis = InitialObservationUnconfirmed then False
          else if te_kind e = KindSettled then resolution = ConfirmedCompleted
          else resolution = ConfirmedNotCompleted)"

definition exerciseReservationConsumes ::
  "exercise_terminal_event option \<Rightarrow> exercise_resolution_event option \<Rightarrow> bool" where
  "exerciseReservationConsumes terminal resolution =
     (case resolution of
        None \<Rightarrow> map_option te_kind terminal \<noteq> Some KindReleased
      | Some r \<Rightarrow>
          if \<not> exerciseReservationResolutionConsistent terminal (rs_resolution r) NoInitialObservation then True
          else rs_resolution r \<noteq> ConfirmedNotCompleted)"

definition exerciseReservationResolutionMatches ::
  "exercise_resolution_event \<Rightarrow> exercise_resolution_input \<Rightarrow> bool" where
  "exerciseReservationResolutionMatches event input \<longleftrightarrow>
     rs_reservationId event = ri_reservationId input \<and> rs_executionId event = ri_executionId input \<and>
     rs_resolutionDigest event = ri_resolutionDigest input \<and> rs_resolution event = ri_resolution input"

section \<open>Well-formed requests\<close>

definition isWellFormedExerciseDigest :: "string \<Rightarrow> bool" where
  "isWellFormedExerciseDigest s = DIGEST s"

definition isExerciseReservationInstant :: "platform \<Rightarrow> string \<Rightarrow> bool" where
  "isExerciseReservationInstant P s \<longleftrightarrow> length s > 0 \<and> Date_parse P s \<noteq> None"

definition isWellFormedExerciseReservationResolutionInput :: "platform \<Rightarrow> exercise_resolution_input \<Rightarrow> bool" where
  "isWellFormedExerciseReservationResolutionInput P input \<longleftrightarrow>
     length (ri_reservationId input) > 0 \<and> length (ri_executionId input) > 0 \<and>
     isWellFormedExerciseDigest (ri_resolutionDigest input) \<and>
     isExerciseReservationInstant P (ri_recordedAt input)"

definition isWellFormedExerciseRuleUsage :: "exercise_control_rule_usage \<Rightarrow> bool" where
  "isWellFormedExerciseRuleUsage rule =
     (if limit_metric (rule_limit rule) = ''count'' then rule_usage rule = ''1''
      else isCanonicalExerciseDecimal (JSString (rule_usage rule)) EXERCISE_DECIMAL_USAGE_DIGITS)"

definition isWellFormedExerciseReservationRequest :: "platform \<Rightarrow> 'a exercise_reservation_request_scheme \<Rightarrow> bool" where
  "isWellFormedExerciseReservationRequest P request \<longleftrightarrow>
     rr_boundedGrantId request \<noteq> [] \<and> rr_executionId request \<noteq> [] \<and>
     rr_reservationId request = exerciseReservationId P (rr_boundedGrantId request) (rr_executionId request) \<and>
     isWellFormedExerciseDigest (rr_requestDigest request) \<and>
     isWellFormedExerciseDigest (rr_policyDigest request) \<and>
     isWellFormedExerciseDigest (rr_authorityBindingDigest request) \<and>
     (case snapshotExerciseControlLimits
             (JSArray (map (\<lambda>rule. limit_js (rule_limit rule)) (rr_rules request))) of
        Inr (Some limits) \<Rightarrow>
          list_all (\<lambda>(limit, rule). exerciseControlBucketKey limit = exerciseControlBucketKey (rule_limit rule))
            (zip limits (rr_rules request)) \<and>
          exerciseControlPolicyDigest P limits = rr_policyDigest request \<and>
          list_all isWellFormedExerciseRuleUsage (rr_rules request)
      | _ \<Rightarrow> False)"

definition isWellFormedExerciseReservation :: "platform \<Rightarrow> exercise_reservation_record \<Rightarrow> bool" where
  "isWellFormedExerciseReservation P r \<longleftrightarrow>
     isExerciseReservationInstant P (rr_reservedAt r) \<and> isWellFormedExerciseReservationRequest P r"

section \<open>Admission\<close>

record exercise_control_active_usage =
  au_metric :: string
  au_unit :: "string option"
  au_usage :: string
  au_reservedAtMs :: "int option"

datatype exercise_control_rule_verdict = RuleWithin | RuleExceeded | RuleUnitMismatch

text \<open>The entries a window counts; a comparison with an instant that is not a number is false.\<close>

fun windowed :: "exercise_control_window \<Rightarrow> int option \<Rightarrow> exercise_control_active_usage list
    \<Rightarrow> exercise_control_active_usage list" where
  "windowed Lifetime atMs active = active"
| "windowed (Rolling seconds) atMs active =
     filter (\<lambda>entry. case au_reservedAtMs entry of None \<Rightarrow> True
        | Some r \<Rightarrow> (case atMs of None \<Rightarrow> False | Some t \<Rightarrow> r > t - seconds * 1000)) active"

text \<open>The loop that adds up the usage of a bucket; \<^term>\<open>None\<close> is the early return on a mismatch.\<close>

fun total_usage :: "string \<Rightarrow> string \<Rightarrow> exercise_control_active_usage list \<Rightarrow> js_error + string option" where
  "total_usage unit acc [] = Inr (Some acc)"
| "total_usage unit acc (entry # entries) =
     (if au_metric entry \<noteq> ''amount'' \<or> au_unit entry \<noteq> Some unit \<or>
         \<not> isCanonicalExerciseDecimal (JSString (au_usage entry)) EXERCISE_DECIMAL_USAGE_DIGITS
      then Inr None
      else reading (addExerciseDecimals acc (au_usage entry)) (\<lambda>acc'. total_usage unit acc' entries))"

definition exerciseControlRuleVerdict ::
  "exercise_control_rule_usage \<Rightarrow> exercise_control_active_usage list \<Rightarrow> int option
     \<Rightarrow> js_error + exercise_control_rule_verdict" where
  "exerciseControlRuleVerdict rule active atMs =
     (let entries = windowed (limit_window (rule_limit rule)) atMs active
      in case rule_limit rule of
        CountLimit _ _ maximum _ \<Rightarrow>
          Inr (if int (length entries) + 1 \<le> maximum then RuleWithin else RuleExceeded)
      | AmountLimit _ _ maximum unit _ \<Rightarrow>
          reading (total_usage unit (rule_usage rule) entries) (\<lambda>sum.
            case sum of None \<Rightarrow> Inr RuleUnitMismatch
            | Some t \<Rightarrow> reading (compareExerciseDecimals t maximum) (\<lambda>c.
                Inr (if c \<le> 0 then RuleWithin else RuleExceeded))))"

text \<open>The loop over the rules: whether one mismatched, whether one was exceeded, the buckets.\<close>

fun assess_rules ::
  "(exercise_control_rule_usage \<Rightarrow> js_error + exercise_control_rule_verdict) \<Rightarrow> exercise_control_rule_usage list
     \<Rightarrow> bool \<Rightarrow> bool \<Rightarrow> (string \<times> string) list \<Rightarrow> js_error + bool \<times> bool \<times> (string \<times> string) list" where
  "assess_rules verdict [] mismatch exceeded refused = Inr (mismatch, exceeded, refused)"
| "assess_rules verdict (rule # rules) mismatch exceeded refused =
     reading (verdict rule) (\<lambda>v.
       if v = RuleWithin then assess_rules verdict rules mismatch exceeded refused
       else assess_rules verdict rules (mismatch \<or> v = RuleUnitMismatch) (exceeded \<or> v \<noteq> RuleUnitMismatch)
              (refused @ [(limitId (rule_limit rule), scopeKey (rule_limit rule))]))"

datatype exercise_admission =
    Admitted
  | NotAdmitted "exercise_control_reason_code list" "(string \<times> string) list"

definition assessExerciseReservationAdmission ::
  "platform \<Rightarrow> 'a exercise_reservation_request_scheme \<Rightarrow> string
     \<Rightarrow> (exercise_control_rule_usage \<Rightarrow> exercise_control_active_usage list) \<Rightarrow> js_error + exercise_admission" where
  "assessExerciseReservationAdmission P request reservedAt activeUsageFor =
     (let atMs = Date_parse P reservedAt
      in reading (assess_rules (\<lambda>rule. exerciseControlRuleVerdict rule (activeUsageFor rule) atMs)
                    (rr_rules request) False False [])
         (\<lambda>(mismatch, exceeded, refused).
            if \<not> mismatch \<and> \<not> exceeded then Inr Admitted
            else Inr (NotAdmitted
              ((if mismatch then [EXERCISE_CONTROL_UNIT_MISMATCH] else []) @
               (if exceeded then [EXERCISE_CONTROL_LIMIT_EXCEEDED] else [])) refused)))"

definition exerciseReservationsDescribeSameAttempt ::
  "'a exercise_reservation_request_scheme \<Rightarrow> 'b exercise_reservation_request_scheme \<Rightarrow> bool" where
  "exerciseReservationsDescribeSameAttempt l r \<longleftrightarrow>
     rr_reservationId l = rr_reservationId r \<and> rr_executionId l = rr_executionId r \<and>
     rr_boundedGrantId l = rr_boundedGrantId r \<and> rr_requestDigest l = rr_requestDigest r \<and>
     rr_policyDigest l = rr_policyDigest r \<and>
     rr_authorityBindingDigest l = rr_authorityBindingDigest r"

section \<open>The port\<close>

datatype exercise_reservation_outcome =
    Reserved exercise_reservation_record
  | AlreadyReserved exercise_reservation_record
  | ReservationConflict
  | ReservationRefused "exercise_control_reason_code list" "(string \<times> string) list"

record exercise_terminal_input =
  ti_reservationId :: string
  ti_reason :: exercise_terminal_reason
  ti_recordedAt :: string

datatype exercise_terminal_outcome =
    SettledNow exercise_terminal_event
  | ReleasedNow exercise_terminal_event
  | AlreadySettled exercise_terminal_event
  | AlreadyReleased exercise_terminal_event
  | TerminalConflict exercise_terminal_event
  | TerminalNotFound

datatype exercise_resolution_outcome =
    ResolutionApplied exercise_resolution_event
  | ResolutionAlreadyApplied exercise_resolution_event
  | ResolutionConflict exercise_resolution_event
  | ResolutionInconsistent
  | ResolutionNotFound

record exercise_reservation_view =
  view_reservation :: exercise_reservation_record
  view_terminal :: "exercise_terminal_event option"
  view_resolution :: "exercise_resolution_event option"

datatype exercise_reservation_state = StateReserved | StateSettled | StateReleased

definition view_state :: "exercise_reservation_view \<Rightarrow> exercise_reservation_state" where
  "view_state v = (case view_terminal v of None \<Rightarrow> StateReserved
     | Some e \<Rightarrow> if te_kind e = KindSettled then StateSettled else StateReleased)"

definition frozenCopy :: "exercise_reservation_request \<Rightarrow> string \<Rightarrow> exercise_reservation_record" where
  "frozenCopy request reservedAt =
     \<lparr>rr_reservationId = rr_reservationId request, rr_executionId = rr_executionId request,
      rr_boundedGrantId = rr_boundedGrantId request, rr_requestDigest = rr_requestDigest request,
      rr_policyDigest = rr_policyDigest request,
      rr_authorityBindingDigest = rr_authorityBindingDigest request,
      rr_rules = map (\<lambda>rule. \<lparr>rule_limit = rule_limit rule, rule_usage = rule_usage rule\<rparr>) (rr_rules request),
      rr_reservedAt = reservedAt\<rparr>"

lemma frozenCopy_fields [simp]:
  "rr_reservationId (frozenCopy req t) = rr_reservationId req"
  "rr_executionId (frozenCopy req t) = rr_executionId req"
  "rr_boundedGrantId (frozenCopy req t) = rr_boundedGrantId req"
  "rr_requestDigest (frozenCopy req t) = rr_requestDigest req"
  "rr_policyDigest (frozenCopy req t) = rr_policyDigest req"
  "rr_authorityBindingDigest (frozenCopy req t) = rr_authorityBindingDigest req"
  "rr_rules (frozenCopy req t) = rr_rules req"
  "rr_reservedAt (frozenCopy req t) = t"
  by (auto simp add: frozenCopy_def intro: map_idI)

section \<open>The interface: the contract of a ledger\<close>

definition view_consumes :: "exercise_reservation_view \<Rightarrow> bool" where
  "view_consumes v = exerciseReservationConsumes (view_terminal v) (view_resolution v)"

text \<open>One view is a later one of the same reservation: nothing recorded is changed or lost.\<close>

definition view_extends :: "exercise_reservation_view \<Rightarrow> exercise_reservation_view \<Rightarrow> bool" where
  "view_extends v w \<longleftrightarrow> view_reservation w = view_reservation v \<and>
     (view_terminal v \<noteq> None \<longrightarrow> view_terminal w = view_terminal v) \<and>
     (view_resolution v \<noteq> None \<longrightarrow> view_resolution w = view_resolution v)"

lemma view_extends_refl [simp]: "view_extends v v"
  by (simp add: view_extends_def)

lemma view_extends_trans: "view_extends u v \<Longrightarrow> view_extends v w \<Longrightarrow> view_extends u w"
  by (auto simp add: view_extends_def)

datatype ledger_operation =
    OpReserve string exercise_reservation_request
  | OpFinish exercise_terminal_kind exercise_terminal_input
  | OpReconcile exercise_resolution_input

text \<open>
  A settlement \<open>executed\<close> of a reservation that is resolved as not completed: the two stores
  contradict each other about the effect.
\<close>

definition contradicts :: "(string \<Rightarrow> exercise_reservation_view option) \<Rightarrow> ledger_operation \<Rightarrow> bool" where
  "contradicts views op =
     (case op of
        OpFinish kind input \<Rightarrow>
          kind = KindSettled \<and> ti_reason input = ReasonExecuted \<and>
          (case views (ti_reservationId input) of None \<Rightarrow> False
           | Some v \<Rightarrow> view_terminal v = None \<and>
               map_option rs_resolution (view_resolution v) = Some ConfirmedNotCompleted)
      | _ \<Rightarrow> False)"

locale reservation_ledger =
  fixes ok :: "'s \<Rightarrow> bool"
    and reserve :: "'s \<Rightarrow> string \<Rightarrow> exercise_reservation_request \<Rightarrow> (js_error + exercise_reservation_outcome) \<times> 's"
    and finish :: "'s \<Rightarrow> exercise_terminal_kind \<Rightarrow> exercise_terminal_input \<Rightarrow> (js_error + exercise_terminal_outcome) \<times> 's"
    and reconcile :: "'s \<Rightarrow> exercise_resolution_input \<Rightarrow> (js_error + exercise_resolution_outcome) \<times> 's"
    and read :: "'s \<Rightarrow> string \<Rightarrow> exercise_reservation_view option"
  assumes reserve_ok: "ok st \<Longrightarrow> ok (snd (reserve st t req))"
    and finish_ok: "ok st \<Longrightarrow> ok (snd (finish st kind inp))"
    and reconcile_ok: "ok st \<Longrightarrow> ok (snd (reconcile st res))"
    and reserve_reserved: "ok st \<Longrightarrow> reserve st t req = (Inr (Reserved r), st') \<Longrightarrow>
          r = frozenCopy req t \<and> read st (rr_reservationId req) = None \<and>
          (\<forall>i v. read st i = Some v \<longrightarrow> rr_executionId (view_reservation v) \<noteq> rr_executionId req) \<and>
          read st' = (read st)(rr_reservationId req \<mapsto>
            \<lparr>view_reservation = r, view_terminal = None, view_resolution = None\<rparr>)"
    and reserve_unchanged: "reserve st t req = (out, st') \<Longrightarrow> \<nexists>r. out = Inr (Reserved r) \<Longrightarrow> st' = st"
    and finish_recorded: "ok st \<Longrightarrow> finish st kind inp = (Inr fin, st') \<Longrightarrow>
          fin = SettledNow e \<or> fin = ReleasedNow e \<Longrightarrow>
          te_kind e = kind \<and> te_reason e = ti_reason inp \<and>
          exerciseReservationTerminalReasonMatches kind (ti_reason inp) \<and>
          (\<exists>v. read st (ti_reservationId inp) = Some v \<and> view_terminal v = None \<and>
             read st' = (read st)(ti_reservationId inp \<mapsto> v\<lparr>view_terminal := Some e\<rparr>))"
    and finish_unchanged: "finish st kind inp = (tout, st') \<Longrightarrow>
          \<nexists>e. tout = Inr (SettledNow e) \<or> tout = Inr (ReleasedNow e) \<Longrightarrow> st' = st"
    and reconcile_applied: "ok st \<Longrightarrow> reconcile st res = (Inr (ResolutionApplied x), st') \<Longrightarrow>
          rs_resolution x = ri_resolution res \<and>
          (\<exists>v. read st (ri_reservationId res) = Some v \<and> view_resolution v = None \<and>
             exerciseReservationResolutionConsistent (view_terminal v) (ri_resolution res) (ri_basis res) \<and>
             read st' = (read st)(ri_reservationId res \<mapsto> v\<lparr>view_resolution := Some x\<rparr>))"
    and reconcile_unchanged: "reconcile st res = (xout, st') \<Longrightarrow>
          \<nexists>x. xout = Inr (ResolutionApplied x) \<Longrightarrow> st' = st"
begin

fun step :: "'s \<Rightarrow> ledger_operation \<Rightarrow> 's" where
  "step st (OpReserve t req) = snd (reserve st t req)"
| "step st (OpFinish kind inp) = snd (finish st kind inp)"
| "step st (OpReconcile res) = snd (reconcile st res)"

definition history :: "'s \<Rightarrow> ledger_operation list \<Rightarrow> 's" where
  "history st ops = foldl step st ops"

lemma history_simps [simp]: "history st [] = st" "history st (op # ops) = history (step st op) ops"
  by (simp_all add: history_def)

lemma step_ok: "ok st \<Longrightarrow> ok (step st op)"
  by (cases op) (simp_all add: reserve_ok finish_ok reconcile_ok)

lemma history_ok: "ok st \<Longrightarrow> ok (history st ops)"
  by (induction ops arbitrary: st) (simp_all add: step_ok)

text \<open>What one operation does to the views: nothing, or one of the three recordings.\<close>

lemma step_views:
  assumes "ok st"
  obtains (same) "step st op = st"
  | (reserved) t req where "op = OpReserve t req" "read st (rr_reservationId req) = None"
      "read (step st op) = (read st)(rr_reservationId req \<mapsto>
         \<lparr>view_reservation = frozenCopy req t, view_terminal = None, view_resolution = None\<rparr>)"
  | (finished) kind inp v e where "op = OpFinish kind inp" "read st (ti_reservationId inp) = Some v"
      "view_terminal v = None" "te_kind e = kind" "te_reason e = ti_reason inp"
      "exerciseReservationTerminalReasonMatches kind (ti_reason inp)"
      "read (step st op) = (read st)(ti_reservationId inp \<mapsto> v\<lparr>view_terminal := Some e\<rparr>)"
  | (resolved) res v x where "op = OpReconcile res" "read st (ri_reservationId res) = Some v"
      "view_resolution v = None" "rs_resolution x = ri_resolution res"
      "exerciseReservationResolutionConsistent (view_terminal v) (ri_resolution res) (ri_basis res)"
      "read (step st op) = (read st)(ri_reservationId res \<mapsto> v\<lparr>view_resolution := Some x\<rparr>)"
proof (cases op)
  case (OpReserve t req)
  obtain out st' where o: "reserve st t req = (out, st')" by force
  show thesis
  proof (cases "\<exists>r. out = Inr (Reserved r)")
    case True
    then obtain r where r: "out = Inr (Reserved r)" by blast
    show thesis using reserve_reserved [OF assms, of t req r st'] o r OpReserve by (intro reserved) auto
  next
    case False
    then show thesis using reserve_unchanged [OF o] o OpReserve by (intro same) simp
  qed
next
  case (OpFinish kind inp)
  obtain out st' where o: "finish st kind inp = (out, st')" by force
  show thesis
  proof (cases "\<exists>e. out = Inr (SettledNow e) \<or> out = Inr (ReleasedNow e)")
    case True
    then obtain e tout where e: "out = Inr tout" "tout = SettledNow e \<or> tout = ReleasedNow e" by blast
    then show thesis
      using finish_recorded [OF assms o [unfolded e(1)] e(2)] o OpFinish by (auto intro: finished)
  next
    case False
    then show thesis using finish_unchanged [OF o] o OpFinish by (intro same) simp
  qed
next
  case (OpReconcile res)
  obtain out st' where o: "reconcile st res = (out, st')" by force
  show thesis
  proof (cases "\<exists>x. out = Inr (ResolutionApplied x)")
    case True
    then obtain x where x: "out = Inr (ResolutionApplied x)" by blast
    show thesis using reconcile_applied [OF assms, of res x st'] o x OpReconcile by (auto intro: resolved)
  next
    case False
    then show thesis using reconcile_unchanged [OF o] o OpReconcile by (intro same) simp
  qed
qed

lemma step_extends:
  assumes "ok st" "read st i = Some v"
  shows "\<exists>w. read (step st op) i = Some w \<and> view_extends v w"
  using assms(1)
  by (cases rule: step_views [where op = op]) (use assms(2) in \<open>auto simp add: view_extends_def\<close>)

lemma history_extends:
  assumes "ok st" "read st i = Some v"
  shows "\<exists>w. read (history st ops) i = Some w \<and> view_extends v w"
  using assms
proof (induction ops arbitrary: st v)
  case (Cons op ops)
  obtain u where u: "read (step st op) i = Some u" "view_extends v u"
    using step_extends [OF Cons.prems] by blast
  show ?case using Cons.IH [OF step_ok [OF Cons.prems(1)] u(1)] view_extends_trans u(2) by auto
qed simp

text \<open>One execution identity is admitted once, whatever happens afterwards.\<close>

lemma one_attempt:
  assumes "ok st" "reserve st t req = (Inr (Reserved r), st')" "rr_executionId req' = rr_executionId req"
  shows "reserve (history st' ops) t' req' \<noteq> (Inr (Reserved r'), st'')"
proof
  assume again: "reserve (history st' ops) t' req' = (Inr (Reserved r'), st'')"
  have "ok st'" using reserve_ok [OF assms(1), of t req] assms(2) by simp
  moreover have "read st' (rr_reservationId req) =
      Some \<lparr>view_reservation = frozenCopy req t, view_terminal = None, view_resolution = None\<rparr>"
    using reserve_reserved [OF assms(1,2)] by simp
  ultimately obtain w where "read (history st' ops) (rr_reservationId req) = Some w"
    "view_reservation w = frozenCopy req t"
    using history_extends [of st'] by (force simp add: view_extends_def)
  then show False
    using reserve_reserved [OF history_ok [OF \<open>ok st'\<close>] again] assms(3) by (metis frozenCopy_fields(2))
qed

text \<open>Capacity that was given back is taken again only by a contradicting settlement.\<close>

lemma capacity_returns_once:
  assumes "ok st" "read st i = Some v" "\<not> view_consumes v" "read (step st op) i = Some w" "view_consumes w"
  shows "contradicts (read st) op"
  using assms(1)
proof (cases rule: step_views [where op = op])
  case same
  then show ?thesis using assms by simp
next
  case (reserved t req)
  then show ?thesis using assms by (auto split: if_splits)
next
  case (finished kind inp u e)
  then have i: "i = ti_reservationId inp" "w = u\<lparr>view_terminal := Some e\<rparr>" "u = v"
    using assms(2-5) by (auto split: if_splits)
  then show ?thesis using finished assms(3,5)
    by (cases kind; cases "ti_reason inp")
      (auto simp add: contradicts_def view_consumes_def exerciseReservationConsumes_def
        exerciseReservationResolutionConsistent_def exerciseReservationTerminalReasonMatches_def
        isExerciseReservationSettleReason_def isExerciseReservationReleaseReason_def
        split: option.splits if_splits)
next
  case (resolved res u x)
  then have i: "i = ri_reservationId res" "w = u\<lparr>view_resolution := Some x\<rparr>" "u = v"
    using assms(2-5) by (auto split: if_splits)
  then show ?thesis using resolved assms(3,5)
    by (auto simp add: view_consumes_def exerciseReservationConsumes_def
        exerciseReservationResolutionConsistent_def split: option.splits if_splits)
qed

end

section \<open>The in-memory ledger\<close>

record exercise_ledger =
  led_reservations :: "(string \<times> exercise_reservation_record) list"
  led_terminals :: "(string \<times> exercise_terminal_event) list"
  led_resolutions :: "(string \<times> exercise_resolution_event) list"

definition empty_ledger :: exercise_ledger where
  "empty_ledger = \<lparr>led_reservations = [], led_terminals = [], led_resolutions = []\<rparr>"

definition active_entry ::
  "platform \<Rightarrow> exercise_ledger \<Rightarrow> exercise_control_limit \<Rightarrow> exercise_reservation_record
     \<Rightarrow> exercise_control_active_usage option" where
  "active_entry P st limit reservation =
     (if \<not> exerciseReservationConsumes (map_of (led_terminals st) (rr_reservationId reservation))
             (map_of (led_resolutions st) (rr_reservationId reservation)) then None
      else case find (\<lambda>entry. exerciseControlBucketKey (rule_limit entry) = exerciseControlBucketKey limit)
                  (rr_rules reservation) of
        None \<Rightarrow> None
      | Some recorded \<Rightarrow> Some
          \<lparr>au_metric = limit_metric (rule_limit recorded),
           au_unit = (case rule_limit recorded of AmountLimit _ _ _ u _ \<Rightarrow> Some u | _ \<Rightarrow> None),
           au_usage = rule_usage recorded,
           au_reservedAtMs = Date_parse P (rr_reservedAt reservation)\<rparr>)"

definition activeUsageFor ::
  "platform \<Rightarrow> exercise_ledger \<Rightarrow> exercise_control_rule_usage \<Rightarrow> exercise_control_active_usage list" where
  "activeUsageFor P st rule =
     List.map_filter (active_entry P st (rule_limit rule)) (map snd (led_reservations st))"

definition ledger_terminal ::
  "platform \<Rightarrow> exercise_ledger \<Rightarrow> exercise_terminal_kind \<Rightarrow> exercise_terminal_input
     \<Rightarrow> (js_error + exercise_terminal_outcome) \<times> exercise_ledger" where
  "ledger_terminal P st kind input =
     (if \<not> exerciseReservationTerminalReasonMatches kind (ti_reason input) \<or>
         Date_parse P (ti_recordedAt input) = None then
        (Inl (TypeError ''The terminal transition is outside the closed contract.''), st)
      else if map_of (led_reservations st) (ti_reservationId input) = None then (Inr TerminalNotFound, st)
      else case map_of (led_terminals st) (ti_reservationId input) of
        Some existing \<Rightarrow>
          if te_kind existing = kind \<and> te_reason existing = ti_reason input then
            (Inr (if kind = KindSettled then AlreadySettled existing else AlreadyReleased existing), st)
          else (Inr (TerminalConflict existing), st)
      | None \<Rightarrow>
          let event = \<lparr>te_reservationId = ti_reservationId input, te_kind = kind, te_reason = ti_reason input,
                       te_recordedAt = ti_recordedAt input\<rparr>
          in (Inr (if kind = KindSettled then SettledNow event else ReleasedNow event),
              st\<lparr>led_terminals := AList.update (ti_reservationId input) event (led_terminals st)\<rparr>))"

definition ledger_reserve ::
  "platform \<Rightarrow> exercise_ledger \<Rightarrow> string \<Rightarrow> exercise_reservation_request
     \<Rightarrow> (js_error + exercise_reservation_outcome) \<times> exercise_ledger" where
  "ledger_reserve P st clock request =
     (if \<not> isWellFormedExerciseReservationRequest P request then
        (Inl (TypeError ''The reservation request is outside the closed contract.''), st)
      else if \<not> isExerciseReservationInstant P clock then
        (Inl (TypeError ''The ledger clock did not answer an instant.''), st)
      else case map_of (led_reservations st) (rr_reservationId request) of
        Some existing \<Rightarrow>
          (Inr (if exerciseReservationsDescribeSameAttempt existing request then AlreadyReserved existing
                else ReservationConflict), st)
      | None \<Rightarrow>
          if list_ex (\<lambda>other. rr_executionId other = rr_executionId request) (map snd (led_reservations st))
          then (Inr ReservationConflict, st)
          else case assessExerciseReservationAdmission P request clock (activeUsageFor P st) of
            Inl e \<Rightarrow> (Inl e, st)
          | Inr (NotAdmitted codes buckets) \<Rightarrow> (Inr (ReservationRefused codes buckets), st)
          | Inr Admitted \<Rightarrow>
              let record = frozenCopy request clock
              in (Inr (Reserved record),
                  st\<lparr>led_reservations :=
                       AList.update (rr_reservationId record) record (led_reservations st)\<rparr>))"

definition ledger_settle ::
  "platform \<Rightarrow> exercise_ledger \<Rightarrow> exercise_terminal_input
     \<Rightarrow> (js_error + exercise_terminal_outcome) \<times> exercise_ledger" where
  "ledger_settle P st input = ledger_terminal P st KindSettled input"

definition ledger_release ::
  "platform \<Rightarrow> exercise_ledger \<Rightarrow> exercise_terminal_input
     \<Rightarrow> (js_error + exercise_terminal_outcome) \<times> exercise_ledger" where
  "ledger_release P st input = ledger_terminal P st KindReleased input"

definition ledger_read :: "exercise_ledger \<Rightarrow> string \<Rightarrow> exercise_reservation_view option" where
  "ledger_read st i = map_option (\<lambda>reservation.
     \<lparr>view_reservation = reservation, view_terminal = map_of (led_terminals st) i,
      view_resolution = map_of (led_resolutions st) i\<rparr>) (map_of (led_reservations st) i)"

definition ledger_reconcile ::
  "platform \<Rightarrow> exercise_ledger \<Rightarrow> exercise_resolution_input
     \<Rightarrow> (js_error + exercise_resolution_outcome) \<times> exercise_ledger" where
  "ledger_reconcile P st input =
     (if \<not> isWellFormedExerciseReservationResolutionInput P input then
        (Inl (TypeError ''The reservation resolution is outside the closed contract.''), st)
      else if map_option rr_executionId (map_of (led_reservations st) (ri_reservationId input)) \<noteq>
                Some (ri_executionId input) then (Inr ResolutionNotFound, st)
      else case map_of (led_resolutions st) (ri_reservationId input) of
        Some existing \<Rightarrow>
          (Inr (if exerciseReservationResolutionMatches existing input then ResolutionAlreadyApplied existing
                else ResolutionConflict existing), st)
      | None \<Rightarrow>
          if \<not> exerciseReservationResolutionConsistent (map_of (led_terminals st) (ri_reservationId input))
                 (ri_resolution input) (ri_basis input) then (Inr ResolutionInconsistent, st)
          else let event = \<lparr>rs_reservationId = ri_reservationId input, rs_executionId = ri_executionId input,
                            rs_resolutionDigest = ri_resolutionDigest input,
                            rs_resolution = ri_resolution input, rs_recordedAt = ri_recordedAt input\<rparr>
               in (Inr (ResolutionApplied event),
                   st\<lparr>led_resolutions := AList.update (ri_reservationId input) event (led_resolutions st)\<rparr>))"

section \<open>The in-memory ledger honours the contract\<close>

definition ledger_ok :: "platform \<Rightarrow> exercise_ledger \<Rightarrow> bool" where
  "ledger_ok P st \<longleftrightarrow>
     list_all (\<lambda>(k, r). rr_reservationId r = k \<and> isWellFormedExerciseReservation P r) (led_reservations st) \<and>
     distinct (map fst (led_reservations st)) \<and>
     distinct (map (\<lambda>(k, r). rr_executionId r) (led_reservations st)) \<and>
     set (map fst (led_terminals st)) \<subseteq> set (map fst (led_reservations st)) \<and>
     set (map fst (led_resolutions st)) \<subseteq> set (map fst (led_reservations st))"

lemma ledger_ok_empty [simp]: "ledger_ok P empty_ledger"
  by (simp add: ledger_ok_def empty_ledger_def)

lemma set_fst_update [simp]: "set (map fst (AList.update k v al)) = insert k (set (map fst al))"
  by (induction al) auto

text \<open>
  A request is well formed when its rules are a canonical limit set in canonical order, its
  policy digest is that set's, its identity is derived and every usage fits its metric.
\<close>

lemma zip_keys_iff:
  "length ls = length ms \<Longrightarrow>
     list_all (\<lambda>(l, m). exerciseControlBucketKey l = exerciseControlBucketKey (f m)) (zip ls ms) \<longleftrightarrow>
     map limit_key ls = map (\<lambda>m. limit_key (f m)) ms"
  by (induction ls ms rule: list_induct2) auto

lemma sorted_keys_iff: "map limit_key (sortExerciseControlLimits ls) = map limit_key ls \<longleftrightarrow> sorted (map limit_key ls)"
  by (metis sort_limits sort_sorted_limits sorted_sort_key)

lemma well_formed_request_iff:
  "isWellFormedExerciseReservationRequest P req \<longleftrightarrow>
     rr_boundedGrantId req \<noteq> [] \<and> rr_executionId req \<noteq> [] \<and>
     rr_reservationId req = exerciseReservationId P (rr_boundedGrantId req) (rr_executionId req) \<and>
     isWellFormedExerciseDigest (rr_requestDigest req) \<and> isWellFormedExerciseDigest (rr_policyDigest req) \<and>
     isWellFormedExerciseDigest (rr_authorityBindingDigest req) \<and>
     length (rr_rules req) \<le> EXERCISE_CONTROL_MAXIMUM_LIMITS \<and> limit_set (map rule_limit (rr_rules req)) \<and>
     sorted (map limit_key (map rule_limit (rr_rules req))) \<and>
     exerciseControlPolicyDigest P (map rule_limit (rr_rules req)) = rr_policyDigest req \<and>
     list_all isWellFormedExerciseRuleUsage (rr_rules req)"
proof -
  let ?ls = "map rule_limit (rr_rules req)"
  have js: "map (\<lambda>rule. limit_js (rule_limit rule)) (rr_rules req) = map limit_js ?ls" by simp
  have keys: "list_all (\<lambda>(l, rule). exerciseControlBucketKey l = exerciseControlBucketKey (rule_limit rule))
      (zip (sortExerciseControlLimits ?ls) (rr_rules req)) \<longleftrightarrow> sorted (map limit_key ?ls)"
    using zip_keys_iff [of "sortExerciseControlLimits ?ls" "rr_rules req" rule_limit] sorted_keys_iff [of ?ls]
    by (simp add: comp_def)
  show ?thesis
    unfolding isWellFormedExerciseReservationRequest_def js snapshot_typed
    using keys sort_sorted_limits [of ?ls] by (auto simp del: map_map)
qed

lemma frozenCopy_well_formed:
  "isWellFormedExerciseReservationRequest P req \<Longrightarrow> isExerciseReservationInstant P t \<Longrightarrow>
     isWellFormedExerciseReservation P (frozenCopy req t)"
  by (simp add: isWellFormedExerciseReservation_def well_formed_request_iff)

text \<open>What an admission means for the lists of the ledger.\<close>

lemma ledger_reserve_reserved:
  assumes "ledger_reserve P st t req = (Inr (Reserved r), st')"
  shows "r = frozenCopy req t" "isWellFormedExerciseReservationRequest P req" "isExerciseReservationInstant P t"
    "rr_reservationId req \<notin> set (map fst (led_reservations st))"
    "rr_executionId req \<notin> set (map (\<lambda>(k, r). rr_executionId r) (led_reservations st))"
    "assessExerciseReservationAdmission P req t (activeUsageFor P st) = Inr Admitted"
    "st' = st\<lparr>led_reservations := led_reservations st @ [(rr_reservationId req, frozenCopy req t)]\<rparr>"
proof -
  have new: "map_of (led_reservations st) (rr_reservationId req) = None"
    and rest: "r = frozenCopy req t" "isWellFormedExerciseReservationRequest P req"
      "isExerciseReservationInstant P t"
      "\<not> list_ex (\<lambda>other. rr_executionId other = rr_executionId req) (map snd (led_reservations st))"
      "assessExerciseReservationAdmission P req t (activeUsageFor P st) = Inr Admitted"
      "st' = st\<lparr>led_reservations := AList.update (rr_reservationId req) (frozenCopy req t) (led_reservations st)\<rparr>"
    using assms
    by (auto simp add: ledger_reserve_def Let_def
        split: if_split_asm option.split_asm sum.split_asm exercise_admission.split_asm)
  show "rr_reservationId req \<notin> set (map fst (led_reservations st))"
    using new by (simp add: map_of_eq_None_iff)
  then show "st' = st\<lparr>led_reservations := led_reservations st @ [(rr_reservationId req, frozenCopy req t)]\<rparr>"
    using rest(6) by (simp add: update_new_key)
  show "rr_executionId req \<notin> set (map (\<lambda>(k, r). rr_executionId r) (led_reservations st))"
    using rest(4) by (force simp add: list_ex_iff)
qed (use assms in \<open>auto simp add: ledger_reserve_def Let_def
        split: if_split_asm option.split_asm sum.split_asm exercise_admission.split_asm\<close>)

lemma ledger_reserve_unchanged:
  "ledger_reserve P st t req = (out, st') \<Longrightarrow> \<nexists>r. out = Inr (Reserved r) \<Longrightarrow> st' = st"
  by (auto simp add: ledger_reserve_def Let_def
      split: if_split_asm option.split_asm sum.split_asm exercise_admission.split_asm)

text \<open>The event a terminal transition, or a resolution, records when it records one.\<close>

definition terminal_event :: "exercise_terminal_kind \<Rightarrow> exercise_terminal_input \<Rightarrow> exercise_terminal_event" where
  "terminal_event kind inp =
     \<lparr>te_reservationId = ti_reservationId inp, te_kind = kind, te_reason = ti_reason inp, te_recordedAt = ti_recordedAt inp\<rparr>"

definition resolution_event :: "exercise_resolution_input \<Rightarrow> exercise_resolution_event" where
  "resolution_event res =
     \<lparr>rs_reservationId = ri_reservationId res, rs_executionId = ri_executionId res,
      rs_resolutionDigest = ri_resolutionDigest res, rs_resolution = ri_resolution res,
      rs_recordedAt = ri_recordedAt res\<rparr>"

definition finishes :: "platform \<Rightarrow> exercise_ledger \<Rightarrow> exercise_terminal_kind \<Rightarrow> exercise_terminal_input \<Rightarrow> bool" where
  "finishes P st kind inp \<longleftrightarrow>
     exerciseReservationTerminalReasonMatches kind (ti_reason inp) \<and> Date_parse P (ti_recordedAt inp) \<noteq> None \<and>
     map_of (led_reservations st) (ti_reservationId inp) \<noteq> None \<and>
     map_of (led_terminals st) (ti_reservationId inp) = None"

definition resolves :: "platform \<Rightarrow> exercise_ledger \<Rightarrow> exercise_resolution_input \<Rightarrow> bool" where
  "resolves P st res \<longleftrightarrow>
     isWellFormedExerciseReservationResolutionInput P res \<and>
     map_option rr_executionId (map_of (led_reservations st) (ri_reservationId res)) = Some (ri_executionId res) \<and>
     map_of (led_resolutions st) (ri_reservationId res) = None \<and>
     exerciseReservationResolutionConsistent (map_of (led_terminals st) (ri_reservationId res))
       (ri_resolution res) (ri_basis res)"

lemma ledger_terminal_recorded:
  "finishes P st kind inp \<Longrightarrow> ledger_terminal P st kind inp =
     (Inr ((if kind = KindSettled then SettledNow else ReleasedNow) (terminal_event kind inp)),
      st\<lparr>led_terminals := AList.update (ti_reservationId inp) (terminal_event kind inp) (led_terminals st)\<rparr>)"
  by (auto simp add: finishes_def ledger_terminal_def terminal_event_def Let_def)

lemma ledger_terminal_unchanged:
  "\<not> finishes P st kind inp \<Longrightarrow> snd (ledger_terminal P st kind inp) = st \<and>
     fst (ledger_terminal P st kind inp) \<noteq> Inr (SettledNow e) \<and>
     fst (ledger_terminal P st kind inp) \<noteq> Inr (ReleasedNow e)"
  by (auto simp add: finishes_def ledger_terminal_def split: option.splits)

lemma ledger_reconcile_applied:
  "resolves P st res \<Longrightarrow> ledger_reconcile P st res =
     (Inr (ResolutionApplied (resolution_event res)),
      st\<lparr>led_resolutions := AList.update (ri_reservationId res) (resolution_event res) (led_resolutions st)\<rparr>)"
  by (auto simp add: resolves_def ledger_reconcile_def resolution_event_def Let_def)

lemma ledger_reconcile_unchanged:
  "\<not> resolves P st res \<Longrightarrow> snd (ledger_reconcile P st res) = st \<and>
     fst (ledger_reconcile P st res) \<noteq> Inr (ResolutionApplied x)"
  by (auto simp add: resolves_def ledger_reconcile_def split: option.splits)

lemma ledger_ok_records:
  assumes "ledger_ok P st" "map_of (led_reservations st) k \<noteq> None"
  shows "ledger_ok P (st\<lparr>led_terminals := AList.update k e (led_terminals st)\<rparr>)"
    and "ledger_ok P (st\<lparr>led_resolutions := AList.update k x (led_resolutions st)\<rparr>)"
proof -
  have k: "k \<in> set (map fst (led_reservations st))" using assms(2) by (simp add: map_of_eq_None_iff)
  show "ledger_ok P (st\<lparr>led_terminals := AList.update k e (led_terminals st)\<rparr>)"
    "ledger_ok P (st\<lparr>led_resolutions := AList.update k x (led_resolutions st)\<rparr>)"
    using assms(1) k by (simp_all add: ledger_ok_def del: set_map)
qed

lemma ledger_read_new:
  assumes "ledger_ok P st" "k \<notin> set (map fst (led_reservations st))"
  shows "ledger_read (st\<lparr>led_reservations := led_reservations st @ [(k, r)]\<rparr>) =
    (ledger_read st)(k \<mapsto> \<lparr>view_reservation = r, view_terminal = None, view_resolution = None\<rparr>)"
proof -
  have "map_of (led_reservations st) k = None" "map_of (led_terminals st) k = None" "map_of (led_resolutions st) k = None"
    using assms by (auto simp add: ledger_ok_def map_of_eq_None_iff)
  then show ?thesis by (auto simp add: fun_eq_iff ledger_read_def map_add_def split: option.splits)
qed

lemma ledger_read_records:
  assumes "map_of (led_reservations st) k = Some r"
  shows "ledger_read (st\<lparr>led_terminals := AList.update k e (led_terminals st)\<rparr>) =
      (ledger_read st)(k \<mapsto> \<lparr>view_reservation = r, view_terminal = Some e, view_resolution = map_of (led_resolutions st) k\<rparr>)"
    and "ledger_read (st\<lparr>led_resolutions := AList.update k x (led_resolutions st)\<rparr>) =
      (ledger_read st)(k \<mapsto> \<lparr>view_reservation = r, view_terminal = map_of (led_terminals st) k, view_resolution = Some x\<rparr>)"
  using assms by (auto simp add: fun_eq_iff ledger_read_def)

lemma ledger_reserve_ok: "ledger_ok P st \<Longrightarrow> ledger_ok P (snd (ledger_reserve P st t req))"
proof (cases "\<exists>r st'. ledger_reserve P st t req = (Inr (Reserved r), st')")
  case True
  assume ok: "ledger_ok P st"
  from True obtain r st' where r: "ledger_reserve P st t req = (Inr (Reserved r), st')" by blast
  show ?thesis
    using ok frozenCopy_well_formed ledger_reserve_reserved [OF r] r by (auto simp add: ledger_ok_def)
next
  case False
  assume "ledger_ok P st"
  with False show ?thesis using ledger_reserve_unchanged [of P st t req] by (metis prod.collapse)
qed

interpretation led: reservation_ledger "ledger_ok P" "ledger_reserve P" "ledger_terminal P" "ledger_reconcile P"
  ledger_read for P
proof unfold_locales
  fix st st' t req r out kind inp fin tout e res x xout
  show "ledger_ok P (snd (ledger_reserve P st t req))" if "ledger_ok P st"
    using that by (rule ledger_reserve_ok)
  show "ledger_ok P (snd (ledger_terminal P st kind inp))" if "ledger_ok P st"
    using that ledger_ok_records(1) ledger_terminal_unchanged ledger_terminal_recorded [of P st kind inp]
    by (cases "finishes P st kind inp") (simp_all add: finishes_def)
  show "ledger_ok P (snd (ledger_reconcile P st res))" if "ledger_ok P st"
  proof (cases "resolves P st res")
    case True
    then have "map_of (led_reservations st) (ri_reservationId res) \<noteq> None" by (auto simp add: resolves_def)
    then show ?thesis using that ledger_ok_records(2) ledger_reconcile_applied [OF True] by simp
  next
    case False
    then show ?thesis using that ledger_reconcile_unchanged by simp
  qed
  show "r = frozenCopy req t \<and> ledger_read st (rr_reservationId req) = None \<and>
      (\<forall>i v. ledger_read st i = Some v \<longrightarrow> rr_executionId (view_reservation v) \<noteq> rr_executionId req) \<and>
      ledger_read st' = (ledger_read st)(rr_reservationId req \<mapsto>
        \<lparr>view_reservation = r, view_terminal = None, view_resolution = None\<rparr>)"
    if "ledger_ok P st" "ledger_reserve P st t req = (Inr (Reserved r), st')"
  proof -
    note new = ledger_reserve_reserved [OF that(2)]
    have "rr_executionId (view_reservation v) \<noteq> rr_executionId req" if "ledger_read st i = Some v" for i v
      using that new(5) by (force simp add: ledger_read_def dest: map_of_SomeD)
    moreover have "ledger_read st (rr_reservationId req) = None"
      using new(4) by (simp add: ledger_read_def map_of_eq_None_iff)
    ultimately show ?thesis using ledger_read_new [OF that(1) new(4)] new(1,7) by blast
  qed
  show "st' = st" if "ledger_reserve P st t req = (out, st')" "\<nexists>r. out = Inr (Reserved r)"
    using ledger_reserve_unchanged that by blast
  show "te_kind e = kind \<and> te_reason e = ti_reason inp \<and>
      exerciseReservationTerminalReasonMatches kind (ti_reason inp) \<and>
      (\<exists>v. ledger_read st (ti_reservationId inp) = Some v \<and> view_terminal v = None \<and>
         ledger_read st' = (ledger_read st)(ti_reservationId inp \<mapsto> v\<lparr>view_terminal := Some e\<rparr>))"
    if "ledger_ok P st" "ledger_terminal P st kind inp = (Inr fin, st')" "fin = SettledNow e \<or> fin = ReleasedNow e"
  proof -
    have f: "finishes P st kind inp"
      using that(2,3) ledger_terminal_unchanged [of P st kind inp e] by auto
    then obtain rec where rec: "map_of (led_reservations st) (ti_reservationId inp) = Some rec"
      by (auto simp add: finishes_def)
    have e: "e = terminal_event kind inp"
      using that(2,3) ledger_terminal_recorded [OF f] by (auto split: if_splits)
    show ?thesis
      using f that(2) ledger_terminal_recorded [OF f] ledger_read_records(1) [OF rec] rec
      by (auto simp add: e terminal_event_def finishes_def ledger_read_def)
  qed
  show "st' = st" if "ledger_terminal P st kind inp = (tout, st')"
    "\<nexists>e. tout = Inr (SettledNow e) \<or> tout = Inr (ReleasedNow e)"
    using that ledger_terminal_recorded [of P st kind inp] ledger_terminal_unchanged [of P st kind inp]
    by (cases "finishes P st kind inp") (auto split: if_splits)
  show "rs_resolution x = ri_resolution res \<and>
      (\<exists>v. ledger_read st (ri_reservationId res) = Some v \<and> view_resolution v = None \<and>
         exerciseReservationResolutionConsistent (view_terminal v) (ri_resolution res) (ri_basis res) \<and>
         ledger_read st' = (ledger_read st)(ri_reservationId res \<mapsto> v\<lparr>view_resolution := Some x\<rparr>))"
    if "ledger_ok P st" "ledger_reconcile P st res = (Inr (ResolutionApplied x), st')"
  proof -
    have f: "resolves P st res" using that(2) ledger_reconcile_unchanged [of P st res x] by auto
    then obtain rec where rec: "map_of (led_reservations st) (ri_reservationId res) = Some rec"
      by (auto simp add: resolves_def)
    show ?thesis
      using f that(2) ledger_reconcile_applied [OF f] ledger_read_records(2) [OF rec] rec
      by (auto simp add: resolution_event_def resolves_def ledger_read_def)
  qed
  show "st' = st" if "ledger_reconcile P st res = (xout, st')" "\<nexists>x. xout = Inr (ResolutionApplied x)"
    using that ledger_reconcile_applied [of P st res] ledger_reconcile_unchanged [of P st res]
    by (cases "resolves P st res") auto
qed

end
