(* ===== verification/Exercise_Capacity.thy ===== *)
theory Exercise_Capacity
  imports Exercise_Ledger
begin

text \<open>
  What the exercise-control ledger guarantees: the admission rule decides exactly whether every
  bucket still holds one more execution, in exact decimal arithmetic; an execution identity is
  admitted once; recorded facts are permanent; and the usage of a lifetime bucket never exceeds
  its maximum, as long as no execution is settled as executed after it was resolved as not
  completed.  A run in which that happens is exhibited, and it exceeds the maximum.
\<close>

section \<open>The verdict of one rule\<close>

definition commensurable :: "string \<Rightarrow> exercise_control_active_usage \<Rightarrow> bool" where
  "commensurable u e \<longleftrightarrow> au_metric e = ''amount'' \<and> au_unit e = Some u \<and>
     isCanonicalExerciseDecimal (JSString (au_usage e)) EXERCISE_DECIMAL_USAGE_DIGITS"

definition rule_fits ::
  "exercise_control_rule_usage \<Rightarrow> exercise_control_active_usage list \<Rightarrow> int option \<Rightarrow> bool" where
  "rule_fits rule active atMs =
     (let entries = windowed (limit_window (rule_limit rule)) atMs active
      in case rule_limit rule of
        CountLimit _ _ maximum _ \<Rightarrow> int (length entries) + 1 \<le> maximum
      | AmountLimit _ _ maximum unit _ \<Rightarrow>
          (\<forall>e \<in> set entries. commensurable unit e) \<and>
          decimal_quantity (rule_usage rule) + sum_list (map (\<lambda>e. decimal_quantity (au_usage e)) entries)
            \<le> decimal_quantity maximum)"

lemma commensurable_canonical: "commensurable u e \<Longrightarrow> canonical_text (au_usage e)"
  unfolding commensurable_def by (blast dest: canonical_exercise_decimal)

lemma total_usage_mismatch:
  assumes "canonical_text acc" "\<not> (\<forall>e \<in> set es. commensurable u e)"
  shows "total_usage u acc es = Inr None"
  using assms
proof (induction es arbitrary: acc)
  case (Cons e es)
  show ?case
  proof (cases "commensurable u e")
    case True
    then have "canonical_text (au_usage e)" by (rule commensurable_canonical)
    then obtain s where "addCanonicalDecimals acc (au_usage e) = Inr s" "canonical_text s"
      using dec.add_exact [OF Cons.prems(1)] by blast
    then show ?thesis using Cons.IH [of s] Cons.prems(2) True
      by (simp add: commensurable_def addExerciseDecimals_def)
  next
    case False
    then show ?thesis by (simp add: commensurable_def)
  qed
qed simp

lemma total_usage_sum:
  assumes "canonical_text acc" "\<forall>e \<in> set es. commensurable u e"
  shows "\<exists>s. total_usage u acc es = Inr (Some s) \<and> canonical_text s \<and>
    decimal_quantity s = decimal_quantity acc + sum_list (map (\<lambda>e. decimal_quantity (au_usage e)) es)"
proof -
  have "total_usage u a es = map_sum id Some (dec.sum_from a (map au_usage es))" for a
    using assms(2)
    by (induction es arbitrary: a)
      (auto simp add: commensurable_def addExerciseDecimals_def reading_def split: sum.splits)
  moreover have "\<forall>x \<in> set (map au_usage es). canonical_text x"
    using assms(2) commensurable_canonical by auto
  ultimately show ?thesis using dec.sum_from_exact [OF assms(1), of "map au_usage es"]
    by (auto simp add: comp_def)
qed

lemma verdict_exact:
  assumes "canonical_limit (rule_limit rule)" "isWellFormedExerciseRuleUsage rule"
  shows "\<exists>v. exerciseControlRuleVerdict rule active atMs = Inr v \<and> (v = RuleWithin \<longleftrightarrow> rule_fits rule active atMs)"
proof (cases "rule_limit rule")
  case (CountLimit i k m w)
  then show ?thesis by (simp add: exerciseControlRuleVerdict_def rule_fits_def)
next
  case (AmountLimit i k m u w)
  let ?es = "windowed w atMs active"
  have c: "canonical_text (rule_usage rule)" "canonical_text m"
    using assms AmountLimit
    by (auto simp add: canonical_limit_def isWellFormedExerciseRuleUsage_def dest: canonical_exercise_decimal)
  show ?thesis
  proof (cases "\<forall>e \<in> set ?es. commensurable u e")
    case True
    then obtain s where s: "total_usage u (rule_usage rule) ?es = Inr (Some s)" "canonical_text s"
      "decimal_quantity s = decimal_quantity (rule_usage rule) + sum_list (map (\<lambda>e. decimal_quantity (au_usage e)) ?es)"
      using total_usage_sum [OF c(1)] by blast
    then show ?thesis using True AmountLimit dec.cmp_exact [OF s(2) c(2)]
      by (auto simp add: exerciseControlRuleVerdict_def rule_fits_def compareExerciseDecimals_def)
  next
    case False
    then show ?thesis using AmountLimit total_usage_mismatch [OF c(1)]
      by (auto simp add: exerciseControlRuleVerdict_def rule_fits_def Let_def)
  qed
qed

section \<open>Admission of a whole request\<close>

lemma assess_rules_exact:
  assumes "\<forall>rule \<in> set rules. verdict rule = Inr (vf rule)"
  shows "assess_rules verdict rules m e bs = Inr
    (m \<or> (\<exists>rule \<in> set rules. vf rule = RuleUnitMismatch), e \<or> (\<exists>rule \<in> set rules. vf rule = RuleExceeded),
     bs @ map (\<lambda>rule. limit_key (rule_limit rule)) (filter (\<lambda>rule. vf rule \<noteq> RuleWithin) rules))"
  using assms
proof (induction rules arbitrary: m e bs)
  case (Cons rule rules)
  show ?case using Cons.IH Cons.prems by (cases "vf rule") (auto simp add: limit_key_def)
qed simp

lemma admission_assessed:
  assumes "isWellFormedExerciseReservationRequest P req"
  shows "case assessExerciseReservationAdmission P req t active of
      Inl e \<Rightarrow> False
    | Inr Admitted \<Rightarrow> \<forall>rule \<in> set (rr_rules req). rule_fits rule (active rule) (Date_parse P t)
    | Inr (NotAdmitted codes buckets) \<Rightarrow>
        codes \<noteq> [] \<and> set codes \<subseteq> {EXERCISE_CONTROL_UNIT_MISMATCH, EXERCISE_CONTROL_LIMIT_EXCEEDED} \<and>
        buckets \<noteq> [] \<and>
        buckets = map (\<lambda>rule. limit_key (rule_limit rule))
          (filter (\<lambda>rule. \<not> rule_fits rule (active rule) (Date_parse P t)) (rr_rules req))"
proof -
  let ?verdict = "\<lambda>rule. exerciseControlRuleVerdict rule (active rule) (Date_parse P t)"
  let ?vf = "\<lambda>rule. projr (?verdict rule)"
  have v: "?verdict rule = Inr (?vf rule)"
    "?vf rule = RuleWithin \<longleftrightarrow> rule_fits rule (active rule) (Date_parse P t)" if "rule \<in> set (rr_rules req)" for rule
    using verdict_exact [of rule "active rule" "Date_parse P t"] assms that
    by (auto simp add: well_formed_request_iff limit_set_def list_all_iff)
  have f: "filter (\<lambda>rule. ?vf rule \<noteq> RuleWithin) (rr_rules req) =
      filter (\<lambda>rule. \<not> rule_fits rule (active rule) (Date_parse P t)) (rr_rules req)"
    using v(2) by (auto intro: filter_cong)
  have within: "w = RuleWithin \<longleftrightarrow> w \<noteq> RuleUnitMismatch \<and> w \<noteq> RuleExceeded" for w
    by (cases w) simp_all
  have all: "(\<forall>rule \<in> set (rr_rules req). ?vf rule = RuleWithin) \<longleftrightarrow>
      \<not> (\<exists>rule \<in> set (rr_rules req). ?vf rule = RuleUnitMismatch) \<and> \<not> (\<exists>rule \<in> set (rr_rules req). ?vf rule = RuleExceeded)"
    using within by (metis (full_types))
  have "\<forall>rule \<in> set (rr_rules req). ?verdict rule = Inr (?vf rule)" using v(1) by blast
  note a = assess_rules_exact [OF this, of False False "[]"]
  show ?thesis
  proof (cases "\<forall>rule \<in> set (rr_rules req). ?vf rule = RuleWithin")
    case True
    then have none: "\<not> (\<exists>rule \<in> set (rr_rules req). ?vf rule = RuleUnitMismatch)"
      "\<not> (\<exists>rule \<in> set (rr_rules req). ?vf rule = RuleExceeded)" using all by blast+
    show ?thesis
      unfolding assessExerciseReservationAdmission_def Let_def a reading_simps using none True v(2) by simp
  next
    case False
    then have "map (\<lambda>rule. limit_key (rule_limit rule)) (filter (\<lambda>rule. ?vf rule \<noteq> RuleWithin) (rr_rules req)) \<noteq> []"
      by (simp add: filter_empty_conv)
    then show ?thesis
      unfolding assessExerciseReservationAdmission_def Let_def a reading_simps f using all False by auto
  qed
qed

section \<open>The load of a bucket\<close>

fun limit_maximum :: "exercise_control_limit \<Rightarrow> rat" where
  "limit_maximum (CountLimit _ _ m _) = of_int m"
| "limit_maximum (AmountLimit _ _ m _ _) = decimal_quantity m"

fun usage_weight :: "exercise_control_limit \<Rightarrow> exercise_control_active_usage \<Rightarrow> rat" where
  "usage_weight (CountLimit _ _ _ _) e = 1"
| "usage_weight (AmountLimit _ _ _ _ _) e = decimal_quantity (au_usage e)"

definition limit_load :: "platform \<Rightarrow> exercise_ledger \<Rightarrow> exercise_control_limit \<Rightarrow> rat" where
  "limit_load P st cap =
     sum_list (map (usage_weight cap) (List.map_filter (active_entry P st cap) (map snd (led_reservations st))))"

lemma usage_weight_nonneg: "0 \<le> usage_weight cap e"
  by (cases cap) (simp_all add: decimal_quantity_nonneg)

lemma sum_map_filter_mono:
  assumes "\<forall>x \<in> set xs. g x = None \<or> g x = f x" "\<forall>y. 0 \<le> (w y :: rat)"
  shows "sum_list (map w (List.map_filter g xs)) \<le> sum_list (map w (List.map_filter f xs))"
  using assms(1)
proof (induction xs)
  case (Cons x xs)
  then show ?case using assms(2) by (auto simp add: List.map_filter_def add_increasing split: option.splits)
qed (simp add: List.map_filter_def)

text \<open>The policy states one limit for the bucket of \<open>cap\<close>, in every reservation recorded.\<close>

definition names_only :: "exercise_control_limit \<Rightarrow> exercise_control_rule_usage list \<Rightarrow> bool" where
  "names_only cap rules \<longleftrightarrow>
     list_all (\<lambda>rule. limit_key (rule_limit rule) = limit_key cap \<longrightarrow> rule_limit rule = cap) rules"

definition capacity_kept :: "platform \<Rightarrow> exercise_control_limit \<Rightarrow> exercise_ledger \<Rightarrow> bool" where
  "capacity_kept P cap st \<longleftrightarrow> ledger_ok P st \<and> limit_load P st cap \<le> limit_maximum cap"

lemma load_shrinks:
  assumes "ledger_ok P st" "\<not> contradicts (ledger_read st) op"
    and same: "led_reservations (led.step P st op) = led_reservations st"
  shows "limit_load P (led.step P st op) cap \<le> limit_load P st cap"
proof -
  let ?st' = "led.step P st op"
  have "active_entry P ?st' cap r = None \<or> active_entry P ?st' cap r = active_entry P st cap r"
    if "r \<in> set (map snd (led_reservations st))" for r
  proof -
    from that obtain k where kr: "(k, r) \<in> set (led_reservations st)" by auto
    then have k: "rr_reservationId r = k" and held: "map_of (led_reservations st) k = Some r"
      using assms(1) by (auto simp add: ledger_ok_def list_all_iff)
    let ?v = "\<lambda>s. \<lparr>view_reservation = r, view_terminal = map_of (led_terminals s) k, view_resolution = map_of (led_resolutions s) k\<rparr>"
    have "ledger_read st k = Some (?v st)" "ledger_read ?st' k = Some (?v ?st')"
      using held same by (simp_all add: ledger_read_def)
    then have "view_consumes (?v ?st') \<longrightarrow> view_consumes (?v st)"
      using led.capacity_returns_once [OF assms(1)] assms(2) by blast
    then show ?thesis by (auto simp add: active_entry_def view_consumes_def k)
  qed
  then show ?thesis
    unfolding limit_load_def same by (intro sum_map_filter_mono) (auto simp add: usage_weight_nonneg)
qed

lemma fits_lifetime:
  assumes "rule_fits rule active atMs" "limit_window (rule_limit rule) = Lifetime" "au_usage e = rule_usage rule"
  shows "sum_list (map (usage_weight (rule_limit rule)) active) + usage_weight (rule_limit rule) e
    \<le> limit_maximum (rule_limit rule)"
proof (cases "rule_limit rule")
  case (CountLimit i k m w)
  have one: "usage_weight (CountLimit i k m w) = (\<lambda>e. 1)" by (simp add: fun_eq_iff)
  have "int (length active) + 1 \<le> m" using assms(1,2) CountLimit by (simp add: rule_fits_def)
  then have "rat_of_int (int (length active) + 1) \<le> of_int m" by (simp only: of_int_le_iff)
  then show ?thesis by (simp add: CountLimit one sum_list_triv)
next
  case (AmountLimit i k m u w)
  have "usage_weight (AmountLimit i k m u w) = (\<lambda>e. decimal_quantity (au_usage e))" by (simp add: fun_eq_iff)
  then show ?thesis using assms AmountLimit by (simp add: rule_fits_def Let_def)
qed

lemma load_new:
  assumes ok: "ledger_ok P st" and res: "ledger_reserve P st t req = (Inr (Reserved r), st')"
    and cap: "limit_window cap = Lifetime" "names_only cap (rr_rules req)"
    and within_max: "limit_load P st cap \<le> limit_maximum cap"
  shows "limit_load P st' cap \<le> limit_maximum cap"
proof -
  note new = ledger_reserve_reserved [OF res]
  let ?k = "rr_reservationId req" and ?r = "frozenCopy req t"
  have fresh: "map_of (led_terminals st) ?k = None" "map_of (led_resolutions st) ?k = None"
    using new(4) ok by (auto simp add: ledger_ok_def map_of_eq_None_iff)
  have old: "active_entry P st' cap = active_entry P st cap"
    by (rule ext) (simp add: active_entry_def new(7))
  have st': "led_reservations st' = led_reservations st @ [(?k, ?r)]" using new(7) by simp
  have load: "limit_load P st' cap = limit_load P st cap +
      (case active_entry P st cap ?r of None \<Rightarrow> 0 | Some e \<Rightarrow> usage_weight cap e)"
    by (simp add: limit_load_def old st' List.map_filter_def split: option.splits)
  show ?thesis
  proof (cases "find (\<lambda>rule. limit_key (rule_limit rule) = limit_key cap) (rr_rules req)")
    case None
    then show ?thesis using load within_max by (simp add: active_entry_def)
  next
    case (Some rule)
    then have rule: "rule \<in> set (rr_rules req)" "rule_limit rule = cap"
      using cap(2) by (auto simp add: find_Some_iff names_only_def list_all_iff)
    have fits: "rule_fits rule (activeUsageFor P st rule) (Date_parse P t)"
      using admission_assessed [OF new(2), of "activeUsageFor P st" t] new(6) rule(1) by simp
    obtain e where e: "active_entry P st cap ?r = Some e" "au_usage e = rule_usage rule"
      using Some fresh by (auto simp add: active_entry_def exerciseReservationConsumes_def)
    show ?thesis using fits_lifetime [OF fits _ e(2)] load e(1) rule(2) cap(1)
      by (simp add: activeUsageFor_def limit_load_def)
  qed
qed

lemma step_capacity:
  assumes "capacity_kept P cap st" "\<not> contradicts (ledger_read st) op" "limit_window cap = Lifetime"
    and "\<And>t req. op = OpReserve t req \<Longrightarrow> names_only cap (rr_rules req)"
  shows "capacity_kept P cap (led.step P st op)"
proof (cases "\<exists>t req r st'. op = OpReserve t req \<and> ledger_reserve P st t req = (Inr (Reserved r), st')")
  case True
  then obtain t req r st' where o: "op = OpReserve t req" "ledger_reserve P st t req = (Inr (Reserved r), st')"
    by blast
  then show ?thesis
    using load_new [OF _ o(2) assms(3) assms(4) [OF o(1)]] assms(1) led.step_ok [of P st op]
    by (simp add: capacity_kept_def)
next
  case False
  have "led_reservations (led.step P st op) = led_reservations st"
  proof (cases op)
    case (OpReserve t req)
    then show ?thesis using False ledger_reserve_unchanged [of P st t req] by (cases "ledger_reserve P st t req") auto
  next
    case (OpFinish kind inp)
    then show ?thesis using ledger_terminal_recorded [of P st kind inp] ledger_terminal_unchanged [of P st kind inp]
      by (cases "finishes P st kind inp") simp_all
  next
    case (OpReconcile res)
    then show ?thesis using ledger_reconcile_applied [of P st res] ledger_reconcile_unchanged [of P st res]
      by (cases "resolves P st res") simp_all
  qed
  then show ?thesis
    using load_shrinks [OF _ assms(2), of P cap] assms(1) led.step_ok [of P st op]
    by (auto simp add: capacity_kept_def)
qed

section \<open>Runs\<close>

fun ledger_step :: "platform \<Rightarrow> exercise_ledger \<Rightarrow> ledger_operation \<Rightarrow> exercise_ledger" where
  "ledger_step P st (OpReserve t req) = snd (ledger_reserve P st t req)"
| "ledger_step P st (OpFinish KindSettled inp) = snd (ledger_settle P st inp)"
| "ledger_step P st (OpFinish KindReleased inp) = snd (ledger_release P st inp)"
| "ledger_step P st (OpReconcile res) = snd (ledger_reconcile P st res)"

definition ledger_run :: "platform \<Rightarrow> exercise_ledger \<Rightarrow> ledger_operation list \<Rightarrow> exercise_ledger" where
  "ledger_run P st ops = foldl (ledger_step P) st ops"

lemma ledger_step_eq: "ledger_step P st op = led.step P st op"
  by (cases "(P, st, op)" rule: ledger_step.cases) (simp_all add: ledger_settle_def ledger_release_def)

lemma ledger_run_simps [simp]:
  "ledger_run P st [] = st" "ledger_run P st (op # ops) = ledger_run P (ledger_step P st op) ops"
  by (simp_all add: ledger_run_def)

lemma ledger_run_history: "ledger_run P st ops = led.history P st ops"
  by (induction ops arbitrary: st) (simp_all add: ledger_step_eq)

primrec uncontradicted :: "platform \<Rightarrow> exercise_ledger \<Rightarrow> ledger_operation list \<Rightarrow> bool" where
  "uncontradicted P st [] = True"
| "uncontradicted P st (op # ops) \<longleftrightarrow>
     \<not> contradicts (ledger_read st) op \<and> uncontradicted P (ledger_step P st op) ops"

text \<open>A run that settles nothing as executed contradicts nothing.\<close>

lemma uncontradicted_unexecuted:
  "list_all (\<lambda>op. case op of OpFinish kind inp \<Rightarrow> ti_reason inp \<noteq> ReasonExecuted | _ \<Rightarrow> True) ops \<Longrightarrow>
     uncontradicted P st ops"
  by (induction ops arbitrary: st) (auto simp add: contradicts_def split: ledger_operation.splits)

definition policy_keeps :: "exercise_control_limit \<Rightarrow> ledger_operation list \<Rightarrow> bool" where
  "policy_keeps cap ops \<longleftrightarrow>
     list_all (\<lambda>op. case op of OpReserve t req \<Rightarrow> names_only cap (rr_rules req) | _ \<Rightarrow> True) ops"

lemma run_capacity:
  assumes "capacity_kept P cap st" "uncontradicted P st ops" "limit_window cap = Lifetime" "policy_keeps cap ops"
  shows "capacity_kept P cap (ledger_run P st ops)"
  using assms
proof (induction ops arbitrary: st)
  case (Cons op ops)
  have "capacity_kept P cap (ledger_step P st op)"
    unfolding ledger_step_eq using Cons.prems
    by (intro step_capacity) (auto simp add: policy_keeps_def)
  then show ?case using Cons by (simp add: policy_keeps_def)
qed simp

lemma canonical_maximum_nonneg: "canonical_limit cap \<Longrightarrow> 0 \<le> limit_maximum cap"
  by (cases cap) (auto simp add: canonical_limit_def decimal_quantity_nonneg)

section \<open>Canonical texts of reservations\<close>

definition amount_tree :: "monetary_amount option \<Rightarrow> (string \<times> json) list" where
  "amount_tree a = (case a of None \<Rightarrow> []
     | Some m \<Rightarrow> [(''amount'', JObj [(''unit'', JStr (amount_unit m)), (''value'', JStr (amount_value m))])])"

definition subject_tree :: "exercise_reservation_subject \<Rightarrow> json" where
  "subject_tree s = JObj
     (amount_tree (sub_amount s) @
      [(''action'', JStr (sub_action s)), (''boundedGrantId'', JStr (sub_boundedGrantId s)),
       (''correlation'', JObj (correlation_tree (sub_correlation s)))] @
      optional_tree ''counterparty'' (sub_counterparty s) @ [(''executionId'', JStr (sub_executionId s))] @
      optional_tree ''organization'' (sub_organization s) @
      [(''resource'', JStr (sub_resource s)), (''subject'', JStr (sub_subject s))])"

lemma subject_text: "reservation_request_text s = json_print P (subject_tree s)"
proof -
  have a: "(case sub_amount s of None \<Rightarrow> []
      | Some a \<Rightarrow> [json_member ''amount'' (json_object [json_member ''unit'' (json_string (amount_unit a)),
                         json_member ''value'' (json_string (amount_value a))])]) = members_text P (amount_tree (sub_amount s))"
    by (simp add: amount_tree_def json_object_def json_member_def split: option.splits)
  show ?thesis
    unfolding subject_tree_def members_object [symmetric] reservation_request_text_def a
    by (simp add: optional_member_text [of _ _ P] correlation_tree_def json_object_def json_member_def)
qed

lemma subject_tree_ok: "json_ok (subject_tree s)"
  unfolding subject_tree_def json_ok_members by (simp add: amount_tree_def json_ok_members del: json_ok.simps(6) split: option.splits)

lemma subject_tree_inject: "subject_tree s = subject_tree s' \<longleftrightarrow> s = s'"
proof
  assume "subject_tree s = subject_tree s'"
  then show "s = s'"
    by (cases "sub_amount s"; cases "sub_amount s'"; cases "sub_counterparty s"; cases "sub_counterparty s'";
        cases "sub_organization s"; cases "sub_organization s'")
      (auto simp add: subject_tree_def amount_tree_def optional_tree_def correlation_tree_inject)
qed simp

section \<open>A platform and a run for the witnesses\<close>

text \<open>A hash that spells the hexadecimal digits of a text backwards: it tells short identifiers apart.\<close>

definition mixing_hash :: "string \<Rightarrow> string" where
  "mixing_hash s = take 64 (filter is_lower_hex (rev s) @ replicate 64 (CHR ''0''))"

definition mixing_platform :: platform where
  "mixing_platform = example_platform\<lparr>sha256_hex := mixing_hash\<rparr>"

definition once_limit :: exercise_control_limit where
  "once_limit = CountLimit ''uses'' ''agent-7'' 1 Lifetime"

definition spend_limit :: exercise_control_limit where
  "spend_limit = AmountLimit ''spend'' ''agent-7'' ''100.5'' ''iso4217:USD'' Lifetime"

definition example_digest :: string where
  "example_digest = ''sha256:'' @ replicate 64 (CHR ''a'')"

definition example_reservation ::
  "string \<Rightarrow> exercise_control_rule_usage list \<Rightarrow> exercise_reservation_request" where
  "example_reservation execId rules =
     \<lparr>rr_reservationId = exerciseReservationId mixing_platform ''g'' execId, rr_executionId = execId,
      rr_boundedGrantId = ''g'', rr_requestDigest = example_digest,
      rr_policyDigest = exerciseControlPolicyDigest mixing_platform (map rule_limit rules),
      rr_authorityBindingDigest = example_digest, rr_rules = rules\<rparr>"

definition once_reservation :: "string \<Rightarrow> exercise_reservation_request" where
  "once_reservation execId = example_reservation execId [\<lparr>rule_limit = once_limit, rule_usage = ''1''\<rparr>]"

definition spend_reservation :: "string \<Rightarrow> string \<Rightarrow> exercise_reservation_request" where
  "spend_reservation execId amount = example_reservation execId [\<lparr>rule_limit = spend_limit, rule_usage = amount\<rparr>]"

definition example_noon :: string where
  "example_noon = ''2024-01-01T12:00:00Z''"

definition finishing :: "string \<Rightarrow> exercise_terminal_reason \<Rightarrow> exercise_terminal_input" where
  "finishing execId reason =
     \<lparr>ti_reservationId = exerciseReservationId mixing_platform ''g'' execId, ti_reason = reason,
      ti_recordedAt = example_noon\<rparr>"

definition not_completed :: "string \<Rightarrow> exercise_resolution_input" where
  "not_completed execId =
     \<lparr>ri_reservationId = exerciseReservationId mixing_platform ''g'' execId, ri_executionId = execId,
      ri_resolutionDigest = example_digest, ri_resolution = ConfirmedNotCompleted,
      ri_basis = NoInitialObservation, ri_recordedAt = example_noon\<rparr>"

section \<open>Properties\<close>

lemma reserve_new:
  assumes "isWellFormedExerciseReservationRequest P req" "isExerciseReservationInstant P t"
    and "rr_reservationId req \<notin> fst ` set (led_reservations st)"
    and "rr_executionId req \<notin> (rr_executionId \<circ> snd) ` set (led_reservations st)"
  shows "let fits = (\<lambda>rule. rule_fits rule (activeUsageFor P st rule) (Date_parse P t)) in
    if \<forall>rule \<in> set (rr_rules req). fits rule
    then ledger_reserve P st t req =
      (Inr (Reserved (frozenCopy req t)),
       st\<lparr>led_reservations := led_reservations st @ [(rr_reservationId req, frozenCopy req t)]\<rparr>)
    else \<exists>codes. codes \<noteq> [] \<and> ledger_reserve P st t req =
      (Inr (ReservationRefused codes (map (\<lambda>rule. limit_key (rule_limit rule)) (filter (\<lambda>rule. \<not> fits rule) (rr_rules req)))), st)"
proof -
  let ?fits = "\<lambda>rule. rule_fits rule (activeUsageFor P st rule) (Date_parse P t)"
  have free: "map_of (led_reservations st) (rr_reservationId req) = None"
    using assms(3) by (simp add: map_of_eq_None_iff)
  have exec: "\<not> list_ex (\<lambda>other. rr_executionId other = rr_executionId req) (map snd (led_reservations st))"
    using assms(4) by (force simp add: list_ex_iff)
  show ?thesis
  proof (cases "assessExerciseReservationAdmission P req t (activeUsageFor P st)")
    case (Inl e)
    then show ?thesis using admission_assessed [OF assms(1), of "activeUsageFor P st" t] by simp
  next
    case (Inr adm)
    note a = admission_assessed [OF assms(1), of "activeUsageFor P st" t, unfolded Inr]
    show ?thesis
    proof (cases adm)
      case Admitted
      then have "\<forall>rule \<in> set (rr_rules req). ?fits rule" using a by simp
      then show ?thesis using assms(1,2) free exec Inr Admitted update_new_key [OF assms(3)]
        by (simp add: ledger_reserve_def Let_def)
    next
      case (NotAdmitted codes buckets)
      then have "\<not> (\<forall>rule \<in> set (rr_rules req). ?fits rule)" using a by (auto simp add: filter_empty_conv)
      then show ?thesis using assms(1,2) free exec Inr NotAdmitted a
        by (simp add: ledger_reserve_def Let_def)
    qed
  qed
qed

lemma reserve_held:
  assumes "isWellFormedExerciseReservationRequest P req" "isExerciseReservationInstant P t"
    and "rr_reservationId req \<in> fst ` set (led_reservations st) \<or>
      rr_executionId req \<in> (rr_executionId \<circ> snd) ` set (led_reservations st)"
  shows "ledger_reserve P st t req =
    (case map_of (led_reservations st) (rr_reservationId req) of
       Some existing \<Rightarrow> (Inr (if exerciseReservationsDescribeSameAttempt existing req then AlreadyReserved existing
          else ReservationConflict), st)
     | None \<Rightarrow> (Inr ReservationConflict, st))"
proof (cases "map_of (led_reservations st) (rr_reservationId req)")
  case None
  then have "rr_executionId req \<in> (rr_executionId \<circ> snd) ` set (led_reservations st)"
    using assms(3) by (simp add: map_of_eq_None_iff)
  then have "list_ex (\<lambda>other. rr_executionId other = rr_executionId req) (map snd (led_reservations st))"
    by (force simp add: list_ex_iff)
  then show ?thesis using None assms(1,2) by (simp add: ledger_reserve_def)
next
  case (Some existing)
  then show ?thesis using assms(1,2) by (simp add: ledger_reserve_def)
qed

text \<open>
  C25: The admission decision is exact, atomic and total.  A request outside the closed contract, or
  a clock that gives no instant, is answered with a type error.  A request whose reservation
  identity or whose execution identity is held already reserves nothing: it is answered with the
  recorded reservation if that is the same attempt in every field that identifies one, and as a
  conflict otherwise.  Of the others, when every bucket holds one more execution (for a count, the
  entries of the window plus one are at most the maximum; for an amount, all entries of the window
  are exact amounts in the same unit and their exact sum with the attempt is at most the maximum)
  exactly this request is recorded at the clock's instant, and otherwise the refused buckets are
  exactly those that do not fit and a reason is named.  Every answer but the recording leaves the
  state unchanged.
\<close>

theorem admission_exact:
  "let fits = (\<lambda>rule. rule_fits rule (activeUsageFor P st rule) (Date_parse P t)) in
   if \<not> isWellFormedExerciseReservationRequest P req \<or> \<not> isExerciseReservationInstant P t
   then \<exists>message. ledger_reserve P st t req = (Inl (TypeError message), st)
   else if rr_reservationId req \<in> fst ` set (led_reservations st) \<or>
      rr_executionId req \<in> (rr_executionId \<circ> snd) ` set (led_reservations st)
   then ledger_reserve P st t req =
     (case map_of (led_reservations st) (rr_reservationId req) of
        Some existing \<Rightarrow>
          (Inr (if rr_reservationId existing = rr_reservationId req \<and> rr_executionId existing = rr_executionId req \<and>
              rr_boundedGrantId existing = rr_boundedGrantId req \<and> rr_requestDigest existing = rr_requestDigest req \<and>
              rr_policyDigest existing = rr_policyDigest req \<and>
              rr_authorityBindingDigest existing = rr_authorityBindingDigest req
            then AlreadyReserved existing else ReservationConflict), st)
      | None \<Rightarrow> (Inr ReservationConflict, st))
   else if \<forall>rule \<in> set (rr_rules req). fits rule
   then ledger_reserve P st t req =
     (Inr (Reserved (frozenCopy req t)),
      st\<lparr>led_reservations := led_reservations st @ [(rr_reservationId req, frozenCopy req t)]\<rparr>)
   else \<exists>codes. codes \<noteq> [] \<and> ledger_reserve P st t req =
     (Inr (ReservationRefused codes (map (\<lambda>rule. limit_key (rule_limit rule)) (filter (\<lambda>rule. \<not> fits rule) (rr_rules req)))), st)"
proof -
  consider (malformed) "\<not> isWellFormedExerciseReservationRequest P req \<or> \<not> isExerciseReservationInstant P t"
    | (held) "isWellFormedExerciseReservationRequest P req" "isExerciseReservationInstant P t"
      "rr_reservationId req \<in> fst ` set (led_reservations st) \<or> rr_executionId req \<in> (rr_executionId \<circ> snd) ` set (led_reservations st)"
    | (fresh) "isWellFormedExerciseReservationRequest P req" "isExerciseReservationInstant P t"
      "rr_reservationId req \<notin> fst ` set (led_reservations st)" "rr_executionId req \<notin> (rr_executionId \<circ> snd) ` set (led_reservations st)"
    by blast
  then show ?thesis
  proof cases
    case malformed
    then show ?thesis by (auto simp add: ledger_reserve_def Let_def)
  next
    case held
    then show ?thesis using reserve_held [OF held] unfolding exerciseReservationsDescribeSameAttempt_def Let_def by (simp only: simp_thms if_True if_False)
  next
    case fresh
    then show ?thesis using reserve_new [OF fresh] unfolding Let_def by (simp only: simp_thms if_False)
  qed
qed

theorem admission_exact_witness:
  "\<exists>codes. codes \<noteq> [] \<and>
     ledger_reserve mixing_platform
       (ledger_run mixing_platform empty_ledger [OpReserve example_noon (spend_reservation ''e1'' ''60'')])
       example_noon (spend_reservation ''e2'' ''40.51'') =
     (Inr (ReservationRefused codes [(''spend'', ''agent-7'')]),
      ledger_run mixing_platform empty_ledger [OpReserve example_noon (spend_reservation ''e1'' ''60'')])"
proof -
  let ?st = "ledger_run mixing_platform empty_ledger [OpReserve example_noon (spend_reservation ''e1'' ''60'')]"
  let ?req = "spend_reservation ''e2'' ''40.51''"
  have wf: "isWellFormedExerciseReservationRequest mixing_platform ?req" by code_simp
  have at_noon: "isExerciseReservationInstant mixing_platform example_noon" by code_simp
  have free: "rr_reservationId ?req \<notin> fst ` set (led_reservations ?st)" by code_simp
  have exec: "rr_executionId ?req \<notin> (rr_executionId \<circ> snd) ` set (led_reservations ?st)" by code_simp
  have "rr_rules ?req = [\<lparr>rule_limit = spend_limit, rule_usage = ''40.51''\<rparr>]"
    by (simp add: spend_reservation_def example_reservation_def)
  moreover have "\<not> rule_fits \<lparr>rule_limit = spend_limit, rule_usage = ''40.51''\<rparr>
      (activeUsageFor mixing_platform ?st \<lparr>rule_limit = spend_limit, rule_usage = ''40.51''\<rparr>)
      (Date_parse mixing_platform example_noon)"
    by code_simp
  moreover have "limit_key spend_limit = (''spend'', ''agent-7'')" by (simp add: limit_key_def spend_limit_def)
  ultimately show ?thesis using wf at_noon free exec admission_exact [of mixing_platform ?st example_noon ?req] by (simp add: Let_def)
qed

text \<open>
  C26: The usage of a lifetime bucket never exceeds its maximum.  Start from the empty ledger and
  let any reservations, settlements, releases and reconciliations follow, in any order; as long
  as the policy states one limit for the bucket and no reservation is settled as executed while
  it is resolved as not completed, the exact sum of what the consuming reservations use of the
  bucket is at most the maximum of the limit.
\<close>

theorem aggregate_bounded:
  assumes "canonical_limit cap" "limit_window cap = Lifetime"
    and "uncontradicted P empty_ledger ops" "policy_keeps cap ops"
  shows "limit_load P (ledger_run P empty_ledger ops) cap \<le> limit_maximum cap"
proof -
  have "limit_load P empty_ledger cap = 0"
    by (simp add: limit_load_def empty_ledger_def List.map_filter_def)
  then have "capacity_kept P cap empty_ledger"
    using canonical_maximum_nonneg [OF assms(1)] by (simp add: capacity_kept_def)
  then show ?thesis using run_capacity assms by (auto simp add: capacity_kept_def)
qed

definition spending_run :: "ledger_operation list" where
  "spending_run =
     [OpReserve example_noon (spend_reservation ''e1'' ''60''),
      OpReserve example_noon (spend_reservation ''e2'' ''40.51''),
      OpReserve example_noon (spend_reservation ''e3'' ''40.5''),
      OpFinish KindReleased (finishing ''e3'' ReasonExecutionFailed)]"

theorem aggregate_bounded_witness:
  "limit_load mixing_platform (ledger_run mixing_platform empty_ledger spending_run) spend_limit \<le> 201/2"
proof -
  have "canonical_limit spend_limit" by code_simp
  moreover have "limit_window spend_limit = Lifetime" by code_simp
  moreover have "uncontradicted mixing_platform empty_ledger spending_run"
    by (rule uncontradicted_unexecuted) (simp add: spending_run_def finishing_def)
  moreover have "policy_keeps spend_limit spending_run" by code_simp
  moreover have "limit_maximum spend_limit = 201/2" by code_simp
  ultimately show ?thesis using aggregate_bounded [of spend_limit mixing_platform spending_run] by simp
qed

definition contradicted_run :: "ledger_operation list" where
  "contradicted_run =
     [OpReserve example_noon (once_reservation ''e1''), OpReconcile (not_completed ''e1''),
      OpReserve example_noon (once_reservation ''e2''), OpFinish KindSettled (finishing ''e1'' ReasonExecuted)]"

text \<open>
  The exclusion of contradictions is needed.  There is a run of four accepted operations, a
  reservation, its resolution as not completed while the execution is still in flight, a second
  reservation of the capacity so returned, and the settlement of the first as executed, after
  which the bucket of a limit of one use holds two consuming reservations.
\<close>

theorem contradiction_exceeds:
  "canonical_limit once_limit \<and> policy_keeps once_limit contradicted_run \<and> limit_maximum once_limit = 1 \<and>
   limit_load mixing_platform (ledger_run mixing_platform empty_ledger contradicted_run) once_limit = 2"
proof (intro conjI)
  show "canonical_limit once_limit" by code_simp
  show "policy_keeps once_limit contradicted_run" by code_simp
  show "limit_maximum once_limit = 1" by code_simp
  show "limit_load mixing_platform (ledger_run mixing_platform empty_ledger contradicted_run) once_limit = 2"
    by code_simp
qed

text \<open>
  One execution identity is one attempt.  Once a request is reserved, whatever operations
  follow, no request with the same execution identity is ever reserved again, under whichever
  grant, and a redelivery of the same attempt is answered with the recorded reservation.
\<close>

theorem one_attempt_per_execution:
  assumes "ledger_ok P st" "ledger_reserve P st t req = (Inr (Reserved r), st')"
    and "rr_executionId again = rr_executionId req"
  shows "(\<nexists>r' st''. ledger_reserve P (ledger_run P st' ops) t' again = (Inr (Reserved r'), st'')) \<and>
    (isExerciseReservationInstant P t' \<longrightarrow>
       ledger_reserve P (ledger_run P st' ops) t' req = (Inr (AlreadyReserved r), ledger_run P st' ops))"
proof -
  note new = ledger_reserve_reserved [OF assms(2)]
  have ok: "ledger_ok P st'" using ledger_reserve_ok [OF assms(1), of t req] assms(2) by simp
  have "ledger_read st' (rr_reservationId req) = Some \<lparr>view_reservation = r, view_terminal = None, view_resolution = None\<rparr>"
    using led.reserve_reserved [OF assms(1,2)] by simp
  then obtain w where "ledger_read (ledger_run P st' ops) (rr_reservationId req) = Some w" "view_reservation w = r"
    using led.history_extends [OF ok] by (force simp add: ledger_run_history view_extends_def)
  then have "map_of (led_reservations (ledger_run P st' ops)) (rr_reservationId req) = Some r"
    by (auto simp add: ledger_read_def)
  moreover have "exerciseReservationsDescribeSameAttempt r req"
    using new(1) by (simp add: exerciseReservationsDescribeSameAttempt_def)
  ultimately show ?thesis
    using led.one_attempt [OF assms] new(2) by (simp add: ledger_run_history ledger_reserve_def)
qed

text \<open>
  C29: What the ledger records is permanent.  Along every run a reservation stays as it was
  admitted, its first terminal event and its first resolution stand unchanged, and a reservation
  that stopped consuming consumes again only through a settlement as executed of a reservation
  resolved as not completed.
\<close>

theorem ledger_facts_permanent:
  assumes "ledger_ok P st" "ledger_read st i = Some v"
  shows "(\<exists>w. ledger_read (ledger_run P st ops) i = Some w \<and> view_reservation w = view_reservation v \<and>
      (view_terminal v \<noteq> None \<longrightarrow> view_terminal w = view_terminal v) \<and>
      (view_resolution v \<noteq> None \<longrightarrow> view_resolution w = view_resolution v)) \<and>
    (\<forall>w. \<not> view_consumes v \<and> ledger_read (ledger_step P st op) i = Some w \<and> view_consumes w \<longrightarrow>
      contradicts (ledger_read st) op)"
  using led.history_extends [OF assms, of ops] led.capacity_returns_once [OF assms, of op]
  by (auto simp add: ledger_run_history ledger_step_eq view_extends_def)

theorem ledger_facts_permanent_witness:
  "\<exists>w. ledger_read (ledger_run mixing_platform
       (ledger_run mixing_platform empty_ledger [OpReserve example_noon (once_reservation ''e1'')])
       [OpFinish KindSettled (finishing ''e1'' ReasonExecuted)]) (exerciseReservationId mixing_platform ''g'' ''e1'') = Some w \<and>
     view_reservation w = frozenCopy (once_reservation ''e1'') example_noon"
proof -
  let ?st = "ledger_run mixing_platform empty_ledger [OpReserve example_noon (once_reservation ''e1'')]"
  have "ledger_ok mixing_platform ?st"
    using led.history_ok ledger_ok_empty by (simp only: ledger_run_history)
  moreover have "ledger_read ?st (exerciseReservationId mixing_platform ''g'' ''e1'') =
      Some \<lparr>view_reservation = frozenCopy (once_reservation ''e1'') example_noon, view_terminal = None, view_resolution = None\<rparr>"
    by code_simp
  ultimately show ?thesis
    using ledger_facts_permanent [of mixing_platform ?st "exerciseReservationId mixing_platform ''g'' ''e1''" _
        "[OpFinish KindSettled (finishing ''e1'' ReasonExecuted)]"] by fastforce
qed

text \<open>
  The texts hashed into a reservation determine what they name: the identity text fixes the
  grant and the execution, and the request text fixes every field of the exercise, so a
  redelivered execution with any field changed has a different text under its digest.
\<close>

theorem reservation_texts_determine:
  "(reservation_identity_text g e = reservation_identity_text g' e' \<longleftrightarrow> g = g' \<and> e = e') \<and>
   (reservation_request_text s = reservation_request_text s' \<longleftrightarrow> s = s')"
proof
  let ?t = "\<lambda>g e. JObj [(''boundedGrantId'', JStr g), (''executionId'', JStr e)]"
  have "reservation_identity_text g e = json_print undefined (?t g e)" for g e
    by (simp add: reservation_identity_text_def json_object_def json_member_def)
  then show "reservation_identity_text g e = reservation_identity_text g' e' \<longleftrightarrow> g = g' \<and> e = e'"
    using json_trees.injective [of "?t g e" "?t g' e'" undefined] by (simp del: json_print.simps)
  show "reservation_request_text s = reservation_request_text s' \<longleftrightarrow> s = s'"
    using json_trees.injective [of "subject_tree s" "subject_tree s'" undefined]
    unfolding subject_text [of _ undefined] by (simp add: subject_tree_inject subject_tree_ok)
qed

end
