(* ===== verification/Exercise_Gate.thy ===== *)
theory Exercise_Gate
  imports Exercise_Capacity
begin

text \<open>
  The exercise-control gate: \<open>exercise-control-runtime/services/exercise-control-gate.ts\<close> with
  \<open>domain/exercise-authority-binding.ts\<close> and \<open>domain/exercise-control-observer.ts\<close>.  The trusted
  policy, the binding resolver and the ledger are parameters that answer an arbitrary value or
  throw, as the code assumes of them; a ledger is a record of functions on its own state.  The
  gate's own state is the \<open>WeakMap\<close> of admitted handles; the identity of a handle object is a
  number.  The ledger in memory is connected to the gate through the values its outcomes are.
\<close>

section \<open>Authority binding\<close>

datatype exercise_binding_verification =
    BindingVerified
  | BindingRefused exercise_control_reason_code

fun digest_value :: "js_value \<Rightarrow> bool" where
  "digest_value (JSString s) = isWellFormedExerciseDigest s"
| "digest_value _ = False"

definition verifyExerciseAuthorityBinding ::
  "string option \<Rightarrow> (exercise_control_query \<Rightarrow> js_error + js_value) \<Rightarrow> exercise_control_query
     \<Rightarrow> exercise_binding_verification" where
  "verifyExerciseAuthorityBinding recorded resolve query =
     (let unverifiable = BindingRefused EXERCISE_CONTROL_AUTHORITY_BINDING_UNVERIFIABLE
      in case recorded of None \<Rightarrow> unverifiable
      | Some digest \<Rightarrow>
          if \<not> isWellFormedExerciseDigest digest then unverifiable
          else case resolve query of Inl _ \<Rightarrow> unverifiable
          | Inr current \<Rightarrow>
              if \<not> digest_value current then unverifiable
              else if current = JSString digest then BindingVerified
              else BindingRefused EXERCISE_CONTROL_AUTHORITY_BINDING_CHANGED)"

section \<open>Observations\<close>

record exercise_admission_facts =
  fact_executionId :: string
  fact_boundedGrantId :: string
  fact_requestId :: string
  fact_decisionId :: string

datatype exercise_reservation_observation =
    ObservedReserved (obs_reservationId: string) exercise_admission_facts (obs_policyDigest: string)
      (obs_bindingDigest: string) (obs_admittedAt: string)
  | ObservedSettled (obs_reservationId: string) exercise_admission_facts
      (obs_reason: exercise_terminal_reason) (obs_recordedAt: string)
  | ObservedReleased (obs_reservationId: string) exercise_admission_facts
      (obs_reason: exercise_terminal_reason) (obs_recordedAt: string)

section \<open>The gate's data\<close>

record 's exercise_ledger_port =
  lp_reserve :: "'s \<Rightarrow> exercise_reservation_request \<Rightarrow> (js_error + js_value) \<times> 's"
  lp_settle :: "'s \<Rightarrow> exercise_terminal_input \<Rightarrow> (js_error + exercise_terminal_outcome) \<times> 's"
  lp_release :: "'s \<Rightarrow> exercise_terminal_input \<Rightarrow> (js_error + exercise_terminal_outcome) \<times> 's"

record 's exercise_gate_options =
  gate_policy :: "exercise_control_query \<Rightarrow> js_error + js_value"
  gate_authorityBinding :: "exercise_control_query \<Rightarrow> js_error + js_value"
  gate_ledger :: "'s exercise_ledger_port"
  gate_classifier :: financial_action_classifier
  gate_observed :: bool

record exercise_gate_grant =
  gg_id :: string
  gg_subject :: string
  gg_issuedAt :: string
  gg_expiresAt :: string
  gg_correlation :: grant_correlation
  gg_authorityBindingDigest :: "string option"

record exercise_gate_attempt =
  ga_action :: string
  ga_resource :: string
  ga_counterparty :: "string option"
  ga_organization :: "string option"
  ga_amount :: "monetary_amount option"

record exercise_admission_input =
  ai_grant :: exercise_gate_grant
  ai_attempt :: exercise_gate_attempt
  ai_executionId :: string
  ai_at :: string

record exercise_reservation_handle =
  handle_ref :: nat
  handle_reservationId :: string
  handle_authorityBindingDigest :: string

datatype exercise_gate_admission =
    GateAdmitted exercise_reservation_handle
  | GateWithheld "exercise_control_reason_code list"

datatype exercise_gate_revalidation =
    GateVerified
  | GateRevalidationWithheld "exercise_control_reason_code list"

datatype exercise_disposition =
    DisposeSettle exercise_terminal_reason
  | DisposeRelease exercise_terminal_reason

datatype exercise_finalization = FinalSettled | FinalReleased | FinalRetained

record 's exercise_gate_state =
  gs_ledger :: 's
  gs_admitted :: "(nat \<times> exercise_admission_facts) list"

section \<open>The gate's operations\<close>

definition queryFor ::
  "exercise_admission_input \<Rightarrow> string \<Rightarrow> governed_action_class \<Rightarrow> exercise_control_query" where
  "queryFor inp instant_text cls =
     \<lparr>q_boundedGrantId = gg_id (ai_grant inp), q_subject = gg_subject (ai_grant inp),
      q_action = ga_action (ai_attempt inp), q_resource = ga_resource (ai_attempt inp),
      q_counterparty = ga_counterparty (ai_attempt inp), q_organization = ga_organization (ai_attempt inp),
      q_amount = ga_amount (ai_attempt inp), q_actionClass = cls,
      q_correlation = gg_correlation (ai_grant inp), q_grantIssuedAt = gg_issuedAt (ai_grant inp),
      q_grantExpiresAt = gg_expiresAt (ai_grant inp), q_at = instant_text\<rparr>"

definition isLedgerRefusalCode :: "js_value \<Rightarrow> bool" where
  "isLedgerRefusalCode code \<longleftrightarrow>
     isExerciseControlReasonCode code \<in> set [Some EXERCISE_CONTROL_LIMIT_EXCEEDED, Some EXERCISE_CONTROL_UNIT_MISMATCH]"

definition classOf :: "'s exercise_gate_options \<Rightarrow> exercise_admission_input \<Rightarrow> governed_action_class" where
  "classOf opts inp = classify (gate_classifier opts) (JSString (corr_action (gg_correlation (ai_grant inp))))"

text \<open>What the composed observer is told; its answer is never read.\<close>

definition observe :: "'s exercise_gate_options \<Rightarrow> exercise_reservation_observation option
    \<Rightarrow> exercise_reservation_observation list" where
  "observe opts built = (case built of Some observation \<Rightarrow> if gate_observed opts then [observation] else [] | None \<Rightarrow> [])"

definition terminalObservation ::
  "'s exercise_gate_state \<Rightarrow> exercise_reservation_handle \<Rightarrow> exercise_terminal_outcome
     \<Rightarrow> exercise_reservation_observation option" where
  "terminalObservation st h result =
     (case map_of (gs_admitted st) (handle_ref h) of None \<Rightarrow> None
      | Some facts \<Rightarrow>
          let observed = (\<lambda>terminal.
            if te_reservationId terminal \<noteq> handle_reservationId h then None
            else if te_kind terminal = KindSettled \<and>
                    (te_reason terminal = ReasonExecuted \<or> te_reason terminal = ReasonExecutionUnconfirmed) then
              Some (ObservedSettled (te_reservationId terminal) facts (te_reason terminal) (te_recordedAt terminal))
            else if te_kind terminal = KindReleased \<and>
                    te_reason terminal \<noteq> ReasonExecuted \<and> te_reason terminal \<noteq> ReasonExecutionUnconfirmed then
              Some (ObservedReleased (te_reservationId terminal) facts (te_reason terminal) (te_recordedAt terminal))
            else None)
          in case result of
            TerminalConflict e \<Rightarrow> None
          | TerminalNotFound \<Rightarrow> None
          | SettledNow e \<Rightarrow> observed e
          | ReleasedNow e \<Rightarrow> observed e
          | AlreadySettled e \<Rightarrow> observed e
          | AlreadyReleased e \<Rightarrow> observed e)"

text \<open>What an execution consumes of each limit: whether an amount is missing, a unit differs, the rules.\<close>

fun gate_rules ::
  "monetary_amount option \<Rightarrow> exercise_control_limit list \<Rightarrow> bool \<times> bool \<times> exercise_control_rule_usage list" where
  "gate_rules amount [] = (False, False, [])"
| "gate_rules amount (limit # limits) =
     (let (amountRequired, unitMismatch, rules) = gate_rules amount limits
      in case limit of
        CountLimit _ _ _ _ \<Rightarrow> (amountRequired, unitMismatch, \<lparr>rule_limit = limit, rule_usage = ''1''\<rparr> # rules)
      | AmountLimit _ _ _ u _ \<Rightarrow>
          (case amount of None \<Rightarrow> (True, unitMismatch, rules)
           | Some a \<Rightarrow>
               if amount_unit a \<noteq> u then (amountRequired, True, rules)
               else (amountRequired, unitMismatch, \<lparr>rule_limit = limit, rule_usage = amount_value a\<rparr> # rules)))"

definition gate_request ::
  "platform \<Rightarrow> exercise_admission_input \<Rightarrow> exercise_control_query \<Rightarrow> string \<Rightarrow> exercise_control_limit list
     \<Rightarrow> exercise_control_rule_usage list \<Rightarrow> exercise_reservation_request" where
  "gate_request P inp query bindingDigest limits rules =
     \<lparr>rr_reservationId = exerciseReservationId P (gg_id (ai_grant inp)) (ai_executionId inp),
      rr_executionId = ai_executionId inp, rr_boundedGrantId = gg_id (ai_grant inp),
      rr_requestDigest = exerciseReservationRequestDigest P
        \<lparr>sub_boundedGrantId = gg_id (ai_grant inp), sub_executionId = ai_executionId inp,
         sub_subject = q_subject query, sub_action = q_action query, sub_resource = q_resource query,
         sub_counterparty = q_counterparty query, sub_organization = q_organization query,
         sub_amount = ga_amount (ai_attempt inp), sub_correlation = q_correlation query\<rparr>,
      rr_policyDigest = exerciseControlPolicyDigest P limits,
      rr_authorityBindingDigest = bindingDigest, rr_rules = rules\<rparr>"

text \<open>The reason codes of a refusal as the gate reports them: only codes a ledger may own.\<close>

fun refusal_codes :: "js_value \<Rightarrow> exercise_control_reason_code list" where
  "refusal_codes (JSArray reported) =
     (if length reported > 0 \<and> list_all isLedgerRefusalCode reported
      then js_set (List.map_filter isExerciseControlReasonCode reported) else [])"
| "refusal_codes _ = []"

text \<open>The observation of an admission, from the record the ledger returned.\<close>

definition admission_observation ::
  "string \<Rightarrow> exercise_admission_facts \<Rightarrow> js_value \<Rightarrow> exercise_reservation_observation option" where
  "admission_observation reservationId facts recorded =
     (case (js_get recorded ''policyDigest'', js_get recorded ''authorityBindingDigest'', js_get recorded ''reservedAt'') of
        (JSString policy, JSString binding, JSString reservedAt) \<Rightarrow>
          if js_get recorded ''reservationId'' \<noteq> JSString reservationId then None
          else Some (ObservedReserved reservationId facts policy binding reservedAt)
      | _ \<Rightarrow> None)"

text \<open>The last part of an admission: what the gate makes of the ledger's answer.\<close>

definition gate_answer ::
  "'s exercise_gate_options \<Rightarrow> exercise_admission_input \<Rightarrow> exercise_reservation_request \<Rightarrow> 's exercise_gate_state
     \<Rightarrow> js_error + js_value \<Rightarrow> exercise_gate_admission \<times> exercise_reservation_observation list \<times> 's exercise_gate_state" where
  "gate_answer opts inp request st answer =
     (case answer of Inl _ \<Rightarrow> (GateWithheld [EXERCISE_CONTROL_LEDGER_UNAVAILABLE], [], st)
      | Inr outcome \<Rightarrow>
          if outcome = JSUndefined \<or> outcome = JSNull then (GateWithheld [EXERCISE_CONTROL_LEDGER_UNAVAILABLE], [], st)
          else let kind = js_get outcome ''outcome''
          in if kind = JSString ''already-reserved'' then
               (GateWithheld [EXERCISE_CONTROL_EXECUTION_ALREADY_RESERVED], [], st)
             else if kind = JSString ''conflict'' then (GateWithheld [EXERCISE_CONTROL_RESERVATION_CONFLICT], [], st)
             else if kind = JSString ''refused'' then
               (let codes = refusal_codes (js_get outcome ''reasonCodes'')
                in (GateWithheld (if length codes > 0 then codes else [EXERCISE_CONTROL_LEDGER_UNAVAILABLE]), [], st))
             else if kind \<noteq> JSString ''reserved'' then (GateWithheld [EXERCISE_CONTROL_LEDGER_UNAVAILABLE], [], st)
             else
               let handle = \<lparr>handle_ref = length (gs_admitted st), handle_reservationId = rr_reservationId request,
                             handle_authorityBindingDigest = rr_authorityBindingDigest request\<rparr>;
                   facts = \<lparr>fact_executionId = ai_executionId inp, fact_boundedGrantId = gg_id (ai_grant inp),
                            fact_requestId = requestId (gg_correlation (ai_grant inp)),
                            fact_decisionId = decisionId (gg_correlation (ai_grant inp))\<rparr>
               in (GateAdmitted handle,
                   observe opts (admission_observation (rr_reservationId request) facts (js_get outcome ''reservation'')),
                   st\<lparr>gs_admitted := gs_admitted st @ [(handle_ref handle, facts)]\<rparr>))"

text \<open>Steps 3 and 4 of an admission: what is consumed, and the one atomic reservation.\<close>

definition gate_reserve ::
  "platform \<Rightarrow> 's exercise_gate_options \<Rightarrow> 's exercise_gate_state \<Rightarrow> exercise_admission_input
     \<Rightarrow> exercise_control_query \<Rightarrow> string \<Rightarrow> exercise_control_limit list
     \<Rightarrow> exercise_gate_admission \<times> exercise_reservation_observation list \<times> 's exercise_gate_state" where
  "gate_reserve P opts st inp query bindingDigest limits =
     (case gate_rules (ga_amount (ai_attempt inp)) limits of
        (amountRequired, unitMismatch, rules) \<Rightarrow>
          if amountRequired \<or> unitMismatch then
            (GateWithheld ((if amountRequired then [EXERCISE_CONTROL_AMOUNT_REQUIRED] else []) @
                           (if unitMismatch then [EXERCISE_CONTROL_UNIT_MISMATCH] else [])), [], st)
          else
            (let request = gate_request P inp query bindingDigest limits rules
             in case lp_reserve (gate_ledger opts) (gs_ledger st) request of
                  (answer, ledger) \<Rightarrow> gate_answer opts inp request (st\<lparr>gs_ledger := ledger\<rparr>) answer))"

text \<open>Step 2: the trusted policy, read once into a validated snapshot.\<close>

definition gate_police ::
  "platform \<Rightarrow> 's exercise_gate_options \<Rightarrow> 's exercise_gate_state \<Rightarrow> exercise_admission_input
     \<Rightarrow> exercise_control_query \<Rightarrow> string
     \<Rightarrow> exercise_gate_admission \<times> exercise_reservation_observation list \<times> 's exercise_gate_state" where
  "gate_police P opts st inp query bindingDigest =
     (case reading (gate_policy opts query) snapshotExerciseControlLimits of
        Inr (Some limits) \<Rightarrow> gate_reserve P opts st inp query bindingDigest limits
      | _ \<Rightarrow> (GateWithheld [EXERCISE_CONTROL_POLICY_INVALID], [], st))"

definition gate_admit ::
  "platform \<Rightarrow> 's exercise_gate_options \<Rightarrow> 's exercise_gate_state \<Rightarrow> exercise_admission_input
     \<Rightarrow> exercise_gate_admission \<times> exercise_reservation_observation list \<times> 's exercise_gate_state" where
  "gate_admit P opts st inp =
     (let actionClass = classOf opts inp;
          query = queryFor inp (ai_at inp) actionClass;
          amount = ga_amount (ai_attempt inp);
          recorded = gg_authorityBindingDigest (ai_grant inp)
      in if (case amount of None \<Rightarrow> False
             | Some a \<Rightarrow> \<not> (isWellFormedMonetaryAmount (amount_js a) \<and>
                 isCanonicalExerciseDecimal (JSString (amount_value a)) EXERCISE_DECIMAL_USAGE_DIGITS))
         then (GateWithheld [EXERCISE_CONTROL_AMOUNT_REQUIRED], [], st)
         else if (actionClass = Financial) \<noteq> (amount \<noteq> None) then
           (GateWithheld [EXERCISE_CONTROL_ACTION_CLASS_MISMATCH], [], st)
         else case verifyExerciseAuthorityBinding recorded (gate_authorityBinding opts) query of
           BindingRefused code \<Rightarrow> (GateWithheld [code], [], st)
         | BindingVerified \<Rightarrow> gate_police P opts st inp query (the recorded))"

definition gate_revalidate ::
  "platform \<Rightarrow> 's exercise_gate_options \<Rightarrow> exercise_reservation_handle \<Rightarrow> exercise_admission_input
     \<Rightarrow> exercise_gate_revalidation" where
  "gate_revalidate P opts h inp =
     (if exerciseReservationId P (gg_id (ai_grant inp)) (ai_executionId inp) \<noteq> handle_reservationId h
      then GateRevalidationWithheld [EXERCISE_CONTROL_RESERVATION_CONFLICT]
      else case verifyExerciseAuthorityBinding (gg_authorityBindingDigest (ai_grant inp)) (gate_authorityBinding opts)
                  (queryFor inp (ai_at inp) (classOf opts inp)) of
        BindingRefused code \<Rightarrow> GateRevalidationWithheld [code]
      | BindingVerified \<Rightarrow>
          if gg_authorityBindingDigest (ai_grant inp) \<noteq> Some (handle_authorityBindingDigest h)
          then GateRevalidationWithheld [EXERCISE_CONTROL_AUTHORITY_BINDING_CHANGED] else GateVerified)"

definition gate_release ::
  "'s exercise_gate_options \<Rightarrow> 's exercise_gate_state \<Rightarrow> js_error + string \<Rightarrow> exercise_reservation_handle
     \<Rightarrow> exercise_terminal_reason
     \<Rightarrow> exercise_finalization \<times> exercise_reservation_observation list \<times> 's exercise_gate_state" where
  "gate_release opts st now h reason =
     (case now of Inl _ \<Rightarrow> (FinalRetained, [], st)
      | Inr recordedAt \<Rightarrow>
        (case lp_release (gate_ledger opts) (gs_ledger st)
                \<lparr>ti_reservationId = handle_reservationId h, ti_reason = reason, ti_recordedAt = recordedAt\<rparr> of
           (Inl _, ledger) \<Rightarrow> (FinalRetained, [], st\<lparr>gs_ledger := ledger\<rparr>)
         | (Inr released, ledger) \<Rightarrow>
             (case released of
                ReleasedNow e \<Rightarrow> (FinalReleased, observe opts (terminalObservation st h released), st\<lparr>gs_ledger := ledger\<rparr>)
              | AlreadyReleased e \<Rightarrow> (FinalReleased, observe opts (terminalObservation st h released), st\<lparr>gs_ledger := ledger\<rparr>)
              | _ \<Rightarrow> (FinalRetained, [], st\<lparr>gs_ledger := ledger\<rparr>))))"

definition gate_finalize ::
  "'s exercise_gate_options \<Rightarrow> 's exercise_gate_state \<Rightarrow> js_error + string \<Rightarrow> exercise_reservation_handle
     \<Rightarrow> exercise_disposition
     \<Rightarrow> exercise_finalization \<times> exercise_reservation_observation list \<times> 's exercise_gate_state" where
  "gate_finalize opts st now h disposition =
     (case disposition of
        DisposeRelease reason \<Rightarrow> gate_release opts st now h reason
      | DisposeSettle reason \<Rightarrow>
        (case now of Inl _ \<Rightarrow> (FinalRetained, [], st)
         | Inr recordedAt \<Rightarrow>
           (case lp_settle (gate_ledger opts) (gs_ledger st)
                   \<lparr>ti_reservationId = handle_reservationId h, ti_reason = reason, ti_recordedAt = recordedAt\<rparr> of
              (Inl _, ledger) \<Rightarrow> (FinalRetained, [], st\<lparr>gs_ledger := ledger\<rparr>)
            | (Inr settled, ledger) \<Rightarrow>
                (case settled of
                   SettledNow e \<Rightarrow> (FinalSettled, observe opts (terminalObservation st h settled), st\<lparr>gs_ledger := ledger\<rparr>)
                 | AlreadySettled e \<Rightarrow> (FinalSettled, observe opts (terminalObservation st h settled), st\<lparr>gs_ledger := ledger\<rparr>)
                 | _ \<Rightarrow> (FinalRetained, [], st\<lparr>gs_ledger := ledger\<rparr>)))))"

section \<open>The in-memory ledger behind the port\<close>

definition rule_js :: "exercise_control_rule_usage \<Rightarrow> js_value" where
  "rule_js rule = JSObject True
     [(''limit'', DataProp (limit_js (rule_limit rule))), (''usage'', DataProp (JSString (rule_usage rule)))]"

definition record_js :: "exercise_reservation_record \<Rightarrow> js_value" where
  "record_js r = JSObject True
     [(''reservationId'', DataProp (JSString (rr_reservationId r))),
      (''executionId'', DataProp (JSString (rr_executionId r))),
      (''boundedGrantId'', DataProp (JSString (rr_boundedGrantId r))),
      (''requestDigest'', DataProp (JSString (rr_requestDigest r))),
      (''policyDigest'', DataProp (JSString (rr_policyDigest r))),
      (''authorityBindingDigest'', DataProp (JSString (rr_authorityBindingDigest r))),
      (''reservedAt'', DataProp (JSString (rr_reservedAt r))),
      (''rules'', DataProp (JSArray (map rule_js (rr_rules r))))]"

definition bucket_js :: "string \<times> string \<Rightarrow> js_value" where
  "bucket_js b = JSObject True
     [(''limitId'', DataProp (JSString (fst b))), (''scopeKey'', DataProp (JSString (snd b)))]"

fun outcome_js :: "exercise_reservation_outcome \<Rightarrow> js_value" where
  "outcome_js (Reserved r) = JSObject True
     [(''outcome'', DataProp (JSString ''reserved'')), (''reservation'', DataProp (record_js r))]"
| "outcome_js (AlreadyReserved r) = JSObject True
     [(''outcome'', DataProp (JSString ''already-reserved'')), (''reservation'', DataProp (record_js r))]"
| "outcome_js ReservationConflict = JSObject True [(''outcome'', DataProp (JSString ''conflict''))]"
| "outcome_js (ReservationRefused codes buckets) = JSObject True
     [(''outcome'', DataProp (JSString ''refused'')),
      (''reasonCodes'', DataProp (JSArray (map (\<lambda>c. JSString (exercise_code_name c)) codes))),
      (''refusedBuckets'', DataProp (JSArray (map bucket_js buckets)))]"

definition createInMemoryExerciseControlLedger :: "platform \<Rightarrow> string \<Rightarrow> exercise_ledger exercise_ledger_port" where
  "createInMemoryExerciseControlLedger P clock =
     \<lparr>lp_reserve = (\<lambda>st req. map_prod (map_sum id outcome_js) id (ledger_reserve P st clock req)),
      lp_settle = ledger_settle P, lp_release = ledger_release P\<rparr>"

section \<open>What the gate's steps establish\<close>

text \<open>The conditions under which the gate asks its ledger at all, with what it asks.\<close>

definition gate_query :: "'s exercise_gate_options \<Rightarrow> exercise_admission_input \<Rightarrow> exercise_control_query" where
  "gate_query opts inp = queryFor inp (ai_at inp) (classOf opts inp)"

definition exact_amount :: "monetary_amount option \<Rightarrow> bool" where
  "exact_amount amount = (case amount of None \<Rightarrow> True
     | Some a \<Rightarrow> isWellFormedMonetaryAmount (amount_js a) \<and>
         isCanonicalExerciseDecimal (JSString (amount_value a)) EXERCISE_DECIMAL_USAGE_DIGITS)"

definition consumes_exactly :: "monetary_amount option \<Rightarrow> exercise_control_rule_usage \<Rightarrow> bool" where
  "consumes_exactly amount rule =
     (case rule_limit rule of
        CountLimit _ _ _ _ \<Rightarrow> rule_usage rule = ''1''
      | AmountLimit _ _ _ u _ \<Rightarrow> amount = Some \<lparr>amount_value = rule_usage rule, amount_unit = u\<rparr>)"

definition gate_asks ::
  "'s exercise_gate_options \<Rightarrow> exercise_admission_input \<Rightarrow> string \<Rightarrow> exercise_control_limit list
     \<Rightarrow> exercise_control_rule_usage list \<Rightarrow> bool" where
  "gate_asks opts inp digest limits rules \<longleftrightarrow>
     exact_amount (ga_amount (ai_attempt inp)) \<and>
     (classOf opts inp = Financial \<longleftrightarrow> ga_amount (ai_attempt inp) \<noteq> None) \<and>
     gg_authorityBindingDigest (ai_grant inp) = Some digest \<and> isWellFormedExerciseDigest digest \<and>
     gate_authorityBinding opts (gate_query opts inp) = Inr (JSString digest) \<and>
     reading (gate_policy opts (gate_query opts inp)) snapshotExerciseControlLimits = Inr (Some limits) \<and>
     map rule_limit rules = limits \<and> list_all (consumes_exactly (ga_amount (ai_attempt inp))) rules"

lemma gate_rules_exact:
  "gate_rules amount limits = (False, False, rules) \<longleftrightarrow>
     map rule_limit rules = limits \<and> list_all (consumes_exactly amount) rules"
proof
  show "gate_rules amount limits = (False, False, rules) \<Longrightarrow>
      map rule_limit rules = limits \<and> list_all (consumes_exactly amount) rules"
    by (induction limits arbitrary: rules)
      (auto simp add: consumes_exactly_def split: prod.splits exercise_control_limit.splits option.splits if_splits)
  have "list_all (consumes_exactly amount) rules \<Longrightarrow> gate_rules amount (map rule_limit rules) = (False, False, rules)"
  proof (induction rules)
    case (Cons rule rules)
    then show ?case by (cases rule; cases "rule_limit rule") (auto simp add: consumes_exactly_def)
  qed simp
  then show "map rule_limit rules = limits \<and> list_all (consumes_exactly amount) rules \<Longrightarrow>
      gate_rules amount limits = (False, False, rules)" by blast
qed

lemma binding_verified_iff:
  "verifyExerciseAuthorityBinding recorded resolve query = BindingVerified \<longleftrightarrow>
     (\<exists>digest. recorded = Some digest \<and> isWellFormedExerciseDigest digest \<and> resolve query = Inr (JSString digest))"
  by (auto simp add: verifyExerciseAuthorityBinding_def Let_def split: option.splits sum.splits)

text \<open>An admission either withholds with nothing touched, or asks the ledger and answers from its answer.\<close>

lemma gate_admit_start:
  "gate_admit P opts st inp =
     (if \<not> exact_amount (ga_amount (ai_attempt inp)) then (GateWithheld [EXERCISE_CONTROL_AMOUNT_REQUIRED], [], st)
      else if (classOf opts inp = Financial) \<noteq> (ga_amount (ai_attempt inp) \<noteq> None) then
        (GateWithheld [EXERCISE_CONTROL_ACTION_CLASS_MISMATCH], [], st)
      else case verifyExerciseAuthorityBinding (gg_authorityBindingDigest (ai_grant inp))
                  (gate_authorityBinding opts) (gate_query opts inp) of
        BindingRefused code \<Rightarrow> (GateWithheld [code], [], st)
      | BindingVerified \<Rightarrow> gate_police P opts st inp (gate_query opts inp) (the (gg_authorityBindingDigest (ai_grant inp))))"
proof -
  have inexact: "(case amount of None \<Rightarrow> False
      | Some a \<Rightarrow> \<not> (isWellFormedMonetaryAmount (amount_js a) \<and>
          isCanonicalExerciseDecimal (JSString (amount_value a)) EXERCISE_DECIMAL_USAGE_DIGITS)) \<longleftrightarrow> \<not> exact_amount amount" for amount
    by (simp add: exact_amount_def split: option.splits)
  show ?thesis unfolding gate_admit_def Let_def inexact gate_query_def [symmetric] by (rule refl)
qed

lemma gate_admit_refused:
  assumes "\<nexists>digest limits rules. gate_asks opts inp digest limits rules"
  shows "\<exists>codes. codes \<noteq> [] \<and> gate_admit P opts st inp = (GateWithheld codes, [], st)"
proof (cases "exact_amount (ga_amount (ai_attempt inp)) \<and>
    (classOf opts inp = Financial \<longleftrightarrow> ga_amount (ai_attempt inp) \<noteq> None)")
  case False
  then show ?thesis by (auto simp add: gate_admit_start)
next
  case True
  let ?recorded = "gg_authorityBindingDigest (ai_grant inp)"
  have start: "gate_admit P opts st inp =
    (case verifyExerciseAuthorityBinding ?recorded (gate_authorityBinding opts) (gate_query opts inp) of
       BindingRefused code \<Rightarrow> (GateWithheld [code], [], st)
     | BindingVerified \<Rightarrow> gate_police P opts st inp (gate_query opts inp) (the ?recorded))"
    using True by (auto simp add: gate_admit_start)
  show ?thesis
  proof (cases "verifyExerciseAuthorityBinding ?recorded (gate_authorityBinding opts) (gate_query opts inp)")
    case (BindingRefused code)
    then show ?thesis using start by simp
  next
    case BindingVerified
    then obtain digest where d: "?recorded = Some digest" "isWellFormedExerciseDigest digest"
      "gate_authorityBinding opts (gate_query opts inp) = Inr (JSString digest)"
      using binding_verified_iff [of ?recorded "gate_authorityBinding opts" "gate_query opts inp"] by blast
    have "gate_rules (ga_amount (ai_attempt inp)) limits \<noteq> (False, False, rules)"
      if "reading (gate_policy opts (gate_query opts inp)) snapshotExerciseControlLimits = Inr (Some limits)" for limits rules
      using that assms True d gate_rules_exact [of "ga_amount (ai_attempt inp)" limits rules]
      by (auto simp add: gate_asks_def)
    then show ?thesis using start BindingVerified
      by (auto simp add: gate_police_def gate_reserve_def split: sum.splits option.splits prod.splits)
  qed
qed

lemma gate_admit_asked:
  assumes "gate_asks opts inp digest limits rules"
  shows "gate_admit P opts st inp =
    (let request = gate_request P inp (gate_query opts inp) digest limits rules
     in case lp_reserve (gate_ledger opts) (gs_ledger st) request of
          (answer, ledger) \<Rightarrow> gate_answer opts inp request (st\<lparr>gs_ledger := ledger\<rparr>) answer)"
proof -
  have "verifyExerciseAuthorityBinding (gg_authorityBindingDigest (ai_grant inp)) (gate_authorityBinding opts)
      (gate_query opts inp) = BindingVerified"
    using assms by (simp add: binding_verified_iff gate_asks_def)
  moreover have "gate_rules (ga_amount (ai_attempt inp)) limits = (False, False, rules)"
    using assms by (simp add: gate_rules_exact gate_asks_def)
  ultimately show ?thesis
    using assms by (simp add: gate_admit_start gate_police_def gate_reserve_def gate_asks_def)
qed

lemma gate_answer_admitted:
  assumes "gate_answer opts inp request st answer = (GateAdmitted h, obs, st')"
  shows "\<exists>outcome facts. answer = Inr outcome \<and> js_get outcome ''outcome'' = JSString ''reserved'' \<and>
    h = \<lparr>handle_ref = length (gs_admitted st), handle_reservationId = rr_reservationId request,
         handle_authorityBindingDigest = rr_authorityBindingDigest request\<rparr> \<and>
    facts = \<lparr>fact_executionId = ai_executionId inp, fact_boundedGrantId = gg_id (ai_grant inp),
             fact_requestId = requestId (gg_correlation (ai_grant inp)),
             fact_decisionId = decisionId (gg_correlation (ai_grant inp))\<rparr> \<and>
    obs = observe opts (admission_observation (rr_reservationId request) facts (js_get outcome ''reservation'')) \<and>
    st' = st\<lparr>gs_admitted := gs_admitted st @ [(length (gs_admitted st), facts)]\<rparr>"
  using assms by (auto simp add: gate_answer_def Let_def split: sum.splits if_splits)

lemma gate_answer_withheld:
  assumes "gate_answer opts inp request st answer = (GateWithheld codes, obs, st')"
  shows "codes \<noteq> [] \<and> obs = [] \<and> st' = st \<and> (\<nexists>r. answer = Inr (outcome_js (Reserved r)))"
  using assms by (auto simp add: gate_answer_def Let_def split: sum.splits if_splits)

lemma outcome_reserved [simp]: "js_get (outcome_js out) ''outcome'' = JSString ''reserved'' \<longleftrightarrow> (\<exists>r. out = Reserved r)"
  by (cases out) simp_all

lemma admission_observation_record:
  "admission_observation i facts (record_js r) =
     (if rr_reservationId r = i then Some (ObservedReserved i facts (rr_policyDigest r) (rr_authorityBindingDigest r) (rr_reservedAt r))
      else None)"
  by (simp add: admission_observation_def record_js_def)

text \<open>The event a terminal transition found or recorded, and what the observer is told of it.\<close>

fun outcome_event :: "exercise_terminal_kind \<Rightarrow> exercise_terminal_outcome \<Rightarrow> exercise_terminal_event option" where
  "outcome_event KindSettled (SettledNow e) = Some e"
| "outcome_event KindSettled (AlreadySettled e) = Some e"
| "outcome_event KindReleased (ReleasedNow e) = Some e"
| "outcome_event KindReleased (AlreadyReleased e) = Some e"
| "outcome_event kind out = None"

lemma ledger_terminal_truthful:
  assumes "ledger_terminal P st kind inp = (tout, st')"
  shows "case tout of
      Inr out \<Rightarrow>
        (case outcome_event kind out of
           Some e \<Rightarrow> map_of (led_terminals st') (ti_reservationId inp) = Some e \<and> te_kind e = kind \<and>
             te_reason e = ti_reason inp \<and> map_of (led_reservations st') (ti_reservationId inp) \<noteq> None
         | None \<Rightarrow> st' = st)
    | Inl err \<Rightarrow> st' = st"
proof (cases "finishes P st kind inp")
  case True
  show ?thesis
    using assms ledger_terminal_recorded [OF True] True
    by (cases kind) (auto simp add: terminal_event_def finishes_def)
next
  case False
  then have "st' = st" using assms ledger_terminal_unchanged [OF False] by (metis snd_conv)
  with assms False show ?thesis
    by (cases kind) (auto simp add: ledger_terminal_def finishes_def split: option.splits if_splits)
qed

lemma gate_finalize_memory:
  assumes "gate_ledger opts = createInMemoryExerciseControlLedger P clock"
    and "kind = (case disposition of DisposeSettle reason \<Rightarrow> KindSettled | DisposeRelease reason \<Rightarrow> KindReleased)"
    and "asked = (case disposition of DisposeSettle reason \<Rightarrow> reason | DisposeRelease reason \<Rightarrow> reason)"
  shows "gate_finalize opts st now h disposition =
    (case now of Inl e \<Rightarrow> (FinalRetained, [], st)
     | Inr recordedAt \<Rightarrow>
       (case ledger_terminal P (gs_ledger st) kind
               \<lparr>ti_reservationId = handle_reservationId h, ti_reason = asked, ti_recordedAt = recordedAt\<rparr> of
          (Inl e, ledger) \<Rightarrow> (FinalRetained, [], st\<lparr>gs_ledger := ledger\<rparr>)
        | (Inr out, ledger) \<Rightarrow>
            if outcome_event kind out = None then (FinalRetained, [], st\<lparr>gs_ledger := ledger\<rparr>)
            else (if kind = KindSettled then FinalSettled else FinalReleased,
                  observe opts (terminalObservation st h out), st\<lparr>gs_ledger := ledger\<rparr>)))"
  using assms
  by (cases disposition)
    (auto simp add: gate_finalize_def gate_release_def createInMemoryExerciseControlLedger_def ledger_settle_def
      ledger_release_def split: sum.splits prod.splits exercise_terminal_outcome.splits)

lemma terminal_observation_event:
  "outcome_event kind out = Some e \<Longrightarrow> x \<in> set (observe opts (terminalObservation st h out)) \<Longrightarrow>
     obs_reason x = te_reason e \<and> obs_recordedAt x = te_recordedAt e"
  by (cases "(kind, out)" rule: outcome_event.cases)
    (auto simp add: terminalObservation_def observe_def Let_def split: option.splits if_splits)

text \<open>Over the in-memory ledger: an admission is the reservation it made, a withholding made none.\<close>

lemma gate_admit_memory:
  assumes "gate_ledger opts = createInMemoryExerciseControlLedger P clock" "gate_asks opts inp digest limits rules"
    and "ledger_reserve P (gs_ledger st) clock (gate_request P inp (gate_query opts inp) digest limits rules) = (out, ledger)"
  shows "gate_admit P opts st inp =
    gate_answer opts inp (gate_request P inp (gate_query opts inp) digest limits rules) (st\<lparr>gs_ledger := ledger\<rparr>)
      (map_sum id outcome_js out)"
  using gate_admit_asked [OF assms(2), of P st] assms(1,3) by (simp add: createInMemoryExerciseControlLedger_def)

lemma gate_admit_unreserved:
  assumes "gate_ledger opts = createInMemoryExerciseControlLedger P clock"
    and "gate_admit P opts st inp = (GateWithheld codes, obs, st')"
  shows "codes \<noteq> [] \<and> obs = [] \<and> st' = st"
proof (cases "\<exists>digest limits rules. gate_asks opts inp digest limits rules")
  case False
  then show ?thesis using gate_admit_refused [OF False, of P st] assms(2) by auto
next
  case True
  then obtain digest limits rules where a: "gate_asks opts inp digest limits rules" by blast
  let ?request = "gate_request P inp (gate_query opts inp) digest limits rules"
  obtain out ledger where l: "ledger_reserve P (gs_ledger st) clock ?request = (out, ledger)" by force
  have w: "codes \<noteq> [] \<and> obs = [] \<and> st' = st\<lparr>gs_ledger := ledger\<rparr>" "\<nexists>r. out = Inr (Reserved r)"
    using gate_answer_withheld [of opts inp ?request _ _ codes obs st'] gate_admit_memory [OF assms(1) a l] assms(2)
    by fastforce+
  then have "ledger = gs_ledger st" using ledger_reserve_unchanged [OF l] by blast
  then show ?thesis using w(1) by simp
qed

lemma gate_admit_reserved:
  assumes "gate_ledger opts = createInMemoryExerciseControlLedger P clock"
    and "gate_admit P opts st inp = (GateAdmitted h, obs, st')"
  obtains digest limits rules r facts where "gate_asks opts inp digest limits rules"
    "ledger_reserve P (gs_ledger st) clock (gate_request P inp (gate_query opts inp) digest limits rules) =
       (Inr (Reserved r), gs_ledger st')"
    "handle_reservationId h = exerciseReservationId P (gg_id (ai_grant inp)) (ai_executionId inp)"
    "handle_authorityBindingDigest h = digest"
    "obs = observe opts (admission_observation (handle_reservationId h) facts (record_js r))"
proof (cases "\<exists>digest limits rules. gate_asks opts inp digest limits rules")
  case False
  then show thesis using gate_admit_refused [OF False, of P st] assms(2) by auto
next
  case True
  then obtain digest limits rules where a: "gate_asks opts inp digest limits rules" by blast
  let ?request = "gate_request P inp (gate_query opts inp) digest limits rules"
  obtain out ledger where l: "ledger_reserve P (gs_ledger st) clock ?request = (out, ledger)" by force
  obtain outcome facts where f: "map_sum id outcome_js out = Inr outcome" "js_get outcome ''outcome'' = JSString ''reserved''"
    "handle_reservationId h = rr_reservationId ?request" "handle_authorityBindingDigest h = digest"
    "obs = observe opts (admission_observation (rr_reservationId ?request) facts (js_get outcome ''reservation''))"
    "gs_ledger st' = ledger"
    using gate_answer_admitted [of opts inp ?request _ _ h obs st'] gate_admit_memory [OF assms(1) a l] assms(2)
    by (fastforce simp add: gate_request_def)
  then obtain r where "out = Inr (Reserved r)" by (cases out) auto
  then show thesis using that [OF a _ _ f(4)] l f by (auto simp add: gate_request_def)
qed

section \<open>A gate for the witnesses\<close>

definition example_gate :: "exercise_ledger exercise_gate_options" where
  "example_gate =
     \<lparr>gate_policy = (\<lambda>query. Inr (JSArray [limit_js spend_limit])),
      gate_authorityBinding = (\<lambda>query. Inr (JSString example_digest)),
      gate_ledger = createInMemoryExerciseControlLedger mixing_platform example_noon,
      gate_classifier = \<lparr>financial = [''payment''], financialActions = [''payment'']\<rparr>, gate_observed = True\<rparr>"

definition example_gate_input :: "string \<Rightarrow> exercise_admission_input" where
  "example_gate_input execId =
     \<lparr>ai_grant = \<lparr>gg_id = ''g'', gg_subject = ''agent-7'', gg_issuedAt = ''2024-01-01T00:00:00Z'',
        gg_expiresAt = ''2024-01-02T00:00:00Z'', gg_correlation = example_correlation,
        gg_authorityBindingDigest = Some example_digest\<rparr>,
      ai_attempt = \<lparr>ga_action = ''payment'', ga_resource = ''a'', ga_counterparty = None, ga_organization = None,
        ga_amount = Some \<lparr>amount_value = ''60'', amount_unit = ''iso4217:USD''\<rparr>\<rparr>,
      ai_executionId = execId, ai_at = example_noon\<rparr>"

definition example_gate_state :: "exercise_ledger exercise_gate_state" where
  "example_gate_state = \<lparr>gs_ledger = empty_ledger, gs_admitted = []\<rparr>"

section \<open>Properties\<close>

text \<open>
  C28: The gate fails closed, whatever its policy, its binding resolver and its ledger answer.
  It admits only when the ledger answered a reservation, and it asks the ledger only when the
  amount is exact and stated exactly for a financial action, the binding resolver answers the very
  digest the grant was issued under, the policy's answer is an enforceable limit set, and every
  limit has its exact usage; in every other case it withholds with a reason, observes nothing
  and leaves the ledger as it was.
\<close>

theorem gate_fails_closed:
  "(gate_admit P opts st inp = (GateAdmitted h, obs, st') \<longrightarrow>
      (\<exists>digest limits rules outcome ledger. gate_asks opts inp digest limits rules \<and>
         lp_reserve (gate_ledger opts) (gs_ledger st)
           (gate_request P inp (gate_query opts inp) digest limits rules) = (Inr outcome, ledger) \<and>
         js_get outcome ''outcome'' = JSString ''reserved'' \<and> gs_ledger st' = ledger)) \<and>
   ((\<nexists>digest limits rules. gate_asks opts inp digest limits rules) \<longrightarrow>
      (\<exists>codes. codes \<noteq> [] \<and> gate_admit P opts st inp = (GateWithheld codes, [], st)))"
proof (cases "\<exists>digest limits rules. gate_asks opts inp digest limits rules")
  case True
  then obtain digest limits rules where a: "gate_asks opts inp digest limits rules" by blast
  obtain answer ledger where l: "lp_reserve (gate_ledger opts) (gs_ledger st)
      (gate_request P inp (gate_query opts inp) digest limits rules) = (answer, ledger)" by force
  have "\<exists>outcome. answer = Inr outcome \<and> js_get outcome ''outcome'' = JSString ''reserved'' \<and> gs_ledger st' = ledger"
    if "gate_admit P opts st inp = (GateAdmitted h, obs, st')"
  proof -
    from that gate_admit_asked [OF a, of P st] l
    have "gate_answer opts inp (gate_request P inp (gate_query opts inp) digest limits rules)
        (st\<lparr>gs_ledger := ledger\<rparr>) answer = (GateAdmitted h, obs, st')" by simp
    from gate_answer_admitted [OF this] show ?thesis by auto
  qed
  then show ?thesis using True a l by blast
next
  case False
  then show ?thesis using gate_admit_refused [OF False, of P st] by auto
qed

theorem gate_fails_closed_witness:
  "\<exists>codes. codes \<noteq> [] \<and>
     gate_admit mixing_platform (example_gate\<lparr>gate_authorityBinding := (\<lambda>query. Inr JSUndefined)\<rparr>) example_gate_state
       (example_gate_input ''e1'') = (GateWithheld codes, [], example_gate_state)"
proof -
  let ?opts = "example_gate\<lparr>gate_authorityBinding := (\<lambda>query. Inr JSUndefined)\<rparr>"
  have "\<nexists>digest limits rules. gate_asks ?opts (example_gate_input ''e1'') digest limits rules"
    by (simp add: gate_asks_def)
  then show ?thesis using gate_fails_closed [of mixing_platform ?opts example_gate_state "example_gate_input ''e1''"] by blast
qed

text \<open>
  Over the in-memory ledger an admission is exactly one new reservation.  The execution
  identity was free, every limit of the policy still held one more execution in exact arithmetic,
  the record holds the exercise's digests, the policy's digest and the binding's, at the ledger's
  own instant, nothing else changed, and what the observer is told is that record.  A withheld
  admission leaves the gate and the ledger as they were and always names a reason.
\<close>

theorem gate_admission_atomic:
  assumes "gate_ledger opts = createInMemoryExerciseControlLedger P clock"
  shows "case gate_admit P opts st inp of
      (GateWithheld codes, obs, st') \<Rightarrow> codes \<noteq> [] \<and> obs = [] \<and> st' = st
    | (GateAdmitted h, obs, st') \<Rightarrow>
        \<exists>digest limits rules r. gate_asks opts inp digest limits rules \<and>
          r = frozenCopy (gate_request P inp (gate_query opts inp) digest limits rules) clock \<and>
          rr_executionId r \<notin> set (map (\<lambda>(k, x). rr_executionId x) (led_reservations (gs_ledger st))) \<and>
          (\<forall>rule \<in> set rules. rule_fits rule (activeUsageFor P (gs_ledger st) rule) (Date_parse P clock)) \<and>
          gs_ledger st' = (gs_ledger st)\<lparr>led_reservations := led_reservations (gs_ledger st) @ [(rr_reservationId r, r)]\<rparr> \<and>
          handle_reservationId h = rr_reservationId r \<and> handle_authorityBindingDigest h = digest \<and>
          (\<forall>observation \<in> set obs. obs_reservationId observation = rr_reservationId r \<and>
             obs_policyDigest observation = rr_policyDigest r \<and> obs_admittedAt observation = clock)"
proof -
  obtain adm obs st' where res: "gate_admit P opts st inp = (adm, obs, st')" by (cases "gate_admit P opts st inp")
  show ?thesis
  proof (cases adm)
    case (GateWithheld codes)
    then show ?thesis using gate_admit_unreserved [OF assms res [unfolded GateWithheld]] res by simp
  next
    case (GateAdmitted h)
    obtain digest limits rules r facts where a: "gate_asks opts inp digest limits rules"
      "ledger_reserve P (gs_ledger st) clock (gate_request P inp (gate_query opts inp) digest limits rules) =
         (Inr (Reserved r), gs_ledger st')"
      "handle_reservationId h = exerciseReservationId P (gg_id (ai_grant inp)) (ai_executionId inp)"
      "handle_authorityBindingDigest h = digest"
      "obs = observe opts (admission_observation (handle_reservationId h) facts (record_js r))"
      using gate_admit_reserved [OF assms res [unfolded GateAdmitted]] .
    note new = ledger_reserve_reserved [OF a(2)]
    have "\<forall>rule \<in> set rules. rule_fits rule (activeUsageFor P (gs_ledger st) rule) (Date_parse P clock)"
      using admission_assessed [OF new(2), of "activeUsageFor P (gs_ledger st)" clock] new(6) by (simp add: gate_request_def)
    moreover have "obs_reservationId x = rr_reservationId r \<and> obs_policyDigest x = rr_policyDigest r \<and> obs_admittedAt x = clock"
      if "x \<in> set obs" for x
      using that a(5) new(1) by (auto simp add: observe_def admission_observation_record split: if_splits)
    ultimately show ?thesis
      using res GateAdmitted a(1,3,4) new
      by (auto simp add: gate_request_def intro!: exI [of _ digest] exI [of _ limits] exI [of _ rules])
  qed
qed

text \<open>
  The revalidation after the reservation passes exactly when the re-read grant and execution
  derive the reserved identity, the re-read grant still carries the binding the reservation was
  admitted under, and the resolver answers that very digest at the fresh instant; otherwise it
  withholds with a reason.
\<close>

theorem gate_revalidation_exact:
  "(gate_revalidate P opts h inp = GateVerified \<longleftrightarrow>
      exerciseReservationId P (gg_id (ai_grant inp)) (ai_executionId inp) = handle_reservationId h \<and>
      gg_authorityBindingDigest (ai_grant inp) = Some (handle_authorityBindingDigest h) \<and>
      isWellFormedExerciseDigest (handle_authorityBindingDigest h) \<and>
      gate_authorityBinding opts (gate_query opts inp) = Inr (JSString (handle_authorityBindingDigest h))) \<and>
   gate_revalidate P opts h inp \<noteq> GateRevalidationWithheld []"
  using binding_verified_iff [of "gg_authorityBindingDigest (ai_grant inp)" "gate_authorityBinding opts" "gate_query opts inp"]
  by (cases "verifyExerciseAuthorityBinding (gg_authorityBindingDigest (ai_grant inp)) (gate_authorityBinding opts) (gate_query opts inp)")
    (auto simp add: gate_revalidate_def simp flip: gate_query_def)

text \<open>
  Finalization is truthful over the in-memory ledger.  It answers settled, or released, only
  when the reservation exists and its one terminal event is exactly the disposition asked for;
  otherwise it answers retained and the gate and the ledger are as they were, so the reservation
  goes on consuming; and the observer is only told of terminal events the ledger holds.
\<close>

theorem gate_finalization_truthful:
  assumes "gate_ledger opts = createInMemoryExerciseControlLedger P clock"
  shows "let (final, obs, st') = gate_finalize opts st now h disposition;
      kind = (case disposition of DisposeSettle reason \<Rightarrow> KindSettled | DisposeRelease reason \<Rightarrow> KindReleased);
      asked = (case disposition of DisposeSettle reason \<Rightarrow> reason | DisposeRelease reason \<Rightarrow> reason)
    in (final = FinalRetained \<longrightarrow> st' = st \<and> obs = []) \<and>
       (final \<noteq> FinalRetained \<longrightarrow>
          final = (if kind = KindSettled then FinalSettled else FinalReleased) \<and>
          (\<exists>v e. ledger_read (gs_ledger st') (handle_reservationId h) = Some v \<and> view_terminal v = Some e \<and>
             te_kind e = kind \<and> te_reason e = asked \<and>
             (\<forall>observation \<in> set obs. obs_reason observation = te_reason e \<and> obs_recordedAt observation = te_recordedAt e)))"
proof -
  let ?kind = "case disposition of DisposeSettle reason \<Rightarrow> KindSettled | DisposeRelease reason \<Rightarrow> KindReleased"
  let ?asked = "case disposition of DisposeSettle reason \<Rightarrow> reason | DisposeRelease reason \<Rightarrow> reason"
  note g = gate_finalize_memory [OF assms(1) refl refl, of st now h disposition]
  show ?thesis
  proof (cases now)
    case (Inl e)
    then show ?thesis using g by simp
  next
    case (Inr t)
    let ?inp = "\<lparr>ti_reservationId = handle_reservationId h, ti_reason = ?asked, ti_recordedAt = t\<rparr>"
    obtain tout ledger where l: "ledger_terminal P (gs_ledger st) ?kind ?inp = (tout, ledger)" by force
    note tr = ledger_terminal_truthful [OF l]
    show ?thesis
    proof (cases "\<exists>out e. tout = Inr out \<and> outcome_event ?kind out = Some e")
      case True
      then obtain out e where o: "tout = Inr out" "outcome_event ?kind out = Some e" by blast
      have "gate_finalize opts st now h disposition =
          (if ?kind = KindSettled then FinalSettled else FinalReleased, observe opts (terminalObservation st h out), st\<lparr>gs_ledger := ledger\<rparr>)"
        using g Inr l o by simp
      moreover have "\<exists>v. ledger_read ledger (handle_reservationId h) = Some v \<and> view_terminal v = Some e"
        "te_kind e = ?kind" "te_reason e = ?asked"
        using tr o by (auto simp add: ledger_read_def)
      ultimately show ?thesis using terminal_observation_event [OF o(2), of _ opts st h] by (auto simp add: Let_def)
    next
      case False
      then have "gate_finalize opts st now h disposition = (FinalRetained, [], st\<lparr>gs_ledger := ledger\<rparr>)" "ledger = gs_ledger st"
        using g Inr l tr by (auto split: sum.splits option.splits)
      then show ?thesis by simp
    qed
  qed
qed

end
