(* ===== verification/Emergency_Control.thy ===== *)
theory Emergency_Control
  imports Exercise_Gate
begin

text \<open>
  The operational safety interlock: \<open>emergency-control-runtime/domain/emergency-control-port.ts\<close>,
  \<open>emergency-control-reason-codes.ts\<close>, \<open>emergency-control-signal.ts\<close>,
  \<open>services/emergency-control-reader.ts\<close> and \<open>services/in-memory-emergency-control-store.ts\<close>.
  Queries, declarations and releases are arbitrary values, since the code validates them; the
  reader is a function that answers an arbitrary value or throws.  The store's contract is stated
  once as a locale over the set of controls in force and interpreted on the in-memory store.
\<close>

section \<open>Scopes, queries and assessments\<close>

datatype emergency_reason_code = EMERGENCY_CONTROL_ACTIVE | EMERGENCY_CONTROL_UNAVAILABLE

fun emergency_code_name :: "emergency_reason_code \<Rightarrow> string" where
  "emergency_code_name EMERGENCY_CONTROL_ACTIVE = ''EMERGENCY_CONTROL_ACTIVE''"
| "emergency_code_name EMERGENCY_CONTROL_UNAVAILABLE = ''EMERGENCY_CONTROL_UNAVAILABLE''"

datatype emergency_control_scope =
    ScopeGlobal | ScopeOrganization | ScopeActor | ScopeWorkflow | ScopeAdapter | ScopeResource

fun scope_name :: "emergency_control_scope \<Rightarrow> string" where
  "scope_name ScopeGlobal = ''global''"
| "scope_name ScopeOrganization = ''organization''"
| "scope_name ScopeActor = ''actor''"
| "scope_name ScopeWorkflow = ''workflow''"
| "scope_name ScopeAdapter = ''adapter''"
| "scope_name ScopeResource = ''resource''"

definition EMERGENCY_CONTROL_SCOPES :: "emergency_control_scope list" where
  "EMERGENCY_CONTROL_SCOPES =
     [ScopeGlobal, ScopeOrganization, ScopeActor, ScopeWorkflow, ScopeAdapter, ScopeResource]"

definition isEmergencyControlScope :: "js_value \<Rightarrow> emergency_control_scope option" where
  "isEmergencyControlScope v = find (\<lambda>s. v = JSString (scope_name s)) EMERGENCY_CONTROL_SCOPES"

record emergency_query =
  eq_organizationId :: "string option"
  eq_actorId :: "string option"
  eq_workflowId :: "string option"
  eq_adapterId :: "string option"
  eq_resource :: "string option"

record emergency_scope_match =
  match_scope :: emergency_control_scope
  match_value :: "string option"

datatype emergency_assessment =
    EmergencyClear (emergency_codes: "emergency_reason_code list")
  | EmergencyBlocked (emergency_codes: "emergency_reason_code list") (emergency_matched: "js_value list")
  | EmergencyUnavailable (emergency_codes: "emergency_reason_code list")

text \<open>The values the code passes around, from the typed data.\<close>

fun optional_field :: "string \<Rightarrow> string option \<Rightarrow> (string \<times> js_value js_prop) list" where
  "optional_field k None = []"
| "optional_field k (Some s) = [(k, DataProp (JSString s))]"

definition query_js :: "emergency_query \<Rightarrow> js_value" where
  "query_js q = JSObject True
     (optional_field ''organizationId'' (eq_organizationId q) @ optional_field ''actorId'' (eq_actorId q) @
      optional_field ''workflowId'' (eq_workflowId q) @ optional_field ''adapterId'' (eq_adapterId q) @
      optional_field ''resource'' (eq_resource q))"

definition match_js :: "emergency_scope_match \<Rightarrow> js_value" where
  "match_js m = JSObject True
     ((''scope'', DataProp (JSString (scope_name (match_scope m)))) # optional_field ''value'' (match_value m))"

definition codes_js :: "emergency_reason_code list \<Rightarrow> js_value" where
  "codes_js codes = JSArray (map (\<lambda>c. JSString (emergency_code_name c)) codes)"

fun assessment_js :: "emergency_assessment \<Rightarrow> js_value" where
  "assessment_js (EmergencyClear codes) =
     JSObject True [(''state'', DataProp (JSString ''clear'')), (''reasonCodes'', DataProp (codes_js codes))]"
| "assessment_js (EmergencyBlocked codes matched) =
     JSObject True [(''state'', DataProp (JSString ''blocked'')), (''reasonCodes'', DataProp (codes_js codes)),
       (''matchedScopes'', DataProp (JSArray matched))]"
| "assessment_js (EmergencyUnavailable codes) =
     JSObject True [(''state'', DataProp (JSString ''unavailable'')), (''reasonCodes'', DataProp (codes_js codes))]"

section \<open>Reading the interlock\<close>

definition EMERGENCY_CONTROL_CLEAR :: emergency_assessment where
  "EMERGENCY_CONTROL_CLEAR = EmergencyClear []"

definition emergencyControlUnavailable :: emergency_assessment where
  "emergencyControlUnavailable = EmergencyUnavailable [EMERGENCY_CONTROL_UNAVAILABLE]"

definition emergencyControlBlocked :: "js_value list \<Rightarrow> emergency_assessment" where
  "emergencyControlBlocked matchedScopes = EmergencyBlocked [EMERGENCY_CONTROL_ACTIVE] matchedScopes"

fun emergencyControlPermits :: "emergency_assessment \<Rightarrow> bool" where
  "emergencyControlPermits (EmergencyClear codes) = True"
| "emergencyControlPermits _ = False"

type_synonym emergency_reader = "js_value \<Rightarrow> js_error + js_value"

definition readEmergencyControl :: "emergency_reader option \<Rightarrow> js_value \<Rightarrow> emergency_assessment" where
  "readEmergencyControl reader query =
     (case reader of None \<Rightarrow> EMERGENCY_CONTROL_CLEAR
      | Some read \<Rightarrow>
          case read query of Inl _ \<Rightarrow> emergencyControlUnavailable
          | Inr returned \<Rightarrow>
              if \<not> js_is_object returned then emergencyControlUnavailable
              else if js_get returned ''state'' = JSString ''clear'' then EMERGENCY_CONTROL_CLEAR
              else if js_get returned ''state'' = JSString ''blocked'' then
                emergencyControlBlocked (case js_get returned ''matchedScopes'' of JSArray ms \<Rightarrow> ms | _ \<Rightarrow> [])
              else emergencyControlUnavailable)"

fun stated_well :: "js_value \<Rightarrow> bool" where
  "stated_well JSUndefined = True"
| "stated_well (JSString s) = (length s \<noteq> 0)"
| "stated_well _ = False"

definition QUERY_FIELDS :: "string list" where
  "QUERY_FIELDS = [''organizationId'', ''actorId'', ''workflowId'', ''adapterId'', ''resource'']"

definition isWellFormedEmergencyControlQuery :: "js_value \<Rightarrow> bool" where
  "isWellFormedEmergencyControlQuery query \<longleftrightarrow>
     js_is_object query \<and> list_all (\<lambda>k. stated_well (js_get query k)) QUERY_FIELDS"

fun stated_text :: "js_value \<Rightarrow> string option" where
  "stated_text (JSString s) = Some s"
| "stated_text _ = None"

text \<open>The typed query that a well-formed value is.\<close>

definition query_of :: "js_value \<Rightarrow> emergency_query" where
  "query_of v =
     \<lparr>eq_organizationId = stated_text (js_get v ''organizationId''), eq_actorId = stated_text (js_get v ''actorId''),
      eq_workflowId = stated_text (js_get v ''workflowId''), eq_adapterId = stated_text (js_get v ''adapterId''),
      eq_resource = stated_text (js_get v ''resource'')\<rparr>"

fun stated_scope :: "emergency_control_scope \<Rightarrow> string option \<Rightarrow> emergency_scope_match list" where
  "stated_scope s None = []"
| "stated_scope s (Some v) = [\<lparr>match_scope = s, match_value = Some v\<rparr>]"

definition applicableEmergencyControlScopes :: "emergency_query \<Rightarrow> emergency_scope_match list" where
  "applicableEmergencyControlScopes q =
     [\<lparr>match_scope = ScopeGlobal, match_value = None\<rparr>] @
     stated_scope ScopeOrganization (eq_organizationId q) @ stated_scope ScopeActor (eq_actorId q) @
     stated_scope ScopeWorkflow (eq_workflowId q) @ stated_scope ScopeAdapter (eq_adapterId q) @
     stated_scope ScopeResource (eq_resource q)"

definition emergencyControlKey :: "emergency_control_scope \<Rightarrow> string option \<Rightarrow> string" where
  "emergencyControlKey s v =
     (if s = ScopeGlobal then ''global'' else scope_name s @ '':'' @ (case v of Some t \<Rightarrow> t | None \<Rightarrow> ''''))"

section \<open>Declarations and releases\<close>

fun non_blank :: "js_value \<Rightarrow> bool" where
  "non_blank (JSString s) = (length s > 0)"
| "non_blank _ = False"

definition names_control :: "js_value \<Rightarrow> bool" where
  "names_control v =
     (case isEmergencyControlScope (js_get v ''scope'') of None \<Rightarrow> False
      | Some ScopeGlobal \<Rightarrow> js_get v ''value'' = JSUndefined
      | Some _ \<Rightarrow> non_blank (js_get v ''value''))"

definition isWellFormedEmergencyControlDeclaration :: "js_value \<Rightarrow> bool" where
  "isWellFormedEmergencyControlDeclaration d \<longleftrightarrow>
     names_control d \<and> non_blank (js_get d ''issuerRef'') \<and> non_blank (js_get d ''declaredAt'')"

definition isWellFormedEmergencyControlRelease :: "js_value \<Rightarrow> bool" where
  "isWellFormedEmergencyControlRelease r \<longleftrightarrow>
     names_control r \<and> non_blank (js_get r ''issuerRef'') \<and> non_blank (js_get r ''releasedAt'')"

text \<open>The control a well-formed declaration or release names.\<close>

definition control_of :: "js_value \<Rightarrow> emergency_scope_match" where
  "control_of v =
     (case isEmergencyControlScope (js_get v ''scope'') of
        Some ScopeGlobal \<Rightarrow> \<lparr>match_scope = ScopeGlobal, match_value = None\<rparr>
      | Some s \<Rightarrow> \<lparr>match_scope = s, match_value = stated_text (js_get v ''value'')\<rparr>
      | None \<Rightarrow> \<lparr>match_scope = ScopeGlobal, match_value = None\<rparr>)"

definition control_key :: "emergency_scope_match \<Rightarrow> string" where
  "control_key m = emergencyControlKey (match_scope m) (match_value m)"

section \<open>The in-memory store\<close>

record emergency_store =
  es_controls :: "(string \<times> emergency_scope_match) list"
  es_unavailable :: bool

definition empty_emergency_store :: emergency_store where
  "empty_emergency_store = \<lparr>es_controls = [], es_unavailable = False\<rparr>"

definition emergency_read :: "emergency_store \<Rightarrow> js_value \<Rightarrow> emergency_assessment" where
  "emergency_read st query =
     (if es_unavailable st then emergencyControlUnavailable
      else if \<not> isWellFormedEmergencyControlQuery query then emergencyControlUnavailable
      else
        let matched = filter (\<lambda>m. map_of (es_controls st) (control_key m) \<noteq> None)
                        (applicableEmergencyControlScopes (query_of query))
        in if length matched > 0 then emergencyControlBlocked (map match_js matched) else EMERGENCY_CONTROL_CLEAR)"

text \<open>Both operations read the scope first, so \<open>null\<close> and \<open>undefined\<close> fail before they are refused.\<close>

fun malformed_error :: "js_value \<Rightarrow> string \<Rightarrow> js_error" where
  "malformed_error JSUndefined message = TypeError ''Cannot read properties of undefined''"
| "malformed_error JSNull message = TypeError ''Cannot read properties of null''"
| "malformed_error _ message = RangeError message"

definition emergency_activate :: "emergency_store \<Rightarrow> js_value \<Rightarrow> (js_error + unit) \<times> emergency_store" where
  "emergency_activate st d =
     (if \<not> isWellFormedEmergencyControlDeclaration d then
        (Inl (malformed_error d ''An emergency control declaration must state a known scope, a value for every scope but global, an issuerRef and an instant.''), st)
      else
        let key = control_key (control_of d)
        in if map_of (es_controls st) key \<noteq> None then (Inr (), st)
           else (Inr (), st\<lparr>es_controls := AList.update key (control_of d) (es_controls st)\<rparr>))"

definition emergency_release :: "emergency_store \<Rightarrow> js_value \<Rightarrow> (js_error + unit) \<times> emergency_store" where
  "emergency_release st r =
     (if \<not> isWellFormedEmergencyControlRelease r then
        (Inl (malformed_error r ''An emergency control release must state a known scope, a value for every scope but global, an issuerRef and an instant.''), st)
      else (Inr (), st\<lparr>es_controls := AList.delete (control_key (control_of r)) (es_controls st)\<rparr>))"

definition emergency_active :: "emergency_store \<Rightarrow> emergency_scope_match list" where
  "emergency_active st = map snd (es_controls st)"

definition emergency_simulateUnavailable :: "emergency_store \<Rightarrow> bool \<Rightarrow> emergency_store" where
  "emergency_simulateUnavailable st next = st\<lparr>es_unavailable := next\<rparr>"

text \<open>The read capability alone, over any store that may throw.\<close>

definition createEmergencyControlReader :: "emergency_reader \<Rightarrow> emergency_reader" where
  "createEmergencyControlReader read query =
     (case read query of Inl _ \<Rightarrow> Inr (assessment_js emergencyControlUnavailable) | Inr answer \<Rightarrow> Inr answer)"

definition memory_reader :: "emergency_store \<Rightarrow> emergency_reader" where
  "memory_reader st = createEmergencyControlReader (\<lambda>query. Inr (assessment_js (emergency_read st query)))"

section \<open>The signal of a withheld execution\<close>

record emergency_withheld_error =
  ew_reasonCodes :: "emergency_reason_code list"
  ew_matchedScopes :: "js_value list"

definition EmergencyControlWithheldError :: "emergency_assessment \<Rightarrow> emergency_withheld_error" where
  "EmergencyControlWithheldError assessment =
     \<lparr>ew_reasonCodes = (if length (emergency_codes assessment) > 0 then emergency_codes assessment
                        else [EMERGENCY_CONTROL_UNAVAILABLE]),
      ew_matchedScopes = (case assessment of EmergencyBlocked _ matched \<Rightarrow> matched | _ \<Rightarrow> [])\<rparr>"


section \<open>The contract of an interlock store\<close>

datatype emergency_operation =
    OpActivate js_value
  | OpRelease js_value
  | OpSimulate bool

text \<open>Whether an operation is accepted and names the control.\<close>

fun names_it :: "emergency_scope_match \<Rightarrow> emergency_operation \<Rightarrow> bool" where
  "names_it c (OpActivate d) = (isWellFormedEmergencyControlDeclaration d \<and> control_of d = c)"
| "names_it c (OpRelease r) = (isWellFormedEmergencyControlRelease r \<and> control_of r = c)"
| "names_it c (OpSimulate b) = False"

text \<open>A control is in force when the last accepted operation that names it is an activation.\<close>

definition in_force :: "emergency_operation list \<Rightarrow> emergency_scope_match \<Rightarrow> bool" where
  "in_force ops c = (case find (names_it c) (rev ops) of Some (OpActivate d) \<Rightarrow> True | _ \<Rightarrow> False)"

fun simulation :: "emergency_operation \<Rightarrow> bool" where
  "simulation (OpSimulate b) = True"
| "simulation _ = False"

definition made_unavailable :: "emergency_operation list \<Rightarrow> bool" where
  "made_unavailable ops = (case find simulation (rev ops) of Some (OpSimulate b) \<Rightarrow> b | _ \<Rightarrow> False)"

lemma in_force_simps [simp]:
  "\<not> in_force [] c"
  "in_force (ops @ [OpActivate d]) c \<longleftrightarrow>
     isWellFormedEmergencyControlDeclaration d \<and> control_of d = c \<or> in_force ops c"
  "in_force (ops @ [OpRelease r]) c \<longleftrightarrow>
     \<not> (isWellFormedEmergencyControlRelease r \<and> control_of r = c) \<and> in_force ops c"
  "in_force (ops @ [OpSimulate b]) c \<longleftrightarrow> in_force ops c"
  by (auto simp add: in_force_def)

lemma made_unavailable_simps [simp]:
  "\<not> made_unavailable []"
  "made_unavailable (ops @ [OpActivate d]) \<longleftrightarrow> made_unavailable ops"
  "made_unavailable (ops @ [OpRelease r]) \<longleftrightarrow> made_unavailable ops"
  "made_unavailable (ops @ [OpSimulate b]) \<longleftrightarrow> b"
  by (auto simp add: made_unavailable_def)

locale emergency_interlock =
  fixes ok :: "'s \<Rightarrow> bool"
    and stops :: "'s \<Rightarrow> emergency_scope_match set"
    and unreadable :: "'s \<Rightarrow> bool"
    and start :: 's
    and read :: "'s \<Rightarrow> js_value \<Rightarrow> emergency_assessment"
    and activate :: "'s \<Rightarrow> js_value \<Rightarrow> (js_error + unit) \<times> 's"
    and release :: "'s \<Rightarrow> js_value \<Rightarrow> (js_error + unit) \<times> 's"
    and simulate :: "'s \<Rightarrow> bool \<Rightarrow> 's"
  assumes start: "ok start" "stops start = {}" "\<not> unreadable start"
    and activate: "ok st \<Longrightarrow> activate st d = (out, st') \<Longrightarrow>
          ok st' \<and> unreadable st' = unreadable st \<and>
          (if isWellFormedEmergencyControlDeclaration d then out = Inr () \<and> stops st' = insert (control_of d) (stops st)
           else (\<exists>e. out = Inl (if d \<in> {JSUndefined, JSNull} then TypeError e else RangeError e)) \<and> st' = st)"
    and release: "ok st \<Longrightarrow> release st r = (out, st') \<Longrightarrow>
          ok st' \<and> unreadable st' = unreadable st \<and>
          (if isWellFormedEmergencyControlRelease r then out = Inr () \<and> stops st' = stops st - {control_of r}
           else (\<exists>e. out = Inl (if r \<in> {JSUndefined, JSNull} then TypeError e else RangeError e)) \<and> st' = st)"
    and simulate: "ok st \<Longrightarrow> ok (simulate st b) \<and> stops (simulate st b) = stops st \<and> unreadable (simulate st b) = b"
    and read: "ok st \<Longrightarrow> read st query =
          (if unreadable st \<or> \<not> isWellFormedEmergencyControlQuery query then emergencyControlUnavailable
           else case filter (\<lambda>c. c \<in> stops st) (applicableEmergencyControlScopes (query_of query)) of
             [] \<Rightarrow> EMERGENCY_CONTROL_CLEAR
           | m # ms \<Rightarrow> emergencyControlBlocked (map match_js (m # ms)))"
begin

fun step :: "'s \<Rightarrow> emergency_operation \<Rightarrow> 's" where
  "step st (OpActivate d) = snd (activate st d)"
| "step st (OpRelease r) = snd (release st r)"
| "step st (OpSimulate b) = simulate st b"

definition history :: "emergency_operation list \<Rightarrow> 's" where
  "history ops = foldl step start ops"

lemma history_simps [simp]: "history [] = start" "history (ops @ [op]) = step (history ops) op"
  by (simp_all add: history_def)

text \<open>The store refines the history itself: what is in force is what the operators last said.\<close>

lemma history_refines:
  "ok (history ops) \<and> stops (history ops) = {c. in_force ops c} \<and> unreadable (history ops) = made_unavailable ops"
proof (induction ops rule: rev_induct)
  case Nil
  then show ?case by (simp add: start)
next
  case (snoc op ops)
  then have ok: "ok (history ops)" by simp
  show ?case
  proof (cases op)
    case (OpActivate d)
    obtain out st' where o: "activate (history ops) d = (out, st')" by force
    show ?thesis using snoc activate [OF ok o] o OpActivate by (auto split: if_splits)
  next
    case (OpRelease r)
    obtain out st' where o: "release (history ops) r = (out, st')" by force
    show ?thesis using snoc release [OF ok o] o OpRelease by (auto split: if_splits)
  next
    case (OpSimulate b)
    show ?thesis using snoc simulate [OF ok, of b] OpSimulate by simp
  qed
qed

lemma history_read:
  "read (history ops) query =
     (if made_unavailable ops \<or> \<not> isWellFormedEmergencyControlQuery query then emergencyControlUnavailable
      else case filter (in_force ops) (applicableEmergencyControlScopes (query_of query)) of
        [] \<Rightarrow> EMERGENCY_CONTROL_CLEAR
      | m # ms \<Rightarrow> emergencyControlBlocked (map match_js (m # ms)))"
  using history_refines [of ops] by (simp add: read)

end

section \<open>The in-memory store keeps the contract\<close>

text \<open>A control that can be declared: a value exactly on the scopes that have one.\<close>

definition control_ok :: "emergency_scope_match \<Rightarrow> bool" where
  "control_ok m \<longleftrightarrow> (match_scope m = ScopeGlobal \<longleftrightarrow> match_value m = None)"

definition emergency_ok :: "emergency_store \<Rightarrow> bool" where
  "emergency_ok st \<longleftrightarrow> distinct (map fst (es_controls st)) \<and>
     list_all (\<lambda>(k, m). k = control_key m \<and> control_ok m) (es_controls st)"

lemma scope_name_no_colon [simp]: "CHR '':'' \<notin> set (scope_name s)"
  by (cases s) auto

lemma scope_name_inject [simp]: "scope_name s = scope_name s' \<longleftrightarrow> s = s'"
  by (cases s; cases s') auto

lemma global_key: "scope_name s @ CHR '':'' # v \<noteq> ''global''"
proof
  assume "scope_name s @ CHR '':'' # v = ''global''"
  then have "CHR '':'' \<in> set ''global''" by (metis in_set_conv_decomp)
  then show False by simp
qed

lemma control_key_inject:
  assumes "control_ok a" "control_ok b"
  shows "control_key a = control_key b \<longleftrightarrow> a = b"
proof
  assume same: "control_key a = control_key b"
  show "a = b"
  proof (cases "match_scope a = ScopeGlobal \<or> match_scope b = ScopeGlobal")
    case True
    then show ?thesis
      using same assms global_key [THEN not_sym] global_key
      by (cases a; cases b) (auto simp add: control_key_def emergencyControlKey_def control_ok_def split: if_splits)
  next
    case False
    then obtain u v where v: "match_value a = Some u" "match_value b = Some v"
      using assms by (auto simp add: control_ok_def)
    then have "scope_name (match_scope a) @ CHR '':'' # u = scope_name (match_scope b) @ CHR '':'' # v"
      using False same by (simp add: control_key_def emergencyControlKey_def)
    from append_sep_inject [OF scope_name_no_colon scope_name_no_colon this] show ?thesis
      using v by (cases a; cases b) simp
  qed
qed simp

lemma control_of_ok: "names_control v \<Longrightarrow> control_ok (control_of v)"
  by (cases "js_get v ''value''")
    (auto simp add: names_control_def control_of_def control_ok_def split: option.splits emergency_control_scope.splits)

lemma applicable_ok: "m \<in> set (applicableEmergencyControlScopes q) \<Longrightarrow> control_ok m"
  by (cases "eq_organizationId q"; cases "eq_actorId q"; cases "eq_workflowId q"; cases "eq_adapterId q"; cases "eq_resource q")
    (auto simp add: applicableEmergencyControlScopes_def control_ok_def)

lemma emergency_active_key:
  assumes "emergency_ok st" "control_ok m"
  shows "map_of (es_controls st) (control_key m) \<noteq> None \<longleftrightarrow> m \<in> set (emergency_active st)"
proof -
  have "\<And>k c. (k, c) \<in> set (es_controls st) \<Longrightarrow> k = control_key c \<and> control_ok c"
    using assms(1) by (auto simp add: emergency_ok_def list_all_iff)
  then show ?thesis
    using control_key_inject assms(2) by (force simp add: map_of_eq_None_iff emergency_active_def)
qed

lemma emergency_activate_law:
  assumes "emergency_ok st" "emergency_activate st d = (out, st')"
  shows "emergency_ok st' \<and> es_unavailable st' = es_unavailable st \<and>
    (if isWellFormedEmergencyControlDeclaration d
     then out = Inr () \<and> set (emergency_active st') = insert (control_of d) (set (emergency_active st))
     else (\<exists>e. out = Inl (if d \<in> {JSUndefined, JSNull} then TypeError e else RangeError e)) \<and> st' = st)"
proof (cases "isWellFormedEmergencyControlDeclaration d")
  case True
  then have c: "control_ok (control_of d)"
    by (simp add: isWellFormedEmergencyControlDeclaration_def control_of_ok)
  show ?thesis
  proof (cases "control_of d \<in> set (emergency_active st)")
    case active: True
    then show ?thesis
      using True emergency_active_key [OF assms(1) c] assms by (auto simp add: emergency_activate_def)
  next
    case new: False
    have none: "map_of (es_controls st) (control_key (control_of d)) = None"
      using new emergency_active_key [OF assms(1) c] by simp
    then have st': "out = Inr ()" "st' = st\<lparr>es_controls := es_controls st @ [(control_key (control_of d), control_of d)]\<rparr>"
      using True assms(2) by (auto simp add: emergency_activate_def update_new_key map_of_eq_None_iff)
    show ?thesis
      using True assms(1) c none st'
      by (auto simp add: emergency_ok_def emergency_active_def map_of_eq_None_iff image_iff)
  qed
next
  case False
  then show ?thesis using assms by (cases d) (auto simp add: emergency_activate_def)
qed

lemma emergency_release_law:
  assumes "emergency_ok st" "emergency_release st r = (out, st')"
  shows "emergency_ok st' \<and> es_unavailable st' = es_unavailable st \<and>
    (if isWellFormedEmergencyControlRelease r
     then out = Inr () \<and> set (emergency_active st') = set (emergency_active st) - {control_of r}
     else (\<exists>e. out = Inl (if r \<in> {JSUndefined, JSNull} then TypeError e else RangeError e)) \<and> st' = st)"
proof (cases "isWellFormedEmergencyControlRelease r")
  case True
  then have c: "control_ok (control_of r)"
    by (simp add: isWellFormedEmergencyControlRelease_def control_of_ok)
  have st': "out = Inr ()" "st' = st\<lparr>es_controls := AList.delete (control_key (control_of r)) (es_controls st)\<rparr>"
    using True assms(2) by (auto simp add: emergency_release_def)
  have keys: "\<And>k m. (k, m) \<in> set (es_controls st) \<Longrightarrow> k = control_key m \<and> control_ok m"
    using assms(1) by (auto simp add: emergency_ok_def list_all_iff)
  have "set (emergency_active st') = set (emergency_active st) - {control_of r}"
    using keys control_key_inject [OF _ c] by (force simp add: st' emergency_active_def AList.delete_eq)
  then show ?thesis
    using True st' assms(1) by (auto simp add: emergency_ok_def list_all_iff AList.delete_eq distinct_map_filter)
next
  case False
  then show ?thesis using assms by (cases r) (auto simp add: emergency_release_def)
qed

lemma emergency_read_law:
  assumes "emergency_ok st"
  shows "emergency_read st query =
    (if es_unavailable st \<or> \<not> isWellFormedEmergencyControlQuery query then emergencyControlUnavailable
     else case filter (\<lambda>c. c \<in> set (emergency_active st)) (applicableEmergencyControlScopes (query_of query)) of
       [] \<Rightarrow> EMERGENCY_CONTROL_CLEAR
     | m # ms \<Rightarrow> emergencyControlBlocked (map match_js (m # ms)))"
proof -
  have "filter (\<lambda>m. map_of (es_controls st) (control_key m) \<noteq> None) (applicableEmergencyControlScopes (query_of query)) =
      filter (\<lambda>c. c \<in> set (emergency_active st)) (applicableEmergencyControlScopes (query_of query))"
    using emergency_active_key [OF assms] applicable_ok by (intro filter_cong) auto
  then show ?thesis by (simp add: emergency_read_def Let_def split: list.split)
qed

interpretation stop: emergency_interlock emergency_ok "\<lambda>st. set (emergency_active st)" es_unavailable
  empty_emergency_store emergency_read emergency_activate emergency_release emergency_simulateUnavailable
proof (unfold_locales, goal_cases)
  case (4 st d out st')
  then show ?case by (rule emergency_activate_law)
next
  case (5 st r out st')
  then show ?case by (rule emergency_release_law)
next
  case (7 st query)
  then show ?case by (rule emergency_read_law)
qed (simp_all add: emergency_ok_def emergency_active_def empty_emergency_store_def emergency_simulateUnavailable_def)

section \<open>Histories of the in-memory store\<close>

fun emergency_step :: "emergency_store \<Rightarrow> emergency_operation \<Rightarrow> emergency_store" where
  "emergency_step st (OpActivate d) = snd (emergency_activate st d)"
| "emergency_step st (OpRelease r) = snd (emergency_release st r)"
| "emergency_step st (OpSimulate b) = emergency_simulateUnavailable st b"

definition emergency_run :: "emergency_operation list \<Rightarrow> emergency_store" where
  "emergency_run ops = foldl emergency_step empty_emergency_store ops"

lemma emergency_run_history: "emergency_run ops = stop.history ops"
proof -
  have "emergency_step = stop.step" by (intro ext) (metis emergency_step.simps stop.step.simps emergency_operation.exhaust)
  then show ?thesis by (simp add: emergency_run_def stop.history_def)
qed

text \<open>A read through the capability loses nothing of what the store answers.\<close>

lemma read_memory: "readEmergencyControl (Some (memory_reader st)) query = emergency_read st query"
  by (simp add: readEmergencyControl_def memory_reader_def createEmergencyControlReader_def emergency_read_def Let_def
    EMERGENCY_CONTROL_CLEAR_def emergencyControlUnavailable_def emergencyControlBlocked_def)

section \<open>Properties\<close>

text \<open>
  C32: Over every sequence of declarations, releases and simulated outages, well formed or not, the
  in-memory store refines the history itself.  A read through the read capability answers
  unavailable after an outage or for a malformed query; otherwise it is blocked, naming exactly
  the applicable controls whose last accepted operation was an activation, and clear when there
  are none.  A malformed declaration or release throws, a type error if it is
  \<open>null\<close> or \<open>undefined\<close> and a range error otherwise, and changes nothing.
\<close>

theorem emergency_store_refines:
  "readEmergencyControl (Some (memory_reader (emergency_run ops))) query =
     (if isWellFormedEmergencyControlQuery query \<and> \<not> made_unavailable ops
      then case filter (in_force ops) (applicableEmergencyControlScopes (query_of query)) of
        [] \<Rightarrow> EMERGENCY_CONTROL_CLEAR
      | m # ms \<Rightarrow> emergencyControlBlocked (map match_js (m # ms))
      else emergencyControlUnavailable) \<and>
   set (emergency_active (emergency_run ops)) = {c. in_force ops c} \<and>
   (case emergency_activate (emergency_run ops) v of (out, st') \<Rightarrow>
      if isWellFormedEmergencyControlDeclaration v then out = Inr ()
      else (\<exists>e. out = Inl (if v \<in> {JSUndefined, JSNull} then TypeError e else RangeError e)) \<and> st' = emergency_run ops) \<and>
   (case emergency_release (emergency_run ops) v of (out, st') \<Rightarrow>
      if isWellFormedEmergencyControlRelease v then out = Inr ()
      else (\<exists>e. out = Inl (if v \<in> {JSUndefined, JSNull} then TypeError e else RangeError e)) \<and> st' = emergency_run ops)"
proof -
  note run = emergency_run_history [of ops] stop.history_refines [of ops]
  have ok: "emergency_ok (emergency_run ops)" using run by simp
  show ?thesis
    using stop.history_read [of ops query] run emergency_activate_law [OF ok, of v] emergency_release_law [OF ok, of v]
    by (auto simp add: read_memory split: prod.splits if_splits)
qed

text \<open>
  The one reading of the interlock fails closed.  Execution may proceed exactly when no
  interlock is composed or the composed reader answers an object whose state is clear; a throw, a
  value that is no object, and every other state withhold.  Whatever the reader answered, an
  assessment that withholds names exactly one reason of the closed vocabulary, and so does the
  signal built from it.
\<close>

theorem emergency_read_fails_closed:
  "(emergencyControlPermits (readEmergencyControl reader query) \<longleftrightarrow>
      (case reader of None \<Rightarrow> True
       | Some read \<Rightarrow> \<exists>v. read query = Inr v \<and> js_is_object v \<and> js_get v ''state'' = JSString ''clear'')) \<and>
   (if emergencyControlPermits (readEmergencyControl reader query)
    then readEmergencyControl reader query = EMERGENCY_CONTROL_CLEAR
    else emergency_codes (readEmergencyControl reader query) \<in> {[EMERGENCY_CONTROL_ACTIVE], [EMERGENCY_CONTROL_UNAVAILABLE]} \<and>
      ew_reasonCodes (EmergencyControlWithheldError (readEmergencyControl reader query)) =
        emergency_codes (readEmergencyControl reader query))"
  by (auto simp add: readEmergencyControl_def EMERGENCY_CONTROL_CLEAR_def emergencyControlUnavailable_def
    emergencyControlBlocked_def EmergencyControlWithheldError_def split: option.split sum.split)

end
