(* ===== verification/Exercise_Assessment.thy ===== *)
theory Exercise_Assessment
  imports Emergency_Control
begin

text \<open>
  What an attempt is measured against before anything runs: \<open>execution-runtime/domain/\<close>
  \<open>exercise-reason-codes.ts\<close>, \<open>grant-exercise-request.ts\<close> and \<open>grant-exercise-assessment.ts\<close>.
  A request is the typed snapshot the service takes; the reading of a caller's object into it is
  not modelled.  The assessment is shown to be exactly the containment of the attempt in the
  grant, axis by axis, and to imply that the grant's scope admits the attempt.
\<close>

section \<open>Requests\<close>

datatype exercise_reason_code =
    GRANT_EXERCISE_REQUEST_MALFORMED
  | GRANT_EXERCISE_NOT_FOUND
  | GRANT_EXERCISE_INTEGRITY_INVALID
  | GRANT_EXERCISE_EXPIRED
  | GRANT_EXERCISE_REVOKED
  | GRANT_EXERCISE_SUBJECT_MISMATCH
  | GRANT_EXERCISE_CORRELATION_INVALID
  | GRANT_EXERCISE_ACTION_OUT_OF_SCOPE
  | GRANT_EXERCISE_RESOURCE_OUT_OF_SCOPE
  | GRANT_EXERCISE_COUNTERPARTY_OUT_OF_SCOPE
  | GRANT_EXERCISE_ORGANIZATION_OUT_OF_SCOPE
  | GRANT_EXERCISE_AMOUNT_EXCEEDED
  | GRANT_EXERCISE_GOVERNANCE_PROFILE_MISMATCH
  | GRANT_EXERCISE_PARAMETER_OUT_OF_SCOPE
  | GRANT_EXERCISE_SEMANTIC_CLASS_MISMATCH

record grant_exercise_request =
  er_boundedGrantId :: string
  er_subject :: string
  er_action :: string
  er_resource :: string
  er_counterparty :: "string option"
  er_organization :: "string option"
  er_amount :: "monetary_amount option"
  er_governanceProfile :: "string option"
  er_actionClass :: "string option"
  er_resourceClass :: "string option"
  er_parameters :: "governed_parameter list option"
  er_correlation :: grant_correlation
  er_executionId :: string

definition isWellFormedGrantExerciseAmount :: "monetary_amount \<Rightarrow> bool" where
  "isWellFormedGrantExerciseAmount amount = isWellFormedMonetaryAmount (amount_js amount)"

definition isWellFormedExerciseParameters :: "governed_parameter list \<Rightarrow> bool" where
  "isWellFormedExerciseParameters ps \<longleftrightarrow>
     length ps \<noteq> 0 \<and>
     list_all (\<lambda>i. isWellFormedGovernedParameter (ps ! i) \<and>
       (i = 0 \<or> compareDimensionIds (dimension (ps ! (i - 1))) (dimension (ps ! i)) < 0)) [0..<length ps]"

fun stated_text_ok :: "string option \<Rightarrow> bool" where
  "stated_text_ok None = True"
| "stated_text_ok (Some s) = (length s \<noteq> 0)"

definition isWellFormedGrantExerciseRequest :: "grant_exercise_request \<Rightarrow> bool" where
  "isWellFormedGrantExerciseRequest r =
     (if length (er_boundedGrantId r) = 0 then False
      else if length (er_subject r) = 0 then False
      else if length (er_action r) = 0 then False
      else if length (er_resource r) = 0 then False
      else if length (er_executionId r) = 0 then False
      else if \<not> stated_text_ok (er_counterparty r) then False
      else if \<not> stated_text_ok (er_organization r) then False
      else if (case er_amount r of None \<Rightarrow> False | Some a \<Rightarrow> \<not> isWellFormedGrantExerciseAmount a) then False
      else if \<not> stated_text_ok (er_governanceProfile r) then False
      else if \<not> stated_text_ok (er_actionClass r) then False
      else if \<not> stated_text_ok (er_resourceClass r) then False
      else if (case er_parameters r of None \<Rightarrow> False | Some ps \<Rightarrow> \<not> isWellFormedExerciseParameters ps) then False
      else isWellFormedGrantCorrelation (er_correlation r))"

section \<open>The assessment\<close>

record bounded_grant_exercise_assessment =
  usable :: bool
  as_reasonCodes :: "exercise_reason_code list"
  as_boundedGrantId :: string
  as_correlation :: grant_correlation
  as_executionId :: string

definition assessed ::
  "grant_exercise_request \<Rightarrow> exercise_reason_code list \<Rightarrow> bounded_grant_exercise_assessment" where
  "assessed r codes =
     \<lparr>usable = (codes = []), as_reasonCodes = codes, as_boundedGrantId = er_boundedGrantId r,
      as_correlation = er_correlation r, as_executionId = er_executionId r\<rparr>"

fun attemptIsWithin :: "platform \<Rightarrow> grant_bound option \<Rightarrow> grant_bound option \<Rightarrow> bool" where
  "attemptIsWithin P (Some granted) (Some attempted) =
     grantBoundComparisonPermits (compareGrantBound P granted attempted)"
| "attemptIsWithin P _ _ = False"

definition axisAgrees :: "platform \<Rightarrow> grant_bound option \<Rightarrow> grant_bound option \<Rightarrow> bool" where
  "axisAgrees P granted attempted =
     (if granted = None \<and> attempted = None then True else attemptIsWithin P granted attempted)"

definition parametersAgree :: "grant_parameter_bound list option \<Rightarrow> governed_parameter list option \<Rightarrow> bool" where
  "parametersAgree granted attempted =
     (case (granted, attempted) of
        (None, None) \<Rightarrow> True
      | (Some bounds, Some ps) \<Rightarrow>
          length ps = length bounds \<and>
          list_all (\<lambda>p. case grantParameterBound granted (dimension p) of None \<Rightarrow> False
            | Some e \<Rightarrow> governedParameterBoundAdmits (pb_bound e) (param_value p)) ps
      | _ \<Rightarrow> False)"

definition identity_attempt :: "string option \<Rightarrow> grant_bound option" where
  "identity_attempt v = map_option IdentityBound v"

definition amount_attempt :: "monetary_amount option \<Rightarrow> grant_bound option" where
  "amount_attempt a = map_option (\<lambda>a. CeilingBound (amount_value a) (amount_unit a)) a"

text \<open>Steps 1 to 5: the grant itself, its holder and its correlation.\<close>

definition standing_codes ::
  "platform \<Rightarrow> bounded_grant \<Rightarrow> grant_revocation option \<Rightarrow> grant_exercise_request \<Rightarrow> string
     \<Rightarrow> exercise_reason_code list" where
  "standing_codes P grant revocation r instant_text =
     (if \<not> boundedGrantDigestMatches P grant \<or> \<not> isWellFormedBoundedGrantSemantics grant
      then [GRANT_EXERCISE_INTEGRITY_INVALID] else []) @
     (if revocation \<noteq> None then [GRANT_EXERCISE_REVOKED] else []) @
     (case (Date_parse P (g_expiresAt grant), Date_parse P instant_text) of
        (Some expiry, Some now) \<Rightarrow> if now \<ge> expiry then [GRANT_EXERCISE_EXPIRED] else []
      | _ \<Rightarrow> [GRANT_EXERCISE_EXPIRED]) @
     (if er_subject r \<noteq> g_subject grant then [GRANT_EXERCISE_SUBJECT_MISMATCH] else []) @
     (if \<not> grantCorrelationMatches (g_correlation grant) (er_correlation r)
      then [GRANT_EXERCISE_CORRELATION_INVALID] else [])"

text \<open>Steps 6 to 12: the attempt against the bounds, every axis reported.\<close>

definition containment_codes ::
  "platform \<Rightarrow> grant_scope \<Rightarrow> grant_exercise_request \<Rightarrow> exercise_reason_code list" where
  "containment_codes P scope r =
     (if \<not> attemptIsWithin P (axes scope KAction) (Some (IdentityBound (er_action r)))
      then [GRANT_EXERCISE_ACTION_OUT_OF_SCOPE] else []) @
     (if \<not> attemptIsWithin P (axes scope KResources) (Some (SetBound [er_resource r]))
      then [GRANT_EXERCISE_RESOURCE_OUT_OF_SCOPE] else []) @
     (if \<not> axisAgrees P (axes scope KCounterparty) (identity_attempt (er_counterparty r))
      then [GRANT_EXERCISE_COUNTERPARTY_OUT_OF_SCOPE] else []) @
     (if \<not> axisAgrees P (axes scope KOrganization) (identity_attempt (er_organization r))
      then [GRANT_EXERCISE_ORGANIZATION_OUT_OF_SCOPE] else []) @
     (if \<not> axisAgrees P (axes scope KAmount) (amount_attempt (er_amount r))
      then [GRANT_EXERCISE_AMOUNT_EXCEEDED] else []) @
     (if \<not> axisAgrees P (axes scope KGovernanceProfile) (identity_attempt (er_governanceProfile r))
      then [GRANT_EXERCISE_GOVERNANCE_PROFILE_MISMATCH] else []) @
     (if \<not> axisAgrees P (axes scope KActionClass) (identity_attempt (er_actionClass r)) \<or>
         \<not> axisAgrees P (axes scope KResourceClass) (identity_attempt (er_resourceClass r))
      then [GRANT_EXERCISE_SEMANTIC_CLASS_MISMATCH] else []) @
     (if \<not> parametersAgree (parameters scope) (er_parameters r)
      then [GRANT_EXERCISE_PARAMETER_OUT_OF_SCOPE] else [])"

definition assessBoundedGrantExercise ::
  "platform \<Rightarrow> bounded_grant \<Rightarrow> grant_revocation option \<Rightarrow> grant_exercise_request \<Rightarrow> string
     \<Rightarrow> bounded_grant_exercise_assessment" where
  "assessBoundedGrantExercise P grant revocation r instant_text =
     (if \<not> isWellFormedGrantExerciseRequest r then assessed r [GRANT_EXERCISE_REQUEST_MALFORMED]
      else assessed r (standing_codes P grant revocation r instant_text @ containment_codes P (g_scope grant) r))"

section \<open>What an attempt is, axis by axis\<close>

text \<open>The values an attempt states, and the one each axis is asked to admit.\<close>

definition stated_axis :: "grant_exercise_request \<Rightarrow> grant_bound_key \<Rightarrow> axis_attempt option" where
  "stated_axis r key =
     (case key of
        KAction \<Rightarrow> Some (AttemptValue (er_action r))
      | KResources \<Rightarrow> Some (AttemptValue (er_resource r))
      | KCounterparty \<Rightarrow> map_option AttemptValue (er_counterparty r)
      | KOrganization \<Rightarrow> map_option AttemptValue (er_organization r)
      | KGovernanceProfile \<Rightarrow> map_option AttemptValue (er_governanceProfile r)
      | KActionClass \<Rightarrow> map_option AttemptValue (er_actionClass r)
      | KResourceClass \<Rightarrow> map_option AttemptValue (er_resourceClass r)
      | KAmount \<Rightarrow> map_option (\<lambda>a. AttemptAmount (amount_unit a) (decimal_quantity (amount_value a))) (er_amount r))"

definition stated_parameter :: "grant_exercise_request \<Rightarrow> string \<Rightarrow> governed_parameter_value option" where
  "stated_parameter r d = map_option param_value (find (\<lambda>p. dimension p = d) (option_list (er_parameters r)))"

text \<open>The attempt as the scopes see it; the two fillers stand for what is not stated.\<close>

definition attempt_of :: "grant_exercise_request \<Rightarrow> attempt" where
  "attempt_of r =
     \<lparr>at_axis = (\<lambda>key. case stated_axis r key of Some v \<Rightarrow> v | None \<Rightarrow> AttemptInstant 0),
      at_parameter = (\<lambda>d. case stated_parameter r d of Some v \<Rightarrow> v | None \<Rightarrow> BooleanValue False)\<rparr>"

text \<open>
  The contract: a bound of the axis's own kind for every stated value and a stated value for every
  bound, each admitted; likewise for the parameters.
\<close>

definition axis_covered :: "platform \<Rightarrow> grant_scope \<Rightarrow> grant_exercise_request \<Rightarrow> grant_bound_key \<Rightarrow> bool" where
  "axis_covered P scope r key =
     (case (axes scope key, stated_axis r key) of
        (None, None) \<Rightarrow> True
      | (Some b, Some v) \<Rightarrow>
          isWellFormedGrantBound P b \<and> bound_kind b = GRANT_BOUND_KINDS_BY_KEY key \<and> grant_bound_admits P b v
      | _ \<Rightarrow> False)"

definition parameters_covered :: "grant_scope \<Rightarrow> grant_exercise_request \<Rightarrow> bool" where
  "parameters_covered scope r \<longleftrightarrow>
     (parameters scope = None \<longleftrightarrow> er_parameters r = None) \<and>
     distinct (map pb_dimension (option_list (parameters scope))) \<and>
     (\<forall>d. case (grantParameterBound (parameters scope) d, stated_parameter r d) of
        (None, None) \<Rightarrow> True
      | (Some e, Some v) \<Rightarrow> governedParameterBoundAdmits (pb_bound e) v
      | _ \<Rightarrow> False)"

definition covers_attempt :: "platform \<Rightarrow> grant_scope \<Rightarrow> grant_exercise_request \<Rightarrow> bool" where
  "covers_attempt P scope r \<longleftrightarrow>
     list_all (axis_covered P scope r) GRANT_BOUND_KEYS \<and> parameters_covered scope r"

definition grant_stands :: "platform \<Rightarrow> bounded_grant \<Rightarrow> grant_revocation option \<Rightarrow> string \<Rightarrow> bool" where
  "grant_stands P grant revocation instant_text \<longleftrightarrow>
     exercisable (assessGrantExercise P grant revocation instant_text)"

lemma permits_identity:
  "grantBoundComparisonPermits (compareGrantBound P b (IdentityBound v)) \<longleftrightarrow>
     isWellFormedGrantBound P b \<and> v \<noteq> [] \<and> bound_kind b = IdentityKind \<and> grant_bound_admits P b (AttemptValue v)"
  by (cases b) (auto simp add: compareGrantBound_def grantBoundComparisonPermits_def)

lemma permits_resource:
  "grantBoundComparisonPermits (compareGrantBound P b (SetBound [v])) \<longleftrightarrow>
     isWellFormedGrantBound P b \<and> v \<noteq> [] \<and> bound_kind b = SetKind \<and> grant_bound_admits P b (AttemptValue v)"
  by (cases b)
    (auto simp add: compareGrantBound_def grantBoundComparisonPermits_def Let_def set_canonicalGrantSetValues list_all_iff)

lemma permits_amount:
  "grantBoundComparisonPermits (compareGrantBound P b (CeilingBound l u)) \<longleftrightarrow>
     isWellFormedGrantBound P b \<and> isWellFormedGrantBound P (CeilingBound l u) \<and> bound_kind b = CeilingKind \<and>
     grant_bound_admits P b (AttemptAmount u (decimal_quantity l))"
proof (cases "isWellFormedGrantBound P b \<and> isWellFormedGrantBound P (CeilingBound l u) \<and> bound_kind b = CeilingKind")
  case True
  then obtain l' u' where b: "b = CeilingBound l' u'" by (cases b) auto
  then show ?thesis
    using True compare_ceiling [of P l' u' l u]
    by (auto simp add: grantBoundComparisonPermits_def simp del: isWellFormedGrantBound.simps split: if_splits)
next
  case False
  then have "compareGrantBound P b (CeilingBound l u) = IncomparableBound"
    using compare_grant_wf(3) [of P b "CeilingBound l u"] compare_grant_malformed [of P b "CeilingBound l u"] by fastforce
  then show ?thesis using False by (auto simp add: grantBoundComparisonPermits_def simp del: isWellFormedGrantBound.simps)
qed

lemmas axis_permits = permits_identity permits_resource permits_amount

lemma exercise_parameters_distinct:
  assumes "isWellFormedExerciseParameters ps"
  shows "distinct (map dimension ps)"
proof -
  have "\<forall>i < length ps. i = 0 \<or> dimension (ps ! (i - 1)) < dimension (ps ! i)"
    using assms by (simp add: isWellFormedExerciseParameters_def list_all_iff)
  then have "\<forall>i. Suc i < length ps \<longrightarrow> dimension (ps ! i) < dimension (ps ! Suc i)"
    using consecutive_index [of "length ps" "\<lambda>a b. dimension (ps ! a) < dimension (ps ! b)"] by blast
  then have "sorted_wrt (<) (map dimension ps)"
    by (subst sorted_wrt_iff_nth_Suc_transp) (auto simp add: transp_def)
  then show ?thesis using strict_sorted_iff by blast
qed

lemma find_parameter:
  assumes "distinct (map dimension ps)"
  shows "find (\<lambda>p. dimension p = d) ps = Some p \<longleftrightarrow> p \<in> set ps \<and> dimension p = d"
  using assms by (induction ps) auto

text \<open>As many distinct dimensions as bounds, each bounded: exactly the bounded dimensions.\<close>

lemma same_dimensions:
  assumes "distinct xs" "set xs \<subseteq> set ys" "length xs = length ys"
  shows "distinct ys \<and> set xs = set ys"
proof -
  have "card (set xs) = length ys" using assms distinct_card by metis
  moreover have "card (set xs) \<le> card (set ys)" using assms(2) by (simp add: card_mono)
  ultimately have "card (set ys) = length ys" using card_length [of ys] by simp
  then show ?thesis using assms card_distinct card_subset_eq [of "set ys" "set xs"] distinct_card by fastforce
qed

lemma parameters_agree_covered:
  assumes "er_parameters r = Some ps" "isWellFormedExerciseParameters ps" "parameters scope = Some bs"
  shows "parametersAgree (parameters scope) (er_parameters r) \<longleftrightarrow> parameters_covered scope r"
proof -
  note dist = exercise_parameters_distinct [OF assms(2)]
  have stated: "stated_parameter r d = Some v \<longleftrightarrow> (\<exists>p \<in> set ps. dimension p = d \<and> param_value p = v)" for d v
    using find_parameter [OF dist] assms(1) by (auto simp add: stated_parameter_def option_list_def)
  have none: "stated_parameter r d = None \<longleftrightarrow> d \<notin> dimension ` set ps" for d
    using assms(1) by (auto simp add: stated_parameter_def option_list_def find_None_iff)
  have opts: "option_list (parameters scope) = bs" using assms(3) by (simp add: option_list_def)
  show ?thesis
  proof
    assume agree: "parametersAgree (parameters scope) (er_parameters r)"
    then have len: "length ps = length bs"
      and each: "\<And>p. p \<in> set ps \<Longrightarrow> \<exists>e. grantParameterBound (Some bs) (dimension p) = Some e \<and>
        governedParameterBoundAdmits (pb_bound e) (param_value p)"
      using assms by (auto simp add: parametersAgree_def list_all_iff split: option.splits)
    have "set (map dimension ps) \<subseteq> set (map pb_dimension bs)"
    proof
      fix d assume "d \<in> set (map dimension ps)"
      then obtain p where "p \<in> set ps" "d = dimension p" by auto
      then have "grantParameterBound (Some bs) d \<noteq> None" using each by fastforce
      then show "d \<in> set (map pb_dimension bs)" by (simp add: grantParameterBound_None_iff)
    qed
    then have same: "distinct (map pb_dimension bs)" "dimension ` set ps = pb_dimension ` set bs"
      using same_dimensions [OF dist, of "map pb_dimension bs"] len by simp_all
    have "case (grantParameterBound (parameters scope) d, stated_parameter r d) of
        (None, None) \<Rightarrow> True | (Some e, Some v) \<Rightarrow> governedParameterBoundAdmits (pb_bound e) v | _ \<Rightarrow> False" for d
    proof (cases "d \<in> dimension ` set ps")
      case True
      then obtain p where p: "p \<in> set ps" "dimension p = d" by blast
      then show ?thesis using each [OF p(1)] stated [of d "param_value p"] assms(3) by auto
    next
      case False
      then show ?thesis using none [of d] same(2) grantParameterBound_None_iff [of bs d] assms(3) by auto
    qed
    then show "parameters_covered scope r" using assms opts same(1) by (simp add: parameters_covered_def)
  next
    assume cov: "parameters_covered scope r"
    then have pair: "case (grantParameterBound (Some bs) d, stated_parameter r d) of
        (None, None) \<Rightarrow> True | (Some e, Some v) \<Rightarrow> governedParameterBoundAdmits (pb_bound e) v | _ \<Rightarrow> False" for d
      unfolding parameters_covered_def assms(3) by blast
    have dims: "grantParameterBound (Some bs) d = None \<longleftrightarrow> stated_parameter r d = None" for d
      using pair [of d] by (cases "grantParameterBound (Some bs) d"; cases "stated_parameter r d") simp_all
    have "d \<in> dimension ` set ps \<longleftrightarrow> d \<in> pb_dimension ` set bs" for d
      using dims [of d] none [of d] grantParameterBound_None_iff [of bs d] by argo
    then have "dimension ` set ps = pb_dimension ` set bs" by blast
    moreover have "distinct (map pb_dimension bs)" using cov opts by (simp add: parameters_covered_def)
    ultimately have len: "length ps = length bs"
      using dist distinct_card [of "map dimension ps"] distinct_card [of "map pb_dimension bs"] by simp
    have "case grantParameterBound (Some bs) (dimension p) of None \<Rightarrow> False
        | Some e \<Rightarrow> governedParameterBoundAdmits (pb_bound e) (param_value p)" if "p \<in> set ps" for p
      using pair [of "dimension p"] stated [of "dimension p" "param_value p"] that
      by (cases "grantParameterBound (Some bs) (dimension p)") auto
    then show "parametersAgree (parameters scope) (er_parameters r)"
      using len assms by (simp add: parametersAgree_def list_all_iff)
  qed
qed

lemma parametersAgree_iff:
  assumes "isWellFormedGrantExerciseRequest r"
  shows "parametersAgree (parameters scope) (er_parameters r) \<longleftrightarrow> parameters_covered scope r"
proof (cases "er_parameters r")
  case None
  then show ?thesis
    by (cases "parameters scope")
      (auto simp add: parametersAgree_def parameters_covered_def stated_parameter_def option_list_def grantParameterBound_def)
next
  case (Some ps)
  then have "isWellFormedExerciseParameters ps"
    using assms by (auto simp add: isWellFormedGrantExerciseRequest_def split: if_splits)
  then show ?thesis
    using Some parameters_agree_covered
    by (cases "parameters scope") (auto simp add: parametersAgree_def parameters_covered_def)
qed

section \<open>The assessment is containment\<close>

lemma optional_identity_covered:
  assumes "stated_text_ok v" "GRANT_BOUND_KINDS_BY_KEY key = IdentityKind" "stated_axis r key = map_option AttemptValue v"
  shows "axisAgrees P (axes scope key) (identity_attempt v) \<longleftrightarrow> axis_covered P scope r key"
  using assms
  by (cases "axes scope key"; cases v)
    (auto simp add: axisAgrees_def identity_attempt_def axis_covered_def permits_identity)

lemma containment_exact:
  assumes "isWellFormedGrantExerciseRequest r"
  shows "containment_codes P scope r = [] \<longleftrightarrow> covers_attempt P scope r"
proof -
  have wf: "er_action r \<noteq> []" "er_resource r \<noteq> []" "stated_text_ok (er_counterparty r)"
    "stated_text_ok (er_organization r)" "stated_text_ok (er_governanceProfile r)" "stated_text_ok (er_actionClass r)"
    "stated_text_ok (er_resourceClass r)"
    using assms by (auto simp add: isWellFormedGrantExerciseRequest_def split: if_splits)
  have amount: "isWellFormedGrantBound P (CeilingBound (amount_value a) (amount_unit a))" if "er_amount r = Some a" for a
    using assms that
    by (cases a) (auto simp add: isWellFormedGrantExerciseRequest_def isWellFormedGrantExerciseAmount_def split: if_splits)
  have "attemptIsWithin P (axes scope KAction) (Some (IdentityBound (er_action r))) \<longleftrightarrow> axis_covered P scope r KAction"
    using wf by (cases "axes scope KAction") (auto simp add: axis_covered_def stated_axis_def permits_identity)
  moreover have "attemptIsWithin P (axes scope KResources) (Some (SetBound [er_resource r])) \<longleftrightarrow>
      axis_covered P scope r KResources"
    using wf by (cases "axes scope KResources") (auto simp add: axis_covered_def stated_axis_def permits_resource)
  moreover have "axisAgrees P (axes scope KAmount) (amount_attempt (er_amount r)) \<longleftrightarrow> axis_covered P scope r KAmount"
    using amount
    by (cases "axes scope KAmount"; cases "er_amount r")
      (auto simp add: axis_covered_def stated_axis_def axisAgrees_def amount_attempt_def permits_amount
        simp del: isWellFormedGrantBound.simps)
  moreover note optional_identity_covered [OF wf(3), of KCounterparty r P scope]
    optional_identity_covered [OF wf(4), of KOrganization r P scope]
    optional_identity_covered [OF wf(5), of KGovernanceProfile r P scope]
    optional_identity_covered [OF wf(6), of KActionClass r P scope]
    optional_identity_covered [OF wf(7), of KResourceClass r P scope]
    parametersAgree_iff [OF assms, of scope]
  ultimately show ?thesis
    by (auto simp add: containment_codes_def covers_attempt_def GRANT_BOUND_KEYS_def stated_axis_def)
qed

lemma standing_exact:
  "standing_codes P grant revocation r instant_text = [] \<longleftrightarrow>
     grant_stands P grant revocation instant_text \<and> er_subject r = g_subject grant \<and>
     grantCorrelationMatches (g_correlation grant) (er_correlation r)"
  by (auto simp add: standing_codes_def grant_stands_def assessGrantExercise_def Let_def split: option.splits if_splits)

lemma usable_iff:
  "usable (assessBoundedGrantExercise P grant revocation r instant_text) \<longleftrightarrow>
     isWellFormedGrantExerciseRequest r \<and> grant_stands P grant revocation instant_text \<and>
     er_subject r = g_subject grant \<and> g_correlation grant = er_correlation r \<and> covers_attempt P (g_scope grant) r"
proof -
  have "grantCorrelationMatches c c' \<longleftrightarrow> c = c'" for c c'
    by (cases c; cases c') (simp add: grantCorrelationMatches_def)
  then show ?thesis
    using standing_exact [of P grant revocation r instant_text] containment_exact [of r P "g_scope grant"]
    by (auto simp add: assessBoundedGrantExercise_def assessed_def)
qed

lemma covers_admits:
  assumes "covers_attempt P scope r"
  shows "scope_admits P scope (attempt_of r)"
proof -
  have "case axes scope key of None \<Rightarrow> True | Some b \<Rightarrow> grant_bound_admits P b (at_axis (attempt_of r) key)"
    if "key \<in> set GRANT_BOUND_KEYS" for key
  proof -
    have "axis_covered P scope r key" using assms that by (simp add: covers_attempt_def list_all_iff)
    then show ?thesis
      by (cases "axes scope key"; cases "stated_axis r key") (auto simp add: axis_covered_def attempt_of_def)
  qed
  moreover have "governedParameterBoundAdmits (pb_bound e) (at_parameter (attempt_of r) (pb_dimension e))"
    if e: "e \<in> set (option_list (parameters scope))" for e
  proof -
    obtain bs where bs: "parameters scope = Some bs" "e \<in> set bs"
      using e by (cases "parameters scope") (auto simp add: option_list_def)
    have cov: "parameters_covered scope r" using assms by (simp add: covers_attempt_def)
    then have "distinct (map pb_dimension bs)" using bs(1) by (simp add: parameters_covered_def option_list_def)
    then have "grantParameterBound (Some bs) (pb_dimension e) = Some e" using bs(2) grantParameterBound_iff by blast
    moreover have "case (grantParameterBound (Some bs) (pb_dimension e), stated_parameter r (pb_dimension e)) of
        (None, None) \<Rightarrow> True | (Some e, Some v) \<Rightarrow> governedParameterBoundAdmits (pb_bound e) v | _ \<Rightarrow> False"
      using cov unfolding parameters_covered_def bs(1) by blast
    ultimately show ?thesis by (cases "stated_parameter r (pb_dimension e)") (simp_all add: attempt_of_def)
  qed
  ultimately show ?thesis by (simp add: scope_admits_def list_all_iff)
qed

section \<open>Properties\<close>

text \<open>
  An attempt is usable exactly when the request states its fields, the grant stands at the
  instant (its digest and marker agree, no revocation, not expired), the holder and the four
  correlation fields are the same, and the grant covers the attempt: every axis and dimension is
  bounded and stated, or neither, and the stated value is admitted by the bound.  A refusal names
  a reason, and the assessment always names the attempt it was made of.
\<close>

theorem attempt_usable_exact:
  "(usable (assessBoundedGrantExercise P grant revocation r instant_text) \<longleftrightarrow>
      isWellFormedGrantExerciseRequest r \<and> grant_stands P grant revocation instant_text \<and>
      er_subject r = g_subject grant \<and> g_correlation grant = er_correlation r \<and> covers_attempt P (g_scope grant) r) \<and>
   (usable (assessBoundedGrantExercise P grant revocation r instant_text) \<longleftrightarrow>
      as_reasonCodes (assessBoundedGrantExercise P grant revocation r instant_text) = []) \<and>
   as_executionId (assessBoundedGrantExercise P grant revocation r instant_text) = er_executionId r"
  using usable_iff [of P grant revocation r instant_text] by (auto simp add: assessBoundedGrantExercise_def assessed_def)

end
