(* ===== verification/Execution_Adapters.thy ===== *)
theory Execution_Adapters
  imports Exercise_Assessment
begin

text \<open>
  The provider boundary: \<open>execution-runtime/domain/execution-adapter-port.ts\<close>,
  \<open>provider-certainty.ts\<close>, \<open>provider-reference.ts\<close> and \<open>services/execution-adapter-registry.ts\<close>.
  Adapters, the host's routing and the interlock are functions of a world of which nothing is
  known, so that they may change it and answer differently each time; an adapter answers a value,
  throws, or answers a value that throws when it is read.
\<close>

section \<open>Validated actions\<close>

record validated_execution_correlation =
  vc_requestId :: string
  vc_decisionId :: string
  vc_executionId :: string

record validated_execution_action =
  va_boundedGrantId :: string
  va_subject :: string
  va_action :: string
  va_resource :: string
  va_counterparty :: "string option"
  va_organization :: "string option"
  va_amount :: "monetary_amount option"
  va_parameters :: "governed_parameter list option"
  va_notAfter :: string
  va_correlation :: validated_execution_correlation

section \<open>What an adapter reports\<close>

datatype execution_failure_reason =
  PROVIDER_REJECTED | PROVIDER_UNAVAILABLE | PROVIDER_RESPONSE_INVALID | ADAPTER_ERROR

fun failure_reason_name :: "execution_failure_reason \<Rightarrow> string" where
  "failure_reason_name PROVIDER_REJECTED = ''PROVIDER_REJECTED''"
| "failure_reason_name PROVIDER_UNAVAILABLE = ''PROVIDER_UNAVAILABLE''"
| "failure_reason_name PROVIDER_RESPONSE_INVALID = ''PROVIDER_RESPONSE_INVALID''"
| "failure_reason_name ADAPTER_ERROR = ''ADAPTER_ERROR''"

definition EXECUTION_FAILURE_REASON_VALUES :: "execution_failure_reason list" where
  "EXECUTION_FAILURE_REASON_VALUES = [PROVIDER_REJECTED, PROVIDER_UNAVAILABLE, PROVIDER_RESPONSE_INVALID, ADAPTER_ERROR]"

definition failure_reason_of :: "js_value \<Rightarrow> execution_failure_reason option" where
  "failure_reason_of v = find (\<lambda>reason. v = JSString (failure_reason_name reason)) EXECUTION_FAILURE_REASON_VALUES"

datatype execution_adapter_result =
    ResCompleted (res_providerRef: "string option") (res_adapterId: "string option")
  | ResFailed execution_failure_reason (res_providerRef: "string option") (res_detail: "string option")
      (res_adapterId: "string option")
  | ResUnconfirmed (res_providerRef: "string option") (res_detail: "string option") (res_adapterId: "string option")

text \<open>Whether an optional field is absent or a string, as the code tests it.\<close>

fun optional_string :: "js_value \<Rightarrow> bool" where
  "optional_string JSUndefined = True"
| "optional_string (JSString s) = True"
| "optional_string _ = False"

definition readExecutionAdapterResult :: "js_value \<Rightarrow> execution_adapter_result option" where
  "readExecutionAdapterResult v =
     (if \<not> js_is_object v then None
      else let outcome = js_get v ''outcome''; adapterId = js_get v ''adapterId''
      in if \<not> optional_string adapterId then None
         else let attribution = stated_text adapterId;
                  providerRef = js_get v ''providerRef'';
                  reference = stated_text providerRef
         in if outcome = JSString ''completed'' then
              (if \<not> optional_string providerRef then None else Some (ResCompleted reference attribution))
            else if outcome = JSString ''failed'' then
              (case failure_reason_of (js_get v ''reason'') of None \<Rightarrow> None
               | Some reason \<Rightarrow>
                   if \<not> optional_string (js_get v ''detail'') then None
                   else Some (ResFailed reason reference (stated_text (js_get v ''detail'')) attribution))
            else if outcome = JSString ''unconfirmed'' then
              (if \<not> optional_string (js_get v ''detail'') then None
               else Some (ResUnconfirmed reference (stated_text (js_get v ''detail'')) attribution))
            else None)"

text \<open>A result as the value a registry returns.\<close>

fun result_js :: "execution_adapter_result \<Rightarrow> js_value" where
  "result_js (ResCompleted ref adapter) = JSObject True
     ((''outcome'', DataProp (JSString ''completed'')) #
      optional_field ''providerRef'' ref @ optional_field ''adapterId'' adapter)"
| "result_js (ResFailed reason ref detail adapter) = JSObject True
     ((''outcome'', DataProp (JSString ''failed'')) #
      (''reason'', DataProp (JSString (failure_reason_name reason))) #
      optional_field ''providerRef'' ref @ optional_field ''detail'' detail @ optional_field ''adapterId'' adapter)"
| "result_js (ResUnconfirmed ref detail adapter) = JSObject True
     ((''outcome'', DataProp (JSString ''unconfirmed'')) #
      optional_field ''providerRef'' ref @ optional_field ''detail'' detail @ optional_field ''adapterId'' adapter)"

text \<open>
  What an adapter throws: the typed signal, another error with its message, or a value that is no
  error or whose message cannot be read.
\<close>

datatype thrown_value =
    ThrownWithheld emergency_withheld_error
  | ThrownError string
  | ThrownOther

datatype adapter_answer =
    AnswerValue js_value
  | AnswerUnreadable thrown_value
  | AnswerThrew thrown_value

definition WITHHELD_MESSAGE :: string where
  "WITHHELD_MESSAGE = ''Execution was withheld by an active or unreadable emergency control.''"

fun adapterErrorDetail :: "thrown_value \<Rightarrow> string option" where
  "adapterErrorDetail (ThrownWithheld e) = Some WITHHELD_MESSAGE"
| "adapterErrorDetail (ThrownError message) = (if length message > 0 then Some message else None)"
| "adapterErrorDetail ThrownOther = None"

section \<open>Certainty and references\<close>

datatype provider_effect_certainty = ConfirmedCompleted | ConfirmedNotCompleted | CertaintyUnconfirmed

datatype provider_observed_status = StatusExecuted | StatusExecutionFailed | StatusExecutionUnconfirmed

fun providerEffectCertaintyOf :: "provider_observed_status \<Rightarrow> provider_effect_certainty" where
  "providerEffectCertaintyOf StatusExecuted = ConfirmedCompleted"
| "providerEffectCertaintyOf StatusExecutionFailed = ConfirmedNotCompleted"
| "providerEffectCertaintyOf StatusExecutionUnconfirmed = CertaintyUnconfirmed"

fun executionStatusOfCertainty :: "provider_effect_certainty \<Rightarrow> provider_observed_status" where
  "executionStatusOfCertainty ConfirmedCompleted = StatusExecuted"
| "executionStatusOfCertainty ConfirmedNotCompleted = StatusExecutionFailed"
| "executionStatusOfCertainty CertaintyUnconfirmed = StatusExecutionUnconfirmed"

text \<open>
  Regular expressions of the shape the code uses: a sequence of single characters of a class and
  of unbounded repetitions of a class, searched from a position whose preceding character
  satisfies a condition.
\<close>

datatype pattern_part = One "char \<Rightarrow> bool" | Many "char \<Rightarrow> bool"

function pattern_prefix :: "pattern_part list \<Rightarrow> string \<Rightarrow> bool" where
  "pattern_prefix [] s = True"
| "pattern_prefix (One p # rest) [] = False"
| "pattern_prefix (One p # rest) (c # cs) = (p c \<and> pattern_prefix rest cs)"
| "pattern_prefix (Many p # rest) [] = pattern_prefix rest []"
| "pattern_prefix (Many p # rest) (c # cs) =
     (pattern_prefix rest (c # cs) \<or> p c \<and> pattern_prefix (Many p # rest) cs)"
  by pat_completeness auto
termination by (relation "measures [\<lambda>(r, s). length s + length r, \<lambda>(r, s). length s]") auto

fun pattern_search :: "(char option \<Rightarrow> bool) \<Rightarrow> pattern_part list \<Rightarrow> char option \<Rightarrow> string \<Rightarrow> bool" where
  "pattern_search before r prev [] = (before prev \<and> pattern_prefix r [])"
| "pattern_search before r prev (c # cs) =
     (before prev \<and> pattern_prefix r (c # cs) \<or> pattern_search before r (Some c) cs)"

definition exactly :: "string \<Rightarrow> pattern_part list" where
  "exactly s = map (\<lambda>c. One (\<lambda>d. d = c)) s"

definition ignoring_case :: "string \<Rightarrow> pattern_part list" where
  "ignoring_case s = map (\<lambda>c. One (\<lambda>d. to_lower_char d = c)) s"

definition is_word :: "char \<Rightarrow> bool" where
  "is_word c \<longleftrightarrow> is_alnum c \<or> c = CHR ''_''"

text \<open>The conditions \<open>^\<close>, none, and \<open>\b\<close> before a word character.\<close>

definition at_start :: "char option \<Rightarrow> bool" where
  "at_start prev \<longleftrightarrow> prev = None"

definition anywhere :: "char option \<Rightarrow> bool" where
  "anywhere prev \<longleftrightarrow> True"

definition at_word :: "char option \<Rightarrow> bool" where
  "at_word prev = (case prev of None \<Rightarrow> True | Some c \<Rightarrow> \<not> is_word c)"

definition after_separator :: "char option \<Rightarrow> bool" where
  "after_separator prev = (case prev of None \<Rightarrow> True | Some c \<Rightarrow> c = CHR '';'' \<or> is_space c)"

definition assigns :: "pattern_part list" where
  "assigns = [Many is_space, One (\<lambda>c. c \<in> set '':='')]"

definition token_char :: "char \<Rightarrow> bool" where
  "token_char c \<longleftrightarrow> is_alnum c \<or> c \<in> set ''_-''"

definition UNSAFE_REFERENCE_PATTERNS :: "((char option \<Rightarrow> bool) \<times> pattern_part list) list" where
  "UNSAFE_REFERENCE_PATTERNS =
     [(at_word, ignoring_case ''bearer'' @ [One is_space]),
      (at_word, ignoring_case ''basic'' @ [One is_space, Many is_space] @
         replicate 8 (One (\<lambda>c. is_alnum c \<or> c \<in> set ''+/=''))),
      (at_start, exactly ''eyJ'' @ replicate 4 (One token_char) @ [Many token_char] @ exactly ''.'' @
         replicate 4 (One token_char)),
      (anywhere, exactly ''-----BEGIN '' @ [Many (\<lambda>c. is_upper c \<or> c = CHR '' '')] @ exactly ''PRIVATE KEY-----''),
      (anywhere, exactly ''-----BEGIN '' @ [Many (\<lambda>c. is_upper c \<or> c = CHR '' '')] @ exactly ''CERTIFICATE-----''),
      (anywhere, [One (\<lambda>c. is_upper c \<or> is_lower c), Many (\<lambda>c. is_alnum c \<or> c \<in> set ''+.-'')] @ exactly ''://''),
      (after_separator, ignoring_case ''cookie'' @ assigns),
      (after_separator, ignoring_case ''set-cookie'' @ assigns),
      (at_word, ignoring_case ''authorization'' @ assigns)]"

definition PROVIDER_REFERENCE_MAXIMUM_LENGTH :: nat where
  "PROVIDER_REFERENCE_MAXIMUM_LENGTH = 512"

definition printable :: "char \<Rightarrow> bool" where
  "printable c \<longleftrightarrow> 32 \<le> code_unit c \<and> code_unit c \<le> 126"

definition PRINTABLE_TRIMMED :: "string \<Rightarrow> bool" where
  "PRINTABLE_TRIMMED s \<longleftrightarrow>
     s \<noteq> [] \<and> list_all printable s \<and> code_unit (hd s) \<noteq> 32 \<and> code_unit (last s) \<noteq> 32"

definition isRecordableProviderRef :: "string option \<Rightarrow> bool" where
  "isRecordableProviderRef ref =
     (case ref of None \<Rightarrow> False
      | Some value \<Rightarrow>
          length value > 0 \<and> length value \<le> PROVIDER_REFERENCE_MAXIMUM_LENGTH \<and> PRINTABLE_TRIMMED value \<and>
          list_all (\<lambda>(before, r). \<not> pattern_search before r None value) UNSAFE_REFERENCE_PATTERNS)"

section \<open>The registry\<close>

datatype registry_error_code =
    EXECUTION_ADAPTER_REGISTRY_EMPTY
  | EXECUTION_ADAPTER_MALFORMED
  | EXECUTION_ADAPTER_ID_DUPLICATE
  | EXECUTION_ADAPTER_REGISTRY_RECURSIVE
  | EXECUTION_ADAPTER_SELECTOR_INVALID

text \<open>A candidate adapter: the identity it declares when read, whether it can be called, and whether a registry made it.\<close>

record 'w execution_adapter =
  ad_adapterId :: js_value
  ad_callable :: bool
  ad_composed :: bool
  ad_execute :: "'w \<Rightarrow> validated_execution_action \<Rightarrow> adapter_answer \<times> 'w"

type_synonym 'w adapter_selector = "'w \<Rightarrow> validated_execution_action \<Rightarrow> js_error + js_value"

record 'w registry_options =
  ro_adapterId :: js_value
  ro_adapters :: "'w execution_adapter list option"
  ro_selectAdapter :: "'w adapter_selector option"
  ro_emergencyControl :: "('w \<Rightarrow> emergency_reader) option"

record 'w adapter_registry =
  reg_adapterId :: string
  reg_members :: "(string \<times> 'w execution_adapter) list"
  reg_select :: "'w adapter_selector"
  reg_emergencyControl :: "('w \<Rightarrow> emergency_reader) option"

definition DEFAULT_REGISTRY_ADAPTER_ID :: string where
  "DEFAULT_REGISTRY_ADAPTER_ID = ''frontera.execution-adapter-registry''"

definition isRecordableExecutionAdapterId :: "string \<Rightarrow> bool" where
  "isRecordableExecutionAdapterId s \<longleftrightarrow>
     s \<noteq> [] \<and> is_alnum (hd s) \<and> length (tl s) \<le> 63 \<and> list_all (\<lambda>c. is_alnum c \<or> c \<in> set ''._:/-'') (tl s)"

definition usableAdapterId :: "'w execution_adapter \<Rightarrow> string option" where
  "usableAdapterId candidate =
     (case ad_adapterId candidate of JSString s \<Rightarrow> if ad_callable candidate then Some s else None | _ \<Rightarrow> None)"

fun resolve_members ::
  "string \<Rightarrow> 'w execution_adapter list \<Rightarrow> (string \<times> 'w execution_adapter) list
     \<Rightarrow> registry_error_code + (string \<times> 'w execution_adapter) list" where
  "resolve_members own [] resolved = Inr resolved"
| "resolve_members own (candidate # candidates) resolved =
     (case usableAdapterId candidate of None \<Rightarrow> Inl EXECUTION_ADAPTER_MALFORMED
      | Some memberId \<Rightarrow>
          if length (js_trim memberId) = 0 then Inl EXECUTION_ADAPTER_MALFORMED
          else if memberId = own \<or> ad_composed candidate then Inl EXECUTION_ADAPTER_REGISTRY_RECURSIVE
          else if \<not> isRecordableExecutionAdapterId memberId then Inl EXECUTION_ADAPTER_MALFORMED
          else if map_of resolved memberId \<noteq> None then Inl EXECUTION_ADAPTER_ID_DUPLICATE
          else resolve_members own candidates (AList.update memberId candidate resolved))"

definition createExecutionAdapterRegistry ::
  "'w registry_options \<Rightarrow> registry_error_code + 'w adapter_registry" where
  "createExecutionAdapterRegistry opts =
     (let own = (case ro_adapterId opts of JSUndefined \<Rightarrow> JSString DEFAULT_REGISTRY_ADAPTER_ID
                 | JSNull \<Rightarrow> JSString DEFAULT_REGISTRY_ADAPTER_ID | v \<Rightarrow> v)
      in case own of
        JSString adapterId \<Rightarrow>
          if length (js_trim adapterId) = 0 then Inl EXECUTION_ADAPTER_MALFORMED
          else (case ro_selectAdapter opts of None \<Rightarrow> Inl EXECUTION_ADAPTER_SELECTOR_INVALID
            | Some select \<Rightarrow>
              (case ro_adapters opts of None \<Rightarrow> Inl EXECUTION_ADAPTER_REGISTRY_EMPTY
               | Some adapters \<Rightarrow>
                 if length adapters = 0 then Inl EXECUTION_ADAPTER_REGISTRY_EMPTY
                 else case resolve_members adapterId adapters [] of Inl code \<Rightarrow> Inl code
                   | Inr members \<Rightarrow>
                       Inr \<lparr>reg_adapterId = adapterId, reg_members = members, reg_select = select,
                            reg_emergencyControl = ro_emergencyControl opts\<rparr>))
      | _ \<Rightarrow> Inl EXECUTION_ADAPTER_MALFORMED)"

definition registry_member ::
  "'w adapter_registry \<Rightarrow> 'w \<Rightarrow> validated_execution_action \<Rightarrow> (string \<times> 'w execution_adapter) option" where
  "registry_member reg w action =
     (case reg_select reg w action of
        Inr (JSString selected) \<Rightarrow> map_option (Pair selected) (map_of (reg_members reg) selected)
      | _ \<Rightarrow> None)"

definition registry_query :: "validated_execution_action \<Rightarrow> string \<Rightarrow> emergency_query" where
  "registry_query action memberId =
     \<lparr>eq_organizationId = va_organization action, eq_actorId = Some (va_subject action), eq_workflowId = None,
      eq_adapterId = Some memberId, eq_resource = Some (va_resource action)\<rparr>"

text \<open>The child's answer, normalized and attributed to the member it was asked of.\<close>

definition attributed_result :: "string \<Rightarrow> adapter_answer \<Rightarrow> execution_adapter_result" where
  "attributed_result memberId answer =
     (let failed = (\<lambda>detail. ResFailed ADAPTER_ERROR None detail (Some memberId))
      in case answer of
        AnswerThrew failure \<Rightarrow> failed (adapterErrorDetail failure)
      | AnswerUnreadable failure \<Rightarrow> failed (adapterErrorDetail failure)
      | AnswerValue v \<Rightarrow>
          (case readExecutionAdapterResult v of
             None \<Rightarrow> failed None
           | Some (ResCompleted ref _) \<Rightarrow> ResCompleted ref (Some memberId)
           | Some (ResUnconfirmed ref detail _) \<Rightarrow> ResUnconfirmed ref detail (Some memberId)
           | Some (ResFailed reason ref detail _) \<Rightarrow> ResFailed reason ref detail (Some memberId)))"

definition NO_ROUTE :: execution_adapter_result where
  "NO_ROUTE = ResFailed ADAPTER_ERROR None (Some ''No execution adapter is configured for this action.'') None"

text \<open>The answer, the members called, and the world after.\<close>

definition registry_execute ::
  "'w adapter_registry \<Rightarrow> 'w \<Rightarrow> validated_execution_action \<Rightarrow> adapter_answer \<times> string list \<times> 'w" where
  "registry_execute reg w action =
     (case registry_member reg w action of
        None \<Rightarrow> (AnswerValue (result_js NO_ROUTE), [], w)
      | Some (memberId, child) \<Rightarrow>
          let assessment = readEmergencyControl (map_option (\<lambda>reader. reader w) (reg_emergencyControl reg))
                (query_js (registry_query action memberId))
          in if \<not> emergencyControlPermits assessment
             then (AnswerThrew (ThrownWithheld (EmergencyControlWithheldError assessment)), [], w)
             else case ad_execute child w action of
               (answer, w') \<Rightarrow> (AnswerValue (result_js (attributed_result memberId answer)), [memberId], w'))"

text \<open>The registry as the adapter a service composes.\<close>

definition registry_adapter :: "'w adapter_registry \<Rightarrow> 'w execution_adapter" where
  "registry_adapter reg =
     \<lparr>ad_adapterId = JSString (reg_adapterId reg), ad_callable = True, ad_composed = True,
      ad_execute = (\<lambda>w action. case registry_execute reg w action of (answer, called, w') \<Rightarrow> (answer, w'))\<rparr>"

section \<open>Results survive the boundary\<close>

lemma failure_reason_of_name [simp]: "failure_reason_of (JSString (failure_reason_name reason)) = Some reason"
  by (cases reason) (simp_all add: failure_reason_of_def EXECUTION_FAILURE_REASON_VALUES_def)

lemma read_result_js [simp]: "readExecutionAdapterResult (result_js res) = Some res"
proof (cases res)
  case (ResCompleted ref adapter)
  then show ?thesis
    by (cases ref; cases adapter) (simp_all add: readExecutionAdapterResult_def)
next
  case (ResFailed reason ref detail adapter)
  then show ?thesis
    by (cases ref; cases detail; cases adapter) (simp_all add: readExecutionAdapterResult_def)
next
  case (ResUnconfirmed ref detail adapter)
  then show ?thesis
    by (cases ref; cases detail; cases adapter) (simp_all add: readExecutionAdapterResult_def)
qed

lemma attributed_to: "res_adapterId (attributed_result memberId answer) = Some memberId"
  by (cases answer) (auto simp add: attributed_result_def Let_def split: option.split execution_adapter_result.split)

section \<open>What a composed registry holds\<close>

definition member_ok :: "string \<Rightarrow> string \<times> 'w execution_adapter \<Rightarrow> bool" where
  "member_ok own m \<longleftrightarrow>
     usableAdapterId (snd m) = Some (fst m) \<and> fst m \<noteq> own \<and> \<not> ad_composed (snd m) \<and>
     isRecordableExecutionAdapterId (fst m)"

lemma resolve_members_ok:
  assumes "resolve_members own candidates resolved = Inr members" "list_all (member_ok own) resolved"
    "distinct (map fst resolved)"
  shows "list_all (member_ok own) members \<and> distinct (map fst members) \<and>
    map snd members = map snd resolved @ candidates"
  using assms
proof (induction candidates arbitrary: resolved)
  case (Cons candidate candidates)
  obtain memberId where i: "usableAdapterId candidate = Some memberId" "memberId \<noteq> own" "\<not> ad_composed candidate"
    "isRecordableExecutionAdapterId memberId" "memberId \<notin> fst ` set resolved"
    "resolve_members own candidates (AList.update memberId candidate resolved) = Inr members"
    using Cons.prems(1) by (auto simp add: map_of_eq_None_iff split: option.splits if_splits)
  have u: "AList.update memberId candidate resolved = resolved @ [(memberId, candidate)]"
    using i(5) by (rule update_new_key)
  show ?case
    using Cons.IH [OF i(6)] Cons.prems(2,3) i(1-5) by (auto simp add: u member_ok_def)
qed simp

lemma registry_created:
  assumes "createExecutionAdapterRegistry opts = Inr reg"
  obtains adapters select where "ro_adapters opts = Some adapters" "ro_selectAdapter opts = Some select"
    "reg_select reg = select" "reg_emergencyControl reg = ro_emergencyControl opts"
    "list_all (member_ok (reg_adapterId reg)) (reg_members reg)" "distinct (map fst (reg_members reg))"
    "map snd (reg_members reg) = adapters" "reg_members reg \<noteq> []"
proof -
  obtain own select adapters members where o: "ro_selectAdapter opts = Some select" "ro_adapters opts = Some adapters"
    "adapters \<noteq> []" "resolve_members own adapters [] = Inr members"
    "reg = \<lparr>reg_adapterId = own, reg_members = members, reg_select = select, reg_emergencyControl = ro_emergencyControl opts\<rparr>"
    using assms
    by (auto simp add: createExecutionAdapterRegistry_def Let_def split: js_value.splits option.splits if_splits sum.splits)
  then show thesis using that resolve_members_ok [OF o(4)] by fastforce
qed

section \<open>Properties\<close>

text \<open>
  C31: Routing through a composed registry reaches at most one provider adapter.  If a member was
  called, it is the one the host's selector named, it is one of the composed adapters and the only
  one with that identity, it is no registry itself, the interlock permitted exactly that adapter
  in the same world, the member saw the action unchanged, and the answer reads back as the
  member's own result attributed to it.  If none was called, the world is untouched and the answer
  is either the refusal for want of a route or the typed signal with a reason.
\<close>

theorem registry_routes_once:
  assumes "createExecutionAdapterRegistry opts = Inr reg"
  shows "case registry_execute reg w action of
      (answer, [], w') \<Rightarrow> w' = w \<and>
        (case registry_member reg w action of
           None \<Rightarrow> answer = AnswerValue (result_js NO_ROUTE)
         | Some m \<Rightarrow> \<exists>e. answer = AnswerThrew (ThrownWithheld e) \<and> ew_reasonCodes e \<noteq> [])
    | (answer, [m], w') \<Rightarrow>
        \<exists>child v res. reg_select reg w action = Inr (JSString m) \<and>
          filter (\<lambda>a. usableAdapterId a = Some m) (the (ro_adapters opts)) = [child] \<and> \<not> ad_composed child \<and>
          emergencyControlPermits (readEmergencyControl (map_option (\<lambda>reader. reader w) (ro_emergencyControl opts))
            (query_js (registry_query action m))) \<and>
          w' = snd (ad_execute child w action) \<and> answer = AnswerValue v \<and>
          readExecutionAdapterResult v = Some res \<and> res = attributed_result m (fst (ad_execute child w action)) \<and>
          res_adapterId res = Some m
    | _ \<Rightarrow> False"
proof (cases "registry_member reg w action")
  case None
  then show ?thesis by (simp add: registry_execute_def)
next
  case (Some mc)
  then obtain m child where mc: "mc = (m, child)" by force
  obtain adapters where reg: "ro_adapters opts = Some adapters" "reg_emergencyControl reg = ro_emergencyControl opts"
    "list_all (member_ok (reg_adapterId reg)) (reg_members reg)" "distinct (map fst (reg_members reg))"
    "map snd (reg_members reg) = adapters"
    using registry_created [OF assms] by metis
  have sel: "reg_select reg w action = Inr (JSString m)" "map_of (reg_members reg) m = Some child"
    using Some mc by (auto simp add: registry_member_def split: sum.splits js_value.splits)
  then have mem: "(m, child) \<in> set (reg_members reg)" by (simp add: map_of_SomeD)
  then have ok: "usableAdapterId child = Some m" "\<not> ad_composed child"
    using reg(3) by (auto simp add: list_all_iff member_ok_def)
  have "filter (\<lambda>a. usableAdapterId a = Some m) (map snd ms) = map snd (filter (\<lambda>x. fst x = m) ms)"
    if "list_all (member_ok own) ms" for own and ms :: "(string \<times> 'a execution_adapter) list"
    using that by (induction ms) (auto simp add: member_ok_def)
  moreover have "distinct (map fst ms) \<Longrightarrow> (m, child) \<in> set ms \<Longrightarrow> filter (\<lambda>x. fst x = m) ms = [(m, child)]"
    for ms :: "(string \<times> 'a execution_adapter) list"
    by (induction ms) (auto simp add: filter_empty_conv image_iff)
  ultimately have only: "filter (\<lambda>a. usableAdapterId a = Some m) adapters = [child]"
    using reg(3-5) mem by (metis (no_types, lifting) list.simps(8,9) snd_conv)
  show ?thesis
    using Some mc sel ok only reg(1,2) attributed_to
    by (auto simp add: registry_execute_def Let_def EmergencyControlWithheldError_def split: prod.splits)
qed

text \<open>A registry of one adapter that completes, over a world that counts the provider's effects.\<close>

definition example_action :: validated_execution_action where
  "example_action =
     \<lparr>va_boundedGrantId = ''g1'', va_subject = ''agent:7'', va_action = ''transfer'', va_resource = ''vault'',
      va_counterparty = None, va_organization = Some ''org'', va_amount = None, va_parameters = None,
      va_notAfter = example_noon,
      va_correlation = \<lparr>vc_requestId = ''r1'', vc_decisionId = ''d1'', vc_executionId = ''e1''\<rparr>\<rparr>"

definition example_provider :: "nat execution_adapter" where
  "example_provider =
     \<lparr>ad_adapterId = JSString ''pay'', ad_callable = True, ad_composed = False,
      ad_execute = (\<lambda>w action. (AnswerValue (result_js (ResCompleted (Some ''tx-1'') (Some ''other''))), Suc w))\<rparr>"

definition example_registry :: "nat registry_options" where
  "example_registry =
     \<lparr>ro_adapterId = JSUndefined, ro_adapters = Some [example_provider],
      ro_selectAdapter = Some (\<lambda>w action. Inr (JSString ''pay'')), ro_emergencyControl = None\<rparr>"

definition example_composed :: "nat adapter_registry" where
  "example_composed =
     \<lparr>reg_adapterId = DEFAULT_REGISTRY_ADAPTER_ID, reg_members = [(''pay'', example_provider)],
      reg_select = (\<lambda>w action. Inr (JSString ''pay'')), reg_emergencyControl = None\<rparr>"

lemma example_registry_composed: "createExecutionAdapterRegistry example_registry = Inr example_composed"
proof -
  have "length (js_trim DEFAULT_REGISTRY_ADAPTER_ID) \<noteq> 0" by code_simp
  moreover have "length (js_trim ''pay'') \<noteq> 0" "''pay'' \<noteq> DEFAULT_REGISTRY_ADAPTER_ID"
    "isRecordableExecutionAdapterId ''pay''" by code_simp+
  ultimately show ?thesis
    by (simp add: createExecutionAdapterRegistry_def example_registry_def example_composed_def example_provider_def
      usableAdapterId_def)
qed

theorem registry_routes_once_witness:
  "\<exists>reg v res. createExecutionAdapterRegistry example_registry = Inr reg \<and>
     registry_execute reg 0 example_action = (AnswerValue v, [''pay''], 1) \<and>
     readExecutionAdapterResult v = Some res \<and> res_adapterId res = Some ''pay''"
proof -
  have run: "registry_execute example_composed 0 example_action =
      (AnswerValue (result_js (attributed_result ''pay'' (AnswerValue (result_js (ResCompleted (Some ''tx-1'') (Some ''other'')))))), [''pay''], 1)"
    by (simp add: registry_execute_def registry_member_def example_composed_def example_provider_def readEmergencyControl_def
      EMERGENCY_CONTROL_CLEAR_def)
  show ?thesis
    using registry_routes_once [OF example_registry_composed, of 0 example_action] example_registry_composed run
    by fastforce
qed

end
