(* ===== verification/Execution_Service.thy ===== *)
theory Execution_Service
  imports Execution_Adapters
begin

text \<open>
  The gate every effect passes: \<open>execution-runtime/domain/execution-outcome.ts\<close> and
  \<open>services/grant-execution-service.ts\<close>.  The store, the clock, the interlock, the exercise
  control and the adapter are functions of a world of which nothing is known: each awaited call
  may change it, each synchronous call reads it.  Beside its outcome an exercise reports, in order,
  the calls it made that can have an effect, each with the world it was made in.
\<close>

section \<open>Outcomes\<close>

datatype execution_outcome =
    Executed (out_assessment: bounded_grant_exercise_assessment) (out_correlation: validated_execution_correlation)
      (out_providerRef: "string option") (out_adapterId: string) (out_routedBy: "string option") (out_exercisedAt: string)
  | WithheldByGrant (out_assessment: bounded_grant_exercise_assessment) (out_correlation: validated_execution_correlation)
      (out_exercisedAt: string)
  | WithheldByEmergency (out_assessment: bounded_grant_exercise_assessment) "emergency_reason_code list" "js_value list"
      (out_correlation: validated_execution_correlation) (out_exercisedAt: string)
  | WithheldByControl (out_assessment: bounded_grant_exercise_assessment) "exercise_control_reason_code list"
      (out_correlation: validated_execution_correlation) (out_exercisedAt: string)
  | ExecutionFailed (out_assessment: bounded_grant_exercise_assessment) (out_correlation: validated_execution_correlation)
      (out_adapterId: string) (out_routedBy: "string option") (out_reason: execution_failure_reason)
      (out_providerRef: "string option") (out_detail: "string option") (out_exercisedAt: string)
  | ExecutionUnconfirmed (out_assessment: bounded_grant_exercise_assessment) (out_correlation: validated_execution_correlation)
      (out_adapterId: string) (out_routedBy: "string option") (out_providerRef: "string option")
      (out_detail: "string option") (out_exercisedAt: string)

fun reservationDispositionFor :: "execution_outcome \<Rightarrow> exercise_disposition" where
  "reservationDispositionFor (Executed _ _ _ _ _ _) = DisposeSettle ReasonExecuted"
| "reservationDispositionFor (ExecutionUnconfirmed _ _ _ _ _ _ _) = DisposeSettle ReasonExecutionUnconfirmed"
| "reservationDispositionFor (ExecutionFailed _ _ _ _ _ _ _ _) = DisposeRelease ReasonExecutionFailed"
| "reservationDispositionFor (WithheldByEmergency _ _ _ _ _) = DisposeRelease ReasonEmergencyControl"
| "reservationDispositionFor (WithheldByControl _ _ _ _) = DisposeRelease ReasonExerciseControl"
| "reservationDispositionFor (WithheldByGrant _ _ _) = DisposeRelease ReasonGrantExercise"

section \<open>The ports of the service\<close>

record 'w exercise_gate_port =
  gp_admit :: "'w \<Rightarrow> exercise_admission_input \<Rightarrow> exercise_gate_admission \<times> 'w"
  gp_revalidate :: "'w \<Rightarrow> exercise_reservation_handle \<Rightarrow> exercise_admission_input \<Rightarrow> exercise_gate_revalidation"
  gp_finalize :: "'w \<Rightarrow> exercise_reservation_handle \<Rightarrow> exercise_disposition \<Rightarrow> exercise_finalization \<times> 'w"

type_synonym read_grant = "bounded_grant option \<times> grant_revocation option"

record 'w execution_service_options =
  so_read :: "'w \<Rightarrow> string \<Rightarrow> (js_error + read_grant) \<times> 'w"
  so_adapterId :: string
  so_trustedRegistry :: bool
  so_execute :: "'w \<Rightarrow> validated_execution_action \<Rightarrow> adapter_answer \<times> 'w"
  so_emergencyControl :: "('w \<Rightarrow> emergency_reader) option"
  so_exerciseControl :: "'w exercise_gate_port option"
  so_now :: "'w \<Rightarrow> string"

text \<open>The calls that can have an effect, with the world each was made in.\<close>

datatype 'w service_event =
    EvAdmit 'w exercise_admission_input
  | EvExecute 'w validated_execution_action
  | EvFinalize 'w exercise_reservation_handle exercise_disposition

section \<open>Assessing\<close>

definition readAndAssess ::
  "platform \<Rightarrow> 'w execution_service_options \<Rightarrow> grant_exercise_request \<Rightarrow> 'w
     \<Rightarrow> bounded_grant_exercise_assessment \<times> bounded_grant option \<times> string \<times> 'w" where
  "readAndAssess P opts r w =
     (case so_read opts w (er_boundedGrantId r) of (answer, w') \<Rightarrow>
        let instant_text = so_now opts w'
        in case answer of
             Inr (Some grant, revocation) \<Rightarrow>
               (assessBoundedGrantExercise P grant revocation r instant_text, Some grant, instant_text, w')
           | _ \<Rightarrow> (assessed r [GRANT_EXERCISE_NOT_FOUND], None, instant_text, w'))"

definition service_assess ::
  "platform \<Rightarrow> 'w execution_service_options \<Rightarrow> grant_exercise_request \<Rightarrow> 'w
     \<Rightarrow> bounded_grant_exercise_assessment \<times> 'w" where
  "service_assess P opts r w =
     (case so_read opts w (er_boundedGrantId r) of (answer, w') \<Rightarrow>
        case answer of
          Inl _ \<Rightarrow> (assessed r [GRANT_EXERCISE_NOT_FOUND], w')
        | Inr (None, _) \<Rightarrow> (assessed r [GRANT_EXERCISE_NOT_FOUND], w')
        | Inr (Some grant, revocation) \<Rightarrow>
            (assessBoundedGrantExercise P grant revocation r (so_now opts w'), w'))"

section \<open>What the other layers are told\<close>

definition emergencyQueryFor :: "grant_exercise_request \<Rightarrow> bounded_grant \<Rightarrow> emergency_query" where
  "emergencyQueryFor r grant =
     \<lparr>eq_organizationId = er_organization r, eq_actorId = Some (g_subject grant), eq_workflowId = None,
      eq_adapterId = None, eq_resource = Some (er_resource r)\<rparr>"

definition exerciseControlInputFor ::
  "grant_exercise_request \<Rightarrow> bounded_grant \<Rightarrow> string \<Rightarrow> exercise_admission_input" where
  "exerciseControlInputFor r grant instant_text =
     \<lparr>ai_grant = \<lparr>gg_id = grant_id grant, gg_subject = g_subject grant, gg_issuedAt = g_issuedAt grant,
        gg_expiresAt = g_expiresAt grant, gg_correlation = g_correlation grant,
        gg_authorityBindingDigest = g_authorityBindingDigest grant\<rparr>,
      ai_attempt = \<lparr>ga_action = er_action r, ga_resource = er_resource r, ga_counterparty = er_counterparty r,
        ga_organization = er_organization r, ga_amount = er_amount r\<rparr>,
      ai_executionId = er_executionId r, ai_at = instant_text\<rparr>"

definition correlation_of :: "grant_exercise_request \<Rightarrow> validated_execution_correlation" where
  "correlation_of r =
     \<lparr>vc_requestId = requestId (er_correlation r), vc_decisionId = decisionId (er_correlation r),
      vc_executionId = er_executionId r\<rparr>"

definition validated_action :: "grant_exercise_request \<Rightarrow> bounded_grant \<Rightarrow> validated_execution_action" where
  "validated_action r grant =
     \<lparr>va_boundedGrantId = er_boundedGrantId r, va_subject = g_subject grant, va_action = er_action r,
      va_resource = er_resource r, va_counterparty = er_counterparty r, va_organization = er_organization r,
      va_amount = er_amount r, va_parameters = er_parameters r, va_notAfter = g_expiresAt grant,
      va_correlation = correlation_of r\<rparr>"

definition interlock :: "'w execution_service_options \<Rightarrow> 'w \<Rightarrow> emergency_query \<Rightarrow> emergency_assessment" where
  "interlock opts w q = readEmergencyControl (map_option (\<lambda>reader. reader w) (so_emergencyControl opts)) (query_js q)"

definition withheld_by_emergency ::
  "grant_exercise_request \<Rightarrow> bounded_grant_exercise_assessment \<Rightarrow> string \<Rightarrow> emergency_assessment \<Rightarrow> execution_outcome" where
  "withheld_by_emergency r assessment instant_text emergency =
     WithheldByEmergency assessment (emergency_codes emergency)
       (case emergency of EmergencyBlocked _ matched \<Rightarrow> matched | _ \<Rightarrow> []) (correlation_of r) instant_text"

section \<open>The provider crossing\<close>

definition performedBy :: "'w execution_service_options \<Rightarrow> execution_adapter_result \<Rightarrow> string \<times> string option" where
  "performedBy opts result =
     (case res_adapterId result of None \<Rightarrow> (so_adapterId opts, None)
      | Some performer \<Rightarrow>
          if \<not> so_trustedRegistry opts \<or> performer = so_adapterId opts then (so_adapterId opts, None)
          else (performer, Some (so_adapterId opts)))"

definition referenceOf :: "execution_adapter_result \<Rightarrow> string option" where
  "referenceOf result = (if isRecordableProviderRef (res_providerRef result) then res_providerRef result else None)"

definition adapter_outcome ::
  "'w execution_service_options \<Rightarrow> grant_exercise_request \<Rightarrow> bounded_grant_exercise_assessment \<Rightarrow> string
     \<Rightarrow> adapter_answer \<Rightarrow> execution_outcome" where
  "adapter_outcome opts r assessment instant_text answer =
     (let corr = correlation_of r;
          adapter_error = (\<lambda>detail. ExecutionFailed assessment corr (so_adapterId opts) None ADAPTER_ERROR None detail instant_text)
      in case answer of
        AnswerThrew thrown \<Rightarrow>
          (case thrown of
             ThrownWithheld e \<Rightarrow>
               if so_trustedRegistry opts
               then WithheldByEmergency assessment (ew_reasonCodes e) (ew_matchedScopes e) corr instant_text
               else adapter_error (adapterErrorDetail thrown)
           | _ \<Rightarrow> adapter_error (adapterErrorDetail thrown))
      | AnswerUnreadable thrown \<Rightarrow> adapter_error (adapterErrorDetail thrown)
      | AnswerValue returned \<Rightarrow>
          (case readExecutionAdapterResult returned of
             None \<Rightarrow> adapter_error None
           | Some result \<Rightarrow>
               let (performer, routedBy) = performedBy opts result; reference = referenceOf result
               in case result of
                 ResUnconfirmed _ detail _ \<Rightarrow>
                   ExecutionUnconfirmed assessment corr performer routedBy reference detail instant_text
               | ResFailed reason _ detail _ \<Rightarrow>
                   ExecutionFailed assessment corr performer routedBy reason reference detail instant_text
               | ResCompleted _ _ \<Rightarrow>
                   Executed assessment corr reference performer routedBy instant_text))"

text \<open>The one exit after a reservation exists.\<close>

definition finish ::
  "'w exercise_gate_port \<Rightarrow> exercise_reservation_handle \<Rightarrow> 'w \<Rightarrow> execution_outcome
     \<Rightarrow> execution_outcome \<times> 'w service_event list \<times> 'w" where
  "finish gate reservation w outcome =
     (case gp_finalize gate w reservation (reservationDispositionFor outcome) of (finalization, w') \<Rightarrow>
        (outcome, [EvFinalize w reservation (reservationDispositionFor outcome)], w'))"

text \<open>Everything that authorizes the effect, established again after the reservation.\<close>

definition exercise_reserved ::
  "platform \<Rightarrow> 'w execution_service_options \<Rightarrow> 'w exercise_gate_port \<Rightarrow> exercise_reservation_handle
     \<Rightarrow> grant_exercise_request \<Rightarrow> 'w \<Rightarrow> execution_outcome \<times> 'w service_event list \<times> 'w" where
  "exercise_reserved P opts gate reservation r w =
     (case readAndAssess P opts r w of (assessment, grant, instant_text, w1) \<Rightarrow>
        case (usable assessment, grant) of
          (True, Some trusted) \<Rightarrow>
            (case gp_revalidate gate w1 reservation (exerciseControlInputFor r trusted instant_text) of
               GateRevalidationWithheld codes \<Rightarrow>
                 finish gate reservation w1 (WithheldByControl assessment codes (correlation_of r) instant_text)
             | GateVerified \<Rightarrow>
                 (let recheck = interlock opts w1 (emergencyQueryFor r trusted)
                  in if \<not> emergencyControlPermits recheck
                     then finish gate reservation w1 (withheld_by_emergency r assessment instant_text recheck)
                     else
                       (case so_execute opts w1 (validated_action r trusted) of (answer, w2) \<Rightarrow>
                          (case finish gate reservation w2 (adapter_outcome opts r assessment instant_text answer) of
                             (outcome, events, w3) \<Rightarrow> (outcome, EvExecute w1 (validated_action r trusted) # events, w3)))))
        | _ \<Rightarrow> finish gate reservation w1 (WithheldByGrant assessment (correlation_of r) instant_text))"

definition exercise ::
  "platform \<Rightarrow> 'w execution_service_options \<Rightarrow> grant_exercise_request \<Rightarrow> 'w
     \<Rightarrow> execution_outcome \<times> 'w service_event list \<times> 'w" where
  "exercise P opts r w =
     (case readAndAssess P opts r w of (assessment, grant, instant_text, w1) \<Rightarrow>
        case (usable assessment, grant) of
          (True, Some trusted) \<Rightarrow>
            (let emergency = interlock opts w1 (emergencyQueryFor r trusted)
             in if \<not> emergencyControlPermits emergency
                then (withheld_by_emergency r assessment instant_text emergency, [], w1)
                else
                  (case so_exerciseControl opts of
                     None \<Rightarrow>
                       (case so_execute opts w1 (validated_action r trusted) of (answer, w2) \<Rightarrow>
                          (adapter_outcome opts r assessment instant_text answer,
                           [EvExecute w1 (validated_action r trusted)], w2))
                   | Some gate \<Rightarrow>
                       (let input = exerciseControlInputFor r trusted instant_text
                        in case gp_admit gate w1 input of
                             (GateWithheld codes, w2) \<Rightarrow>
                               (WithheldByControl assessment codes (correlation_of r) instant_text, [EvAdmit w1 input], w2)
                           | (GateAdmitted reservation, w2) \<Rightarrow>
                               (case exercise_reserved P opts gate reservation r w2 of
                                  (outcome, events, w3) \<Rightarrow> (outcome, EvAdmit w1 input # events, w3)))))
        | _ \<Rightarrow> (WithheldByGrant assessment (correlation_of r) instant_text, [], w1))"

section \<open>What guards the crossing\<close>

definition withheld_outcome :: "execution_outcome \<Rightarrow> bool" where
  "withheld_outcome outcome \<longleftrightarrow>
     is_WithheldByGrant outcome \<or> is_WithheldByEmergency outcome \<or> is_WithheldByControl outcome"

text \<open>
  The grant was read, from the world before, into this very world, the attempt is usable under it at the instant of this
  world, and the interlock permits it in this world.
\<close>

definition guarded ::
  "platform \<Rightarrow> 'w execution_service_options \<Rightarrow> grant_exercise_request \<Rightarrow> 'w \<Rightarrow> 'w \<Rightarrow> bounded_grant
     \<Rightarrow> bounded_grant_exercise_assessment \<Rightarrow> bool" where
  "guarded P opts r w0 w grant assessment \<longleftrightarrow>
     (\<exists>revocation. so_read opts w0 (er_boundedGrantId r) = (Inr (Some grant, revocation), w) \<and>
        assessment = assessBoundedGrantExercise P grant revocation r (so_now opts w)) \<and>
     usable assessment \<and> emergencyControlPermits (interlock opts w (emergencyQueryFor r grant))"

lemma readAndAssess_grant:
  assumes "readAndAssess P opts r w = (assessment, Some grant, instant_text, w1)"
  shows "instant_text = so_now opts w1 \<and>
    (\<exists>revocation. so_read opts w (er_boundedGrantId r) = (Inr (Some grant, revocation), w1) \<and>
       assessment = assessBoundedGrantExercise P grant revocation r (so_now opts w1))"
  using assms by (auto simp add: readAndAssess_def Let_def split: prod.splits sum.splits option.splits)

lemma guardedI:
  assumes "readAndAssess P opts r w = (assessment, Some grant, instant_text, w1)" "usable assessment"
    "emergencyControlPermits (interlock opts w1 (emergencyQueryFor r grant))"
  shows "guarded P opts r w w1 grant assessment \<and> instant_text = so_now opts w1"
  using readAndAssess_grant [OF assms(1)] assms(2,3) by (auto simp add: guarded_def)

lemma finish_eq:
  "finish gate h w outcome =
     (outcome, [EvFinalize w h (reservationDispositionFor outcome)], snd (gp_finalize gate w h (reservationDispositionFor outcome)))"
  by (simp add: finish_def split: prod.split)

lemma withheld_by_emergency_withheld [simp]: "withheld_outcome (withheld_by_emergency r a i e)"
  by (simp add: withheld_by_emergency_def withheld_outcome_def)

text \<open>After a reservation: one finalization of what was produced, and before it at most one guarded crossing.\<close>

lemma exercise_reserved_trace:
  obtains (withheld) wz outcome where "withheld_outcome outcome"
      "exercise_reserved P opts gate h r w =
         (outcome, [EvFinalize wz h (reservationDispositionFor outcome)],
          snd (gp_finalize gate wz h (reservationDispositionFor outcome)))"
  | (crossed) w1 wz grant assessment answer outcome where "guarded P opts r w w1 grant assessment"
      "gp_revalidate gate w1 h (exerciseControlInputFor r grant (so_now opts w1)) = GateVerified"
      "so_execute opts w1 (validated_action r grant) = (answer, wz)"
      "outcome = adapter_outcome opts r assessment (so_now opts w1) answer"
      "exercise_reserved P opts gate h r w =
         (outcome, [EvExecute w1 (validated_action r grant), EvFinalize wz h (reservationDispositionFor outcome)],
          snd (gp_finalize gate wz h (reservationDispositionFor outcome)))"
proof -
  obtain assessment grant instant_text w1 where ra: "readAndAssess P opts r w = (assessment, grant, instant_text, w1)"
    by (cases "readAndAssess P opts r w") auto
  have stop: thesis if "exercise_reserved P opts gate h r w = finish gate h wz outcome" "withheld_outcome outcome" for wz outcome
    using withheld [of outcome wz] that by (simp add: finish_eq)
  consider (refused) "\<not> usable assessment \<or> grant = None" | (trusted) g where "usable assessment" "grant = Some g"
    by (cases grant) auto
  then show thesis
  proof cases
    case refused
    then have "exercise_reserved P opts gate h r w = finish gate h w1 (WithheldByGrant assessment (correlation_of r) instant_text)"
      using ra by (auto simp add: exercise_reserved_def split: option.splits bool.splits)
    then show thesis by (rule stop) (simp add: withheld_outcome_def)
  next
    case (trusted g)
    let ?q = "interlock opts w1 (emergencyQueryFor r g)"
    obtain answer w2 where x: "so_execute opts w1 (validated_action r g) = (answer, w2)" by force
    show thesis
    proof (cases "gp_revalidate gate w1 h (exerciseControlInputFor r g instant_text)")
      case (GateRevalidationWithheld codes)
      then have "exercise_reserved P opts gate h r w =
          finish gate h w1 (WithheldByControl assessment codes (correlation_of r) instant_text)"
        using ra trusted by (simp add: exercise_reserved_def)
      then show thesis by (rule stop) (simp add: withheld_outcome_def)
    next
      case GateVerified
      show thesis
      proof (cases "emergencyControlPermits ?q")
        case False
        then have "exercise_reserved P opts gate h r w = finish gate h w1 (withheld_by_emergency r assessment instant_text ?q)"
          using ra trusted GateVerified by (simp add: exercise_reserved_def)
        then show thesis by (rule stop) simp
      next
        case True
        note g = guardedI [OF ra [unfolded trusted(2)] trusted(1) True]
        show thesis
        proof (rule crossed)
          show "guarded P opts r w w1 g assessment" using g by simp
          show "gp_revalidate gate w1 h (exerciseControlInputFor r g (so_now opts w1)) = GateVerified"
            using g GateVerified by simp
          show "so_execute opts w1 (validated_action r g) = (answer, w2)" by (rule x)
        qed (use ra trusted GateVerified True x g in \<open>simp_all add: exercise_reserved_def finish_eq\<close>)
      qed
    qed
  qed
qed

text \<open>The five shapes an exercise can take.\<close>

lemma exercise_trace:
  obtains (silent) outcome w1 where "exercise P opts r w = (outcome, [], w1)" "withheld_outcome outcome"
  | (crossed) w1 w2 grant assessment answer where "so_exerciseControl opts = None"
      "guarded P opts r w w1 grant assessment" "so_execute opts w1 (validated_action r grant) = (answer, w2)"
      "exercise P opts r w =
         (adapter_outcome opts r assessment (so_now opts w1) answer, [EvExecute w1 (validated_action r grant)], w2)"
  | (refused) gate w1 input codes w2 outcome where "so_exerciseControl opts = Some gate"
      "gp_admit gate w1 input = (GateWithheld codes, w2)" "withheld_outcome outcome"
      "exercise P opts r w = (outcome, [EvAdmit w1 input], w2)"
  | (finalized) gate w1 input h w2 wz outcome where "so_exerciseControl opts = Some gate"
      "gp_admit gate w1 input = (GateAdmitted h, w2)" "withheld_outcome outcome"
      "exercise P opts r w = (outcome, [EvAdmit w1 input, EvFinalize wz h (reservationDispositionFor outcome)],
         snd (gp_finalize gate wz h (reservationDispositionFor outcome)))"
  | (reserved) gate w0 input h w2 w1 wz first grant assessment answer outcome where "so_exerciseControl opts = Some gate"
      "input = exerciseControlInputFor r first (so_now opts w0)" "w0 = snd (so_read opts w (er_boundedGrantId r))"
      "gp_admit gate w0 input = (GateAdmitted h, w2)" "guarded P opts r w2 w1 grant assessment"
      "gp_revalidate gate w1 h (exerciseControlInputFor r grant (so_now opts w1)) = GateVerified"
      "so_execute opts w1 (validated_action r grant) = (answer, wz)"
      "outcome = adapter_outcome opts r assessment (so_now opts w1) answer"
      "exercise P opts r w =
         (outcome, [EvAdmit w0 input, EvExecute w1 (validated_action r grant),
            EvFinalize wz h (reservationDispositionFor outcome)],
          snd (gp_finalize gate wz h (reservationDispositionFor outcome)))"
proof -
  obtain assessment grant instant_text w1 where ra: "readAndAssess P opts r w = (assessment, grant, instant_text, w1)"
    by (cases "readAndAssess P opts r w") auto
  show thesis
  proof (cases "usable assessment \<and> grant \<noteq> None")
    case False
    then show thesis
      using ra silent by (auto simp add: exercise_def withheld_outcome_def split: option.splits bool.splits)
  next
    case True
    then obtain g where g: "usable assessment" "grant = Some g" by blast
    note inst = readAndAssess_grant [OF ra [unfolded g(2)]]
    show thesis
    proof (cases "emergencyControlPermits (interlock opts w1 (emergencyQueryFor r g))")
      case False
      then show thesis using ra g silent by (simp add: exercise_def Let_def)
    next
      case permits: True
      note guard = guardedI [OF ra [unfolded g(2)] g(1) permits]
      let ?input = "exerciseControlInputFor r g instant_text"
      show thesis
      proof (cases "so_exerciseControl opts")
        case None
        obtain answer w2 where x: "so_execute opts w1 (validated_action r g) = (answer, w2)" by force
        show thesis by (rule crossed [OF None _ x]) (use ra g permits None x guard in \<open>simp_all add: exercise_def\<close>)
      next
        case (Some gate)
        obtain admission w2 where adm: "gp_admit gate w1 ?input = (admission, w2)" by force
        show thesis
        proof (cases admission)
          case (GateWithheld codes)
          show thesis
            by (rule refused [OF Some adm [unfolded GateWithheld]])
              (use ra g permits Some adm GateWithheld in \<open>simp_all add: exercise_def Let_def withheld_outcome_def\<close>)
        next
          case (GateAdmitted h)
          then have step: "exercise P opts r w =
              (case exercise_reserved P opts gate h r w2 of (outcome, events, w3) \<Rightarrow> (outcome, EvAdmit w1 ?input # events, w3))"
            using ra g permits Some adm by (simp add: exercise_def Let_def)
          note adm' = adm [unfolded GateAdmitted]
          show thesis
          proof (cases rule: exercise_reserved_trace [where P = P and opts = opts and gate = gate and h = h and r = r and w = w2])
            case (withheld wz outcome)
            then show thesis using finalized [OF Some adm' withheld(1)] step by simp
          next
            case (crossed wc wz grant assessment answer outcome)
            show thesis
              by (rule reserved [where first = g, OF Some _ _ adm' crossed(1-4)]) (use step crossed(5) inst in auto)
          qed
        qed
      qed
    qed
  qed
qed

section \<open>Properties\<close>

text \<open>
  C7: The whole trace of an exercise, for every store, clock, interlock, exercise control and
  adapter.  The adapter is asked at most once, and only in a world into which the grant was just
  read, at whose instant the attempt is usable under that grant and in which the interlock permits
  it, with an action built from the request and that grant.  Where exercise control is composed,
  the crossing also follows an admission, whose reservation is revalidated in the same world, and
  every admitted reservation is finalized exactly once, last, with the disposition of the outcome
  produced.  An exercise that did not ask the adapter reports a withholding.
\<close>

theorem effect_guarded:
  "case exercise P opts r w of (outcome, events, w') \<Rightarrow>
     case events of
       [] \<Rightarrow> withheld_outcome outcome
     | [EvAdmit wa input] \<Rightarrow>
         withheld_outcome outcome \<and>
         (\<exists>gate codes. so_exerciseControl opts = Some gate \<and> gp_admit gate wa input = (GateWithheld codes, w'))
     | [EvExecute w1 act] \<Rightarrow>
         so_exerciseControl opts = None \<and>
         (\<exists>grant assessment answer. guarded P opts r w w1 grant assessment \<and> act = validated_action r grant \<and>
            so_execute opts w1 act = (answer, w') \<and>
            outcome = adapter_outcome opts r assessment (so_now opts w1) answer)
     | [EvAdmit wa input, EvFinalize wz h d] \<Rightarrow>
         withheld_outcome outcome \<and> d = reservationDispositionFor outcome \<and>
         (\<exists>gate wb. so_exerciseControl opts = Some gate \<and> gp_admit gate wa input = (GateAdmitted h, wb) \<and>
            w' = snd (gp_finalize gate wz h d))
     | [EvAdmit wa input, EvExecute w1 act, EvFinalize wz h d] \<Rightarrow>
         d = reservationDispositionFor outcome \<and>
         (\<exists>gate wb grant assessment answer. so_exerciseControl opts = Some gate \<and>
            gp_admit gate wa input = (GateAdmitted h, wb) \<and>
            guarded P opts r wb w1 grant assessment \<and> act = validated_action r grant \<and>
            gp_revalidate gate w1 h (exerciseControlInputFor r grant (so_now opts w1)) = GateVerified \<and>
            so_execute opts w1 act = (answer, wz) \<and>
            outcome = adapter_outcome opts r assessment (so_now opts w1) answer \<and>
            w' = snd (gp_finalize gate wz h d))
     | _ \<Rightarrow> False"
proof (cases rule: exercise_trace [where P = P and opts = opts and r = r and w = w])
  case (crossed w1 w2 grant assessment answer)
  then show ?thesis by auto
next
  case (finalized gate w1 input h w2 wz outcome)
  then show ?thesis by auto
next
  case (reserved gate w0 input h w2 w1 wz first grant assessment answer outcome)
  then show ?thesis by auto
qed auto

text \<open>
  C30: What an outcome reports is what the adapter's answer establishes.  It is executed exactly
  when the answer reads as completed and unconfirmed exactly when it reads as unconfirmed, so only
  these two keep the reserved capacity; it is a withholding exactly when a composed registry threw
  the typed signal, and a failure otherwise.  An adapter that is no registry is always named under
  the identity it was composed with, and a reference is reported only if it is recordable.
\<close>

theorem outcome_truthful:
  "(is_Executed (adapter_outcome opts r assessment t answer) \<longleftrightarrow>
      (\<exists>v ref adapter. answer = AnswerValue v \<and> readExecutionAdapterResult v = Some (ResCompleted ref adapter))) \<and>
   (is_ExecutionUnconfirmed (adapter_outcome opts r assessment t answer) \<longleftrightarrow>
      (\<exists>v ref detail adapter. answer = AnswerValue v \<and>
         readExecutionAdapterResult v = Some (ResUnconfirmed ref detail adapter))) \<and>
   (withheld_outcome (adapter_outcome opts r assessment t answer) \<longleftrightarrow>
      so_trustedRegistry opts \<and> (\<exists>e. answer = AnswerThrew (ThrownWithheld e))) \<and>
   (case adapter_outcome opts r assessment t answer of
      Executed _ _ ref performer routedBy _ \<Rightarrow>
        (ref = None \<or> isRecordableProviderRef ref) \<and> (so_trustedRegistry opts \<or> performer = so_adapterId opts)
    | ExecutionUnconfirmed _ _ performer routedBy ref _ _ \<Rightarrow>
        (ref = None \<or> isRecordableProviderRef ref) \<and> (so_trustedRegistry opts \<or> performer = so_adapterId opts)
    | ExecutionFailed _ _ performer routedBy _ ref _ _ \<Rightarrow>
        (ref = None \<or> isRecordableProviderRef ref) \<and> (so_trustedRegistry opts \<or> performer = so_adapterId opts)
    | _ \<Rightarrow> True) \<and>
   ((\<exists>reason. reservationDispositionFor (adapter_outcome opts r assessment t answer) = DisposeSettle reason) \<longleftrightarrow>
      is_Executed (adapter_outcome opts r assessment t answer) \<or>
      is_ExecutionUnconfirmed (adapter_outcome opts r assessment t answer))"
proof (cases answer)
  case (AnswerValue v)
  show ?thesis
  proof (cases "readExecutionAdapterResult v")
    case None
    then show ?thesis using AnswerValue by (auto simp add: adapter_outcome_def withheld_outcome_def Let_def)
  next
    case (Some result)
    then show ?thesis
      using AnswerValue
      by (cases result)
        (auto simp add: adapter_outcome_def withheld_outcome_def performedBy_def referenceOf_def Let_def split: option.split)
  qed
next
  case (AnswerUnreadable e)
  then show ?thesis by (auto simp add: adapter_outcome_def withheld_outcome_def Let_def)
next
  case (AnswerThrew e)
  then show ?thesis by (cases e) (auto simp add: adapter_outcome_def withheld_outcome_def Let_def)
qed

end
