(* ===== verification/Deployment.thy ===== *)
theory Deployment
  imports Execution_Service
begin

text \<open>
  The components put together as a deployment composes them: the execution service over the
  in-memory grant store, the in-memory interlock and the exercise-control gate over the in-memory
  ledger, with an arbitrary provider, an arbitrary host policy and binding resolver, and other
  parties that act on the deployment whenever the service awaits a call.
\<close>

section \<open>A deployment\<close>

record deployment =
  d_grants :: grant_store
  d_stops :: emergency_store
  d_gate :: "exercise_ledger exercise_gate_state"
  d_clock :: string
  d_turn :: nat

text \<open>What the host composes, and what others do while a call is awaited.\<close>

record host =
  h_policy :: "deployment \<Rightarrow> exercise_control_query \<Rightarrow> js_error + js_value"
  h_binding :: "deployment \<Rightarrow> exercise_control_query \<Rightarrow> js_error + js_value"
  h_classifier :: financial_action_classifier
  h_observed :: bool
  h_adapterId :: string
  h_trustedRegistry :: bool
  h_execute :: "deployment \<Rightarrow> validated_execution_action \<Rightarrow> adapter_answer \<times> deployment"
  h_others :: "deployment \<Rightarrow> deployment"

definition d_ledger :: "deployment \<Rightarrow> exercise_ledger" where
  "d_ledger w = gs_ledger (d_gate w)"

definition gate_options :: "platform \<Rightarrow> host \<Rightarrow> deployment \<Rightarrow> exercise_ledger exercise_gate_options" where
  "gate_options P host w =
     \<lparr>gate_policy = h_policy host w, gate_authorityBinding = h_binding host w,
      gate_ledger = createInMemoryExerciseControlLedger P (d_clock w), gate_classifier = h_classifier host,
      gate_observed = h_observed host\<rparr>"

definition deployed_gate :: "platform \<Rightarrow> host \<Rightarrow> deployment exercise_gate_port" where
  "deployed_gate P host =
     \<lparr>gp_admit = (\<lambda>w input. case gate_admit P (gate_options P host w) (d_gate w) input of
        (admission, observed, st) \<Rightarrow> (admission, h_others host (w\<lparr>d_gate := st\<rparr>))),
      gp_revalidate = (\<lambda>w h input. gate_revalidate P (gate_options P host w) h input),
      gp_finalize = (\<lambda>w h disposition. case gate_finalize (gate_options P host w) (d_gate w) (Inr (d_clock w)) h disposition of
        (finalization, observed, st) \<Rightarrow> (finalization, h_others host (w\<lparr>d_gate := st\<rparr>)))\<rparr>"

definition deployed_service :: "platform \<Rightarrow> host \<Rightarrow> deployment execution_service_options" where
  "deployed_service P host =
     \<lparr>so_read = (\<lambda>w i. (Inr (mem_read (d_grants w) i), h_others host w)), so_adapterId = h_adapterId host,
      so_trustedRegistry = h_trustedRegistry host, so_execute = h_execute host,
      so_emergencyControl = Some (\<lambda>w. memory_reader (d_stops w)),
      so_exerciseControl = Some (deployed_gate P host), so_now = d_clock\<rparr>"

text \<open>Whoever acts on the ledger acts through its operations.\<close>

definition ledger_moves :: "platform \<Rightarrow> deployment \<Rightarrow> deployment \<Rightarrow> bool" where
  "ledger_moves P w w' \<longleftrightarrow> (\<exists>ops. d_ledger w' = ledger_run P (d_ledger w) ops)"

definition honest :: "platform \<Rightarrow> host \<Rightarrow> bool" where
  "honest P host \<longleftrightarrow>
     (\<forall>w. ledger_moves P w (h_others host w)) \<and> (\<forall>w act. ledger_moves P w (snd (h_execute host w act)))"

section \<open>The ledger only grows\<close>

lemma ledger_moves_refl [simp]: "ledger_moves P w w"
  unfolding ledger_moves_def by (metis ledger_run_simps(1))

lemma ledger_movesI: "gs_ledger st = ledger_run P (d_ledger w) ops \<Longrightarrow> ledger_moves P w (w\<lparr>d_gate := st\<rparr>)"
  by (auto simp add: ledger_moves_def d_ledger_def)

lemma ledger_moves_trans: "ledger_moves P a b \<Longrightarrow> ledger_moves P b c \<Longrightarrow> ledger_moves P a c"
  unfolding ledger_moves_def ledger_run_def by (metis foldl_append)

lemma ledger_moves_ok: "ledger_ok P (d_ledger w) \<Longrightarrow> ledger_moves P w w' \<Longrightarrow> ledger_ok P (d_ledger w')"
  unfolding ledger_moves_def using led.history_ok by (metis ledger_run_history)

lemma ledger_moves_reserved:
  assumes "ledger_ok P (d_ledger w)" "ledger_moves P w w'" "ledger_read (d_ledger w) i = Some v"
  shows "\<exists>v'. ledger_read (d_ledger w') i = Some v' \<and> view_reservation v' = view_reservation v"
  using assms led.history_extends unfolding ledger_moves_def view_extends_def by (metis ledger_run_history)

lemma finalize_moves:
  assumes "honest P host"
  shows "ledger_moves P w (snd (gp_finalize (deployed_gate P host) w h disposition))"
proof -
  obtain fin obs st where f: "gate_finalize (gate_options P host w) (d_gate w) (Inr (d_clock w)) h disposition = (fin, obs, st)"
    by (cases "gate_finalize (gate_options P host w) (d_gate w) (Inr (d_clock w)) h disposition")
  define kind where "kind = (case disposition of DisposeSettle reason \<Rightarrow> KindSettled | DisposeRelease reason \<Rightarrow> KindReleased)"
  define asked where "asked = (case disposition of DisposeSettle reason \<Rightarrow> reason | DisposeRelease reason \<Rightarrow> reason)"
  let ?inp = "\<lparr>ti_reservationId = handle_reservationId h, ti_reason = asked, ti_recordedAt = d_clock w\<rparr>"
  have "gs_ledger st = snd (ledger_terminal P (gs_ledger (d_gate w)) kind ?inp)"
    using f gate_finalize_memory [of "gate_options P host w" P "d_clock w" kind disposition asked] kind_def asked_def
    by (auto simp add: gate_options_def split: prod.splits sum.splits if_splits)
  then have "gs_ledger st = ledger_run P (d_ledger w) [OpFinish kind ?inp]"
    by (cases kind) (simp_all add: d_ledger_def ledger_settle_def ledger_release_def)
  then have "ledger_moves P w (w\<lparr>d_gate := st\<rparr>)" by (rule ledger_movesI)
  then show ?thesis
    using assms f by (auto simp add: deployed_gate_def honest_def intro: ledger_moves_trans)
qed

text \<open>An admission through the deployed gate is one new reservation of the attempt.\<close>

lemma admit_reserves:
  assumes "honest P host" "ledger_ok P (d_ledger w)" "gp_admit (deployed_gate P host) w input = (GateAdmitted h, w')"
  shows "ledger_moves P w w'"
    and "\<forall>i v. ledger_read (d_ledger w) i = Some v \<longrightarrow> rr_executionId (view_reservation v) \<noteq> ai_executionId input"
    and "\<exists>v. ledger_read (d_ledger w') (exerciseReservationId P (gg_id (ai_grant input)) (ai_executionId input)) = Some v \<and>
           rr_executionId (view_reservation v) = ai_executionId input \<and>
           rr_boundedGrantId (view_reservation v) = gg_id (ai_grant input)"
    and "handle_reservationId h = exerciseReservationId P (gg_id (ai_grant input)) (ai_executionId input)"
proof -
  obtain obs st where adm: "gate_admit P (gate_options P host w) (d_gate w) input = (GateAdmitted h, obs, st)"
    "w' = h_others host (w\<lparr>d_gate := st\<rparr>)"
    using assms(3) by (auto simp add: deployed_gate_def split: prod.splits)
  have mem: "gate_ledger (gate_options P host w) = createInMemoryExerciseControlLedger P (d_clock w)"
    by (simp add: gate_options_def)
  obtain digest limits rules r where a:
    "ledger_reserve P (d_ledger w) (d_clock w)
       (gate_request P input (gate_query (gate_options P host w) input) digest limits rules) = (Inr (Reserved r), gs_ledger st)"
    "handle_reservationId h = exerciseReservationId P (gg_id (ai_grant input)) (ai_executionId input)"
    using gate_admit_reserved [OF mem adm(1)] unfolding d_ledger_def by metis
  define req where "req = gate_request P input (gate_query (gate_options P host w) input) digest limits rules"
  note a' = a(1) [folded req_def]
  note new = led.reserve_reserved [OF assms(2) a']
  have st: "gs_ledger st = ledger_run P (d_ledger w) [OpReserve (d_clock w) req]" using a' by simp
  then have m: "ledger_moves P w (w\<lparr>d_gate := st\<rparr>)" by (rule ledger_movesI)
  have m': "ledger_moves P (w\<lparr>d_gate := st\<rparr>) w'" using assms(1) adm(2) by (simp add: honest_def)
  show "ledger_moves P w w'" using ledger_moves_trans [OF m m'] .
  have req: "rr_executionId req = ai_executionId input" "rr_boundedGrantId req = gg_id (ai_grant input)"
    "rr_reservationId req = exerciseReservationId P (gg_id (ai_grant input)) (ai_executionId input)"
    by (simp_all add: req_def gate_request_def)
  show "\<forall>i v. ledger_read (d_ledger w) i = Some v \<longrightarrow> rr_executionId (view_reservation v) \<noteq> ai_executionId input"
    using new req(1) by auto
  have "ledger_read (d_ledger (w\<lparr>d_gate := st\<rparr>)) (rr_reservationId req) =
      Some \<lparr>view_reservation = r, view_terminal = None, view_resolution = None\<rparr>"
    using new by (simp add: d_ledger_def)
  from ledger_moves_reserved [OF ledger_moves_ok [OF assms(2) m] m' this]
  show "\<exists>v. ledger_read (d_ledger w') (exerciseReservationId P (gg_id (ai_grant input)) (ai_executionId input)) = Some v \<and>
      rr_executionId (view_reservation v) = ai_executionId input \<and>
      rr_boundedGrantId (view_reservation v) = gg_id (ai_grant input)"
    using new req by (auto simp add: frozenCopy_fields)
  show "handle_reservationId h = exerciseReservationId P (gg_id (ai_grant input)) (ai_executionId input)" by (rule a(2))
qed

section \<open>A crossing, in full\<close>

definition crosses :: "'w service_event list \<Rightarrow> bool" where
  "crosses events \<longleftrightarrow> (\<exists>w act. EvExecute w act \<in> set events)"

lemma deployed_simps [simp]:
  "so_exerciseControl (deployed_service P host) = Some (deployed_gate P host)"
  "so_read (deployed_service P host) w i = (Inr (mem_read (d_grants w) i), h_others host w)"
  "so_now (deployed_service P host) = d_clock" "so_execute (deployed_service P host) = h_execute host"
  "gp_revalidate (deployed_gate P host) w h input = gate_revalidate P (gate_options P host w) h input"
  by (simp_all add: deployed_service_def deployed_gate_def)

lemma deployed_interlock:
  "interlock (deployed_service P host) w q = emergency_read (d_stops w) (query_js q)"
  by (simp add: interlock_def deployed_service_def read_memory)

text \<open>Everything known of the one crossing of an exercise: the admission before it, the guards at it, the ledger after.\<close>

lemma deployed_crossing:
  assumes "honest P host" "ledger_ok P (d_ledger w)" "exercise P (deployed_service P host) r w = (outcome, events, w')"
    and "EvExecute w1 act \<in> set events"
  obtains input h w2 grant assessment where "gp_admit (deployed_gate P host) (h_others host w) input = (GateAdmitted h, w2)"
    "ai_executionId input = er_executionId r" "guarded P (deployed_service P host) r w2 w1 grant assessment"
    "gate_revalidate P (gate_options P host w1) h (exerciseControlInputFor r grant (d_clock w1)) = GateVerified"
    "act = validated_action r grant" "w1 = h_others host w2" "ledger_moves P w2 w'"
proof (cases rule: exercise_trace [where P = P and opts = "deployed_service P host" and r = r and w = w])
  case (reserved gate w0 input h w2 wc wz first grant assessment answer out)
  have same: "wc = w1" "act = validated_action r grant" using reserved(9) assms(3,4) by auto
  have w1: "w1 = h_others host w2" using reserved(5) same(1) by (auto simp add: guarded_def)
  have "snd (h_execute host w1 (validated_action r grant)) = wz" using reserved(7) same(1) by simp
  then have "ledger_moves P w1 wz" using assms(1) unfolding honest_def by blast
  moreover have "ledger_moves P w2 w1" using assms(1) w1 by (simp add: honest_def)
  moreover have "ledger_moves P wz w'" using finalize_moves [OF assms(1)] reserved(1,9) assms(3) by auto
  ultimately have moves: "ledger_moves P w2 w'" using ledger_moves_trans by blast
  have gate: "gate = deployed_gate P host" "w0 = h_others host w" using reserved(1,3) by simp_all
  show thesis
  proof (rule that)
    show "gp_admit (deployed_gate P host) (h_others host w) input = (GateAdmitted h, w2)" using reserved(4) gate by simp
    show "ai_executionId input = er_executionId r" using reserved(2) by (simp add: exerciseControlInputFor_def)
    show "guarded P (deployed_service P host) r w2 w1 grant assessment" using reserved(5) same(1) by simp
    show "gate_revalidate P (gate_options P host w1) h (exerciseControlInputFor r grant (d_clock w1)) = GateVerified"
      using reserved(6) gate same(1) by simp
  qed (fact same(2) w1 moves)+
qed (use assms(3,4) in auto)

section \<open>A deployment for the witnesses\<close>

definition stored_grant :: bounded_grant where
  "stored_grant =
     (let g = (example_grant ''2024-01-02T00:00:00Z'')\<lparr>g_authorityBindingDigest := Some example_digest\<rparr>
      in g\<lparr>g_digest := boundedGrantDigest mixing_platform g\<rparr>)"

definition example_deployment :: deployment where
  "example_deployment =
     \<lparr>d_grants = \<lparr>store_grants = [(''g'', stored_grant)], store_revocations = []\<rparr>, d_stops = empty_emergency_store,
      d_gate = example_gate_state, d_clock = example_noon, d_turn = 0\<rparr>"

definition example_host :: host where
  "example_host =
     \<lparr>h_policy = (\<lambda>w query. Inr (JSArray [limit_js once_limit])),
      h_binding = (\<lambda>w query. Inr (JSString example_digest)),
      h_classifier = \<lparr>financial = [''payment''], financialActions = [''payment'']\<rparr>, h_observed = True,
      h_adapterId = ''pay'', h_trustedRegistry = False,
      h_execute = (\<lambda>w act. (AnswerValue (result_js (ResCompleted (Some ''tx-1'') None)), w\<lparr>d_turn := Suc (d_turn w)\<rparr>)),
      h_others = (\<lambda>w. w\<lparr>d_turn := Suc (d_turn w)\<rparr>)\<rparr>"

definition example_exercise :: grant_exercise_request where
  "example_exercise =
     \<lparr>er_boundedGrantId = ''g'', er_subject = ''agent'', er_action = ''payment'', er_resource = ''a'', er_counterparty = None,
      er_organization = None, er_amount = Some \<lparr>amount_value = ''40'', amount_unit = ''USD''\<rparr>, er_governanceProfile = None,
      er_actionClass = None, er_resourceClass = None, er_parameters = None, er_correlation = example_correlation,
      er_executionId = ''e1''\<rparr>"

lemma example_honest: "honest P example_host"
proof -
  have "ledger_moves P w (w\<lparr>d_turn := n\<rparr>)" for w n
    unfolding ledger_moves_def d_ledger_def by (intro exI [of _ "[]"]) simp
  then show ?thesis by (simp add: honest_def example_host_def)
qed

lemma example_ledger_ok: "ledger_ok P (d_ledger example_deployment)"
  by (simp add: example_deployment_def d_ledger_def example_gate_state_def ledger_ok_empty)

lemma example_crosses:
  obtains outcome events w' w1 act where
    "exercise mixing_platform (deployed_service mixing_platform example_host) example_exercise example_deployment =
       (outcome, events, w')" "EvExecute w1 act \<in> set events"
proof -
  have run: "case exercise mixing_platform (deployed_service mixing_platform example_host) example_exercise example_deployment of
      (outcome, events, w') \<Rightarrow> (case events of [a, EvExecute w1 act, b] \<Rightarrow> True | _ \<Rightarrow> False)"
    by code_simp
  obtain outcome events w' where e:
    "exercise mixing_platform (deployed_service mixing_platform example_host) example_exercise example_deployment =
       (outcome, events, w')"
    by (cases "exercise mixing_platform (deployed_service mixing_platform example_host) example_exercise example_deployment")
  then obtain a w1 act b where "events = [a, EvExecute w1 act, b]"
    using run by (auto split: list.splits service_event.splits)
  then show thesis using that e by auto
qed

section \<open>Properties\<close>

text \<open>
  C1: An effect happens only under authority that still stands.  When a deployment asks its
  provider, whatever other parties did while the service waited, the grant store held, when it was
  last read, the very grant the action names its holder and expiry from, unrevoked; at the instant
  of the crossing that grant has not expired, its digest and marker agree, its scope admits the
  attempt on every axis and parameter, the binding it was issued under still resolves to the same
  digest, no stop in the interlock applies, and the ledger holds a reservation of this execution.
\<close>

theorem effect_under_authority:
  assumes "honest P host" "ledger_ok P (d_ledger w)" "exercise P (deployed_service P host) r w = (outcome, events, w')"
    and "EvExecute w1 act \<in> set events"
  shows "\<exists>w2 grant digest v. w1 = h_others host w2 \<and> act = validated_action r grant \<and>
    mem_read (d_grants w2) (er_boundedGrantId r) = (Some grant, None) \<and>
    grant_stands P grant None (d_clock w1) \<and> er_subject r = g_subject grant \<and> er_correlation r = g_correlation grant \<and>
    scope_admits P (g_scope grant) (attempt_of r) \<and>
    g_authorityBindingDigest grant = Some digest \<and>
    h_binding host w1 (gate_query (gate_options P host w1) (exerciseControlInputFor r grant (d_clock w1))) = Inr (JSString digest) \<and>
    emergencyControlPermits (emergency_read (d_stops w1) (query_js (emergencyQueryFor r grant))) \<and>
    ledger_read (d_ledger w1) (exerciseReservationId P (grant_id grant) (er_executionId r)) = Some v \<and>
    rr_executionId (view_reservation v) = er_executionId r"
proof -
  obtain input h w2 grant assessment where c:
    "gp_admit (deployed_gate P host) (h_others host w) input = (GateAdmitted h, w2)"
    "ai_executionId input = er_executionId r" "guarded P (deployed_service P host) r w2 w1 grant assessment"
    "gate_revalidate P (gate_options P host w1) h (exerciseControlInputFor r grant (d_clock w1)) = GateVerified"
    "act = validated_action r grant" "w1 = h_others host w2"
    using deployed_crossing [OF assms] by metis
  obtain revocation where g: "mem_read (d_grants w2) (er_boundedGrantId r) = (Some grant, revocation)"
    "usable (assessBoundedGrantExercise P grant revocation r (d_clock w1))"
    "emergencyControlPermits (emergency_read (d_stops w1) (query_js (emergencyQueryFor r grant)))"
    using c(3) by (auto simp add: guarded_def deployed_interlock)
  note u = g(2) [unfolded usable_iff]
  have rev: "revocation = None"
    using u by (auto simp add: grant_stands_def assessGrantExercise_def Let_def split: if_splits)
  obtain digest where d: "g_authorityBindingDigest grant = Some digest"
    "h_binding host w1 (gate_query (gate_options P host w1) (exerciseControlInputFor r grant (d_clock w1))) = Inr (JSString digest)"
    "exerciseReservationId P (grant_id grant) (er_executionId r) = handle_reservationId h"
    using c(4)
    by (auto simp add: gate_revalidate_def binding_verified_iff gate_query_def exerciseControlInputFor_def gate_options_def
      split: if_splits exercise_binding_verification.splits)
  have ok: "ledger_ok P (d_ledger (h_others host w))" "ledger_moves P w2 w1"
    using assms(1) ledger_moves_ok [OF assms(2)] c(6) by (auto simp add: honest_def)
  obtain v where v: "ledger_read (d_ledger w2) (handle_reservationId h) = Some v"
    "rr_executionId (view_reservation v) = er_executionId r"
    using admit_reserves [OF assms(1) ok(1) c(1)] c(2) by auto
  have "ledger_ok P (d_ledger w2)" using ledger_moves_ok [OF ok(1) admit_reserves(1) [OF assms(1) ok(1) c(1)]] .
  then obtain v' where "ledger_read (d_ledger w1) (handle_reservationId h) = Some v'"
    "rr_executionId (view_reservation v') = er_executionId r"
    using ledger_moves_reserved [OF _ ok(2) v(1)] v(2) by auto
  then show ?thesis using c(5,6) g rev u d covers_admits by auto
qed

theorem effect_under_authority_witness:
  "\<exists>outcome events w' w1 act w2 grant.
     exercise mixing_platform (deployed_service mixing_platform example_host) example_exercise example_deployment =
       (outcome, events, w') \<and> EvExecute w1 act \<in> set events \<and> act = validated_action example_exercise grant \<and>
     w1 = h_others example_host w2 \<and> mem_read (d_grants w2) ''g'' = (Some grant, None) \<and>
     scope_admits mixing_platform (g_scope grant) (attempt_of example_exercise)"
proof -
  obtain outcome events w' w1 act where e:
    "exercise mixing_platform (deployed_service mixing_platform example_host) example_exercise example_deployment =
       (outcome, events, w')" "EvExecute w1 act \<in> set events"
    by (rule example_crosses)
  have i: "er_boundedGrantId example_exercise = ''g''" by (simp add: example_exercise_def)
  obtain w2 grant where g: "act = validated_action example_exercise grant" "w1 = h_others example_host w2"
    "mem_read (d_grants w2) (er_boundedGrantId example_exercise) = (Some grant, None)"
    "scope_admits mixing_platform (g_scope grant) (attempt_of example_exercise)"
    using effect_under_authority [OF example_honest example_ledger_ok e] by blast
  show ?thesis using e g(1,2,4) g(3) [unfolded i] by blast
qed

text \<open>
  C6: One execution identity reaches the provider at most once.  After an exercise that asked the
  provider, however the ledger moved on by its operations, every later exercise with the same
  execution identity, under whichever grant, is withheld without asking the provider again.
\<close>

theorem one_effect_per_execution:
  assumes "honest P host" "ledger_ok P (d_ledger w)" "exercise P (deployed_service P host) r w = (outcome, events, w')"
    and "EvExecute w1 act \<in> set events" "ledger_moves P w' later" "er_executionId again = er_executionId r"
    and "exercise P (deployed_service P host) again later = (outcome', events', w'')"
  shows "\<not> crosses events' \<and> withheld_outcome outcome'"
proof -
  obtain input h w2 where c: "gp_admit (deployed_gate P host) (h_others host w) input = (GateAdmitted h, w2)"
    "ai_executionId input = er_executionId r" "ledger_moves P w2 w'"
    using deployed_crossing [OF assms(1-4)] by metis
  have ok: "ledger_ok P (d_ledger (h_others host w))" using assms(1) ledger_moves_ok [OF assms(2)] by (auto simp add: honest_def)
  obtain i v where v: "ledger_read (d_ledger w2) i = Some v" "rr_executionId (view_reservation v) = er_executionId r"
    using admit_reserves [OF assms(1) ok c(1)] c(2) by auto
  have ok2: "ledger_ok P (d_ledger w2)" using ledger_moves_ok [OF ok admit_reserves(1) [OF assms(1) ok c(1)]] .
  have move: "ledger_moves P w2 later" "ledger_moves P later (h_others host later)"
    using ledger_moves_trans [OF c(3) assms(5)] assms(1) by (auto simp add: honest_def)
  obtain v' where v': "ledger_read (d_ledger (h_others host later)) i = Some v'"
    "rr_executionId (view_reservation v') = er_executionId r"
    using ledger_moves_reserved [OF ok2 ledger_moves_trans [OF move] v(1)] v(2) by auto
  have ok3: "ledger_ok P (d_ledger later)" "ledger_ok P (d_ledger (h_others host later))"
    using ledger_moves_ok [OF ok2] move ledger_moves_trans by blast+
  have "\<not> crosses events'"
  proof
    assume "crosses events'"
    then obtain wa a where x: "EvExecute wa a \<in> set events'" by (auto simp add: crosses_def)
    obtain input' h' w3 where "gp_admit (deployed_gate P host) (h_others host later) input' = (GateAdmitted h', w3)"
      "ai_executionId input' = er_executionId again"
      using deployed_crossing [OF assms(1) ok3(1) assms(7) x] by metis
    then show False using admit_reserves(2) [OF assms(1) ok3(2)] v' assms(6) by metis
  qed
  then show ?thesis
    using assms(7)
    by (cases rule: exercise_trace [where P = P and opts = "deployed_service P host" and r = again and w = later])
      (auto simp add: crosses_def)
qed

theorem one_effect_per_execution_witness:
  "\<exists>outcome events w' w1 act.
     exercise mixing_platform (deployed_service mixing_platform example_host) example_exercise example_deployment =
       (outcome, events, w') \<and> EvExecute w1 act \<in> set events \<and>
     withheld_outcome (fst (exercise mixing_platform (deployed_service mixing_platform example_host) example_exercise w'))"
proof -
  obtain outcome events w' w1 act where e:
    "exercise mixing_platform (deployed_service mixing_platform example_host) example_exercise example_deployment =
       (outcome, events, w')" "EvExecute w1 act \<in> set events"
    by (rule example_crosses)
  obtain outcome' events' w'' where a:
    "exercise mixing_platform (deployed_service mixing_platform example_host) example_exercise w' = (outcome', events', w'')"
    by (cases "exercise mixing_platform (deployed_service mixing_platform example_host) example_exercise w'")
  show ?thesis
    using one_effect_per_execution [OF example_honest example_ledger_ok e ledger_moves_refl refl a] e a by auto
qed

end
