(* ===== verification/Obligations.thy ===== *)
theory Obligations
  imports Grant_Bounds
begin

text \<open>
  The obligation runtime (\<open>features/obligation-runtime\<close>): the conditions a deployment declares
  on the exercise of an authorized action, the lifecycle each of them walks, and the service
  that derives the state of every obligation from what a discharge provider reported.

  \<^item> Configuration (sources, declaration) is read from raw values, since its validators test
    the types at run time; a violation is a constructor that carries what its message names.
  \<^item> An observation is typed except for its outcome, which is the string the provider sent: an
    outcome outside the declared four makes the service throw.
  \<^item> The theorems: every history is a legal walk of at most three steps, states refine a
    machine over the admissible reports, an obligation is satisfied exactly by an independent
    discharge or a timely independent waiver, and states do not depend on the order in which a
    provider lists its observations.
\<close>

section \<open>States and transitions\<close>

datatype obligation_state = Required | Pending | Discharged | Verified | Waived | Expired

definition OBLIGATION_STATES :: "obligation_state list" where
  "OBLIGATION_STATES = [Required, Pending, Discharged, Verified, Waived, Expired]"

definition TERMINAL_OBLIGATION_STATES :: "obligation_state list" where
  "TERMINAL_OBLIGATION_STATES = [Verified, Waived, Expired]"

definition SATISFYING_OBLIGATION_STATES :: "obligation_state list" where
  "SATISFYING_OBLIGATION_STATES = [Verified, Waived]"

fun OBLIGATION_STATE_TRANSITIONS :: "obligation_state \<Rightarrow> obligation_state list" where
  "OBLIGATION_STATE_TRANSITIONS Required = [Pending, Waived, Expired]"
| "OBLIGATION_STATE_TRANSITIONS Pending = [Discharged, Waived, Expired]"
| "OBLIGATION_STATE_TRANSITIONS Discharged = [Verified, Expired]"
| "OBLIGATION_STATE_TRANSITIONS Verified = []"
| "OBLIGATION_STATE_TRANSITIONS Waived = []"
| "OBLIGATION_STATE_TRANSITIONS Expired = []"

definition isTerminalObligationState :: "obligation_state \<Rightarrow> bool" where
  "isTerminalObligationState s \<longleftrightarrow> s \<in> set TERMINAL_OBLIGATION_STATES"

definition obligationStateSatisfies :: "obligation_state \<Rightarrow> bool" where
  "obligationStateSatisfies s \<longleftrightarrow> s \<in> set SATISFYING_OBLIGATION_STATES"

definition isLegalObligationTransition :: "obligation_state \<Rightarrow> obligation_state \<Rightarrow> bool" where
  "isLegalObligationTransition from_state to_state \<longleftrightarrow>
     to_state \<in> set (OBLIGATION_STATE_TRANSITIONS from_state)"

definition OBLIGATION_PROGRESS_CHAIN :: "obligation_state list" where
  "OBLIGATION_PROGRESS_CHAIN = [Required, Pending, Discharged, Verified]"

fun index_of :: "'a list \<Rightarrow> 'a \<Rightarrow> nat option" where
  "index_of [] x = None"
| "index_of (y # ys) x = (if y = x then Some 0 else map_option Suc (index_of ys x))"

definition obligationProgressRank :: "obligation_state \<Rightarrow> nat option" where
  "obligationProgressRank s = index_of OBLIGATION_PROGRESS_CHAIN s"

definition isObligationExpiredAt :: "platform \<Rightarrow> string \<Rightarrow> string \<Rightarrow> bool" where
  "isObligationExpiredAt P expires now =
     (case (Date_parse P expires, Date_parse P now) of
        (Some deadline, Some t) \<Rightarrow> deadline \<le> t
      | _ \<Rightarrow> False)"

section \<open>Correlation\<close>

record obligation_correlation =
  oc_requestId :: string
  oc_action :: string
  oc_resourceScope :: string

definition obligationCorrelationMatches :: "obligation_correlation \<Rightarrow> obligation_correlation \<Rightarrow> bool" where
  "obligationCorrelationMatches l r \<longleftrightarrow>
     oc_requestId l = oc_requestId r \<and> oc_action l = oc_action r \<and>
     oc_resourceScope l = oc_resourceScope r"

definition obligationInstanceId :: "obligation_correlation \<Rightarrow> string \<Rightarrow> string" where
  "obligationInstanceId c obligation_type =
     ''aoc.obligation:'' @ oc_requestId c @ '':'' @ oc_action c @ '':'' @ oc_resourceScope c @ '':'' @
     obligation_type"

section \<open>Discharge sources\<close>

datatype discharge_source_kind =
    RequestKind | InternalStoreKind | ApprovalRuntimeKind | ProviderAdapterKind
  | SignedAttestationKind | ExternalApiKind

datatype verification_class = Independent | SelfReported

definition OBLIGATION_DISCHARGE_SOURCE_KINDS :: "(string \<times> discharge_source_kind) list" where
  "OBLIGATION_DISCHARGE_SOURCE_KINDS =
     [(''request'', RequestKind), (''internal_store'', InternalStoreKind),
      (''approval_runtime'', ApprovalRuntimeKind), (''provider_adapter'', ProviderAdapterKind),
      (''signed_attestation'', SignedAttestationKind), (''external_api'', ExternalApiKind)]"

definition OBLIGATION_DISCHARGE_VERIFICATION_CLASSES :: "(string \<times> verification_class) list" where
  "OBLIGATION_DISCHARGE_VERIFICATION_CLASSES =
     [(''independent'', Independent), (''self_reported'', SelfReported)]"

record discharge_source =
  os_id :: string
  os_kind :: discharge_source_kind
  os_name :: string
  os_class :: verification_class

fun read_source_kind :: "js_value \<Rightarrow> discharge_source_kind option" where
  "read_source_kind (JSString s) = map_of OBLIGATION_DISCHARGE_SOURCE_KINDS s"
| "read_source_kind _ = None"

fun read_verification_class :: "js_value \<Rightarrow> verification_class option" where
  "read_verification_class (JSString s) = map_of OBLIGATION_DISCHARGE_VERIFICATION_CLASSES s"
| "read_verification_class _ = None"

fun non_blank_string :: "js_value \<Rightarrow> bool" where
  "non_blank_string (JSString s) = (js_trim s \<noteq> [])"
| "non_blank_string _ = False"

datatype obligation_violation =
    SourceIdRequired
  | SourceNameRequired js_value
  | SourceKindUndeclared js_value js_value
  | SourceClassUndeclared js_value js_value
  | RequestSourceNotSelfReported js_value
  | IndependenceNotAvailable js_value
  | SourceRegisteredTwice js_value
  | RequirementsNotAnArray
  | RequirementTypeMalformed js_value
  | RequirementDeclaredTwice string
  | RequirementBlockingUnstated string
  | RequirementDeadlineMalformed string

datatype obligation_error =
    ObligationConfigurationError string "obligation_violation list"
  | ObligationTypeError

definition validateObligationDischargeSource :: "js_value \<Rightarrow> obligation_violation list" where
  "validateObligationDischargeSource src =
     (let sid = js_get src ''id'';
          kind = read_source_kind (js_get src ''kind'');
          verification = read_verification_class (js_get src ''verificationClass'')
      in (if non_blank_string sid then [] else [SourceIdRequired]) @
         (if non_blank_string (js_get src ''name'') then [] else [SourceNameRequired sid]) @
         (if kind \<noteq> None then [] else [SourceKindUndeclared sid (js_get src ''kind'')]) @
         (if verification \<noteq> None then []
          else [SourceClassUndeclared sid (js_get src ''verificationClass'')]) @
         (if kind = Some RequestKind \<and> verification \<noteq> Some SelfReported
          then [RequestSourceNotSelfReported sid] else []) @
         (if verification = Some Independent \<and>
             kind \<notin> {Some ApprovalRuntimeKind, Some ProviderAdapterKind, Some SignedAttestationKind}
          then [IndependenceNotAvailable sid] else []))"

text \<open>A source that passed the validation, as the typed record later code reads.\<close>

fun string_of_js :: "js_value \<Rightarrow> string" where
  "string_of_js (JSString s) = s"
| "string_of_js _ = []"

definition read_discharge_source :: "js_value \<Rightarrow> discharge_source" where
  "read_discharge_source src =
     \<lparr>os_id = string_of_js (js_get src ''id''),
      os_kind = the (read_source_kind (js_get src ''kind'')),
      os_name = string_of_js (js_get src ''name''),
      os_class = the (read_verification_class (js_get src ''verificationClass''))\<rparr>"

text \<open>
  The constructor of the registry: violations of all sources, a second registration among
  them, are collected before it throws.  The keys seen so far are the raw ids.
\<close>

fun collect_sources ::
  "js_value list \<Rightarrow> js_value list \<Rightarrow> obligation_violation list \<Rightarrow>
     obligation_error + obligation_violation list" where
  "collect_sources seen [] violations = Inr violations"
| "collect_sources seen (src # rest) violations =
     (if src = JSNull \<or> src = JSUndefined then Inl ObligationTypeError
      else
        let sid = js_get src ''id''
        in collect_sources (sid # seen) rest
             (violations @ validateObligationDischargeSource src @
              (if sid \<in> set seen then [SourceRegisteredTwice sid] else [])))"

type_synonym source_registry = "(string \<times> discharge_source) list"

definition createObligationDischargeSourceRegistry ::
  "js_value list \<Rightarrow> obligation_error + source_registry" where
  "createObligationDischargeSourceRegistry sources =
     (case collect_sources [] sources [] of
        Inl e \<Rightarrow> Inl e
      | Inr violations \<Rightarrow>
          if violations \<noteq> []
          then Inl (ObligationConfigurationError
                 ''Obligation discharge source configuration is invalid.'' violations)
          else Inr (map (\<lambda>src. (os_id src, src)) (map read_discharge_source sources)))"

definition registry_get :: "source_registry \<Rightarrow> string \<Rightarrow> discharge_source option" where
  "registry_get = map_of"

definition compare_strings :: "string \<Rightarrow> string \<Rightarrow> int" where
  "compare_strings a b = (if a < b then -1 else if b < a then 1 else 0)"

definition registry_list :: "source_registry \<Rightarrow> discharge_source list" where
  "registry_list reg = sort_by (\<lambda>l r. compare_strings (os_id l) (os_id r)) (map snd reg)"

section \<open>Declarations\<close>

record obligation_requirement =
  or_type :: string
  or_blocking :: bool
  or_expiresAt :: "string option"

definition OBLIGATION_TYPE_MAX_LENGTH :: nat where
  "OBLIGATION_TYPE_MAX_LENGTH = 64"

text \<open>The grammar of an obligation kind is the grammar of a semantic identifier.\<close>

definition isObligationType :: "string \<Rightarrow> bool" where
  "isObligationType s \<longleftrightarrow>
     s \<noteq> [] \<and> length s \<le> OBLIGATION_TYPE_MAX_LENGTH \<and> SEMANTIC_IDENTIFIER s"

fun is_js_bool :: "js_value \<Rightarrow> bool" where
  "is_js_bool (JSBool b) = True"
| "is_js_bool _ = False"

fun deadline_malformed :: "platform \<Rightarrow> js_value \<Rightarrow> bool" where
  "deadline_malformed P JSUndefined = False"
| "deadline_malformed P (JSString s) = (Date_parse P s = None)"
| "deadline_malformed P _ = True"

fun requirement_violations ::
  "platform \<Rightarrow> string list \<Rightarrow> js_value list \<Rightarrow> obligation_violation list \<Rightarrow>
     obligation_error + obligation_violation list" where
  "requirement_violations P seen [] violations = Inr violations"
| "requirement_violations P seen (requirement # rest) violations =
     (if requirement = JSNull \<or> requirement = JSUndefined then Inl ObligationTypeError
      else case js_get requirement ''obligationType'' of
        JSString t \<Rightarrow>
          if \<not> isObligationType t
          then requirement_violations P seen rest (violations @ [RequirementTypeMalformed (JSString t)])
          else requirement_violations P (semanticIdentifierFold t # seen) rest
            (violations @
             (if semanticIdentifierFold t \<in> set seen then [RequirementDeclaredTwice t] else []) @
             (if is_js_bool (js_get requirement ''blocking'') then [] else [RequirementBlockingUnstated t]) @
             (if deadline_malformed P (js_get requirement ''expiresAt'')
              then [RequirementDeadlineMalformed t] else []))
      | v \<Rightarrow> requirement_violations P seen rest (violations @ [RequirementTypeMalformed v]))"

definition validateObligationDeclaration ::
  "platform \<Rightarrow> js_value \<Rightarrow> obligation_error + obligation_violation list" where
  "validateObligationDeclaration P declaration =
     (case js_get declaration ''requirements'' of
        JSArray requirements \<Rightarrow> requirement_violations P [] requirements []
      | _ \<Rightarrow>
          if declaration = JSNull \<or> declaration = JSUndefined then Inl ObligationTypeError
          else Inr [RequirementsNotAnArray])"

fun optional_text :: "js_value \<Rightarrow> string option" where
  "optional_text (JSString s) = Some s"
| "optional_text _ = None"

definition read_requirement :: "js_value \<Rightarrow> obligation_requirement" where
  "read_requirement requirement =
     \<lparr>or_type = string_of_js (js_get requirement ''obligationType''),
      or_blocking = (js_get requirement ''blocking'' = JSBool True),
      or_expiresAt = optional_text (js_get requirement ''expiresAt'')\<rparr>"

section \<open>Observations\<close>

record obligation_observation =
  ob_type :: string
  ob_correlation :: obligation_correlation
  ob_sourceId :: string
  ob_outcome :: string
  ob_observedAt :: string
  ob_subjectId :: "string option"
  ob_reference :: "string option"

definition OBLIGATION_DISCHARGE_OUTCOMES :: "string list" where
  "OBLIGATION_DISCHARGE_OUTCOMES = [''pending'', ''discharged'', ''refused'', ''waived'']"

record discharge_record =
  dr_sourceId :: string
  dr_sourceKind :: discharge_source_kind
  dr_class :: verification_class
  dr_outcome :: string
  dr_observedAt :: string
  dr_subjectId :: "string option"
  dr_reference :: "string option"

record verification_record =
  vr_sourceId :: string
  vr_sourceKind :: discharge_source_kind
  vr_class :: verification_class
  vr_observedAt :: string
  vr_subjectId :: "string option"
  vr_reference :: "string option"

datatype disregard_reason =
    UnregisteredSource | UndeclaredObligation | CorrelationMismatch | WaiverNotIndependent
  | VerificationNotApplicable | IllegalTransition

fun disregard_reason_name :: "disregard_reason \<Rightarrow> string" where
  "disregard_reason_name UnregisteredSource = ''unregistered_source''"
| "disregard_reason_name UndeclaredObligation = ''undeclared_obligation''"
| "disregard_reason_name CorrelationMismatch = ''correlation_mismatch''"
| "disregard_reason_name WaiverNotIndependent = ''waiver_not_independent''"
| "disregard_reason_name VerificationNotApplicable = ''verification_not_applicable''"
| "disregard_reason_name IllegalTransition = ''illegal_transition''"

record disregarded_observation =
  di_type :: string
  di_sourceId :: string
  di_outcome :: string
  di_observedAt :: string
  di_reason :: disregard_reason

datatype observation_violation =
    ObservationTypeRequired
  | ObservationSourceRequired js_value
  | ObservationOutcomeUndeclared js_value js_value
  | ObservationInstantMalformed js_value
  | ObservationCorrelationIncomplete js_value

fun is_js_string :: "js_value \<Rightarrow> bool" where
  "is_js_string (JSString s) = True"
| "is_js_string _ = False"

text \<open>
  The shape check of an observation.  A correlation of \<open>null\<close> is read for its fields and makes
  the check throw.
\<close>

definition validateObligationDischargeObservation ::
  "platform \<Rightarrow> js_value \<Rightarrow> js_error + observation_violation list" where
  "validateObligationDischargeObservation P observation =
     (let t = js_get observation ''obligationType'';
          outcome = js_get observation ''outcome'';
          correlation = js_get observation ''correlation'';
          instant_ok = (case js_get observation ''observedAt'' of
                          JSString s \<Rightarrow> Date_parse P s \<noteq> None | _ \<Rightarrow> False)
      in if observation = JSNull \<or> observation = JSUndefined
         then Inl (TypeError ''Cannot read properties of null or undefined'')
         else if correlation = JSNull
         then Inl (TypeError ''Cannot read properties of null'')
         else Inr
           ((if non_blank_string t then [] else [ObservationTypeRequired]) @
            (if non_blank_string (js_get observation ''sourceId'') then [] else [ObservationSourceRequired t]) @
            (if outcome \<in> JSString ` set OBLIGATION_DISCHARGE_OUTCOMES then []
             else [ObservationOutcomeUndeclared t outcome]) @
            (if instant_ok then [] else [ObservationInstantMalformed t]) @
            (if correlation \<noteq> JSUndefined \<and> is_js_string (js_get correlation ''requestId'') \<and>
                is_js_string (js_get correlation ''action'') \<and>
                is_js_string (js_get correlation ''resourceScope'')
             then [] else [ObservationCorrelationIncomplete t])))"

section \<open>Instances and the one function that moves them\<close>

datatype transition_reason =
  Activated | DischargeReported | DischargeConfirmed | WaiverRecorded | DeadlinePassed

record obligation_transition =
  tr_from :: obligation_state
  tr_to :: obligation_state
  tr_at :: string
  tr_reason :: transition_reason

record obligation_instance =
  oi_id :: string
  oi_type :: string
  oi_blocking :: bool
  oi_correlation :: obligation_correlation
  oi_state :: obligation_state
  oi_declaredAt :: string
  oi_transitions :: "obligation_transition list"
  oi_discharge :: "discharge_record option"
  oi_verification :: "verification_record option"
  oi_expiresAt :: "string option"

definition declareObligation ::
  "string \<Rightarrow> bool \<Rightarrow> obligation_correlation \<Rightarrow> string \<Rightarrow> string option \<Rightarrow> obligation_instance" where
  "declareObligation obligation_type blocking correlation now expires =
     \<lparr>oi_id = obligationInstanceId correlation obligation_type, oi_type = obligation_type,
      oi_blocking = blocking, oi_correlation = correlation, oi_state = Required,
      oi_declaredAt = now, oi_transitions = [], oi_discharge = None, oi_verification = None,
      oi_expiresAt = expires\<rparr>"

definition obligationIsSatisfied :: "obligation_instance \<Rightarrow> bool" where
  "obligationIsSatisfied i = obligationStateSatisfies (oi_state i)"

definition obligationWithholdsExercise :: "obligation_instance \<Rightarrow> bool" where
  "obligationWithholdsExercise i = (if \<not> oi_blocking i then False else \<not> obligationStateSatisfies (oi_state i))"

definition obligationIsTerminal :: "obligation_instance \<Rightarrow> bool" where
  "obligationIsTerminal i = isTerminalObligationState (oi_state i)"

datatype transition_outcome =
    Applied obligation_instance
  | Unchanged obligation_instance
  | Illegal obligation_instance obligation_state obligation_state

definition transitionObligation ::
  "obligation_instance \<Rightarrow> obligation_state \<Rightarrow> string \<Rightarrow> transition_reason \<Rightarrow> discharge_record option \<Rightarrow>
     transition_outcome" where
  "transitionObligation i to_state now reason discharge =
     (if oi_state i = to_state then Unchanged i
      else if (case (obligationProgressRank (oi_state i), obligationProgressRank to_state) of
                 (Some current_rank, Some target_rank) \<Rightarrow> target_rank < current_rank
               | _ \<Rightarrow> False)
      then Unchanged i
      else if \<not> isLegalObligationTransition (oi_state i) to_state
      then Illegal i (oi_state i) to_state
      else Applied (i\<lparr>oi_state := to_state,
        oi_transitions := oi_transitions i @
          [\<lparr>tr_from = oi_state i, tr_to = to_state, tr_at = now, tr_reason = reason\<rparr>],
        oi_discharge := (if discharge = None then oi_discharge i else discharge)\<rparr>))"

section \<open>The lifecycle service\<close>

datatype exercise_eligibility = Eligible | Blocked

record obligation_resolution =
  res_resolved :: bool
  res_declaredTypes :: "string list"
  res_obligations :: "obligation_instance list"
  res_disregarded :: "disregarded_observation list"
  res_eligibility :: exercise_eligibility
  res_resolvedAt :: string

definition OBLIGATION_RESERVED_REQUEST_KEY_PREFIX :: string where
  "OBLIGATION_RESERVED_REQUEST_KEY_PREFIX = ''aoc.obligations''"

definition isReservedObligationKey :: "string \<Rightarrow> bool" where
  "isReservedObligationKey key \<longleftrightarrow>
     key = OBLIGATION_RESERVED_REQUEST_KEY_PREFIX \<or>
     take (length OBLIGATION_RESERVED_REQUEST_KEY_PREFIX + 1) key =
       OBLIGATION_RESERVED_REQUEST_KEY_PREFIX @ ''.''"

definition unresolvedObligationResolution ::
  "string list \<Rightarrow> obligation_instance list \<Rightarrow> string \<Rightarrow> obligation_resolution" where
  "unresolvedObligationResolution declared obligations now =
     \<lparr>res_resolved = False, res_declaredTypes = sort declared, res_obligations = obligations,
      res_disregarded = [],
      res_eligibility = (if list_ex oi_blocking obligations then Blocked else Eligible),
      res_resolvedAt = now\<rparr>"

record lifecycle_service =
  ls_registry :: source_registry
  ls_requirementsByType :: "(string \<times> obligation_requirement) list"
  ls_declared :: "string list"

fun declared_requirements :: "js_value \<Rightarrow> js_value list" where
  "declared_requirements (JSArray requirements) = requirements"
| "declared_requirements _ = []"

definition createObligationLifecycleService ::
  "platform \<Rightarrow> js_value list \<Rightarrow> js_value \<Rightarrow> obligation_error + lifecycle_service" where
  "createObligationLifecycleService P sources declaration =
     (case validateObligationDeclaration P declaration of
        Inl e \<Rightarrow> Inl e
      | Inr violations \<Rightarrow>
          if violations \<noteq> []
          then Inl (ObligationConfigurationError ''Obligation declaration is invalid.'' violations)
          else (case createObligationDischargeSourceRegistry sources of
             Inl e \<Rightarrow> Inl e
           | Inr reg \<Rightarrow>
               let requirements =
                     map read_requirement (declared_requirements (js_get declaration ''requirements''))
               in Inr \<lparr>ls_registry = reg,
                       ls_requirementsByType =
                         foldl (\<lambda>m r. AList.update (or_type r) r m) [] requirements,
                       ls_declared = sort (js_set (map or_type requirements))\<rparr>))"

definition service_requirements :: "lifecycle_service \<Rightarrow> obligation_requirement list" where
  "service_requirements svc = map snd (ls_requirementsByType svc)"

definition service_sources :: "lifecycle_service \<Rightarrow> discharge_source list" where
  "service_sources svc = registry_list (ls_registry svc)"

definition declare_obligations ::
  "lifecycle_service \<Rightarrow> obligation_correlation \<Rightarrow> string \<Rightarrow> obligation_instance list" where
  "declare_obligations svc correlation now =
     map (\<lambda>t. let requirement = map_of (ls_requirementsByType svc) t
              in declareObligation t (case requirement of None \<Rightarrow> False | Some r \<Rightarrow> or_blocking r)
                   correlation now (Option.bind requirement or_expiresAt))
       (ls_declared svc)"

record admissible_observation =
  ad_observation :: obligation_observation
  ad_source :: discharge_source
  ad_requirement :: obligation_requirement

record obligation_step =
  step_state :: obligation_state
  step_reason :: transition_reason

text \<open>The switch of \<open>stepsFor\<close> has no default: an outcome outside its cases answers \<open>undefined\<close>.\<close>

definition stepsFor :: "string \<Rightarrow> verification_class \<Rightarrow> obligation_step list option" where
  "stepsFor outcome verification =
     (if outcome = ''pending'' then Some [\<lparr>step_state = Pending, step_reason = Activated\<rparr>]
      else if outcome = ''discharged'' then
        Some ([\<lparr>step_state = Pending, step_reason = Activated\<rparr>,
               \<lparr>step_state = Discharged, step_reason = DischargeReported\<rparr>] @
              (if verification = Independent
               then [\<lparr>step_state = Verified, step_reason = DischargeConfirmed\<rparr>] else []))
      else if outcome = ''waived'' then Some [\<lparr>step_state = Waived, step_reason = WaiverRecorded\<rparr>]
      else None)"

definition dischargeRecordFor :: "admissible_observation \<Rightarrow> discharge_record option" where
  "dischargeRecordFor entry =
     (let observation = ad_observation entry; src = ad_source entry
      in if ob_outcome observation = ''pending'' then None
         else Some \<lparr>dr_sourceId = os_id src, dr_sourceKind = os_kind src, dr_class = os_class src,
                    dr_outcome = ob_outcome observation, dr_observedAt = ob_observedAt observation,
                    dr_subjectId = ob_subjectId observation, dr_reference = ob_reference observation\<rparr>)"

definition verificationRecordFor :: "admissible_observation \<Rightarrow> verification_record" where
  "verificationRecordFor entry =
     (let observation = ad_observation entry; src = ad_source entry
      in \<lparr>vr_sourceId = os_id src, vr_sourceKind = os_kind src, vr_class = os_class src,
          vr_observedAt = ob_observedAt observation,
          vr_subjectId = ob_subjectId observation, vr_reference = ob_reference observation\<rparr>)"

definition disregard :: "obligation_observation \<Rightarrow> disregard_reason \<Rightarrow> disregarded_observation" where
  "disregard observation reason =
     \<lparr>di_type = ob_type observation, di_sourceId = ob_sourceId observation,
      di_outcome = ob_outcome observation, di_observedAt = ob_observedAt observation,
      di_reason = reason\<rparr>"

fun compare_keys :: "string list \<Rightarrow> string list \<Rightarrow> int" where
  "compare_keys [] r = 0"
| "compare_keys (a # l) r =
     (let b = (case r of [] \<Rightarrow> [] | b # _ \<Rightarrow> b)
      in if a < b then -1 else if b < a then 1 else compare_keys l (tl r))"

definition observation_key :: "obligation_observation \<Rightarrow> string list" where
  "observation_key observation =
     [ob_observedAt observation, ob_type observation, ob_sourceId observation, ob_outcome observation]"

definition disregarded_key :: "disregarded_observation \<Rightarrow> string list" where
  "disregarded_key entry =
     [di_type entry, di_observedAt entry, di_sourceId entry, di_outcome entry,
      disregard_reason_name (di_reason entry)]"

definition sortObservations :: "obligation_observation list \<Rightarrow> obligation_observation list" where
  "sortObservations = sort_by (\<lambda>l r. compare_keys (observation_key l) (observation_key r))"

definition sortDisregarded :: "disregarded_observation list \<Rightarrow> disregarded_observation list" where
  "sortDisregarded = sort_by (\<lambda>l r. compare_keys (disregarded_key l) (disregarded_key r))"

text \<open>The gates an observation passes before it may move anything.\<close>

definition admit_observation ::
  "lifecycle_service \<Rightarrow> obligation_correlation \<Rightarrow> obligation_observation \<Rightarrow>
     disregard_reason + admissible_observation" where
  "admit_observation svc correlation observation =
     (case map_of (ls_requirementsByType svc) (ob_type observation) of
        None \<Rightarrow> Inl UndeclaredObligation
      | Some requirement \<Rightarrow>
          if \<not> obligationCorrelationMatches (ob_correlation observation) correlation
          then Inl CorrelationMismatch
          else case registry_get (ls_registry svc) (ob_sourceId observation) of
            None \<Rightarrow> Inl UnregisteredSource
          | Some src \<Rightarrow>
              if ob_outcome observation = ''waived'' \<and> os_class src \<noteq> Independent
              then Inl WaiverNotIndependent
              else Inr \<lparr>ad_observation = observation, ad_source = src, ad_requirement = requirement\<rparr>)"

fun admissible_observations ::
  "lifecycle_service \<Rightarrow> obligation_correlation \<Rightarrow> obligation_observation list \<Rightarrow>
     admissible_observation list \<times> disregarded_observation list" where
  "admissible_observations svc correlation [] = ([], [])"
| "admissible_observations svc correlation (observation # rest) =
     (let (admissible, disregarded) = admissible_observations svc correlation rest
      in case admit_observation svc correlation observation of
           Inl reason \<Rightarrow> (admissible, disregard observation reason # disregarded)
         | Inr entry \<Rightarrow> (entry # admissible, disregarded))"

text \<open>The steps of one observation, where \<^term>\<open>None\<close> is a step the table refuses.\<close>

fun walk_steps ::
  "string \<Rightarrow> discharge_record option \<Rightarrow> obligation_instance \<Rightarrow> obligation_step list \<Rightarrow>
     obligation_instance option" where
  "walk_steps now rec i [] = Some i"
| "walk_steps now rec i (s # ss) =
     (case transitionObligation i (step_state s) now (step_reason s) (if ss = [] then rec else None) of
        Illegal _ _ _ \<Rightarrow> None
      | Applied j \<Rightarrow> walk_steps now rec j ss
      | Unchanged j \<Rightarrow> walk_steps now rec j ss)"

record resolution_state =
  rs_instances :: "(string \<times> obligation_instance) list"
  rs_disregarded :: "disregarded_observation list"

definition apply_entry ::
  "string \<Rightarrow> admissible_observation \<Rightarrow> resolution_state \<Rightarrow> js_error + resolution_state" where
  "apply_entry now entry st =
     (let observation = ad_observation entry; t = ob_type observation
      in case map_of (rs_instances st) t of
           None \<Rightarrow> Inr st
         | Some current \<Rightarrow>
             if ob_outcome observation = ''refused'' then
               (if oi_state current \<noteq> Discharged
                then Inr (st\<lparr>rs_disregarded :=
                       rs_disregarded st @ [disregard observation VerificationNotApplicable]\<rparr>)
                else Inr (st\<lparr>rs_instances := AList.update t
                       (current\<lparr>oi_verification := Some (verificationRecordFor entry)\<rparr>) (rs_instances st)\<rparr>))
             else (case stepsFor (ob_outcome observation) (os_class (ad_source entry)) of
                     None \<Rightarrow> Inl (TypeError ''Cannot read properties of undefined'')
                   | Some steps \<Rightarrow>
                       (case walk_steps now (dischargeRecordFor entry) current steps of
                          None \<Rightarrow> Inr (st\<lparr>rs_disregarded :=
                                   rs_disregarded st @ [disregard observation IllegalTransition]\<rparr>)
                        | Some i \<Rightarrow> Inr (st\<lparr>rs_instances := AList.update t i (rs_instances st)\<rparr>))))"

fun apply_entries ::
  "string \<Rightarrow> admissible_observation list \<Rightarrow> resolution_state \<Rightarrow> js_error + resolution_state" where
  "apply_entries now [] st = Inr st"
| "apply_entries now (entry # rest) st =
     (case apply_entry now entry st of Inl e \<Rightarrow> Inl e | Inr st' \<Rightarrow> apply_entries now rest st')"

definition expire_instance :: "platform \<Rightarrow> string \<Rightarrow> obligation_instance \<Rightarrow> obligation_instance" where
  "expire_instance P now current =
     (case oi_expiresAt current of
        None \<Rightarrow> current
      | Some expires \<Rightarrow>
          if \<not> isObligationExpiredAt P expires now then current
          else if \<not> isLegalObligationTransition (oi_state current) Expired then current
          else (case transitionObligation current Expired now DeadlinePassed None of
                  Applied i \<Rightarrow> i
                | _ \<Rightarrow> current))"

fun expire_all ::
  "platform \<Rightarrow> string \<Rightarrow> string list \<Rightarrow> (string \<times> obligation_instance) list \<Rightarrow>
     (string \<times> obligation_instance) list" where
  "expire_all P now [] instances = instances"
| "expire_all P now (t # ts) instances =
     expire_all P now ts
       (case map_of instances t of
          None \<Rightarrow> instances
        | Some current \<Rightarrow> AList.update t (expire_instance P now current) instances)"

definition resolve_obligations ::
  "platform \<Rightarrow> lifecycle_service \<Rightarrow> obligation_observation list \<Rightarrow> obligation_correlation \<Rightarrow> string \<Rightarrow>
     js_error + obligation_resolution" where
  "resolve_obligations P svc observations correlation now =
     (let instances = foldl (\<lambda>m i. AList.update (oi_type i) i m) []
            (declare_obligations svc correlation now);
          (admissible, refused) = admissible_observations svc correlation (sortObservations observations)
      in case apply_entries now admissible \<lparr>rs_instances = instances, rs_disregarded = refused\<rparr> of
           Inl e \<Rightarrow> Inl e
         | Inr st \<Rightarrow>
             let expired = expire_all P now (ls_declared svc) (rs_instances st);
                 obligations = map (\<lambda>t. the (map_of expired t)) (ls_declared svc)
             in Inr \<lparr>res_resolved = True, res_declaredTypes = ls_declared svc,
                     res_obligations = obligations,
                     res_disregarded = sortDisregarded (rs_disregarded st),
                     res_eligibility =
                       (if list_ex obligationWithholdsExercise obligations then Blocked else Eligible),
                     res_resolvedAt = now\<rparr>)"

section \<open>Discharge providers\<close>

record discharge_query =
  dq_obligationTypes :: "string list"
  dq_correlation :: obligation_correlation
  dq_actorId :: string
  dq_trustDomainId :: string
  dq_organizationId :: "string option"
  dq_targetId :: "string option"
  dq_at :: string

text \<open>
  What a provider's promise comes to: a rejection, an answer whose \<open>observations\<close> are not an
  array, or an array of observations.
\<close>

datatype discharge_answer =
    DischargesRejected
  | DischargesMalformed
  | Discharges "obligation_observation list"

definition createInMemoryObligationDischargeProvider ::
  "(discharge_query \<Rightarrow> obligation_observation list) \<Rightarrow> discharge_query \<Rightarrow> discharge_answer" where
  "createInMemoryObligationDischargeProvider table query =
     Discharges (filter (\<lambda>observation. ob_type observation \<in> set (dq_obligationTypes query)) (table query))"

definition createFailingObligationDischargeProvider :: "discharge_query \<Rightarrow> discharge_answer" where
  "createFailingObligationDischargeProvider query = DischargesRejected"

section \<open>Lifecycles whose transitions descend\<close>

text \<open>
  The interface of a lifecycle: which transitions its table allows, and a height every
  transition lowers.  A path is a list of transitions, each from the state the one before
  reached.
\<close>

fun legal_path :: "('s \<Rightarrow> 's \<Rightarrow> bool) \<Rightarrow> 's \<Rightarrow> ('s \<times> 's) list \<Rightarrow> 's \<Rightarrow> bool" where
  "legal_path legal s [] t \<longleftrightarrow> s = t"
| "legal_path legal s ((a, b) # ps) t \<longleftrightarrow> a = s \<and> legal a b \<and> legal_path legal b ps t"

lemma legal_path_snoc:
  "legal_path legal s ps t \<Longrightarrow> legal t u \<Longrightarrow> legal_path legal s (ps @ [(t, u)]) u"
  by (induction ps arbitrary: s) auto

locale descending_lifecycle =
  fixes legal :: "'s \<Rightarrow> 's \<Rightarrow> bool"
    and height :: "'s \<Rightarrow> nat"
  assumes descends: "legal s t \<Longrightarrow> height t < height s"
begin

lemma path_bounded: "legal_path legal s ps t \<Longrightarrow> length ps + height t \<le> height s"
proof (induction ps arbitrary: s)
  case (Cons p ps)
  then show ?case using descends [of s "snd p"] by (cases p) force
qed simp

lemma steps_terminate:
  assumes "\<And>i j. step i j \<Longrightarrow> legal (state_of i) (state_of j)"
  shows "wfp (\<lambda>j i. step i j)"
proof (rule wfp_if_convertible_to_nat [of _ "\<lambda>i. height (state_of i)"])
  show "height (state_of j) < height (state_of i)" if "step i j" for i j
    using that assms descends by blast
qed

lemma no_cycle: "legal_path legal s ps s \<Longrightarrow> ps = []"
  using path_bounded by fastforce

end

fun obligation_height :: "obligation_state \<Rightarrow> nat" where
  "obligation_height Required = 3"
| "obligation_height Pending = 2"
| "obligation_height Discharged = 1"
| "obligation_height _ = 0"

interpretation lifecycle: descending_lifecycle isLegalObligationTransition obligation_height
proof
  fix s t assume "isLegalObligationTransition s t"
  then show "obligation_height t < obligation_height s"
    by (cases s) (auto simp add: isLegalObligationTransition_def)
qed

lemma terminal_no_transition:
  "isTerminalObligationState s \<longleftrightarrow> (\<forall>t. \<not> isLegalObligationTransition s t)"
  by (cases s) (auto simp add: isTerminalObligationState_def TERMINAL_OBLIGATION_STATES_def
      isLegalObligationTransition_def)

section \<open>The steps of an instance\<close>

inductive lifecycle_step :: "string \<Rightarrow> obligation_instance \<Rightarrow> obligation_instance \<Rightarrow> bool"
  for now :: string where
  moved: "transitionObligation i to_state now reason discharge = Applied j \<Longrightarrow> lifecycle_step now i j"
| attempted: "oi_state i = Discharged \<Longrightarrow> lifecycle_step now i (i\<lparr>oi_verification := Some v\<rparr>)"

lemma transition_applied:
  assumes "transitionObligation i s now reason discharge = Applied j"
  shows "isLegalObligationTransition (oi_state i) s"
    and "j = i\<lparr>oi_state := s,
        oi_transitions := oi_transitions i @
          [\<lparr>tr_from = oi_state i, tr_to = s, tr_at = now, tr_reason = reason\<rparr>],
        oi_discharge := (if discharge = None then oi_discharge i else discharge)\<rparr>"
  using assms unfolding transitionObligation_def
  by (auto split: if_splits option.splits)

lemma transition_unchanged: "transitionObligation i s now reason discharge = Unchanged j \<Longrightarrow> j = i"
  unfolding transitionObligation_def by (auto split: if_splits option.splits)

definition history_of :: "obligation_instance \<Rightarrow> (obligation_state \<times> obligation_state) list" where
  "history_of i = map (\<lambda>tr. (tr_from tr, tr_to tr)) (oi_transitions i)"

text \<open>What no step changes, and that the history is the path that led to the state.\<close>

definition lifecycle_inv :: "string \<Rightarrow> obligation_instance \<Rightarrow> obligation_instance \<Rightarrow> bool" where
  "lifecycle_inv now i0 i \<longleftrightarrow>
     oi_id i = oi_id i0 \<and> oi_type i = oi_type i0 \<and> oi_blocking i = oi_blocking i0 \<and>
     oi_correlation i = oi_correlation i0 \<and> oi_declaredAt i = oi_declaredAt i0 \<and>
     oi_expiresAt i = oi_expiresAt i0 \<and>
     legal_path isLegalObligationTransition (oi_state i0) (history_of i) (oi_state i) \<and>
     (\<forall>tr \<in> set (oi_transitions i). tr_at tr = now)"

lemma lifecycle_inv_step:
  assumes "lifecycle_inv now i0 i" "lifecycle_step now i j"
  shows "lifecycle_inv now i0 j"
  using assms(2)
proof cases
  case (moved to_state reason discharge)
  note j = transition_applied [OF moved]
  show ?thesis
    using assms(1) j(1) legal_path_snoc [of isLegalObligationTransition "oi_state i0" "history_of i" "oi_state i" to_state]
    by (simp add: j(2) lifecycle_inv_def history_of_def)
next
  case (attempted v)
  then show ?thesis using assms(1) by (simp add: lifecycle_inv_def history_of_def)
qed

lemma lifecycle_inv_reach:
  assumes "(lifecycle_step now)\<^sup>*\<^sup>* i0 i" "oi_transitions i0 = []"
  shows "lifecycle_inv now i0 i"
  using assms(1)
proof (induction rule: rtranclp_induct)
  case base
  then show ?case using assms(2) by (simp add: lifecycle_inv_def history_of_def)
next
  case (step j k)
  then show ?case by (blast intro: lifecycle_inv_step)
qed

lemma walk_steps_reach:
  "walk_steps now rec i ss = Some j \<Longrightarrow> (lifecycle_step now)\<^sup>*\<^sup>* i j"
proof (induction ss arbitrary: i)
  case (Cons s ss)
  show ?case
  proof (cases "transitionObligation i (step_state s) now (step_reason s) (if ss = [] then rec else None)")
    case (Applied k)
    with Cons show ?thesis
      by (auto intro: converse_rtranclp_into_rtranclp lifecycle_step.moved)
  next
    case (Unchanged k)
    with Cons show ?thesis using transition_unchanged [OF Unchanged] by simp
  qed (use Cons.prems in simp)
qed simp

section \<open>What one admissible report does\<close>

definition apply_report ::
  "string \<Rightarrow> obligation_instance \<Rightarrow> admissible_observation \<Rightarrow> obligation_instance" where
  "apply_report now i entry =
     (if ob_outcome (ad_observation entry) = ''refused''
      then (if oi_state i = Discharged
            then i\<lparr>oi_verification := Some (verificationRecordFor entry)\<rparr> else i)
      else case stepsFor (ob_outcome (ad_observation entry)) (os_class (ad_source entry)) of
             None \<Rightarrow> i
           | Some steps \<Rightarrow>
               (case walk_steps now (dischargeRecordFor entry) i steps of None \<Rightarrow> i | Some j \<Rightarrow> j))"

lemma apply_report_reach: "(lifecycle_step now)\<^sup>*\<^sup>* i (apply_report now i entry)"
  by (auto simp add: apply_report_def split: option.splits
      intro: walk_steps_reach r_into_rtranclp lifecycle_step.attempted)

lemma apply_reports_reach: "(lifecycle_step now)\<^sup>*\<^sup>* i (foldl (apply_report now) i entries)"
proof (induction entries arbitrary: i)
  case (Cons e es)
  have "(lifecycle_step now)\<^sup>*\<^sup>* (apply_report now i e) (foldl (apply_report now) i (e # es))"
    using Cons.IH [of "apply_report now i e"] by simp
  with apply_report_reach [of now i e] show ?case by (rule rtranclp_trans)
qed simp

text \<open>The abstract machine: what a report of an outcome by a source of a class does to a state.\<close>

definition report_step :: "obligation_state \<Rightarrow> string \<Rightarrow> verification_class \<Rightarrow> obligation_state" where
  "report_step s outcome verification =
     (if outcome = ''pending'' then (if s = Required then Pending else s)
      else if outcome = ''discharged'' then
        (if s \<in> {Required, Pending, Discharged}
         then (if verification = Independent then Verified else Discharged) else s)
      else if outcome = ''waived'' then (if s \<in> {Required, Pending} then Waived else s)
      else s)"

lemmas obligation_table_defs =
  obligationProgressRank_def OBLIGATION_PROGRESS_CHAIN_def isLegalObligationTransition_def

lemma apply_report_state:
  "oi_state (apply_report now i entry) =
     report_step (oi_state i) (ob_outcome (ad_observation entry)) (os_class (ad_source entry))"
  by (cases "oi_state i")
    (auto simp add: apply_report_def report_step_def stepsFor_def transitionObligation_def obligation_table_defs)

text \<open>The record an instance comes to rest on: the report that moved it last.\<close>

lemma apply_report_discharge:
  "oi_discharge (apply_report now i entry) =
     (if oi_state (apply_report now i entry) \<noteq> oi_state i \<and> dischargeRecordFor entry \<noteq> None
      then dischargeRecordFor entry else oi_discharge i)"
  by (cases "oi_state i")
    (auto simp add: apply_report_def stepsFor_def transitionObligation_def obligation_table_defs)

section \<open>A resolution, obligation by obligation\<close>

lemma map_of_foldl_update:
  "map_of (foldl (\<lambda>m r. AList.update (key r) (val r) m) al xs) k =
     (case find (\<lambda>r. key r = k) (rev xs) of Some r \<Rightarrow> Some (val r) | None \<Rightarrow> map_of al k)"
  by (induction xs rule: rev_induct) auto

lemma find_key_some:
  "find (\<lambda>r. key r = k) xs = Some r \<Longrightarrow> r \<in> set xs \<and> key r = k"
  by (induction xs) (auto split: if_splits)

lemma find_distinct_key:
  assumes "distinct (map key xs)" "x \<in> set xs"
  shows "find (\<lambda>r. key r = key x) (rev xs) = Some x"
proof (cases "find (\<lambda>r. key r = key x) (rev xs)")
  case None
  then show ?thesis using assms(2) by (auto simp add: find_None_iff)
next
  case (Some y)
  then have "y \<in> set xs" "key y = key x"
    using find_key_some [of key "key x" "rev xs" y] by auto
  then show ?thesis using assms Some by (metis distinct_map inj_onD)
qed

lemma find_key_none: "find (\<lambda>r. key r = k) (rev xs) = None \<longleftrightarrow> k \<notin> key ` set xs"
  by (auto simp add: find_None_iff)

definition declared_instance ::
  "lifecycle_service \<Rightarrow> obligation_correlation \<Rightarrow> string \<Rightarrow> string \<Rightarrow> obligation_instance" where
  "declared_instance svc correlation now t =
     (let requirement = map_of (ls_requirementsByType svc) t
      in declareObligation t (case requirement of None \<Rightarrow> False | Some r \<Rightarrow> or_blocking r)
           correlation now (Option.bind requirement or_expiresAt))"

lemma declare_obligations_eq:
  "declare_obligations svc correlation now = map (declared_instance svc correlation now) (ls_declared svc)"
  by (simp add: declare_obligations_def declared_instance_def)

lemma declared_instance_simps [simp]:
  "oi_type (declared_instance svc correlation now t) = t"
  "oi_state (declared_instance svc correlation now t) = Required"
  "oi_transitions (declared_instance svc correlation now t) = []"
  "oi_discharge (declared_instance svc correlation now t) = None"
  "oi_correlation (declared_instance svc correlation now t) = correlation"
  "oi_declaredAt (declared_instance svc correlation now t) = now"
  "oi_id (declared_instance svc correlation now t) = obligationInstanceId correlation t"
  "oi_blocking (declared_instance svc correlation now t) =
     (case map_of (ls_requirementsByType svc) t of None \<Rightarrow> False | Some r \<Rightarrow> or_blocking r)"
  "oi_expiresAt (declared_instance svc correlation now t) =
     Option.bind (map_of (ls_requirementsByType svc) t) or_expiresAt"
  by (simp_all add: declared_instance_def declareObligation_def Let_def)

lemma declared_instances_map:
  assumes "distinct (ls_declared svc)"
  shows "map_of (foldl (\<lambda>m i. AList.update (oi_type i) i m) [] (declare_obligations svc correlation now)) t =
     (if t \<in> set (ls_declared svc) then Some (declared_instance svc correlation now t) else None)"
proof -
  let ?xs = "declare_obligations svc correlation now"
  have d: "distinct (map oi_type ?xs)"
    using assms by (simp add: declare_obligations_eq comp_def)
  show ?thesis
  proof (cases "t \<in> set (ls_declared svc)")
    case True
    then have "declared_instance svc correlation now t \<in> set ?xs" by (simp add: declare_obligations_eq)
    from find_distinct_key [OF d this] show ?thesis
      using True map_of_foldl_update [of oi_type "\<lambda>i. i" "[]" ?xs t] by simp
  next
    case False
    then have "find (\<lambda>i. oi_type i = t) (rev ?xs) = None"
      by (auto simp add: find_None_iff declare_obligations_eq)
    then show ?thesis
      using False map_of_foldl_update [of oi_type "\<lambda>i. i" "[]" ?xs t] by simp
  qed
qed

text \<open>The reports about one obligation that passed every gate, in the order they are applied.\<close>

definition admitted ::
  "lifecycle_service \<Rightarrow> obligation_correlation \<Rightarrow> obligation_observation list \<Rightarrow> admissible_observation list" where
  "admitted svc correlation observations =
     List.map_filter (\<lambda>observation. case admit_observation svc correlation observation of
        Inl _ \<Rightarrow> None | Inr entry \<Rightarrow> Some entry) observations"

lemma fst_admissible_observations:
  "fst (admissible_observations svc correlation observations) = admitted svc correlation observations"
  by (induction observations)
    (auto simp add: admitted_def map_filter_simps split: sum.splits prod.splits)

definition about :: "string \<Rightarrow> admissible_observation \<Rightarrow> bool" where
  "about t entry \<longleftrightarrow> ob_type (ad_observation entry) = t"

definition reports ::
  "lifecycle_service \<Rightarrow> obligation_correlation \<Rightarrow> obligation_observation list \<Rightarrow> string \<Rightarrow>
     admissible_observation list" where
  "reports svc correlation observations t =
     filter (about t) (admitted svc correlation (sortObservations observations))"

lemma apply_entry_ok:
  assumes "apply_entry now entry st = Inr st'"
  shows "map_of (rs_instances st') t =
     map_option (\<lambda>i. if about t entry then apply_report now i entry else i) (map_of (rs_instances st) t)"
proof (cases "ob_type (ad_observation entry) = t")
  case True
  then show ?thesis
    using assms unfolding apply_entry_def apply_report_def about_def Let_def
    by (cases "map_of (rs_instances st) t") (auto split: option.splits if_splits)
next
  case False
  then show ?thesis
    using assms unfolding apply_entry_def about_def Let_def
    by (auto simp add: option.map_ident split: option.splits if_splits)
qed

lemma apply_entries_ok:
  assumes "apply_entries now entries st = Inr st'"
  shows "map_of (rs_instances st') t =
     map_option (\<lambda>i. foldl (apply_report now) i (filter (about t) entries)) (map_of (rs_instances st) t)"
  using assms
proof (induction entries arbitrary: st)
  case Nil
  then show ?case by (simp add: option.map_ident)
next
  case (Cons e es)
  then obtain st1 where st1: "apply_entry now e st = Inr st1" "apply_entries now es st1 = Inr st'"
    by (auto split: sum.splits)
  show ?case
    using Cons.IH [OF st1(2)] apply_entry_ok [OF st1(1), of t]
    by (cases "map_of (rs_instances st) t") auto
qed

lemma expire_all_ok:
  assumes "distinct ts"
  shows "map_of (expire_all P now ts instances) t =
     (if t \<in> set ts then map_option (expire_instance P now) (map_of instances t) else map_of instances t)"
  using assms
  by (induction ts arbitrary: instances) (auto split: option.splits)

lemma resolve_obligations_cases:
  assumes "resolve_obligations P svc observations correlation now = Inr res" "distinct (ls_declared svc)"
  shows "res_obligations res =
      map (\<lambda>t. expire_instance P now
             (foldl (apply_report now) (declared_instance svc correlation now t)
                (reports svc correlation observations t))) (ls_declared svc)"
    and "res_resolved res" and "res_declaredTypes res = ls_declared svc" and "res_resolvedAt res = now"
    and "res_eligibility res =
      (if list_ex obligationWithholdsExercise (res_obligations res) then Blocked else Eligible)"
proof -
  let ?adm = "admissible_observations svc correlation (sortObservations observations)"
  let ?inst = "foldl (\<lambda>m i. AList.update (oi_type i) i m) [] (declare_obligations svc correlation now)"
  obtain st where st: "apply_entries now (fst ?adm) \<lparr>rs_instances = ?inst, rs_disregarded = snd ?adm\<rparr> = Inr st"
    and res: "res = \<lparr>res_resolved = True, res_declaredTypes = ls_declared svc,
        res_obligations = map (\<lambda>t. the (map_of (expire_all P now (ls_declared svc) (rs_instances st)) t)) (ls_declared svc),
        res_disregarded = sortDisregarded (rs_disregarded st),
        res_eligibility = (if list_ex obligationWithholdsExercise
           (map (\<lambda>t. the (map_of (expire_all P now (ls_declared svc) (rs_instances st)) t)) (ls_declared svc))
           then Blocked else Eligible),
        res_resolvedAt = now\<rparr>"
    using assms(1) unfolding resolve_obligations_def Let_def
    by (auto split: prod.splits sum.splits)
  have "map_of (rs_instances st) t = Some (foldl (apply_report now) (declared_instance svc correlation now t)
          (reports svc correlation observations t))" if "t \<in> set (ls_declared svc)" for t
    using apply_entries_ok [OF st, of t] declared_instances_map [OF assms(2), of correlation now t] that
    by (simp add: fst_admissible_observations reports_def)
  then show "res_obligations res =
      map (\<lambda>t. expire_instance P now
             (foldl (apply_report now) (declared_instance svc correlation now t)
                (reports svc correlation observations t))) (ls_declared svc)"
    by (simp add: res expire_all_ok [OF assms(2)])
  show "res_resolved res" "res_declaredTypes res = ls_declared svc" "res_resolvedAt res = now"
    "res_eligibility res =
      (if list_ex obligationWithholdsExercise (res_obligations res) then Blocked else Eligible)"
    by (simp_all add: res)
qed

text \<open>A resolution fails exactly when an admitted report names an outcome outside the declared four.\<close>

lemma apply_entry_throws:
  "(\<exists>e. apply_entry now entry st = Inl e) \<longleftrightarrow>
     ob_type (ad_observation entry) \<in> dom (map_of (rs_instances st)) \<and>
     ob_outcome (ad_observation entry) \<notin> set OBLIGATION_DISCHARGE_OUTCOMES"
  by (auto simp add: apply_entry_def Let_def stepsFor_def OBLIGATION_DISCHARGE_OUTCOMES_def dom_def
      split: option.splits if_splits)

lemma apply_entry_dom:
  "apply_entry now entry st = Inr st' \<Longrightarrow> dom (map_of (rs_instances st')) = dom (map_of (rs_instances st))"
  by (auto simp add: apply_entry_def Let_def split: option.splits if_splits)

lemma apply_entries_throws:
  "(\<exists>e. apply_entries now entries st = Inl e) \<longleftrightarrow>
     (\<exists>entry \<in> set entries. ob_type (ad_observation entry) \<in> dom (map_of (rs_instances st)) \<and>
        ob_outcome (ad_observation entry) \<notin> set OBLIGATION_DISCHARGE_OUTCOMES)"
proof (induction entries arbitrary: st)
  case (Cons e es)
  show ?case
  proof (cases "apply_entry now e st")
    case (Inl err)
    then show ?thesis using apply_entry_throws [of now e st] by auto
  next
    case (Inr st1)
    then have "\<not> (\<exists>err. apply_entry now e st = Inl err)" by simp
    then show ?thesis
      using Inr Cons.IH [of st1] apply_entry_dom [OF Inr] unfolding apply_entry_throws by auto
  qed
qed simp

lemma in_admitted:
  "entry \<in> set (admitted svc correlation observations) \<longleftrightarrow>
     (\<exists>observation \<in> set observations. admit_observation svc correlation observation = Inr entry)"
  by (induction observations) (auto simp add: admitted_def map_filter_simps split: sum.splits)

lemma admit_observation_ok:
  "admit_observation svc correlation observation = Inr entry \<longleftrightarrow>
     ad_observation entry = observation \<and>
     map_of (ls_requirementsByType svc) (ob_type observation) = Some (ad_requirement entry) \<and>
     obligationCorrelationMatches (ob_correlation observation) correlation \<and>
     registry_get (ls_registry svc) (ob_sourceId observation) = Some (ad_source entry) \<and>
     (ob_outcome observation = ''waived'' \<longrightarrow> os_class (ad_source entry) = Independent)"
  by (cases entry) (auto simp add: admit_observation_def split: option.splits if_splits)

lemma set_sortObservations [simp]: "set (sortObservations observations) = set observations"
  by (simp add: sortObservations_def)

lemma reports_iff:
  "entry \<in> set (reports svc correlation observations t) \<longleftrightarrow>
     (\<exists>observation \<in> set observations.
        admit_observation svc correlation observation = Inr entry \<and> ob_type observation = t)"
  unfolding reports_def about_def
  by (auto simp add: in_admitted admit_observation_ok)

section \<open>Well-formed services\<close>

definition source_ok :: "discharge_source \<Rightarrow> bool" where
  "source_ok src \<longleftrightarrow> js_trim (os_id src) \<noteq> [] \<and> js_trim (os_name src) \<noteq> [] \<and>
     (os_class src = Independent \<longrightarrow>
        os_kind src \<in> {ApprovalRuntimeKind, ProviderAdapterKind, SignedAttestationKind})"

definition service_ok :: "lifecycle_service \<Rightarrow> bool" where
  "service_ok svc \<longleftrightarrow>
     sorted (ls_declared svc) \<and> distinct (ls_declared svc) \<and>
     set (ls_declared svc) = dom (map_of (ls_requirementsByType svc)) \<and>
     (\<forall>t r. map_of (ls_requirementsByType svc) t = Some r \<longrightarrow> or_type r = t) \<and>
     (\<forall>sid src. registry_get (ls_registry svc) sid = Some src \<longrightarrow> os_id src = sid \<and> source_ok src)"

lemma collect_sources_ok:
  "collect_sources seen sources violations = Inr [] \<Longrightarrow>
     violations = [] \<and> (\<forall>src \<in> set sources. validateObligationDischargeSource src = [])"
  by (induction seen sources violations rule: collect_sources.induct)
    (auto simp add: Let_def split: if_splits)

lemma validated_source_ok:
  assumes "validateObligationDischargeSource src = []"
  shows "source_ok (read_discharge_source src)"
proof -
  obtain sid where sid: "js_get src ''id'' = JSString sid" "js_trim sid \<noteq> []"
    using assms by (cases "js_get src ''id''") (auto simp add: validateObligationDischargeSource_def Let_def split: if_splits)
  obtain name where name: "js_get src ''name'' = JSString name" "js_trim name \<noteq> []"
    using assms by (cases "js_get src ''name''") (auto simp add: validateObligationDischargeSource_def Let_def split: if_splits)
  show ?thesis
    using assms sid name
    by (auto simp add: validateObligationDischargeSource_def source_ok_def read_discharge_source_def Let_def split: if_splits)
qed

lemma created_service_ok:
  assumes "createObligationLifecycleService P sources declaration = Inr svc"
  shows "service_ok svc"
proof -
  define requirements where
    "requirements = map read_requirement (declared_requirements (js_get declaration ''requirements''))"
  obtain reg where reg: "createObligationDischargeSourceRegistry sources = Inr reg"
    and svc: "svc = \<lparr>ls_registry = reg,
        ls_requirementsByType = foldl (\<lambda>m r. AList.update (or_type r) r m) [] requirements,
        ls_declared = sort (js_set (map or_type requirements))\<rparr>"
    using assms unfolding createObligationLifecycleService_def requirements_def Let_def
    by (auto split: sum.splits if_splits)
  have valid: "\<forall>src \<in> set sources. validateObligationDischargeSource src = []"
    and reg_eq: "reg = map (\<lambda>src. (os_id src, src)) (map read_discharge_source sources)"
    using reg collect_sources_ok [of "[]" sources "[]"]
    unfolding createObligationDischargeSourceRegistry_def
    by (auto split: sum.splits if_splits)
  have srcs: "os_id src = sid \<and> source_ok src" if "registry_get reg sid = Some src" for sid src
    using map_of_SomeD [of reg sid src] that valid validated_source_ok
    by (auto simp add: reg_eq registry_get_def)
  have look: "map_of (ls_requirementsByType svc) t = find (\<lambda>r. or_type r = t) (rev requirements)" for t
    using map_of_foldl_update [of or_type "\<lambda>r. r" "[]" requirements t]
    by (simp add: svc option.case_eq_if)
  have "dom (map_of (ls_requirementsByType svc)) = or_type ` set requirements"
    unfolding dom_def look find_key_none by auto
  then have "set (ls_declared svc) = dom (map_of (ls_requirementsByType svc))" by (simp add: svc)
  moreover have "or_type r = t" if "map_of (ls_requirementsByType svc) t = Some r" for t r
    using that find_key_some [of or_type t "rev requirements" r] by (simp add: look)
  moreover have "sorted (ls_declared svc)" "distinct (ls_declared svc)" "ls_registry svc = reg"
    by (simp_all add: svc)
  ultimately show ?thesis using srcs by (simp add: service_ok_def)
qed

section \<open>States as a machine over reports\<close>

text \<open>What the machine reads of a report: the outcome and the class of the source.\<close>

definition report_of :: "admissible_observation \<Rightarrow> string \<times> verification_class" where
  "report_of entry = (ob_outcome (ad_observation entry), os_class (ad_source entry))"

fun run_from :: "obligation_state \<Rightarrow> (string \<times> verification_class) list \<Rightarrow> obligation_state" where
  "run_from s [] = s"
| "run_from s ((outcome, verification) # rs) = run_from (report_step s outcome verification) rs"

definition run_reports :: "(string \<times> verification_class) list \<Rightarrow> obligation_state" where
  "run_reports rs = run_from Required rs"

definition expire_state :: "platform \<Rightarrow> string option \<Rightarrow> string \<Rightarrow> obligation_state \<Rightarrow> obligation_state" where
  "expire_state P expires now s =
     (case expires of
        None \<Rightarrow> s
      | Some deadline \<Rightarrow>
          if isObligationExpiredAt P deadline now \<and> s \<in> {Required, Pending, Discharged} then Expired else s)"

lemma apply_reports_state:
  "oi_state (foldl (apply_report now) i entries) =
     run_from (oi_state i) (map report_of entries)"
  by (induction entries arbitrary: i) (simp_all add: apply_report_state report_of_def)

lemma expire_instance_simps:
  "oi_state (expire_instance P now i) = expire_state P (oi_expiresAt i) now (oi_state i)"
  "oi_type (expire_instance P now i) = oi_type i"
  "oi_blocking (expire_instance P now i) = oi_blocking i"
  "oi_discharge (expire_instance P now i) = oi_discharge i"
  by (cases "oi_state i"; auto simp add: expire_instance_def expire_state_def transitionObligation_def
      obligation_table_defs split: option.splits)+

lemma expire_instance_reach: "(lifecycle_step now)\<^sup>*\<^sup>* i (expire_instance P now i)"
  by (auto simp add: expire_instance_def split: option.splits transition_outcome.splits
      intro: r_into_rtranclp lifecycle_step.moved)

lemma satisfies_iff [simp]: "obligationStateSatisfies s \<longleftrightarrow> s = Verified \<or> s = Waived"
  by (auto simp add: obligationStateSatisfies_def SATISFYING_OBLIGATION_STATES_def)

lemma satisfies_expire_state [simp]:
  "expire_state P expires now s = Verified \<longleftrightarrow> s = Verified"
  "expire_state P expires now s = Waived \<longleftrightarrow> s = Waived"
  by (auto simp add: expire_state_def split: option.splits)

text \<open>The instance a resolution holds for a declared type.\<close>

definition resolved_instance ::
  "platform \<Rightarrow> lifecycle_service \<Rightarrow> obligation_observation list \<Rightarrow> obligation_correlation \<Rightarrow> string \<Rightarrow> string \<Rightarrow>
     obligation_instance" where
  "resolved_instance P svc observations correlation now t =
     expire_instance P now (foldl (apply_report now) (declared_instance svc correlation now t)
       (reports svc correlation observations t))"

lemma resolved_instance_reach:
  "(lifecycle_step now)\<^sup>*\<^sup>* (declared_instance svc correlation now t)
     (resolved_instance P svc observations correlation now t)"
  unfolding resolved_instance_def
  using apply_reports_reach expire_instance_reach by (metis rtranclp_trans)

lemma resolved_instance_inv:
  "lifecycle_inv now (declared_instance svc correlation now t)
     (resolved_instance P svc observations correlation now t)"
  by (rule lifecycle_inv_reach [OF resolved_instance_reach]) simp

lemma resolved_instance_state:
  "oi_state (resolved_instance P svc observations correlation now t) =
     expire_state P (Option.bind (map_of (ls_requirementsByType svc) t) or_expiresAt) now
       (run_reports (map report_of (reports svc correlation observations t)))"
proof -
  let ?i = "foldl (apply_report now) (declared_instance svc correlation now t) (reports svc correlation observations t)"
  have "oi_expiresAt ?i = oi_expiresAt (declared_instance svc correlation now t)"
    using lifecycle_inv_reach [OF apply_reports_reach, of "declared_instance svc correlation now t"]
    by (simp add: lifecycle_inv_def)
  then show ?thesis
    by (simp add: resolved_instance_def expire_instance_simps apply_reports_state run_reports_def)
qed

lemma resolved_instance_blocking:
  "oi_blocking (resolved_instance P svc observations correlation now t) =
     (case map_of (ls_requirementsByType svc) t of None \<Rightarrow> False | Some r \<Rightarrow> or_blocking r)"
  "oi_type (resolved_instance P svc observations correlation now t) = t"
  using resolved_instance_inv [of now svc correlation t P observations]
  by (simp_all add: lifecycle_inv_def)

lemma resolution_obligations:
  assumes "resolve_obligations P svc observations correlation now = Inr res" "service_ok svc"
  shows "res_obligations res = map (resolved_instance P svc observations correlation now) (ls_declared svc)"
  using resolve_obligations_cases(1) [OF assms(1)] assms(2)
  by (simp add: service_ok_def resolved_instance_def)

subsection \<open>What satisfies an obligation\<close>

text \<open>
  The machine ends in a satisfying state exactly when some independent source reported the
  discharge, or a waiver came before every discharge.
\<close>

definition waived_first :: "(string \<times> verification_class) list \<Rightarrow> bool" where
  "waived_first rs \<longleftrightarrow>
     (case find (\<lambda>r. fst r \<in> {''discharged'', ''waived''}) rs of None \<Rightarrow> False | Some r \<Rightarrow> fst r = ''waived'')"

definition satisfying_reports :: "(string \<times> verification_class) list \<Rightarrow> bool" where
  "satisfying_reports rs \<longleftrightarrow> (''discharged'', Independent) \<in> set rs \<or> waived_first rs"

lemma report_step_terminal: "s = Verified \<or> s = Waived \<Longrightarrow> report_step s outcome c = s"
  by (auto simp add: report_step_def)

lemma run_terminal: "s = Verified \<or> s = Waived \<Longrightarrow> run_from s rs = s"
  by (induction s rs rule: run_from.induct) (simp_all only: run_from.simps report_step_terminal)

lemma run_from_discharged:
  "run_from Discharged rs =
     (if (''discharged'', Independent) \<in> set rs then Verified else Discharged)"
proof (induction rs)
  case (Cons r rs)
  then show ?case
    by (cases r; cases "snd r") (auto simp add: report_step_def run_terminal)
qed simp

lemma run_from_open:
  assumes "s = Required \<or> s = Pending"
  shows "obligationStateSatisfies (run_from s rs) \<longleftrightarrow> satisfying_reports rs"
  using assms
proof (induction rs arbitrary: s)
  case Nil
  then show ?case by (auto simp add: satisfying_reports_def waived_first_def)
next
  case (Cons r rs)
  obtain outcome c where r: "r = (outcome, c)" by (cases r)
  consider "outcome = ''discharged''" | "outcome = ''waived''"
    | "outcome \<noteq> ''discharged''" "outcome \<noteq> ''waived''" by blast
  then show ?case
  proof cases
    case 1
    then have "run_from s (r # rs) =
        (if (''discharged'', Independent) \<in> set (r # rs) then Verified else Discharged)"
      using Cons.prems r by (cases c) (auto simp add: report_step_def run_terminal run_from_discharged)
    with 1 r show ?thesis by (simp add: satisfying_reports_def waived_first_def)
  next
    case 2
    then have "run_from s (r # rs) = Waived"
      using Cons.prems r by (auto simp add: report_step_def run_terminal)
    with 2 r show ?thesis by (simp add: satisfying_reports_def waived_first_def)
  next
    case 3
    define s' where "s' = report_step s outcome c"
    have "s' = Required \<or> s' = Pending"
      using Cons.prems 3 by (auto simp add: report_step_def s'_def)
    from Cons.IH [OF this] 3 r show ?thesis
      by (simp add: satisfying_reports_def waived_first_def s'_def)
  qed
qed

lemma run_reports_satisfies: "obligationStateSatisfies (run_reports rs) \<longleftrightarrow> satisfying_reports rs"
  unfolding run_reports_def by (rule run_from_open) simp

lemma resolved_instance_satisfied:
  "obligationIsSatisfied (resolved_instance P svc observations correlation now t) \<longleftrightarrow>
     satisfying_reports (map report_of (reports svc correlation observations t))"
  unfolding obligationIsSatisfied_def resolved_instance_state run_reports_satisfies [symmetric]
  by simp

lemma exercise_eligible_iff:
  assumes "resolve_obligations P svc observations correlation now = Inr res" "service_ok svc"
  shows "res_eligibility res = Eligible \<longleftrightarrow>
     (\<forall>t r. map_of (ls_requirementsByType svc) t = Some r \<and> or_blocking r \<longrightarrow>
        satisfying_reports (map report_of (reports svc correlation observations t)))"
proof -
  have withheld: "obligationWithholdsExercise (resolved_instance P svc observations correlation now t) \<longleftrightarrow>
      (\<exists>r. map_of (ls_requirementsByType svc) t = Some r \<and> or_blocking r) \<and>
      \<not> satisfying_reports (map report_of (reports svc correlation observations t))" for t
    using resolved_instance_satisfied [of P svc observations correlation now t]
    by (auto simp add: obligationWithholdsExercise_def obligationIsSatisfied_def resolved_instance_blocking
        split: option.splits)
  have "res_eligibility res = Eligible \<longleftrightarrow>
      (\<forall>t \<in> set (ls_declared svc). \<not> obligationWithholdsExercise (resolved_instance P svc observations correlation now t))"
    using resolve_obligations_cases(5) [OF assms(1)] assms(2) resolution_obligations [OF assms]
    by (auto simp add: service_ok_def list_ex_iff)
  also have "\<dots> \<longleftrightarrow> (\<forall>t r. map_of (ls_requirementsByType svc) t = Some r \<and> or_blocking r \<longrightarrow>
        satisfying_reports (map report_of (reports svc correlation observations t)))"
    using assms(2) unfolding withheld service_ok_def by blast
  finally show ?thesis .
qed

section \<open>The order of observations\<close>

lemma compare_keys_equal_length:
  "length l = length r \<Longrightarrow> compare_keys l r = (if l < r then -1 else if r < l then 1 else 0)"
  by (induction l r rule: list_induct2) auto

lemma observation_key_length [simp]: "length (observation_key observation) = 4"
  by (simp add: observation_key_def)

lemma sorted_insert_by_key:
  assumes "\<And>a b. cmp a b \<le> 0 \<longleftrightarrow> key a \<le> (key b :: 'k :: linorder)" "sorted (map key ys)"
  shows "sorted (map key (insert_by cmp x ys))"
  using assms(2)
proof (induction ys)
  case (Cons y ys)
  have "set (insert_by cmp x ys) = insert x (set ys)"
    by (metis mset_insert_by set_mset_add_mset_insert set_mset_mset)
  then show ?case using Cons assms(1) by auto
qed simp

lemma sorted_sort_by_key:
  assumes "\<And>a b. cmp a b \<le> 0 \<longleftrightarrow> key a \<le> (key b :: 'k :: linorder)"
  shows "sorted (map key (sort_by cmp xs))"
proof (induction xs)
  case Nil
  then show ?case by (simp add: sort_by_def)
next
  case (Cons x xs)
  then show ?case using sorted_insert_by_key [of cmp key] assms by (simp add: sort_by_def)
qed

lemma sorted_sortObservations: "sorted (map observation_key (sortObservations observations))"
  unfolding sortObservations_def
  by (rule sorted_sort_by_key) (auto simp add: compare_keys_equal_length)

lemma sorted_map_filter_key:
  "sorted (map key xs) \<Longrightarrow> sorted (map key (filter p xs))"
  by (induction xs) (auto simp add: image_subset_iff)

lemma admitted_observations:
  "map ad_observation (admitted svc correlation observations) =
     filter (\<lambda>observation. \<exists>entry. admit_observation svc correlation observation = Inr entry) observations"
proof (induction observations)
  case Nil
  then show ?case by (simp add: admitted_def map_filter_simps)
next
  case (Cons observation rest)
  show ?case
  proof (cases "admit_observation svc correlation observation")
    case (Inl reason)
    then show ?thesis using Cons.IH by (simp add: admitted_def map_filter_simps)
  next
    case (Inr entry)
    then have "ad_observation entry = observation" using admit_observation_ok by blast
    then show ?thesis using Cons.IH Inr by (simp add: admitted_def map_filter_simps)
  qed
qed

definition report_key :: "admissible_observation \<Rightarrow> string list" where
  "report_key entry = observation_key (ad_observation entry)"

lemma sorted_reports: "sorted (map report_key (reports svc correlation observations t))"
proof -
  have "map report_key (admitted svc correlation (sortObservations observations)) =
      map observation_key (filter (\<lambda>observation. \<exists>entry. admit_observation svc correlation observation = Inr entry)
        (sortObservations observations))"
    by (simp add: report_key_def [abs_def] admitted_observations [symmetric] comp_def)
  then have "sorted (map report_key (admitted svc correlation (sortObservations observations)))"
    using sorted_map_filter_key [OF sorted_sortObservations] by simp
  then show ?thesis unfolding reports_def by (rule sorted_map_filter_key)
qed

lemma mset_admitted_cong:
  "mset xs = mset ys \<Longrightarrow> mset (admitted svc correlation xs) = mset (admitted svc correlation ys)"
  unfolding admitted_def map_filter_def by simp

lemma mset_reports_cong:
  assumes "mset xs = mset ys"
  shows "mset (reports svc correlation xs t) = mset (reports svc correlation ys t)"
proof -
  have "mset (sortObservations xs) = mset (sortObservations ys)"
    using assms by (simp add: sortObservations_def)
  from mset_admitted_cong [OF this] show ?thesis by (simp add: reports_def)
qed

text \<open>What the machine reads of a report is determined by the key the report is sorted under.\<close>

lemma report_of_key:
  assumes "entry \<in> set (reports svc correlation xs t)"
  shows "report_of entry =
    (report_key entry ! 3, os_class (the (registry_get (ls_registry svc) (report_key entry ! 2))))"
  using assms
  by (auto simp add: reports_iff admit_observation_ok report_of_def report_key_def observation_key_def)

lemma reports_order_free:
  assumes "mset xs = mset ys"
  shows "map report_of (reports svc correlation xs t) = map report_of (reports svc correlation ys t)"
proof -
  let ?f = "\<lambda>k. (k ! 3, os_class (the (registry_get (ls_registry svc) (k ! 2))))"
  have "mset (map report_key (reports svc correlation xs t)) = mset (map report_key (reports svc correlation ys t))"
    using mset_reports_cong [OF assms] by simp
  then have "map report_key (reports svc correlation xs t) = map report_key (reports svc correlation ys t)"
    using sorted_reports by (metis properties_for_sort)
  then have "map ?f (map report_key (reports svc correlation xs t)) = map ?f (map report_key (reports svc correlation ys t))"
    by simp
  then show ?thesis
    using report_of_key [of _ svc correlation xs t] report_of_key [of _ svc correlation ys t]
    by (simp add: comp_def cong: map_cong)
qed

section \<open>Where a satisfying state comes from\<close>

definition rests_on :: "admissible_observation list \<Rightarrow> obligation_instance \<Rightarrow> bool" where
  "rests_on entries i \<longleftrightarrow>
     (oi_state i = Verified \<longrightarrow> (\<exists>entry \<in> set entries. oi_discharge i = dischargeRecordFor entry \<and>
        report_of entry = (''discharged'', Independent))) \<and>
     (oi_state i = Waived \<longrightarrow> (\<exists>entry \<in> set entries. oi_discharge i = dischargeRecordFor entry \<and>
        ob_outcome (ad_observation entry) = ''waived''))"

lemma apply_report_rests_on:
  assumes "rests_on entries i"
  shows "rests_on (entries @ [entry]) (apply_report now i entry)"
proof (cases "oi_state (apply_report now i entry) = oi_state i")
  case True
  then show ?thesis
    using assms apply_report_discharge [of now i entry] by (auto simp add: rests_on_def)
next
  case False
  then have "oi_state (apply_report now i entry) = Verified \<Longrightarrow> report_of entry = (''discharged'', Independent)"
    "oi_state (apply_report now i entry) = Waived \<Longrightarrow> ob_outcome (ad_observation entry) = ''waived''"
    by (auto simp add: apply_report_state report_step_def report_of_def split: if_splits)
  moreover have "dischargeRecordFor entry \<noteq> None \<longleftrightarrow> ob_outcome (ad_observation entry) \<noteq> ''pending''"
    by (simp add: dischargeRecordFor_def Let_def)
  ultimately show ?thesis
    using False apply_report_discharge [of now i entry] by (auto simp add: rests_on_def report_of_def)
qed

lemma apply_reports_rests_on:
  "oi_state i = Required \<Longrightarrow> rests_on entries (foldl (apply_report now) i entries)"
proof (induction entries rule: rev_induct)
  case Nil
  then show ?case by (simp add: rests_on_def)
next
  case (snoc e es)
  then show ?case using apply_report_rests_on by simp
qed

lemma resolved_instance_rests_on:
  "rests_on (reports svc correlation observations t) (resolved_instance P svc observations correlation now t)"
  using apply_reports_rests_on [of "declared_instance svc correlation now t" "reports svc correlation observations t" now]
  by (simp add: resolved_instance_def rests_on_def expire_instance_simps)

section \<open>Properties\<close>

lemmas created_resolution = resolution_obligations [OF _ created_service_ok]

lemma resolution_member:
  assumes "createObligationLifecycleService P sources declaration = Inr svc"
    and "resolve_obligations P svc observations correlation now = Inr res" "i \<in> set (res_obligations res)"
  shows "oi_type i \<in> set (ls_declared svc)" "i = resolved_instance P svc observations correlation now (oi_type i)"
  using assms(3) created_resolution [OF assms(2,1)] by (auto simp add: resolved_instance_blocking)

lemma reports_independent_discharge:
  "(''discharged'', Independent) \<in> set (map report_of (reports svc correlation observations t)) \<longleftrightarrow>
     t \<in> dom (map_of (ls_requirementsByType svc)) \<and>
     (\<exists>observation \<in> set observations. \<exists>src.
        ob_type observation = t \<and> obligationCorrelationMatches (ob_correlation observation) correlation \<and>
        ob_outcome observation = ''discharged'' \<and>
        registry_get (ls_registry svc) (ob_sourceId observation) = Some src \<and> os_class src = Independent)"
  (is "?l \<longleftrightarrow> ?r")
proof
  assume ?l
  then obtain entry observation where e: "observation \<in> set observations"
      "admit_observation svc correlation observation = Inr entry" "ob_type observation = t"
      "report_of entry = (''discharged'', Independent)"
    by (auto simp add: reports_iff image_iff)
  from e(2-4) have "map_of (ls_requirementsByType svc) t = Some (ad_requirement entry)"
    "obligationCorrelationMatches (ob_correlation observation) correlation"
    "registry_get (ls_registry svc) (ob_sourceId observation) = Some (ad_source entry)"
    "os_class (ad_source entry) = Independent" "ob_outcome observation = ''discharged''"
    by (auto simp add: admit_observation_ok report_of_def)
  with e(1,3) show ?r by blast
next
  assume ?r
  then obtain observation src r where o: "observation \<in> set observations" "ob_type observation = t"
      "obligationCorrelationMatches (ob_correlation observation) correlation"
      "ob_outcome observation = ''discharged''"
      "registry_get (ls_registry svc) (ob_sourceId observation) = Some src" "os_class src = Independent"
      "map_of (ls_requirementsByType svc) t = Some r"
    by blast
  define entry where "entry = \<lparr>ad_observation = observation, ad_source = src, ad_requirement = r\<rparr>"
  have "admit_observation svc correlation observation = Inr entry"
    using o by (simp add: admit_observation_ok entry_def)
  then have "entry \<in> set (reports svc correlation observations t)" using o by (auto simp add: reports_iff)
  moreover have "report_of entry = (''discharged'', Independent)" using o by (simp add: report_of_def entry_def)
  ultimately show ?l by force
qed

lemma resolution_satisfied:
  assumes "createObligationLifecycleService P sources declaration = Inr svc"
    and "resolve_obligations P svc observations correlation now = Inr res"
    and "map_of (ls_requirementsByType svc) t = Some r"
    and "satisfying_reports (map report_of (reports svc correlation observations t))"
  shows "\<exists>i \<in> set (res_obligations res). oi_type i = t \<and> obligationIsSatisfied i"
proof -
  have "t \<in> set (ls_declared svc)" using created_service_ok [OF assms(1)] assms(3) by (auto simp add: service_ok_def)
  then have "resolved_instance P svc observations correlation now t \<in> set (res_obligations res)"
    using resolution_obligations [OF assms(2) created_service_ok [OF assms(1)]] by simp
  then show ?thesis using assms(4) resolved_instance_blocking(2) resolved_instance_satisfied by blast
qed

text \<open>
  C10: An authorized action may be exercised exactly when every obligation declared as blocking was
  reported discharged, for exactly this request, action and resource, by a registered independent
  source, or was waived by one before any discharge was reported.  The declared deadline is no part
  of the condition: an obligation whose discharge was observed at or after its deadline is
  satisfied too, although the requirement calls the deadline the instant by which the obligation
  must reach a satisfying state and the table of transitions makes \<open>expired\<close> final.
\<close>

theorem obligation_exercise_exact:
  assumes "createObligationLifecycleService P sources declaration = Inr svc"
    and "resolve_obligations P svc observations correlation now = Inr res"
  shows "(res_eligibility res = Eligible \<longleftrightarrow>
    (\<forall>t r. map_of (ls_requirementsByType svc) t = Some r \<and> or_blocking r \<longrightarrow>
       (\<exists>observation \<in> set observations. \<exists>src.
          ob_type observation = t \<and> obligationCorrelationMatches (ob_correlation observation) correlation \<and>
          ob_outcome observation = ''discharged'' \<and>
          registry_get (ls_registry svc) (ob_sourceId observation) = Some src \<and> os_class src = Independent) \<or>
       waived_first (map report_of (reports svc correlation observations t)))) \<and>
    (\<forall>r deadline. \<forall>observation \<in> set observations. \<forall>src.
       map_of (ls_requirementsByType svc) (ob_type observation) = Some r \<and> or_expiresAt r = Some deadline \<and>
       isObligationExpiredAt P deadline (ob_observedAt observation) \<and>
       obligationCorrelationMatches (ob_correlation observation) correlation \<and> ob_outcome observation = ''discharged'' \<and>
       registry_get (ls_registry svc) (ob_sourceId observation) = Some src \<and> os_class src = Independent \<longrightarrow>
       (\<exists>i \<in> set (res_obligations res). oi_type i = ob_type observation \<and> obligationIsSatisfied i))"
proof (intro conjI allI ballI impI)
  show "res_eligibility res = Eligible \<longleftrightarrow>
    (\<forall>t r. map_of (ls_requirementsByType svc) t = Some r \<and> or_blocking r \<longrightarrow>
       (\<exists>observation \<in> set observations. \<exists>src.
          ob_type observation = t \<and> obligationCorrelationMatches (ob_correlation observation) correlation \<and>
          ob_outcome observation = ''discharged'' \<and>
          registry_get (ls_registry svc) (ob_sourceId observation) = Some src \<and> os_class src = Independent) \<or>
       waived_first (map report_of (reports svc correlation observations t)))"
    unfolding exercise_eligible_iff [OF assms(2) created_service_ok [OF assms(1)]]
      satisfying_reports_def reports_independent_discharge by blast
next
  fix r deadline observation src
  assume late: "observation \<in> set observations"
    "map_of (ls_requirementsByType svc) (ob_type observation) = Some r \<and> or_expiresAt r = Some deadline \<and>
       isObligationExpiredAt P deadline (ob_observedAt observation) \<and>
       obligationCorrelationMatches (ob_correlation observation) correlation \<and> ob_outcome observation = ''discharged'' \<and>
       registry_get (ls_registry svc) (ob_sourceId observation) = Some src \<and> os_class src = Independent"
  then have "satisfying_reports (map report_of (reports svc correlation observations (ob_type observation)))"
    unfolding satisfying_reports_def reports_independent_discharge by blast
  then show "\<exists>i \<in> set (res_obligations res). oi_type i = ob_type observation \<and> obligationIsSatisfied i"
    using resolution_satisfied [OF assms] late(2) by blast
qed

text \<open>
  C11: A satisfied obligation rests on the report of a registered source that the deployment classified
  as independent, of one of the three kinds that can be, about exactly this obligation and this
  authorization; a verified one on a discharge and a waived one on a waiver.
\<close>

theorem satisfied_independently:
  assumes "createObligationLifecycleService P sources declaration = Inr svc"
    and "resolve_obligations P svc observations correlation now = Inr res"
    and "i \<in> set (res_obligations res)" "obligationIsSatisfied i"
  shows "\<exists>observation \<in> set observations. \<exists>src.
    ob_type observation = oi_type i \<and>
    obligationCorrelationMatches (ob_correlation observation) correlation \<and>
    registry_get (ls_registry svc) (ob_sourceId observation) = Some src \<and>
    os_class src = Independent \<and>
    os_kind src \<in> {ApprovalRuntimeKind, ProviderAdapterKind, SignedAttestationKind} \<and>
    ob_outcome observation = (if oi_state i = Verified then ''discharged'' else ''waived'') \<and>
    oi_discharge i = Some \<lparr>dr_sourceId = ob_sourceId observation, dr_sourceKind = os_kind src,
      dr_class = Independent, dr_outcome = ob_outcome observation, dr_observedAt = ob_observedAt observation,
      dr_subjectId = ob_subjectId observation, dr_reference = ob_reference observation\<rparr>"
proof -
  note ok = created_service_ok [OF assms(1)]
  have "rests_on (reports svc correlation observations (oi_type i)) i"
    using resolved_instance_rests_on resolution_member(2) [OF assms(1-3)] by metis
  then obtain entry where entry: "entry \<in> set (reports svc correlation observations (oi_type i))"
      "oi_discharge i = dischargeRecordFor entry"
      "ob_outcome (ad_observation entry) = (if oi_state i = Verified then ''discharged'' else ''waived'')"
      "oi_state i = Verified \<Longrightarrow> os_class (ad_source entry) = Independent"
    using assms(4) by (auto simp add: rests_on_def obligationIsSatisfied_def report_of_def)
  then obtain observation where o: "observation \<in> set observations" "ob_type observation = oi_type i"
      "admit_observation svc correlation observation = Inr entry"
    by (auto simp add: reports_iff)
  have cls: "os_class (ad_source entry) = Independent" "ad_observation entry = observation"
    using entry o(3) by (auto simp add: admit_observation_ok split: if_splits)
  have src: "registry_get (ls_registry svc) (ob_sourceId observation) = Some (ad_source entry)"
    and m: "obligationCorrelationMatches (ob_correlation observation) correlation"
    using o(3) by (auto simp add: admit_observation_ok)
  have "os_id (ad_source entry) = ob_sourceId observation"
    "os_kind (ad_source entry) \<in> {ApprovalRuntimeKind, ProviderAdapterKind, SignedAttestationKind}"
    using ok src cls by (auto simp add: service_ok_def source_ok_def)
  with src m cls entry o(1,2) show ?thesis
    by (intro bexI [of _ observation] exI [of _ "ad_source entry"])
      (auto simp add: dischargeRecordFor_def Let_def split: if_splits)
qed

text \<open>
  C37: The history of every resolved obligation is a walk of the transition table from \<open>required\<close> to
  its state, of at most three transitions, all recorded at the instant of the resolution; identity,
  type, correlation and deadline are those of the declaration.
\<close>

theorem obligation_history_legal:
  assumes "createObligationLifecycleService P sources declaration = Inr svc"
    and "resolve_obligations P svc observations correlation now = Inr res"
  shows "map oi_type (res_obligations res) = ls_declared svc \<and>
    (\<forall>i \<in> set (res_obligations res).
       legal_path isLegalObligationTransition Required (history_of i) (oi_state i) \<and>
       length (oi_transitions i) \<le> 3 \<and> (\<forall>tr \<in> set (oi_transitions i). tr_at tr = now) \<and>
       oi_id i = obligationInstanceId correlation (oi_type i) \<and> oi_correlation i = correlation \<and>
       (\<exists>r. map_of (ls_requirementsByType svc) (oi_type i) = Some r \<and>
          oi_blocking i = or_blocking r \<and> oi_expiresAt i = or_expiresAt r))"
proof -
  have "legal_path isLegalObligationTransition Required (history_of i) (oi_state i) \<and>
       length (oi_transitions i) \<le> 3 \<and> (\<forall>tr \<in> set (oi_transitions i). tr_at tr = now) \<and>
       oi_id i = obligationInstanceId correlation (oi_type i) \<and> oi_correlation i = correlation \<and>
       (\<exists>r. map_of (ls_requirementsByType svc) (oi_type i) = Some r \<and>
          oi_blocking i = or_blocking r \<and> oi_expiresAt i = or_expiresAt r)"
    if i: "i \<in> set (res_obligations res)" for i
  proof -
    note m = resolution_member [OF assms i]
    obtain r where r: "map_of (ls_requirementsByType svc) (oi_type i) = Some r"
      using m(1) created_service_ok [OF assms(1)] by (auto simp add: service_ok_def)
    have inv: "lifecycle_inv now (declared_instance svc correlation now (oi_type i)) i"
      using resolved_instance_inv m(2) by metis
    then have path: "legal_path isLegalObligationTransition Required (history_of i) (oi_state i)"
      by (simp add: lifecycle_inv_def)
    then have "length (oi_transitions i) \<le> 3"
      using lifecycle.path_bounded [OF path] by (simp add: history_of_def)
    with path inv r show ?thesis by (simp add: lifecycle_inv_def)
  qed
  moreover have "map oi_type (res_obligations res) = ls_declared svc"
    using created_resolution [OF assms(2,1)] by (simp add: comp_def resolved_instance_blocking)
  ultimately show ?thesis by blast
qed

text \<open>
  C38: No sequence of transitions goes on for ever, whatever is requested of an obligation, and a
  terminal obligation takes none.
\<close>

theorem obligation_lifecycle_terminates:
  "wfp (\<lambda>j i. \<exists>to_state now reason discharge.
       transitionObligation i to_state now reason discharge = Applied j) \<and>
   (isTerminalObligationState (oi_state i) \<longleftrightarrow>
      (\<nexists>to_state now reason discharge j. transitionObligation i to_state now reason discharge = Applied j))"
proof
  show "wfp (\<lambda>j i. \<exists>to_state now reason discharge.
       transitionObligation i to_state now reason discharge = Applied j)"
  proof (rule lifecycle.steps_terminate [where state_of = oi_state])
    fix i j assume "\<exists>to_state now reason discharge. transitionObligation i to_state now reason discharge = Applied j"
    then obtain s now reason discharge where
      a: "transitionObligation i s now reason discharge = Applied j" by blast
    show "isLegalObligationTransition (oi_state i) (oi_state j)" using transition_applied [OF a] by simp
  qed
next
  have "\<exists>j. transitionObligation i s now reason discharge = Applied j"
    if "isLegalObligationTransition (oi_state i) s" for s now reason discharge
    using that by (cases "oi_state i") (auto simp add: transitionObligation_def obligation_table_defs)
  then show "isTerminalObligationState (oi_state i) \<longleftrightarrow>
      (\<nexists>to_state now reason discharge j. transitionObligation i to_state now reason discharge = Applied j)"
    unfolding terminal_no_transition using transition_applied(1) by blast
qed

text \<open>
  C39: The states of a resolution are those of a machine that reads, of every admitted report, only
  its outcome and the class of its source; a declared deadline turns exactly the states that do
  not satisfy into \<open>expired\<close>.
\<close>

theorem obligation_states_refine:
  assumes "createObligationLifecycleService P sources declaration = Inr svc"
    and "resolve_obligations P svc observations correlation now = Inr res"
  shows "map (\<lambda>i. (oi_type i, oi_state i)) (res_obligations res) =
    map (\<lambda>t. (t, expire_state P (Option.bind (map_of (ls_requirementsByType svc) t) or_expiresAt) now
       (run_reports (map report_of (reports svc correlation observations t))))) (ls_declared svc)"
  using created_resolution [OF assms(2,1)]
  by (simp add: resolved_instance_blocking resolved_instance_state)

lemma resolve_throws_iff:
  assumes "service_ok svc"
  shows "(\<exists>e. resolve_obligations P svc observations correlation now = Inl e) \<longleftrightarrow>
    (\<exists>observation \<in> set observations. \<exists>entry. admit_observation svc correlation observation = Inr entry \<and>
       ob_outcome observation \<notin> set OBLIGATION_DISCHARGE_OUTCOMES)"
proof -
  let ?adm = "admissible_observations svc correlation (sortObservations observations)"
  let ?inst = "foldl (\<lambda>m i. AList.update (oi_type i) i m) [] (declare_obligations svc correlation now)"
  have "(\<exists>e. resolve_obligations P svc observations correlation now = Inl e) \<longleftrightarrow>
      (\<exists>e. apply_entries now (fst ?adm) \<lparr>rs_instances = ?inst, rs_disregarded = snd ?adm\<rparr> = Inl e)"
    unfolding resolve_obligations_def Let_def by (auto split: prod.splits sum.splits)
  also have "\<dots> \<longleftrightarrow> (\<exists>entry \<in> set (fst ?adm). ob_type (ad_observation entry) \<in> set (ls_declared svc) \<and>
        ob_outcome (ad_observation entry) \<notin> set OBLIGATION_DISCHARGE_OUTCOMES)"
  proof -
    have "dom (map_of ?inst) = set (ls_declared svc)"
      using assms by (auto simp add: dom_def declared_instances_map service_ok_def)
    then show ?thesis by (simp add: apply_entries_throws)
  qed
  also have "\<dots> \<longleftrightarrow> (\<exists>observation \<in> set observations. \<exists>entry. admit_observation svc correlation observation = Inr entry \<and>
       ob_outcome observation \<notin> set OBLIGATION_DISCHARGE_OUTCOMES)"
    using assms
    by (auto simp add: fst_admissible_observations in_admitted admit_observation_ok service_ok_def) blast+
  finally show ?thesis .
qed

text \<open>
  C40: A service answers every list of observations, unless one that passed the gates names an outcome
  outside the declared four: then it throws.
\<close>

theorem obligation_resolution_total:
  assumes "createObligationLifecycleService P sources declaration = Inr svc"
  shows "(\<exists>res. resolve_obligations P svc observations correlation now = Inr res) \<longleftrightarrow>
    \<not> (\<exists>observation \<in> set observations. \<exists>entry. admit_observation svc correlation observation = Inr entry \<and>
       ob_outcome observation \<notin> set OBLIGATION_DISCHARGE_OUTCOMES)"
  unfolding resolve_throws_iff [OF created_service_ok [OF assms], of P observations correlation now, symmetric]
  by (cases "resolve_obligations P svc observations correlation now") auto

text \<open>
  The states of all obligations and the eligibility do not depend on the order in which a provider
  lists its observations.
\<close>

theorem obligation_states_order_free:
  assumes "createObligationLifecycleService P sources declaration = Inr svc"
    and "mset observations = mset observations'"
    and "resolve_obligations P svc observations correlation now = Inr res"
  shows "\<exists>res'. resolve_obligations P svc observations' correlation now = Inr res' \<and>
    map oi_state (res_obligations res') = map oi_state (res_obligations res) \<and>
    res_eligibility res' = res_eligibility res"
proof -
  note ok = created_service_ok [OF assms(1)]
  have sets: "set observations = set observations'" using assms(2) by (rule mset_eq_setD)
  have "\<not> (\<exists>e. resolve_obligations P svc observations' correlation now = Inl e)"
    using resolve_throws_iff [OF ok, of P observations correlation now]
      resolve_throws_iff [OF ok, of P observations' correlation now] sets assms(3) by auto
  then obtain res' where res': "resolve_obligations P svc observations' correlation now = Inr res'"
    by (cases "resolve_obligations P svc observations' correlation now") auto
  moreover have "map oi_state (res_obligations res') = map oi_state (res_obligations res)"
    using created_resolution [OF assms(3,1)] created_resolution [OF res' assms(1)] reports_order_free [OF assms(2)]
    by (simp add: resolved_instance_state)
  moreover have "res_eligibility res' = res_eligibility res"
    using exercise_eligible_iff [OF assms(3) ok] exercise_eligible_iff [OF res' ok] reports_order_free [OF assms(2)]
    by (cases "res_eligibility res"; cases "res_eligibility res'") simp_all
  ultimately show ?thesis by blast
qed

section \<open>A concrete deployment\<close>

definition source_js :: "string \<Rightarrow> string \<Rightarrow> string \<Rightarrow> js_value" where
  "source_js sid kind verification = JSObject True
     [(''id'', DataProp (JSString sid)), (''kind'', DataProp (JSString kind)),
      (''name'', DataProp (JSString sid)), (''verificationClass'', DataProp (JSString verification))]"

definition example_sources :: "js_value list" where
  "example_sources = [source_js ''approvals'' ''approval_runtime'' ''independent'',
                      source_js ''agent'' ''request'' ''self_reported'']"

definition example_declaration :: js_value where
  "example_declaration = JSObject True [(''requirements'', DataProp (JSArray
     [JSObject True [(''obligationType'', DataProp (JSString ''finance.approval'')),
        (''blocking'', DataProp (JSBool True)),
        (''expiresAt'', DataProp (JSString ''2026-01-02T00:00:00Z''))]]))]"

definition example_service :: lifecycle_service where
  "example_service =
     \<lparr>ls_registry = [(''approvals'', \<lparr>os_id = ''approvals'', os_kind = ApprovalRuntimeKind, os_name = ''approvals'', os_class = Independent\<rparr>),
        (''agent'', \<lparr>os_id = ''agent'', os_kind = RequestKind, os_name = ''agent'', os_class = SelfReported\<rparr>)],
      ls_requirementsByType = [(''finance.approval'',
        \<lparr>or_type = ''finance.approval'', or_blocking = True, or_expiresAt = Some ''2026-01-02T00:00:00Z''\<rparr>)],
      ls_declared = [''finance.approval'']\<rparr>"

definition example_obligation_correlation :: obligation_correlation where
  "example_obligation_correlation = \<lparr>oc_requestId = ''r1'', oc_action = ''payment'', oc_resourceScope = ''acct:1''\<rparr>"

definition example_observation :: "string \<Rightarrow> string \<Rightarrow> string \<Rightarrow> string \<Rightarrow> obligation_observation" where
  "example_observation sid outcome instant_text reference =
     \<lparr>ob_type = ''finance.approval'', ob_correlation = example_obligation_correlation,
      ob_sourceId = sid, ob_outcome = outcome, ob_observedAt = instant_text,
      ob_subjectId = None, ob_reference = Some reference\<rparr>"

definition early_discharge :: obligation_observation where
  "early_discharge = example_observation ''approvals'' ''discharged'' ''2026-01-01T10:00:00Z'' ''a1''"

lemma example_service_created:
  "createObligationLifecycleService example_platform example_sources example_declaration = Inr example_service"
  by code_simp

definition example_resolution :: obligation_resolution where
  "example_resolution =
     projr (resolve_obligations example_platform example_service [early_discharge]
       example_obligation_correlation ''2026-01-01T12:00:00Z'')"

lemma example_resolution_ok:
  "resolve_obligations example_platform example_service [early_discharge]
     example_obligation_correlation ''2026-01-01T12:00:00Z'' = Inr example_resolution"
  by code_simp

lemma example_resolution_shape:
  "map oi_state (res_obligations example_resolution) = [Verified]"
  "list_all obligationIsSatisfied (res_obligations example_resolution)"
  by code_simp+

theorem obligation_exercise_exact_witness:
  "res_eligibility example_resolution = Eligible \<and>
   (\<exists>observation \<in> set [early_discharge]. \<exists>src.
      ob_type observation = ''finance.approval'' \<and>
      registry_get (ls_registry example_service) (ob_sourceId observation) = Some src \<and> os_class src = Independent)"
proof -
  have e: "res_eligibility example_resolution = Eligible" by code_simp
  have r: "\<exists>r. map_of (ls_requirementsByType example_service) ''finance.approval'' = Some r \<and> or_blocking r"
    by (simp add: example_service_def)
  have "\<not> waived_first (map report_of (reports example_service example_obligation_correlation [early_discharge] ''finance.approval''))"
    by code_simp
  with e r show ?thesis
    using conjunct1 [OF obligation_exercise_exact [OF example_service_created example_resolution_ok]] by blast
qed

theorem satisfied_independently_witness:
  "\<exists>i. i \<in> set (res_obligations example_resolution) \<and> oi_state i = Verified \<and>
     map_option dr_sourceId (oi_discharge i) = Some ''approvals''"
proof -
  obtain i where i: "res_obligations example_resolution = [i]" "oi_state i = Verified"
    using example_resolution_shape(1) by auto
  then have "obligationIsSatisfied i" by (simp add: obligationIsSatisfied_def)
  from satisfied_independently [OF example_service_created example_resolution_ok _ this] i
  show ?thesis by (auto simp add: early_discharge_def example_observation_def)
qed

theorem obligation_history_legal_witness:
  "\<exists>i. res_obligations example_resolution = [i] \<and> length (oi_transitions i) \<le> 3 \<and>
     legal_path isLegalObligationTransition Required (history_of i) Verified"
proof -
  obtain i where i: "res_obligations example_resolution = [i]" "oi_state i = Verified"
    using example_resolution_shape(1) by auto
  with obligation_history_legal [OF example_service_created example_resolution_ok] show ?thesis by simp
qed

theorem obligation_states_refine_witness:
  "map oi_state (res_obligations example_resolution) = [Verified]"
proof -
  have "map snd (map (\<lambda>i. (oi_type i, oi_state i)) (res_obligations example_resolution)) = [Verified]"
    unfolding obligation_states_refine [OF example_service_created example_resolution_ok] by code_simp
  then show ?thesis by (simp add: comp_def)
qed

theorem obligation_resolution_total_witness:
  "\<nexists>res. resolve_obligations example_platform example_service
     [example_observation ''agent'' ''approved'' ''2026-01-01T10:00:00Z'' ''a1'']
     example_obligation_correlation ''2026-01-01T12:00:00Z'' = Inr res"
proof -
  let ?o = "example_observation ''agent'' ''approved'' ''2026-01-01T10:00:00Z'' ''a1''"
  have "case admit_observation example_service example_obligation_correlation ?o of Inl _ \<Rightarrow> False | Inr _ \<Rightarrow> True"
    by code_simp
  then have "\<exists>entry. admit_observation example_service example_obligation_correlation ?o = Inr entry"
    by (auto split: sum.splits)
  moreover have "ob_outcome ?o \<notin> set OBLIGATION_DISCHARGE_OUTCOMES" by code_simp
  ultimately show ?thesis
    unfolding obligation_resolution_total [OF example_service_created] by auto
qed

text \<open>
  Two independent reports of the same discharge at the same instant, from the same source, that
  differ in the reference they cite: their order in the provider's list decides which record the
  decision carries, though the states agree.
\<close>

definition tied_discharges :: "obligation_observation list" where
  "tied_discharges =
     [example_observation ''approvals'' ''discharged'' ''2026-01-01T10:00:00Z'' ''a1'',
      example_observation ''approvals'' ''discharged'' ''2026-01-01T10:00:00Z'' ''a2'']"

theorem obligation_states_order_free_witness:
  "\<exists>res'. resolve_obligations example_platform example_service (rev tied_discharges)
       example_obligation_correlation ''2026-01-01T12:00:00Z'' = Inr res' \<and>
     map oi_state (res_obligations res') = [Verified]"
proof -
  let ?r = "projr (resolve_obligations example_platform example_service tied_discharges
     example_obligation_correlation ''2026-01-01T12:00:00Z'')"
  have "resolve_obligations example_platform example_service tied_discharges
     example_obligation_correlation ''2026-01-01T12:00:00Z'' = Inr ?r" by code_simp
  moreover have "map oi_state (res_obligations ?r) = [Verified]" by code_simp
  moreover have "mset tied_discharges = mset (rev tied_discharges)" by simp
  ultimately show ?thesis
    using obligation_states_order_free [OF example_service_created] by metis
qed

definition cited_references :: "js_error + obligation_resolution \<Rightarrow> string option list" where
  "cited_references r = map (\<lambda>i. Option.bind (oi_discharge i) dr_reference) (res_obligations (projr r))"

theorem discharge_record_order_dependent:
  "cited_references (resolve_obligations example_platform example_service tied_discharges
     example_obligation_correlation ''2026-01-01T12:00:00Z'') = [Some ''a1''] \<and>
   cited_references (resolve_obligations example_platform example_service (rev tied_discharges)
     example_obligation_correlation ''2026-01-01T12:00:00Z'') = [Some ''a2'']"
  by code_simp

text \<open>
  An obligation read as \<open>expired\<close>, a terminal state, is read as \<open>verified\<close> once a discharge
  observed after its deadline is among the observations.
\<close>

theorem expired_obligation_reopens:
  "map oi_state (res_obligations (projr (resolve_obligations example_platform example_service []
     example_obligation_correlation ''2026-01-03T00:00:00Z''))) = [Expired] \<and>
   map oi_state (res_obligations (projr (resolve_obligations example_platform example_service
     [example_observation ''approvals'' ''discharged'' ''2026-01-04T00:00:00Z'' ''late'']
     example_obligation_correlation ''2026-01-05T00:00:00Z''))) = [Verified]"
  by code_simp

end
