(* ===== verification/Context_Resolution.thy ===== *)
theory Context_Resolution
  imports Grants Obligations
begin

text \<open>
  The context resolution runtime (\<open>features/context-resolution-runtime\<close>): configured sources and
  the fact classes they may attest, the declaration of the facts a deployment needs, the boundary
  that admits or refuses each reading, the classification of admitted readings into facts, the
  closed algebra of derived facts, the digests, and the reading of a requirement.

  \<^item> Enumerations of the configuration (kinds, trust classes, postures, operators) are the
    strings the code compares, so that its validators have something to reject.
  \<^item> A reading is typed except for its value.
  \<^item> Derived numbers are computed in double arithmetic: an integral result of 53 bits or more
    is rounded to the nearest double, half to even.
  \<^item> The difference of two instants is exact here; in doubles it is exact for instants less than
    285 thousand years apart.
\<close>

section \<open>Trust classes\<close>

definition TERMINAL_CONTEXT_TRUST_CLASSES :: "string list" where
  "TERMINAL_CONTEXT_TRUST_CLASSES = [''asserted'', ''authoritative'', ''attested'']"

definition TERMINAL_RANK :: "string \<Rightarrow> nat option" where
  "TERMINAL_RANK = map_of [(''asserted'', 0), (''authoritative'', 1), (''attested'', 2)]"

definition isTerminalContextTrustClass :: "string \<Rightarrow> bool" where
  "isTerminalContextTrustClass c \<longleftrightarrow> c \<noteq> ''derived''"

text \<open>A comparison with the rank of a class outside the table compares with \<open>undefined\<close> and is false.\<close>

definition rank_less :: "string \<Rightarrow> string \<Rightarrow> bool" where
  "rank_less a b =
     (case (TERMINAL_RANK a, TERMINAL_RANK b) of (Some x, Some y) \<Rightarrow> x < y | _ \<Rightarrow> False)"

definition contextTrustClassSatisfies :: "string \<Rightarrow> string \<Rightarrow> bool" where
  "contextTrustClassSatisfies effective minimum =
     (case (TERMINAL_RANK effective, TERMINAL_RANK minimum) of (Some x, Some y) \<Rightarrow> y \<le> x | _ \<Rightarrow> False)"

definition minimumContextTrustClass :: "string list \<Rightarrow> string" where
  "minimumContextTrustClass classes =
     (if classes = [] then ''asserted''
      else foldl (\<lambda>lowest c. if rank_less c lowest then c else lowest) ''attested'' classes)"

section \<open>Sources\<close>

definition CONTEXT_FACT_CLASS_MAX_LENGTH :: nat where
  "CONTEXT_FACT_CLASS_MAX_LENGTH = 96"

definition isContextFactClass :: "string \<Rightarrow> bool" where
  "isContextFactClass s \<longleftrightarrow>
     s \<noteq> [] \<and> length s \<le> CONTEXT_FACT_CLASS_MAX_LENGTH \<and> SEMANTIC_IDENTIFIER s"

definition CONTEXT_MAX_AGE_SECONDS_LIMIT :: int where
  "CONTEXT_MAX_AGE_SECONDS_LIMIT = 7 * 24 * 60 * 60"

record context_attestation =
  at_factClass :: string
  at_maxAgeSeconds :: "js_number option"

record context_source =
  cs_id :: string
  cs_kind :: string
  cs_name :: string
  cs_trustClass :: string
  cs_attests :: "context_attestation list"
  cs_organizationId :: "string option"
  cs_provenance :: "string option"

definition CONTEXT_SOURCE_PROVENANCE_REQUIREMENTS :: "string list" where
  "CONTEXT_SOURCE_PROVENANCE_REQUIREMENTS = [''none'', ''reference-digest'']"

definition CONTEXT_SOURCE_KINDS :: "string list" where
  "CONTEXT_SOURCE_KINDS =
     [''request'', ''internal_store'', ''erp'', ''crm'', ''external_api'', ''ledger'',
      ''identity_provider'', ''approval_system'', ''risk_engine'', ''signed_attestation'']"

definition contextSourceAttestationFor :: "context_source \<Rightarrow> string \<Rightarrow> context_attestation option" where
  "contextSourceAttestationFor src fact_class = find (\<lambda>a. at_factClass a = fact_class) (cs_attests src)"

definition CONTEXT_DERIVED_SOURCE_ID :: string where
  "CONTEXT_DERIVED_SOURCE_ID = ''aoc.context.derived''"

definition CONTEXT_DERIVED_SOURCE :: context_source where
  "CONTEXT_DERIVED_SOURCE =
     \<lparr>cs_id = CONTEXT_DERIVED_SOURCE_ID, cs_kind = ''internal_store'', cs_name = ''Frontera derived context'',
      cs_trustClass = ''authoritative'', cs_attests = [], cs_organizationId = None, cs_provenance = None\<rparr>"

datatype context_violation =
    ContextSourceIdRequired
  | ContextSourceNameRequired string
  | ContextSourceKindUndeclared string string
  | ContextRequestSourceNotAsserted string
  | ContextAttestedNeedsSignedKind string
  | ContextSourceAttestsNothing string
  | ContextFactClassMalformed string
  | ContextFactClassTwice string string
  | ContextFreshnessBoundInvalid string string
  | ContextSourceOrganizationBlank string
  | ContextSourceProvenanceUndeclared string string
  | ContextSourceReserved string
  | ContextSourceRegisteredTwice string
  | ContextRequirementKeyRequired
  | ContextRequirementTwice string
  | ContextRequirementTrustUndeclared string string
  | ContextRequirementAgeInvalid string
  | ContextRequirementRestrictiveRequired string
  | ContextDerivationKeyRequired
  | ContextDerivationOperatorUndeclared string string
  | ContextDerivationEmpty string
  | ContextDerivationOwnOperand string
  | ContextDerivationArity string string
  | ContextDerivationTwice string
  | ContextDerivationOperandUndeclared string string
  | ContextAssertableUndeclared string
  | ContextSkewInvalid
  | ContextPolicyUndeclared string

datatype context_error = ContextConfigurationError string "context_violation list"

definition age_bound_valid :: "js_number \<Rightarrow> bool" where
  "age_bound_valid n \<longleftrightarrow>
     isSafeInteger n \<and> js_num_le (NumInt 1) n \<and> js_num_le n (NumInt CONTEXT_MAX_AGE_SECONDS_LIMIT)"

fun attests_violations :: "string \<Rightarrow> string list \<Rightarrow> context_attestation list \<Rightarrow> context_violation list" where
  "attests_violations sid folds [] = []"
| "attests_violations sid folds (a # rest) =
     (if \<not> isContextFactClass (at_factClass a) then ContextFactClassMalformed sid # attests_violations sid folds rest
      else
        let fold = semanticIdentifierFold (at_factClass a)
        in (if fold \<in> set folds then [ContextFactClassTwice sid (at_factClass a)] else []) @
           (case at_maxAgeSeconds a of
              None \<Rightarrow> []
            | Some n \<Rightarrow> if age_bound_valid n then [] else [ContextFreshnessBoundInvalid sid (at_factClass a)]) @
           attests_violations sid (fold # folds) rest)"

definition validateContextSource :: "context_source \<Rightarrow> context_violation list" where
  "validateContextSource src =
     (let sid = cs_id src
      in (if js_trim sid = [] then [ContextSourceIdRequired] else []) @
         (if js_trim (cs_name src) = [] then [ContextSourceNameRequired sid] else []) @
         (if cs_kind src \<in> set CONTEXT_SOURCE_KINDS then [] else [ContextSourceKindUndeclared sid (cs_kind src)]) @
         (if cs_kind src = ''request'' \<and> cs_trustClass src \<noteq> ''asserted''
          then [ContextRequestSourceNotAsserted sid] else []) @
         (if cs_trustClass src = ''attested'' \<and> cs_kind src \<noteq> ''signed_attestation''
          then [ContextAttestedNeedsSignedKind sid] else []) @
         (if cs_attests src = [] then [ContextSourceAttestsNothing sid]
          else attests_violations sid [] (cs_attests src)) @
         (case cs_organizationId src of
            None \<Rightarrow> [] | Some organization \<Rightarrow> if js_trim organization = [] then [ContextSourceOrganizationBlank sid] else []) @
         (case cs_provenance src of
            None \<Rightarrow> []
          | Some p \<Rightarrow> if p \<in> set CONTEXT_SOURCE_PROVENANCE_REQUIREMENTS then []
                      else [ContextSourceProvenanceUndeclared sid p]))"

type_synonym context_registry = "(string \<times> context_source) list"

fun collect_context_sources ::
  "context_registry \<Rightarrow> context_source list \<Rightarrow> context_violation list \<Rightarrow>
     context_registry \<times> context_violation list" where
  "collect_context_sources byId [] violations = (byId, violations)"
| "collect_context_sources byId (src # rest) violations =
     (let found = violations @ validateContextSource src
      in if cs_id src = CONTEXT_DERIVED_SOURCE_ID
         then collect_context_sources byId rest (found @ [ContextSourceReserved (cs_id src)])
         else collect_context_sources (AList.update (cs_id src) src byId) rest
                (found @ (if map_of byId (cs_id src) \<noteq> None then [ContextSourceRegisteredTwice (cs_id src)] else [])))"

definition createContextSourceRegistry :: "context_source list \<Rightarrow> context_error + context_registry" where
  "createContextSourceRegistry sources =
     (let (byId, violations) = collect_context_sources [] sources []
      in if violations \<noteq> []
         then Inl (ContextConfigurationError ''Context source configuration is invalid.'' violations)
         else Inr (AList.update CONTEXT_DERIVED_SOURCE_ID CONTEXT_DERIVED_SOURCE byId))"

definition context_registry_list :: "context_registry \<Rightarrow> context_source list" where
  "context_registry_list reg = sort_by (\<lambda>l r. compare_strings (cs_id l) (cs_id r)) (map snd reg)"

section \<open>Derivations\<close>

text \<open>An integer rounded to the nearest double: 53 significant bits, half to even.\<close>

fun bit_length :: "nat \<Rightarrow> nat" where
  "bit_length n = (if n = 0 then 0 else Suc (bit_length (n div 2)))"

declare bit_length.simps [simp del]

definition round_nat :: "nat \<Rightarrow> nat" where
  "round_nat n =
     (let b = bit_length n
      in if b \<le> 53 then n
         else
           let unit = 2 ^ (b - 53); q = n div unit; r = n mod unit
           in (if 2 * r < unit then q
               else if unit < 2 * r then q + 1
               else if even q then q else q + 1) * unit)"

definition double_of_int :: "int \<Rightarrow> js_number" where
  "double_of_int i =
     (let v = (if i < 0 then - int (round_nat (nat (- i))) else int (round_nat (nat i)))
      in if bit_length (nat \<bar>v\<bar>) > 1024 then NumInfinity (0 < v) else NumInt v)"

text \<open>
  Addition and multiplication of integral doubles, the two zeros included; other operands do not
  reach these operators.
\<close>

fun js_add :: "js_number \<Rightarrow> js_number \<Rightarrow> js_number" where
  "js_add (NumInt a) (NumInt b) = double_of_int (a + b)"
| "js_add NumNegZero b = b"
| "js_add a NumNegZero = a"
| "js_add (NumInfinity p) (NumInfinity q) = (if p = q then NumInfinity p else NumNaN)"
| "js_add (NumInfinity p) (NumInt b) = NumInfinity p"
| "js_add (NumInt a) (NumInfinity q) = NumInfinity q"
| "js_add _ _ = NumNaN"

fun js_negative :: "js_number \<Rightarrow> bool" where
  "js_negative (NumInt i) = (i < 0)"
| "js_negative NumNegZero = True"
| "js_negative (NumInfinity positive) = (\<not> positive)"
| "js_negative (NumFrac q) = (q < 0)"
| "js_negative NumNaN = False"

definition signed_zero :: "bool \<Rightarrow> js_number" where
  "signed_zero negative = (if negative then NumNegZero else NumInt 0)"

definition is_js_zero :: "js_number \<Rightarrow> bool" where
  "is_js_zero n \<longleftrightarrow> n = NumInt 0 \<or> n = NumNegZero"

fun int_part :: "js_number \<Rightarrow> int" where
  "int_part (NumInt i) = i"
| "int_part _ = 0"

fun is_js_infinite :: "js_number \<Rightarrow> bool" where
  "is_js_infinite (NumInfinity p) = True"
| "is_js_infinite _ = False"

definition js_mul :: "js_number \<Rightarrow> js_number \<Rightarrow> js_number" where
  "js_mul a b =
     (let negative = (js_negative a \<noteq> js_negative b)
      in if is_js_infinite a \<or> is_js_infinite b
         then (if is_js_zero a \<or> is_js_zero b then NumNaN else NumInfinity (\<not> negative))
         else if is_js_zero a \<or> is_js_zero b then signed_zero negative
         else double_of_int (int_part a * int_part b))"

text \<open>
  The quotient of two integral doubles.  A quotient of safe integers that is not integral is not
  rounded to an integral one, so its exact value stands for the nearest double.
\<close>

definition js_div :: "js_number \<Rightarrow> js_number \<Rightarrow> js_number" where
  "js_div a b =
     (let negative = (js_negative a \<noteq> js_negative b)
      in if is_js_zero a then signed_zero negative
         else if int_part b dvd int_part a then double_of_int (int_part a div int_part b)
         else NumFrac (of_int (int_part a) / of_int (int_part b)))"

record context_derivation =
  cd_key :: string
  cd_operator :: string
  cd_operandKeys :: "string list"

definition CONTEXT_DERIVATION_OPERATORS :: "string list" where
  "CONTEXT_DERIVATION_OPERATORS =
     [''sum'', ''difference'', ''product'', ''quotient'', ''min'', ''max'', ''count'']"

datatype derivation_failure = TypeMismatch | DivisionByZero | DerivationArity | NotFinite

fun fact_number :: "js_value \<Rightarrow> js_number option" where
  "fact_number (JSNumber n) = (if js_finite n = None then None else Some n)"
| "fact_number _ = None"

definition finite_outcome :: "js_number \<Rightarrow> derivation_failure + js_number" where
  "finite_outcome n = (if js_finite n = None then Inl NotFinite else Inr n)"

definition js_reduce :: "('a \<Rightarrow> 'a \<Rightarrow> 'a) \<Rightarrow> 'a list \<Rightarrow> 'a" where
  "js_reduce f xs = foldl f (hd xs) (tl xs)"

text \<open>The last case is an operator outside the algebra, for which the switch answers nothing.\<close>

definition evaluateContextDerivation :: "string \<Rightarrow> js_value list \<Rightarrow> (derivation_failure + js_number) option" where
  "evaluateContextDerivation operator operands =
     (if operator = ''count'' then Some (Inr (NumInt (int (length operands))))
      else if list_ex (\<lambda>v. fact_number v = None) operands then Some (Inl TypeMismatch)
      else
        let numbers = map (the \<circ> fact_number) operands
        in if operator = ''sum'' then
             Some (if numbers = [] then Inl DerivationArity else finite_outcome (foldl js_add (NumInt 0) numbers))
           else if operator = ''product'' then
             Some (if numbers = [] then Inl DerivationArity else finite_outcome (foldl js_mul (NumInt 1) numbers))
           else if operator = ''min'' then
             Some (if numbers = [] then Inl DerivationArity
                   else finite_outcome (js_reduce (\<lambda>lowest v. if js_num_less v lowest then v else lowest) numbers))
           else if operator = ''max'' then
             Some (if numbers = [] then Inl DerivationArity
                   else finite_outcome (js_reduce (\<lambda>highest v. if js_num_less highest v then v else highest) numbers))
           else if operator = ''difference'' then
             Some (case numbers of
                     [l, r] \<Rightarrow> finite_outcome (js_add l (js_mul (NumInt (-1)) r))
                   | _ \<Rightarrow> Inl DerivationArity)
           else if operator = ''quotient'' then
             Some (case numbers of
                     [l, r] \<Rightarrow> if is_js_zero r then Inl DivisionByZero else finite_outcome (js_div l r)
                   | _ \<Rightarrow> Inl DerivationArity)
           else None)"

definition validateContextDerivation :: "context_derivation \<Rightarrow> context_violation list" where
  "validateContextDerivation d =
     (let key = cd_key d
      in (if js_trim key = [] then [ContextDerivationKeyRequired] else []) @
         (if cd_operator d \<in> set CONTEXT_DERIVATION_OPERATORS then []
          else [ContextDerivationOperatorUndeclared key (cd_operator d)]) @
         (if cd_operandKeys d = [] then [ContextDerivationEmpty key] else []) @
         (if key \<in> set (cd_operandKeys d) then [ContextDerivationOwnOperand key] else []) @
         (if cd_operator d \<in> {''difference'', ''quotient''} \<and> length (cd_operandKeys d) \<noteq> 2
          then [ContextDerivationArity key (cd_operator d)] else []))"

section \<open>Declarations\<close>

record context_requirement =
  cr_key :: string
  cr_minimumTrustClass :: string
  cr_maxAgeSeconds :: "js_number option"
  cr_required :: bool
  cr_restrictive :: "bool option"

record context_declaration =
  dc_requirements :: "context_requirement list"
  dc_derivations :: "context_derivation list option"
  dc_assertedFactPolicy :: "string option"
  dc_assertableKeys :: "string list option"
  dc_maxFutureSkewSeconds :: "js_number option"

definition CONTEXT_ASSERTED_FACT_POLICIES :: "string list" where
  "CONTEXT_ASSERTED_FACT_POLICIES = [''permit'', ''report'', ''require-declaration'']"

definition DEFAULT_CONTEXT_ASSERTED_FACT_POLICY :: string where
  "DEFAULT_CONTEXT_ASSERTED_FACT_POLICY = ''permit''"

definition CONTEXT_MAX_FUTURE_SKEW_SECONDS :: int where
  "CONTEXT_MAX_FUTURE_SKEW_SECONDS = 300"

definition contextDeclarationAssertedFactPolicy :: "context_declaration \<Rightarrow> string" where
  "contextDeclarationAssertedFactPolicy d =
     (case dc_assertedFactPolicy d of None \<Rightarrow> DEFAULT_CONTEXT_ASSERTED_FACT_POLICY | Some p \<Rightarrow> p)"

definition positive_finite :: "js_number \<Rightarrow> bool" where
  "positive_finite n = (case js_finite n of None \<Rightarrow> False | Some q \<Rightarrow> 0 < q)"

fun context_requirement_violations ::
  "string list \<Rightarrow> context_requirement list \<Rightarrow> context_violation list \<times> string list" where
  "context_requirement_violations seen [] = ([], seen)"
| "context_requirement_violations seen (r # rest) =
     (if js_trim (cr_key r) = [] then
        (let (vs, final) = context_requirement_violations seen rest in (ContextRequirementKeyRequired # vs, final))
      else
        let key = cr_key r;
            (vs, final) = context_requirement_violations (key # seen) rest
        in ((if key \<in> set seen then [ContextRequirementTwice key] else []) @
            (if cr_minimumTrustClass r \<in> set TERMINAL_CONTEXT_TRUST_CLASSES then []
             else [ContextRequirementTrustUndeclared key (cr_minimumTrustClass r)]) @
            (case cr_maxAgeSeconds r of
               None \<Rightarrow> [] | Some n \<Rightarrow> if positive_finite n then [] else [ContextRequirementAgeInvalid key]) @
            (if cr_restrictive r = Some True \<and> cr_required r then [ContextRequirementRestrictiveRequired key] else []) @
            vs, final))"

fun context_derivation_violations ::
  "string list \<Rightarrow> string list \<Rightarrow> context_derivation list \<Rightarrow> context_violation list" where
  "context_derivation_violations seen derived [] = []"
| "context_derivation_violations seen derived (d # rest) =
     validateContextDerivation d @
     (if cd_key d \<in> set derived then [ContextDerivationTwice (cd_key d)] else []) @
     map (ContextDerivationOperandUndeclared (cd_key d)) (filter (\<lambda>k. k \<notin> set seen) (cd_operandKeys d)) @
     context_derivation_violations seen (cd_key d # derived) rest"

definition validateContextDeclaration :: "context_declaration \<Rightarrow> context_violation list" where
  "validateContextDeclaration d =
     (let (violations, seen) = context_requirement_violations [] (dc_requirements d)
      in violations @
         context_derivation_violations seen [] (option_list (dc_derivations d)) @
         map ContextAssertableUndeclared (filter (\<lambda>k. k \<notin> set seen) (option_list (dc_assertableKeys d))) @
         (case dc_maxFutureSkewSeconds d of
            None \<Rightarrow> []
          | Some n \<Rightarrow>
              if isSafeInteger n \<and> js_num_le (NumInt 0) n \<and> js_num_le n (NumInt CONTEXT_MAX_FUTURE_SKEW_SECONDS)
              then [] else [ContextSkewInvalid]) @
         (case dc_assertedFactPolicy d of
            None \<Rightarrow> []
          | Some p \<Rightarrow> if p \<in> set CONTEXT_ASSERTED_FACT_POLICIES then [] else [ContextPolicyUndeclared p]))"

section \<open>Facts and readings\<close>

record context_observation =
  co_key :: string
  co_value :: js_value
  co_sourceId :: string
  co_observedAt :: string
  co_maxAgeSeconds :: "js_number option"
  co_attestationRef :: "string option"
  co_reference :: "string option"
  co_provenanceDigest :: "string option"
  co_organizationId :: "string option"

datatype fact_status = FactResolved | FactStale | FactConflicted

fun fact_status_name :: "fact_status \<Rightarrow> string" where
  "fact_status_name FactResolved = ''resolved''"
| "fact_status_name FactStale = ''stale''"
| "fact_status_name FactConflicted = ''conflicted''"

record fact_freshness =
  fr_maxAgeSeconds :: js_number
  fr_staleAt :: string

record context_fact =
  cf_key :: string
  cf_value :: js_value
  cf_sourceId :: string
  cf_sourceKind :: string
  cf_observedAt :: string
  cf_trustClass :: string
  cf_effectiveTrustClass :: string
  cf_resolution :: fact_status
  cf_freshness :: "fact_freshness option"
  cf_attestationRef :: "string option"
  cf_derivation :: "(string \<times> string list) option"
  cf_conflictingSourceIds :: "string list option"
  cf_reference :: "string option"
  cf_provenanceDigest :: "string option"

definition CONTEXT_FACT_STRING_MAX_LENGTH :: nat where
  "CONTEXT_FACT_STRING_MAX_LENGTH = 256"

fun isAdmissibleContextFactValue :: "js_value \<Rightarrow> bool" where
  "isAdmissibleContextFactValue (JSBool b) = True"
| "isAdmissibleContextFactValue (JSNumber n) = (isSafeInteger n \<and> n \<noteq> NumNegZero)"
| "isAdmissibleContextFactValue (JSString s) = (s \<noteq> [] \<and> length s \<le> CONTEXT_FACT_STRING_MAX_LENGTH)"
| "isAdmissibleContextFactValue _ = False"

text \<open>The product \<open>seconds * 1000\<close>: exact for an integral number of seconds wherever it is compared.\<close>

fun seconds_millis :: "platform \<Rightarrow> js_number \<Rightarrow> rat" where
  "seconds_millis P (NumInt i) = of_int (i * 1000)"
| "seconds_millis P (NumFrac q) = fractional_millis P q"
| "seconds_millis P _ = 0"

definition isFutureDatedAt :: "platform \<Rightarrow> string \<Rightarrow> string \<Rightarrow> js_number \<Rightarrow> bool" where
  "isFutureDatedAt P observed_at now skew =
     (case (Date_parse P observed_at, Date_parse P now) of
        (Some observed, Some t) \<Rightarrow> of_int (observed - t) > seconds_millis P skew
      | _ \<Rightarrow> True)"

definition isFreshAt :: "platform \<Rightarrow> string \<Rightarrow> js_number \<Rightarrow> string \<Rightarrow> bool" where
  "isFreshAt P observed_at max_age now =
     (case (Date_parse P observed_at, Date_parse P now) of
        (Some observed, Some t) \<Rightarrow>
          (if js_finite max_age = None then max_age = NumInfinity True
           else of_int (t - observed) < seconds_millis P max_age)
      | _ \<Rightarrow> False)"

definition staleAtFor :: "platform \<Rightarrow> string \<Rightarrow> js_number \<Rightarrow> js_error + string option" where
  "staleAtFor P observed_at max_age =
     (case Date_parse P observed_at of
        None \<Rightarrow> Inr None
      | Some observed \<Rightarrow>
          (case grant_horizon P observed max_age of
             None \<Rightarrow> Inl (RangeError ''Invalid time value'')
           | Some horizon \<Rightarrow>
               (case toISOString horizon of Inl e \<Rightarrow> Inl e | Inr t \<Rightarrow> Inr (Some t))))"

section \<open>Digests\<close>

definition CONTEXT_OBSERVATION_PROVENANCE_DOMAIN :: string where
  "CONTEXT_OBSERVATION_PROVENANCE_DOMAIN = ''frontera:context-observation:v2''"

definition ADMITTED_CONTEXT_FORMAT :: string where
  "ADMITTED_CONTEXT_FORMAT = ''frontera.admitted-context.v1''"

text \<open>
  The closed subset of values a digest admits.  A number that is not a safe integer makes the
  canonical form throw; members with the value \<open>undefined\<close> are left out and the others sorted.
\<close>

fun canonical_number :: "js_number \<Rightarrow> bool" where
  "canonical_number n \<longleftrightarrow> isSafeInteger n \<and> n \<noteq> NumNegZero"

primrec json_admitted :: "json \<Rightarrow> bool" where
  "json_admitted JNull = False"
| "json_admitted (JBool b) = True"
| "json_admitted (JNum n) = canonical_number n"
| "json_admitted (JStr s) = True"
| "json_admitted (JArr xs) = list_all json_admitted xs"
| "json_admitted (JObj ms) = list_all snd (map (map_prod id json_admitted) ms)"

definition canonical_json :: "platform \<Rightarrow> json \<Rightarrow> js_error + string" where
  "canonical_json P j =
     (if json_admitted j then Inr (json_print P j)
      else Inl (TypeError ''A context digest admits safe integers only.''))"

definition context_sha256 :: "platform \<Rightarrow> string \<Rightarrow> string" where
  "context_sha256 P text = ''sha256:'' @ sha256_hex P text"

fun fact_value_json :: "js_value \<Rightarrow> json" where
  "fact_value_json (JSString s) = JStr s"
| "fact_value_json (JSBool b) = JBool b"
| "fact_value_json (JSNumber n) = JNum n"
| "fact_value_json _ = JNull"

definition provenance_json :: "context_observation \<Rightarrow> json" where
  "provenance_json o' = canonical_object
     [(''key'', Some (JStr (co_key o'))), (''value'', Some (fact_value_json (co_value o'))),
      (''sourceId'', Some (JStr (co_sourceId o'))), (''observedAt'', Some (JStr (co_observedAt o'))),
      (''reference'', map_option JStr (co_reference o')),
      (''organizationId'', map_option JStr (co_organizationId o')),
      (''maxAgeSeconds'', map_option JNum (co_maxAgeSeconds o')),
      (''attestationRef'', map_option JStr (co_attestationRef o'))]"

definition contextObservationProvenanceDigest :: "platform \<Rightarrow> context_observation \<Rightarrow> js_error + string" where
  "contextObservationProvenanceDigest P o' =
     (case canonical_json P (provenance_json o') of
        Inl e \<Rightarrow> Inl e
      | Inr t \<Rightarrow> Inr (context_sha256 P (CONTEXT_OBSERVATION_PROVENANCE_DOMAIN @ [CHR 0x0A] @ t)))"

definition factSnapshot :: "context_fact \<Rightarrow> json" where
  "factSnapshot f = canonical_object
     [(''key'', Some (JStr (cf_key f))), (''value'', Some (fact_value_json (cf_value f))),
      (''sourceId'', Some (JStr (cf_sourceId f))), (''sourceKind'', Some (JStr (cf_sourceKind f))),
      (''observedAt'', Some (JStr (cf_observedAt f))), (''trustClass'', Some (JStr (cf_trustClass f))),
      (''effectiveTrustClass'', Some (JStr (cf_effectiveTrustClass f))),
      (''resolution'', Some (JStr (fact_status_name (cf_resolution f)))),
      (''staleAt'', map_option (\<lambda>fr. JStr (fr_staleAt fr)) (cf_freshness f)),
      (''maxAgeSeconds'', map_option (\<lambda>fr. JNum (fr_maxAgeSeconds fr)) (cf_freshness f)),
      (''attestationRef'', map_option JStr (cf_attestationRef f)),
      (''reference'', map_option JStr (cf_reference f)),
      (''provenanceDigest'', map_option JStr (cf_provenanceDigest f)),
      (''conflictingSourceIds'', map_option strings_json (cf_conflictingSourceIds f)),
      (''derivation'', map_option (\<lambda>(operator, keys). canonical_object
          [(''operator'', Some (JStr operator)), (''operandKeys'', Some (strings_json keys))]) (cf_derivation f))]"

section \<open>Resolutions\<close>

datatype refusal_reason =
    SourceUntrusted | FactClassNotAttested | OrganizationMismatch | FutureDated
  | ObservationTimeInvalid | ProvenanceInvalid | AttestationMissing | AttestationInvalid | ValueMalformed

fun refusal_reason_name :: "refusal_reason \<Rightarrow> string" where
  "refusal_reason_name SourceUntrusted = ''source_untrusted''"
| "refusal_reason_name FactClassNotAttested = ''fact_class_not_attested''"
| "refusal_reason_name OrganizationMismatch = ''organization_mismatch''"
| "refusal_reason_name FutureDated = ''future_dated''"
| "refusal_reason_name ObservationTimeInvalid = ''observation_time_invalid''"
| "refusal_reason_name ProvenanceInvalid = ''provenance_invalid''"
| "refusal_reason_name AttestationMissing = ''attestation_missing''"
| "refusal_reason_name AttestationInvalid = ''attestation_invalid''"
| "refusal_reason_name ValueMalformed = ''value_malformed''"

record refused_observation =
  rf_key :: string
  rf_sourceId :: string
  rf_reason :: refusal_reason

record context_resolution =
  cx_resolved :: bool
  cx_declaredKeys :: "string list"
  cx_facts :: "context_fact list"
  cx_unresolved :: "string list"
  cx_stale :: "string list"
  cx_conflicted :: "string list"
  cx_refused :: "refused_observation list"
  cx_assertedFactPolicy :: string
  cx_assertableKeys :: "string list"
  cx_resolvedAt :: string

definition contextResolutionDigest :: "platform \<Rightarrow> context_resolution \<Rightarrow> js_error + string" where
  "contextResolutionDigest P r =
     (case canonical_json P (canonical_object
        [(''format'', Some (JStr ADMITTED_CONTEXT_FORMAT)), (''resolved'', Some (JBool (cx_resolved r))),
         (''resolvedAt'', Some (JStr (cx_resolvedAt r))), (''declaredKeys'', Some (strings_json (cx_declaredKeys r))),
         (''facts'', Some (JArr (map factSnapshot (cx_facts r)))),
         (''unresolved'', Some (strings_json (cx_unresolved r))), (''stale'', Some (strings_json (cx_stale r))),
         (''conflicted'', Some (strings_json (cx_conflicted r))),
         (''refused'', Some (JArr (map (\<lambda>e. canonical_object
            [(''key'', Some (JStr (rf_key e))), (''sourceId'', Some (JStr (rf_sourceId e))),
             (''reason'', Some (JStr (refusal_reason_name (rf_reason e))))]) (cx_refused r)))),
         (''assertedFactPolicy'', Some (JStr (cx_assertedFactPolicy r))),
         (''assertableKeys'', Some (strings_json (cx_assertableKeys r)))]) of
        Inl e \<Rightarrow> Inl e
      | Inr t \<Rightarrow> Inr (context_sha256 P t))"

definition CONTEXT_RESERVED_REQUEST_KEY_PREFIX :: string where
  "CONTEXT_RESERVED_REQUEST_KEY_PREFIX = ''aoc.context''"

definition isReservedContextKey :: "string \<Rightarrow> bool" where
  "isReservedContextKey key \<longleftrightarrow>
     key = CONTEXT_RESERVED_REQUEST_KEY_PREFIX \<or>
     take (length CONTEXT_RESERVED_REQUEST_KEY_PREFIX + 1) key = CONTEXT_RESERVED_REQUEST_KEY_PREFIX @ ''.''"

definition unresolvedContextResolution ::
  "string list \<Rightarrow> string option \<Rightarrow> string list option \<Rightarrow> string \<Rightarrow> context_resolution" where
  "unresolvedContextResolution keys policy assertable now =
     \<lparr>cx_resolved = False, cx_declaredKeys = sort keys, cx_facts = [], cx_unresolved = sort keys,
      cx_stale = [], cx_conflicted = [], cx_refused = [],
      cx_assertedFactPolicy = (case policy of None \<Rightarrow> DEFAULT_CONTEXT_ASSERTED_FACT_POLICY | Some p \<Rightarrow> p),
      cx_assertableKeys = sort (option_list assertable), cx_resolvedAt = now\<rparr>"

section \<open>The resolution service\<close>

text \<open>
  The verifier of attestations is the deployment's: a function that answers \<open>true\<close> or anything
  else, a throw included.
\<close>

type_synonym attestation_verifier = "context_source \<Rightarrow> context_observation \<Rightarrow> bool"

record context_service =
  sv_registry :: context_registry
  sv_declaration :: context_declaration
  sv_requirementsByKey :: "(string \<times> context_requirement) list"
  sv_requested :: "string list"
  sv_declared :: "string list"
  sv_maxFutureSkewSeconds :: js_number
  sv_attestationVerifier :: "attestation_verifier option"

definition sv_derivations :: "context_service \<Rightarrow> context_derivation list" where
  "sv_derivations svc = option_list (dc_derivations (sv_declaration svc))"

definition createContextResolutionService ::
  "context_source list \<Rightarrow> context_declaration \<Rightarrow> attestation_verifier option \<Rightarrow> context_error + context_service" where
  "createContextResolutionService sources declaration verifier =
     (let violations = validateContextDeclaration declaration
      in if violations \<noteq> [] then Inl (ContextConfigurationError ''Context declaration is invalid.'' violations)
         else (case createContextSourceRegistry sources of
            Inl e \<Rightarrow> Inl e
          | Inr reg \<Rightarrow>
              let keys = map cr_key (dc_requirements declaration);
                  derived = js_set (map cd_key (option_list (dc_derivations declaration)))
              in Inr \<lparr>sv_registry = reg, sv_declaration = declaration,
                      sv_requirementsByKey =
                        foldl (\<lambda>m r. AList.update (cr_key r) r m) [] (dc_requirements declaration),
                      sv_requested = sort (filter (\<lambda>k. k \<notin> set derived) (js_set keys)),
                      sv_declared = sort (js_set (keys @ derived)),
                      sv_maxFutureSkewSeconds =
                        (case dc_maxFutureSkewSeconds declaration of None \<Rightarrow> NumInt 0 | Some n \<Rightarrow> n),
                      sv_attestationVerifier = verifier\<rparr>))"

definition service_assertableKeys :: "context_service \<Rightarrow> string list" where
  "service_assertableKeys svc = sort (option_list (dc_assertableKeys (sv_declaration svc)))"

definition service_assertedFactPolicy :: "context_service \<Rightarrow> string" where
  "service_assertedFactPolicy svc = contextDeclarationAssertedFactPolicy (sv_declaration svc)"

definition hasValidProvenance :: "platform \<Rightarrow> context_observation \<Rightarrow> bool" where
  "hasValidProvenance P o' =
     (case (co_reference o', co_provenanceDigest o') of
        (Some reference, Some digest) \<Rightarrow>
          if reference = [] \<or> length reference > CONTEXT_FACT_STRING_MAX_LENGTH then False
          else (case contextObservationProvenanceDigest P o' of Inl e \<Rightarrow> False | Inr d \<Rightarrow> digest = d)
      | _ \<Rightarrow> False)"

definition attestationVerified :: "context_service \<Rightarrow> context_source \<Rightarrow> context_observation \<Rightarrow> bool" where
  "attestationVerified svc src o' =
     (case sv_attestationVerifier svc of None \<Rightarrow> False | Some verify \<Rightarrow> verify src o')"

definition refusalOf ::
  "platform \<Rightarrow> context_service \<Rightarrow> context_observation \<Rightarrow> string \<Rightarrow> string option \<Rightarrow> refusal_reason option" where
  "refusalOf P svc o' now organization =
     (case map_of (sv_registry svc) (co_sourceId o') of
        None \<Rightarrow> Some SourceUntrusted
      | Some src \<Rightarrow>
          if cs_id src = CONTEXT_DERIVED_SOURCE_ID then Some SourceUntrusted
          else if contextSourceAttestationFor src (co_key o') = None then Some FactClassNotAttested
          else if cs_organizationId src \<noteq> None \<and> cs_organizationId src \<noteq> organization then Some OrganizationMismatch
          else if co_organizationId o' \<noteq> None \<and> co_organizationId o' \<noteq> organization then Some OrganizationMismatch
          else if Date_parse P (co_observedAt o') = None then Some ObservationTimeInvalid
          else if isFutureDatedAt P (co_observedAt o') now (sv_maxFutureSkewSeconds svc) then Some FutureDated
          else if \<not> isAdmissibleContextFactValue (co_value o') then Some ValueMalformed
          else if cs_trustClass src = ''attested'' \<and>
                  (case co_attestationRef o' of None \<Rightarrow> True | Some reference \<Rightarrow> js_trim reference = [])
          then Some AttestationMissing
          else if cs_trustClass src = ''attested'' \<and> \<not> attestationVerified svc src o' then Some AttestationInvalid
          else if cs_provenance src = Some ''reference-digest'' \<and> \<not> hasValidProvenance P o'
          then Some ProvenanceInvalid
          else None)"

definition trustClassOf :: "context_service \<Rightarrow> context_observation \<Rightarrow> string" where
  "trustClassOf svc o' =
     (case map_of (sv_registry svc) (co_sourceId o') of None \<Rightarrow> ''asserted'' | Some src \<Rightarrow> cs_trustClass src)"

text \<open>
  The instants of admitted readings parse; \<open>0\<close> stands for an instant that does not, which no
  comparison below meets.
\<close>

definition observed_instant :: "platform \<Rightarrow> context_observation \<Rightarrow> int" where
  "observed_instant P o' = (case Date_parse P (co_observedAt o') of None \<Rightarrow> 0 | Some t \<Rightarrow> t)"

definition better_reading :: "platform \<Rightarrow> context_service \<Rightarrow> context_observation \<Rightarrow> context_observation \<Rightarrow> bool" where
  "better_reading P svc candidate best =
     (let candidateClass = trustClassOf svc candidate; bestClass = trustClassOf svc best
      in if contextTrustClassSatisfies candidateClass bestClass \<and> \<not> contextTrustClassSatisfies bestClass candidateClass
         then True
         else if contextTrustClassSatisfies bestClass candidateClass \<and> \<not> contextTrustClassSatisfies candidateClass bestClass
         then False
         else observed_instant P candidate > observed_instant P best \<or>
              (observed_instant P candidate = observed_instant P best \<and> co_sourceId candidate < co_sourceId best))"

definition preferred :: "platform \<Rightarrow> context_service \<Rightarrow> context_observation list \<Rightarrow> context_observation" where
  "preferred P svc observations =
     foldl (\<lambda>best candidate. if better_reading P svc candidate best then candidate else best)
       (hd observations) (tl observations)"

definition laterReading :: "platform \<Rightarrow> context_observation \<Rightarrow> context_observation \<Rightarrow> bool" where
  "laterReading P candidate current =
     (if observed_instant P candidate \<noteq> observed_instant P current
      then observed_instant P candidate > observed_instant P current
      else case_option [] id (co_reference candidate) < case_option [] id (co_reference current))"

fun js_typeof :: "js_value \<Rightarrow> string" where
  "js_typeof JSUndefined = ''undefined''"
| "js_typeof (JSBool b) = ''boolean''"
| "js_typeof (JSNumber n) = ''number''"
| "js_typeof (JSString s) = ''string''"
| "js_typeof JSFunction = ''function''"
| "js_typeof _ = ''object''"

fun fact_value_text :: "platform \<Rightarrow> js_value \<Rightarrow> string" where
  "fact_value_text P (JSString s) = s"
| "fact_value_text P (JSBool b) = json_bool b"
| "fact_value_text P (JSNumber n) = js_number_toString P n"
| "fact_value_text P _ = []"

definition reading_identity :: "platform \<Rightarrow> context_observation \<Rightarrow> string" where
  "reading_identity P o' =
     co_sourceId o' @ [CHR 0x00] @ js_typeof (co_value o') @ [CHR 0x00] @ fact_value_text P (co_value o')"

definition keep_reading ::
  "platform \<Rightarrow> (string \<times> context_observation) list \<Rightarrow> context_observation \<Rightarrow>
     (string \<times> context_observation) list" where
  "keep_reading P byIdentity o' =
     (let identity = reading_identity P o'
      in case map_of byIdentity identity of
           None \<Rightarrow> AList.update identity o' byIdentity
         | Some current \<Rightarrow>
             if laterReading P o' current then AList.update identity o' byIdentity else byIdentity)"

definition deduplicated :: "platform \<Rightarrow> context_observation list \<Rightarrow> context_observation list" where
  "deduplicated P observations =
     sort_by (\<lambda>l r. compare_strings (co_sourceId l) (co_sourceId r))
       (map snd (foldl (keep_reading P) [] observations))"

definition js_min :: "js_number list \<Rightarrow> js_number" where
  "js_min ns = foldl (\<lambda>m n. if js_num_less n m then n else m) (hd ns) (tl ns)"

fun observed_bound :: "js_number option \<Rightarrow> js_number list" where
  "observed_bound None = []"
| "observed_bound (Some n) = [if positive_finite n then n else NumInt 0]"

definition freshness_bounds :: "context_service \<Rightarrow> string \<Rightarrow> context_observation \<Rightarrow> js_number list" where
  "freshness_bounds svc key o' =
     (let attested = (case map_of (sv_registry svc) (co_sourceId o') of
                        None \<Rightarrow> None
                      | Some src \<Rightarrow> Option.bind (contextSourceAttestationFor src key) at_maxAgeSeconds);
          declared = Option.bind (map_of (sv_requirementsByKey svc) key) cr_maxAgeSeconds
      in (case attested of None \<Rightarrow> [] | Some n \<Rightarrow> [n]) @
         (case declared of None \<Rightarrow> [] | Some n \<Rightarrow> [n]) @ observed_bound (co_maxAgeSeconds o'))"

definition maxAgeFor :: "context_service \<Rightarrow> string \<Rightarrow> context_observation \<Rightarrow> js_number option" where
  "maxAgeFor svc key o' =
     (let bounds = freshness_bounds svc key o'
      in if bounds = [] then None else Some (js_min bounds))"

definition freshnessStatus :: "platform \<Rightarrow> context_service \<Rightarrow> context_observation \<Rightarrow> string \<Rightarrow> fact_status" where
  "freshnessStatus P svc o' now =
     (case maxAgeFor svc (co_key o') o' of
        None \<Rightarrow> FactResolved
      | Some max_age \<Rightarrow> if isFreshAt P (co_observedAt o') max_age now then FactResolved else FactStale)"

definition toFreshness :: "platform \<Rightarrow> string \<Rightarrow> js_number option \<Rightarrow> js_error + fact_freshness option" where
  "toFreshness P observed_at max_age =
     (case max_age of
        None \<Rightarrow> Inr None
      | Some n \<Rightarrow>
          (case staleAtFor P observed_at n of
             Inl e \<Rightarrow> Inl e
           | Inr None \<Rightarrow> Inr None
           | Inr (Some t) \<Rightarrow> Inr (Some \<lparr>fr_maxAgeSeconds = n, fr_staleAt = t\<rparr>)))"

definition toFact ::
  "platform \<Rightarrow> context_service \<Rightarrow> context_observation \<Rightarrow> fact_status \<Rightarrow> string \<Rightarrow> string list option \<Rightarrow>
     js_error + context_fact" where
  "toFact P svc o' resolution now conflicting =
     (let src = the (map_of (sv_registry svc) (co_sourceId o')); trust = cs_trustClass src
      in case toFreshness P (co_observedAt o') (maxAgeFor svc (co_key o') o') of
           Inl e \<Rightarrow> Inl e
         | Inr freshness \<Rightarrow> Inr
             \<lparr>cf_key = co_key o', cf_value = co_value o', cf_sourceId = co_sourceId o', cf_sourceKind = cs_kind src,
              cf_observedAt = co_observedAt o', cf_trustClass = trust, cf_effectiveTrustClass = trust,
              cf_resolution =
                (if resolution = FactConflicted then FactConflicted else freshnessStatus P svc o' now),
              cf_freshness = freshness,
              cf_attestationRef = (if trust = ''attested'' then co_attestationRef o' else None),
              cf_derivation = None,
              cf_conflictingSourceIds =
                (case conflicting of None \<Rightarrow> None | Some ids \<Rightarrow> if ids = [] then None else Some (sort (js_set ids))),
              cf_reference = co_reference o',
              cf_provenanceDigest =
                (if cs_provenance src = Some ''reference-digest'' then co_provenanceDigest o' else None)\<rparr>)"

text \<open>Facts are computed one after the other; the first that throws ends the classification.\<close>

fun collect_results :: "('e + 'a) list \<Rightarrow> 'e + 'a list" where
  "collect_results [] = Inr []"
| "collect_results (r # rs) =
     (case r of Inl e \<Rightarrow> Inl e
      | Inr x \<Rightarrow> (case collect_results rs of Inl e \<Rightarrow> Inl e | Inr xs \<Rightarrow> Inr (x # xs)))"

text \<open>
  The facts of one requested key: none, one per reading where admitted readings differ in value,
  or one for the preferred reading.
\<close>

definition key_facts ::
  "platform \<Rightarrow> context_service \<Rightarrow> string \<Rightarrow> context_observation list \<Rightarrow> js_error + context_fact list" where
  "key_facts P svc now usable =
     (if usable = [] then Inr []
      else if length (js_set (map co_value usable)) > 1 then
        collect_results (map (\<lambda>o'. toFact P svc o' FactConflicted now
          (Some (map co_sourceId (filter (\<lambda>other. co_value other \<noteq> co_value o') usable)))) usable)
      else
        let winner = preferred P svc usable
        in map_sum id (\<lambda>f. [f]) (toFact P svc winner (freshnessStatus P svc winner now) now None))"

definition derive_fact ::
  "platform \<Rightarrow> context_service \<Rightarrow> context_derivation \<Rightarrow> context_fact list \<Rightarrow> string \<Rightarrow>
     js_error + context_fact option" where
  "derive_fact P svc d facts now =
     (let found = map (\<lambda>k. find (\<lambda>f. cf_key f = k \<and> cf_resolution f = FactResolved) facts) (cd_operandKeys d)
      in if list_ex (\<lambda>f. f = None) found then Inr None
         else
           let operands = map the found
           in case evaluateContextDerivation (cd_operator d) (map cf_value operands) of
                None \<Rightarrow> Inl (TypeError ''Cannot read properties of undefined'')
              | Some (Inl failure) \<Rightarrow> Inr None
              | Some (Inr n) \<Rightarrow>
                  if \<not> isAdmissibleContextFactValue (JSNumber n) then Inr None
                  else
                    let observed_at = foldl (\<lambda>oldest f.
                          (case (Date_parse P (cf_observedAt f), Date_parse P oldest) of
                             (Some x, Some y) \<Rightarrow> if x < y then cf_observedAt f else oldest
                           | _ \<Rightarrow> oldest))
                          (case operands of [] \<Rightarrow> now | f # _ \<Rightarrow> cf_observedAt f) operands;
                        max_age = Option.bind (map_of (sv_requirementsByKey svc) (cd_key d)) cr_maxAgeSeconds
                    in (case toFreshness P observed_at max_age of
                          Inl e \<Rightarrow> Inl e
                        | Inr freshness \<Rightarrow> Inr (Some
                            \<lparr>cf_key = cd_key d, cf_value = JSNumber n, cf_sourceId = CONTEXT_DERIVED_SOURCE_ID,
                             cf_sourceKind = ''internal_store'', cf_observedAt = observed_at,
                             cf_trustClass = ''derived'',
                             cf_effectiveTrustClass = minimumContextTrustClass (map cf_effectiveTrustClass operands),
                             cf_resolution =
                               (case max_age of
                                  None \<Rightarrow> FactResolved
                                | Some a \<Rightarrow> if isFreshAt P observed_at a now then FactResolved else FactStale),
                             cf_freshness = freshness, cf_attestationRef = None,
                             cf_derivation = Some (cd_operator d, cd_operandKeys d),
                             cf_conflictingSourceIds = None, cf_reference = None, cf_provenanceDigest = None\<rparr>)))"

fun derive_all ::
  "platform \<Rightarrow> context_service \<Rightarrow> string \<Rightarrow> context_derivation list \<Rightarrow> context_fact list \<times> string list \<Rightarrow>
     js_error + context_fact list \<times> string list" where
  "derive_all P svc now [] (facts, unresolved) = Inr (facts, unresolved)"
| "derive_all P svc now (d # ds) (facts, unresolved) =
     (case derive_fact P svc d facts now of
        Inl e \<Rightarrow> Inl e
      | Inr None \<Rightarrow> derive_all P svc now ds (facts, unresolved @ [cd_key d])
      | Inr (Some f) \<Rightarrow> derive_all P svc now ds (facts @ [f], unresolved))"

definition compare_facts :: "context_fact \<Rightarrow> context_fact \<Rightarrow> int" where
  "compare_facts l r =
     (if cf_key l \<noteq> cf_key r then (if cf_key l < cf_key r then -1 else 1)
      else if cf_sourceId l \<noteq> cf_sourceId r then (if cf_sourceId l < cf_sourceId r then -1 else 1) else 0)"

definition compare_refusals :: "refused_observation \<Rightarrow> refused_observation \<Rightarrow> int" where
  "compare_refusals l r =
     (if rf_key l \<noteq> rf_key r then (if rf_key l < rf_key r then -1 else 1)
      else if rf_sourceId l \<noteq> rf_sourceId r then (if rf_sourceId l < rf_sourceId r then -1 else 1)
      else compare_strings (refusal_reason_name (rf_reason l)) (refusal_reason_name (rf_reason r)))"

definition uniqueSortedKeys :: "context_fact list \<Rightarrow> fact_status \<Rightarrow> string list" where
  "uniqueSortedKeys facts status = sort (js_set (map cf_key (filter (\<lambda>f. cf_resolution f = status) facts)))"

definition admitted_readings ::
  "platform \<Rightarrow> context_service \<Rightarrow> context_observation list \<Rightarrow> string \<Rightarrow> string option \<Rightarrow> string \<Rightarrow>
     context_observation list" where
  "admitted_readings P svc observations now organization key =
     filter (\<lambda>o'. co_key o' = key \<and> refusalOf P svc o' now organization = None) observations"

definition classify_context ::
  "platform \<Rightarrow> context_service \<Rightarrow> context_observation list \<Rightarrow> string \<Rightarrow> string option \<Rightarrow>
     js_error + context_resolution" where
  "classify_context P svc observations now organization =
     (let refused = List.map_filter (\<lambda>o'.
            if co_key o' \<notin> set (sv_requested svc) then None
            else map_option (\<lambda>reason. \<lparr>rf_key = co_key o', rf_sourceId = co_sourceId o', rf_reason = reason\<rparr>)
                   (refusalOf P svc o' now organization)) observations;
          usable = (\<lambda>key. deduplicated P (admitted_readings P svc observations now organization key));
          unanswered = filter (\<lambda>key. usable key = []) (sv_requested svc)
      in case collect_results (map (\<lambda>key. key_facts P svc now (usable key)) (sv_requested svc)) of
           Inl e \<Rightarrow> Inl e
         | Inr groups \<Rightarrow>
             (case derive_all P svc now (sv_derivations svc) (concat groups, unanswered) of
                Inl e \<Rightarrow> Inl e
              | Inr (facts, unresolved) \<Rightarrow>
                  let ordered = sort_by compare_facts facts
                  in Inr \<lparr>cx_resolved = True, cx_declaredKeys = sv_declared svc, cx_facts = ordered,
                          cx_unresolved = sort (js_set unresolved),
                          cx_stale = uniqueSortedKeys ordered FactStale,
                          cx_conflicted = uniqueSortedKeys ordered FactConflicted,
                          cx_refused = sort_by compare_refusals refused,
                          cx_assertedFactPolicy = service_assertedFactPolicy svc,
                          cx_assertableKeys = service_assertableKeys svc, cx_resolvedAt = now\<rparr>))"

section \<open>Reading a requirement\<close>

datatype read_status =
    Satisfied | ContextNotResolved | Undeclared | Unresolved | Stale | Conflicted | InsufficientTrust
  | AssertedNotDeclared

fun read_status_name :: "read_status \<Rightarrow> string" where
  "read_status_name Satisfied = ''satisfied''"
| "read_status_name ContextNotResolved = ''context_not_resolved''"
| "read_status_name Undeclared = ''undeclared''"
| "read_status_name Unresolved = ''unresolved''"
| "read_status_name Stale = ''stale''"
| "read_status_name Conflicted = ''conflicted''"
| "read_status_name InsufficientTrust = ''insufficient_trust''"
| "read_status_name AssertedNotDeclared = ''asserted_not_declared''"

record fact_provenance =
  fp_trustClass :: string
  fp_effectiveTrustClass :: string
  fp_sourceId :: string
  fp_observedAt :: string

record fact_read =
  rd_key :: string
  rd_status :: read_status
  rd_value :: "js_value option"
  rd_provenance :: "fact_provenance option"
  rd_assertedFactReported :: bool

definition bare_read :: "string \<Rightarrow> read_status \<Rightarrow> fact_read" where
  "bare_read key status =
     \<lparr>rd_key = key, rd_status = status, rd_value = None, rd_provenance = None, rd_assertedFactReported = False\<rparr>"

definition resolved_fact :: "context_resolution \<Rightarrow> string \<Rightarrow> context_fact option" where
  "resolved_fact r key = find (\<lambda>f. cf_key f = key \<and> cf_resolution f = FactResolved) (cx_facts r)"

definition readContextFact :: "context_resolution \<Rightarrow> context_requirement \<Rightarrow> fact_read" where
  "readContextFact r requirement =
     (let key = cr_key requirement
      in if \<not> cx_resolved r then bare_read key ContextNotResolved
         else if key \<notin> set (cx_declaredKeys r) then bare_read key Undeclared
         else if key \<in> set (cx_conflicted r) then bare_read key Conflicted
         else if key \<in> set (cx_stale r) then bare_read key Stale
         else (case resolved_fact r key of
            None \<Rightarrow> bare_read key Unresolved
          | Some f \<Rightarrow>
              let provenance = \<lparr>fp_trustClass = cf_trustClass f, fp_effectiveTrustClass = cf_effectiveTrustClass f,
                                fp_sourceId = cf_sourceId f, fp_observedAt = cf_observedAt f\<rparr>
              in if \<not> contextTrustClassSatisfies (cf_effectiveTrustClass f) (cr_minimumTrustClass requirement)
                 then (bare_read key InsufficientTrust)\<lparr>rd_provenance := Some provenance\<rparr>
                 else if cf_effectiveTrustClass f = ''asserted'' \<and>
                         cx_assertedFactPolicy r = ''require-declaration'' \<and> key \<notin> set (cx_assertableKeys r)
                 then (bare_read key AssertedNotDeclared)\<lparr>rd_provenance := Some provenance\<rparr>
                 else \<lparr>rd_key = key, rd_status = Satisfied, rd_value = Some (cf_value f),
                       rd_provenance = Some provenance,
                       rd_assertedFactReported =
                         (cf_effectiveTrustClass f = ''asserted'' \<and> cx_assertedFactPolicy r = ''report'')\<rparr>))"

definition readContextFacts :: "context_resolution \<Rightarrow> context_requirement list \<Rightarrow> fact_read list" where
  "readContextFacts r requirements = map (readContextFact r) requirements"

section \<open>Resolvers\<close>

record context_query =
  cq_keys :: "string list"
  cq_actorId :: string
  cq_trustDomainId :: string
  cq_action :: string
  cq_resourceScope :: string
  cq_organizationId :: "string option"
  cq_targetId :: "string option"
  cq_at :: string

datatype context_answer = ContextRejected | ContextMalformed | ContextObservations "context_observation list"

definition createInMemoryContextResolver ::
  "(context_query \<Rightarrow> context_observation list) \<Rightarrow> context_query \<Rightarrow> context_answer" where
  "createInMemoryContextResolver table query =
     ContextObservations (filter (\<lambda>o'. co_key o' \<in> set (cq_keys query)) (table query))"

definition createFailingContextResolver :: "context_query \<Rightarrow> context_answer" where
  "createFailingContextResolver query = ContextRejected"

section \<open>Trust\<close>

lemma rank_range: "TERMINAL_RANK c \<noteq> None \<longleftrightarrow> c \<in> set TERMINAL_CONTEXT_TRUST_CLASSES"
  by (auto simp add: TERMINAL_RANK_def TERMINAL_CONTEXT_TRUST_CLASSES_def)

lemma minimum_fold:
  assumes "TERMINAL_RANK lowest \<noteq> None"
  shows "TERMINAL_RANK (foldl (\<lambda>l c. if rank_less c l then c else l) lowest cs) \<noteq> None \<and>
    the (TERMINAL_RANK (foldl (\<lambda>l c. if rank_less c l then c else l) lowest cs)) \<le> the (TERMINAL_RANK lowest) \<and>
    (\<forall>c \<in> set cs. TERMINAL_RANK c \<noteq> None \<longrightarrow>
       the (TERMINAL_RANK (foldl (\<lambda>l c. if rank_less c l then c else l) lowest cs)) \<le> the (TERMINAL_RANK c))"
  using assms
proof (induction cs arbitrary: lowest)
  case (Cons c cs)
  define next_lowest where "next_lowest = (if rank_less c lowest then c else lowest)"
  have n: "TERMINAL_RANK next_lowest \<noteq> None" "the (TERMINAL_RANK next_lowest) \<le> the (TERMINAL_RANK lowest)"
    "TERMINAL_RANK c \<noteq> None \<Longrightarrow> the (TERMINAL_RANK next_lowest) \<le> the (TERMINAL_RANK c)"
    using Cons.prems by (auto simp add: next_lowest_def rank_less_def split: option.splits)
  from Cons.IH [OF n(1)] n show ?case by (fastforce simp add: next_lowest_def)
qed simp

lemma minimum_satisfied:
  assumes "c \<in> set cs" "TERMINAL_RANK c \<noteq> None"
  shows "contextTrustClassSatisfies c (minimumContextTrustClass cs)"
proof -
  have "TERMINAL_RANK ''attested'' \<noteq> None" by (simp add: TERMINAL_RANK_def)
  from minimum_fold [OF this, of cs] assms show ?thesis
    by (auto simp add: contextTrustClassSatisfies_def minimumContextTrustClass_def)
qed

section \<open>Where facts come from\<close>

lemma collect_results_Inr: "collect_results rs = Inr xs \<longleftrightarrow> rs = map Inr xs"
proof (induction rs arbitrary: xs)
  case (Cons r rs)
  show ?case
  proof (cases r)
    case (Inr x)
    show ?thesis
    proof (cases "collect_results rs")
      case (Inl e)
      then have "rs \<noteq> map Inr ys" for ys using Cons.IH [of ys] by simp
      then show ?thesis using Inl Inr by (auto simp add: Cons_eq_map_conv)
    next
      case (Inr ys)
      then have "rs = map Inr ys" using Cons.IH by blast
      then show ?thesis using Inr \<open>r = Inr x\<close> by (cases xs) (auto simp add: inj_map_eq_map inj_def)
    qed
  qed auto
qed auto

lemma toFact_fields:
  assumes "toFact P svc o' status now conflicting = Inr f"
  shows "cf_key f = co_key o'" "cf_value f = co_value o'" "cf_sourceId f = co_sourceId o'"
    "cf_observedAt f = co_observedAt o'" "cf_derivation f = None"
    "cf_trustClass f = cs_trustClass (the (map_of (sv_registry svc) (co_sourceId o')))"
    "cf_effectiveTrustClass f = cf_trustClass f"
    "cf_resolution f = (if status = FactConflicted then FactConflicted else freshnessStatus P svc o' now)"
  using assms unfolding toFact_def Let_def by (auto split: sum.splits)

lemma foldl_in_set:
  "foldl (\<lambda>best c. if better c best then c else best) x xs \<in> insert x (set xs)"
  by (induction xs arbitrary: x) auto

lemma preferred_in: "os \<noteq> [] \<Longrightarrow> preferred P svc os \<in> set os"
  unfolding preferred_def
  using foldl_in_set [of "better_reading P svc" "hd os" "tl os"] by (cases os) auto

text \<open>
  The readings kept are readings that arrived, and one of every identity that arrived.
\<close>

definition keeps :: "platform \<Rightarrow> context_observation list \<Rightarrow> (string \<times> context_observation) list \<Rightarrow> bool" where
  "keeps P seen byIdentity \<longleftrightarrow>
     (\<forall>(k, v) \<in> set byIdentity. k = reading_identity P v \<and> v \<in> set seen) \<and>
     (\<forall>o' \<in> set seen. map_of byIdentity (reading_identity P o') \<noteq> None)"

lemma set_update_subset: "set (AList.update k v al) \<subseteq> insert (k, v) (set al)"
  by (induction al) auto

lemma keep_reading_keeps:
  assumes "keeps P seen byIdentity"
  shows "keeps P (seen @ [o']) (keep_reading P byIdentity o')"
proof -
  have "keep_reading P byIdentity o' = byIdentity \<and> map_of byIdentity (reading_identity P o') \<noteq> None \<or>
      keep_reading P byIdentity o' = AList.update (reading_identity P o') o' byIdentity"
    by (auto simp add: keep_reading_def Let_def split: option.splits)
  then show ?thesis
  proof
    assume "keep_reading P byIdentity o' = byIdentity \<and> map_of byIdentity (reading_identity P o') \<noteq> None"
    then show ?thesis using assms unfolding keeps_def by auto
  next
    assume u: "keep_reading P byIdentity o' = AList.update (reading_identity P o') o' byIdentity"
    then show ?thesis
      using assms set_update_subset [of "reading_identity P o'" o' byIdentity] unfolding keeps_def by auto
  qed
qed

lemma fold_keeps: "keeps P observations (foldl (keep_reading P) [] observations)"
proof (induction observations rule: rev_induct)
  case Nil
  then show ?case by (simp add: keeps_def)
next
  case (snoc o' seen)
  then show ?case using keep_reading_keeps by simp
qed

lemma deduplicated_subset: "set (deduplicated P observations) \<subseteq> set observations"
  using fold_keeps [of P observations] by (auto simp add: deduplicated_def keeps_def)

lemma deduplicated_covers:
  assumes "o' \<in> set observations"
  shows "\<exists>d \<in> set (deduplicated P observations). reading_identity P d = reading_identity P o'"
proof -
  let ?al = "foldl (keep_reading P) [] observations"
  obtain d where "map_of ?al (reading_identity P o') = Some d"
    using fold_keeps [of P observations] assms unfolding keeps_def by blast
  then have "(reading_identity P o', d) \<in> set ?al" by (rule map_of_SomeD)
  then show ?thesis
    using fold_keeps [of P observations] unfolding keeps_def deduplicated_def by force
qed

lemma deduplicated_Nil_iff [simp]: "deduplicated P observations = [] \<longleftrightarrow> observations = []"
  using deduplicated_covers [of _ observations P] deduplicated_subset [of P observations]
  by (cases observations) fastforce+

text \<open>An identity determines the value, as long as the ids of sources hold no NUL.\<close>

lemma int_toString_inject: "int_toString i = int_toString j \<longleftrightarrow> i = j"
proof
  assume e: "int_toString i = int_toString j"
  have nm: "nat_toString n \<noteq> CHR ''-'' # w" for n w
  proof
    assume "nat_toString n = CHR ''-'' # w"
    then have "is_digit (CHR ''-'')" using nat_toString_digits [of n] by simp
    then show False by (simp add: is_digit_def code_unit_def)
  qed
  show "i = j"
    using e nm [of "nat i" "nat_toString (nat (- j))"] nm [of "nat j" "nat_toString (nat (- i))"]
    by (auto simp add: int_toString_def split: if_splits)
qed simp

lemma split_first_nul:
  "c \<notin> set a \<Longrightarrow> c \<notin> set a' \<Longrightarrow> a @ c # r = a' @ c # r' \<Longrightarrow> a = a' \<and> r = r'"
proof (induction a arbitrary: a')
  case Nil
  then show ?case by (cases a') auto
next
  case (Cons x a)
  then show ?case by (cases a') auto
qed

lemma js_typeof_no_nul: "CHR 0x00 \<notin> set (js_typeof v)"
  by (cases v) auto

lemma fact_value_text_inject:
  assumes "isAdmissibleContextFactValue v" "isAdmissibleContextFactValue w"
    and "js_typeof v = js_typeof w" "fact_value_text P v = fact_value_text P w"
  shows "v = w"
proof -
  have num: "\<exists>i. n = NumInt i \<and> \<bar>i\<bar> \<le> MAX_SAFE_INTEGER" if "isSafeInteger n" "n \<noteq> NumNegZero" for n
    using that by (cases n) auto
  consider b c where "v = JSBool b" "w = JSBool c" | s t where "v = JSString s" "w = JSString t"
    | m n where "v = JSNumber m" "w = JSNumber n"
    using assms(1-3) by (cases v; cases w) auto
  then show ?thesis
  proof cases
    case 1
    then show ?thesis using assms(4) by (auto simp add: json_bool_def split: if_splits)
  next
    case 2
    then show ?thesis using assms(4) by simp
  next
    case 3
    then obtain i j where "m = NumInt i" "\<bar>i\<bar> \<le> MAX_SAFE_INTEGER" "n = NumInt j" "\<bar>j\<bar> \<le> MAX_SAFE_INTEGER"
      using num [of m] num [of n] assms(1,2) by auto
    then show ?thesis using 3 assms(4) int_toString_inject by (simp add: js_number_toString_def)
  qed
qed

lemma reading_identity_value:
  assumes "reading_identity P a = reading_identity P b"
    and "CHR 0x00 \<notin> set (co_sourceId a)" "CHR 0x00 \<notin> set (co_sourceId b)"
    and "isAdmissibleContextFactValue (co_value a)" "isAdmissibleContextFactValue (co_value b)"
  shows "co_value a = co_value b"
proof -
  have 1: "co_sourceId a = co_sourceId b \<and>
      js_typeof (co_value a) @ CHR 0x00 # fact_value_text P (co_value a) =
      js_typeof (co_value b) @ CHR 0x00 # fact_value_text P (co_value b)"
    using split_first_nul [OF assms(2,3)] assms(1) by (simp add: reading_identity_def)
  then have "js_typeof (co_value a) = js_typeof (co_value b) \<and>
      fact_value_text P (co_value a) = fact_value_text P (co_value b)"
    using split_first_nul [OF js_typeof_no_nul js_typeof_no_nul] by blast
  then show ?thesis using fact_value_text_inject assms(4,5) by blast
qed

section \<open>What a classification establishes\<close>

lemma refusalOf_none:
  assumes "refusalOf P svc o' now organization = None"
  obtains src where "map_of (sv_registry svc) (co_sourceId o') = Some src"
    "cs_id src \<noteq> CONTEXT_DERIVED_SOURCE_ID"
    "contextSourceAttestationFor src (co_key o') \<noteq> None"
    "cs_organizationId src = None \<or> cs_organizationId src = organization"
    "co_organizationId o' = None \<or> co_organizationId o' = organization"
    "Date_parse P (co_observedAt o') \<noteq> None"
    "\<not> isFutureDatedAt P (co_observedAt o') now (sv_maxFutureSkewSeconds svc)"
    "isAdmissibleContextFactValue (co_value o')"
    "cs_trustClass src = ''attested'' \<Longrightarrow> attestationVerified svc src o'"
    "cs_provenance src = Some ''reference-digest'' \<Longrightarrow> hasValidProvenance P o'"
  using assms unfolding refusalOf_def by (auto split: option.splits if_splits)

lemma key_facts_conflicted:
  assumes "key_facts P svc now usable = Inr fs" "f \<in> set fs" "usable \<noteq> []"
    and "length (js_set (map co_value usable)) > 1"
  shows "\<exists>o' \<in> set usable. \<exists>conflicting. toFact P svc o' FactConflicted now conflicting = Inr f"
proof -
  let ?f = "\<lambda>o'. toFact P svc o' FactConflicted now
        (Some (map co_sourceId (filter (\<lambda>other. co_value other \<noteq> co_value o') usable)))"
  have "map ?f usable = map Inr fs"
    using assms(1,3,4) by (simp add: key_facts_def collect_results_Inr)
  then have "Inr f \<in> ?f ` set usable"
    using assms(2) by (metis (no_types, lifting) image_eqI list.set_map)
  then show ?thesis by force
qed

lemma key_facts_from:
  assumes "key_facts P svc now usable = Inr fs" "f \<in> set fs"
  shows "\<exists>o' \<in> set usable. \<exists>status conflicting. toFact P svc o' status now conflicting = Inr f"
proof (cases "usable = []")
  case False
  show ?thesis
  proof (cases "length (js_set (map co_value usable)) > 1")
    case True
    then show ?thesis using key_facts_conflicted [OF assms False] by blast
  next
    case one: False
    then have "toFact P svc (preferred P svc usable) (freshnessStatus P svc (preferred P svc usable) now) now None = Inr f"
      using assms False by (cases "toFact P svc (preferred P svc usable) (freshnessStatus P svc (preferred P svc usable) now) now None")
        (auto simp add: key_facts_def Let_def)
    then show ?thesis using preferred_in [OF False] by blast
  qed
qed (use assms in \<open>simp add: key_facts_def\<close>)

lemma toFact_status:
  "status \<noteq> FactConflicted \<Longrightarrow> toFact P svc o' status now c = toFact P svc o' FactResolved now c"
  by (simp add: toFact_def)

lemma js_set_single:
  assumes "\<not> length (js_set xs) > 1" "x \<in> set xs" "y \<in> set xs"
  shows "x = y"
proof -
  have "card (set xs) \<le> 1" using assms(1) distinct_card [OF distinct_js_set, of xs] by simp
  then show ?thesis using assms(2,3) card_le_Suc0_iff_eq [of "set xs"] by auto
qed

lemma key_facts_resolved:
  assumes "key_facts P svc now usable = Inr fs" "f \<in> set fs" "cf_resolution f = FactResolved"
  shows "\<exists>o' \<in> set usable. \<exists>conflicting. toFact P svc o' FactResolved now conflicting = Inr f \<and>
    freshnessStatus P svc o' now = FactResolved \<and> (\<forall>other \<in> set usable. co_value other = co_value o')"
proof -
  obtain o' status conflicting where o': "o' \<in> set usable" "toFact P svc o' status now conflicting = Inr f"
    using key_facts_from [OF assms(1,2)] by blast
  have fresh: "freshnessStatus P svc o' now = FactResolved" "status \<noteq> FactConflicted"
    using toFact_fields(8) [OF o'(2)] assms(3) by (auto split: if_splits)
  have "\<not> length (js_set (map co_value usable)) > 1"
  proof
    assume "length (js_set (map co_value usable)) > 1"
    then obtain x c where "toFact P svc x FactConflicted now c = Inr f"
      using key_facts_conflicted [OF assms(1,2)] o'(1) by fastforce
    then show False using toFact_fields(8) assms(3) by force
  qed
  then have "\<forall>other \<in> set usable. co_value other = co_value o'"
    using js_set_single [of "map co_value usable"] o'(1) by auto
  moreover have "toFact P svc o' FactResolved now conflicting = Inr f"
    using o'(2) toFact_status [OF fresh(2)] by simp
  ultimately show ?thesis using o'(1) fresh(1) by blast
qed

lemma derive_all_extends:
  assumes "derive_all P svc now ds (facts, u) = Inr (facts', u')"
  shows "\<exists>extra. facts' = facts @ extra \<and>
    (\<forall>f \<in> set extra. \<exists>d \<in> set ds. \<exists>prev. set prev \<subseteq> set facts' \<and> derive_fact P svc d prev now = Inr (Some f))"
  using assms
proof (induction ds arbitrary: facts u)
  case (Cons d ds)
  show ?case
  proof (cases "derive_fact P svc d facts now")
    case (Inl e)
    then show ?thesis using Cons.prems by simp
  next
    case (Inr found)
    show ?thesis
    proof (cases found)
      case None
      then have "derive_all P svc now ds (facts, u @ [cd_key d]) = Inr (facts', u')" using Cons.prems Inr by simp
      from Cons.IH [OF this] show ?thesis by auto
    next
      case (Some f)
      then have "derive_all P svc now ds (facts @ [f], u) = Inr (facts', u')" using Cons.prems Inr by simp
      from Cons.IH [OF this] obtain extra where e: "facts' = (facts @ [f]) @ extra"
        "\<forall>g \<in> set extra. \<exists>d \<in> set ds. \<exists>prev. set prev \<subseteq> set facts' \<and> derive_fact P svc d prev now = Inr (Some g)"
        by blast
      have "set facts \<subseteq> set facts'" using e(1) by auto
      then show ?thesis using e Inr Some by (intro exI [of _ "f # extra"]) auto
    qed
  qed
qed simp

lemma map_Some_the: "\<not> list_ex (\<lambda>x. x = None) xs \<Longrightarrow> xs = map Some (map the xs)"
  by (induction xs) auto

lemma derive_fact_some:
  assumes "derive_fact P svc d facts now = Inr (Some f)"
  obtains operands where
    "map (\<lambda>k. find (\<lambda>f. cf_key f = k \<and> cf_resolution f = FactResolved) facts) (cd_operandKeys d) = map Some operands"
    "cf_key f = cd_key d" "cf_derivation f = Some (cd_operator d, cd_operandKeys d)"
    "cf_effectiveTrustClass f = minimumContextTrustClass (map cf_effectiveTrustClass operands)"
    "isAdmissibleContextFactValue (cf_value f)"
proof -
  define found where
    "found = map (\<lambda>k. find (\<lambda>f. cf_key f = k \<and> cf_resolution f = FactResolved) facts) (cd_operandKeys d)"
  define operands where "operands = map the found"
  note d = assms [unfolded derive_fact_def Let_def, folded found_def, folded operands_def]
  have all: "\<not> list_ex (\<lambda>f. f = None) found" using d by (auto split: if_splits)
  obtain n where n: "evaluateContextDerivation (cd_operator d) (map cf_value operands) = Some (Inr n)"
    "isAdmissibleContextFactValue (JSNumber n)"
    using d all by (auto split: option.splits sum.splits if_splits)
  have "cf_key f = cd_key d \<and> cf_derivation f = Some (cd_operator d, cd_operandKeys d) \<and>
      cf_effectiveTrustClass f = minimumContextTrustClass (map cf_effectiveTrustClass operands) \<and>
      cf_value f = JSNumber n"
    using d all n by (auto split: sum.splits)
  then show ?thesis
    using that map_Some_the [OF all] n(2) by (simp only: found_def [symmetric] operands_def [symmetric])
qed

lemma classify_from:
  assumes "classify_context P svc observations now organization = Inr r" "f \<in> set (cx_facts r)"
  shows "(\<exists>key \<in> set (sv_requested svc). \<exists>fs.
      key_facts P svc now (deduplicated P (admitted_readings P svc observations now organization key)) = Inr fs \<and> f \<in> set fs) \<or>
    (\<exists>d \<in> set (sv_derivations svc). \<exists>prev. set prev \<subseteq> set (cx_facts r) \<and> derive_fact P svc d prev now = Inr (Some f))"
proof -
  let ?kf = "\<lambda>key. key_facts P svc now (deduplicated P (admitted_readings P svc observations now organization key))"
  let ?un = "filter (\<lambda>key. deduplicated P (admitted_readings P svc observations now organization key) = []) (sv_requested svc)"
  obtain groups facts u where g: "collect_results (map ?kf (sv_requested svc)) = Inr groups"
    "derive_all P svc now (sv_derivations svc) (concat groups, ?un) = Inr (facts, u)"
    "cx_facts r = sort_by compare_facts facts"
    using assms(1) unfolding classify_context_def Let_def
    by (auto split: sum.splits prod.splits)
  have facts: "set (cx_facts r) = set facts" using g(3) by simp
  obtain extra where e: "facts = concat groups @ extra"
    "\<forall>f \<in> set extra. \<exists>d \<in> set (sv_derivations svc). \<exists>prev. set prev \<subseteq> set facts \<and> derive_fact P svc d prev now = Inr (Some f)"
    using derive_all_extends [OF g(2)] by blast
  consider "f \<in> set (concat groups)" | "f \<in> set extra" using assms(2) facts e(1) by auto
  then show ?thesis
  proof cases
    case 1
    then obtain fs where fs: "fs \<in> set groups" "f \<in> set fs" by auto
    have "map ?kf (sv_requested svc) = map Inr groups" using g(1) by (simp add: collect_results_Inr)
    then have "Inr fs \<in> ?kf ` set (sv_requested svc)" using fs(1) by (metis image_eqI list.set_map)
    then show ?thesis using fs(2) by force
  next
    case 2
    then show ?thesis using e(2) facts by auto
  qed
qed

section \<open>Properties\<close>

lemma created_requested:
  assumes "createContextResolutionService sources declaration verifier = Inr svc"
  shows "d \<in> set (sv_derivations svc) \<Longrightarrow> cd_key d \<notin> set (sv_requested svc)"
    and "distinct (sv_requested svc)"
  using assms unfolding createContextResolutionService_def sv_derivations_def Let_def
  by (auto split: if_splits sum.splits)

text \<open>
  C14: Every fact that was not derived is a reading that crossed the boundary: its source is configured
  and may attest this class of fact, source and reading belong to the organization of the request,
  the reading is not from the future, its value is admissible, its trust is the configured class of
  the source and nothing else, an attested one was accepted by the deployment's verifier, and
  where the source requires provenance its digest recomputes.
\<close>

theorem context_fact_admitted:
  assumes "classify_context P svc observations now organization = Inr r"
    and "f \<in> set (cx_facts r)" "cf_derivation f = None"
  shows "\<exists>o' \<in> set observations. \<exists>src.
    co_key o' = cf_key f \<and> cf_key f \<in> set (sv_requested svc) \<and> co_value o' = cf_value f \<and>
    co_sourceId o' = cf_sourceId f \<and> co_observedAt o' = cf_observedAt f \<and>
    map_of (sv_registry svc) (cf_sourceId f) = Some src \<and>
    contextSourceAttestationFor src (cf_key f) \<noteq> None \<and>
    (cs_organizationId src = None \<or> cs_organizationId src = organization) \<and>
    (co_organizationId o' = None \<or> co_organizationId o' = organization) \<and>
    \<not> isFutureDatedAt P (cf_observedAt f) now (sv_maxFutureSkewSeconds svc) \<and>
    isAdmissibleContextFactValue (cf_value f) \<and>
    cf_trustClass f = cs_trustClass src \<and> cf_effectiveTrustClass f = cs_trustClass src \<and>
    (cs_trustClass src = ''attested'' \<longrightarrow> attestationVerified svc src o') \<and>
    (cs_provenance src = Some ''reference-digest'' \<longrightarrow> hasValidProvenance P o')"
  using classify_from [OF assms(1,2)]
proof
  assume "\<exists>key \<in> set (sv_requested svc). \<exists>fs.
      key_facts P svc now (deduplicated P (admitted_readings P svc observations now organization key)) = Inr fs \<and> f \<in> set fs"
  then obtain key fs where k: "key \<in> set (sv_requested svc)" "f \<in> set fs"
    "key_facts P svc now (deduplicated P (admitted_readings P svc observations now organization key)) = Inr fs"
    by blast
  obtain o' status conflicting where o': "o' \<in> set (admitted_readings P svc observations now organization key)"
    "toFact P svc o' status now conflicting = Inr f"
    using key_facts_from [OF k(3,2)] deduplicated_subset by blast
  then have a: "o' \<in> set observations" "co_key o' = key" "refusalOf P svc o' now organization = None"
    by (auto simp add: admitted_readings_def)
  obtain src where
    "map_of (sv_registry svc) (co_sourceId o') = Some src"
    "contextSourceAttestationFor src (co_key o') \<noteq> None"
    "cs_organizationId src = None \<or> cs_organizationId src = organization"
    "co_organizationId o' = None \<or> co_organizationId o' = organization"
    "\<not> isFutureDatedAt P (co_observedAt o') now (sv_maxFutureSkewSeconds svc)"
    "isAdmissibleContextFactValue (co_value o')"
    "cs_trustClass src = ''attested'' \<Longrightarrow> attestationVerified svc src o'"
    "cs_provenance src = Some ''reference-digest'' \<Longrightarrow> hasValidProvenance P o'"
    by (rule refusalOf_none [OF a(3)]) blast
  then show ?thesis
    using a k(1) toFact_fields [OF o'(2)] by (intro bexI [of _ o'] exI [of _ src]) auto
next
  assume "\<exists>d \<in> set (sv_derivations svc). \<exists>prev. set prev \<subseteq> set (cx_facts r) \<and> derive_fact P svc d prev now = Inr (Some f)"
  then show ?thesis using assms(3) by (auto elim: derive_fact_some)
qed

text \<open>
  C16: A derived fact launders nothing: it records its operands, each of them is a resolved fact of the
  same resolution, and its trust is no higher than that of any operand whose class is one of the
  comparable ones.
\<close>

theorem derived_fact_no_stronger:
  assumes "classify_context P svc observations now organization = Inr r"
    and "f \<in> set (cx_facts r)" "cf_derivation f = Some (operator, keys)" "key \<in> set keys"
  shows "\<exists>g \<in> set (cx_facts r). cf_key g = key \<and> cf_resolution g = FactResolved \<and>
    (cf_effectiveTrustClass g \<in> set TERMINAL_CONTEXT_TRUST_CLASSES \<longrightarrow>
       contextTrustClassSatisfies (cf_effectiveTrustClass g) (cf_effectiveTrustClass f))"
  using classify_from [OF assms(1,2)]
proof
  assume "\<exists>key \<in> set (sv_requested svc). \<exists>fs.
      key_facts P svc now (deduplicated P (admitted_readings P svc observations now organization key)) = Inr fs \<and> f \<in> set fs"
  then show ?thesis using key_facts_from toFact_fields(5) assms(3) by fastforce
next
  assume "\<exists>d \<in> set (sv_derivations svc). \<exists>prev. set prev \<subseteq> set (cx_facts r) \<and> derive_fact P svc d prev now = Inr (Some f)"
  then obtain d prev where d: "set prev \<subseteq> set (cx_facts r)" "derive_fact P svc d prev now = Inr (Some f)" by blast
  obtain operands where
    ops: "map (\<lambda>k. find (\<lambda>f. cf_key f = k \<and> cf_resolution f = FactResolved) prev) (cd_operandKeys d) = map Some operands"
    "cf_derivation f = Some (cd_operator d, cd_operandKeys d)"
    "cf_effectiveTrustClass f = minimumContextTrustClass (map cf_effectiveTrustClass operands)"
    by (rule derive_fact_some [OF d(2)]) blast
  then have "key \<in> set (cd_operandKeys d)" using assms(3,4) by simp
  then have "find (\<lambda>f. cf_key f = key \<and> cf_resolution f = FactResolved) prev \<in> Some ` set operands"
    using arg_cong [OF ops(1), of set] by auto
  then obtain g where g: "g \<in> set operands" "find (\<lambda>f. cf_key f = key \<and> cf_resolution f = FactResolved) prev = Some g"
    by auto
  have "g \<in> set prev \<and> cf_key g = key \<and> cf_resolution g = FactResolved"
    using g(2) by (induction prev) (auto split: if_splits)
  moreover have "contextTrustClassSatisfies (cf_effectiveTrustClass g) (cf_effectiveTrustClass f)"
    if "cf_effectiveTrustClass g \<in> set TERMINAL_CONTEXT_TRUST_CLASSES"
    using minimum_satisfied [of "cf_effectiveTrustClass g" "map cf_effectiveTrustClass operands"] g(1) that rank_range ops(3)
    by auto
  ultimately show ?thesis using d(1) by blast
qed

lemma read_satisfied:
  assumes "rd_status (readContextFact r requirement) = Satisfied"
  obtains f where "f \<in> set (cx_facts r)" "cf_key f = cr_key requirement" "cf_resolution f = FactResolved"
    "rd_value (readContextFact r requirement) = Some (cf_value f)" "cx_resolved r"
    "contextTrustClassSatisfies (cf_effectiveTrustClass f) (cr_minimumTrustClass requirement)"
    "cr_key requirement \<in> set (cx_declaredKeys r)" "cr_key requirement \<notin> set (cx_conflicted r)"
    "cf_effectiveTrustClass f = ''asserted'' \<Longrightarrow> cx_assertedFactPolicy r = ''require-declaration'' \<Longrightarrow>
       cr_key requirement \<in> set (cx_assertableKeys r)"
proof -
  obtain f where f: "resolved_fact r (cr_key requirement) = Some f"
    using assms unfolding readContextFact_def Let_def bare_read_def
    by (auto split: if_splits option.splits)
  have "f \<in> set (cx_facts r) \<and> cf_key f = cr_key requirement \<and> cf_resolution f = FactResolved"
    using f unfolding resolved_fact_def by (induction "cx_facts r") (auto simp add: find_Some_iff)
  with f that assms show ?thesis
    unfolding readContextFact_def Let_def bare_read_def by (auto split: if_splits)
qed

text \<open>
  C15: A requirement on a key that is requested of the sources, not derived, reads as satisfied only
  on agreement: every admitted reading of the key carries the value that is read, the reading that
  answered is within the strictest freshness bound stated for it, and its source has at least the
  trust the requirement asks for.  It is assumed that no configured source has the character NUL,
  which separates the parts of a reading's identity, in its own.  Of a requirement on a derived key
  nothing is said here.
\<close>

theorem satisfied_read_agreed:
  assumes "createContextResolutionService sources declaration verifier = Inr svc"
    and "\<forall>(sid, src) \<in> set (sv_registry svc). CHR 0x00 \<notin> set sid"
    and "classify_context P svc observations now organization = Inr r"
    and "cr_key requirement \<in> set (sv_requested svc)"
    and "rd_status (readContextFact r requirement) = Satisfied"
  shows "\<exists>o' \<in> set (admitted_readings P svc observations now organization (cr_key requirement)).
    rd_value (readContextFact r requirement) = Some (co_value o') \<and>
    contextTrustClassSatisfies (trustClassOf svc o') (cr_minimumTrustClass requirement) \<and>
    (case maxAgeFor svc (cr_key requirement) o' of None \<Rightarrow> True | Some n \<Rightarrow> isFreshAt P (co_observedAt o') n now) \<and>
    (\<forall>other \<in> set (admitted_readings P svc observations now organization (cr_key requirement)).
       co_value other = co_value o')"
proof -
  let ?adm = "admitted_readings P svc observations now organization"
  obtain f where f: "f \<in> set (cx_facts r)" "cf_key f = cr_key requirement" "cf_resolution f = FactResolved"
    "rd_value (readContextFact r requirement) = Some (cf_value f)"
    "contextTrustClassSatisfies (cf_effectiveTrustClass f) (cr_minimumTrustClass requirement)"
    by (rule read_satisfied [OF assms(5)]) blast
  have "\<not> (\<exists>d \<in> set (sv_derivations svc). \<exists>prev. set prev \<subseteq> set (cx_facts r) \<and> derive_fact P svc d prev now = Inr (Some f))"
    using created_requested(1) [OF assms(1)] assms(4) f(2) by (metis derive_fact_some)
  then obtain key fs where k: "f \<in> set fs" "key_facts P svc now (deduplicated P (?adm key)) = Inr fs"
    using classify_from [OF assms(3) f(1)] by blast
  from key_facts_resolved [OF k(2,1) f(3)] obtain o' conflicting where o': "o' \<in> set (deduplicated P (?adm key))"
    "toFact P svc o' FactResolved now conflicting = Inr f" "freshnessStatus P svc o' now = FactResolved"
    "\<forall>other \<in> set (deduplicated P (?adm key)). co_value other = co_value o'" by blast
  have in_adm: "o' \<in> set (?adm key)" using o'(1) deduplicated_subset by blast
  then have key: "key = cr_key requirement"
    using toFact_fields(1) [OF o'(2)] f(2) by (simp add: admitted_readings_def)
  have ok: "CHR 0x00 \<notin> set (co_sourceId x) \<and> isAdmissibleContextFactValue (co_value x)"
    if "x \<in> set (?adm key)" for x
  proof -
    have "refusalOf P svc x now organization = None" using that by (simp add: admitted_readings_def)
    then obtain src where "map_of (sv_registry svc) (co_sourceId x) = Some src" "isAdmissibleContextFactValue (co_value x)"
      by (rule refusalOf_none) blast
    then show ?thesis using assms(2) map_of_SomeD by fastforce
  qed
  have agree: "co_value other = co_value o'" if other: "other \<in> set (?adm key)" for other
  proof -
    obtain d where d: "d \<in> set (deduplicated P (?adm key))" "reading_identity P d = reading_identity P other"
      using deduplicated_covers [OF other] by blast
    then have "d \<in> set (?adm key)" using deduplicated_subset by blast
    then have "co_value d = co_value other" using reading_identity_value [OF d(2)] ok other by blast
    then show ?thesis using d(1) o'(4) by simp
  qed
  have trust: "contextTrustClassSatisfies (trustClassOf svc o') (cr_minimumTrustClass requirement)"
  proof -
    have "refusalOf P svc o' now organization = None" using in_adm by (simp add: admitted_readings_def)
    then obtain src where "map_of (sv_registry svc) (co_sourceId o') = Some src" by (rule refusalOf_none) blast
    then show ?thesis using f(5) toFact_fields(6,7) [OF o'(2)] by (simp add: trustClassOf_def)
  qed
  have "co_key o' = key" using in_adm by (simp add: admitted_readings_def)
  then have "case maxAgeFor svc key o' of None \<Rightarrow> True | Some n \<Rightarrow> isFreshAt P (co_observedAt o') n now"
    using o'(3) unfolding freshnessStatus_def by (auto split: option.splits if_splits)
  moreover have "rd_value (readContextFact r requirement) = Some (co_value o')"
    using f(4) toFact_fields(2) [OF o'(2)] by simp
  ultimately show ?thesis using in_adm trust agree unfolding key by blast
qed

section \<open>Concrete deployments\<close>

lemma MAX_DOUBLE_BOUND_value [code]: "MAX_DOUBLE_BOUND = 179769313486231580793728971405303415079934132710037826936173778980444968292764750946649017977587207096330286416692887910946555547851940402630657488671505820681908902000708383676273854845817711531764475730270069855571366959622842914819860834936475292719074168444365510704342711559699508093042880177904174497792"
  by (simp add: MAX_DOUBLE_BOUND_def)

definition erp_source :: "string \<Rightarrow> context_source" where
  "erp_source trust = \<lparr>cs_id = ''erp'', cs_kind = ''erp'', cs_name = ''ERP'', cs_trustClass = trust,
     cs_attests = [\<lparr>at_factClass = ''invoice.lines'', at_maxAgeSeconds = None\<rparr>],
     cs_organizationId = Some ''org1'', cs_provenance = None\<rparr>"

definition lines_requirement :: "js_number option \<Rightarrow> context_requirement" where
  "lines_requirement max_age = \<lparr>cr_key = ''invoice.lines'', cr_minimumTrustClass = ''authoritative'',
     cr_maxAgeSeconds = max_age, cr_required = True, cr_restrictive = None\<rparr>"

definition lines_declaration :: "js_number option \<Rightarrow> context_declaration" where
  "lines_declaration max_age =
     \<lparr>dc_requirements = [lines_requirement max_age],
      dc_derivations = Some [\<lparr>cd_key = ''invoice.double'', cd_operator = ''sum'',
        cd_operandKeys = [''invoice.lines'', ''invoice.lines'']\<rparr>],
      dc_assertedFactPolicy = None, dc_assertableKeys = None, dc_maxFutureSkewSeconds = None\<rparr>"

definition lines_reading :: "js_number option \<Rightarrow> context_observation" where
  "lines_reading max_age =
     \<lparr>co_key = ''invoice.lines'', co_value = JSNumber (NumInt 3), co_sourceId = ''erp'',
      co_observedAt = ''2026-01-01T10:00:00Z'', co_maxAgeSeconds = max_age, co_attestationRef = None,
      co_reference = Some ''doc-1'', co_provenanceDigest = None, co_organizationId = None\<rparr>"

definition context_service_of :: "string \<Rightarrow> js_number option \<Rightarrow> context_service" where
  "context_service_of trust max_age =
     \<lparr>sv_registry = [(''erp'', erp_source trust), (CONTEXT_DERIVED_SOURCE_ID, CONTEXT_DERIVED_SOURCE)],
      sv_declaration = lines_declaration max_age,
      sv_requirementsByKey = [(''invoice.lines'', lines_requirement max_age)],
      sv_requested = [''invoice.lines''], sv_declared = [''invoice.double'', ''invoice.lines''],
      sv_maxFutureSkewSeconds = NumInt 0, sv_attestationVerifier = None\<rparr>"

lemma context_service_created:
  assumes "validateContextDeclaration (lines_declaration max_age) = []" "validateContextSource (erp_source trust) = []"
  shows "createContextResolutionService [erp_source trust] (lines_declaration max_age) None =
     Inr (context_service_of trust max_age)"
proof -
  have reg: "createContextSourceRegistry [erp_source trust] =
      Inr [(''erp'', erp_source trust), (CONTEXT_DERIVED_SOURCE_ID, CONTEXT_DERIVED_SOURCE)]"
    using assms(2) by (simp add: createContextSourceRegistry_def erp_source_def CONTEXT_DERIVED_SOURCE_ID_def)
  have "sort (js_set ([''invoice.lines''] @ [''invoice.double''])) = [''invoice.double'', ''invoice.lines'']" by code_simp
  then show ?thesis
    using assms(1) reg
    by (simp add: createContextResolutionService_def context_service_of_def lines_declaration_def lines_requirement_def
        js_set_def js_set_add_def option_list_def Let_def)
qed

definition classified ::
  "platform \<Rightarrow> string \<Rightarrow> js_number option \<Rightarrow> context_observation list \<Rightarrow> js_error + context_resolution" where
  "classified P trust max_age observations =
     classify_context P (context_service_of trust max_age) observations ''2026-01-01T10:30:00Z'' (Some ''org1'')"

definition lines_resolution :: context_resolution where
  "lines_resolution = projr (classified example_platform ''authoritative'' (Some (NumInt 3600)) [lines_reading None])"

definition fact_summary :: "context_fact \<Rightarrow> string \<times> string \<times> fact_status" where
  "fact_summary f = (cf_key f, cf_effectiveTrustClass f, cf_resolution f)"

lemma lines_evaluated:
  "case classified example_platform ''authoritative'' (Some (NumInt 3600)) [lines_reading None] of
     Inl e \<Rightarrow> False
   | Inr r \<Rightarrow>
       map fact_summary (cx_facts r) =
         [(''invoice.double'', ''authoritative'', FactResolved), (''invoice.lines'', ''authoritative'', FactResolved)] \<and>
       map cf_derivation (cx_facts r) = [Some (''sum'', [''invoice.lines'', ''invoice.lines'']), None] \<and>
       rd_status (readContextFact r (lines_requirement (Some (NumInt 3600)))) = Satisfied"
  by code_simp

lemma lines_resolution_ok:
  "classify_context example_platform (context_service_of ''authoritative'' (Some (NumInt 3600))) [lines_reading None]
     ''2026-01-01T10:30:00Z'' (Some ''org1'') = Inr lines_resolution"
  using lines_evaluated unfolding lines_resolution_def classified_def by (auto split: sum.splits)

lemma lines_resolution_facts:
  "map fact_summary (cx_facts lines_resolution) =
     [(''invoice.double'', ''authoritative'', FactResolved), (''invoice.lines'', ''authoritative'', FactResolved)]"
  "map cf_derivation (cx_facts lines_resolution) = [Some (''sum'', [''invoice.lines'', ''invoice.lines'']), None]"
  "rd_status (readContextFact lines_resolution (lines_requirement (Some (NumInt 3600)))) = Satisfied"
  using lines_evaluated unfolding lines_resolution_def by (auto split: sum.splits)

theorem context_fact_admitted_witness:
  "\<exists>f \<in> set (cx_facts lines_resolution). cf_derivation f = None \<and> co_sourceId (lines_reading None) = cf_sourceId f \<and>
     contextSourceAttestationFor (erp_source ''authoritative'') (cf_key f) \<noteq> None"
proof -
  obtain d f where f: "cx_facts lines_resolution = [d, f]" "cf_derivation f = None"
    using lines_resolution_facts(2) by auto
  moreover have "map_of (sv_registry (context_service_of ''authoritative'' (Some (NumInt 3600)))) ''erp'' =
      Some (erp_source ''authoritative'')" by code_simp
  ultimately show ?thesis
    using context_fact_admitted [OF lines_resolution_ok, of f] by (auto simp add: lines_reading_def)
qed

theorem derived_fact_no_stronger_witness:
  "\<exists>f \<in> set (cx_facts lines_resolution). cf_derivation f \<noteq> None \<and>
     (\<exists>g \<in> set (cx_facts lines_resolution). cf_key g = ''invoice.lines'' \<and> cf_resolution g = FactResolved)"
proof -
  obtain d f where f: "cx_facts lines_resolution = [d, f]"
    "cf_derivation d = Some (''sum'', [''invoice.lines'', ''invoice.lines''])"
    using lines_resolution_facts(2) by auto
  then show ?thesis
    using derived_fact_no_stronger [OF lines_resolution_ok, of d _ _ "''invoice.lines''"] by auto
qed

theorem satisfied_read_agreed_witness:
  "rd_value (readContextFact lines_resolution (lines_requirement (Some (NumInt 3600)))) = Some (JSNumber (NumInt 3))"
proof -
  let ?svc = "context_service_of ''authoritative'' (Some (NumInt 3600))"
  let ?req = "lines_requirement (Some (NumInt 3600))"
  have "list_all (\<lambda>(sid, src). CHR 0x00 \<notin> set sid) (sv_registry ?svc)" by code_simp
  then have ids: "\<forall>(sid, src) \<in> set (sv_registry ?svc). CHR 0x00 \<notin> set sid" by (simp add: list_all_iff)
  have created: "createContextResolutionService [erp_source ''authoritative''] (lines_declaration (Some (NumInt 3600))) None = Inr ?svc"
    by (rule context_service_created) code_simp+
  have key: "cr_key ?req \<in> set (sv_requested ?svc)" by code_simp
  have s: "rd_status (readContextFact lines_resolution ?req) = Satisfied" by (rule lines_resolution_facts(3))
  obtain o' where o': "o' \<in> set (admitted_readings example_platform ?svc [lines_reading None] ''2026-01-01T10:30:00Z'' (Some ''org1'') (cr_key ?req))"
    "rd_value (readContextFact lines_resolution ?req) = Some (co_value o')"
    using satisfied_read_agreed [OF created ids lines_resolution_ok key s] by blast
  have "o' = lines_reading None"
    using o'(1) unfolding admitted_readings_def set_filter by simp
  then show ?thesis using o'(2) by (simp add: lines_reading_def)
qed

text \<open>
  Two readings of one value by one source at one instant under one reference, of which one states
  its own freshness bound: the one that arrives first is kept, so the order of arrival decides
  whether the fact is resolved or stale.
\<close>

theorem duplicate_order_decides:
  "map_sum id (map cf_resolution) (key_facts example_platform (context_service_of ''authoritative'' None) ''2026-01-01T10:30:00Z''
     (deduplicated example_platform [lines_reading None, lines_reading (Some (NumInt 60))])) = Inr [FactResolved] \<and>
   map_sum id (map cf_resolution) (key_facts example_platform (context_service_of ''authoritative'' None) ''2026-01-01T10:30:00Z''
     (deduplicated example_platform [lines_reading (Some (NumInt 60)), lines_reading None])) = Inr [FactStale]"
  by code_simp

text \<open>
  A source whose trust class is outside the vocabulary passes validation.  A read of its fact
  satisfies no requirement, but a derivation from it ranks as attested.
\<close>

theorem unknown_class_laundered:
  "validateContextSource (erp_source ''verified'') = [] \<and>
   map fact_summary (cx_facts (projr (classified example_platform ''verified'' None [lines_reading None]))) =
     [(''invoice.double'', ''attested'', FactResolved), (''invoice.lines'', ''verified'', FactResolved)]"
  by code_simp

text \<open>
  A declared freshness bound past the range of dates, or an observed one, makes the classification
  throw; and a fractional bound makes the digest of the resolution throw.
\<close>

definition fractional_platform :: platform where
  "fractional_platform = example_platform\<lparr>fractional_horizon := (\<lambda>a q. Some (a + \<lfloor>q * 1000\<rfloor>))\<rparr>"

theorem freshness_bound_throws:
  "validateContextDeclaration (lines_declaration (Some (NumInt (10 ^ 20)))) = [] \<and>
   classified example_platform ''authoritative'' (Some (NumInt (10 ^ 20))) [lines_reading None] =
     Inl (RangeError ''Invalid time value'') \<and>
   validateContextDeclaration (lines_declaration (Some (NumFrac (7201 / 2)))) = [] \<and>
   contextResolutionDigest fractional_platform
     (projr (classified fractional_platform ''authoritative'' (Some (NumFrac (7201 / 2))) [lines_reading None])) =
     Inl (TypeError ''A context digest admits safe integers only.'')"
proof (intro conjI)
  show "validateContextDeclaration (lines_declaration (Some (NumInt (10 ^ 20)))) = []" by code_simp
  show "classified example_platform ''authoritative'' (Some (NumInt (10 ^ 20))) [lines_reading None] =
     Inl (RangeError ''Invalid time value'')" by code_simp
  show "validateContextDeclaration (lines_declaration (Some (NumFrac (7201 / 2)))) = []" by code_simp
  show "contextResolutionDigest fractional_platform
     (projr (classified fractional_platform ''authoritative'' (Some (NumFrac (7201 / 2))) [lines_reading None])) =
     Inl (TypeError ''A context digest admits safe integers only.'')" by code_simp
qed

end
