(* ===== verification/Enforcement.thy ===== *)
theory Enforcement
  imports Governed_Parameters "HOL-Library.State_Monad"
begin

text \<open>
  The engine the Kernel wraps: \<open>features/action-enforcement\<close>.  A guard builds a request, the
  preflight asks the recognition provider and the policy packs and runs a chain of policies, and
  the guarded execution invokes the executor if the decision allows it.  Everything that is
  written goes through one store; events and proofs are chained by digests; an idempotency key
  is claimed when it is first checked.

  The state of the engine is a record, its operations are computations of the state monad.
  The clock, the generator of identifiers, the providers and the executor act on a world of
  which nothing is known.  Metadata of the policy input, which the engine only forwards, and the
  value an executor returns are type parameters.
\<close>

section \<open>The data of an enforcement\<close>

datatype enforcement_mode = PreflightMode | ExecuteMode | DryRunMode

fun mode_name :: "enforcement_mode \<Rightarrow> string" where
  "mode_name PreflightMode = ''preflight''"
| "mode_name ExecuteMode = ''execute''"
| "mode_name DryRunMode = ''dry_run''"

datatype enforcement_request_status =
    StatusSubmitted | StatusPreflightPassed | StatusPreflightFailed | StatusBlocked
  | StatusExecuting | StatusExecuted | StatusFailed | StatusCancelled

datatype enforcement_decision_type =
    ExecuteAllowed | ExecutionBlocked | ApprovalRequired | EvidenceRequired
  | ExternalHandshakeRequired | DryRunAllowed | DuplicateSuppressed | EmergencyDenied
  | AdapterDenied | RequestExpired | InvalidRequest

fun decision_type_name :: "enforcement_decision_type \<Rightarrow> string" where
  "decision_type_name ExecuteAllowed = ''execute_allowed''"
| "decision_type_name ExecutionBlocked = ''execution_blocked''"
| "decision_type_name ApprovalRequired = ''approval_required''"
| "decision_type_name EvidenceRequired = ''evidence_required''"
| "decision_type_name ExternalHandshakeRequired = ''external_handshake_required''"
| "decision_type_name DryRunAllowed = ''dry_run_allowed''"
| "decision_type_name DuplicateSuppressed = ''duplicate_suppressed''"
| "decision_type_name EmergencyDenied = ''emergency_denied''"
| "decision_type_name AdapterDenied = ''adapter_denied''"
| "decision_type_name RequestExpired = ''expired''"
| "decision_type_name InvalidRequest = ''invalid_request''"

datatype policy_severity = SeverityInfo | SeverityWarning | SeverityError | SeverityCritical

record enforcement_target =
  tg_id :: string
  tg_type :: string
  tg_name :: string
  tg_adapterId :: "string option"

record execution_intent =
  in_id :: string
  in_action :: string
  in_capability :: "string option"
  in_resourceScope :: string
  in_riskLevel :: string
  in_sideEffectType :: string
  in_description :: "string option"

datatype side_effect_status = SidePlanned | SideBlocked | SideExecuted | SideFailed | SideCompensated | SideSkipped

record side_effect_descriptor =
  sd_id :: string
  sd_requestId :: string
  sd_type :: string
  sd_status :: side_effect_status
  sd_targetSystem :: "string option"
  sd_targetResource :: "string option"
  sd_description :: "string option"
  sd_plannedAt :: string
  sd_executedAt :: "string option"
  sd_failedAt :: "string option"

text \<open>What deterministic policy may read; the metadata bag is forwarded as it is.\<close>

record admitted_policy_fact =
  af_factClass :: string
  af_value :: js_value

record 'm policy_evaluation_input =
  pi_domain :: "string option"
  pi_jurisdiction :: "string option"
  pi_country :: "string option"
  pi_industry :: "string option"
  pi_customerId :: "string option"
  pi_amount :: "string option"
  pi_currency :: "string option"
  pi_counterpartyId :: "string option"
  pi_dataDomains :: "string list option"
  pi_evidenceIds :: "string list option"
  pi_actionClass :: "string option"
  pi_resourceClass :: "string option"
  pi_governanceProfile :: "string option"
  pi_governanceProfileVersion :: "js_number option"
  pi_governedParameters :: "governed_parameter list option"
  pi_contextFacts :: "admitted_policy_fact list option"
  pi_restrictiveFacts :: "admitted_policy_fact list option"
  pi_metadata :: "'m option"

record 'm enforcement_request =
  nr_id :: string
  nr_mode :: enforcement_mode
  nr_status :: enforcement_request_status
  nr_trustDomainId :: string
  nr_actorId :: string
  nr_principalActorId :: "string option"
  nr_action :: string
  nr_capability :: "string option"
  nr_resourceScope :: string
  nr_actionRequestId :: "string option"
  nr_approvalRequestId :: "string option"
  nr_approvalDecisionId :: "string option"
  nr_approvalProofId :: "string option"
  nr_handshakeDecisionId :: "string option"
  nr_handshakeProofId :: "string option"
  nr_visaId :: "string option"
  nr_ingressGrantId :: "string option"
  nr_target :: enforcement_target
  nr_intent :: execution_intent
  nr_idempotencyKey :: "string option"
  nr_sideEffects :: "side_effect_descriptor list"
  nr_submittedAt :: string
  nr_expiresAt :: "string option"
  nr_policyEvaluationInput :: "'m policy_evaluation_input option"
  nr_metadata :: "js_value option"

record enforcement_adapter =
  na_id :: string
  na_type :: string
  na_name :: string
  na_allowedActions :: "string list option"
  na_deniedActions :: "string list option"
  na_allowedCapabilities :: "string list option"
  na_deniedCapabilities :: "string list option"
  na_allowedResourceScopes :: "string list option"
  na_deniedResourceScopes :: "string list option"
  na_requiresIdempotencyKey :: bool

record policy_result =
  pr_policyId :: string
  pr_passed :: bool
  pr_reasonCode :: string
  pr_reason :: string
  pr_severity :: policy_severity
  pr_metadata :: "js_value option"

record policy_outcome = policy_result +
  po_decisionType :: "enforcement_decision_type option"

record enforcement_decision =
  nd_id :: string
  nd_requestId :: string
  nd_type :: enforcement_decision_type
  nd_allowedToExecute :: bool
  nd_reasonCode :: string
  nd_reason :: string
  nd_recognitionDecisionId :: "string option"
  nd_recognitionDecisionType :: js_value
  nd_authorityDecisionId :: "string option"
  nd_authorityProofId :: "string option"
  nd_approvalRequestId :: "string option"
  nd_approvalDecisionId :: "string option"
  nd_approvalProofId :: "string option"
  nd_handshakeDecisionId :: "string option"
  nd_handshakeProofId :: "string option"
  nd_visaId :: "string option"
  nd_ingressGrantId :: "string option"
  nd_idempotencyKey :: "string option"
  nd_decidedAt :: string
  nd_policyResults :: "policy_result list"
  nd_policyDecisionId :: "string option"
  nd_policyProofId :: "string option"
  nd_policyPackVersionIds :: "string list option"
  nd_policyMatchedRuleIds :: "string list option"
  nd_policyReasonCode :: "string option"
  nd_policyReason :: "string option"
  nd_policyEffectiveRiskLevel :: "string option"

datatype execution_result_status =
    ResultNotExecuted | ResultExecuted | ResultFailed | ResultSkipped | ResultDuplicate

record 'v execution_result =
  nx_id :: string
  nx_requestId :: string
  nx_decisionId :: string
  nx_status :: execution_result_status
  nx_executed :: bool
  nx_value :: "'v option"
  nx_errorMessage :: "string option"
  nx_startedAt :: "string option"
  nx_completedAt :: "string option"
  nx_priorExecutionResultId :: "string option"

text \<open>
  What the recognition provider is asked and answers.  A reason or a reason code that is not a
  string is \<open>None\<close>; the first policy that reads a reason runs after the one that refuses such an
  answer.  The two verdicts are true exactly if the answer says \<open>true\<close>.
\<close>

record recognition_input =
  rn_actionRequestId :: "string option"
  rn_actorId :: string
  rn_principalActorId :: "string option"
  rn_trustDomainId :: string
  rn_action :: string
  rn_capability :: "string option"
  rn_resourceScope :: string
  rn_requestedAt :: string
  rn_approvalProofId :: "string option"
  rn_approvalRequestId :: "string option"
  rn_approvalDecisionId :: "string option"
  rn_visaId :: "string option"
  rn_ingressGrantId :: "string option"
  rn_handshakeProofId :: "string option"
  rn_metadata :: "js_value option"

record recognition_result =
  rg_id :: "string option"
  rg_type :: js_value
  rg_allowed :: bool
  rg_recognized :: bool
  rg_reasonCode :: "string option"
  rg_reason :: "string option"
  rg_authorityDecisionId :: "string option"
  rg_authorityProofId :: "string option"
  rg_approvalRequestId :: "string option"
  rg_approvalDecisionId :: "string option"
  rg_approvalProofId :: "string option"
  rg_handshakeDecisionId :: "string option"
  rg_handshakeProofId :: "string option"

datatype idempotency_status = KeyPending | KeySucceeded | KeyFailed

record idempotency_record =
  ik_key :: string
  ik_requestId :: string
  ik_status :: idempotency_status
  ik_executionResultId :: "string option"
  ik_createdAt :: string
  ik_updatedAt :: string

datatype idempotency_outcome = KeyNew | KeyDuplicateSuccess | KeyDuplicateRetry

record idempotency_check =
  ic_outcome :: idempotency_outcome
  ic_key :: "string option"
  ic_priorExecutionResultId :: "string option"


section \<open>The state of the engine\<close>

record enforcement_event =
  nv_id :: string
  nv_type :: string
  nv_trustDomainId :: string
  nv_requestId :: "string option"
  nv_decisionId :: "string option"
  nv_executionResultId :: "string option"
  nv_proofId :: "string option"
  nv_violationId :: "string option"
  nv_actorId :: "string option"
  nv_principalActorId :: "string option"
  nv_timestamp :: string
  nv_payload :: "(string \<times> json option) list"
  nv_previousHash :: "string option"
  nv_eventHash :: string

record enforcement_proof =
  np_id :: string
  np_requestId :: string
  np_decisionId :: string
  np_executionResultId :: "string option"
  np_trustDomainId :: string
  np_actorId :: string
  np_principalActorId :: "string option"
  np_action :: string
  np_capability :: "string option"
  np_resourceScope :: string
  np_allowedToExecute :: bool
  np_executed :: bool
  np_recognitionDecisionId :: "string option"
  np_authorityProofId :: "string option"
  np_approvalProofId :: "string option"
  np_handshakeProofId :: "string option"
  np_policyDecisionId :: "string option"
  np_policyProofId :: "string option"
  np_policyPackVersionIds :: "string list option"
  np_policyMatchedRuleIds :: "string list option"
  np_sideEffectIds :: "string list"
  np_idempotencyKey :: "string option"
  np_previousHash :: "string option"
  np_proofHash :: string
  np_createdAt :: string

record enforcement_violation =
  nl_id :: string
  nl_requestId :: string
  nl_type :: string
  nl_reasonCode :: string
  nl_reason :: string
  nl_severity :: policy_severity
  nl_detectedAt :: string
  nl_policyDecisionId :: "string option"
  nl_policyProofId :: "string option"

text \<open>A \<open>Map\<close> is an association list in the order of first insertion.\<close>

record ('m, 'v, 'w) engine_state =
  ng_requests :: "(string \<times> 'm enforcement_request) list"
  ng_decisions :: "(string \<times> enforcement_decision) list"
  ng_results :: "(string \<times> 'v execution_result) list"
  ng_sideEffects :: "(string \<times> side_effect_descriptor) list"
  ng_proofs :: "(string \<times> enforcement_proof) list"
  ng_events :: "enforcement_event list"
  ng_adapters :: "(string \<times> enforcement_adapter) list"
  ng_violations :: "(string \<times> enforcement_violation) list"
  ng_keys :: "(string \<times> idempotency_record) list"
  ng_emergencyDeny :: bool
  ng_world :: 'w

definition empty_engine :: "bool \<Rightarrow> 'w \<Rightarrow> ('m, 'v, 'w) engine_state" where
  "empty_engine emergencyDeny w =
     \<lparr>ng_requests = [], ng_decisions = [], ng_results = [], ng_sideEffects = [], ng_proofs = [],
      ng_events = [], ng_adapters = [], ng_violations = [], ng_keys = [],
      ng_emergencyDeny = emergencyDeny, ng_world = w\<rparr>"

record policy_pack_result =
  pk_type :: string
  pk_allowed :: bool
  pk_policyDecisionId :: "string option"
  pk_policyProofId :: "string option"
  pk_policyPackVersionIds :: "string list option"
  pk_matchedRuleIds :: "string list option"
  pk_reasonCode :: string
  pk_reason :: string
  pk_limitedActions :: "string list option"
  pk_limitedCapabilities :: "string list option"
  pk_limitedResourceScopes :: "string list option"
  pk_effectiveRiskLevel :: "string option"

record 'm policy_pack_input =
  pp_requestId :: string
  pp_trustDomainId :: string
  pp_actorId :: string
  pp_principalActorId :: "string option"
  pp_action :: string
  pp_capability :: "string option"
  pp_resourceScope :: string
  pp_sideEffectType :: string
  pp_riskLevel :: string
  pp_requestedAt :: string
  pp_authorityProofId :: "string option"
  pp_approvalProofId :: "string option"
  pp_handshakeProofId :: "string option"
  pp_evaluation :: "'m policy_evaluation_input option"

text \<open>
  A policy pack integration throws, answers something that is not an object or has a member of
  another type than the contract's, or answers a result.
\<close>

datatype policy_pack_answer = PackThrows string | PackMalformed | PackAnswers policy_pack_result

record 'm policy_context =
  pc_now :: string
  pc_request :: "'m enforcement_request"
  pc_recognitionResult :: "recognition_result option"
  pc_mappedDecisionType :: "enforcement_decision_type option"
  pc_mappedReasonCode :: "string option"
  pc_mappedReason :: "string option"
  pc_adapter :: "enforcement_adapter option"
  pc_emergencyDeny :: bool
  pc_idempotency :: "idempotency_check option"
  pc_policyPackResult :: "policy_pack_result option"

type_synonym 'm policy = "'m policy_context \<Rightarrow> policy_outcome"

text \<open>
  What the engine is composed with.  The recognition provider throws (\<open>Inl\<close>) or answers,
  possibly nothing.
\<close>

record ('m, 'w) engine_env =
  ev_platform :: platform
  ev_now :: "'w \<Rightarrow> string \<times> 'w"
  ev_nextId :: "string \<Rightarrow> 'w \<Rightarrow> string \<times> 'w"
  ev_verifyAction :: "recognition_input \<Rightarrow> 'w \<Rightarrow> (string + recognition_result option) \<times> 'w"
  ev_policyPack :: "('m policy_pack_input \<Rightarrow> 'w \<Rightarrow> policy_pack_answer \<times> 'w) option"
  ev_policies :: "'m policy list"
  ev_allowRetryAfterFailure :: bool

type_synonym ('m, 'v, 'w, 'a) engine = "(('m, 'v, 'w) engine_state, 'a) state"

text \<open>A call out of the engine, and the two calls every operation makes.\<close>

definition ask :: "('w \<Rightarrow> 'a \<times> 'w) \<Rightarrow> ('m, 'v, 'w, 'a) engine" where
  "ask f = State (\<lambda>s. case f (ng_world s) of (a, w) \<Rightarrow> (a, s\<lparr>ng_world := w\<rparr>))"

definition clock_now :: "('m, 'w) engine_env \<Rightarrow> ('m, 'v, 'w, string) engine" where
  "clock_now E = ask (ev_now E)"

definition next_id :: "('m, 'w) engine_env \<Rightarrow> string \<Rightarrow> ('m, 'v, 'w, string) engine" where
  "next_id E prefix = ask (ev_nextId E prefix)"

definition gets :: "(('m, 'v, 'w) engine_state \<Rightarrow> 'a) \<Rightarrow> ('m, 'v, 'w, 'a) engine" where
  "gets f = State (\<lambda>s. (f s, s))"

fun for_each :: "('a \<Rightarrow> ('s, 'b) state) \<Rightarrow> 'a list \<Rightarrow> ('s, unit) state" where
  "for_each f [] = State_Monad.return ()"
| "for_each f (x # xs) = do { _ \<leftarrow> f x; for_each f xs }"

section \<open>The store\<close>

definition saveRequest :: "'m enforcement_request \<Rightarrow> ('m, 'v, 'w, unit) engine" where
  "saveRequest r = State_Monad.update (\<lambda>s. s\<lparr>ng_requests := AList.update (nr_id r) r (ng_requests s)\<rparr>)"

definition update_request ::
  "string \<Rightarrow> ('m enforcement_request \<Rightarrow> 'm enforcement_request) \<Rightarrow>
     ('m, 'v, 'w, 'm enforcement_request option) engine" where
  "update_request rid f = State (\<lambda>s.
     case map_of (ng_requests s) rid of
       None \<Rightarrow> (None, s)
     | Some r \<Rightarrow> (Some (f r), s\<lparr>ng_requests := AList.update rid (f r) (ng_requests s)\<rparr>))"

definition updateRequestStatus ::
  "string \<Rightarrow> enforcement_request_status \<Rightarrow> ('m, 'v, 'w, 'm enforcement_request option) engine" where
  "updateRequestStatus rid status = update_request rid (\<lambda>r. r\<lparr>nr_status := status\<rparr>)"

definition replaceRequestSideEffects ::
  "string \<Rightarrow> side_effect_descriptor list \<Rightarrow> ('m, 'v, 'w, 'm enforcement_request option) engine" where
  "replaceRequestSideEffects rid sideEffects = update_request rid (\<lambda>r. r\<lparr>nr_sideEffects := sideEffects\<rparr>)"

definition saveDecision :: "enforcement_decision \<Rightarrow> ('m, 'v, 'w, enforcement_decision) engine" where
  "saveDecision d = do {
     State_Monad.update (\<lambda>s. s\<lparr>ng_decisions := AList.update (nd_id d) d (ng_decisions s)\<rparr>);
     State_Monad.return d }"

definition saveResult :: "'v execution_result \<Rightarrow> ('m, 'v, 'w, 'v execution_result) engine" where
  "saveResult x = do {
     State_Monad.update (\<lambda>s. s\<lparr>ng_results := AList.update (nx_id x) x (ng_results s)\<rparr>);
     State_Monad.return x }"

definition saveSideEffect :: "side_effect_descriptor \<Rightarrow> ('m, 'v, 'w, unit) engine" where
  "saveSideEffect d = State_Monad.update (\<lambda>s. s\<lparr>ng_sideEffects := AList.update (sd_id d) d (ng_sideEffects s)\<rparr>)"

definition getSideEffectsByRequest :: "string \<Rightarrow> ('m, 'v, 'w, side_effect_descriptor list) engine" where
  "getSideEffectsByRequest rid = gets (\<lambda>s. filter (\<lambda>d. sd_requestId d = rid) (map snd (ng_sideEffects s)))"

definition updateSideEffectStatus ::
  "string \<Rightarrow> side_effect_status \<Rightarrow> string option \<Rightarrow> string option \<Rightarrow>
     ('m, 'v, 'w, side_effect_descriptor option) engine" where
  "updateSideEffectStatus sid status executedAt failedAt = State (\<lambda>s.
     case map_of (ng_sideEffects s) sid of
       None \<Rightarrow> (None, s)
     | Some d \<Rightarrow>
         (let d' = d\<lparr>sd_status := status,
             sd_executedAt := (if executedAt = None then sd_executedAt d else executedAt),
             sd_failedAt := (if failedAt = None then sd_failedAt d else failedAt)\<rparr>
          in (Some d', s\<lparr>ng_sideEffects := AList.update sid d' (ng_sideEffects s)\<rparr>)))"

definition saveProof :: "enforcement_proof \<Rightarrow> ('m, 'v, 'w, enforcement_proof) engine" where
  "saveProof p = do {
     State_Monad.update (\<lambda>s. s\<lparr>ng_proofs := AList.update (np_id p) p (ng_proofs s)\<rparr>);
     State_Monad.return p }"

definition getProofByDecision :: "('m, 'v, 'w) engine_state \<Rightarrow> string \<Rightarrow> enforcement_proof option" where
  "getProofByDecision s did = List.find (\<lambda>p. np_decisionId p = did) (map snd (ng_proofs s))"

definition getLatestProof :: "('m, 'v, 'w) engine_state \<Rightarrow> enforcement_proof option" where
  "getLatestProof s = (if ng_proofs s = [] then None else Some (snd (last (ng_proofs s))))"

definition getLatestEvent :: "('m, 'v, 'w) engine_state \<Rightarrow> enforcement_event option" where
  "getLatestEvent s = (if ng_events s = [] then None else Some (last (ng_events s)))"

definition getTrailByRequest :: "('m, 'v, 'w) engine_state \<Rightarrow> string \<Rightarrow> enforcement_event list" where
  "getTrailByRequest s rid = filter (\<lambda>e. nv_requestId e = Some rid) (ng_events s)"

definition saveViolation :: "enforcement_violation \<Rightarrow> ('m, 'v, 'w, enforcement_violation) engine" where
  "saveViolation v = do {
     State_Monad.update (\<lambda>s. s\<lparr>ng_violations := AList.update (nl_id v) v (ng_violations s)\<rparr>);
     State_Monad.return v }"

definition registerAdapter :: "enforcement_adapter \<Rightarrow> ('m, 'v, 'w, enforcement_adapter) engine" where
  "registerAdapter a = do {
     State_Monad.update (\<lambda>s. s\<lparr>ng_adapters := AList.update (na_id a) a (ng_adapters s)\<rparr>);
     State_Monad.return a }"

definition setEmergencyDeny :: "bool \<Rightarrow> ('m, 'v, 'w, unit) engine" where
  "setEmergencyDeny active = State_Monad.update (\<lambda>s. s\<lparr>ng_emergencyDeny := active\<rparr>)"

section \<open>Digests and the chained ledgers\<close>

definition createDigest :: "platform \<Rightarrow> json \<Rightarrow> string" where
  "createDigest P j = sha256_hex P (json_print P j)"

record event_input =
  ei_type :: string
  ei_trustDomainId :: string
  ei_requestId :: "string option"
  ei_decisionId :: "string option"
  ei_executionResultId :: "string option"
  ei_proofId :: "string option"
  ei_violationId :: "string option"
  ei_actorId :: "string option"
  ei_principalActorId :: "string option"
  ei_payload :: "(string \<times> json option) list"

text \<open>What is digested of an event: all but its identifier and the digest itself.\<close>

definition event_json :: "event_input \<Rightarrow> string \<Rightarrow> string option \<Rightarrow> json" where
  "event_json i timestamp previousHash = canonical_object
     [(''type'', Some (JStr (ei_type i))), (''trustDomainId'', Some (JStr (ei_trustDomainId i))),
      (''enforcementRequestId'', map_option JStr (ei_requestId i)),
      (''enforcementDecisionId'', map_option JStr (ei_decisionId i)),
      (''executionResultId'', map_option JStr (ei_executionResultId i)),
      (''enforcementProofId'', map_option JStr (ei_proofId i)),
      (''violationId'', map_option JStr (ei_violationId i)),
      (''actorId'', map_option JStr (ei_actorId i)),
      (''principalActorId'', map_option JStr (ei_principalActorId i)),
      (''timestamp'', Some (JStr timestamp)),
      (''payload'', Some (canonical_object (ei_payload i))),
      (''previousHash'', map_option JStr previousHash)]"

definition recordEvent :: "('m, 'w) engine_env \<Rightarrow> event_input \<Rightarrow> ('m, 'v, 'w, enforcement_event) engine" where
  "recordEvent E i = do {
     timestamp \<leftarrow> clock_now E;
     previousHash \<leftarrow> gets (\<lambda>s. map_option nv_eventHash (getLatestEvent s));
     eid \<leftarrow> next_id E ''enforcement-event'';
     let event = \<lparr>nv_id = eid, nv_type = ei_type i, nv_trustDomainId = ei_trustDomainId i,
       nv_requestId = ei_requestId i, nv_decisionId = ei_decisionId i,
       nv_executionResultId = ei_executionResultId i, nv_proofId = ei_proofId i,
       nv_violationId = ei_violationId i, nv_actorId = ei_actorId i,
       nv_principalActorId = ei_principalActorId i, nv_timestamp = timestamp,
       nv_payload = ei_payload i, nv_previousHash = previousHash,
       nv_eventHash = createDigest (ev_platform E) (event_json i timestamp previousHash)\<rparr>;
     State_Monad.update (\<lambda>s. s\<lparr>ng_events := ng_events s @ [event]\<rparr>);
     State_Monad.return event }"

definition proof_json :: "enforcement_proof \<Rightarrow> json" where
  "proof_json p = canonical_object
     [(''enforcementRequestId'', Some (JStr (np_requestId p))),
      (''enforcementDecisionId'', Some (JStr (np_decisionId p))),
      (''executionResultId'', map_option JStr (np_executionResultId p)),
      (''trustDomainId'', Some (JStr (np_trustDomainId p))), (''actorId'', Some (JStr (np_actorId p))),
      (''principalActorId'', map_option JStr (np_principalActorId p)),
      (''action'', Some (JStr (np_action p))), (''capability'', map_option JStr (np_capability p)),
      (''resourceScope'', Some (JStr (np_resourceScope p))),
      (''allowedToExecute'', Some (JBool (np_allowedToExecute p))),
      (''executed'', Some (JBool (np_executed p))),
      (''recognitionDecisionId'', map_option JStr (np_recognitionDecisionId p)),
      (''authorityProofId'', map_option JStr (np_authorityProofId p)),
      (''approvalProofId'', map_option JStr (np_approvalProofId p)),
      (''handshakeProofId'', map_option JStr (np_handshakeProofId p)),
      (''policyDecisionId'', map_option JStr (np_policyDecisionId p)),
      (''policyProofId'', map_option JStr (np_policyProofId p)),
      (''policyPackVersionIds'', map_option strings_json (np_policyPackVersionIds p)),
      (''policyMatchedRuleIds'', map_option strings_json (np_policyMatchedRuleIds p)),
      (''sideEffectIds'', Some (strings_json (np_sideEffectIds p))),
      (''idempotencyKey'', map_option JStr (np_idempotencyKey p)),
      (''previousHash'', map_option JStr (np_previousHash p))]"

text \<open>The proof is created from an unsealed one, whose hash and identity are still to be filled in.\<close>

definition proof_create :: "('m, 'w) engine_env \<Rightarrow> enforcement_proof \<Rightarrow> ('m, 'v, 'w, enforcement_proof) engine" where
  "proof_create E input = do {
     previousHash \<leftarrow> gets (\<lambda>s. map_option np_proofHash (getLatestProof s));
     pid \<leftarrow> next_id E ''enforcement-proof'';
     createdAt \<leftarrow> clock_now E;
     let linked = input\<lparr>np_previousHash := previousHash\<rparr>;
     saveProof (linked\<lparr>np_id := pid, np_createdAt := createdAt,
       np_proofHash := createDigest (ev_platform E) (proof_json linked)\<rparr>) }"

definition verifyProof :: "platform \<Rightarrow> enforcement_proof \<Rightarrow> bool" where
  "verifyProof P p \<longleftrightarrow> createDigest P (proof_json p) = np_proofHash p"


section \<open>Idempotency keys\<close>

definition save_key :: "idempotency_record \<Rightarrow> ('m, 'v, 'w, unit) engine" where
  "save_key r = State_Monad.update (\<lambda>s. s\<lparr>ng_keys := AList.update (ik_key r) r (ng_keys s)\<rparr>)"

definition key_register :: "('m, 'w) engine_env \<Rightarrow> string \<Rightarrow> string \<Rightarrow> ('m, 'v, 'w, unit) engine" where
  "key_register E key rid = do {
     now \<leftarrow> clock_now E;
     save_key \<lparr>ik_key = key, ik_requestId = rid, ik_status = KeyPending, ik_executionResultId = None,
       ik_createdAt = now, ik_updatedAt = now\<rparr> }"

text \<open>
  A key seen for the first time is claimed.  A key that succeeded or is pending is a duplicate; a
  key that failed may be retried if the engine is so configured, and its record stays as it is.
\<close>

definition key_check :: "('m, 'w) engine_env \<Rightarrow> string option \<Rightarrow> string \<Rightarrow> ('m, 'v, 'w, idempotency_check) engine" where
  "key_check E key rid =
     (case key of
        None \<Rightarrow> State_Monad.return \<lparr>ic_outcome = KeyNew, ic_key = None, ic_priorExecutionResultId = None\<rparr>
      | Some k \<Rightarrow> do {
          existing \<leftarrow> gets (\<lambda>s. map_of (ng_keys s) k);
          case existing of
            None \<Rightarrow> do {
              key_register E k rid;
              State_Monad.return \<lparr>ic_outcome = KeyNew, ic_key = Some k, ic_priorExecutionResultId = None\<rparr> }
          | Some r \<Rightarrow> State_Monad.return
              (case ik_status r of
                 KeySucceeded \<Rightarrow> \<lparr>ic_outcome = KeyDuplicateSuccess, ic_key = Some k,
                   ic_priorExecutionResultId = ik_executionResultId r\<rparr>
               | KeyFailed \<Rightarrow> \<lparr>ic_outcome =
                   (if ev_allowRetryAfterFailure E then KeyDuplicateRetry else KeyDuplicateSuccess),
                   ic_key = Some k, ic_priorExecutionResultId = None\<rparr>
               | KeyPending \<Rightarrow> \<lparr>ic_outcome = KeyDuplicateSuccess, ic_key = Some k,
                   ic_priorExecutionResultId = None\<rparr>) })"

definition key_record ::
  "('m, 'w) engine_env \<Rightarrow> string option \<Rightarrow> idempotency_status \<Rightarrow> string option \<Rightarrow> ('m, 'v, 'w, unit) engine" where
  "key_record E key status result =
     (case key of
        None \<Rightarrow> State_Monad.return ()
      | Some k \<Rightarrow> do {
          existing \<leftarrow> gets (\<lambda>s. map_of (ng_keys s) k);
          createdAt \<leftarrow> (case existing of None \<Rightarrow> clock_now E | Some r \<Rightarrow> State_Monad.return (ik_createdAt r));
          updatedAt \<leftarrow> clock_now E;
          save_key \<lparr>ik_key = k, ik_requestId = (case existing of None \<Rightarrow> [] | Some r \<Rightarrow> ik_requestId r),
            ik_status = status, ik_executionResultId = result, ik_createdAt = createdAt, ik_updatedAt = updatedAt\<rparr> })"

definition recordSuccess :: "('m, 'w) engine_env \<Rightarrow> string option \<Rightarrow> string \<Rightarrow> ('m, 'v, 'w, unit) engine" where
  "recordSuccess E key resultId = key_record E key KeySucceeded (Some resultId)"

definition recordFailure :: "('m, 'w) engine_env \<Rightarrow> string option \<Rightarrow> ('m, 'v, 'w, unit) engine" where
  "recordFailure E key = key_record E key KeyFailed None"

section \<open>Side effects and requests\<close>

definition plain_event :: "string \<Rightarrow> 'm enforcement_request \<Rightarrow> string option \<Rightarrow> (string \<times> json option) list \<Rightarrow> event_input" where
  "plain_event type r decision payload =
     \<lparr>ei_type = type, ei_trustDomainId = nr_trustDomainId r, ei_requestId = Some (nr_id r),
      ei_decisionId = decision, ei_executionResultId = None, ei_proofId = None, ei_violationId = None,
      ei_actorId = Some (nr_actorId r), ei_principalActorId = None, ei_payload = payload\<rparr>"

definition side_event :: "string \<Rightarrow> string \<Rightarrow> string \<Rightarrow> string option \<Rightarrow> (string \<times> json option) list \<Rightarrow> event_input" where
  "side_event type domain rid actor payload =
     \<lparr>ei_type = type, ei_trustDomainId = domain, ei_requestId = Some rid, ei_decisionId = None,
      ei_executionResultId = None, ei_proofId = None, ei_violationId = None, ei_actorId = actor,
      ei_principalActorId = None, ei_payload = payload\<rparr>"

definition planSideEffect ::
  "('m, 'w) engine_env \<Rightarrow> string \<Rightarrow> string \<Rightarrow> string \<Rightarrow> execution_intent \<Rightarrow> string option \<Rightarrow> string option \<Rightarrow>
     ('m, 'v, 'w, side_effect_descriptor) engine" where
  "planSideEffect E rid domain actor intent targetSystem targetResource = do {
     sid \<leftarrow> next_id E ''side-effect'';
     plannedAt \<leftarrow> clock_now E;
     let d = \<lparr>sd_id = sid, sd_requestId = rid, sd_type = in_sideEffectType intent, sd_status = SidePlanned,
       sd_targetSystem = targetSystem, sd_targetResource = targetResource,
       sd_description = in_description intent, sd_plannedAt = plannedAt, sd_executedAt = None, sd_failedAt = None\<rparr>;
     saveSideEffect d;
     recordEvent E (side_event ''side_effect_planned'' domain rid (Some actor)
       [(''sideEffectId'', Some (JStr sid)), (''sideEffectType'', Some (JStr (sd_type d)))]);
     State_Monad.return d }"

definition side_effect_recorded ::
  "('m, 'w) engine_env \<Rightarrow> string \<Rightarrow> string \<Rightarrow> string \<Rightarrow> string option \<Rightarrow> side_effect_descriptor option \<Rightarrow>
     ('m, 'v, 'w, side_effect_descriptor option) engine" where
  "side_effect_recorded E type sid domain actor updated =
     (case updated of
        None \<Rightarrow> State_Monad.return None
      | Some d \<Rightarrow> do {
          recordEvent E (side_event type domain (sd_requestId d) actor [(''sideEffectId'', Some (JStr sid))]);
          State_Monad.return (Some d) })"

definition markBlocked ::
  "('m, 'w) engine_env \<Rightarrow> string \<Rightarrow> string \<Rightarrow> string option \<Rightarrow> ('m, 'v, 'w, side_effect_descriptor option) engine" where
  "markBlocked E sid domain actor = do {
     updated \<leftarrow> updateSideEffectStatus sid SideBlocked None None;
     side_effect_recorded E ''side_effect_blocked'' sid domain actor updated }"

definition markExecuted ::
  "('m, 'w) engine_env \<Rightarrow> string \<Rightarrow> string \<Rightarrow> string option \<Rightarrow> ('m, 'v, 'w, side_effect_descriptor option) engine" where
  "markExecuted E sid domain actor = do {
     now \<leftarrow> clock_now E;
     updated \<leftarrow> updateSideEffectStatus sid SideExecuted (Some now) None;
     side_effect_recorded E ''side_effect_executed'' sid domain actor updated }"

definition markFailed :: "('m, 'w) engine_env \<Rightarrow> string \<Rightarrow> ('m, 'v, 'w, side_effect_descriptor option) engine" where
  "markFailed E sid = do {
     now \<leftarrow> clock_now E;
     updateSideEffectStatus sid SideFailed None (Some now) }"

definition markSkipped :: "string \<Rightarrow> ('m, 'v, 'w, side_effect_descriptor option) engine" where
  "markSkipped sid = updateSideEffectStatus sid SideSkipped None None"

text \<open>The input of a request is a request whose identity, status, effects and time are still to come.\<close>

definition createEnforcementRequest ::
  "('m, 'w) engine_env \<Rightarrow> 'm enforcement_request \<Rightarrow> ('m, 'v, 'w, 'm enforcement_request) engine" where
  "createEnforcementRequest E input = do {
     rid \<leftarrow> next_id E ''enforcement-request'';
     submittedAt \<leftarrow> clock_now E;
     let request = input\<lparr>nr_id := rid, nr_status := StatusSubmitted, nr_sideEffects := [],
       nr_submittedAt := submittedAt, nr_handshakeDecisionId := None\<rparr>;
     saveRequest request;
     sideEffect \<leftarrow> planSideEffect E rid (nr_trustDomainId input) (nr_actorId input) (nr_intent input) None None;
     updated \<leftarrow> replaceRequestSideEffects rid [sideEffect];
     let withSideEffect = (case updated of None \<Rightarrow> request | Some r \<Rightarrow> r);
     recordEvent E ((plain_event ''enforcement_requested'' request None
       [(''action'', Some (JStr (nr_action input))), (''resourceScope'', Some (JStr (nr_resourceScope input))),
        (''mode'', Some (JStr (mode_name (nr_mode input))))])\<lparr>ei_principalActorId := nr_principalActorId input\<rparr>);
     State_Monad.return withSideEffect }"

section \<open>Recognition and decisions\<close>

definition RECOGNITION_TYPE_MAP :: "(string \<times> enforcement_decision_type) list" where
  "RECOGNITION_TYPE_MAP =
     [(''allow'', ExecuteAllowed), (''require_human_approval'', ApprovalRequired),
      (''require_more_evidence'', EvidenceRequired), (''unrecognized_actor'', ExecutionBlocked),
      (''rogue_actor'', ExecutionBlocked), (''invalid_capability'', ExecutionBlocked),
      (''revoked'', ExecutionBlocked), (''expired'', RequestExpired), (''out_of_scope'', ExecutionBlocked),
      (''policy_violation'', ExecutionBlocked), (''deny'', ExecutionBlocked), (''invalid_passport'', ExecutionBlocked)]"

definition EXECUTABLE_DECISION_TYPES :: "enforcement_decision_type list" where
  "EXECUTABLE_DECISION_TYPES = [ExecuteAllowed]"

definition isExecutable :: "enforcement_decision_type \<Rightarrow> bool" where
  "isExecutable t \<longleftrightarrow> t \<in> set EXECUTABLE_DECISION_TYPES"

record mapped_recognition =
  mr_decisionType :: enforcement_decision_type
  mr_reasonCode :: "string option"
  mr_reason :: "string option"

fun recognition_type_text :: "js_value \<Rightarrow> string option" where
  "recognition_type_text (JSString t) = (if t = [] then None else Some t)"
| "recognition_type_text _ = None"

text \<open>
  A type that names a member every object inherits (\<open>toString\<close> and the like) is outside the model:
  the table answers it with a function.
\<close>

definition mapRecognitionResult :: "recognition_result option \<Rightarrow> mapped_recognition" where
  "mapRecognitionResult result =
     (case result of
        None \<Rightarrow> \<lparr>mr_decisionType = ExecutionBlocked, mr_reasonCode = Some ''RECOGNITION_MISSING'',
          mr_reason = Some ''No recognition verification result was returned.''\<rparr>
      | Some r \<Rightarrow>
          case recognition_type_text (rg_type r) of
            None \<Rightarrow> \<lparr>mr_decisionType = ExecutionBlocked, mr_reasonCode = Some ''RECOGNITION_MISSING'',
              mr_reason = Some ''No recognition verification result was returned.''\<rparr>
          | Some t \<Rightarrow>
              case map_of RECOGNITION_TYPE_MAP t of
                Some known \<Rightarrow> \<lparr>mr_decisionType = known, mr_reasonCode = rg_reasonCode r, mr_reason = rg_reason r\<rparr>
              | None \<Rightarrow>
                  if rg_allowed r \<or> rg_recognized r
                  then \<lparr>mr_decisionType = ExecuteAllowed, mr_reasonCode = rg_reasonCode r, mr_reason = rg_reason r\<rparr>
                  else \<lparr>mr_decisionType = ExecutionBlocked, mr_reasonCode = Some ''RECOGNITION_INVALID'',
                    mr_reason = Some (''Unrecognized recognition decision type: '' @ t @ ''.'')\<rparr>)"

definition or_else :: "'a option \<Rightarrow> 'a option \<Rightarrow> 'a option" where
  "or_else a b = (case a of None \<Rightarrow> b | Some x \<Rightarrow> Some x)"

definition attachPolicyMetadataToDecision :: "enforcement_decision \<Rightarrow> policy_pack_result \<Rightarrow> enforcement_decision" where
  "attachPolicyMetadataToDecision d r =
     d\<lparr>nd_policyDecisionId := or_else (pk_policyDecisionId r) (nd_policyDecisionId d),
       nd_policyProofId := or_else (pk_policyProofId r) (nd_policyProofId d),
       nd_policyPackVersionIds := or_else (pk_policyPackVersionIds r) (nd_policyPackVersionIds d),
       nd_policyMatchedRuleIds := or_else (pk_matchedRuleIds r) (nd_policyMatchedRuleIds d),
       nd_policyReasonCode := Some (pk_reasonCode r),
       nd_policyReason := Some (pk_reason r),
       nd_policyEffectiveRiskLevel := or_else (pk_effectiveRiskLevel r) (nd_policyEffectiveRiskLevel d)\<rparr>"

record policy_evaluation =
  pe_decisionType :: enforcement_decision_type
  pe_reasonCode :: string
  pe_reason :: string
  pe_policyResults :: "policy_result list"

definition recognized_id :: "(recognition_result \<Rightarrow> string option) \<Rightarrow> recognition_result option \<Rightarrow> string option" where
  "recognized_id f recognition = (case recognition of None \<Rightarrow> None | Some r \<Rightarrow> f r)"

definition createDecision ::
  "('m, 'w) engine_env \<Rightarrow> 'm enforcement_request \<Rightarrow> policy_evaluation \<Rightarrow> recognition_result option \<Rightarrow>
     policy_pack_result option \<Rightarrow> ('m, 'v, 'w, enforcement_decision) engine" where
  "createDecision E r ev recognition pack = do {
     did \<leftarrow> next_id E ''enforcement-decision'';
     decidedAt \<leftarrow> clock_now E;
     let decision =
       \<lparr>nd_id = did, nd_requestId = nr_id r, nd_type = pe_decisionType ev,
        nd_allowedToExecute = isExecutable (pe_decisionType ev),
        nd_reasonCode = pe_reasonCode ev, nd_reason = pe_reason ev,
        nd_recognitionDecisionId = recognized_id rg_id recognition,
        nd_recognitionDecisionType = (case recognition of None \<Rightarrow> JSUndefined | Some x \<Rightarrow> rg_type x),
        nd_authorityDecisionId = recognized_id rg_authorityDecisionId recognition,
        nd_authorityProofId = recognized_id rg_authorityProofId recognition,
        nd_approvalRequestId = recognized_id rg_approvalRequestId recognition,
        nd_approvalDecisionId = recognized_id rg_approvalDecisionId recognition,
        nd_approvalProofId = recognized_id rg_approvalProofId recognition,
        nd_handshakeDecisionId = or_else (nr_handshakeDecisionId r) (recognized_id rg_handshakeDecisionId recognition),
        nd_handshakeProofId = or_else (nr_handshakeProofId r) (recognized_id rg_handshakeProofId recognition),
        nd_visaId = nr_visaId r, nd_ingressGrantId = nr_ingressGrantId r,
        nd_idempotencyKey = nr_idempotencyKey r, nd_decidedAt = decidedAt,
        nd_policyResults = pe_policyResults ev,
        nd_policyDecisionId = None, nd_policyProofId = None, nd_policyPackVersionIds = None,
        nd_policyMatchedRuleIds = None, nd_policyReasonCode = None, nd_policyReason = None,
        nd_policyEffectiveRiskLevel = None\<rparr>;
     saveDecision (case pack of None \<Rightarrow> decision | Some p \<Rightarrow> attachPolicyMetadataToDecision decision p) }"


section \<open>Adapters\<close>

record adapter_check =
  ac_allowed :: bool
  ac_reasonCode :: string
  ac_reason :: string

definition listed :: "string \<Rightarrow> string list option \<Rightarrow> bool" where
  "listed x xs = (case xs of None \<Rightarrow> False | Some l \<Rightarrow> x \<in> set l)"

definition outside :: "string \<Rightarrow> string list option \<Rightarrow> bool" where
  "outside x xs = (case xs of None \<Rightarrow> False | Some l \<Rightarrow> x \<notin> set l)"

definition evaluateAdapterPermission ::
  "enforcement_adapter \<Rightarrow> string \<Rightarrow> string option \<Rightarrow> string \<Rightarrow> string option \<Rightarrow> adapter_check" where
  "evaluateAdapterPermission a action capability scope key =
     (let refuse = (\<lambda>code reason. \<lparr>ac_allowed = False, ac_reasonCode = code, ac_reason = ''Adapter '' @ na_id a @ reason\<rparr>)
      in if listed action (na_deniedActions a) then refuse ''ADAPTER_ACTION_DENIED'' ('' denies action '' @ action @ ''.'')
      else if (case capability of None \<Rightarrow> False | Some c \<Rightarrow> listed c (na_deniedCapabilities a))
        then refuse ''ADAPTER_CAPABILITY_DENIED'' ('' denies capability '' @ the capability @ ''.'')
      else if listed scope (na_deniedResourceScopes a)
        then refuse ''ADAPTER_SCOPE_DENIED'' ('' denies resource scope '' @ scope @ ''.'')
      else if outside action (na_allowedActions a)
        then refuse ''ADAPTER_ACTION_NOT_ALLOWED'' ('' does not allow action '' @ action @ ''.'')
      else if (case capability of None \<Rightarrow> False | Some c \<Rightarrow> outside c (na_allowedCapabilities a))
        then refuse ''ADAPTER_CAPABILITY_NOT_ALLOWED'' ('' does not allow capability '' @ the capability @ ''.'')
      else if outside scope (na_allowedResourceScopes a)
        then refuse ''ADAPTER_SCOPE_NOT_ALLOWED'' ('' does not allow resource scope '' @ scope @ ''.'')
      else if na_requiresIdempotencyKey a \<and> key = None
        then refuse ''IDEMPOTENCY_KEY_REQUIRED'' '' requires an idempotency key.''
      else \<lparr>ac_allowed = True, ac_reasonCode = ''ADAPTER_PERMITTED'',
             ac_reason = ''Adapter '' @ na_id a @ '' permits this request.''\<rparr>)"

section \<open>Policy packs\<close>

definition VALID_RESULT_TYPES :: "string list" where
  "VALID_RESULT_TYPES =
     [''policy_allowed'', ''policy_denied'', ''policy_requires_evidence'', ''policy_requires_approval'',
      ''policy_requires_authority'', ''policy_requires_external_standing'', ''policy_limited'',
      ''policy_warning'', ''policy_not_applicable'']"

definition INHERENTLY_BLOCKING_TYPES :: "string list" where
  "INHERENTLY_BLOCKING_TYPES =
     [''policy_denied'', ''policy_requires_evidence'', ''policy_requires_approval'',
      ''policy_requires_authority'', ''policy_requires_external_standing'']"

definition BLOCKING_DECISION_TYPE_MAP :: "(string \<times> enforcement_decision_type) list" where
  "BLOCKING_DECISION_TYPE_MAP =
     [(''policy_denied'', ExecutionBlocked), (''policy_requires_evidence'', EvidenceRequired),
      (''policy_requires_approval'', ApprovalRequired), (''policy_requires_authority'', ExecutionBlocked),
      (''policy_requires_external_standing'', ExternalHandshakeRequired), (''policy_limited'', ExecutionBlocked)]"

definition bare_pack_result :: "string \<Rightarrow> bool \<Rightarrow> string \<Rightarrow> string \<Rightarrow> policy_pack_result" where
  "bare_pack_result type allowed code reason =
     \<lparr>pk_type = type, pk_allowed = allowed, pk_policyDecisionId = None, pk_policyProofId = None,
      pk_policyPackVersionIds = None, pk_matchedRuleIds = None, pk_reasonCode = code, pk_reason = reason,
      pk_limitedActions = None, pk_limitedCapabilities = None, pk_limitedResourceScopes = None,
      pk_effectiveRiskLevel = None\<rparr>"

definition NOT_CONFIGURED_RESULT :: policy_pack_result where
  "NOT_CONFIGURED_RESULT = bare_pack_result ''policy_not_applicable'' True ''POLICY_PACK_NOT_CONFIGURED''
     ''No policy pack integration is configured for this enforcement runtime.''"

definition integrationErrorResult :: "string \<Rightarrow> policy_pack_result" where
  "integrationErrorResult message = bare_pack_result ''policy_denied'' False ''POLICY_PACK_INTEGRATION_ERROR''
     (''Domain Policy Pack Runtime integration threw while evaluating this request: '' @ message)"

definition INVALID_RESULT_RESULT :: policy_pack_result where
  "INVALID_RESULT_RESULT = bare_pack_result ''policy_denied'' False ''POLICY_PACK_INVALID_RESULT''
     ''Domain Policy Pack Runtime integration returned a malformed evaluation result; failing closed.''"

definition isWellFormedResult :: "policy_pack_result \<Rightarrow> bool" where
  "isWellFormedResult r \<longleftrightarrow>
     pk_type r \<in> set VALID_RESULT_TYPES \<and> pk_reasonCode r \<noteq> [] \<and> pk_reason r \<noteq> [] \<and>
     (pk_type r \<in> set INHERENTLY_BLOCKING_TYPES \<longrightarrow> \<not> pk_allowed r) \<and>
     (pk_type r \<in> {''policy_allowed'', ''policy_warning'', ''policy_not_applicable''} \<longrightarrow> pk_allowed r)"

definition within_limits :: "string list option \<Rightarrow> string option \<Rightarrow> bool" where
  "within_limits limits x =
     (case limits of None \<Rightarrow> True | Some [] \<Rightarrow> True | Some l \<Rightarrow> (case x of None \<Rightarrow> False | Some y \<Rightarrow> y \<in> set l))"

definition isWithinDeclaredLimits :: "'m policy_pack_input \<Rightarrow> policy_pack_result \<Rightarrow> bool" where
  "isWithinDeclaredLimits i r \<longleftrightarrow>
     within_limits (pk_limitedActions r) (Some (pp_action i)) \<and>
     within_limits (pk_limitedCapabilities r) (pp_capability i) \<and>
     within_limits (pk_limitedResourceScopes r) (Some (pp_resourceScope i))"

definition resolveLimitedResult :: "'m policy_pack_input \<Rightarrow> policy_pack_result \<Rightarrow> policy_pack_result" where
  "resolveLimitedResult i r =
     (if isWithinDeclaredLimits i r then r\<lparr>pk_allowed := True\<rparr>
      else r\<lparr>pk_allowed := False, pk_reasonCode := ''POLICY_LIMITED_SCOPE_VIOLATION'',
        pk_reason := pk_reason r @ '' The requested action/capability/resourceScope falls outside the scope this policy pack limited it to.''\<rparr>)"

definition severityForPolicyPackResult :: "policy_pack_result \<Rightarrow> policy_severity" where
  "severityForPolicyPackResult r =
     (if pk_type r \<in> {''policy_requires_authority'', ''policy_requires_external_standing'', ''policy_limited''} then SeverityError
      else if pk_type r \<in> {''policy_requires_approval'', ''policy_requires_evidence''} then SeverityWarning
      else SeverityCritical)"

definition policyPackViolationType :: "policy_pack_result \<Rightarrow> string" where
  "policyPackViolationType r =
     (if pk_reasonCode r = ''POLICY_PACK_INTEGRATION_ERROR'' then ''policy_integration_error''
      else if pk_reasonCode r = ''POLICY_PACK_INVALID_RESULT'' then ''policy_invalid_result''
      else if pk_type r \<in> {''policy_requires_evidence'', ''policy_requires_approval'', ''policy_requires_authority'',
          ''policy_requires_external_standing''} then pk_type r
      else ''policy_denied'')"

definition buildEvaluationInput ::
  "'m enforcement_request \<Rightarrow> string \<Rightarrow> recognition_result option \<Rightarrow> 'm policy_pack_input" where
  "buildEvaluationInput r now recognition =
     \<lparr>pp_requestId = nr_id r, pp_trustDomainId = nr_trustDomainId r, pp_actorId = nr_actorId r,
      pp_principalActorId = nr_principalActorId r, pp_action = nr_action r, pp_capability = nr_capability r,
      pp_resourceScope = nr_resourceScope r, pp_sideEffectType = in_sideEffectType (nr_intent r),
      pp_riskLevel = in_riskLevel (nr_intent r), pp_requestedAt = now,
      pp_authorityProofId = recognized_id rg_authorityProofId recognition,
      pp_approvalProofId = or_else (recognized_id rg_approvalProofId recognition) (nr_approvalProofId r),
      pp_handshakeProofId = or_else (recognized_id rg_handshakeProofId recognition) (nr_handshakeProofId r),
      pp_evaluation = nr_policyEvaluationInput r\<rparr>"

definition read_pack_answer :: "'m policy_pack_input \<Rightarrow> policy_pack_answer \<Rightarrow> policy_pack_result" where
  "read_pack_answer input answer =
     (case answer of
        PackThrows message \<Rightarrow> integrationErrorResult message
      | PackMalformed \<Rightarrow> INVALID_RESULT_RESULT
      | PackAnswers r \<Rightarrow>
          if \<not> isWellFormedResult r then INVALID_RESULT_RESULT
          else if pk_type r = ''policy_limited'' then resolveLimitedResult input r
          else r)"

definition evaluatePolicyPackForRequest ::
  "('m, 'w) engine_env \<Rightarrow> 'm enforcement_request \<Rightarrow> string \<Rightarrow> recognition_result option \<Rightarrow>
     ('m, 'v, 'w, policy_pack_result) engine" where
  "evaluatePolicyPackForRequest E r now recognition =
     (case ev_policyPack E of
        None \<Rightarrow> State_Monad.return NOT_CONFIGURED_RESULT
      | Some integration \<Rightarrow> do {
          let input = buildEvaluationInput r now recognition;
          answer \<leftarrow> ask (integration input);
          State_Monad.return (read_pack_answer input answer) })"

definition mapPolicyResultToEnforcementDecisionType :: "policy_pack_result \<Rightarrow> enforcement_decision_type option" where
  "mapPolicyResultToEnforcementDecisionType r =
     (if pk_allowed r then None
      else Some (case map_of BLOCKING_DECISION_TYPE_MAP (pk_type r) of None \<Rightarrow> ExecutionBlocked | Some t \<Rightarrow> t))"

section \<open>The policies\<close>

definition passes :: "string \<Rightarrow> string \<Rightarrow> string \<Rightarrow> policy_outcome" where
  "passes policy code reason =
     \<lparr>pr_policyId = policy, pr_passed = True, pr_reasonCode = code, pr_reason = reason,
      pr_severity = SeverityInfo, pr_metadata = None, po_decisionType = None\<rparr>"

definition fails :: "string \<Rightarrow> string \<Rightarrow> string \<Rightarrow> policy_severity \<Rightarrow> enforcement_decision_type \<Rightarrow> policy_outcome" where
  "fails policy code reason severity decision =
     \<lparr>pr_policyId = policy, pr_passed = False, pr_reasonCode = code, pr_reason = reason,
      pr_severity = severity, pr_metadata = None, po_decisionType = Some decision\<rparr>"

definition reason_or :: "recognition_result option \<Rightarrow> string \<Rightarrow> string" where
  "reason_or recognition fallback =
     (case recognized_id rg_reason recognition of None \<Rightarrow> fallback | Some reason \<Rightarrow> reason)"

definition EmergencyDenyPolicy :: "'m policy" where
  "EmergencyDenyPolicy c =
     (if pc_emergencyDeny c
      then fails ''emergency_deny'' ''EMERGENCY_DENIED'' ''Emergency deny is active; all execution is blocked.''
        SeverityCritical EmergencyDenied
      else passes ''emergency_deny'' ''EMERGENCY_DENY_INACTIVE'' ''Emergency deny is not active.'')"

definition RecognitionRequiredPolicy :: "'m policy" where
  "RecognitionRequiredPolicy c =
     (case pc_recognitionResult c of
        None \<Rightarrow> fails ''recognition_required'' ''RECOGNITION_MISSING''
          ''No Recognition Runtime verification result is available for this request.'' SeverityCritical ExecutionBlocked
      | Some r \<Rightarrow>
          if recognition_type_text (rg_type r) = None \<or> rg_reasonCode r = None \<or> rg_reason r = None
          then fails ''recognition_required'' ''RECOGNITION_INVALID''
            ''Recognition Runtime returned a malformed verification result.'' SeverityCritical ExecutionBlocked
          else passes ''recognition_required'' ''RECOGNITION_PRESENT''
            ''A Recognition Runtime verification result is present.'')"

definition AllowDecisionRequiredPolicy :: "'m policy" where
  "AllowDecisionRequiredPolicy c =
     (if pc_mappedDecisionType c = Some ExecuteAllowed
      then passes ''allow_decision_required'' ''ALLOW_DECISION_PRESENT'' ''Recognition Runtime returned an allow decision.''
      else fails ''allow_decision_required''
        (case pc_mappedReasonCode c of None \<Rightarrow> ''ALLOW_DECISION_REQUIRED'' | Some code \<Rightarrow> code)
        (case pc_mappedReason c of None \<Rightarrow> ''Recognition Runtime did not return an allow decision.'' | Some reason \<Rightarrow> reason)
        SeverityError
        (case pc_mappedDecisionType c of None \<Rightarrow> ExecutionBlocked | Some t \<Rightarrow> t))"

definition approval_pending :: "'m policy_context \<Rightarrow> bool" where
  "approval_pending c \<longleftrightarrow>
     pc_mappedDecisionType c = Some ApprovalRequired \<or>
     (pc_mappedDecisionType c = Some ExecuteAllowed \<and>
      recognized_id rg_approvalRequestId (pc_recognitionResult c) \<noteq> None \<and>
      recognized_id rg_approvalProofId (pc_recognitionResult c) = None)"

definition ApprovalPendingPolicy :: "'m policy" where
  "ApprovalPendingPolicy c =
     (if \<not> approval_pending c
      then passes ''approval_pending'' ''NO_APPROVAL_PENDING'' ''No human approval is pending for this action.''
      else fails ''approval_pending'' ''APPROVAL_PENDING''
        (reason_or (pc_recognitionResult c) ''This action requires human approval before it can execute.'')
        SeverityWarning ApprovalRequired)"

definition EvidenceRequiredPolicy :: "'m policy" where
  "EvidenceRequiredPolicy c =
     (if pc_mappedDecisionType c \<noteq> Some EvidenceRequired
      then passes ''evidence_required'' ''NO_EVIDENCE_PENDING'' ''No additional evidence is required for this action.''
      else fails ''evidence_required'' ''EVIDENCE_REQUIRED''
        (reason_or (pc_recognitionResult c) ''This action requires additional evidence before it can execute.'')
        SeverityWarning EvidenceRequired)"

definition CLEARED_MAPPED_TYPES :: "enforcement_decision_type list" where
  "CLEARED_MAPPED_TYPES = [ExecuteAllowed, ApprovalRequired, EvidenceRequired]"

definition declares_external_standing :: "'m enforcement_request \<Rightarrow> bool" where
  "declares_external_standing r \<longleftrightarrow> nr_visaId r \<noteq> None \<or> nr_ingressGrantId r \<noteq> None \<or> nr_handshakeProofId r \<noteq> None"

definition ExternalStandingPolicy :: "'m policy" where
  "ExternalStandingPolicy c =
     (if \<not> declares_external_standing (pc_request c)
      then passes ''external_standing'' ''NO_EXTERNAL_STANDING_DECLARED'' ''This request does not depend on external agent standing.''
      else case pc_mappedDecisionType c of
        Some t \<Rightarrow>
          if t \<notin> set CLEARED_MAPPED_TYPES
          then fails ''external_standing'' ''EXTERNAL_STANDING_INVALID''
            (reason_or (pc_recognitionResult c) ''External agent standing is missing, expired or revoked.'') SeverityError t
          else passes ''external_standing'' ''EXTERNAL_STANDING_VALID'' ''External agent standing is confirmed.''
      | None \<Rightarrow> passes ''external_standing'' ''EXTERNAL_STANDING_VALID'' ''External agent standing is confirmed.'')"

definition AdapterPermissionPolicy :: "'m policy" where
  "AdapterPermissionPolicy c =
     (case pc_adapter c of
        None \<Rightarrow> passes ''adapter_permission'' ''NO_ADAPTER_REGISTERED''
          ''No adapter is registered for this target; nothing to check.''
      | Some a \<Rightarrow>
          (let r = pc_request c;
               check = evaluateAdapterPermission a (nr_action r) (nr_capability r) (nr_resourceScope r) (nr_idempotencyKey r)
           in if ac_allowed check then passes ''adapter_permission'' (ac_reasonCode check) (ac_reason check)
              else fails ''adapter_permission'' (ac_reasonCode check) (ac_reason check) SeverityError AdapterDenied))"

definition DomainPolicyPackPolicy :: "'m policy" where
  "DomainPolicyPackPolicy c =
     (case pc_policyPackResult c of
        None \<Rightarrow> passes ''domain_policy_pack'' ''POLICY_PACK_NOT_CONFIGURED''
          ''No policy pack integration is configured for this enforcement runtime.''
      | Some r \<Rightarrow>
          if pk_type r = ''policy_not_applicable'' then passes ''domain_policy_pack'' (pk_reasonCode r) (pk_reason r)
          else if pk_allowed r
          then (passes ''domain_policy_pack'' (pk_reasonCode r) (pk_reason r))
            \<lparr>pr_severity := (if pk_type r = ''policy_warning'' then SeverityWarning else SeverityInfo)\<rparr>
          else fails ''domain_policy_pack'' (pk_reasonCode r) (pk_reason r) (severityForPolicyPackResult r)
            (case mapPolicyResultToEnforcementDecisionType r of None \<Rightarrow> ExecutionBlocked | Some t \<Rightarrow> t))"

definition idempotency_duplicate :: "'m policy" where
  "idempotency_duplicate c =
     (case pc_idempotency c of
        Some check \<Rightarrow>
          if ic_outcome check = KeyDuplicateSuccess
          then fails ''idempotency'' ''DUPLICATE_SUPPRESSED''
            (''Idempotency key '' @ (case ic_key check of None \<Rightarrow> [] | Some k \<Rightarrow> k) @
             '' already completed successfully; this execution is suppressed.'') SeverityWarning DuplicateSuppressed
          else passes ''idempotency'' ''IDEMPOTENCY_SATISFIED''
            ''No duplicate execution was detected for this idempotency key.''
      | None \<Rightarrow> passes ''idempotency'' ''IDEMPOTENCY_SATISFIED''
          ''No duplicate execution was detected for this idempotency key.'')"

definition IdempotencyPolicy :: "'m policy" where
  "IdempotencyPolicy c =
     (case pc_adapter c of
        Some a \<Rightarrow>
          if na_requiresIdempotencyKey a \<and> nr_idempotencyKey (pc_request c) = None
          then fails ''idempotency'' ''IDEMPOTENCY_KEY_REQUIRED''
            (''Adapter '' @ na_id a @ '' requires an idempotency key for this request.'') SeverityError AdapterDenied
          else idempotency_duplicate c
      | None \<Rightarrow> idempotency_duplicate c)"

definition not_expired :: policy_outcome where
  "not_expired = passes ''execution_timeout'' ''REQUEST_NOT_EXPIRED'' ''This enforcement request has not expired.''"

definition ExecutionTimeoutPolicy :: "platform \<Rightarrow> 'm policy" where
  "ExecutionTimeoutPolicy P c =
     (case nr_expiresAt (pc_request c) of
        Some expiresAt \<Rightarrow>
          (case (Date_parse P expiresAt, Date_parse P (pc_now c)) of
             (Some deadline, Some now) \<Rightarrow>
               if deadline < now
               then fails ''execution_timeout'' ''REQUEST_EXPIRED''
                 (''Enforcement request '' @ nr_id (pc_request c) @ '' expired at '' @ expiresAt @ ''.'') SeverityError RequestExpired
               else not_expired
           | _ \<Rightarrow> not_expired)
      | None \<Rightarrow> not_expired)"

definition REQUIRES_ALLOW :: "string list" where
  "REQUIRES_ALLOW = [''write'', ''send_message'', ''external_api_call'', ''state_change'', ''financial'', ''legal'', ''data_export'']"

definition REQUIRES_APPROVAL_PROOF :: "string list" where
  "REQUIRES_APPROVAL_PROOF = [''financial'', ''legal'', ''data_export'']"

definition quoted :: "string \<Rightarrow> string" where
  "quoted s = [CHR 0x27] @ s @ [CHR 0x27]"

definition SideEffectBoundaryPolicy :: "'m policy" where
  "SideEffectBoundaryPolicy c =
     (let effect = in_sideEffectType (nr_intent (pc_request c))
      in if effect \<notin> set REQUIRES_ALLOW
      then passes ''side_effect_boundary'' ''SIDE_EFFECT_LOW_RISK''
        (''Side effect type '' @ quoted effect @ '' does not require an allow decision.'')
      else if pc_mappedDecisionType c \<noteq> Some ExecuteAllowed
      then fails ''side_effect_boundary'' ''SIDE_EFFECT_DENIED''
        (''Side effect type '' @ quoted effect @ '' requires an allow decision, which this request does not have.'')
        SeverityError (case pc_mappedDecisionType c of None \<Rightarrow> ExecutionBlocked | Some t \<Rightarrow> t)
      else if effect \<in> set REQUIRES_APPROVAL_PROOF \<and> recognized_id rg_approvalProofId (pc_recognitionResult c) = None
      then fails ''side_effect_boundary'' ''SIDE_EFFECT_APPROVAL_PROOF_REQUIRED''
        (''Side effect type '' @ quoted effect @ '' requires a confirmed approval proof.'') SeverityError ApprovalRequired
      else passes ''side_effect_boundary'' ''SIDE_EFFECT_PERMITTED''
        (''Side effect type '' @ quoted effect @ '' is permitted by this decision.''))"

definition DryRunPolicy :: "'m policy" where
  "DryRunPolicy c =
     (if nr_mode (pc_request c) \<noteq> DryRunMode
      then passes ''dry_run'' ''NOT_DRY_RUN'' ''This request is not a dry run.''
      else (passes ''dry_run'' ''DRY_RUN_NO_EXECUTION''
        ''Dry run mode: recognition would allow this action, but the executor will not be invoked.'')
        \<lparr>po_decisionType := Some DryRunAllowed\<rparr>)"

definition PostExecutionRecordPolicy :: "'m policy" where
  "PostExecutionRecordPolicy c = passes ''post_execution_record'' ''POST_EXECUTION_PENDING''
     ''Post-execution recording is asserted after the executor runs, not during preflight.''"

definition createDefaultEnforcementPolicyChain :: "platform \<Rightarrow> 'm policy list" where
  "createDefaultEnforcementPolicyChain P =
     [EmergencyDenyPolicy, RecognitionRequiredPolicy, AllowDecisionRequiredPolicy, ApprovalPendingPolicy,
      EvidenceRequiredPolicy, ExternalStandingPolicy, AdapterPermissionPolicy, DomainPolicyPackPolicy,
      IdempotencyPolicy, ExecutionTimeoutPolicy P, SideEffectBoundaryPolicy, DryRunPolicy, PostExecutionRecordPolicy]"

text \<open>The first policy that fails decides; if all pass, the last decision a policy names stands.\<close>

fun evaluate_chain ::
  "'m policy_context \<Rightarrow> 'm policy list \<Rightarrow> policy_result list \<Rightarrow>
     (enforcement_decision_type \<times> string \<times> string) option \<Rightarrow> policy_evaluation" where
  "evaluate_chain c [] results override =
     (case override of
        None \<Rightarrow> \<lparr>pe_decisionType = ExecuteAllowed, pe_reasonCode = ''ALL_POLICIES_SATISFIED'',
          pe_reason = ''All enforcement policies were satisfied.'', pe_policyResults = results\<rparr>
      | Some (t, code, reason) \<Rightarrow>
          \<lparr>pe_decisionType = t, pe_reasonCode = code, pe_reason = reason, pe_policyResults = results\<rparr>)"
| "evaluate_chain c (policy # rest) results override =
     (let outcome = policy c;
          results' = results @ [policy_result.truncate outcome];
          override' = (case po_decisionType outcome of
             None \<Rightarrow> override
           | Some t \<Rightarrow> Some (t, pr_reasonCode outcome, pr_reason outcome))
      in if pr_passed outcome then evaluate_chain c rest results' override'
         else \<lparr>pe_decisionType = (case po_decisionType outcome of None \<Rightarrow> ExecutionBlocked | Some t \<Rightarrow> t),
               pe_reasonCode = pr_reasonCode outcome, pe_reason = pr_reason outcome, pe_policyResults = results'\<rparr>)"

definition evaluate_policies :: "'m policy list \<Rightarrow> 'm policy_context \<Rightarrow> policy_evaluation" where
  "evaluate_policies policies c = evaluate_chain c policies [] None"


section \<open>Preflight\<close>

fun DECISION_TO_VIOLATION :: "enforcement_decision_type \<Rightarrow> string option" where
  "DECISION_TO_VIOLATION ExecutionBlocked = Some ''recognition_denied''"
| "DECISION_TO_VIOLATION RequestExpired = Some ''request_expired''"
| "DECISION_TO_VIOLATION AdapterDenied = Some ''adapter_denied''"
| "DECISION_TO_VIOLATION EmergencyDenied = Some ''emergency_denied''"
| "DECISION_TO_VIOLATION DuplicateSuppressed = Some ''idempotency_violation''"
| "DECISION_TO_VIOLATION ExternalHandshakeRequired = Some ''external_standing_missing''"
| "DECISION_TO_VIOLATION InvalidRequest = Some ''recognition_denied''"
| "DECISION_TO_VIOLATION _ = None"

definition verification_input :: "'m enforcement_request \<Rightarrow> string \<Rightarrow> recognition_input" where
  "verification_input r now =
     \<lparr>rn_actionRequestId = nr_actionRequestId r, rn_actorId = nr_actorId r,
      rn_principalActorId = nr_principalActorId r, rn_trustDomainId = nr_trustDomainId r,
      rn_action = nr_action r, rn_capability = nr_capability r, rn_resourceScope = nr_resourceScope r,
      rn_requestedAt = now, rn_approvalProofId = nr_approvalProofId r,
      rn_approvalRequestId = nr_approvalRequestId r, rn_approvalDecisionId = nr_approvalDecisionId r,
      rn_visaId = nr_visaId r, rn_ingressGrantId = nr_ingressGrantId r,
      rn_handshakeProofId = nr_handshakeProofId r, rn_metadata = nr_metadata r\<rparr>"

definition policy_context_of ::
  "string \<Rightarrow> 'm enforcement_request \<Rightarrow> recognition_result option \<Rightarrow> enforcement_adapter option \<Rightarrow> bool \<Rightarrow>
     idempotency_check \<Rightarrow> policy_pack_result \<Rightarrow> 'm policy_context" where
  "policy_context_of now r recognition adapter emergency check pack =
     (let mapped = mapRecognitionResult recognition
      in \<lparr>pc_now = now, pc_request = r, pc_recognitionResult = recognition,
          pc_mappedDecisionType = Some (mr_decisionType mapped), pc_mappedReasonCode = mr_reasonCode mapped,
          pc_mappedReason = mr_reason mapped, pc_adapter = adapter, pc_emergencyDeny = emergency,
          pc_idempotency = Some check, pc_policyPackResult = Some pack\<rparr>)"

definition pack_blocked :: "policy_evaluation \<Rightarrow> bool" where
  "pack_blocked ev =
     (case List.find (\<lambda>p. pr_policyId p = ''domain_policy_pack'') (pe_policyResults ev) of
        None \<Rightarrow> False
      | Some p \<Rightarrow> \<not> pr_passed p)"

definition record_pack_events ::
  "('m, 'w) engine_env \<Rightarrow> 'm enforcement_request \<Rightarrow> enforcement_decision \<Rightarrow> policy_pack_result \<Rightarrow> bool \<Rightarrow>
     ('m, 'v, 'w, unit) engine" where
  "record_pack_events E r decision pack blocked =
     (if ev_policyPack E = None then State_Monad.return ()
      else do {
        recordEvent E (plain_event ''policy_pack_evaluated'' r (Some (nd_id decision))
          [(''type'', Some (JStr (pk_type pack))), (''reasonCode'', Some (JStr (pk_reasonCode pack))),
           (''allowed'', Some (JBool (pk_allowed pack))), (''policyDecisionId'', map_option JStr (pk_policyDecisionId pack))]);
        if blocked then do {
          recordEvent E (plain_event ''policy_pack_blocked'' r (Some (nd_id decision))
            [(''type'', Some (JStr (pk_type pack))), (''reasonCode'', Some (JStr (pk_reasonCode pack)))]);
          State_Monad.return () }
        else if pk_type pack = ''policy_warning'' then do {
          recordEvent E (plain_event ''policy_pack_warning_recorded'' r (Some (nd_id decision))
            [(''reasonCode'', Some (JStr (pk_reasonCode pack)))]);
          State_Monad.return () }
        else State_Monad.return () })"

definition record_violation ::
  "('m, 'w) engine_env \<Rightarrow> 'm enforcement_request \<Rightarrow> enforcement_decision \<Rightarrow> policy_pack_result \<Rightarrow> bool \<Rightarrow> string \<Rightarrow>
     ('m, 'v, 'w, unit) engine" where
  "record_violation E r decision pack blocked now =
     (case (if blocked then Some (policyPackViolationType pack) else DECISION_TO_VIOLATION (nd_type decision)) of
        None \<Rightarrow> State_Monad.return ()
      | Some violationType \<Rightarrow> do {
          vid \<leftarrow> next_id E ''enforcement-violation'';
          violation \<leftarrow> saveViolation
            \<lparr>nl_id = vid, nl_requestId = nr_id r, nl_type = violationType, nl_reasonCode = nd_reasonCode decision,
             nl_reason = nd_reason decision,
             nl_severity =
               (if blocked then severityForPolicyPackResult pack
                else if nd_type decision = EmergencyDenied \<or> nd_type decision = AdapterDenied then SeverityCritical
                else SeverityError),
             nl_detectedAt = now,
             nl_policyDecisionId = (if blocked then pk_policyDecisionId pack else None),
             nl_policyProofId = (if blocked then pk_policyProofId pack else None)\<rparr>;
          recordEvent E ((plain_event ''enforcement_violation_recorded'' r (Some (nd_id decision))
            [(''violationType'', Some (JStr (nl_type violation))), (''reasonCode'', Some (JStr (nl_reasonCode violation)))])
            \<lparr>ei_violationId := Some (nl_id violation)\<rparr>);
          State_Monad.return () })"

definition conclude_preflight ::
  "('m, 'w) engine_env \<Rightarrow> 'm enforcement_request \<Rightarrow> enforcement_decision \<Rightarrow> policy_pack_result \<Rightarrow> bool \<Rightarrow> string \<Rightarrow>
     ('m, 'v, 'w, unit) engine" where
  "conclude_preflight E r decision pack blocked now =
     (if nd_allowedToExecute decision then do {
        updateRequestStatus (nr_id r) StatusPreflightPassed;
        recordEvent E (plain_event ''preflight_passed'' r (Some (nd_id decision))
          [(''decisionType'', Some (JStr (decision_type_name (nd_type decision))))]);
        State_Monad.return () }
      else do {
        updateRequestStatus (nr_id r)
          (if nd_type decision = DryRunAllowed then StatusPreflightPassed else StatusPreflightFailed);
        recordEvent E (plain_event ''preflight_failed'' r (Some (nd_id decision))
          [(''decisionType'', Some (JStr (decision_type_name (nd_type decision)))),
           (''reasonCode'', Some (JStr (nd_reasonCode decision)))]);
        record_violation E r decision pack blocked now })"

text \<open>What follows the recognition answer; nothing in it throws.\<close>

definition preflight_decide ::
  "('m, 'w) engine_env \<Rightarrow> 'm enforcement_request \<Rightarrow> string \<Rightarrow> recognition_result option \<Rightarrow>
     ('m, 'v, 'w, enforcement_decision) engine" where
  "preflight_decide E r now recognition = do {
     adapter \<leftarrow> gets (\<lambda>s. case tg_adapterId (nr_target r) of None \<Rightarrow> None | Some a \<Rightarrow> map_of (ng_adapters s) a);
     check \<leftarrow> key_check E (nr_idempotencyKey r) (nr_id r);
     pack \<leftarrow> evaluatePolicyPackForRequest E r now recognition;
     emergency \<leftarrow> gets ng_emergencyDeny;
     let ev = evaluate_policies (ev_policies E) (policy_context_of now r recognition adapter emergency check pack);
     decision \<leftarrow> createDecision E r ev recognition (if ev_policyPack E = None then None else Some pack);
     record_pack_events E r decision pack (pack_blocked ev);
     conclude_preflight E r decision pack (pack_blocked ev) now;
     State_Monad.return decision }"

definition preflight ::
  "('m, 'w) engine_env \<Rightarrow> 'm enforcement_request \<Rightarrow> ('m, 'v, 'w, string + enforcement_decision) engine" where
  "preflight E r = do {
     now \<leftarrow> clock_now E;
     recordEvent E ((plain_event ''preflight_started'' r None
       [(''action'', Some (JStr (nr_action r))), (''mode'', Some (JStr (mode_name (nr_mode r))))])
       \<lparr>ei_principalActorId := nr_principalActorId r\<rparr>);
     answer \<leftarrow> ask (ev_verifyAction E (verification_input r now));
     case answer of
       Inl e \<Rightarrow> State_Monad.return (Inl e)
     | Inr recognition \<Rightarrow> do {
         decision \<leftarrow> preflight_decide E r now recognition;
         State_Monad.return (Inr decision) } }"

section \<open>Guarded execution\<close>

definition save_execution_result ::
  "('m, 'w) engine_env \<Rightarrow> string \<Rightarrow> string \<Rightarrow> execution_result_status \<Rightarrow> 'v option \<Rightarrow> string option \<Rightarrow> string option \<Rightarrow>
     string option \<Rightarrow> string option \<Rightarrow> ('m, 'v, 'w, 'v execution_result) engine" where
  "save_execution_result E rid did status v message startedAt completedAt prior = do {
     xid \<leftarrow> next_id E ''execution-result'';
     saveResult \<lparr>nx_id = xid, nx_requestId = rid, nx_decisionId = did, nx_status = status,
       nx_executed = (status = ResultExecuted), nx_value = v, nx_errorMessage = message,
       nx_startedAt = startedAt, nx_completedAt = completedAt, nx_priorExecutionResultId = prior\<rparr> }"

record ('m, 'v) enforcement_outcome =
  eo_request :: "'m enforcement_request"
  eo_decision :: enforcement_decision
  eo_result :: "'v execution_result"
  eo_proof :: enforcement_proof

text \<open>The failure of the engine itself: a provider threw, or a record did not persist.\<close>

datatype engine_failure = ProviderThrew string | PostExecutionRecordMissing string

definition refreshRequestSideEffects ::
  "'m enforcement_request \<Rightarrow> ('m, 'v, 'w, 'm enforcement_request) engine" where
  "refreshRequestSideEffects r = do {
     sideEffects \<leftarrow> getSideEffectsByRequest (nr_id r);
     updated \<leftarrow> replaceRequestSideEffects (nr_id r) sideEffects;
     State_Monad.return (case updated of None \<Rightarrow> r\<lparr>nr_sideEffects := sideEffects\<rparr> | Some r' \<Rightarrow> r') }"

definition unsealed_proof ::
  "'m enforcement_request \<Rightarrow> enforcement_decision \<Rightarrow> 'v execution_result \<Rightarrow> string list \<Rightarrow> enforcement_proof" where
  "unsealed_proof r d x sideEffectIds =
     \<lparr>np_id = [], np_requestId = nr_id r, np_decisionId = nd_id d, np_executionResultId = Some (nx_id x),
      np_trustDomainId = nr_trustDomainId r, np_actorId = nr_actorId r,
      np_principalActorId = nr_principalActorId r, np_action = nr_action r, np_capability = nr_capability r,
      np_resourceScope = nr_resourceScope r, np_allowedToExecute = nd_allowedToExecute d,
      np_executed = nx_executed x, np_recognitionDecisionId = nd_recognitionDecisionId d,
      np_authorityProofId = nd_authorityProofId d, np_approvalProofId = nd_approvalProofId d,
      np_handshakeProofId = nd_handshakeProofId d, np_policyDecisionId = nd_policyDecisionId d,
      np_policyProofId = nd_policyProofId d, np_policyPackVersionIds = nd_policyPackVersionIds d,
      np_policyMatchedRuleIds = nd_policyMatchedRuleIds d, np_sideEffectIds = sideEffectIds,
      np_idempotencyKey = nr_idempotencyKey r, np_previousHash = None, np_proofHash = [], np_createdAt = []\<rparr>"

definition createProof ::
  "('m, 'w) engine_env \<Rightarrow> 'm enforcement_request \<Rightarrow> enforcement_decision \<Rightarrow> 'v execution_result \<Rightarrow> string list \<Rightarrow>
     ('m, 'v, 'w, engine_failure + enforcement_proof) engine" where
  "createProof E r d x sideEffectIds = do {
     p \<leftarrow> proof_create E (unsealed_proof r d x sideEffectIds);
     recordEvent E ((plain_event ''enforcement_proof_created'' r (Some (nd_id d))
       [(''proofHash'', Some (JStr (np_proofHash p)))])\<lparr>ei_proofId := Some (np_id p)\<rparr>);
     missing \<leftarrow> gets (\<lambda>s. map_of (ng_results s) (nx_id x) = None \<or> map_of (ng_proofs s) (np_id p) = None);
     State_Monad.return (if missing then Inl (PostExecutionRecordMissing (nr_id r)) else Inr p) }"

definition run_outcome ::
  "('m, 'w) engine_env \<Rightarrow> 'm enforcement_request \<Rightarrow> enforcement_decision \<Rightarrow> string list \<Rightarrow> 'v execution_result \<Rightarrow>
     ('m, 'v, 'w, engine_failure + ('m, 'v) enforcement_outcome) engine" where
  "run_outcome E r d sideEffectIds x = do {
     updated \<leftarrow> refreshRequestSideEffects r;
     sealed \<leftarrow> createProof E updated d x sideEffectIds;
     State_Monad.return (case sealed of
       Inl e \<Rightarrow> Inl e
     | Inr p \<Rightarrow> Inr \<lparr>eo_request = updated, eo_decision = d, eo_result = x, eo_proof = p\<rparr>) }"

definition run_declined ::
  "('m, 'w) engine_env \<Rightarrow> 'm enforcement_request \<Rightarrow> enforcement_decision \<Rightarrow> string list \<Rightarrow>
     ('m, 'v, 'w, engine_failure + ('m, 'v) enforcement_outcome) engine" where
  "run_declined E r d sideEffectIds =
     (if nd_type d = DryRunAllowed then do {
        for_each markSkipped sideEffectIds;
        recordEvent E (plain_event ''execution_skipped'' r (Some (nd_id d)) [(''reasonCode'', Some (JStr (nd_reasonCode d)))]);
        x \<leftarrow> save_execution_result E (nr_id r) (nd_id d) ResultSkipped None None None None None;
        run_outcome E r d sideEffectIds x }
      else if nd_type d = DuplicateSuppressed then do {
        for_each markSkipped sideEffectIds;
        recordEvent E (plain_event ''duplicate_suppressed'' r (Some (nd_id d))
          [(''idempotencyKey'', map_option JStr (nr_idempotencyKey r))]);
        check \<leftarrow> key_check E (nr_idempotencyKey r) (nr_id r);
        x \<leftarrow> save_execution_result E (nr_id r) (nd_id d) ResultDuplicate None None None None (ic_priorExecutionResultId check);
        run_outcome E r d sideEffectIds x }
      else do {
        for_each (\<lambda>sid. markBlocked E sid (nr_trustDomainId r) (Some (nr_actorId r))) sideEffectIds;
        recordEvent E (plain_event ''execution_blocked'' r (Some (nd_id d))
          [(''decisionType'', Some (JStr (decision_type_name (nd_type d)))), (''reasonCode'', Some (JStr (nd_reasonCode d)))]);
        x \<leftarrow> save_execution_result E (nr_id r) (nd_id d) ResultNotExecuted None None None None None;
        run_outcome E r d sideEffectIds x })"

text \<open>
  The two sides of \<open>await execute()\<close>: what is written before the executor is invoked, and what
  is written with its value or with the message of its error.
\<close>

definition run_start ::
  "('m, 'w) engine_env \<Rightarrow> 'm enforcement_request \<Rightarrow> enforcement_decision \<Rightarrow> ('m, 'v, 'w, string) engine" where
  "run_start E r d = do {
     updateRequestStatus (nr_id r) StatusExecuting;
     startedAt \<leftarrow> clock_now E;
     recordEvent E (plain_event ''execution_started'' r (Some (nd_id d)) []);
     State_Monad.return startedAt }"

definition run_failed ::
  "('m, 'w) engine_env \<Rightarrow> 'm enforcement_request \<Rightarrow> enforcement_decision \<Rightarrow> string list \<Rightarrow> string \<Rightarrow> string \<Rightarrow>
     ('m, 'v, 'w, engine_failure + ('m, 'v) enforcement_outcome) engine" where
  "run_failed E r d sideEffectIds startedAt message = do {
     completedAt \<leftarrow> clock_now E;
     for_each (markFailed E) sideEffectIds;
     x \<leftarrow> save_execution_result E (nr_id r) (nd_id d) ResultFailed None (Some message) (Some startedAt) (Some completedAt) None;
     recordFailure E (nr_idempotencyKey r);
     updateRequestStatus (nr_id r) StatusFailed;
     recordEvent E ((plain_event ''execution_failed'' r (Some (nd_id d)) [(''errorMessage'', Some (JStr message))])
       \<lparr>ei_executionResultId := Some (nx_id x)\<rparr>);
     run_outcome E r d sideEffectIds x }"

definition failure_message :: "engine_failure \<Rightarrow> string" where
  "failure_message e =
     (case e of
        ProviderThrew message \<Rightarrow> message
      | PostExecutionRecordMissing rid \<Rightarrow> ''Post-execution record missing for enforcement request '' @ rid @
          '': ExecutionResult or EnforcementProof failed to persist.'')"

definition run_executed ::
  "('m, 'w) engine_env \<Rightarrow> 'm enforcement_request \<Rightarrow> enforcement_decision \<Rightarrow> string list \<Rightarrow> string \<Rightarrow> 'v option \<Rightarrow>
     ('m, 'v, 'w, engine_failure + ('m, 'v) enforcement_outcome) engine" where
  "run_executed E r d sideEffectIds startedAt v = do {
     completedAt \<leftarrow> clock_now E;
     for_each (\<lambda>sid. markExecuted E sid (nr_trustDomainId r) (Some (nr_actorId r))) sideEffectIds;
     x \<leftarrow> save_execution_result E (nr_id r) (nd_id d) ResultExecuted v None (Some startedAt) (Some completedAt) None;
     recordSuccess E (nr_idempotencyKey r) (nx_id x);
     updateRequestStatus (nr_id r) StatusExecuted;
     recordEvent E ((plain_event ''execution_succeeded'' r (Some (nd_id d)) [])\<lparr>ei_executionResultId := Some (nx_id x)\<rparr>);
     outcome \<leftarrow> run_outcome E r d sideEffectIds x;
     case outcome of
       Inl e \<Rightarrow> run_failed E r d sideEffectIds startedAt (failure_message e)
     | Inr out \<Rightarrow> State_Monad.return (Inr out) }"

definition run_finish ::
  "('m, 'w) engine_env \<Rightarrow> 'm enforcement_request \<Rightarrow> enforcement_decision \<Rightarrow> string \<Rightarrow> string + 'v option \<Rightarrow>
     ('m, 'v, 'w, engine_failure + ('m, 'v) enforcement_outcome) engine" where
  "run_finish E r d startedAt answer =
     (case answer of
        Inl message \<Rightarrow> run_failed E r d (map sd_id (nr_sideEffects r)) startedAt message
      | Inr v \<Rightarrow> run_executed E r d (map sd_id (nr_sideEffects r)) startedAt v)"

text \<open>An executor acts on the world and throws or returns; \<open>None\<close> is \<open>undefined\<close>.\<close>

type_synonym ('v, 'w) executor = "'w \<Rightarrow> (string + 'v option) \<times> 'w"

definition run ::
  "('m, 'w) engine_env \<Rightarrow> 'm enforcement_request \<Rightarrow> ('v, 'w) executor \<Rightarrow>
     ('m, 'v, 'w, engine_failure + ('m, 'v) enforcement_outcome) engine" where
  "run E r execute = do {
     answer \<leftarrow> preflight E r;
     case answer of
       Inl e \<Rightarrow> State_Monad.return (Inl (ProviderThrew e))
     | Inr d \<Rightarrow>
         if \<not> nd_allowedToExecute d then run_declined E r d (map sd_id (nr_sideEffects r))
         else do {
           startedAt \<leftarrow> run_start E r d;
           result \<leftarrow> ask execute;
           run_finish E r d startedAt result } }"

section \<open>The guard\<close>

record 'm guard_input =
  gi_actorId :: string
  gi_principalActorId :: "string option"
  gi_trustDomainId :: string
  gi_action :: string
  gi_capability :: "string option"
  gi_resourceScope :: string
  gi_targetId :: "string option"
  gi_targetType :: "string option"
  gi_targetName :: "string option"
  gi_adapterId :: "string option"
  gi_riskLevel :: "string option"
  gi_sideEffectType :: "string option"
  gi_description :: "string option"
  gi_idempotencyKey :: "string option"
  gi_mode :: "enforcement_mode option"
  gi_expiresAt :: "string option"
  gi_actionRequestId :: "string option"
  gi_approvalProofId :: "string option"
  gi_approvalRequestId :: "string option"
  gi_approvalDecisionId :: "string option"
  gi_visaId :: "string option"
  gi_ingressGrantId :: "string option"
  gi_handshakeProofId :: "string option"
  gi_policyEvaluationInput :: "'m policy_evaluation_input option"
  gi_metadata :: "js_value option"

definition given :: "'a option \<Rightarrow> 'a \<Rightarrow> 'a" where
  "given a fallback = (case a of None \<Rightarrow> fallback | Some x \<Rightarrow> x)"

definition buildTarget :: "'m guard_input \<Rightarrow> string option \<Rightarrow> enforcement_target" where
  "buildTarget i adapterType =
     (let type = given (gi_targetType i) (given adapterType ''generic'')
      in \<lparr>tg_id = given (gi_targetId i) (''target-'' @ type @ ''-'' @ gi_action i), tg_type = type,
          tg_name = given (gi_targetName i) (gi_action i), tg_adapterId = gi_adapterId i\<rparr>)"

definition buildIntent :: "'m guard_input \<Rightarrow> execution_intent" where
  "buildIntent i =
     \<lparr>in_id = ''intent-'' @ gi_actorId i @ ''-'' @ gi_action i @ ''-'' @ gi_resourceScope i,
      in_action = gi_action i, in_capability = gi_capability i, in_resourceScope = gi_resourceScope i,
      in_riskLevel = given (gi_riskLevel i) ''medium'', in_sideEffectType = given (gi_sideEffectType i) ''write'',
      in_description = gi_description i\<rparr>"

definition request_input :: "'m guard_input \<Rightarrow> enforcement_mode \<Rightarrow> string option \<Rightarrow> 'm enforcement_request" where
  "request_input i mode adapterType =
     \<lparr>nr_id = [], nr_mode = mode, nr_status = StatusSubmitted, nr_trustDomainId = gi_trustDomainId i,
      nr_actorId = gi_actorId i, nr_principalActorId = gi_principalActorId i, nr_action = gi_action i,
      nr_capability = gi_capability i, nr_resourceScope = gi_resourceScope i,
      nr_actionRequestId = gi_actionRequestId i, nr_approvalRequestId = gi_approvalRequestId i,
      nr_approvalDecisionId = gi_approvalDecisionId i, nr_approvalProofId = gi_approvalProofId i,
      nr_handshakeDecisionId = None, nr_handshakeProofId = gi_handshakeProofId i, nr_visaId = gi_visaId i,
      nr_ingressGrantId = gi_ingressGrantId i, nr_target = buildTarget i adapterType,
      nr_intent = buildIntent i, nr_idempotencyKey = gi_idempotencyKey i, nr_sideEffects = [],
      nr_submittedAt = [], nr_expiresAt = gi_expiresAt i,
      nr_policyEvaluationInput = gi_policyEvaluationInput i, nr_metadata = gi_metadata i\<rparr>"

definition guard_preflight ::
  "('m, 'w) engine_env \<Rightarrow> 'm guard_input \<Rightarrow> ('m, 'v, 'w, string + enforcement_decision) engine" where
  "guard_preflight E i = do {
     r \<leftarrow> createEnforcementRequest E (request_input i (given (gi_mode i) PreflightMode) None);
     preflight E r }"

definition guard_enforce ::
  "('m, 'w) engine_env \<Rightarrow> 'm guard_input \<Rightarrow> ('v, 'w) executor \<Rightarrow>
     ('m, 'v, 'w, engine_failure + ('m, 'v) enforcement_outcome) engine" where
  "guard_enforce E i execute = do {
     r \<leftarrow> createEnforcementRequest E (request_input i (given (gi_mode i) ExecuteMode) None);
     run E r execute }"

definition guard_verifyAndExecute ::
  "('m, 'w) engine_env \<Rightarrow> 'm guard_input \<Rightarrow> string option \<Rightarrow> ('v, 'w) executor \<Rightarrow>
     ('m, 'v, 'w, engine_failure + ('m, 'v) enforcement_outcome) engine" where
  "guard_verifyAndExecute E i adapterType execute = do {
     r \<leftarrow> createEnforcementRequest E (request_input i (given (gi_mode i) ExecuteMode) adapterType);
     run E r execute }"

end
