(* ===== verification/Enforcement_Safety.thy ===== *)
theory Enforcement_Safety
  imports Enforcement Grant_Bounds
begin

text \<open>
  What the engine guarantees.  The locales \<open>state_order\<close>, \<open>engine_frame\<close> and \<open>engine_frame_keys\<close> state
  once what every operation of the engine keeps of a relation between states, given that the writes
  of the store keep it; they are interpreted on the control state, on the keys, on the ledgers and on
  the emergency switch.  On top of them stand the exact verdict of the default chain of policies,
  the guard on the executor, runs that overlap as a step relation with the history of each
  key, the chained audit trail, and an engine composed for the examples.
\<close>


section \<open>Relations between the states before and after\<close>

text \<open>
  Every proof about the engine follows one pattern: a reflexive and transitive relation between
  states is kept by each write, hence by every operation composed of them.  The locales state which
  writes a relation has to admit; the operations are treated once, inside.
\<close>

lemma state_io_rel_iff: "state_io_rel R m \<longleftrightarrow> (\<forall>s. R s (snd (run_state m s)))"
  by (simp add: state_io_rel_def)

lemma run_ask [simp]:
  "run_state (ask f) s = (fst (f (ng_world s)), s\<lparr>ng_world := snd (f (ng_world s))\<rparr>)"
  by (simp add: ask_def split: prod.split)

lemma run_gets [simp]: "run_state (gets f) s = (f s, s)"
  by (simp add: gets_def)

lemma run_update [simp]: "run_state (State_Monad.update f) s = ((), f s)"
  by (simp add: State_Monad.update_def)

locale state_order =
  fixes R :: "'s \<Rightarrow> 's \<Rightarrow> bool"
  assumes refl: "R s s"
    and trans: "R s t \<Longrightarrow> R t u \<Longrightarrow> R s u"
begin

lemma io_return: "state_io_rel R (State_Monad.return x)"
  by (simp add: state_io_rel_iff refl)

lemma io_bind:
  assumes "state_io_rel R m" "\<And>x. state_io_rel R (f x)"
  shows "state_io_rel R (State_Monad.bind m f)"
  using assms trans by (auto simp add: state_io_rel_iff split: prod.split) (metis snd_conv)

lemma io_update: "(\<And>s. R s (f s)) \<Longrightarrow> state_io_rel R (State_Monad.update f)"
  by (simp add: state_io_rel_iff)

lemma io_for_each: "(\<And>x. state_io_rel R (f x)) \<Longrightarrow> state_io_rel R (for_each f xs)"
  by (induction xs) (simp_all add: io_return io_bind)

lemma io_option:
  "state_io_rel R m \<Longrightarrow> (\<And>x. state_io_rel R (f x)) \<Longrightarrow> state_io_rel R (case a of None \<Rightarrow> m | Some x \<Rightarrow> f x)"
  by (cases a) simp_all

lemma io_sum:
  "(\<And>x. state_io_rel R (f x)) \<Longrightarrow> (\<And>y. state_io_rel R (g y)) \<Longrightarrow>
     state_io_rel R (case a of Inl x \<Rightarrow> f x | Inr y \<Rightarrow> g y)"
  by (cases a) simp_all

lemma io_if: "state_io_rel R m \<Longrightarrow> state_io_rel R n \<Longrightarrow> state_io_rel R (if b then m else n)"
  by simp

lemmas io_intros = io_return io_bind io_update io_for_each io_option io_sum io_if

end

text \<open>
  A frame of the engine does not see requests, decisions, results, side effects, violations and
  the world, and admits events and proofs.
\<close>

locale engine_frame = state_order R
  for R :: "('m, 'v, 'w) engine_state \<Rightarrow> ('m, 'v, 'w) engine_state \<Rightarrow> bool" +
  fixes E :: "('m, 'w) engine_env"
  assumes world: "R s (s\<lparr>ng_world := w\<rparr>)"
    and requests: "R s (s\<lparr>ng_requests := requests\<rparr>)"
    and decisions: "R s (s\<lparr>ng_decisions := decisions\<rparr>)"
    and results: "R s (s\<lparr>ng_results := results\<rparr>)"
    and sideEffects: "R s (s\<lparr>ng_sideEffects := sideEffects\<rparr>)"
    and violations: "R s (s\<lparr>ng_violations := violations\<rparr>)"
    and events: "state_io_rel R (recordEvent E i)"
    and proofs: "state_io_rel R (proof_create E p)"
begin

lemma io_ask: "state_io_rel R (ask f)"
  by (simp add: state_io_rel_iff world)

lemma io_gets: "state_io_rel R (gets f)"
  by (simp add: state_io_rel_iff refl)

lemma io_clock: "state_io_rel R (clock_now E)"
  by (simp add: clock_now_def io_ask)

lemma io_next_id: "state_io_rel R (next_id E prefix)"
  by (simp add: next_id_def io_ask)

lemma io_saveRequest: "state_io_rel R (saveRequest r)"
  unfolding saveRequest_def by (intro io_update requests)

lemma io_update_request: "state_io_rel R (update_request rid f)"
  unfolding update_request_def state_io_rel_iff by (auto simp add: refl requests split: option.split)

lemma io_saveDecision: "state_io_rel R (saveDecision d)"
  unfolding saveDecision_def by (intro io_intros decisions)

lemma io_saveResult: "state_io_rel R (saveResult x)"
  unfolding saveResult_def by (intro io_intros results)

lemma io_saveSideEffect: "state_io_rel R (saveSideEffect d)"
  unfolding saveSideEffect_def by (intro io_update sideEffects)

lemma io_updateSideEffectStatus: "state_io_rel R (updateSideEffectStatus sid status a b)"
  unfolding updateSideEffectStatus_def state_io_rel_iff
  by (auto simp add: refl sideEffects Let_def split: option.split)

lemma io_saveViolation: "state_io_rel R (saveViolation v)"
  unfolding saveViolation_def by (intro io_intros violations)

lemmas io_writes = io_ask io_gets io_clock io_next_id io_saveRequest io_update_request io_saveDecision
  io_saveResult io_saveSideEffect io_updateSideEffectStatus io_saveViolation events proofs

lemma io_planSideEffect: "state_io_rel R (planSideEffect E rid domain actor intent a b)"
  unfolding planSideEffect_def Let_def by (intro io_intros io_writes)

lemma io_createEnforcementRequest: "state_io_rel R (createEnforcementRequest E input)"
  unfolding createEnforcementRequest_def Let_def replaceRequestSideEffects_def
  by (intro io_intros io_writes io_planSideEffect)

lemma io_marks:
  "state_io_rel R (markBlocked E sid domain actor)" "state_io_rel R (markExecuted E sid domain actor)"
  "state_io_rel R (markFailed E sid)" "state_io_rel R (markSkipped sid)"
  unfolding markBlocked_def markExecuted_def markFailed_def markSkipped_def side_effect_recorded_def
  by (intro io_intros io_writes)+

lemma io_createDecision: "state_io_rel R (createDecision E r ev recognition pack)"
  unfolding createDecision_def Let_def by (intro io_intros io_writes)

lemma io_pack: "state_io_rel R (evaluatePolicyPackForRequest E r now recognition)"
  unfolding evaluatePolicyPackForRequest_def Let_def by (intro io_intros io_writes)

lemma io_record_pack_events: "state_io_rel R (record_pack_events E r d pack blocked)"
  unfolding record_pack_events_def by (intro io_intros io_writes)

lemma io_conclude: "state_io_rel R (conclude_preflight E r d pack blocked now)"
  unfolding conclude_preflight_def record_violation_def updateRequestStatus_def
  by (intro io_intros io_writes)

lemma io_run_outcome: "state_io_rel R (run_outcome E r d ids x)"
  unfolding run_outcome_def refreshRequestSideEffects_def getSideEffectsByRequest_def
    replaceRequestSideEffects_def createProof_def
  by (intro io_intros io_writes)

lemma io_save_execution_result: "state_io_rel R (save_execution_result E rid did st v msg a b prior)"
  unfolding save_execution_result_def by (intro io_intros io_writes)

lemma io_run_start: "state_io_rel R (run_start E r d)"
  unfolding run_start_def updateRequestStatus_def by (intro io_intros io_writes)

lemmas io_operations = io_planSideEffect io_createEnforcementRequest io_marks io_createDecision io_pack
  io_record_pack_events io_conclude io_run_outcome io_save_execution_result io_run_start

text \<open>What touches the idempotency keys, under the condition that this touch is admitted.\<close>

lemma io_preflight_of:
  assumes "state_io_rel R (key_check E (nr_idempotencyKey r) (nr_id r))"
  shows "state_io_rel R (preflight E r)"
  unfolding preflight_def preflight_decide_def Let_def by (intro io_intros io_writes io_operations assms)

lemma io_run_declined_of:
  assumes "state_io_rel R (key_check E (nr_idempotencyKey r) (nr_id r))"
  shows "state_io_rel R (run_declined E r d ids)"
  unfolding run_declined_def by (intro io_intros io_writes io_operations assms)

lemma io_run_finish_of:
  assumes "\<And>status result. state_io_rel R (key_record E (nr_idempotencyKey r) status result)"
  shows "state_io_rel R (run_finish E r d startedAt answer)"
  unfolding run_finish_def run_failed_def run_executed_def recordFailure_def recordSuccess_def updateRequestStatus_def
  by (intro io_intros io_writes io_operations assms)

end

text \<open>With the writes of the idempotency service admitted too, every operation is covered.\<close>

locale engine_frame_keys = engine_frame +
  assumes key_saved: "state_io_rel R (save_key r)"
begin

lemma io_key_check: "state_io_rel R (key_check E key rid)"
  unfolding key_check_def key_register_def by (intro io_intros io_writes key_saved)

lemma io_key_record: "state_io_rel R (key_record E key status result)"
  unfolding key_record_def by (intro io_intros io_writes key_saved)

lemmas io_preflight = io_preflight_of [OF io_key_check]

lemmas io_run_declined = io_run_declined_of [OF io_key_check]

lemmas io_run_finish = io_run_finish_of [OF io_key_record]

lemma io_run: "state_io_rel R (run E r execute)"
  unfolding run_def by (intro io_intros io_writes io_operations io_preflight io_run_declined io_run_finish)

lemma io_guard:
  "state_io_rel R (guard_preflight E i)" "state_io_rel R (guard_enforce E i execute)"
  "state_io_rel R (guard_verifyAndExecute E i adapterType execute)"
  unfolding guard_preflight_def guard_enforce_def guard_verifyAndExecute_def
  by (intro io_intros io_operations io_preflight io_run)+

end


section \<open>What a decision is made on\<close>

definition same_control :: "('m, 'v, 'w) engine_state \<Rightarrow> ('m, 'v, 'w) engine_state \<Rightarrow> bool" where
  "same_control s s' \<longleftrightarrow>
     ng_keys s' = ng_keys s \<and> ng_adapters s' = ng_adapters s \<and> ng_emergencyDeny s' = ng_emergencyDeny s"

interpretation control: state_order same_control
  by unfold_locales (auto simp add: same_control_def)

lemma control_recordEvent: "state_io_rel same_control (recordEvent E i)"
  by (simp add: state_io_rel_iff recordEvent_def clock_now_def next_id_def Let_def same_control_def)

lemma control_proof_create: "state_io_rel same_control (proof_create E p)"
  by (simp add: state_io_rel_iff proof_create_def saveProof_def clock_now_def next_id_def Let_def same_control_def)

interpretation control: engine_frame same_control E
  by unfold_locales (simp_all add: same_control_def control_recordEvent control_proof_create)

text \<open>The verdict on a key, as a function of the records.\<close>

definition key_verdict :: "bool \<Rightarrow> (string \<times> idempotency_record) list \<Rightarrow> string option \<Rightarrow> idempotency_outcome" where
  "key_verdict retry records key =
     (case key of
        None \<Rightarrow> KeyNew
      | Some k \<Rightarrow>
          case map_of records k of
            None \<Rightarrow> KeyNew
          | Some r \<Rightarrow> if ik_status r = KeyFailed \<and> retry then KeyDuplicateRetry else KeyDuplicateSuccess)"

text \<open>The records of one state are still there in the other, and the key is claimed.\<close>

definition keys_extended :: "string option \<Rightarrow> (string \<times> idempotency_record) list \<Rightarrow> (string \<times> idempotency_record) list \<Rightarrow> bool" where
  "keys_extended key records records' \<longleftrightarrow>
     (\<forall>k r. map_of records k = Some r \<longrightarrow> map_of records' k = Some r) \<and>
     (\<forall>k. map_of records k = None \<longrightarrow> key \<noteq> Some k \<longrightarrow> map_of records' k = None) \<and>
     (\<forall>k. key = Some k \<longrightarrow> map_of records' k \<noteq> None) \<and>
     (\<forall>k r. map_of records k = None \<longrightarrow> map_of records' k = Some r \<longrightarrow> ik_status r = KeyPending)"

lemma key_check_verdict:
  assumes "run_state (key_check E key rid) s = (check, s')"
  shows "ic_outcome check = key_verdict (ev_allowRetryAfterFailure E) (ng_keys s) key"
    and "keys_extended key (ng_keys s) (ng_keys s')"
    and "ng_adapters s' = ng_adapters s" "ng_emergencyDeny s' = ng_emergencyDeny s"
proof -
  have "ic_outcome check = key_verdict (ev_allowRetryAfterFailure E) (ng_keys s) key \<and>
      keys_extended key (ng_keys s) (ng_keys s') \<and> ng_adapters s' = ng_adapters s \<and> ng_emergencyDeny s' = ng_emergencyDeny s"
  proof (cases key)
    case None
    then show ?thesis using assms by (auto simp add: key_check_def key_verdict_def keys_extended_def)
  next
    case (Some k)
    show ?thesis
    proof (cases "map_of (ng_keys s) k")
      case None
      then show ?thesis using assms Some
        by (auto simp add: key_check_def key_register_def save_key_def clock_now_def key_verdict_def
            keys_extended_def update_conv' split: if_splits)
    next
      case (Some r)
      then show ?thesis using assms \<open>key = Some k\<close>
        by (cases "ik_status r") (auto simp add: key_check_def key_verdict_def keys_extended_def)
    qed
  qed
  then show "ic_outcome check = key_verdict (ev_allowRetryAfterFailure E) (ng_keys s) key"
    and "keys_extended key (ng_keys s) (ng_keys s')"
    and "ng_adapters s' = ng_adapters s" "ng_emergencyDeny s' = ng_emergencyDeny s"
    by blast+
qed

definition registered_adapter :: "('m, 'v, 'w) engine_state \<Rightarrow> 'm enforcement_request \<Rightarrow> enforcement_adapter option" where
  "registered_adapter s r =
     (case tg_adapterId (nr_target r) of None \<Rightarrow> None | Some a \<Rightarrow> map_of (ng_adapters s) a)"

definition pack_read ::
  "('m, 'w) engine_env \<Rightarrow> 'm enforcement_request \<Rightarrow> string \<Rightarrow> recognition_result option \<Rightarrow> policy_pack_result \<Rightarrow> bool" where
  "pack_read E r now recognition pack =
     (case ev_policyPack E of
        None \<Rightarrow> pack = NOT_CONFIGURED_RESULT
      | Some integration \<Rightarrow> (\<exists>w. pack = read_pack_answer (buildEvaluationInput r now recognition)
          (fst (integration (buildEvaluationInput r now recognition) w))))"

lemma createDecision_result:
  assumes "run_state (createDecision E r ev recognition pack) s = (d, s')"
  shows "nd_type d = pe_decisionType ev" "nd_allowedToExecute d = isExecutable (pe_decisionType ev)"
    "nd_policyResults d = pe_policyResults ev" "nd_reasonCode d = pe_reasonCode ev"
    "nd_requestId d = nr_id r"
    "nd_recognitionDecisionType d = (case recognition of None \<Rightarrow> JSUndefined | Some x \<Rightarrow> rg_type x)"
  using assms
  by (auto simp add: createDecision_def saveDecision_def attachPolicyMetadataToDecision_def Let_def
      split: option.splits prod.splits)

lemma pack_evaluated:
  assumes "run_state (evaluatePolicyPackForRequest E r now recognition) s = (pack, s')"
  shows "pack_read E r now recognition pack"
  using assms
  by (auto simp add: evaluatePolicyPackForRequest_def pack_read_def Let_def split: option.splits prod.splits)

text \<open>
  A decision of the preflight is the verdict of the policies in a context that holds the answer
  of the recognition provider, the registered adapter, the switch and the verdict on the key as
  they were when the preflight began.
\<close>

definition decided_on ::
  "('m, 'w) engine_env \<Rightarrow> ('m, 'v, 'w) engine_state \<Rightarrow> 'm enforcement_request \<Rightarrow> enforcement_decision \<Rightarrow> 'm policy_context \<Rightarrow> bool" where
  "decided_on E s r d c \<longleftrightarrow>
     (\<exists>now recognition check pack w.
        fst (ev_verifyAction E (verification_input r now) w) = Inr recognition \<and>
        ic_outcome check = key_verdict (ev_allowRetryAfterFailure E) (ng_keys s) (nr_idempotencyKey r) \<and>
        pack_read E r now recognition pack \<and>
        c = policy_context_of now r recognition (registered_adapter s r) (ng_emergencyDeny s) check pack \<and>
        nd_type d = pe_decisionType (evaluate_policies (ev_policies E) c) \<and>
        nd_policyResults d = pe_policyResults (evaluate_policies (ev_policies E) c) \<and>
        nd_recognitionDecisionType d = (case recognition of None \<Rightarrow> JSUndefined | Some x \<Rightarrow> rg_type x) \<and>
        nd_allowedToExecute d = isExecutable (nd_type d))"

lemma preflight_decide_on:
  assumes run: "run_state (preflight_decide E r now recognition) s = (d, s')"
    and answer: "fst (ev_verifyAction E (verification_input r now) w) = Inr recognition"
  shows "\<exists>c. decided_on E s r d c" "keys_extended (nr_idempotencyKey r) (ng_keys s) (ng_keys s')"
    "ng_adapters s' = ng_adapters s" "ng_emergencyDeny s' = ng_emergencyDeny s"
proof -
  obtain check s1 where check: "run_state (key_check E (nr_idempotencyKey r) (nr_id r)) s = (check, s1)"
    by (rule prod.exhaust)
  obtain pack s2 where pack: "run_state (evaluatePolicyPackForRequest E r now recognition) s1 = (pack, s2)"
    by (rule prod.exhaust)
  define c where "c = policy_context_of now r recognition (registered_adapter s r) (ng_emergencyDeny s2) check pack"
  define ev where "ev = evaluate_policies (ev_policies E) c"
  obtain d1 s3 where dec: "run_state (createDecision E r ev recognition (if ev_policyPack E = None then None else Some pack)) s2 = (d1, s3)"
    by (rule prod.exhaust)
  obtain u s4 where ev4: "run_state (record_pack_events E r d1 pack (pack_blocked ev)) s3 = (u, s4)"
    by (rule prod.exhaust)
  obtain v s5 where con: "run_state (conclude_preflight E r d1 pack (pack_blocked ev) now) s4 = (v, s5)"
    by (rule prod.exhaust)
  have "run_state (preflight_decide E r now recognition) s = (d1, s5)"
    unfolding preflight_decide_def using check pack dec ev4 con
    by (simp add: Let_def registered_adapter_def [symmetric] c_def [symmetric] ev_def [symmetric])
  then have same: "d1 = d" "s5 = s'" using run by simp_all
  note k = key_check_verdict [OF check]
  have "same_control s1 s2" using state_io_relD [OF control.io_pack pack] .
  moreover have "same_control s2 s3" using state_io_relD [OF control.io_createDecision dec] .
  moreover have "same_control s3 s4" using state_io_relD [OF control.io_record_pack_events ev4] .
  moreover have "same_control s4 s5" using state_io_relD [OF control.io_conclude con] .
  ultimately have keys: "ng_keys s' = ng_keys s1" "ng_adapters s' = ng_adapters s1" "ng_emergencyDeny s' = ng_emergencyDeny s1"
    "ng_emergencyDeny s2 = ng_emergencyDeny s1"
    using same by (simp_all add: same_control_def)
  show "keys_extended (nr_idempotencyKey r) (ng_keys s) (ng_keys s')" "ng_adapters s' = ng_adapters s"
    "ng_emergencyDeny s' = ng_emergencyDeny s"
    using keys k by simp_all
  have "c = policy_context_of now r recognition (registered_adapter s r) (ng_emergencyDeny s) check pack"
    unfolding c_def using keys k by simp
  moreover have "nd_type d = pe_decisionType ev" "nd_allowedToExecute d = isExecutable (nd_type d)"
    "nd_policyResults d = pe_policyResults ev"
    "nd_recognitionDecisionType d = (case recognition of None \<Rightarrow> JSUndefined | Some x \<Rightarrow> rg_type x)"
    using createDecision_result [OF dec] same by simp_all
  ultimately have "decided_on E s r d c"
    unfolding decided_on_def using answer k(1) pack_evaluated [OF pack] ev_def by blast
  then show "\<exists>c. decided_on E s r d c" by blast
qed

lemma registered_adapter_control: "same_control s s' \<Longrightarrow> registered_adapter s' r = registered_adapter s r"
  by (simp add: registered_adapter_def same_control_def split: option.split)

lemma decided_on_control:
  assumes "same_control s s'"
  shows "decided_on E s' r d c \<longleftrightarrow> decided_on E s r d c"
proof -
  have "ng_keys s' = ng_keys s" "ng_emergencyDeny s' = ng_emergencyDeny s" using assms by (simp_all add: same_control_def)
  then show ?thesis unfolding decided_on_def registered_adapter_control [OF assms] by simp
qed

lemma preflight_cases:
  assumes "run_state (preflight E r) s = (answer, s')"
  obtains (threw) e where "answer = Inl e" "same_control s s'"
  | (decided) d c where "answer = Inr d" "decided_on E s r d c"
      "keys_extended (nr_idempotencyKey r) (ng_keys s) (ng_keys s')"
      "ng_adapters s' = ng_adapters s" "ng_emergencyDeny s' = ng_emergencyDeny s"
proof -
  obtain now s1 where clock: "run_state (clock_now E) s = (now, s1)" by (rule prod.exhaust)
  define i where "i = (plain_event ''preflight_started'' r None
       [(''action'', Some (JStr (nr_action r))), (''mode'', Some (JStr (mode_name (nr_mode r))))])
       \<lparr>ei_principalActorId := nr_principalActorId r\<rparr>"
  obtain e s2 where event: "run_state (recordEvent E i) s1 = (e, s2)" by (rule prod.exhaust)
  define w where "w = ng_world s2"
  define s3 where "s3 = s2\<lparr>ng_world := snd (ev_verifyAction E (verification_input r now) w)\<rparr>"
  have "same_control s s1" using state_io_relD [OF control.io_clock clock] .
  moreover have "same_control s1 s2" using state_io_relD [OF control.events event] .
  ultimately have c3: "same_control s s3" by (simp add: same_control_def s3_def)
  have run: "run_state (preflight E r) s =
      (case fst (ev_verifyAction E (verification_input r now) w) of
         Inl e \<Rightarrow> (Inl e, s3)
       | Inr recognition \<Rightarrow> (case run_state (preflight_decide E r now recognition) s3 of (d, s') \<Rightarrow> (Inr d, s')))"
    unfolding preflight_def i_def [symmetric] using clock event
    by (simp add: w_def [symmetric] s3_def [symmetric] split: sum.split)
  show thesis
  proof (cases "fst (ev_verifyAction E (verification_input r now) w)")
    case (Inl e)
    then show thesis using threw c3 run assms by simp
  next
    case (Inr recognition)
    obtain d s4 where dec: "run_state (preflight_decide E r now recognition) s3 = (d, s4)" by (rule prod.exhaust)
    have s4: "answer = Inr d" "s' = s4" using run Inr dec assms by simp_all
    note on = preflight_decide_on [OF dec Inr]
    obtain c where "decided_on E s3 r d c" using on(1) by blast
    then have "decided_on E s r d c" using decided_on_control [OF c3] by simp
    then show thesis using decided s4 on c3 unfolding same_control_def by simp
  qed
qed


section \<open>The verdict of the default chain\<close>

definition well_behaved :: "policy_outcome \<Rightarrow> bool" where
  "well_behaved o' \<longleftrightarrow>
     (if pr_passed o' then po_decisionType o' \<in> {None, Some DryRunAllowed} else po_decisionType o' \<noteq> Some ExecuteAllowed)"

lemma evaluate_chain_allowed:
  assumes "\<forall>p \<in> set ps. well_behaved (p c)"
  shows "pe_decisionType (evaluate_chain c ps results override) = ExecuteAllowed \<longleftrightarrow>
     (\<forall>p \<in> set ps. pr_passed (p c) \<and> po_decisionType (p c) = None) \<and>
     (\<forall>t code reason. override = Some (t, code, reason) \<longrightarrow> t = ExecuteAllowed)"
  using assms
proof (induction ps arbitrary: results override)
  case Nil
  then show ?case by (auto split: option.splits)
next
  case (Cons p ps)
  have p: "well_behaved (p c)" using Cons.prems by simp
  have rest: "\<forall>q \<in> set ps. well_behaved (q c)" using Cons.prems by simp
  show ?case
  proof (cases "pr_passed (p c)")
    case True
    then show ?thesis using p Cons.IH [OF rest]
      by (cases "po_decisionType (p c)") (auto simp add: Let_def well_behaved_def)
  next
    case False
    then show ?thesis using p
      by (cases "po_decisionType (p c)") (auto simp add: Let_def well_behaved_def)
  qed
qed

text \<open>When the thirteen policies let an action execute, stated on what they were given.\<close>

definition clear_to_execute :: "platform \<Rightarrow> 'm policy_context \<Rightarrow> bool" where
  "clear_to_execute P c \<longleftrightarrow>
     \<not> pc_emergencyDeny c \<and>
     (\<exists>r. pc_recognitionResult c = Some r \<and>
        recognition_type_text (rg_type r) \<noteq> None \<and> rg_reasonCode r \<noteq> None \<and> rg_reason r \<noteq> None \<and>
        (rg_approvalRequestId r = None \<or> rg_approvalProofId r \<noteq> None) \<and>
        (in_sideEffectType (nr_intent (pc_request c)) \<in> set REQUIRES_APPROVAL_PROOF \<longrightarrow> rg_approvalProofId r \<noteq> None)) \<and>
     pc_mappedDecisionType c = Some ExecuteAllowed \<and>
     (\<forall>a. pc_adapter c = Some a \<longrightarrow>
        ac_allowed (evaluateAdapterPermission a (nr_action (pc_request c)) (nr_capability (pc_request c))
          (nr_resourceScope (pc_request c)) (nr_idempotencyKey (pc_request c)))) \<and>
     (\<forall>p. pc_policyPackResult c = Some p \<longrightarrow> pk_type p = ''policy_not_applicable'' \<or> pk_allowed p) \<and>
     (\<forall>check. pc_idempotency c = Some check \<longrightarrow> ic_outcome check \<noteq> KeyDuplicateSuccess) \<and>
     (\<forall>expiresAt deadline now. nr_expiresAt (pc_request c) = Some expiresAt \<longrightarrow>
        Date_parse P expiresAt = Some deadline \<longrightarrow> Date_parse P (pc_now c) = Some now \<longrightarrow> now \<le> deadline) \<and>
     nr_mode (pc_request c) \<noteq> DryRunMode"

lemma policy_outcome_simps [simp]:
  "pr_passed (passes p code reason)" "po_decisionType (passes p code reason) = None"
  "\<not> pr_passed (fails p code reason sv d)" "po_decisionType (fails p code reason sv d) = Some d"
  "pr_policyId (passes p code reason) = p" "pr_policyId (fails p code reason sv d) = p"
  by (simp_all add: passes_def fails_def)

lemma pack_decision_not_allowed:
  "\<not> pk_allowed p \<Longrightarrow>
     (case mapPolicyResultToEnforcementDecisionType p of None \<Rightarrow> ExecutionBlocked | Some t \<Rightarrow> t) \<noteq> ExecuteAllowed"
  by (auto simp add: mapPolicyResultToEnforcementDecisionType_def BLOCKING_DECISION_TYPE_MAP_def
      split: option.splits if_splits)

text \<open>A policy is clear if it passes and names no decision of its own; here is when each one is.\<close>

definition clear :: "policy_outcome \<Rightarrow> bool" where
  "clear o' \<longleftrightarrow> pr_passed o' \<and> po_decisionType o' = None"

lemma clear_simps [simp]:
  "clear (passes p code reason)" "\<not> clear (fails p code reason sv d)"
  "well_behaved (passes p code reason)"
  "well_behaved (fails p code reason sv d) \<longleftrightarrow> d \<noteq> ExecuteAllowed"
  by (simp_all add: clear_def well_behaved_def)

lemma policy_emergency: "clear (EmergencyDenyPolicy c) \<longleftrightarrow> \<not> pc_emergencyDeny c" "well_behaved (EmergencyDenyPolicy c)"
  by (simp_all add: EmergencyDenyPolicy_def)

lemma policy_recognition:
  "clear (RecognitionRequiredPolicy c) \<longleftrightarrow>
     (\<exists>r. pc_recognitionResult c = Some r \<and> recognition_type_text (rg_type r) \<noteq> None \<and> rg_reasonCode r \<noteq> None \<and> rg_reason r \<noteq> None)"
  "well_behaved (RecognitionRequiredPolicy c)"
  by (auto simp add: RecognitionRequiredPolicy_def split: option.split)

lemma policy_allow:
  "clear (AllowDecisionRequiredPolicy c) \<longleftrightarrow> pc_mappedDecisionType c = Some ExecuteAllowed"
  "well_behaved (AllowDecisionRequiredPolicy c)"
  by (auto simp add: AllowDecisionRequiredPolicy_def split: option.split)

lemma policy_approval:
  "clear (ApprovalPendingPolicy c) \<longleftrightarrow> \<not> approval_pending c" "well_behaved (ApprovalPendingPolicy c)"
  by (simp_all add: ApprovalPendingPolicy_def)

lemma policy_evidence:
  "clear (EvidenceRequiredPolicy c) \<longleftrightarrow> pc_mappedDecisionType c \<noteq> Some EvidenceRequired" "well_behaved (EvidenceRequiredPolicy c)"
  by (simp_all add: EvidenceRequiredPolicy_def)

lemma policy_standing:
  "clear (ExternalStandingPolicy c) \<longleftrightarrow>
     (declares_external_standing (pc_request c) \<longrightarrow> (\<forall>t. pc_mappedDecisionType c = Some t \<longrightarrow> t \<in> set CLEARED_MAPPED_TYPES))"
  "well_behaved (ExternalStandingPolicy c)"
  by (auto simp add: ExternalStandingPolicy_def CLEARED_MAPPED_TYPES_def split: option.split)

lemma policy_adapter:
  "clear (AdapterPermissionPolicy c) \<longleftrightarrow>
     (\<forall>a. pc_adapter c = Some a \<longrightarrow>
        ac_allowed (evaluateAdapterPermission a (nr_action (pc_request c)) (nr_capability (pc_request c))
          (nr_resourceScope (pc_request c)) (nr_idempotencyKey (pc_request c))))"
  "well_behaved (AdapterPermissionPolicy c)"
  by (auto simp add: AdapterPermissionPolicy_def Let_def split: option.split)

lemma policy_pack:
  "clear (DomainPolicyPackPolicy c) \<longleftrightarrow>
     (\<forall>p. pc_policyPackResult c = Some p \<longrightarrow> pk_type p = ''policy_not_applicable'' \<or> pk_allowed p)"
  "well_behaved (DomainPolicyPackPolicy c)"
  using pack_decision_not_allowed
  by (auto simp add: DomainPolicyPackPolicy_def clear_def well_behaved_def split: option.split)

lemma policy_idempotency:
  "clear (IdempotencyPolicy c) \<longleftrightarrow>
     (\<forall>a. pc_adapter c = Some a \<longrightarrow> na_requiresIdempotencyKey a \<longrightarrow> nr_idempotencyKey (pc_request c) \<noteq> None) \<and>
     (\<forall>check. pc_idempotency c = Some check \<longrightarrow> ic_outcome check \<noteq> KeyDuplicateSuccess)"
  "well_behaved (IdempotencyPolicy c)"
  by (auto simp add: IdempotencyPolicy_def idempotency_duplicate_def split: option.split)

lemma policy_timeout:
  "clear (ExecutionTimeoutPolicy P c) \<longleftrightarrow>
     (\<forall>expiresAt deadline now. nr_expiresAt (pc_request c) = Some expiresAt \<longrightarrow>
        Date_parse P expiresAt = Some deadline \<longrightarrow> Date_parse P (pc_now c) = Some now \<longrightarrow> now \<le> deadline)"
  "well_behaved (ExecutionTimeoutPolicy P c)"
  by (auto simp add: ExecutionTimeoutPolicy_def not_expired_def split: option.split)

lemma policy_side_effect:
  "clear (SideEffectBoundaryPolicy c) \<longleftrightarrow>
     (in_sideEffectType (nr_intent (pc_request c)) \<in> set REQUIRES_ALLOW \<longrightarrow>
        pc_mappedDecisionType c = Some ExecuteAllowed \<and>
        (in_sideEffectType (nr_intent (pc_request c)) \<in> set REQUIRES_APPROVAL_PROOF \<longrightarrow>
           recognized_id rg_approvalProofId (pc_recognitionResult c) \<noteq> None))"
  "well_behaved (SideEffectBoundaryPolicy c)"
  by (auto simp add: SideEffectBoundaryPolicy_def Let_def split: option.split)

lemma policy_dry_run: "clear (DryRunPolicy c) \<longleftrightarrow> nr_mode (pc_request c) \<noteq> DryRunMode" "well_behaved (DryRunPolicy c)"
  by (simp_all add: DryRunPolicy_def clear_def well_behaved_def)

lemma policy_record: "clear (PostExecutionRecordPolicy c)" "well_behaved (PostExecutionRecordPolicy c)"
  by (simp_all add: PostExecutionRecordPolicy_def)

lemmas policy_verdicts = policy_emergency policy_recognition policy_allow policy_approval policy_evidence
  policy_standing policy_adapter policy_pack policy_idempotency policy_timeout policy_side_effect
  policy_dry_run policy_record

lemma adapter_requires_key:
  "ac_allowed (evaluateAdapterPermission a action capability scope key) \<Longrightarrow> na_requiresIdempotencyKey a \<Longrightarrow> key \<noteq> None"
  by (auto simp add: evaluateAdapterPermission_def Let_def split: if_splits)

lemma approval_proof_requires_allow: "x \<in> set REQUIRES_APPROVAL_PROOF \<Longrightarrow> x \<in> set REQUIRES_ALLOW"
  by (auto simp add: REQUIRES_ALLOW_def REQUIRES_APPROVAL_PROOF_def)

lemma default_chain_clear:
  "pe_decisionType (evaluate_policies (createDefaultEnforcementPolicyChain P) c) = ExecuteAllowed \<longleftrightarrow> clear_to_execute P c"
  (is "?allowed \<longleftrightarrow> _")
proof -
  have "?allowed \<longleftrightarrow> (\<forall>p \<in> set (createDefaultEnforcementPolicyChain P). clear (p c))"
    unfolding evaluate_policies_def clear_def
    by (subst evaluate_chain_allowed) (simp_all add: createDefaultEnforcementPolicyChain_def policy_verdicts)
  also have "\<dots> \<longleftrightarrow> clear_to_execute P c"
  proof (cases "\<exists>r. pc_recognitionResult c = Some r \<and> pc_mappedDecisionType c = Some ExecuteAllowed")
    case True
    then obtain r where r: "pc_recognitionResult c = Some r" "pc_mappedDecisionType c = Some ExecuteAllowed" by blast
    let ?request = "pc_request c"
    let ?permitted = "\<forall>a. pc_adapter c = Some a \<longrightarrow> ac_allowed (evaluateAdapterPermission a (nr_action ?request)
      (nr_capability ?request) (nr_resourceScope ?request) (nr_idempotencyKey ?request))"
    have "?permitted \<Longrightarrow>
        \<forall>a. pc_adapter c = Some a \<longrightarrow> na_requiresIdempotencyKey a \<longrightarrow> nr_idempotencyKey ?request \<noteq> None"
      using adapter_requires_key by blast
    then show ?thesis
      unfolding clear_to_execute_def createDefaultEnforcementPolicyChain_def
      using approval_proof_requires_allow [of "in_sideEffectType (nr_intent ?request)"]
      by (simp add: policy_verdicts approval_pending_def recognized_id_def CLEARED_MAPPED_TYPES_def r) blast
  next
    case False
    then show ?thesis
      unfolding clear_to_execute_def createDefaultEnforcementPolicyChain_def by (auto simp add: policy_verdicts)
  qed
  finally show ?thesis .
qed


section \<open>Keys over the operations\<close>

definition keys_grow :: "('m, 'v, 'w) engine_state \<Rightarrow> ('m, 'v, 'w) engine_state \<Rightarrow> bool" where
  "keys_grow s s' \<longleftrightarrow> dom (map_of (ng_keys s)) \<subseteq> dom (map_of (ng_keys s'))"

definition records_kept :: "('m, 'v, 'w) engine_state \<Rightarrow> ('m, 'v, 'w) engine_state \<Rightarrow> bool" where
  "records_kept s s' \<longleftrightarrow> (\<forall>k r. map_of (ng_keys s) k = Some r \<longrightarrow> map_of (ng_keys s') k = Some r)"

definition same_keys_but :: "string option \<Rightarrow> ('m, 'v, 'w) engine_state \<Rightarrow> ('m, 'v, 'w) engine_state \<Rightarrow> bool" where
  "same_keys_but key s s' \<longleftrightarrow> (\<forall>k. key \<noteq> Some k \<longrightarrow> map_of (ng_keys s') k = map_of (ng_keys s) k)"

lemma control_keys:
  "same_control s s' \<Longrightarrow> keys_grow s s'" "same_control s s' \<Longrightarrow> records_kept s s'"
  "same_control s s' \<Longrightarrow> same_keys_but key s s'"
  by (simp_all add: same_control_def keys_grow_def records_kept_def same_keys_but_def)

lemma io_control:
  assumes "\<And>s s'. same_control s s' \<Longrightarrow> R s s'" "state_io_rel same_control m"
  shows "state_io_rel R m"
  using assms by (simp add: state_io_rel_iff)

interpretation grow: state_order keys_grow
  by unfold_locales (auto simp add: keys_grow_def)

interpretation grow: engine_frame keys_grow E
  by unfold_locales (auto simp add: keys_grow_def intro: io_control [OF control_keys(1)] control.events control.proofs)

lemma grow_save_key: "state_io_rel keys_grow (save_key r)"
  by (auto simp add: state_io_rel_iff save_key_def keys_grow_def dom_update)

interpretation grow: engine_frame_keys keys_grow E
  by unfold_locales (rule grow_save_key)

interpretation kept: state_order records_kept
  by unfold_locales (simp_all add: records_kept_def)

interpretation kept: engine_frame records_kept E
  by unfold_locales (auto simp add: records_kept_def intro: io_control [OF control_keys(2)] control.events control.proofs)

lemma kept_key_check: "state_io_rel records_kept (key_check E key rid)"
proof (rule state_io_relI)
  fix a s s'
  assume "run_state (key_check E key rid) s = (a, s')"
  then show "records_kept s s'" using key_check_verdict(2) unfolding keys_extended_def records_kept_def by blast
qed

lemmas kept_operations = kept.io_preflight_of [OF kept_key_check] kept.io_run_declined_of [OF kept_key_check]

interpretation but: state_order "same_keys_but key"
  by unfold_locales (simp_all add: same_keys_but_def)

interpretation but: engine_frame "same_keys_but key" E
  by unfold_locales (auto simp add: same_keys_but_def intro: io_control [OF control_keys(3)] control.events control.proofs)

lemma but_key_record: "state_io_rel (same_keys_but key) (key_record E key status result)"
  by (auto simp add: state_io_rel_iff key_record_def save_key_def clock_now_def same_keys_but_def update_conv'
      split: option.split)

lemmas but_run_finish = but.io_run_finish_of [OF but_key_record]

text \<open>After the executor returned or threw, the record of the key says which.\<close>

definition key_status :: "('m, 'v, 'w) engine_state \<Rightarrow> string \<Rightarrow> idempotency_status option" where
  "key_status s k = map_option ik_status (map_of (ng_keys s) k)"

section \<open>Runs that overlap\<close>

text \<open>
  An executor is awaited: between the start of a run and its end other operations of the
  engine may happen, of other runs too.  A configuration is the state of the engine, the runs whose
  executor has been invoked and not yet answered, and the history of starts and ends.
\<close>

datatype run_mark = Started "string option" | Ended "string option" bool

type_synonym ('m, 'v, 'w) configuration =
  "('m, 'v, 'w) engine_state \<times> ('m enforcement_request \<times> enforcement_decision \<times> string) list \<times> run_mark list"

inductive engine_step ::
  "('m, 'w) engine_env \<Rightarrow> ('m, 'v, 'w) configuration \<Rightarrow> ('m, 'v, 'w) configuration \<Rightarrow> bool" for E where
  world_step: "engine_step E (s, F, L) (s\<lparr>ng_world := w\<rparr>, F, L)"
| submit_step: "run_state (createEnforcementRequest E i) s = (r, s') \<Longrightarrow> engine_step E (s, F, L) (s', F, L)"
| preflight_step: "run_state (preflight E r) s = (answer, s') \<Longrightarrow> engine_step E (s, F, L) (s', F, L)"
| decline_step: "run_state (preflight E r) s = (Inr d, s1) \<Longrightarrow> \<not> nd_allowedToExecute d \<Longrightarrow>
    run_state (run_declined E r d (map sd_id (nr_sideEffects r))) s1 = (out, s') \<Longrightarrow> engine_step E (s, F, L) (s', F, L)"
| start_step: "run_state (preflight E r) s = (Inr d, s1) \<Longrightarrow> nd_allowedToExecute d \<Longrightarrow>
    run_state (run_start E r d) s1 = (startedAt, s') \<Longrightarrow>
    engine_step E (s, F, L) (s', (r, d, startedAt) # F, L @ [Started (nr_idempotencyKey r)])"
| finish_step: "(r, d, startedAt) \<in> set F \<Longrightarrow> run_state (run_finish E r d startedAt answer) s = (out, s') \<Longrightarrow>
    engine_step E (s, F, L)
      (s', remove1 (r, d, startedAt) F, L @ [Ended (nr_idempotencyKey r) (\<exists>v. answer = Inr v)])"
| adapter_step: "run_state (registerAdapter a) s = (a', s') \<Longrightarrow> engine_step E (s, F, L) (s', F, L)"
| emergency_step: "run_state (setEmergencyDeny active) s = (u, s') \<Longrightarrow> engine_step E (s, F, L) (s', F, L)"

lemma allowed_key:
  assumes "ev_policies E = createDefaultEnforcementPolicyChain P"
    and "run_state (preflight E r) s = (Inr d, s')" "nd_allowedToExecute d"
  shows "key_verdict (ev_allowRetryAfterFailure E) (ng_keys s) (nr_idempotencyKey r) \<noteq> KeyDuplicateSuccess"
    and "keys_extended (nr_idempotencyKey r) (ng_keys s) (ng_keys s')"
proof -
  obtain c where c: "decided_on E s r d c" "keys_extended (nr_idempotencyKey r) (ng_keys s) (ng_keys s')"
    using preflight_cases [OF assms(2)] by blast
  show "keys_extended (nr_idempotencyKey r) (ng_keys s) (ng_keys s')" by (rule c(2))
  obtain now recognition check pack where
    check: "ic_outcome check = key_verdict (ev_allowRetryAfterFailure E) (ng_keys s) (nr_idempotencyKey r)"
    and cx: "c = policy_context_of now r recognition (registered_adapter s r) (ng_emergencyDeny s) check pack"
    and type: "nd_type d = pe_decisionType (evaluate_policies (ev_policies E) c)" "nd_allowedToExecute d = isExecutable (nd_type d)"
    using c(1) unfolding decided_on_def by blast
  have "clear_to_execute P c"
    using type assms(1,3) by (simp add: isExecutable_def EXECUTABLE_DECISION_TYPES_def default_chain_clear)
  moreover have "pc_idempotency c = Some check" using cx by (simp add: policy_context_of_def Let_def)
  ultimately show "key_verdict (ev_allowRetryAfterFailure E) (ng_keys s) (nr_idempotencyKey r) \<noteq> KeyDuplicateSuccess"
    using check unfolding clear_to_execute_def by metis
qed

lemma step_keys_grow:
  assumes "engine_step E (s, F, L) (s', F', L')"
  shows "keys_grow s s'"
  using assms
proof (cases rule: engine_step.cases)
  case (finish_step r d startedAt answer out)
  then show ?thesis using state_io_relD [OF grow.io_run_finish] by blast
next
  case (start_step r d s1 startedAt)
  then show ?thesis using state_io_relD [OF grow.io_preflight] state_io_relD [OF grow.io_run_start] grow.trans by blast
next
  case (decline_step r d s1 out)
  then show ?thesis using state_io_relD [OF grow.io_preflight] state_io_relD [OF grow.io_run_declined] grow.trans by blast
next
  case (preflight_step r answer)
  then show ?thesis using state_io_relD [OF grow.io_preflight] by blast
next
  case (submit_step i r)
  then show ?thesis using state_io_relD [OF grow.io_createEnforcementRequest] by blast
qed (auto simp add: keys_grow_def registerAdapter_def setEmergencyDeny_def)

definition starts :: "string \<Rightarrow> run_mark list \<Rightarrow> nat" where
  "starts k L = length (filter (\<lambda>m. m = Started (Some k)) L)"

definition started_once :: "('m, 'v, 'w) configuration \<Rightarrow> bool" where
  "started_once C = (case C of (s, F, L) \<Rightarrow>
     (\<forall>k. starts k L \<le> 1 \<and> (starts k L = 1 \<longrightarrow> map_of (ng_keys s) k \<noteq> None)))"

lemma started_once_step:
  assumes chain: "ev_policies E = createDefaultEnforcementPolicyChain P" and retry: "\<not> ev_allowRetryAfterFailure E"
    and step: "engine_step E (s, F, L) (s', F', L')" and inv: "started_once (s, F, L)"
  shows "started_once (s', F', L')"
proof -
  have grow: "\<And>k. map_of (ng_keys s) k \<noteq> None \<Longrightarrow> map_of (ng_keys s') k \<noteq> None"
    using step_keys_grow [of E s F L s' F' L'] step unfolding keys_grow_def by (auto simp add: domIff)
  show ?thesis
    using step
  proof (cases rule: engine_step.cases)
    case (start_step r d s1 startedAt)
    show ?thesis
    proof (cases "nr_idempotencyKey r")
      case None
      then show ?thesis using inv grow start_step unfolding started_once_def starts_def by auto
    next
      case (Some k)
      note key = allowed_key [OF chain start_step(3,4)]
      have fresh: "map_of (ng_keys s) k = None"
        using key(1) retry Some by (auto simp add: key_verdict_def split: option.splits)
      have "starts k L \<le> 1" "starts k L = 1 \<longrightarrow> map_of (ng_keys s) k \<noteq> None"
        using inv unfolding started_once_def by simp_all
      then have none: "starts k L = 0" using fresh by linarith
      have claimed: "map_of (ng_keys s1) k \<noteq> None" using key(2) Some unfolding keys_extended_def by blast
      have "keys_grow s1 s'" using state_io_relD [OF grow.io_run_start start_step(5)] .
      then have "map_of (ng_keys s') k \<noteq> None" using claimed unfolding keys_grow_def by (auto simp add: domIff)
      then show ?thesis using inv grow none Some start_step(2) unfolding started_once_def starts_def by auto
    qed
  qed (use inv grow in \<open>auto simp add: started_once_def starts_def\<close>)
qed

text \<open>
  A key that succeeded or is pending, and under which no run is open, is never executed again,
  whatever the engine does and even if failed executions may be retried.
\<close>

definition closed_key :: "string \<Rightarrow> idempotency_status \<Rightarrow> nat \<Rightarrow> ('m, 'v, 'w) configuration \<Rightarrow> bool" where
  "closed_key k st n C = (case C of (s, F, L) \<Rightarrow>
     key_status s k = Some st \<and> (\<forall>(r, d, t) \<in> set F. nr_idempotencyKey r \<noteq> Some k) \<and> starts k L = n)"

lemma status_kept: "records_kept s s' \<Longrightarrow> key_status s k = Some st \<Longrightarrow> key_status s' k = Some st"
  by (auto simp add: records_kept_def key_status_def)

lemma status_other: "same_keys_but key s s' \<Longrightarrow> key \<noteq> Some k \<Longrightarrow> key_status s' k = key_status s k"
  by (simp add: same_keys_but_def key_status_def)

lemma closed_key_step:
  assumes chain: "ev_policies E = createDefaultEnforcementPolicyChain P"
    and step: "engine_step E (s, F, L) (s', F', L')" and inv: "closed_key k st n (s, F, L)" and st: "st \<noteq> KeyFailed"
  shows "closed_key k st n (s', F', L')"
proof -
  have succeeded: "key_status s k = Some st" and openF: "\<forall>(r, d, t) \<in> set F. nr_idempotencyKey r \<noteq> Some k"
    and n: "starts k L = n"
    using inv unfolding closed_key_def by simp_all
  note pre = state_io_relD [OF kept_operations(1)] and dec = state_io_relD [OF kept_operations(2)]
  show ?thesis
    using step
  proof (cases rule: engine_step.cases)
    case (start_step r d s1 startedAt)
    have other: "nr_idempotencyKey r \<noteq> Some k"
      using allowed_key(1) [OF chain start_step(3,4)] succeeded st
      by (auto simp add: key_verdict_def key_status_def)
    have "records_kept s s'" using pre [OF start_step(3)] state_io_relD [OF kept.io_run_start start_step(5)] kept.trans by blast
    then show ?thesis using status_kept succeeded openF n other start_step(1,2)
      unfolding closed_key_def starts_def by auto
  next
    case (finish_step r d startedAt answer out)
    have other: "nr_idempotencyKey r \<noteq> Some k" using openF finish_step(3) by fastforce
    have "key_status s' k = Some st"
      using status_other [OF state_io_relD [OF but_run_finish finish_step(4)] other] succeeded by simp
    then show ?thesis using openF n other finish_step(1,2) set_remove1_subset
      unfolding closed_key_def starts_def by fastforce
  next
    case (decline_step r d s1 out)
    have "records_kept s s'" using pre [OF decline_step(3)] dec [OF decline_step(5)] kept.trans by blast
    then show ?thesis using status_kept succeeded openF n decline_step(1,2) unfolding closed_key_def by simp
  next
    case (preflight_step r answer)
    then show ?thesis using status_kept [OF pre [OF preflight_step(3)]] succeeded openF n unfolding closed_key_def by simp
  next
    case (submit_step i r)
    then show ?thesis using status_kept [OF state_io_relD [OF kept.io_createEnforcementRequest submit_step(3)]] succeeded openF n
      unfolding closed_key_def by simp
  qed (use succeeded openF n in \<open>auto simp add: closed_key_def key_status_def registerAdapter_def setEmergencyDeny_def\<close>)
qed

lemma closed_key_steps:
  assumes chain: "ev_policies E = createDefaultEnforcementPolicyChain P" and st: "st \<noteq> KeyFailed"
    and "(engine_step E)\<^sup>*\<^sup>* C C'" "closed_key k st n C"
  shows "closed_key k st n C'"
  using assms(3,4)
proof (induction rule: rtranclp_induct)
  case (step C1 C2)
  then show ?case using closed_key_step [OF chain _ _ st] by (metis prod_cases3)
qed simp


section \<open>The chained ledgers\<close>

definition event_fields :: "enforcement_event \<Rightarrow> event_input" where
  "event_fields e =
     \<lparr>ei_type = nv_type e, ei_trustDomainId = nv_trustDomainId e, ei_requestId = nv_requestId e,
      ei_decisionId = nv_decisionId e, ei_executionResultId = nv_executionResultId e, ei_proofId = nv_proofId e,
      ei_violationId = nv_violationId e, ei_actorId = nv_actorId e, ei_principalActorId = nv_principalActorId e,
      ei_payload = nv_payload e\<rparr>"

definition event_digested :: "enforcement_event \<Rightarrow> json" where
  "event_digested e = event_json (event_fields e) (nv_timestamp e) (nv_previousHash e)"

fun chained :: "platform \<Rightarrow> string option \<Rightarrow> enforcement_event list \<Rightarrow> bool" where
  "chained P previous [] = True"
| "chained P previous (e # es) \<longleftrightarrow>
     nv_previousHash e = previous \<and> nv_eventHash e = createDigest P (event_digested e) \<and>
     chained P (Some (nv_eventHash e)) es"

definition trail_ok :: "platform \<Rightarrow> ('m, 'v, 'w) engine_state \<Rightarrow> bool" where
  "trail_ok P s \<longleftrightarrow> chained P None (ng_events s) \<and> (\<forall>(pid, p) \<in> set (ng_proofs s). verifyProof P p)"

definition ledger_extends :: "platform \<Rightarrow> ('m, 'v, 'w) engine_state \<Rightarrow> ('m, 'v, 'w) engine_state \<Rightarrow> bool" where
  "ledger_extends P s s' \<longleftrightarrow> (trail_ok P s \<longrightarrow> trail_ok P s') \<and> (\<exists>es. ng_events s' = ng_events s @ es)"

lemma chained_append:
  "chained P previous (es @ [e]) \<longleftrightarrow>
     chained P previous es \<and> nv_previousHash e = (if es = [] then previous else Some (nv_eventHash (last es))) \<and>
     nv_eventHash e = createDigest P (event_digested e)"
  by (induction es arbitrary: previous) auto

interpretation ledger: state_order "ledger_extends P"
  by unfold_locales (auto simp add: ledger_extends_def)

lemma recordEvent_extends:
  assumes "ev_platform E = P"
  shows "state_io_rel (ledger_extends P) (recordEvent E i)"
  using assms
  by (auto simp add: state_io_rel_iff recordEvent_def clock_now_def next_id_def Let_def ledger_extends_def trail_ok_def
      chained_append getLatestEvent_def event_digested_def event_fields_def event_json_def)

lemma set_AList_update: "set (AList.update k v xs) \<subseteq> insert (k, v) (set xs)"
  by (induction xs) auto

lemma proof_json_sealed [simp]:
  "proof_json (p\<lparr>np_id := a\<rparr>) = proof_json p" "proof_json (p\<lparr>np_createdAt := b\<rparr>) = proof_json p"
  "proof_json (p\<lparr>np_proofHash := c\<rparr>) = proof_json p"
  by (simp_all add: proof_json_def)

lemma proof_create_extends:
  fixes E :: "('m, 'w) engine_env"
  assumes "ev_platform E = P"
  shows "state_io_rel (ledger_extends P) (proof_create E p)"
proof (rule state_io_relI)
  fix a and s s' :: "('m, 'v, 'w) engine_state"
  assume "run_state (proof_create E p) s = (a, s')"
  then have "ng_proofs s' = AList.update (np_id a) a (ng_proofs s)" "ng_events s' = ng_events s" "verifyProof P a"
    using assms by (auto simp add: proof_create_def saveProof_def clock_now_def next_id_def Let_def verifyProof_def)
  then show "ledger_extends P s s'"
    using set_AList_update [of "np_id a" a "ng_proofs s"] unfolding ledger_extends_def trail_ok_def by auto
qed

text \<open>The ledgers of every engine whose environment computes digests on the platform.\<close>

interpretation ledger: engine_frame "ledger_extends (ev_platform E)" E
  by unfold_locales
    (auto simp add: ledger_extends_def trail_ok_def intro: recordEvent_extends [OF refl] proof_create_extends [OF refl])

interpretation ledger: engine_frame_keys "ledger_extends (ev_platform E)" E
  by unfold_locales (simp add: state_io_rel_iff save_key_def ledger_extends_def trail_ok_def)

lemma step_ledger:
  assumes "engine_step E (s, F, L) (s', F', L')"
  shows "ledger_extends (ev_platform E) s s'"
  using assms
proof (cases rule: engine_step.cases)
  case (finish_step r d startedAt answer out)
  then show ?thesis using state_io_relD [OF ledger.io_run_finish] by blast
next
  case (start_step r d s1 startedAt)
  then show ?thesis
    using state_io_relD [OF ledger.io_preflight] state_io_relD [OF ledger.io_run_start] ledger.trans by blast
next
  case (decline_step r d s1 out)
  then show ?thesis
    using state_io_relD [OF ledger.io_preflight] state_io_relD [OF ledger.io_run_declined] ledger.trans by blast
next
  case (preflight_step r answer)
  then show ?thesis using state_io_relD [OF ledger.io_preflight] by blast
next
  case (submit_step i r)
  then show ?thesis using state_io_relD [OF ledger.io_createEnforcementRequest] by blast
qed (auto simp add: ledger_extends_def trail_ok_def registerAdapter_def setEmergencyDeny_def)

lemma steps_ledger:
  assumes "(engine_step E)\<^sup>*\<^sup>* C C'"
  shows "ledger_extends (ev_platform E) (fst C) (fst C')"
  using assms
proof (induction rule: rtranclp_induct)
  case base
  then show ?case by (rule ledger.refl)
next
  case (step C1 C2)
  obtain s F L s' F' L' where "C1 = (s, F, L)" "C2 = (s', F', L')" by (metis prod_cases3)
  then show ?case using step ledger.trans step_ledger by (metis fst_conv)
qed

text \<open>What an event says, up to the order of the members of its payload.\<close>

definition event_content :: "enforcement_event \<Rightarrow> event_input \<times> json \<times> string \<times> string option" where
  "event_content e =
     ((event_fields e)\<lparr>ei_payload := []\<rparr>, canonical_object (nv_payload e), nv_timestamp e, nv_previousHash e)"

definition payload_ok :: "enforcement_event \<Rightarrow> bool" where
  "payload_ok e \<longleftrightarrow> json_ok (canonical_object (nv_payload e))"

lemma map_option_JStr [simp]: "map_option JStr a = map_option JStr b \<longleftrightarrow> a = b"
  by (metis json.inject(3) option.inj_map_strong)

lemma event_digested_content:
  assumes "event_digested e = event_digested e'"
  shows "event_content e = event_content e'"
proof -
  have "canonical_object (nv_payload e) = canonical_object (nv_payload e') \<and>
      (event_fields e)\<lparr>ei_payload := []\<rparr> = (event_fields e')\<lparr>ei_payload := []\<rparr> \<and>
      nv_timestamp e = nv_timestamp e' \<and> nv_previousHash e = nv_previousHash e'"
    using canonical_object_inject [OF assms [unfolded event_digested_def event_json_def]]
    by (simp add: event_fields_def)
  then show ?thesis by (simp add: event_content_def)
qed

lemma json_ok_text [simp]: "Some v = map_option JStr a \<Longrightarrow> json_ok v"
  by (cases a) simp_all

lemma event_digested_ok:
  assumes "payload_ok e"
  shows "json_ok (event_digested e)"
  unfolding event_digested_def event_json_def
  by (rule json_ok_canonical_object) (use assms in \<open>auto simp add: payload_ok_def event_fields_def\<close>)

lemma same_digest:
  assumes "createDigest P (event_digested e) = createDigest P (event_digested e')" "payload_ok e" "payload_ok e'"
  shows "event_content e = event_content e' \<or> (\<exists>x y. x \<noteq> y \<and> sha256_hex P x = sha256_hex P y)"
proof (cases "json_print P (event_digested e) = json_print P (event_digested e')")
  case True
  then have "event_digested e = event_digested e'"
    using json_print_injective event_digested_ok assms(2,3) by blast
  then show ?thesis using event_digested_content by blast
next
  case False
  then show ?thesis using assms(1) unfolding createDigest_def by blast
qed

lemma chain_determined:
  assumes "chained P None es" "chained P None es'" "es \<noteq> []" "es' \<noteq> []"
    and "nv_eventHash (last es) = nv_eventHash (last es')" "\<forall>e \<in> set es \<union> set es'. payload_ok e"
  shows "map event_content es = map event_content es' \<or> (\<exists>x y. x \<noteq> y \<and> sha256_hex P x = sha256_hex P y)"
  using assms
proof (induction es arbitrary: es' rule: rev_induct)
  case Nil
  then show ?case by simp
next
  case (snoc e es)
  obtain ds d where es': "es' = ds @ [d]" using snoc.prems(4) by (metis rev_exhaust)
  have e: "nv_eventHash e = createDigest P (event_digested e)" and d: "nv_eventHash d = createDigest P (event_digested d)"
    and pe: "nv_previousHash e = (if es = [] then None else Some (nv_eventHash (last es)))"
    and pd: "nv_previousHash d = (if ds = [] then None else Some (nv_eventHash (last ds)))"
    and ch: "chained P None es" "chained P None ds"
    using snoc.prems(1,2) es' by (simp_all add: chained_append)
  have "createDigest P (event_digested e) = createDigest P (event_digested d)" using snoc.prems(5) es' e d by simp
  then consider (same) "event_content e = event_content d" | (collision) "\<exists>x y. x \<noteq> y \<and> sha256_hex P x = sha256_hex P y"
    using same_digest [of P e d] snoc.prems(6) es' by auto
  then show ?case
  proof cases
    case same
    then have "nv_previousHash e = nv_previousHash d" by (simp add: event_content_def)
    then have both: "es = [] \<longleftrightarrow> ds = []" and hash: "es \<noteq> [] \<Longrightarrow> nv_eventHash (last es) = nv_eventHash (last ds)"
      using pe pd by (auto split: if_splits)
    show ?thesis
    proof (cases "es = []")
      case True
      then show ?thesis using both same es' by simp
    next
      case False
      have "\<forall>x \<in> set es \<union> set ds. payload_ok x" using snoc.prems(6) es' by simp
      then have "map event_content es = map event_content ds \<or> (\<exists>x y. x \<noteq> y \<and> sha256_hex P x = sha256_hex P y)"
        using snoc.IH [OF ch False _ hash [OF False]] both False by blast
      then show ?thesis using same es' by simp
    qed
  next
    case collision
    then show ?thesis by blast
  qed
qed


section \<open>Outcomes are recorded\<close>

definition same_results :: "('m, 'v, 'w) engine_state \<Rightarrow> ('m, 'v, 'w) engine_state \<Rightarrow> bool" where
  "same_results s s' \<longleftrightarrow> ng_results s' = ng_results s"

lemma results_recordEvent: "run_state (recordEvent E i) s = (e, s') \<Longrightarrow> ng_results s' = ng_results s"
  by (auto simp add: recordEvent_def clock_now_def next_id_def Let_def)

lemma results_updateRequestStatus: "run_state (updateRequestStatus rid st) s = (e, s') \<Longrightarrow> ng_results s' = ng_results s"
  by (auto simp add: updateRequestStatus_def update_request_def split: option.splits)

lemma results_key_record: "run_state (key_record E key st x) s = (e, s') \<Longrightarrow> ng_results s' = ng_results s"
  by (auto simp add: key_record_def save_key_def clock_now_def split: option.splits)

lemma saved_result:
  "run_state (save_execution_result E rid did st v msg a b prior) s = (x, s') \<Longrightarrow>
     map_of (ng_results s') (nx_id x) = Some x \<and> nx_status x = st \<and> nx_executed x = (st = ResultExecuted) \<and>
     nx_value x = v \<and> nx_errorMessage x = msg \<and> nx_decisionId x = did \<and> nx_requestId x = rid"
  by (auto simp add: save_execution_result_def saveResult_def next_id_def update_conv')

text \<open>
  The outcome of a run: the store holds the result and a proof that verifies, and the proof says
  of the decision and of the execution what the result says.
\<close>

definition recorded ::
  "('m, 'w) engine_env \<Rightarrow> enforcement_decision \<Rightarrow> ('m, 'v, 'w) engine_state \<Rightarrow> ('m, 'v) enforcement_outcome \<Rightarrow> bool" where
  "recorded E d s out \<longleftrightarrow>
     eo_decision out = d \<and>
     map_of (ng_results s) (nx_id (eo_result out)) = Some (eo_result out) \<and>
     map_of (ng_proofs s) (np_id (eo_proof out)) = Some (eo_proof out) \<and>
     verifyProof (ev_platform E) (eo_proof out) \<and>
     np_decisionId (eo_proof out) = nd_id d \<and>
     np_executionResultId (eo_proof out) = Some (nx_id (eo_result out)) \<and>
     np_allowedToExecute (eo_proof out) = nd_allowedToExecute d \<and>
     np_executed (eo_proof out) = nx_executed (eo_result out)"

lemma refreshed:
  "run_state (refreshRequestSideEffects r) s = (r', s') \<Longrightarrow> ng_results s' = ng_results s"
  by (auto simp add: refreshRequestSideEffects_def getSideEffectsByRequest_def replaceRequestSideEffects_def
      update_request_def split: option.splits)

lemma proof_created:
  assumes "run_state (proof_create E p) s = (q, s')"
  shows "map_of (ng_proofs s') (np_id q) = Some q" "verifyProof (ev_platform E) q" "ng_results s' = ng_results s"
    "np_decisionId q = np_decisionId p" "np_executionResultId q = np_executionResultId p"
    "np_allowedToExecute q = np_allowedToExecute p" "np_executed q = np_executed p"
  using assms
  by (auto simp add: proof_create_def saveProof_def clock_now_def next_id_def Let_def verifyProof_def update_conv')

lemma proofs_recordEvent: "run_state (recordEvent E i) s = (e, s') \<Longrightarrow> ng_proofs s' = ng_proofs s"
  by (auto simp add: recordEvent_def clock_now_def next_id_def Let_def)

lemma run_outcome_recorded:
  assumes run: "run_state (run_outcome E r d ids x) s = (answer, s')" and x: "map_of (ng_results s) (nx_id x) = Some x"
  shows "\<exists>out. answer = Inr out \<and> recorded E d s' out \<and> eo_result out = x"
proof -
  obtain r' s1 where r': "run_state (refreshRequestSideEffects r) s = (r', s1)" by (rule prod.exhaust)
  obtain p s2 where p: "run_state (proof_create E (unsealed_proof r' d x ids)) s1 = (p, s2)" by (rule prod.exhaust)
  define i where "i = (plain_event ''enforcement_proof_created'' r' (Some (nd_id d))
       [(''proofHash'', Some (JStr (np_proofHash p)))])\<lparr>ei_proofId := Some (np_id p)\<rparr>"
  obtain e s3 where e: "run_state (recordEvent E i) s2 = (e, s3)" by (rule prod.exhaust)
  note pc = proof_created [OF p] and res = refreshed [OF r'] results_recordEvent [OF e] and kept_proofs = proofs_recordEvent [OF e]
  have stored: "map_of (ng_results s3) (nx_id x) = Some x" "map_of (ng_proofs s3) (np_id p) = Some p"
    using pc res kept_proofs x by simp_all
  then have "run_state (run_outcome E r d ids x) s =
      (Inr \<lparr>eo_request = r', eo_decision = d, eo_result = x, eo_proof = p\<rparr>, s3)"
    unfolding run_outcome_def createProof_def using r' p e by (simp add: i_def)
  then show ?thesis using run stored pc by (auto simp add: recorded_def unsealed_proof_def)
qed

lemma for_each_results:
  assumes "\<And>a s u s'. run_state (f a) s = (u, s') \<Longrightarrow> ng_results s' = ng_results s"
  shows "run_state (for_each f xs) s = (u, s') \<Longrightarrow> ng_results s' = ng_results s"
proof (induction xs arbitrary: s)
  case (Cons a xs)
  obtain v s1 where "run_state (f a) s = (v, s1)" by (rule prod.exhaust)
  then show ?case using Cons assms by fastforce
qed simp

lemma run_declined_recorded:
  assumes "run_state (run_declined E r d ids) s = (answer, s')"
  shows "\<exists>out. answer = Inr out \<and> recorded E d s' out \<and> \<not> nx_executed (eo_result out)"
proof -
  have tail: "\<exists>out. answer = Inr out \<and> recorded E d s' out \<and> \<not> nx_executed (eo_result out)"
    if "run_state (save_execution_result E (nr_id r) (nd_id d) st None None None None prior) s1 = (x, s2)"
      "run_state (run_outcome E r d ids x) s2 = (answer, s')" "st \<noteq> ResultExecuted" for st prior s1 x s2
    using run_outcome_recorded [OF that(2)] saved_result [OF that(1)] that(3) by auto
  show ?thesis
    using assms unfolding run_declined_def by (auto split: if_splits prod.splits intro: tail)
qed

text \<open>The two ends of a run whose executor was invoked.\<close>

lemma recorded_tail:
  assumes "run_state (save_execution_result E (nr_id r) (nd_id d) st v msg a b None) s = (x, s1)"
    and "run_state (key_record E key kst kx) s1 = (u, s2)"
    and "run_state (updateRequestStatus rid rst) s2 = (q, s3)"
    and "run_state (recordEvent E i) s3 = (e, s4)"
    and "run_state (run_outcome E r d ids x) s4 = (answer, s')"
  shows "\<exists>out. answer = Inr out \<and> recorded E d s' out \<and> nx_executed (eo_result out) = (st = ResultExecuted) \<and>
    nx_value (eo_result out) = v \<and> nx_errorMessage (eo_result out) = msg"
proof -
  have "map_of (ng_results s4) (nx_id x) = Some x"
    using saved_result [OF assms(1)] results_key_record [OF assms(2)] results_updateRequestStatus [OF assms(3)]
      results_recordEvent [OF assms(4)] by simp
  then show ?thesis using run_outcome_recorded [OF assms(5)] saved_result [OF assms(1)] by auto
qed

lemma run_failed_recorded:
  assumes "run_state (run_failed E r d ids startedAt message) s = (answer, s')"
  shows "\<exists>out. answer = Inr out \<and> recorded E d s' out \<and> \<not> nx_executed (eo_result out) \<and>
    nx_value (eo_result out) = None \<and> nx_errorMessage (eo_result out) = Some message"
  using assms unfolding run_failed_def recordFailure_def
  by (auto split: prod.splits dest!: recorded_tail)

lemma run_executed_recorded:
  assumes "run_state (run_executed E r d ids startedAt v) s = (answer, s')"
  shows "\<exists>out. answer = Inr out \<and> recorded E d s' out \<and> nx_executed (eo_result out) \<and>
    nx_value (eo_result out) = v \<and> nx_errorMessage (eo_result out) = None"
  using assms unfolding run_executed_def recordSuccess_def
  by (auto split: prod.splits dest!: recorded_tail)

lemma run_finish_recorded:
  assumes "run_state (run_finish E r d startedAt answer) s = (x, s')"
  shows "\<exists>out. x = Inr out \<and> recorded E d s' out \<and> nx_executed (eo_result out) = (\<not> isl answer) \<and>
    nx_value (eo_result out) = (case answer of Inl m \<Rightarrow> None | Inr v \<Rightarrow> v) \<and>
    nx_errorMessage (eo_result out) = (case answer of Inl m \<Rightarrow> Some m | Inr v \<Rightarrow> None)"
  using assms run_failed_recorded run_executed_recorded unfolding run_finish_def
  by (cases answer) fastforce+


lemma status_control: "same_control s s' \<Longrightarrow> key_status s' k = key_status s k"
  by (simp add: same_control_def key_status_def)

lemma key_record_status:
  "run_state (key_record E (Some k) st x) s = (u, s') \<Longrightarrow> key_status s' k = Some st"
  by (auto simp add: key_record_def save_key_def key_status_def update_conv' split: prod.splits)

lemma status_tail:
  assumes "run_state (key_record E (Some k) st kx) s1 = (u, s2)"
    and "run_state (updateRequestStatus rid rst) s2 = (q, s3)"
    and "run_state (recordEvent E i) s3 = (e, s4)"
    and "run_state (run_outcome E r d ids x) s4 = (answer, s')"
  shows "key_status s' k = Some st"
proof -
  have "same_control s2 s3"
    using state_io_relD [OF control.io_update_request assms(2) [unfolded updateRequestStatus_def]] .
  moreover have "same_control s3 s4" using state_io_relD [OF control.events assms(3)] .
  moreover have "same_control s4 s'" using state_io_relD [OF control.io_run_outcome assms(4)] .
  ultimately show ?thesis using key_record_status [OF assms(1)] status_control by metis
qed

lemma run_finish_status:
  assumes "run_state (run_finish E r d startedAt answer) s = (x, s')" "nr_idempotencyKey r = Some k"
  shows "key_status s' k = Some (if isl answer then KeyFailed else KeySucceeded)"
proof (cases answer)
  case (Inl message)
  then show ?thesis using assms unfolding run_finish_def run_failed_def recordFailure_def
    by (auto split: prod.splits dest!: status_tail)
next
  case (Inr v)
  obtain c1 s1 where 1: "run_state (clock_now E) s = (c1, s1)" by (rule prod.exhaust)
  obtain s2 where 2: "run_state (for_each (\<lambda>sid. markExecuted E sid (nr_trustDomainId r) (Some (nr_actorId r)))
      (map sd_id (nr_sideEffects r))) s1 = ((), s2)" by (metis old.unit.exhaust prod.exhaust)
  obtain y s3 where 3: "run_state (save_execution_result E (nr_id r) (nd_id d) ResultExecuted v None (Some startedAt)
      (Some c1) None) s2 = (y, s3)" by (rule prod.exhaust)
  obtain u s4 where 4: "run_state (key_record E (Some k) KeySucceeded (Some (nx_id y))) s3 = (u, s4)" by (rule prod.exhaust)
  obtain q s5 where 5: "run_state (updateRequestStatus (nr_id r) StatusExecuted) s4 = (q, s5)" by (rule prod.exhaust)
  define i where "i = (plain_event ''execution_succeeded'' r (Some (nd_id d)) [])\<lparr>ei_executionResultId := Some (nx_id y)\<rparr>"
  obtain e s6 where 6: "run_state (recordEvent E i) s5 = (e, s6)" by (rule prod.exhaust)
  obtain out s7 where 7: "run_state (run_outcome E r d (map sd_id (nr_sideEffects r)) y) s6 = (out, s7)" by (rule prod.exhaust)
  obtain o' where o': "out = Inr o'" using recorded_tail [OF 3 4 5 6 7] by blast
  have "run_state (run_finish E r d startedAt answer) s = (Inr o', s7)"
    unfolding run_finish_def run_executed_def recordSuccess_def Inr using 1 2 3 4 5 6 7 o' assms(2)
    by (simp add: i_def)
  then have "s' = s7" using assms(1) by simp
  then show ?thesis using status_tail [OF 4 5 6 7] Inr by simp
qed

lemma trail_ok_empty: "trail_ok P (empty_engine emergencyDeny w)"
  by (simp add: trail_ok_def empty_engine_def)

section \<open>The properties of the engine\<close>

text \<open>
  What one preflight reads, in the order it does: the clock, in the state the preflight begins in;
  the recognition provider, after the event that it started; the idempotency key; and the policy
  packs, each in the state the one before left.
\<close>

definition preflight_reads ::
  "('m, 'w) engine_env \<Rightarrow> ('m, 'v, 'w) engine_state \<Rightarrow> 'm enforcement_request \<Rightarrow> string \<Rightarrow> recognition_result option \<Rightarrow>
     policy_pack_result \<Rightarrow> bool" where
  "preflight_reads E s r now recognition pack \<longleftrightarrow>
     (\<exists>s1 e s2 w check s3 s4.
        run_state (clock_now E) s = (now, s1) \<and>
        run_state (recordEvent E ((plain_event ''preflight_started'' r None
          [(''action'', Some (JStr (nr_action r))), (''mode'', Some (JStr (mode_name (nr_mode r))))])
          \<lparr>ei_principalActorId := nr_principalActorId r\<rparr>)) s1 = (e, s2) \<and>
        ev_verifyAction E (verification_input r now) (ng_world s2) = (Inr recognition, w) \<and>
        run_state (key_check E (nr_idempotencyKey r) (nr_id r)) (s2\<lparr>ng_world := w\<rparr>) = (check, s3) \<and>
        run_state (evaluatePolicyPackForRequest E r now recognition) s3 = (pack, s4))"

text \<open>
  The recognition answers that admit execution: the type \<open>allow\<close>, and also every type outside the
  twelve known ones whose answer says that it is allowed or merely that the actor is recognized.
\<close>

definition recognition_admits :: "recognition_result \<Rightarrow> bool" where
  "recognition_admits x \<longleftrightarrow>
     rg_type x = JSString ''allow'' \<or>
     (\<exists>t. rg_type x = JSString t \<and> t \<noteq> [] \<and>
        t \<notin> {''allow'', ''require_human_approval'', ''require_more_evidence'', ''unrecognized_actor'', ''rogue_actor'',
             ''invalid_capability'', ''revoked'', ''expired'', ''out_of_scope'', ''policy_violation'', ''deny'', ''invalid_passport''} \<and>
        (rg_allowed x \<or> rg_recognized x))"

definition permits_execution ::
  "platform \<Rightarrow> bool \<Rightarrow> ('m, 'v, 'w) engine_state \<Rightarrow> 'm enforcement_request \<Rightarrow> string \<Rightarrow> recognition_result option \<Rightarrow>
     policy_pack_result \<Rightarrow> bool" where
  "permits_execution P retry s r now recognition pack \<longleftrightarrow>
     \<not> ng_emergencyDeny s \<and>
     (\<exists>x. recognition = Some x \<and> recognition_admits x \<and> rg_reasonCode x \<noteq> None \<and> rg_reason x \<noteq> None \<and>
        (rg_approvalRequestId x = None \<or> rg_approvalProofId x \<noteq> None) \<and>
        (in_sideEffectType (nr_intent r) \<in> set REQUIRES_APPROVAL_PROOF \<longrightarrow> rg_approvalProofId x \<noteq> None)) \<and>
     (\<forall>a. registered_adapter s r = Some a \<longrightarrow>
        ac_allowed (evaluateAdapterPermission a (nr_action r) (nr_capability r) (nr_resourceScope r) (nr_idempotencyKey r))) \<and>
     (pk_type pack = ''policy_not_applicable'' \<or> pk_allowed pack) \<and>
     key_verdict retry (ng_keys s) (nr_idempotencyKey r) \<noteq> KeyDuplicateSuccess \<and>
     (\<forall>expiresAt deadline instant. nr_expiresAt r = Some expiresAt \<longrightarrow>
        Date_parse P expiresAt = Some deadline \<longrightarrow> Date_parse P now = Some instant \<longrightarrow> instant \<le> deadline) \<and>
     nr_mode r \<noteq> DryRunMode"

lemma recognition_admits_iff:
  "recognition_admits x \<longleftrightarrow> mr_decisionType (mapRecognitionResult (Some x)) = ExecuteAllowed"
proof (cases "recognition_type_text (rg_type x)")
  case None
  then have "rg_type x \<noteq> JSString t" if "t \<noteq> []" for t using that by auto
  then show ?thesis using None by (auto simp add: recognition_admits_def mapRecognitionResult_def)
next
  case (Some t)
  then have t: "rg_type x = JSString t" "t \<noteq> []" by (cases "rg_type x"; simp split: if_splits)+
  show ?thesis
  proof (cases "map_of RECOGNITION_TYPE_MAP t")
    case None
    then show ?thesis using t by (auto simp add: recognition_admits_def mapRecognitionResult_def RECOGNITION_TYPE_MAP_def)
  next
    case (Some known)
    then have "t = ''allow'' \<longleftrightarrow> known = ExecuteAllowed" "t \<in> fst ` set RECOGNITION_TYPE_MAP"
      using map_of_SomeD [OF Some] by (auto simp add: RECOGNITION_TYPE_MAP_def split: if_splits)
    then show ?thesis using Some t by (auto simp add: recognition_admits_def mapRecognitionResult_def RECOGNITION_TYPE_MAP_def)
  qed
qed

lemma preflight_verdict:
  assumes "run_state (preflight E r) s = (Inr d, s')"
  shows "\<exists>now recognition check pack. preflight_reads E s r now recognition pack \<and>
    ic_outcome check = key_verdict (ev_allowRetryAfterFailure E) (ng_keys s) (nr_idempotencyKey r) \<and>
    nd_type d = pe_decisionType (evaluate_policies (ev_policies E)
      (policy_context_of now r recognition (registered_adapter s r) (ng_emergencyDeny s) check pack)) \<and>
    nd_allowedToExecute d = isExecutable (nd_type d)"
proof -
  obtain now s1 where clock: "run_state (clock_now E) s = (now, s1)" by (rule prod.exhaust)
  define i where "i = (plain_event ''preflight_started'' r None
       [(''action'', Some (JStr (nr_action r))), (''mode'', Some (JStr (mode_name (nr_mode r))))])
       \<lparr>ei_principalActorId := nr_principalActorId r\<rparr>"
  obtain e s2 where event: "run_state (recordEvent E i) s1 = (e, s2)" by (rule prod.exhaust)
  obtain answer w where verify: "ev_verifyAction E (verification_input r now) (ng_world s2) = (answer, w)" by (rule prod.exhaust)
  let ?s = "s2\<lparr>ng_world := w\<rparr>"
  have "run_state (preflight E r) s = (case answer of Inl e \<Rightarrow> (Inl e, ?s)
      | Inr recognition \<Rightarrow> (case run_state (preflight_decide E r now recognition) ?s of (d, s') \<Rightarrow> (Inr d, s')))"
    unfolding preflight_def i_def [symmetric] using clock event verify by (simp split: sum.split)
  then obtain recognition where ok: "answer = Inr recognition" "run_state (preflight_decide E r now recognition) ?s = (d, s')"
    using assms by (auto split: sum.splits prod.splits)
  obtain check s3 where check: "run_state (key_check E (nr_idempotencyKey r) (nr_id r)) ?s = (check, s3)" by (rule prod.exhaust)
  obtain pack s4 where pack: "run_state (evaluatePolicyPackForRequest E r now recognition) s3 = (pack, s4)" by (rule prod.exhaust)
  have "same_control s s1" using state_io_relD [OF control.io_clock clock] .
  moreover have "same_control s1 s2" using state_io_relD [OF control.events event] .
  ultimately have kept: "same_control s ?s" by (simp add: same_control_def)
  note k = key_check_verdict [OF check]
  have "same_control s3 s4" using state_io_relD [OF control.io_pack pack] .
  then have switch: "ng_emergencyDeny s4 = ng_emergencyDeny s" using k(4) kept by (simp add: same_control_def)
  define ev where "ev = evaluate_policies (ev_policies E)
      (policy_context_of now r recognition (registered_adapter ?s r) (ng_emergencyDeny s4) check pack)"
  obtain d1 s5 where dec: "run_state (createDecision E r ev recognition (if ev_policyPack E = None then None else Some pack)) s4 = (d1, s5)"
    by (rule prod.exhaust)
  have "d1 = d" using ok(2) check pack dec
    by (auto simp add: preflight_decide_def Let_def registered_adapter_def [symmetric] ev_def [symmetric] split: prod.splits)
  then have "nd_type d = pe_decisionType ev \<and> nd_allowedToExecute d = isExecutable (nd_type d)"
    using createDecision_result(1,2) [OF dec] by simp
  then have "nd_type d = pe_decisionType (evaluate_policies (ev_policies E)
      (policy_context_of now r recognition (registered_adapter s r) (ng_emergencyDeny s) check pack)) \<and>
    nd_allowedToExecute d = isExecutable (nd_type d)"
    using switch registered_adapter_control [OF kept] by (simp add: ev_def)
  moreover have "ic_outcome check = key_verdict (ev_allowRetryAfterFailure E) (ng_keys s) (nr_idempotencyKey r)"
    using k(1) kept by (simp add: same_control_def)
  moreover have "preflight_reads E s r now recognition pack"
    unfolding preflight_reads_def i_def [symmetric] using clock event verify ok(1) check pack by blast
  ultimately show ?thesis by blast
qed

lemma permits_execution_iff:
  assumes "ic_outcome check = key_verdict retry (ng_keys s) (nr_idempotencyKey r)"
  shows "clear_to_execute P (policy_context_of now r recognition (registered_adapter s r) (ng_emergencyDeny s) check pack) \<longleftrightarrow>
    permits_execution P retry s r now recognition pack"
proof (cases recognition)
  case None
  then show ?thesis by (simp add: clear_to_execute_def permits_execution_def policy_context_of_def Let_def)
next
  case (Some x)
  have "recognition_admits x \<Longrightarrow> recognition_type_text (rg_type x) \<noteq> None"
    by (auto simp add: recognition_admits_def)
  then show ?thesis
    using Some assms recognition_admits_iff [of x]
    by (auto simp add: clear_to_execute_def permits_execution_def policy_context_of_def Let_def)
qed

text \<open>
  C17: Whether an action may execute is decided by what this preflight read.  Under the default
  chain a decision allows execution exactly if the emergency switch is off, the recognition
  provider's answer admits it, no approval is missing, the registered adapter and the policy packs
  permit it, the key is not spent, the request is not past its deadline and it is not a dry run.
  An answer admits execution if its type is \<open>allow\<close>, and also if its type is unknown and it says that
  the action is allowed or that the actor is recognized; the comment on the mapping says that
  \<open>allow\<close> is the only type that ever permits execution and that an unknown one always blocks.
\<close>

theorem enforcement_decision_exact:
  assumes "run_state (preflight E r) s = (Inr d, s')"
    and "ev_policies E = createDefaultEnforcementPolicyChain P"
  shows "\<exists>now recognition pack. preflight_reads E s r now recognition pack \<and>
    (nd_allowedToExecute d \<longleftrightarrow> permits_execution P (ev_allowRetryAfterFailure E) s r now recognition pack)"
proof -
  obtain now recognition check pack where reads: "preflight_reads E s r now recognition pack"
    and check: "ic_outcome check = key_verdict (ev_allowRetryAfterFailure E) (ng_keys s) (nr_idempotencyKey r)"
    and type: "nd_type d = pe_decisionType (evaluate_policies (ev_policies E)
      (policy_context_of now r recognition (registered_adapter s r) (ng_emergencyDeny s) check pack))"
      "nd_allowedToExecute d = isExecutable (nd_type d)"
    using preflight_verdict [OF assms(1)] by blast
  have "nd_allowedToExecute d \<longleftrightarrow> permits_execution P (ev_allowRetryAfterFailure E) s r now recognition pack"
    using type assms(2) permits_execution_iff [OF check]
    by (simp add: isExecutable_def EXECUTABLE_DECISION_TYPES_def default_chain_clear)
  then show ?thesis using reads by blast
qed

text \<open>
  C8: The executor is invoked at most once, and only under a decision that allows it.  If the
  recognition provider threw, or the decision does not allow execution, a run does not depend on
  the executor at all; otherwise it is invoked once, in the world the engine left, and the outcome
  reports its value or its error.  In every case but the provider's failure the result and a proof
  that verifies and agrees with it are in the store.
\<close>

theorem executor_guarded:
  "(\<exists>e s1. run_state (preflight E r) s = (Inl e, s1) \<and>
      run_state (run E r execute) s = (Inl (ProviderThrew e), s1)) \<or>
   (\<exists>d s1 out s'. run_state (preflight E r) s = (Inr d, s1) \<and> \<not> nd_allowedToExecute d \<and>
      (\<forall>execute'. run_state (run E r execute') s = (Inr out, s')) \<and>
      recorded E d s' out \<and> \<not> nx_executed (eo_result out)) \<or>
   (\<exists>d s1 startedAt s2 out s'. run_state (preflight E r) s = (Inr d, s1) \<and> nd_allowedToExecute d \<and>
      run_state (run_start E r d) s1 = (startedAt, s2) \<and>
      run_state (run E r execute) s = (Inr out, s') \<and>
      run_state (run_finish E r d startedAt (fst (execute (ng_world s2))))
        (s2\<lparr>ng_world := snd (execute (ng_world s2))\<rparr>) = (Inr out, s') \<and>
      recorded E d s' out \<and>
      nx_executed (eo_result out) = (\<not> isl (fst (execute (ng_world s2)))) \<and>
      nx_value (eo_result out) = (case fst (execute (ng_world s2)) of Inl m \<Rightarrow> None | Inr v \<Rightarrow> v) \<and>
      nx_errorMessage (eo_result out) = (case fst (execute (ng_world s2)) of Inl m \<Rightarrow> Some m | Inr v \<Rightarrow> None))"
proof -
  obtain answer s1 where pre: "run_state (preflight E r) s = (answer, s1)" by (rule prod.exhaust)
  show ?thesis
  proof (cases answer)
    case (Inl e)
    then show ?thesis using pre by (simp add: run_def)
  next
    case (Inr d)
    show ?thesis
    proof (cases "nd_allowedToExecute d")
      case False
      obtain x s' where x: "run_state (run_declined E r d (map sd_id (nr_sideEffects r))) s1 = (x, s')" by (rule prod.exhaust)
      have "run_state (run E r execute') s = (x, s')" for execute' using pre Inr False x by (simp add: run_def)
      then show ?thesis using run_declined_recorded [OF x] pre Inr False by blast
    next
      case True
      obtain startedAt s2 where st: "run_state (run_start E r d) s1 = (startedAt, s2)" by (rule prod.exhaust)
      obtain x s' where x: "run_state (run_finish E r d startedAt (fst (execute (ng_world s2))))
          (s2\<lparr>ng_world := snd (execute (ng_world s2))\<rparr>) = (x, s')" by (rule prod.exhaust)
      have "run_state (run E r execute) s = (x, s')" using pre Inr True st x by (simp add: run_def)
      then show ?thesis using run_finish_recorded [OF x] pre Inr True st x by blast
    qed
  qed
qed

text \<open>
  C9: One execution per idempotency key.  If failed executions are not retried, then however runs
  overlap, no executor is ever invoked a second time under the same key.
\<close>

theorem one_execution_per_key:
  assumes "ev_policies E = createDefaultEnforcementPolicyChain P" and "\<not> ev_allowRetryAfterFailure E"
    and "(engine_step E)\<^sup>*\<^sup>* (empty_engine emergencyDeny w, [], []) (s, F, L)"
  shows "starts k L \<le> 1"
proof -
  have "started_once C" if "(engine_step E)\<^sup>*\<^sup>* (empty_engine emergencyDeny w, [], []) C" for C
    using that
  proof (induction rule: rtranclp_induct)
    case base
    then show ?case by (simp add: started_once_def starts_def)
  next
    case (step C1 C2)
    then show ?case using started_once_step [OF assms(1,2)] by (metis prod_cases3)
  qed
  then show ?thesis using assms(3) unfolding started_once_def by fastforce
qed

text \<open>
  A success is final.  Once an execution under a key has succeeded and no other run under it is
  open, no executor is ever invoked under that key again, even if failed executions may be retried
  and whatever else the engine does.
\<close>

theorem succeeded_key_final:
  assumes "ev_policies E = createDefaultEnforcementPolicyChain P"
    and "run_state (run_finish E r d startedAt (Inr v)) s = (out, s1)" and "nr_idempotencyKey r = Some k"
    and "\<forall>(r', d', t) \<in> set F. nr_idempotencyKey r' \<noteq> Some k"
    and "(engine_step E)\<^sup>*\<^sup>* (s1, F, L) (s', F', L')"
  shows "starts k L' = starts k L \<and> key_status s' k = Some KeySucceeded"
proof -
  have "closed_key k KeySucceeded (starts k L) (s1, F, L)"
    using run_finish_status [OF assms(2,3)] assms(4) by (simp add: closed_key_def)
  then have "closed_key k KeySucceeded (starts k L) (s', F', L')"
    using closed_key_steps [OF assms(1) _ assms(5)] by blast
  then show ?thesis by (simp add: closed_key_def)
qed

text \<open>
  C36: The audit trail is intact.  Whatever the engine does, and however runs overlap, events are
  only ever appended, each carries the digest of what it says and of its predecessor's digest, and
  every proof in the store verifies.
\<close>

theorem enforcement_ledger_intact:
  assumes "(engine_step E)\<^sup>*\<^sup>* (empty_engine emergencyDeny w, [], []) (s, F, L)"
    and "(engine_step E)\<^sup>*\<^sup>* (s, F, L) (s', F', L')"
  shows "trail_ok (ev_platform E) s \<and> trail_ok (ev_platform E) s' \<and> (\<exists>es. ng_events s' = ng_events s @ es)"
proof -
  have "ledger_extends (ev_platform E) (empty_engine emergencyDeny w) s" "ledger_extends (ev_platform E) s s'"
    using steps_ledger [OF assms(1)] steps_ledger [OF assms(2)] by simp_all
  then have "trail_ok (ev_platform E) s" "ledger_extends (ev_platform E) s s'"
    by (simp_all add: ledger_extends_def trail_ok_empty)
  then show ?thesis by (simp add: ledger_extends_def)
qed

text \<open>
  The last digest commits to the whole trail.  Two chains of events that end in the same digest
  say the same, event by event, or exhibit two texts with one SHA-256 digest.
\<close>

theorem enforcement_trail_committed:
  assumes "chained P None es" "chained P None es'" "es \<noteq> []" "es' \<noteq> []"
    and "nv_eventHash (last es) = nv_eventHash (last es')" "\<forall>e \<in> set es \<union> set es'. payload_ok e"
  shows "map event_content es = map event_content es' \<or> (\<exists>x y. x \<noteq> y \<and> sha256_hex P x = sha256_hex P y)"
  by (rule chain_determined [OF assms])


section \<open>An engine that runs\<close>

text \<open>
  A composition for the examples: a recognition provider that answers the same to every question,
  the default chain, a clock that stands still and identifiers that count up.
\<close>

definition example_recognition :: "string \<Rightarrow> recognition_result" where
  "example_recognition type =
     \<lparr>rg_id = Some ''recognition-1'', rg_type = JSString type, rg_allowed = (type = ''allow''), rg_recognized = True,
      rg_reasonCode = Some ''OK'', rg_reason = Some ''recognized'', rg_authorityDecisionId = None,
      rg_authorityProofId = None, rg_approvalRequestId = None, rg_approvalDecisionId = None,
      rg_approvalProofId = None, rg_handshakeDecisionId = None, rg_handshakeProofId = None\<rparr>"

definition example_env :: "string \<Rightarrow> bool \<Rightarrow> (unit, nat) engine_env" where
  "example_env type retry =
     \<lparr>ev_platform = example_platform, ev_now = (\<lambda>n. (''2026-01-01T00:00:00.000Z'', n)),
      ev_nextId = (\<lambda>prefix n. (prefix @ replicate n CHR ''i'', Suc n)),
      ev_verifyAction = (\<lambda>i n. (Inr (Some (example_recognition type)), n)), ev_policyPack = None,
      ev_policies = createDefaultEnforcementPolicyChain example_platform, ev_allowRetryAfterFailure = retry\<rparr>"

definition example_guard_input :: "unit guard_input" where
  "example_guard_input =
     \<lparr>gi_actorId = ''agent'', gi_principalActorId = None, gi_trustDomainId = ''domain'', gi_action = ''pay'',
      gi_capability = None, gi_resourceScope = ''account'', gi_targetId = None, gi_targetType = None,
      gi_targetName = None, gi_adapterId = None, gi_riskLevel = None, gi_sideEffectType = None,
      gi_description = None, gi_idempotencyKey = Some ''k'', gi_mode = None, gi_expiresAt = None,
      gi_actionRequestId = None, gi_approvalProofId = None, gi_approvalRequestId = None,
      gi_approvalDecisionId = None, gi_visaId = None, gi_ingressGrantId = None, gi_handshakeProofId = None,
      gi_policyEvaluationInput = None, gi_metadata = None\<rparr>"

definition example_enforcement_request :: "unit enforcement_request" where
  "example_enforcement_request = request_input example_guard_input ExecuteMode None"

lemma example_env_fields [simp]:
  "ev_policies (example_env type retry) = createDefaultEnforcementPolicyChain example_platform"
  "ev_allowRetryAfterFailure (example_env type retry) = retry"
  "ev_platform (example_env type retry) = example_platform"
  "ev_policyPack (example_env type retry) = None"
  "fst (ev_verifyAction (example_env type retry) i n) = Inr (Some (example_recognition type))"
  by (simp_all add: example_env_def)

lemma example_enforcement_request_fields [simp]:
  "nr_idempotencyKey example_enforcement_request = Some ''k''" "nr_sideEffects example_enforcement_request = []"
  "tg_adapterId (nr_target example_enforcement_request) = None" "nr_expiresAt example_enforcement_request = None"
  "nr_mode example_enforcement_request = ExecuteMode" "in_sideEffectType (nr_intent example_enforcement_request) = ''write''"
  by (simp_all add: example_enforcement_request_def request_input_def example_guard_input_def buildTarget_def buildIntent_def
      given_def Let_def)

text \<open>Nothing but an emergency or a spent key stops a run there.\<close>

lemma preflight_answers:
  assumes "\<And>i w. \<not> isl (fst (ev_verifyAction E i w))"
  shows "\<exists>d s'. run_state (preflight E r) s = (Inr d, s')"
proof -
  obtain answer s' where run: "run_state (preflight E r) s = (answer, s')" by (rule prod.exhaust)
  have "\<not> isl answer"
    using run assms unfolding preflight_def
    by (auto split: prod.splits sum.splits) (metis fst_conv isl_def)+
  then show ?thesis using run by (cases answer) auto
qed

lemma example_mapped:
  "map_of RECOGNITION_TYPE_MAP type \<in> {None, Some ExecuteAllowed} \<Longrightarrow> type \<noteq> [] \<Longrightarrow>
     mr_decisionType (mapRecognitionResult (Some (example_recognition type))) = ExecuteAllowed"
  by (auto simp add: mapRecognitionResult_def example_recognition_def)

text \<open>An action that the engine lets execute, by what its parts answer.\<close>

definition unobstructed :: "('m, 'w) engine_env \<Rightarrow> ('m, 'v, 'w) engine_state \<Rightarrow> 'm enforcement_request \<Rightarrow> bool" where
  "unobstructed E s r \<longleftrightarrow>
     \<not> ng_emergencyDeny s \<and>
     (\<forall>i w. \<exists>x. fst (ev_verifyAction E i w) = Inr (Some x) \<and>
        mr_decisionType (mapRecognitionResult (Some x)) = ExecuteAllowed \<and> rg_reasonCode x \<noteq> None \<and> rg_reason x \<noteq> None \<and>
        (rg_approvalRequestId x = None \<or> rg_approvalProofId x \<noteq> None) \<and>
        (in_sideEffectType (nr_intent r) \<in> set REQUIRES_APPROVAL_PROOF \<longrightarrow> rg_approvalProofId x \<noteq> None)) \<and>
     (\<forall>a. registered_adapter s r = Some a \<longrightarrow>
        ac_allowed (evaluateAdapterPermission a (nr_action r) (nr_capability r) (nr_resourceScope r) (nr_idempotencyKey r))) \<and>
     (\<forall>now x p. pack_read E r now x p \<longrightarrow> pk_type p = ''policy_not_applicable'' \<or> pk_allowed p) \<and>
     key_verdict (ev_allowRetryAfterFailure E) (ng_keys s) (nr_idempotencyKey r) \<noteq> KeyDuplicateSuccess \<and>
     nr_expiresAt r = None \<and> nr_mode r \<noteq> DryRunMode"

lemma mapped_allowed_type:
  "mr_decisionType (mapRecognitionResult (Some x)) = ExecuteAllowed \<Longrightarrow> recognition_type_text (rg_type x) \<noteq> None"
  by (auto simp add: mapRecognitionResult_def split: option.splits)

lemma unobstructed_allowed:
  assumes "ev_policies E = createDefaultEnforcementPolicyChain P" and un: "unobstructed E s r"
  shows "\<exists>d s'. run_state (preflight E r) s = (Inr d, s') \<and> nd_allowedToExecute d"
proof -
  note u = un [unfolded unobstructed_def]
  have "\<not> isl (fst (ev_verifyAction E i w))" for i w using u by (metis sum.disc(2))
  then obtain d s' where run: "run_state (preflight E r) s = (Inr d, s')" using preflight_answers [of E r s] by blast
  obtain c where "decided_on E s r d c" using preflight_cases [OF run] by blast
  then obtain now recognition check pack w where
    answer: "fst (ev_verifyAction E (verification_input r now) w) = Inr recognition"
    and check: "ic_outcome check = key_verdict (ev_allowRetryAfterFailure E) (ng_keys s) (nr_idempotencyKey r)"
    and pack: "pack_read E r now recognition pack"
    and c: "c = policy_context_of now r recognition (registered_adapter s r) (ng_emergencyDeny s) check pack"
    and d: "nd_type d = pe_decisionType (evaluate_policies (ev_policies E) c)" "nd_allowedToExecute d = isExecutable (nd_type d)"
    unfolding decided_on_def by blast
  obtain x where x: "recognition = Some x" "mr_decisionType (mapRecognitionResult (Some x)) = ExecuteAllowed"
      "rg_reasonCode x \<noteq> None" "rg_reason x \<noteq> None" "rg_approvalRequestId x = None \<or> rg_approvalProofId x \<noteq> None"
      "in_sideEffectType (nr_intent r) \<in> set REQUIRES_APPROVAL_PROOF \<longrightarrow> rg_approvalProofId x \<noteq> None"
    using u answer by (metis sum.inject(2))
  have "clear_to_execute P c"
    using u check pack x mapped_allowed_type [OF x(2)]
    by (simp add: clear_to_execute_def c policy_context_of_def Let_def)
  then have "nd_allowedToExecute d"
    using d assms(1) by (simp add: default_chain_clear isExecutable_def EXECUTABLE_DECISION_TYPES_def)
  then show ?thesis using run by blast
qed

lemma example_unobstructed:
  assumes "map_of RECOGNITION_TYPE_MAP type \<in> {None, Some ExecuteAllowed}" "type \<noteq> []"
    and "\<not> ng_emergencyDeny s" "key_verdict retry (ng_keys s) (Some ''k'') \<noteq> KeyDuplicateSuccess"
  shows "unobstructed (example_env type retry) s example_enforcement_request"
  using assms(3,4) example_mapped [OF assms(1,2)]
  by (simp add: unobstructed_def registered_adapter_def pack_read_def NOT_CONFIGURED_RESULT_def bare_pack_result_def
      REQUIRES_APPROVAL_PROOF_def example_recognition_def)

lemmas example_allowed = unobstructed_allowed [OF example_env_fields(1) example_unobstructed]


text \<open>The switch is only set by its own operation.\<close>

definition same_switch :: "('m, 'v, 'w) engine_state \<Rightarrow> ('m, 'v, 'w) engine_state \<Rightarrow> bool" where
  "same_switch s s' \<longleftrightarrow> ng_emergencyDeny s' = ng_emergencyDeny s"

interpretation switch: state_order same_switch
  by unfold_locales (simp_all add: same_switch_def)

interpretation switch: engine_frame same_switch E
  by unfold_locales (auto simp add: same_switch_def same_control_def intro: io_control control.events control.proofs)

interpretation switch: engine_frame_keys same_switch E
  by unfold_locales (simp add: state_io_rel_iff save_key_def same_switch_def)

abbreviation example_engine :: "(unit, unit, nat) engine_state" where
  "example_engine \<equiv> empty_engine False 0"

lemma example_start:
  assumes type: "map_of RECOGNITION_TYPE_MAP type \<in> {None, Some ExecuteAllowed}" "type \<noteq> []"
    and s: "\<not> ng_emergencyDeny s" "key_verdict retry (ng_keys s) (Some ''k'') \<noteq> KeyDuplicateSuccess"
  shows "\<exists>d t s'. engine_step (example_env type retry) (s, F, L) (s', (example_enforcement_request, d, t) # F, L @ [Started (Some ''k'')]) \<and>
    \<not> ng_emergencyDeny s' \<and> records_kept s s'"
proof -
  let ?E = "example_env type retry"
  obtain d s1 where d: "run_state (preflight ?E example_enforcement_request) s = (Inr d, s1)" "nd_allowedToExecute d"
    using example_allowed [OF assms] by blast
  obtain t s' where t: "run_state (run_start ?E example_enforcement_request d) s1 = (t, s')" by (rule prod.exhaust)
  have "engine_step ?E (s, F, L) (s', (example_enforcement_request, d, t) # F, L @ [Started (nr_idempotencyKey example_enforcement_request)])"
    by (rule start_step [OF d t])
  moreover have "same_switch s s'"
    using state_io_relD [OF switch.io_preflight d(1)] state_io_relD [OF switch.io_run_start t] switch.trans by blast
  moreover have "records_kept s s'"
    using state_io_relD [OF kept_operations(1) d(1)] state_io_relD [OF kept.io_run_start t] kept.trans by blast
  ultimately show ?thesis using s(1) unfolding same_switch_def by auto
qed

lemma example_finish:
  assumes "(example_enforcement_request, d, t) \<in> set F" "\<not> ng_emergencyDeny s"
  shows "\<exists>out s'. run_state (run_finish E example_enforcement_request d t answer) s = (out, s') \<and>
    engine_step E (s, F, L)
      (s', remove1 (example_enforcement_request, d, t) F, L @ [Ended (Some ''k'') (\<exists>v. answer = Inr v)]) \<and>
    \<not> ng_emergencyDeny s' \<and> key_status s' ''k'' = Some (if isl answer then KeyFailed else KeySucceeded)"
proof -
  obtain out s' where run: "run_state (run_finish E example_enforcement_request d t answer) s = (out, s')" by (rule prod.exhaust)
  have "same_switch s s'" using state_io_relD [OF switch.io_run_finish run] .
  then show ?thesis
    using run finish_step [OF assms(1) run] run_finish_status [OF run] assms(2) unfolding same_switch_def by auto
qed

lemma fresh_key: "key_verdict retry (ng_keys (empty_engine b w)) (Some k) \<noteq> KeyDuplicateSuccess"
  by (simp add: key_verdict_def empty_engine_def)

lemma example_first_start:
  "\<exists>d t s. engine_step (example_env ''allow'' retry) (example_engine, [], [])
     (s, [(example_enforcement_request, d, t)], [Started (Some ''k'')]) \<and> \<not> ng_emergencyDeny s"
  using example_start [where s = "example_engine" and F = "[]" and L = "[]" and type = "''allow''" and retry = retry]
    fresh_key
  by (simp add: RECOGNITION_TYPE_MAP_def empty_engine_def) blast

text \<open>An action that nothing stands against: as above, with an answer of the type \<open>allow\<close>.\<close>

definition unopposed :: "('m, 'w) engine_env \<Rightarrow> ('m, 'v, 'w) engine_state \<Rightarrow> 'm enforcement_request \<Rightarrow> bool" where
  "unopposed E s r \<longleftrightarrow>
     \<not> ng_emergencyDeny s \<and>
     (\<forall>i w. \<exists>x. fst (ev_verifyAction E i w) = Inr (Some x) \<and>
        rg_type x = JSString ''allow'' \<and> rg_reasonCode x \<noteq> None \<and> rg_reason x \<noteq> None \<and>
        (rg_approvalRequestId x = None \<or> rg_approvalProofId x \<noteq> None) \<and>
        (in_sideEffectType (nr_intent r) \<in> set REQUIRES_APPROVAL_PROOF \<longrightarrow> rg_approvalProofId x \<noteq> None)) \<and>
     (\<forall>a. registered_adapter s r = Some a \<longrightarrow>
        ac_allowed (evaluateAdapterPermission a (nr_action r) (nr_capability r) (nr_resourceScope r) (nr_idempotencyKey r))) \<and>
     (\<forall>now x p. pack_read E r now x p \<longrightarrow> pk_type p = ''policy_not_applicable'' \<or> pk_allowed p) \<and>
     key_verdict (ev_allowRetryAfterFailure E) (ng_keys s) (nr_idempotencyKey r) \<noteq> KeyDuplicateSuccess \<and>
     nr_expiresAt r = None \<and> nr_mode r \<noteq> DryRunMode"

lemma unopposed_unobstructed: "unopposed E s r \<Longrightarrow> unobstructed E s r"
proof -
  have "rg_type x = JSString ''allow'' \<Longrightarrow> mr_decisionType (mapRecognitionResult (Some x)) = ExecuteAllowed" for x
    by (simp add: recognition_admits_iff [symmetric] recognition_admits_def)
  then show "unopposed E s r \<Longrightarrow> unobstructed E s r" unfolding unopposed_def unobstructed_def by metis
qed

text \<open>
  C35: An action that nothing stands against is executed.  If the switch is off, the provider
  answers \<open>allow\<close> and every approval it names is proved, the adapter and the policy packs permit it,
  its key is not spent, it has no deadline and is not a dry run, then a run under the default chain
  invokes the executor and reports, and records, what the executor did.
\<close>

theorem unopposed_executes:
  assumes "ev_policies E = createDefaultEnforcementPolicyChain P" and "unopposed E s r"
  shows "\<exists>d s1 startedAt s2 out s'. run_state (preflight E r) s = (Inr d, s1) \<and>
    run_state (run_start E r d) s1 = (startedAt, s2) \<and>
    run_state (run E r execute) s = (Inr out, s') \<and> recorded E d s' out \<and>
    nx_executed (eo_result out) = (\<not> isl (fst (execute (ng_world s2))))"
proof -
  obtain d s1 where d: "run_state (preflight E r) s = (Inr d, s1)" "nd_allowedToExecute d"
    using unobstructed_allowed [OF assms(1) unopposed_unobstructed [OF assms(2)]] by blast
  obtain t s2 where t: "run_state (run_start E r d) s1 = (t, s2)" by (rule prod.exhaust)
  obtain x s' where x: "run_state (run_finish E r d t (fst (execute (ng_world s2))))
      (s2\<lparr>ng_world := snd (execute (ng_world s2))\<rparr>) = (x, s')" by (rule prod.exhaust)
  have "run_state (run E r execute) s = (x, s')" using d t x by (simp add: run_def)
  then show ?thesis using run_finish_recorded [OF x] d t by blast
qed

theorem unopposed_executes_witness:
  "\<exists>out s'. run_state (run (example_env ''allow'' False) example_enforcement_request (\<lambda>n. (Inr (Some ()), n))) example_engine =
     (Inr out, s') \<and> nx_executed (eo_result out)"
proof -
  have "unopposed (example_env ''allow'' False) example_engine example_enforcement_request"
    using fresh_key
    by (simp add: unopposed_def registered_adapter_def pack_read_def NOT_CONFIGURED_RESULT_def bare_pack_result_def
        REQUIRES_APPROVAL_PROOF_def example_recognition_def) (simp add: empty_engine_def)
  from unopposed_executes [OF example_env_fields(1) this, of "\<lambda>n. (Inr (Some ()), n)"] show ?thesis by auto
qed

theorem enforcement_decision_exact_witness:
  "\<exists>d s' now recognition pack.
     run_state (preflight (example_env ''allow'' False) example_enforcement_request) example_engine = (Inr d, s') \<and>
     preflight_reads (example_env ''allow'' False) example_engine example_enforcement_request now recognition pack \<and>
     nd_allowedToExecute d \<and> permits_execution example_platform False example_engine example_enforcement_request now recognition pack"
proof -
  let ?E = "example_env ''allow'' False"
  obtain d s' where d: "run_state (preflight ?E example_enforcement_request) (example_engine) = (Inr d, s')" "nd_allowedToExecute d"
    using example_allowed [where s = "example_engine" and type = "''allow''" and retry = False] fresh_key
    by (simp add: RECOGNITION_TYPE_MAP_def empty_engine_def) blast
  then show ?thesis using enforcement_decision_exact [OF d(1), of example_platform] by auto
qed

theorem one_execution_per_key_witness:
  "\<exists>s F L. (engine_step (example_env ''allow'' False))\<^sup>*\<^sup>* (example_engine, [], []) (s, F, L) \<and>
     starts ''k'' L = 1 \<and> starts ''k'' L \<le> 1"
proof -
  let ?E = "example_env ''allow'' False"
  obtain d t s where st: "engine_step ?E (example_engine, [], []) (s, [(example_enforcement_request, d, t)], [Started (Some ''k'')])"
    using example_first_start by blast
  have "starts ''k'' [Started (Some ''k'')] \<le> 1"
    by (rule one_execution_per_key [of ?E example_platform, OF _ _ r_into_rtranclp [of "engine_step ?E", OF st]]) simp_all
  then show ?thesis using r_into_rtranclp [of "engine_step ?E", OF st] by (fastforce simp add: starts_def)
qed

theorem succeeded_key_final_witness:
  "\<exists>s F L s' F' L'. (engine_step (example_env ''allow'' True))\<^sup>*\<^sup>* (example_engine, [], []) (s, F, L) \<and>
     starts ''k'' L = 1 \<and> engine_step (example_env ''allow'' True) (s, F, L) (s', F', L') \<and>
     starts ''k'' L' = 1 \<and> key_status s' ''k'' = Some KeySucceeded"
proof -
  let ?E = "example_env ''allow'' True"
  obtain d t s where st: "engine_step ?E (example_engine, [], []) (s, [(example_enforcement_request, d, t)], [Started (Some ''k'')])"
    and sw: "\<not> ng_emergencyDeny s"
    using example_first_start by blast
  obtain out s1 where fin: "run_state (run_finish ?E example_enforcement_request d t (Inr None)) s = (out, s1)"
    "engine_step ?E (s, [(example_enforcement_request, d, t)], [Started (Some ''k'')]) (s1, [], [Started (Some ''k''), Ended (Some ''k'') True])"
    using example_finish [where F = "[(example_enforcement_request, d, t)]" and s = s and d = d and t = t and answer = "Inr None"
        and E = ?E and L = "[Started (Some ''k'')]"] sw by auto
  obtain answer s2 where pre: "run_state (preflight ?E example_enforcement_request) s1 = (answer, s2)" by (rule prod.exhaust)
  let ?L = "[Started (Some ''k''), Ended (Some ''k'') True]"
  have again: "engine_step ?E (s1, [], ?L) (s2, [], ?L)" by (rule preflight_step [OF pre])
  have "starts ''k'' ?L = starts ''k'' ?L \<and> key_status s2 ''k'' = Some KeySucceeded"
    by (rule succeeded_key_final [of ?E example_platform, OF _ fin(1) _ _ r_into_rtranclp [of "engine_step ?E", OF again]])
      simp_all
  moreover have "(engine_step ?E)\<^sup>*\<^sup>* (example_engine, [], []) (s1, [], ?L)"
    using st fin(2) by (meson converse_rtranclp_into_rtranclp r_into_rtranclp)
  moreover have "starts ''k'' ?L = 1" by (simp add: starts_def)
  ultimately show ?thesis using again by blast
qed

theorem enforcement_ledger_intact_witness:
  "\<exists>s F L. (engine_step (example_env ''allow'' False))\<^sup>*\<^sup>* (example_engine, [], []) (s, F, L) \<and>
     L = [Started (Some ''k'')] \<and> trail_ok example_platform s \<and>
     (\<exists>es. ng_events s = ng_events (example_engine) @ es)"
proof -
  let ?E = "example_env ''allow'' False"
  let ?s0 = "example_engine"
  obtain d t s where st: "engine_step ?E (?s0, [], []) (s, [(example_enforcement_request, d, t)], [Started (Some ''k'')])"
    using example_first_start by blast
  note step = r_into_rtranclp [of "engine_step ?E", OF st]
  show ?thesis
    using enforcement_ledger_intact [OF rtranclp.rtrancl_refl step] step by auto
qed

definition example_event :: "string \<Rightarrow> string option \<Rightarrow> enforcement_event" where
  "example_event type previous =
     \<lparr>nv_id = ''event-1'', nv_type = type, nv_trustDomainId = ''domain'', nv_requestId = Some ''request-1'',
      nv_decisionId = None, nv_executionResultId = None, nv_proofId = None, nv_violationId = None,
      nv_actorId = Some ''agent'', nv_principalActorId = None, nv_timestamp = ''2026-01-01T00:00:00.000Z'',
      nv_payload = [(''mode'', Some (JStr ''execute''))], nv_previousHash = previous,
      nv_eventHash = replicate 64 CHR ''0''\<rparr>"

theorem enforcement_trail_committed_witness:
  "let es = [example_event ''preflight_started'' None, example_event ''preflight_passed'' (Some (replicate 64 CHR ''0''))]
   in chained example_platform None es \<and>
     (map event_content es = map event_content es \<or>
      (\<exists>x y. x \<noteq> y \<and> sha256_hex example_platform x = sha256_hex example_platform y))"
proof -
  let ?es = "[example_event ''preflight_started'' None, example_event ''preflight_passed'' (Some (replicate 64 CHR ''0''))]"
  have ch: "chained example_platform None ?es"
    by (simp add: example_event_def createDigest_def example_platform_def)
  have ok: "\<forall>e \<in> set ?es \<union> set ?es. payload_ok e"
    by (simp add: payload_ok_def example_event_def canonical_object_def)
  show ?thesis
    using enforcement_trail_committed [OF ch ch _ _ refl ok] ch by simp
qed

section \<open>Where the engine and its documentation part\<close>

text \<open>
  A recognition answer of a type that is not in the table executes if it says that the actor is
  recognized, even one that says that the action is not allowed.
\<close>

theorem unknown_recognition_executes:
  "\<not> rg_allowed (example_recognition ''review_later'') \<and> map_of RECOGNITION_TYPE_MAP ''review_later'' = None \<and>
   (\<exists>d t s. engine_step (example_env ''review_later'' False) (example_engine, [], [])
     (s, [(example_enforcement_request, d, t)], [Started (Some ''k'')]))"
  using example_start [where s = "example_engine" and F = "[]" and L = "[]" and type = "''review_later''" and retry = False]
    fresh_key
  by (simp add: RECOGNITION_TYPE_MAP_def empty_engine_def example_recognition_def) blast

text \<open>
  Retries overlap.  A failed key stays failed while a retry runs, so that two retries that
  overlap both execute and both succeed under one key.
\<close>

theorem retry_race:
  "\<exists>s L. (engine_step (example_env ''allow'' True))\<^sup>*\<^sup>* (example_engine, [], []) (s, [], L) \<and>
     L = [Started (Some ''k''), Ended (Some ''k'') False, Started (Some ''k''), Started (Some ''k''),
          Ended (Some ''k'') True, Ended (Some ''k'') True]"
proof -
  let ?E = "example_env ''allow'' True"
  let ?r = example_enforcement_request
  let ?S = "Started (Some ''k'')"
  let ?T = "Ended (Some ''k'') True"
  obtain d t s1 where 1: "engine_step ?E (example_engine, [], []) (s1, [(?r, d, t)], [?S])" "\<not> ng_emergencyDeny s1"
    using example_first_start by blast
  obtain s2 where 2: "engine_step ?E (s1, [(?r, d, t)], [?S]) (s2, [], [?S, Ended (Some ''k'') False])"
    "\<not> ng_emergencyDeny s2" "key_status s2 ''k'' = Some KeyFailed"
    using example_finish [where F = "[(?r, d, t)]" and s = s1 and d = d and t = t and answer = "Inl ''lost''"
        and E = ?E and L = "[?S]"] 1(2) by auto
  have retry: "key_verdict True (ng_keys s) (Some ''k'') \<noteq> KeyDuplicateSuccess" if "key_status s ''k'' = Some KeyFailed" for s
    using that by (auto simp add: key_verdict_def key_status_def)
  have again: "\<exists>d t s'. engine_step ?E (s, F, L) (s', (?r, d, t) # F, L @ [?S]) \<and> \<not> ng_emergencyDeny s' \<and>
      key_status s' ''k'' = Some KeyFailed" if "\<not> ng_emergencyDeny s" "key_status s ''k'' = Some KeyFailed" for s F L
    using example_start [of "''allow''" s True F L] that retry [OF that(2)] status_kept [OF _ that(2)]
    by (simp add: RECOGNITION_TYPE_MAP_def) blast
  obtain d3 t3 s3 where 3: "engine_step ?E (s2, [], [?S, Ended (Some ''k'') False])
      (s3, [(?r, d3, t3)], [?S, Ended (Some ''k'') False, ?S])" "\<not> ng_emergencyDeny s3" "key_status s3 ''k'' = Some KeyFailed"
    using again [of s2 "[]" "[?S, Ended (Some ''k'') False]"] 2(2,3) by auto
  obtain d4 t4 s4 where 4: "engine_step ?E (s3, [(?r, d3, t3)], [?S, Ended (Some ''k'') False, ?S])
      (s4, [(?r, d4, t4), (?r, d3, t3)], [?S, Ended (Some ''k'') False, ?S, ?S])" "\<not> ng_emergencyDeny s4"
    using again [of s3 "[(?r, d3, t3)]" "[?S, Ended (Some ''k'') False, ?S]"] 3(2,3) by auto
  obtain s5 where 5: "engine_step ?E (s4, [(?r, d4, t4), (?r, d3, t3)], [?S, Ended (Some ''k'') False, ?S, ?S])
      (s5, [(?r, d3, t3)], [?S, Ended (Some ''k'') False, ?S, ?S, ?T])" "\<not> ng_emergencyDeny s5"
    using example_finish [where F = "[(?r, d4, t4), (?r, d3, t3)]" and s = s4 and d = d4 and t = t4 and answer = "Inr None"
        and E = ?E and L = "[?S, Ended (Some ''k'') False, ?S, ?S]"] 4(2) by auto
  obtain s6 where 6: "engine_step ?E (s5, [(?r, d3, t3)], [?S, Ended (Some ''k'') False, ?S, ?S, ?T])
      (s6, [], [?S, Ended (Some ''k'') False, ?S, ?S, ?T, ?T])"
    using example_finish [where F = "[(?r, d3, t3)]" and s = s5 and d = d3 and t = t3 and answer = "Inr None"
        and E = ?E and L = "[?S, Ended (Some ''k'') False, ?S, ?S, ?T]"] 5(2) by auto
  show ?thesis
    using 1(1) 2(1) 3(1) 4(1) 5(1) 6 by (meson converse_rtranclp_into_rtranclp rtranclp.rtrancl_refl)
qed

text \<open>
  A key that never executed is spent.  A decision that was declined, or only asked for, claims the
  key of its request for good: under that key no executor is invoked, whatever happens later, and
  the policy that suppresses the request says that the key completed successfully.
\<close>

theorem unexecuted_key_spent:
  assumes "ev_policies E = createDefaultEnforcementPolicyChain P" and "nr_idempotencyKey r = Some k"
    and "map_of (ng_keys s0) k = None" and "run_state (preflight E r) s0 = (Inr d, s)"
    and "(engine_step E)\<^sup>*\<^sup>* (s, [], []) (s', F', L')"
  shows "starts k L' = 0 \<and> key_status s' k = Some KeyPending"
proof -
  have "keys_extended (Some k) (ng_keys s0) (ng_keys s)"
    by (rule preflight_cases [OF assms(4)]) (use assms(2) in simp_all)
  then have "key_status s k = Some KeyPending"
    using assms(3) unfolding keys_extended_def key_status_def by fastforce
  then have "closed_key k KeyPending 0 (s, [], [])" by (simp add: closed_key_def starts_def)
  then have "closed_key k KeyPending 0 (s', F', L')"
    using closed_key_steps [OF assms(1) _ assms(5)] by blast
  then show ?thesis by (simp add: closed_key_def)
qed

end
