(* ===== verification/Enforcement_Guards.thy ===== *)
theory Enforcement_Guards
  imports Enforcement_Safety
begin

text \<open>
  The doors of the engine: \<open>action-enforcement/sdk/tool-call-guard.ts\<close>, \<open>api-handler-guard.ts\<close>,
  \<open>webhook-guard.ts\<close> and \<open>workflow-step-guard.ts\<close>, each of which fills the input of the guard for one
  kind of host; and the reads and the closing of requests the runtime offers beside them
  (\<open>services/enforcement-store.ts\<close>, \<open>services/enforcement-request-service.ts\<close>).

  The lemmas say what a run through the guard depends on: the request the engine records is the
  one it was handed, and the executor matters only under a decision that allows it.  The functions
  an API handler is configured with are functions of the request.
\<close>

section \<open>Reads\<close>

definition getRequestsByActor :: "('m, 'v, 'w) engine_state \<Rightarrow> string \<Rightarrow> 'm enforcement_request list" where
  "getRequestsByActor s actor = filter (\<lambda>r. nr_actorId r = actor) (map snd (ng_requests s))"

definition getRequestsByTrustDomain :: "('m, 'v, 'w) engine_state \<Rightarrow> string \<Rightarrow> 'm enforcement_request list" where
  "getRequestsByTrustDomain s domain = filter (\<lambda>r. nr_trustDomainId r = domain) (map snd (ng_requests s))"

definition getRequestsByAction :: "('m, 'v, 'w) engine_state \<Rightarrow> string \<Rightarrow> 'm enforcement_request list" where
  "getRequestsByAction s action = filter (\<lambda>r. nr_action r = action) (map snd (ng_requests s))"

definition getDecisionsByRequest :: "('m, 'v, 'w) engine_state \<Rightarrow> string \<Rightarrow> enforcement_decision list" where
  "getDecisionsByRequest s rid = filter (\<lambda>d. nd_requestId d = rid) (map snd (ng_decisions s))"

definition getResultsByRequest :: "('m, 'v, 'w) engine_state \<Rightarrow> string \<Rightarrow> 'v execution_result list" where
  "getResultsByRequest s rid = filter (\<lambda>x. nx_requestId x = rid) (map snd (ng_results s))"

definition getProofsByRequest :: "('m, 'v, 'w) engine_state \<Rightarrow> string \<Rightarrow> enforcement_proof list" where
  "getProofsByRequest s rid = filter (\<lambda>p. np_requestId p = rid) (map snd (ng_proofs s))"

definition getViolationsByRequest :: "('m, 'v, 'w) engine_state \<Rightarrow> string \<Rightarrow> enforcement_violation list" where
  "getViolationsByRequest s rid = filter (\<lambda>x. nl_requestId x = rid) (map snd (ng_violations s))"

section \<open>Closing a request\<close>

definition expireEnforcementRequest :: "string \<Rightarrow> ('m, 'v, 'w, 'm enforcement_request option) engine" where
  "expireEnforcementRequest rid = updateRequestStatus rid StatusBlocked"

definition cancelEnforcementRequest :: "string \<Rightarrow> ('m, 'v, 'w, 'm enforcement_request option) engine" where
  "cancelEnforcementRequest rid = updateRequestStatus rid StatusCancelled"

section \<open>The guards\<close>

definition bare_guard_input :: "string \<Rightarrow> string \<Rightarrow> string \<Rightarrow> string \<Rightarrow> string \<Rightarrow> string \<Rightarrow> 'm guard_input" where
  "bare_guard_input actor domain action scope kind name =
     \<lparr>gi_actorId = actor, gi_principalActorId = None, gi_trustDomainId = domain, gi_action = action,
      gi_capability = None, gi_resourceScope = scope, gi_targetId = None, gi_targetType = Some kind,
      gi_targetName = Some name, gi_adapterId = None, gi_riskLevel = None, gi_sideEffectType = None,
      gi_description = None, gi_idempotencyKey = None, gi_mode = None, gi_expiresAt = None,
      gi_actionRequestId = None, gi_approvalProofId = None, gi_approvalRequestId = None,
      gi_approvalDecisionId = None, gi_visaId = None, gi_ingressGrantId = None, gi_handshakeProofId = None,
      gi_policyEvaluationInput = None, gi_metadata = None\<rparr>"

record 'm tool_call_input =
  tc_actorId :: string
  tc_principalActorId :: "string option"
  tc_trustDomainId :: string
  tc_toolName :: string
  tc_action :: string
  tc_capability :: "string option"
  tc_resourceScope :: string
  tc_riskLevel :: "string option"
  tc_sideEffectType :: "string option"
  tc_idempotencyKey :: "string option"
  tc_metadata :: "js_value option"
  tc_policyEvaluationInput :: "'m policy_evaluation_input option"

definition tool_call_guard_input :: "'m tool_call_input \<Rightarrow> 'm guard_input" where
  "tool_call_guard_input i =
     (bare_guard_input (tc_actorId i) (tc_trustDomainId i) (tc_action i) (tc_resourceScope i) ''tool_call'' (tc_toolName i))
     \<lparr>gi_adapterId := Some (tc_toolName i), gi_principalActorId := tc_principalActorId i,
      gi_capability := tc_capability i, gi_riskLevel := tc_riskLevel i, gi_sideEffectType := tc_sideEffectType i,
      gi_idempotencyKey := tc_idempotencyKey i, gi_policyEvaluationInput := tc_policyEvaluationInput i,
      gi_metadata := tc_metadata i\<rparr>"

definition tool_call_execute ::
  "('m, 'w) engine_env \<Rightarrow> 'm tool_call_input \<Rightarrow> ('v, 'w) executor \<Rightarrow>
     ('m, 'v, 'w, engine_failure + ('m, 'v) enforcement_outcome) engine" where
  "tool_call_execute E i execute = guard_enforce E (tool_call_guard_input i) execute"

record webhook_input =
  wh_webhookId :: string
  wh_actorId :: string
  wh_trustDomainId :: string
  wh_action :: string
  wh_capability :: "string option"
  wh_resourceScope :: string
  wh_visaId :: "string option"
  wh_ingressGrantId :: "string option"
  wh_handshakeProofId :: "string option"
  wh_idempotencyKey :: "string option"

definition webhook_guard_input :: "webhook_input \<Rightarrow> 'm guard_input" where
  "webhook_guard_input i =
     (bare_guard_input (wh_actorId i) (wh_trustDomainId i) (wh_action i) (wh_resourceScope i) ''webhook'' (wh_webhookId i))
     \<lparr>gi_adapterId := Some (wh_webhookId i), gi_capability := wh_capability i, gi_visaId := wh_visaId i,
      gi_ingressGrantId := wh_ingressGrantId i, gi_handshakeProofId := wh_handshakeProofId i,
      gi_idempotencyKey := wh_idempotencyKey i\<rparr>"

definition webhook_handle ::
  "('m, 'w) engine_env \<Rightarrow> webhook_input \<Rightarrow> ('v, 'w) executor \<Rightarrow>
     ('m, 'v, 'w, engine_failure + ('m, 'v) enforcement_outcome) engine" where
  "webhook_handle E i execute = guard_enforce E (webhook_guard_input i) execute"

record workflow_step_input =
  wf_stepId :: string
  wf_actorId :: string
  wf_principalActorId :: "string option"
  wf_trustDomainId :: string
  wf_action :: string
  wf_capability :: "string option"
  wf_resourceScope :: string
  wf_idempotencyKey :: "string option"
  wf_mode :: "enforcement_mode option"

definition workflow_step_guard_input :: "workflow_step_input \<Rightarrow> 'm guard_input" where
  "workflow_step_guard_input i =
     (bare_guard_input (wf_actorId i) (wf_trustDomainId i) (wf_action i) (wf_resourceScope i) ''workflow_step'' (wf_stepId i))
     \<lparr>gi_adapterId := Some (wf_stepId i), gi_principalActorId := wf_principalActorId i,
      gi_capability := wf_capability i, gi_idempotencyKey := wf_idempotencyKey i, gi_mode := wf_mode i\<rparr>"

definition workflow_step_run ::
  "('m, 'w) engine_env \<Rightarrow> workflow_step_input \<Rightarrow> ('v, 'w) executor \<Rightarrow>
     ('m, 'v, 'w, engine_failure + ('m, 'v) enforcement_outcome) engine" where
  "workflow_step_run E i execute = guard_enforce E (workflow_step_guard_input i) execute"

record ('q, 'm, 'v, 'w) api_handler_config =
  ah_action :: string
  ah_capability :: "string option"
  ah_adapterId :: "string option"
  ah_trustDomainFromRequest :: "'q \<Rightarrow> string"
  ah_actorFromRequest :: "'q \<Rightarrow> string"
  ah_principalActorFromRequest :: "('q \<Rightarrow> string option) option"
  ah_resourceScopeFromRequest :: "'q \<Rightarrow> string"
  ah_idempotencyKeyFromRequest :: "('q \<Rightarrow> string option) option"
  ah_policyEvaluationInputFromRequest :: "('q \<Rightarrow> 'm policy_evaluation_input option) option"
  ah_handler :: "'q \<Rightarrow> ('v, 'w) executor"
  ah_throwOnBlocked :: bool

datatype ('m, 'v) api_handler_result =
    HandlerReturned "'v option" "('m, 'v) enforcement_outcome"
  | HandlerBlocked "('m, 'v) enforcement_outcome"

datatype ('m, 'v) api_handler_failure =
    GuardFailed engine_failure
  | ApiHandlerBlockedError "('m, 'v) enforcement_outcome"

definition optional_call :: "('q \<Rightarrow> 'a option) option \<Rightarrow> 'q \<Rightarrow> 'a option" where
  "optional_call f req = (case f of None \<Rightarrow> None | Some g \<Rightarrow> g req)"

definition api_guard_input :: "('q, 'm, 'v, 'w) api_handler_config \<Rightarrow> 'q \<Rightarrow> 'm guard_input" where
  "api_guard_input c req =
     (bare_guard_input (ah_actorFromRequest c req) (ah_trustDomainFromRequest c req) (ah_action c)
        (ah_resourceScopeFromRequest c req) ''api_handler'' (ah_action c))
     \<lparr>gi_adapterId := ah_adapterId c, gi_capability := ah_capability c,
      gi_principalActorId := optional_call (ah_principalActorFromRequest c) req,
      gi_idempotencyKey := optional_call (ah_idempotencyKeyFromRequest c) req,
      gi_policyEvaluationInput := optional_call (ah_policyEvaluationInputFromRequest c) req\<rparr>"

definition api_wrap ::
  "('m, 'w) engine_env \<Rightarrow> ('q, 'm, 'v, 'w) api_handler_config \<Rightarrow> 'q \<Rightarrow>
     ('m, 'v, 'w, ('m, 'v) api_handler_failure + ('m, 'v) api_handler_result) engine" where
  "api_wrap E c req = do {
     answer \<leftarrow> guard_enforce E (api_guard_input c req) (ah_handler c req);
     State_Monad.return (case answer of
         Inl e \<Rightarrow> Inl (GuardFailed e)
       | Inr out \<Rightarrow>
           if nd_allowedToExecute (eo_decision out) \<and> nx_executed (eo_result out)
           then Inr (HandlerReturned (nx_value (eo_result out)) out)
           else if ah_throwOnBlocked c then Inl (ApiHandlerBlockedError out)
           else Inr (HandlerBlocked out)) }"

section \<open>What a run depends on\<close>

text \<open>The request the engine records is the one it was handed, with its identity and its effect planned.\<close>

definition created_from :: "'m enforcement_request \<Rightarrow> 'm enforcement_request \<Rightarrow> bool" where
  "created_from input q \<longleftrightarrow>
     (\<exists>rid effects now. q = input\<lparr>nr_id := rid, nr_status := StatusSubmitted, nr_submittedAt := now,
        nr_handshakeDecisionId := None, nr_sideEffects := effects\<rparr>)"

lemma requests_planSideEffect:
  assumes "run_state (planSideEffect E rid domain actor intent a b) s = (d, s')"
  shows "ng_requests s' = ng_requests s"
  using assms unfolding planSideEffect_def
  by (auto simp add: saveSideEffect_def recordEvent_def clock_now_def next_id_def Let_def split: prod.splits)

lemma created_request:
  assumes "run_state (createEnforcementRequest E input) s = (q, s')"
  shows "created_from input q"
proof -
  obtain rid s1 where a: "run_state (next_id E ''enforcement-request'') s = (rid, s1)" by (rule prod.exhaust)
  obtain now s2 where b: "run_state (clock_now E) s1 = (now, s2)" by (rule prod.exhaust)
  define q0 where "q0 = input\<lparr>nr_id := rid, nr_status := StatusSubmitted, nr_sideEffects := [],
    nr_submittedAt := now, nr_handshakeDecisionId := None\<rparr>"
  define s3 where "s3 = s2\<lparr>ng_requests := AList.update rid q0 (ng_requests s2)\<rparr>"
  have rid: "nr_id q0 = rid" by (simp add: q0_def)
  obtain d s4 where p: "run_state (planSideEffect E rid (nr_trustDomainId input) (nr_actorId input) (nr_intent input) None None) s3 = (d, s4)"
    by (rule prod.exhaust)
  have "map_of (ng_requests s4) rid = Some q0"
    using requests_planSideEffect [OF p] by (simp add: s3_def update_conv')
  then have "q = q0\<lparr>nr_sideEffects := [d]\<rparr>"
    using assms a b p rid
    by (auto simp add: createEnforcementRequest_def saveRequest_def replaceRequestSideEffects_def update_request_def
        Let_def q0_def [symmetric] s3_def [symmetric] split: prod.splits)
  then show ?thesis unfolding created_from_def q0_def by auto
qed

lemma run_depends:
  assumes "run_state (run E q f) s \<noteq> run_state (run E q g) s"
  shows "\<exists>d s1. run_state (preflight E q) s = (Inr d, s1) \<and> nd_allowedToExecute d"
proof -
  obtain answer s1 where p: "run_state (preflight E q) s = (answer, s1)" by (rule prod.exhaust)
  then show ?thesis using assms by (cases answer) (auto simp add: run_def split: if_splits)
qed


lemma guard_runs:
  assumes "run_state (guard_enforce E i f) s = (answer, s')"
  obtains q s0 where "created_from (request_input i (given (gi_mode i) ExecuteMode) None) q"
    "run_state (run E q f) s0 = (answer, s')"
proof -
  obtain q s0 where q: "run_state (createEnforcementRequest E (request_input i (given (gi_mode i) ExecuteMode) None)) s = (q, s0)"
    by (rule prod.exhaust)
  then show thesis using that [OF created_request [OF q]] assms by (simp add: guard_enforce_def)
qed

lemma run_cases:
  assumes "run_state (run E q f) s = (answer, s')"
  obtains (threw) e where "answer = Inl (ProviderThrew e)"
  | (declined) d out where "answer = Inr out" "recorded E d s' out" "\<not> nd_allowedToExecute d" "\<not> nx_executed (eo_result out)"
  | (executed) d out w where "answer = Inr out" "recorded E d s' out" "nd_allowedToExecute d"
      "nx_executed (eo_result out) \<longleftrightarrow> \<not> isl (fst (f w))"
      "nx_value (eo_result out) = (case fst (f w) of Inl m \<Rightarrow> None | Inr v \<Rightarrow> v)"
proof -
  obtain pre s1 where pre: "run_state (preflight E q) s = (pre, s1)" by (rule prod.exhaust)
  show thesis
  proof (cases pre)
    case (Inl e)
    then show thesis using threw assms pre by (auto simp add: run_def)
  next
    case (Inr d)
    obtain startedAt s2 where st: "run_state (run_start E q d) s1 = (startedAt, s2)" by (rule prod.exhaust)
    show thesis
    proof (cases "nd_allowedToExecute d")
      case True
      then have x: "run_state (run_finish E q d startedAt (fst (f (ng_world s2)))) (s2\<lparr>ng_world := snd (f (ng_world s2))\<rparr>) = (answer, s')"
        using assms pre Inr st by (simp add: run_def split: prod.splits)
      show thesis using run_finish_recorded [OF x] True executed by blast
    next
      case False
      then have x: "run_state (run_declined E q d (map sd_id (nr_sideEffects q))) s1 = (answer, s')"
        using assms pre Inr by (simp add: run_def)
      show thesis using run_declined_recorded [OF x] False declined by blast
    qed
  qed
qed

section \<open>What the guards guarantee\<close>

text \<open>
  A guarded call that depends on what it guards was allowed, for the actor, the domain, the action
  and the scope its host stated, on a target of its own kind and behind the adapter it names.
\<close>

definition guarded_for :: "'m guard_input \<Rightarrow> 'm enforcement_request \<Rightarrow> bool" where
  "guarded_for i q \<longleftrightarrow>
     nr_actorId q = gi_actorId i \<and> nr_trustDomainId q = gi_trustDomainId i \<and> nr_action q = gi_action i \<and>
     nr_resourceScope q = gi_resourceScope i \<and> nr_idempotencyKey q = gi_idempotencyKey i \<and>
     tg_type (nr_target q) = given (gi_targetType i) ''generic'' \<and> tg_adapterId (nr_target q) = gi_adapterId i"

lemma created_guarded: "created_from (request_input i mode None) q \<Longrightarrow> guarded_for i q"
  by (auto simp add: created_from_def guarded_for_def request_input_def buildTarget_def given_def Let_def split: option.splits)

lemma guard_depends:
  fixes s :: "('m, 'v, 'w) engine_state"
  assumes "run_state (guard_enforce E i f) s \<noteq> run_state (guard_enforce E i g) s"
  shows "\<exists>q (s0 :: ('m, 'v, 'w) engine_state) d s1. guarded_for i q \<and> run_state (preflight E q) s0 = (Inr d, s1) \<and> nd_allowedToExecute d"
proof -
  obtain q s0 where q: "run_state (createEnforcementRequest E (request_input i (given (gi_mode i) ExecuteMode) None)) s = (q, s0)"
    by (rule prod.exhaust)
  have "run_state (run E q f) s0 \<noteq> run_state (run E q g) s0" using assms q by (auto simp add: guard_enforce_def)
  then show ?thesis using run_depends created_guarded [OF created_request [OF q]] by blast
qed

lemma guard_inputs [simp]:
  "gi_targetType (tool_call_guard_input tc) = Some ''tool_call''" "gi_adapterId (tool_call_guard_input tc) = Some (tc_toolName tc)"
  "gi_targetType (webhook_guard_input wh) = Some ''webhook''" "gi_adapterId (webhook_guard_input wh) = Some (wh_webhookId wh)"
  "gi_targetType (workflow_step_guard_input ws) = Some ''workflow_step''" "gi_adapterId (workflow_step_guard_input ws) = Some (wf_stepId ws)"
  "gi_targetType (api_guard_input c req) = Some ''api_handler''" "gi_adapterId (api_guard_input c req) = ah_adapterId c"
  by (simp_all add: tool_call_guard_input_def webhook_guard_input_def workflow_step_guard_input_def api_guard_input_def
      bare_guard_input_def)

lemma api_wrap_returns:
  assumes "run_state (api_wrap E c req) s = (answer, s')"
  obtains q s0 a where "guarded_for (api_guard_input c req) q" "run_state (run E q (ah_handler c req)) s0 = (a, s')"
    "answer = (case a of
         Inl e \<Rightarrow> Inl (GuardFailed e)
       | Inr out \<Rightarrow>
           if nd_allowedToExecute (eo_decision out) \<and> nx_executed (eo_result out)
           then Inr (HandlerReturned (nx_value (eo_result out)) out)
           else if ah_throwOnBlocked c then Inl (ApiHandlerBlockedError out)
           else Inr (HandlerBlocked out))"
proof -
  obtain a s1 where a: "run_state (guard_enforce E (api_guard_input c req) (ah_handler c req)) s = (a, s1)" by (rule prod.exhaust)
  obtain q s0 where q: "created_from (request_input (api_guard_input c req) (given (gi_mode (api_guard_input c req)) ExecuteMode) None) q"
    "run_state (run E q (ah_handler c req)) s0 = (a, s1)" using guard_runs [OF a] .
  show thesis using that [OF created_guarded [OF q(1)]] q(2) assms a by (simp add: api_wrap_def)
qed

text \<open>
  An answer of a wrapped API handler is the handler's.  A value is returned only if the execution
  was allowed and the handler returned that value, and the engine holds the result and a proof of
  it.  A call is reported as blocked in two cases that the report does not tell apart by itself:
  the decision refused it, or the handler was invoked and threw.
\<close>

theorem api_answer_exact:
  assumes "run_state (api_wrap E c req) s = (answer, s')"
  shows "(\<forall>v out. answer = Inr (HandlerReturned v out) \<longrightarrow>
      recorded E (eo_decision out) s' out \<and> nd_allowedToExecute (eo_decision out) \<and> (\<exists>w. fst (ah_handler c req w) = Inr v)) \<and>
    (\<forall>out. answer = Inr (HandlerBlocked out) \<or> answer = Inl (ApiHandlerBlockedError out) \<longrightarrow>
      recorded E (eo_decision out) s' out \<and> \<not> nx_executed (eo_result out) \<and>
      (nd_allowedToExecute (eo_decision out) \<longrightarrow> (\<exists>w message. fst (ah_handler c req w) = Inl message)))"
proof -
  obtain q s0 a where "guarded_for (api_guard_input c req) q" and run: "run_state (run E q (ah_handler c req)) s0 = (a, s')"
    and answer: "answer = (case a of
         Inl e \<Rightarrow> Inl (GuardFailed e)
       | Inr out \<Rightarrow>
           if nd_allowedToExecute (eo_decision out) \<and> nx_executed (eo_result out)
           then Inr (HandlerReturned (nx_value (eo_result out)) out)
           else if ah_throwOnBlocked c then Inl (ApiHandlerBlockedError out)
           else Inr (HandlerBlocked out))"
    using api_wrap_returns [OF assms] .
  from run show ?thesis
  proof (cases rule: run_cases)
    case threw
    then show ?thesis using answer by simp
  next
    case (declined d out)
    then show ?thesis using answer by (auto simp add: recorded_def split: if_splits)
  next
    case (executed d out w)
    have d: "eo_decision out = d" using executed(2) by (simp add: recorded_def)
    show ?thesis
    proof (cases "fst (ah_handler c req w)")
      case (Inl m)
      then show ?thesis using answer executed d by auto
    next
      case (Inr v)
      then show ?thesis using answer executed d by auto
    qed
  qed
qed

text \<open>
  A handler that ran and threw is reported as blocked: if the handler always throws and the
  execution is allowed, the answer is a block under a decision that allows.
\<close>

theorem failed_handler_blocked:
  assumes "run_state (createEnforcementRequest E (request_input (api_guard_input c req) ExecuteMode None)) s = (q, s0)"
    and "run_state (preflight E q) s0 = (Inr d, s1)" "nd_allowedToExecute d"
    and "\<And>w. isl (fst (ah_handler c req w))" "\<not> ah_throwOnBlocked c"
  shows "\<exists>out s'. run_state (api_wrap E c req) s = (Inr (HandlerBlocked out), s') \<and> nd_allowedToExecute (eo_decision out)"
proof -
  have mode: "gi_mode (api_guard_input c req) = None" by (simp add: api_guard_input_def bare_guard_input_def)
  obtain startedAt s2 where st: "run_state (run_start E q d) s1 = (startedAt, s2)" by (rule prod.exhaust)
  obtain x s' where x: "run_state (run_finish E q d startedAt (fst (ah_handler c req (ng_world s2))))
      (s2\<lparr>ng_world := snd (ah_handler c req (ng_world s2))\<rparr>) = (x, s')" by (rule prod.exhaust)
  have "run_state (guard_enforce E (api_guard_input c req) (ah_handler c req)) s = (x, s')"
    using assms(1-3) st x mode by (simp add: guard_enforce_def run_def given_def split: prod.splits)
  then show ?thesis using run_finish_recorded [OF x] assms(3-5) by (auto simp add: api_wrap_def recorded_def)
qed

section \<open>Reads agree with what was written\<close>

text \<open>A closed request keeps everything but its status, and nothing else is touched.\<close>

lemma closed_request:
  assumes "run_state (updateRequestStatus rid status) s = (answer, s')"
  shows "map_of (ng_requests s') rid = map_option (\<lambda>q. q\<lparr>nr_status := status\<rparr>) (map_of (ng_requests s) rid) \<and>
    (\<forall>other. other \<noteq> rid \<longrightarrow> map_of (ng_requests s') other = map_of (ng_requests s) other) \<and>
    answer = map_of (ng_requests s') rid \<and> ng_events s' = ng_events s \<and> ng_keys s' = ng_keys s"
  using assms by (auto simp add: updateRequestStatus_def update_request_def update_conv' split: option.splits)

end
