(* ===== verification/Kernel_Contracts.thy ===== *)
theory Kernel_Contracts
  imports Enforcement_Guards Context_Resolution Obligations Deployment
begin

text \<open>
  What enters and leaves the kernel (\<open>src/kernel/contracts\<close>, \<open>errors\<close>, \<open>reason-codes\<close>) and the two
  adapters that translate between the kernel's contract and the enforcement engine
  (\<open>orchestration/request-adapter.ts\<close>, \<open>orchestration/result-adapter.ts\<close>), with the invariants
  asserted of every result (\<open>orchestration/kernel-invariants.ts\<close>).

  An optional member of a contract is an \<open>option\<close>.  The request's context is the list of its own
  enumerable members, in order.  The two facts the kernel adds to the policy input's metadata are
  a record with one member per reserved key.
\<close>

section \<open>Requests\<close>

record actor_reference =
  ar_id :: string
  ar_principalId :: "string option"
  ar_trustDomainId :: string
  ar_type :: "string option"

record action_descriptor =
  at_type :: string
  at_domain :: "string option"
  at_jurisdiction :: "string option"
  at_country :: "string option"
  at_industry :: "string option"
  at_customerId :: "string option"
  at_capability :: "string option"
  at_resourceScope :: string
  at_riskLevel :: "string option"
  at_sideEffectType :: "string option"
  at_amount :: "string option"
  at_currency :: "string option"
  at_counterpartyId :: "string option"
  at_dataDomains :: "string list option"
  at_evidenceIds :: "string list option"
  at_parameters :: "js_value option"
  at_semantics :: "governed_action_semantics option"
  at_governedParameters :: "declared_governed_parameter list option"
  at_governedRights :: "string list option"
  at_governedRightsScope :: "js_value option"
  at_governedAuthorityHolderRef :: "string option"

record target_reference =
  tf_id :: "string option"
  tf_type :: "string option"
  tf_name :: "string option"
  tf_adapterId :: "string option"

record organization_reference =
  og_id :: string
  og_name :: "string option"

record kernel_request =
  kq_requestId :: string
  kq_actor :: actor_reference
  kq_action :: action_descriptor
  kq_target :: "target_reference option"
  kq_organization :: "organization_reference option"
  kq_context :: "(string \<times> js_value) list option"
  kq_requestedAt :: string
  kq_correlationId :: "string option"
  kq_approvalProofId :: "string option"
  kq_approvalRequestId :: "string option"
  kq_approvalDecisionId :: "string option"
  kq_visaId :: "string option"
  kq_ingressGrantId :: "string option"
  kq_handshakeProofId :: "string option"
  kq_idempotencyKey :: "string option"
  kq_expiresAt :: "string option"

datatype trace_level = BasicTrace | FullTrace

record kernel_options =
  ko_dryRun :: "bool option"
  ko_traceLevel :: "trace_level option"

text \<open>The action a grant, an obligation or a fact is about: the capability, or else the type.\<close>

definition governed_action :: "kernel_request \<Rightarrow> string" where
  "governed_action r = given (at_capability (kq_action r)) (at_type (kq_action r))"

definition organization_id :: "kernel_request \<Rightarrow> string option" where
  "organization_id r = map_option og_id (kq_organization r)"

definition target_member :: "(target_reference \<Rightarrow> string option) \<Rightarrow> kernel_request \<Rightarrow> string option" where
  "target_member f r = Option.bind (kq_target r) f"

section \<open>Failures\<close>

text \<open>
  What a call of the kernel rejects with: its own errors, an error a standard operation or a
  context or obligation service threw, or the rejection of the constraint provider, which nothing
  catches.
\<close>

datatype kernel_failure =
    KernelValidationError string
  | KernelInvariantError string
  | KernelExecutionError string
  | KernelThrew js_error
  | ConstraintProviderThrew string

section \<open>Results\<close>

datatype kernel_decision_status = KernelAllowed | KernelDenied | KernelApprovalRequired | KernelIndeterminate

record recognition_evaluation =
  re_performed :: bool
  re_decisionId :: "string option"
  re_decisionType :: js_value
  re_recognized :: "bool option"
  re_reasonCode :: "string option"
  re_reason :: "string option"

record governed_right_evaluation =
  gr_governedRight :: string
  gr_holderRef :: string
  gr_outcome :: string
  gr_covered :: bool

record governed_authority_evaluation =
  ga_performed :: bool
  ga_enforced :: bool
  ga_rights :: "governed_right_evaluation list"

record right_representation_evaluation =
  rr_governedRight :: string
  rr_outcome :: string
  rr_covered :: bool
  rr_representativeAuthorityId :: "string option"
  rr_chain :: "string list option"

record representation_evaluation =
  rp_performed :: bool
  rp_required :: bool
  rp_holderRef :: string
  rp_representativeRef :: string
  rp_rights :: "right_representation_evaluation list"

record authority_evaluation =
  au_performed :: bool
  au_decisionId :: "string option"
  au_proofId :: "string option"
  au_governedAuthority :: "governed_authority_evaluation option"
  au_representation :: "representation_evaluation option"

datatype approval_status = ApprovalNotApplicable | ApprovalIsPending | ApprovalGranted

record approval_evaluation =
  ap_performed :: bool
  ap_status :: approval_status
  ap_requestId :: "string option"
  ap_decisionId :: "string option"
  ap_proofId :: "string option"

record evidence_evaluation =
  ee_policyId :: string
  ee_passed :: bool
  ee_reasonCode :: string
  ee_reason :: string

record context_fact_evaluation =
  fe_key :: string
  fe_sourceId :: string
  fe_sourceKind :: string
  fe_trustClass :: string
  fe_effectiveTrustClass :: string
  fe_resolution :: fact_status
  fe_observedAt :: string
  fe_staleAt :: "string option"
  fe_conflictingSourceIds :: "string list option"
  fe_reference :: "string option"
  fe_provenanceDigest :: "string option"

record context_requirement_evaluation =
  qe_key :: string
  qe_status :: read_status
  qe_minimumTrustClass :: string
  qe_refusalReasons :: "string list option"

record context_evaluation =
  ce_performed :: bool
  ce_resolved :: bool
  ce_declaredKeys :: "string list"
  ce_facts :: "context_fact_evaluation list"
  ce_unresolved :: "string list"
  ce_stale :: "string list"
  ce_conflicted :: "string list"
  ce_assertedFactPolicy :: string
  ce_assertedFactReads :: "string list option"
  ce_unsatisfiedRequirements :: "context_requirement_evaluation list option"
  ce_refused :: "refused_observation list option"
  ce_restrictiveKeys :: "string list option"
  ce_digest :: "string option"
  ce_validUntil :: "string option"
  ce_profile :: "string option"

record obligation_instance_evaluation =
  ie_id :: string
  ie_obligationType :: string
  ie_blocking :: bool
  ie_state :: obligation_state
  ie_satisfied :: bool
  ie_terminal :: bool
  ie_withholdsExercise :: bool
  ie_transitions :: "obligation_transition list"
  ie_discharge :: "discharge_record option"
  ie_verification :: "verification_record option"
  ie_expiresAt :: "string option"

record obligation_evaluation =
  oe_performed :: bool
  oe_resolved :: bool
  oe_declaredTypes :: "string list"
  oe_obligations :: "obligation_instance_evaluation list"
  oe_exerciseEligibility :: exercise_eligibility
  oe_allBlockingObligationsSatisfied :: bool
  oe_exerciseReasonCodes :: "string list option"
  oe_summary :: "string option"
  oe_disregarded :: "disregarded_observation list option"

record grant_bound_evaluation =
  be_key :: string
  be_kind :: string
  be_value :: "string option"
  be_values :: "string list option"
  be_limit :: "string option"
  be_unit :: "string option"
  be_notAfter :: "string option"
  be_parameterType :: "governed_parameter_type option"
  be_parameterValue :: "governed_parameter_value option"
  be_parameterLimit :: "js_number option"

record grant_evaluation =
  ge_performed :: bool
  ge_eligible :: bool
  ge_correlation :: grant_correlation
  ge_subject :: string
  ge_sourceBounds :: "grant_bound_evaluation list"
  ge_validityCeilings :: "grant_validity_ceiling list"
  ge_ineligibilityReasonCodes :: "grant_reason_code list option"
  ge_summary :: "string option"

record external_evaluation =
  xe_performed :: bool
  xe_outcome :: string
  xe_narrowed :: bool
  xe_reasonCode :: "string option"

datatype trace_status = TracePassed | TraceFailed | TraceSkipped | TracePending

record trace_step =
  ts_sequence :: nat
  ts_operator :: string
  ts_status :: trace_status
  ts_reasonCodes :: "js_value list"
  ts_metadata :: "js_value option"

record kernel_trace =
  kt_steps :: "trace_step list"
  kt_decisionId :: string
  kt_kernelVersion :: string

record kernel_result =
  kr_requestId :: string
  kr_decisionId :: string
  kr_status :: kernel_decision_status
  kr_reasonCodes :: "string list"
  kr_summary :: string
  kr_recognition :: recognition_evaluation
  kr_authority :: authority_evaluation
  kr_policies :: "policy_result list"
  kr_approval :: approval_evaluation
  kr_evidence :: "evidence_evaluation list"
  kr_context :: "context_evaluation option"
  kr_obligations :: "obligation_evaluation option"
  kr_grants :: "grant_evaluation option"
  kr_external :: "external_evaluation option"
  kr_trace :: kernel_trace
  kr_evaluatedAt :: string
  kr_kernelVersion :: string
  kr_correlationId :: "string option"

record 'v kernel_execution_outcome =
  kx_status :: execution_result_status
  kx_executed :: bool
  kx_value :: "'v option"
  kx_errorMessage :: "string option"
  kx_startedAt :: "string option"
  kx_completedAt :: "string option"
  kx_withheldByObligation :: bool

record 'v kernel_enforcement_result =
  ke_result :: kernel_result
  ke_execution :: "'v kernel_execution_outcome"

text \<open>The outcomes a later step may still turn into a denial.\<close>

definition viable :: "kernel_decision_status \<Rightarrow> bool" where
  "viable status \<longleftrightarrow> status = KernelAllowed \<or> status = KernelApprovalRequired"

text \<open>
  A provider the kernel asks is a parameter: a function of its query and of the state of the world
  outside the kernel, which answers or fails and leaves the next state.
\<close>

type_synonym ('q, 'a, 'w) provider = "'q \<Rightarrow> 'w \<Rightarrow> 'a \<times> 'w"

definition present :: "'a list \<Rightarrow> 'a list option" where
  "present xs = (if xs = [] then None else Some xs)"

definition AOC_KERNEL_VERSION :: string where
  "AOC_KERNEL_VERSION = ''1.0.0''"

section \<open>Reason codes\<close>

text \<open>
  The tables of \<open>reason-codes.ts\<close>.  A recognition type that names a member every object inherits is
  outside the model, as in the engine.
\<close>

definition RECOGNITION_TYPE_TO_REASON_CODE :: "(string \<times> string) list" where
  "RECOGNITION_TYPE_TO_REASON_CODE =
     [(''unrecognized_actor'', ''RECOGNITION_ACTOR_UNKNOWN''), (''rogue_actor'', ''RECOGNITION_ROGUE_ACTOR''),
      (''invalid_capability'', ''AUTHORITY_CAPABILITY_MISSING''), (''revoked'', ''AUTHORITY_CAPABILITY_REVOKED''),
      (''expired'', ''AUTHORITY_DELEGATION_EXPIRED''), (''out_of_scope'', ''AUTHORITY_SCOPE_EXCEEDED''),
      (''policy_violation'', ''POLICY_CONDITION_UNSATISFIED''), (''deny'', ''POLICY_ACTION_PROHIBITED''),
      (''invalid_passport'', ''RECOGNITION_PASSPORT_INVALID''), (''require_human_approval'', ''APPROVAL_REQUIRED''),
      (''require_more_evidence'', ''EVIDENCE_REQUIRED'')]"

definition RECOGNITION_GATED_POLICY_IDS :: "string list" where
  "RECOGNITION_GATED_POLICY_IDS = [''recognition_required'', ''allow_decision_required'']"

definition RECOGNITION_REQUIRED_FAILURE_REASON_CODE :: "(string \<times> string) list" where
  "RECOGNITION_REQUIRED_FAILURE_REASON_CODE =
     [(''RECOGNITION_MISSING'', ''RECOGNITION_MISSING''), (''RECOGNITION_INVALID'', ''RECOGNITION_MISSING'')]"

definition POLICY_ID_TO_REASON_CODE :: "(string \<times> string) list" where
  "POLICY_ID_TO_REASON_CODE =
     [(''emergency_deny'', ''EMERGENCY_DENIED''), (''approval_pending'', ''APPROVAL_PENDING''),
      (''evidence_required'', ''EVIDENCE_REQUIRED''), (''external_standing'', ''RECOGNITION_HANDSHAKE_INVALID''),
      (''adapter_permission'', ''ADAPTER_DENIED''), (''domain_policy_pack'', ''DOMAIN_POLICY_DENIED''),
      (''idempotency'', ''IDEMPOTENCY_VIOLATION''), (''execution_timeout'', ''EXECUTION_TIMEOUT_EXCEEDED''),
      (''side_effect_boundary'', ''SIDE_EFFECT_BOUNDARY_VIOLATION''),
      (''post_execution_record'', ''POST_EXECUTION_RECORD_INVALID'')]"

fun mapDecisionTypeToStatus :: "enforcement_decision_type \<Rightarrow> kernel_decision_status" where
  "mapDecisionTypeToStatus ExecuteAllowed = KernelAllowed"
| "mapDecisionTypeToStatus DryRunAllowed = KernelAllowed"
| "mapDecisionTypeToStatus ApprovalRequired = KernelApprovalRequired"
| "mapDecisionTypeToStatus EvidenceRequired = KernelApprovalRequired"
| "mapDecisionTypeToStatus ExternalHandshakeRequired = KernelApprovalRequired"
| "mapDecisionTypeToStatus ExecutionBlocked = KernelDenied"
| "mapDecisionTypeToStatus AdapterDenied = KernelDenied"
| "mapDecisionTypeToStatus EmergencyDenied = KernelDenied"
| "mapDecisionTypeToStatus RequestExpired = KernelDenied"
| "mapDecisionTypeToStatus InvalidRequest = KernelDenied"
| "mapDecisionTypeToStatus DuplicateSuppressed = KernelDenied"

fun DECISION_TYPE_REASON_CODE :: "enforcement_decision_type \<Rightarrow> string" where
  "DECISION_TYPE_REASON_CODE ExecuteAllowed = ''ACTION_ALLOWED''"
| "DECISION_TYPE_REASON_CODE DryRunAllowed = ''ACTION_ALLOWED_DRY_RUN''"
| "DECISION_TYPE_REASON_CODE DuplicateSuppressed = ''ACTION_DUPLICATE_SUPPRESSED''"
| "DECISION_TYPE_REASON_CODE ApprovalRequired = ''APPROVAL_REQUIRED''"
| "DECISION_TYPE_REASON_CODE EvidenceRequired = ''EVIDENCE_REQUIRED''"
| "DECISION_TYPE_REASON_CODE ExternalHandshakeRequired = ''RECOGNITION_HANDSHAKE_INVALID''"
| "DECISION_TYPE_REASON_CODE ExecutionBlocked = ''POLICY_ACTION_PROHIBITED''"
| "DECISION_TYPE_REASON_CODE AdapterDenied = ''ADAPTER_DENIED''"
| "DECISION_TYPE_REASON_CODE EmergencyDenied = ''EMERGENCY_DENIED''"
| "DECISION_TYPE_REASON_CODE RequestExpired = ''REQUEST_EXPIRED''"
| "DECISION_TYPE_REASON_CODE InvalidRequest = ''REQUEST_INVALID''"

definition push_code :: "string list \<Rightarrow> string option \<Rightarrow> string list" where
  "push_code codes code = (case code of None \<Rightarrow> codes | Some c \<Rightarrow> if c \<in> set codes then codes else codes @ [c])"

definition first_failed :: "enforcement_decision \<Rightarrow> policy_result option" where
  "first_failed d = find (\<lambda>r. \<not> pr_passed r) (nd_policyResults d)"

definition failure_codes :: "enforcement_decision \<Rightarrow> policy_result \<Rightarrow> string list" where
  "failure_codes d failed = push_code
     (if pr_policyId failed = ''recognition_required''
      then push_code [] (map_of RECOGNITION_REQUIRED_FAILURE_REASON_CODE (pr_reasonCode failed))
      else if pr_policyId failed \<in> set RECOGNITION_GATED_POLICY_IDS
      then push_code [] (Option.bind (recognition_type_text (nd_recognitionDecisionType d))
             (map_of RECOGNITION_TYPE_TO_REASON_CODE))
      else [])
     (map_of POLICY_ID_TO_REASON_CODE (pr_policyId failed))"

definition mapDecisionToReasonCodes :: "enforcement_decision \<Rightarrow> string list" where
  "mapDecisionToReasonCodes d =
     (let codes = (case first_failed d of None \<Rightarrow> [] | Some failed \<Rightarrow> failure_codes d failed);
          codes' = push_code codes (Some (DECISION_TYPE_REASON_CODE (nd_type d)))
      in if codes' = [] then [''POLICY_ACTION_PROHIBITED''] else codes')"

section \<open>The request adapter\<close>

definition blank :: "string \<Rightarrow> bool" where
  "blank s \<longleftrightarrow> s = [] \<or> js_trim s = []"

definition validateKernelEvaluationRequest :: "platform \<Rightarrow> kernel_request \<Rightarrow> kernel_failure + unit" where
  "validateKernelEvaluationRequest P r =
     (if blank (kq_requestId r)
      then Inl (KernelValidationError ''KernelEvaluationRequest.requestId is required and must be non-empty.'')
      else if blank (ar_id (kq_actor r))
      then Inl (KernelValidationError ''KernelEvaluationRequest.actor.id is required and must be non-empty.'')
      else if blank (ar_trustDomainId (kq_actor r))
      then Inl (KernelValidationError ''KernelEvaluationRequest.actor.trustDomainId is required and must be non-empty.'')
      else if blank (at_type (kq_action r))
      then Inl (KernelValidationError ''KernelEvaluationRequest.action.type is required and must be non-empty.'')
      else if blank (at_resourceScope (kq_action r))
      then Inl (KernelValidationError ''KernelEvaluationRequest.action.resourceScope is required and must be non-empty.'')
      else if kq_requestedAt r = [] \<or> Date_parse P (kq_requestedAt r) = None
      then Inl (KernelValidationError ''KernelEvaluationRequest.requestedAt must be a valid ISO-8601 timestamp.'')
      else if (case at_semantics (kq_action r) of None \<Rightarrow> False | Some s \<Rightarrow> \<not> isWellFormedGovernedActionSemantics s)
      then Inl (KernelValidationError ''KernelEvaluationRequest.action.semantics must carry a semantic actionClass, resourceClass and a well-formed governanceProfile reference.'')
      else (case at_governedParameters (kq_action r) of
         None \<Rightarrow> Inr ()
       | Some ps \<Rightarrow>
           if at_semantics (kq_action r) = None
           then Inl (KernelValidationError ''KernelEvaluationRequest.action.governedParameters require action.semantics: a typed parameter is always declared by a governing profile.'')
           else if \<not> isWellFormedDeclaredGovernedParameters ps
           then Inl (KernelValidationError ''KernelEvaluationRequest.action.governedParameters must be a non-empty list of well-formed typed parameters in strictly ascending dimension order.'')
           else Inr ()))"

definition ENFORCEMENT_TARGET_TYPES :: "string list" where
  "ENFORCEMENT_TARGET_TYPES =
     [''tool_call'', ''api_handler'', ''workflow_step'', ''webhook'', ''scheduled_job'', ''manual_operation'', ''generic'']"

definition toEnforcementTargetType :: "string option \<Rightarrow> string option" where
  "toEnforcementTargetType t = (case t of None \<Rightarrow> None | Some x \<Rightarrow> if x \<in> set ENFORCEMENT_TARGET_TYPES then Some x else None)"

text \<open>
  The metadata bag of the policy input: the governed constraint context and the context
  resolution, each under its reserved key.
\<close>

record 'c policy_metadata =
  pm_constraints :: "'c option"
  pm_context :: "context_resolution option"

definition buildPolicyMetadata :: "'c option \<Rightarrow> context_resolution option \<Rightarrow> 'c policy_metadata option" where
  "buildPolicyMetadata constraint resolution =
     (if constraint = None \<and> resolution = None then None
      else Some \<lparr>pm_constraints = constraint, pm_context = resolution\<rparr>)"

record admitted_policy_context =
  am_contextFacts :: "admitted_policy_fact list"
  am_restrictiveFacts :: "admitted_policy_fact list"

definition hasPolicyPackFields :: "action_descriptor \<Rightarrow> bool" where
  "hasPolicyPackFields a \<longleftrightarrow>
     at_domain a \<noteq> None \<or> at_jurisdiction a \<noteq> None \<or> at_country a \<noteq> None \<or> at_industry a \<noteq> None \<or>
     at_customerId a \<noteq> None \<or> at_amount a \<noteq> None \<or> at_currency a \<noteq> None \<or> at_counterpartyId a \<noteq> None \<or>
     at_dataDomains a \<noteq> None \<or> at_evidenceIds a \<noteq> None \<or> at_semantics a \<noteq> None"

definition buildPolicyEvaluationInput ::
  "kernel_request \<Rightarrow> 'c option \<Rightarrow> context_resolution option \<Rightarrow> admitted_policy_context option \<Rightarrow>
     'c policy_metadata policy_evaluation_input option" where
  "buildPolicyEvaluationInput r constraint resolution admission =
     (let a = kq_action r
      in if constraint = None \<and> resolution = None \<and> \<not> hasPolicyPackFields a then None
         else Some
           \<lparr>pi_domain = at_domain a, pi_jurisdiction = at_jurisdiction a, pi_country = at_country a,
            pi_industry = at_industry a, pi_customerId = at_customerId a, pi_amount = at_amount a,
            pi_currency = at_currency a, pi_counterpartyId = at_counterpartyId a,
            pi_dataDomains = at_dataDomains a, pi_evidenceIds = at_evidenceIds a,
            pi_actionClass = map_option sem_actionClass (at_semantics a),
            pi_resourceClass = map_option sem_resourceClass (at_semantics a),
            pi_governanceProfile = map_option (profile_id \<circ> sem_governanceProfile) (at_semantics a),
            pi_governanceProfileVersion = map_option (profile_version \<circ> sem_governanceProfile) (at_semantics a),
            pi_governedParameters = map_option (map governed_parameter.truncate) (at_governedParameters a),
            pi_contextFacts = map_option am_contextFacts admission,
            pi_restrictiveFacts = map_option am_restrictiveFacts admission,
            pi_metadata = buildPolicyMetadata constraint resolution\<rparr>)"

definition GRANT_RESERVED_REQUEST_KEY_PREFIX :: string where
  "GRANT_RESERVED_REQUEST_KEY_PREFIX = ''aoc.grant''"

definition isReservedGrantKey :: "string \<Rightarrow> bool" where
  "isReservedGrantKey key \<longleftrightarrow>
     key = GRANT_RESERVED_REQUEST_KEY_PREFIX \<or>
     take (length GRANT_RESERVED_REQUEST_KEY_PREFIX + 1) key = GRANT_RESERVED_REQUEST_KEY_PREFIX @ ''.''"

definition reserved_key :: "string \<Rightarrow> bool" where
  "reserved_key key \<longleftrightarrow>
     key = ''organizationId'' \<or> key = ''organizationName'' \<or>
     isReservedContextKey key \<or> isReservedObligationKey key \<or> isReservedGrantKey key"

definition assign :: "string \<Rightarrow> js_value option \<Rightarrow> (string \<times> js_value) list \<Rightarrow> (string \<times> js_value) list" where
  "assign key v members = (case v of None \<Rightarrow> members | Some x \<Rightarrow> AList.update key x members)"

text \<open>The metadata the recognition provider reads: the request's context, less what the kernel reserves.\<close>

definition guard_metadata :: "kernel_request \<Rightarrow> (string \<times> js_value) list" where
  "guard_metadata r =
     assign ''parameters'' (at_parameters (kq_action r))
       (assign ''correlationId'' (map_option JSString (kq_correlationId r))
         (assign ''organizationName'' (Option.bind (kq_organization r) (\<lambda>o'. map_option JSString (og_name o')))
           (assign ''organizationId'' (map_option JSString (organization_id r))
             (filter (\<lambda>(key, v). \<not> reserved_key key) (option_list (kq_context r))))))"

definition toGuardActionRequestInput ::
  "kernel_request \<Rightarrow> kernel_options option \<Rightarrow> 'c option \<Rightarrow> context_resolution option \<Rightarrow>
     admitted_policy_context option \<Rightarrow> 'c policy_metadata guard_input" where
  "toGuardActionRequestInput r options constraint resolution admission =
     \<lparr>gi_actorId = ar_id (kq_actor r), gi_principalActorId = ar_principalId (kq_actor r),
      gi_trustDomainId = ar_trustDomainId (kq_actor r), gi_action = at_type (kq_action r),
      gi_capability = at_capability (kq_action r), gi_resourceScope = at_resourceScope (kq_action r),
      gi_targetId = target_member tf_id r,
      gi_targetType = toEnforcementTargetType (target_member tf_type r),
      gi_targetName = target_member tf_name r, gi_adapterId = target_member tf_adapterId r,
      gi_riskLevel = at_riskLevel (kq_action r), gi_sideEffectType = at_sideEffectType (kq_action r),
      gi_description = None, gi_idempotencyKey = kq_idempotencyKey r,
      gi_mode = (if Option.bind options ko_dryRun = Some True then Some DryRunMode else None),
      gi_expiresAt = kq_expiresAt r, gi_actionRequestId = Some (kq_requestId r),
      gi_approvalProofId = kq_approvalProofId r, gi_approvalRequestId = kq_approvalRequestId r,
      gi_approvalDecisionId = kq_approvalDecisionId r, gi_visaId = kq_visaId r,
      gi_ingressGrantId = kq_ingressGrantId r, gi_handshakeProofId = kq_handshakeProofId r,
      gi_policyEvaluationInput = buildPolicyEvaluationInput r constraint resolution admission,
      gi_metadata = Some (JSObject True (map (\<lambda>(key, v). (key, DataProp v)) (guard_metadata r)))\<rparr>"

section \<open>The result adapter\<close>

definition RECOGNIZED_RECOGNITION_TYPES :: "string list" where
  "RECOGNIZED_RECOGNITION_TYPES = [''allow'', ''require_human_approval'', ''require_more_evidence'']"

definition buildRecognitionEvaluation :: "enforcement_decision \<Rightarrow> recognition_evaluation" where
  "buildRecognitionEvaluation d =
     (let performed = nd_recognitionDecisionType d \<noteq> JSUndefined;
          attributable = (case first_failed d of
            None \<Rightarrow> False
          | Some failed \<Rightarrow> pr_policyId failed \<in> set RECOGNITION_GATED_POLICY_IDS)
      in \<lparr>re_performed = performed, re_decisionId = nd_recognitionDecisionId d,
          re_decisionType = nd_recognitionDecisionType d,
          re_recognized =
            (if performed
             then Some (\<exists>t \<in> set RECOGNIZED_RECOGNITION_TYPES. nd_recognitionDecisionType d = JSString t)
             else None),
          re_reasonCode = (if attributable then Some (nd_reasonCode d) else None),
          re_reason = (if attributable then Some (nd_reason d) else None)\<rparr>)"

definition buildAuthorityEvaluation :: "enforcement_decision \<Rightarrow> authority_evaluation" where
  "buildAuthorityEvaluation d =
     \<lparr>au_performed = (nd_authorityDecisionId d \<noteq> None \<or> nd_authorityProofId d \<noteq> None),
      au_decisionId = nd_authorityDecisionId d, au_proofId = nd_authorityProofId d,
      au_governedAuthority = None, au_representation = None\<rparr>"

definition buildApprovalEvaluation :: "enforcement_decision \<Rightarrow> approval_evaluation" where
  "buildApprovalEvaluation d =
     \<lparr>ap_performed = (nd_approvalRequestId d \<noteq> None \<or> nd_approvalDecisionId d \<noteq> None \<or>
        nd_approvalProofId d \<noteq> None \<or> nd_type d = ApprovalRequired),
      ap_status =
        (if nd_approvalProofId d \<noteq> None then ApprovalGranted
         else if nd_type d = ApprovalRequired \<or> nd_approvalRequestId d \<noteq> None \<or> nd_approvalDecisionId d \<noteq> None
         then ApprovalIsPending
         else ApprovalNotApplicable),
      ap_requestId = nd_approvalRequestId d, ap_decisionId = nd_approvalDecisionId d,
      ap_proofId = nd_approvalProofId d\<rparr>"

definition buildEvidenceEvaluations :: "enforcement_decision \<Rightarrow> evidence_evaluation list" where
  "buildEvidenceEvaluations d =
     map (\<lambda>r. \<lparr>ee_policyId = pr_policyId r, ee_passed = pr_passed r, ee_reasonCode = pr_reasonCode r,
               ee_reason = pr_reason r\<rparr>)
       (filter (\<lambda>r. pr_policyId r = ''evidence_required'') (nd_policyResults d))"

definition optional_code :: "string option \<Rightarrow> js_value list" where
  "optional_code c = (case c of None \<Rightarrow> [] | Some x \<Rightarrow> [JSString x])"

fun policy_steps :: "trace_level \<Rightarrow> nat \<Rightarrow> policy_result list \<Rightarrow> trace_step list" where
  "policy_steps level n [] = []"
| "policy_steps level n (r # rs) =
     \<lparr>ts_sequence = n, ts_operator = pr_policyId r,
      ts_status = (if pr_passed r then TracePassed else TraceFailed),
      ts_reasonCodes = [JSString (pr_reasonCode r)],
      ts_metadata = (if level = FullTrace then pr_metadata r else None)\<rparr> # policy_steps level (n + 1) rs"

definition buildTrace :: "enforcement_decision \<Rightarrow> trace_level \<Rightarrow> kernel_trace" where
  "buildTrace d level =
     (let recognition = buildRecognitionEvaluation d;
          authority = buildAuthorityEvaluation d;
          approval = buildApprovalEvaluation d
      in \<lparr>kt_steps =
            [\<lparr>ts_sequence = 1, ts_operator = ''recognition'',
              ts_status = (if \<not> re_performed recognition then TraceSkipped
                else if re_recognized recognition = Some True then TracePassed else TraceFailed),
              ts_reasonCodes = [if re_decisionType recognition \<noteq> JSUndefined then re_decisionType recognition
                else JSString ''RECOGNITION_MISSING''], ts_metadata = None\<rparr>,
             \<lparr>ts_sequence = 2, ts_operator = ''authority'',
              ts_status = (if \<not> au_performed authority then TraceSkipped
                else if re_recognized recognition = Some True then TracePassed else TraceFailed),
              ts_reasonCodes = optional_code (au_decisionId authority), ts_metadata = None\<rparr>,
             \<lparr>ts_sequence = 3, ts_operator = ''approval'',
              ts_status = (if ap_status approval = ApprovalGranted then TracePassed
                else if ap_status approval = ApprovalIsPending then TracePending else TraceSkipped),
              ts_reasonCodes = optional_code (ap_requestId approval), ts_metadata = None\<rparr>] @
            policy_steps level 4 (nd_policyResults d),
          kt_decisionId = nd_id d, kt_kernelVersion = AOC_KERNEL_VERSION\<rparr>)"

definition toKernelEvaluationResult ::
  "string \<Rightarrow> enforcement_decision \<Rightarrow> kernel_options option \<Rightarrow> string option \<Rightarrow> kernel_result" where
  "toKernelEvaluationResult rid d options correlation =
     \<lparr>kr_requestId = rid, kr_decisionId = nd_id d, kr_status = mapDecisionTypeToStatus (nd_type d),
      kr_reasonCodes = mapDecisionToReasonCodes d, kr_summary = nd_reason d,
      kr_recognition = buildRecognitionEvaluation d, kr_authority = buildAuthorityEvaluation d,
      kr_policies = nd_policyResults d, kr_approval = buildApprovalEvaluation d,
      kr_evidence = buildEvidenceEvaluations d, kr_context = None, kr_obligations = None, kr_grants = None,
      kr_external = None, kr_trace = buildTrace d (given (Option.bind options ko_traceLevel) BasicTrace),
      kr_evaluatedAt = nd_decidedAt d, kr_kernelVersion = AOC_KERNEL_VERSION, kr_correlationId = correlation\<rparr>"

definition toKernelExecutionOutcome :: "'v execution_result \<Rightarrow> 'v kernel_execution_outcome" where
  "toKernelExecutionOutcome x =
     \<lparr>kx_status = nx_status x, kx_executed = nx_executed x, kx_value = nx_value x,
      kx_errorMessage = nx_errorMessage x, kx_startedAt = nx_startedAt x,
      kx_completedAt = nx_completedAt x, kx_withheldByObligation = False\<rparr>"

definition toKernelEnforcementResult ::
  "string \<Rightarrow> enforcement_decision \<Rightarrow> 'v execution_result \<Rightarrow> kernel_options option \<Rightarrow> string option \<Rightarrow>
     'v kernel_enforcement_result" where
  "toKernelEnforcementResult rid d x options correlation =
     \<lparr>ke_result = toKernelEvaluationResult rid d options correlation, ke_execution = toKernelExecutionOutcome x\<rparr>"

section \<open>The asserted invariants\<close>

definition assertRecognitionPrecedesAllow :: "kernel_result \<Rightarrow> kernel_failure + unit" where
  "assertRecognitionPrecedesAllow r =
     (if kr_status r = KernelAllowed \<and>
         (\<not> re_performed (kr_recognition r) \<or> re_recognized (kr_recognition r) \<noteq> Some True)
      then Inl (KernelInvariantError (''Kernel invariant violated: decision '' @ kr_decisionId r @
        '' was '' @
        quoted ''allowed'' @ '' without a performed, recognized recognition evaluation.''))
      else Inr ())"

definition assertReasonCodesPresent :: "kernel_result \<Rightarrow> kernel_failure + unit" where
  "assertReasonCodesPresent r =
     (if kr_reasonCodes r = []
      then Inl (KernelInvariantError (''Kernel invariant violated: decision '' @ kr_decisionId r @ '' carries no reason codes.''))
      else Inr ())"

text \<open>The model's requests are values: the comparison with the snapshot taken first always holds.\<close>

definition assertKernelInvariants :: "kernel_result \<Rightarrow> kernel_failure + unit" where
  "assertKernelInvariants r =
     (case assertReasonCodesPresent r of
        Inl e \<Rightarrow> Inl e
      | Inr _ \<Rightarrow> assertRecognitionPrecedesAllow r)"

end
