(* ===== verification/Kernel_Adapters.thy ===== *)
theory Kernel_Adapters
  imports Kernel_Contracts
begin

text \<open>
  Four adapters of the kernel (\<open>effective-profile.ts\<close>, \<open>context-adapter.ts\<close>,
  \<open>obligation-adapter.ts\<close> and \<open>external-authorization-adapter.ts\<close> of \<open>src/kernel/orchestration\<close>):
  which governance profile a request stands under, and the steps that resolve trusted context,
  obligations and the external veto and fold each into a result.

  The resolver of effective profiles is a lookup in the deployment's configuration: a function of
  an action and a resource, \<open>None\<close> where it throws.
\<close>

text \<open>What composing a kernel rejects with.\<close>

datatype wiring_error =
    WiringTypeError string
  | WiringContextError context_error
  | WiringObligationError obligation_error
  | WiringGrantError grant_configuration_error
  | KernelConfigurationError string

section \<open>The effective governance profile\<close>

datatype effective_resolution = Unclassified | ResolvedProfile governance_profile_reference | RefusedResolution

type_synonym effective_profile_resolver = "string \<Rightarrow> string \<Rightarrow> effective_resolution option"

datatype effective_selection = DeploymentSelection | ProfileSelection string | RefusedSelection

definition governanceProfileKey :: "platform \<Rightarrow> governance_profile_reference \<Rightarrow> string" where
  "governanceProfileKey P p =
     profile_id p @ ''@'' @ js_number_toString P (profile_version p) @ ''#'' @ profile_digest p"

fun sameResolution :: "platform \<Rightarrow> effective_resolution \<Rightarrow> effective_resolution \<Rightarrow> bool" where
  "sameResolution P (ResolvedProfile p) (ResolvedProfile q) = (governanceProfileKey P p = governanceProfileKey P q)"
| "sameResolution P Unclassified Unclassified = True"
| "sameResolution P RefusedResolution RefusedResolution = True"
| "sameResolution P _ _ = False"

definition assertEffectiveProfileResolver ::
  "nat \<Rightarrow> effective_profile_resolver option \<Rightarrow> string \<Rightarrow> wiring_error + unit" where
  "assertEffectiveProfileResolver declarations resolver what =
     (if declarations > 0 \<and> resolver = None
      then Inl (WiringTypeError (what @ '' are declared per Governance Profile, and no trusted effective-profile resolver was supplied; a request'' @ [CHR 0x27] @ ''s own semantics never select a profile.''))
      else Inr ())"

definition claimed_profile :: "kernel_request \<Rightarrow> governance_profile_reference option" where
  "claimed_profile r = map_option sem_governanceProfile (at_semantics (kq_action r))"

text \<open>The resolution of the request's action; refused if its capability resolves otherwise.\<close>

definition effective_resolution_of ::
  "platform \<Rightarrow> effective_profile_resolver \<Rightarrow> kernel_request \<Rightarrow> effective_resolution" where
  "effective_resolution_of P resolve r =
     (let a = kq_action r
      in case resolve (at_type a) (at_resourceScope a) of
           None \<Rightarrow> RefusedResolution
         | Some resolution \<Rightarrow>
             (case at_capability a of
                None \<Rightarrow> resolution
              | Some capability \<Rightarrow>
                  if capability = at_type a then resolution
                  else (case resolve capability (at_resourceScope a) of
                     None \<Rightarrow> RefusedResolution
                   | Some other \<Rightarrow> if sameResolution P resolution other then resolution else RefusedResolution)))"

definition selectEffectiveProfile ::
  "platform \<Rightarrow> effective_profile_resolver option \<Rightarrow> kernel_request \<Rightarrow> effective_selection" where
  "selectEffectiveProfile P resolver r =
     (case resolver of
        None \<Rightarrow> DeploymentSelection
      | Some resolve \<Rightarrow>
          (case effective_resolution_of P resolve r of
             ResolvedProfile p \<Rightarrow>
               if (case claimed_profile r of
                     None \<Rightarrow> False
                   | Some claimed \<Rightarrow> governanceProfileKey P claimed \<noteq> governanceProfileKey P p)
               then RefusedSelection
               else ProfileSelection (governanceProfileKey P p)
           | Unclassified \<Rightarrow> if claimed_profile r = None then DeploymentSelection else RefusedSelection
           | RefusedResolution \<Rightarrow> RefusedSelection))"

section \<open>Trusted context\<close>

record context_selection =
  cs_service :: context_service
  cs_requirements :: "context_requirement list"
  cs_profile :: "string option"
  cs_refused :: bool

record 'w context_capability =
  ca_provider :: "(context_query, context_answer, 'w) provider"
  ca_service :: context_service
  ca_requirements :: "context_requirement list"
  ca_byProfile :: "(string \<times> context_selection) list"
  ca_resolver :: "effective_profile_resolver option"

record 'w context_options =
  co_provider :: "(context_query, context_answer, 'w) provider"
  co_sources :: "context_source list"
  co_declaration :: context_declaration
  co_profileDeclarations :: "(governance_profile_reference \<times> context_declaration) list"
  co_resolveEffectiveProfile :: "effective_profile_resolver option"
  co_attestationVerifier :: "attestation_verifier option"

fun context_profiles ::
  "platform \<Rightarrow> 'w context_options \<Rightarrow> (governance_profile_reference \<times> context_declaration) list \<Rightarrow>
     (string \<times> context_selection) list \<Rightarrow> wiring_error + (string \<times> context_selection) list" where
  "context_profiles P opts [] known = Inr known"
| "context_profiles P opts ((profile, declaration) # rest) known =
     (let key = governanceProfileKey P profile
      in if map_of known key \<noteq> None
         then Inl (WiringTypeError (''Context is declared twice for Governance Profile '' @ key @ ''.''))
         else (case createContextResolutionService (co_sources opts) declaration (co_attestationVerifier opts) of
            Inl e \<Rightarrow> Inl (WiringContextError e)
          | Inr svc \<Rightarrow> context_profiles P opts rest
              (AList.update key \<lparr>cs_service = svc, cs_requirements = dc_requirements declaration,
                 cs_profile = Some key, cs_refused = False\<rparr> known)))"

definition createKernelContextCapability ::
  "platform \<Rightarrow> 'w context_options \<Rightarrow> wiring_error + 'w context_capability" where
  "createKernelContextCapability P opts =
     (case assertEffectiveProfileResolver (length (co_profileDeclarations opts)) (co_resolveEffectiveProfile opts)
             ''Context requirements'' of
        Inl e \<Rightarrow> Inl e
      | Inr _ \<Rightarrow>
          (case createContextResolutionService (co_sources opts) (co_declaration opts) (co_attestationVerifier opts) of
             Inl e \<Rightarrow> Inl (WiringContextError e)
           | Inr svc \<Rightarrow>
               (case context_profiles P opts (co_profileDeclarations opts) [] of
                  Inl e \<Rightarrow> Inl e
                | Inr byProfile \<Rightarrow> Inr
                    \<lparr>ca_provider = co_provider opts, ca_service = svc,
                     ca_requirements = dc_requirements (co_declaration opts), ca_byProfile = byProfile,
                     ca_resolver = co_resolveEffectiveProfile opts\<rparr>)))"

definition select_context :: "platform \<Rightarrow> 'w context_capability \<Rightarrow> kernel_request \<Rightarrow> context_selection" where
  "select_context P cap r =
     (let deployment = \<lparr>cs_service = ca_service cap, cs_requirements = ca_requirements cap,
                        cs_profile = None, cs_refused = False\<rparr>
      in case selectEffectiveProfile P (ca_resolver cap) r of
           RefusedSelection \<Rightarrow> deployment\<lparr>cs_requirements := [], cs_refused := True\<rparr>
         | ProfileSelection key \<Rightarrow> given (map_of (ca_byProfile cap) key) deployment
         | DeploymentSelection \<Rightarrow> deployment)"

definition context_query_for :: "context_service \<Rightarrow> kernel_request \<Rightarrow> string \<Rightarrow> context_query" where
  "context_query_for svc r now =
     \<lparr>cq_keys = sv_requested svc, cq_actorId = ar_id (kq_actor r),
      cq_trustDomainId = ar_trustDomainId (kq_actor r), cq_action = governed_action r,
      cq_resourceScope = at_resourceScope (kq_action r), cq_organizationId = organization_id r,
      cq_targetId = target_member tf_id r, cq_at = now\<rparr>"

definition classify_answer ::
  "platform \<Rightarrow> context_service \<Rightarrow> kernel_request \<Rightarrow> string \<Rightarrow> context_answer \<Rightarrow> js_error + context_resolution option" where
  "classify_answer P svc r now answer =
     (case answer of
        ContextObservations observations \<Rightarrow>
          (case classify_context P svc observations now (organization_id r) of
             Inl e \<Rightarrow> Inl e
           | Inr resolution \<Rightarrow> Inr (Some resolution))
      | _ \<Rightarrow> Inr (Some (unresolvedContextResolution (sv_declared svc) (Some (service_assertedFactPolicy svc))
               (Some (service_assertableKeys svc)) now)))"

definition resolveKernelContext ::
  "platform \<Rightarrow> 'w context_capability option \<Rightarrow> kernel_request \<Rightarrow> string \<Rightarrow> 'w \<Rightarrow>
     (js_error + context_resolution option) \<times> 'w" where
  "resolveKernelContext P capability r now w =
     (case capability of
        None \<Rightarrow> (Inr None, w)
      | Some cap \<Rightarrow>
          let selection = select_context P cap r;
              svc = cs_service selection
          in if cs_refused selection then (Inr (Some (unresolvedContextResolution [] None None now)), w)
             else if sv_declared svc = [] then (Inr None, w)
             else if sv_requested svc = [] then (classify_answer P svc r now (ContextObservations []), w)
             else (case ca_provider cap (context_query_for svc r now) w of
                (answer, w') \<Rightarrow> (classify_answer P svc r now answer, w')))"

fun READ_STATUS_TO_REASON_CODE :: "read_status \<Rightarrow> string" where
  "READ_STATUS_TO_REASON_CODE Stale = ''CONTEXT_REQUIRED_FACT_STALE''"
| "READ_STATUS_TO_REASON_CODE Conflicted = ''CONTEXT_REQUIRED_FACT_CONFLICTED''"
| "READ_STATUS_TO_REASON_CODE InsufficientTrust = ''CONTEXT_REQUIRED_FACT_UNTRUSTED''"
| "READ_STATUS_TO_REASON_CODE AssertedNotDeclared = ''CONTEXT_REQUIRED_FACT_UNTRUSTED''"
| "READ_STATUS_TO_REASON_CODE _ = ''CONTEXT_REQUIRED_FACT_UNRESOLVED''"

definition REFUSAL_TO_REASON_CODE :: "(string \<times> string) list" where
  "REFUSAL_TO_REASON_CODE =
     [(''source_untrusted'', ''CONTEXT_REQUIRED_FACT_SOURCE_NOT_AUTHORIZED''),
      (''fact_class_not_attested'', ''CONTEXT_REQUIRED_FACT_SOURCE_NOT_AUTHORIZED''),
      (''organization_mismatch'', ''CONTEXT_REQUIRED_FACT_SOURCE_NOT_AUTHORIZED''),
      (''provenance_invalid'', ''CONTEXT_REQUIRED_FACT_PROVENANCE_INVALID''),
      (''attestation_missing'', ''CONTEXT_REQUIRED_FACT_PROVENANCE_INVALID''),
      (''attestation_invalid'', ''CONTEXT_REQUIRED_FACT_PROVENANCE_INVALID''),
      (''future_dated'', ''CONTEXT_REQUIRED_FACT_TIME_INVALID''),
      (''observation_time_invalid'', ''CONTEXT_REQUIRED_FACT_TIME_INVALID''),
      (''value_malformed'', ''CONTEXT_REQUIRED_FACT_MALFORMED'')]"

definition fact_evaluation :: "context_fact \<Rightarrow> context_fact_evaluation" where
  "fact_evaluation f =
     \<lparr>fe_key = cf_key f, fe_sourceId = cf_sourceId f, fe_sourceKind = cf_sourceKind f,
      fe_trustClass = cf_trustClass f, fe_effectiveTrustClass = cf_effectiveTrustClass f,
      fe_resolution = cf_resolution f, fe_observedAt = cf_observedAt f,
      fe_staleAt = map_option fr_staleAt (cf_freshness f),
      fe_conflictingSourceIds = cf_conflictingSourceIds f, fe_reference = cf_reference f,
      fe_provenanceDigest = cf_provenanceDigest f\<rparr>"

definition required_keys :: "context_requirement list \<Rightarrow> string list" where
  "required_keys requirements = js_set (map cr_key (filter cr_required requirements))"

definition restrictive_keys :: "context_requirement list \<Rightarrow> string list" where
  "restrictive_keys requirements = js_set (map cr_key (filter (\<lambda>q. cr_restrictive q = Some True) requirements))"

definition read_unsatisfied :: "context_requirement list \<Rightarrow> fact_read \<Rightarrow> bool" where
  "read_unsatisfied requirements read \<longleftrightarrow>
     (rd_key read \<in> set (required_keys requirements) \<and> rd_status read \<noteq> Satisfied) \<or>
     (rd_key read \<in> set (restrictive_keys requirements) \<and>
        (rd_status read = Conflicted \<or> rd_status read = ContextNotResolved))"

definition requirement_evaluation ::
  "context_resolution \<Rightarrow> context_requirement list \<Rightarrow> fact_read \<Rightarrow> context_requirement_evaluation" where
  "requirement_evaluation resolution requirements read =
     \<lparr>qe_key = rd_key read, qe_status = rd_status read,
      qe_minimumTrustClass =
        given (map_of (rev (map (\<lambda>q. (cr_key q, cr_minimumTrustClass q)) requirements)) (rd_key read)) ''asserted'',
      qe_refusalReasons =
        present (if rd_status read = Unresolved
          then sort (js_set (map (refusal_reason_name \<circ> rf_reason)
                 (filter (\<lambda>e. rf_key e = rd_key read) (cx_refused resolution))))
          else [])\<rparr>"

definition earlier_instant :: "platform \<Rightarrow> string \<Rightarrow> string \<Rightarrow> bool" where
  "earlier_instant P a b = (case (Date_parse P a, Date_parse P b) of (Some x, Some y) \<Rightarrow> x < y | _ \<Rightarrow> False)"

fun valid_until ::
  "platform \<Rightarrow> context_resolution \<Rightarrow> string list \<Rightarrow> fact_read list \<Rightarrow> string option \<Rightarrow> string option" where
  "valid_until P resolution restrictive [] until = until"
| "valid_until P resolution restrictive (read # reads) until =
     valid_until P resolution restrictive reads
       (if rd_status read \<noteq> Satisfied \<or> rd_key read \<in> set restrictive then until
        else (case Option.bind (resolved_fact resolution (rd_key read)) (\<lambda>f. map_option fr_staleAt (cf_freshness f)) of
           None \<Rightarrow> until
         | Some staleAt \<Rightarrow>
             (case until of
                None \<Rightarrow> Some staleAt
              | Some u \<Rightarrow> if earlier_instant P staleAt u then Some staleAt else until)))"

definition toContextEvaluation ::
  "platform \<Rightarrow> context_resolution \<Rightarrow> context_selection \<Rightarrow> fact_read list \<Rightarrow> js_error + context_evaluation" where
  "toContextEvaluation P resolution selection reads =
     (let requirements = cs_requirements selection;
          restrictive = restrictive_keys requirements;
          evaluation = (\<lambda>digest.
            \<lparr>ce_performed = True, ce_resolved = cx_resolved resolution, ce_declaredKeys = cx_declaredKeys resolution,
             ce_facts = map fact_evaluation (cx_facts resolution), ce_unresolved = cx_unresolved resolution,
             ce_stale = cx_stale resolution, ce_conflicted = cx_conflicted resolution,
             ce_assertedFactPolicy = cx_assertedFactPolicy resolution,
             ce_assertedFactReads = present (map rd_key (filter rd_assertedFactReported reads)),
             ce_unsatisfiedRequirements =
               present (map (requirement_evaluation resolution requirements)
                 (filter (read_unsatisfied requirements) reads)),
             ce_refused = present (cx_refused resolution),
             ce_restrictiveKeys = present (sort restrictive), ce_digest = digest,
             ce_validUntil =
               (if cs_profile selection = None then None else valid_until P resolution restrictive reads None),
             ce_profile = cs_profile selection\<rparr>)
      in if cs_profile selection = None then Inr (evaluation None)
         else (case contextResolutionDigest P resolution of
            Inl e \<Rightarrow> Inl e
          | Inr digest \<Rightarrow> Inr (evaluation (Some digest))))"

record context_step_facts =
  cz_evaluation :: context_evaluation
  cz_reasonCodes :: "string list"
  cz_summary :: string
  cz_admitted :: admitted_policy_context

definition compare_classes :: "admitted_policy_fact \<Rightarrow> admitted_policy_fact \<Rightarrow> int" where
  "compare_classes l r =
     (if af_factClass l < af_factClass r then - 1 else if af_factClass l > af_factClass r then 1 else 0)"

definition admitted_facts :: "fact_read list \<Rightarrow> (string \<Rightarrow> bool) \<Rightarrow> admitted_policy_fact list" where
  "admitted_facts reads keep = sort_by compare_classes
     (List.map_filter (\<lambda>read.
        if rd_status read = Satisfied \<and> keep (rd_key read)
        then map_option (\<lambda>v. \<lparr>af_factClass = rd_key read, af_value = v\<rparr>) (rd_value read) else None) reads)"

definition admittedPolicyContext :: "context_requirement list \<Rightarrow> fact_read list \<Rightarrow> admitted_policy_context" where
  "admittedPolicyContext requirements reads =
     (let restrictive = restrictive_keys requirements
      in \<lparr>am_contextFacts = admitted_facts reads (\<lambda>key. key \<notin> set restrictive),
          am_restrictiveFacts = admitted_facts reads (\<lambda>key. key \<in> set restrictive)\<rparr>)"

definition requirement_codes :: "string list \<Rightarrow> context_requirement_evaluation \<Rightarrow> string list" where
  "requirement_codes restrictive entry =
     (if qe_key entry \<in> set restrictive then [''CONTEXT_RESTRICTIVE_FACT_AMBIGUOUS'']
      else (case qe_refusalReasons entry of
         Some reasons \<Rightarrow>
           map (\<lambda>reason. given (map_of REFUSAL_TO_REASON_CODE reason) ''CONTEXT_REQUIRED_FACT_UNRESOLVED'') reasons
       | None \<Rightarrow> [READ_STATUS_TO_REASON_CODE (qe_status entry)]))"

definition resolveKernelContextFacts ::
  "platform \<Rightarrow> 'w context_capability \<Rightarrow> context_resolution \<Rightarrow> kernel_request \<Rightarrow> js_error + context_step_facts" where
  "resolveKernelContextFacts P cap resolution r =
     (let selection = select_context P cap r;
          reads = (if cs_refused selection then [] else readContextFacts resolution (cs_requirements selection));
          restrictive = restrictive_keys (cs_requirements selection)
      in case toContextEvaluation P resolution selection reads of
           Inl e \<Rightarrow> Inl e
         | Inr evaluation \<Rightarrow>
             let unsatisfied = option_list (ce_unsatisfiedRequirements evaluation);
                 admission = admittedPolicyContext (cs_requirements selection) reads
             in if cs_refused selection
                then Inr \<lparr>cz_evaluation = evaluation, cz_reasonCodes = [''CONTEXT_PROFILE_UNTRUSTED''],
                  cz_summary = ''This request'' @ [CHR 0x27] @ ''s effective Governance Profile could not be established from trusted configuration, or its semantics named a different one; it is not evaluated under any weaker declaration.'',
                  cz_admitted = \<lparr>am_contextFacts = [], am_restrictiveFacts = []\<rparr>\<rparr>
                else if unsatisfied = []
                then Inr \<lparr>cz_evaluation = evaluation, cz_reasonCodes = [], cz_summary = [], cz_admitted = admission\<rparr>
                else Inr
                  \<lparr>cz_evaluation = evaluation,
                   cz_reasonCodes = js_set (concat (map (requirement_codes restrictive) unsatisfied)),
                   cz_summary = ''This deployment declares context it will not evaluate this action without, and it did not resolve: '' @
                     join '', '' (map (\<lambda>e. qe_key e @ '' ('' @ read_status_name (qe_status e) @ '')'') unsatisfied) @ ''.'',
                   cz_admitted = admission\<rparr>)"

definition context_fold :: "context_step_facts \<Rightarrow> kernel_result \<Rightarrow> kernel_result" where
  "context_fold facts result =
     (if \<not> viable (kr_status result) \<or> cz_reasonCodes facts = []
      then result\<lparr>kr_context := Some (cz_evaluation facts)\<rparr>
      else result\<lparr>kr_status := KernelDenied, kr_reasonCodes := cz_reasonCodes facts,
                  kr_summary := cz_summary facts, kr_context := Some (cz_evaluation facts)\<rparr>)"

definition applyContextStep ::
  "platform \<Rightarrow> 'w context_capability option \<Rightarrow> context_resolution option \<Rightarrow> kernel_result \<Rightarrow> kernel_request \<Rightarrow>
     js_error + kernel_result" where
  "applyContextStep P capability resolution result r =
     (case (capability, resolution) of
        (Some cap, Some resolved) \<Rightarrow>
          (case resolveKernelContextFacts P cap resolved r of
             Inl e \<Rightarrow> Inl e
           | Inr facts \<Rightarrow> Inr (context_fold facts result))
      | _ \<Rightarrow> Inr result)"

section \<open>Obligations\<close>

definition EFFECTIVE_PROFILE_UNTRUSTED_OBLIGATION :: string where
  "EFFECTIVE_PROFILE_UNTRUSTED_OBLIGATION = ''frontera.effectiveProfile.untrusted''"

definition refusal_declaration :: js_value where
  "refusal_declaration = JSObject True [(''requirements'', DataProp (JSArray [JSObject True
     [(''obligationType'', DataProp (JSString EFFECTIVE_PROFILE_UNTRUSTED_OBLIGATION)),
      (''blocking'', DataProp (JSBool True))]]))]"

record obligation_selection =
  os_service :: lifecycle_service
  os_refused :: bool

record 'w obligation_capability =
  oa_provider :: "(discharge_query, discharge_answer, 'w) provider"
  oa_service :: lifecycle_service
  oa_byProfile :: "(string \<times> obligation_selection) list"
  oa_resolver :: "effective_profile_resolver option"
  oa_refusal :: obligation_selection

record 'w obligation_options =
  oo_provider :: "(discharge_query, discharge_answer, 'w) provider"
  oo_sources :: "js_value list"
  oo_declaration :: js_value
  oo_profileDeclarations :: "(governance_profile_reference \<times> js_value) list"
  oo_resolveEffectiveProfile :: "effective_profile_resolver option"

fun obligation_profiles ::
  "platform \<Rightarrow> js_value list \<Rightarrow> (governance_profile_reference \<times> js_value) list \<Rightarrow>
     (string \<times> obligation_selection) list \<Rightarrow> wiring_error + (string \<times> obligation_selection) list" where
  "obligation_profiles P sources [] known = Inr known"
| "obligation_profiles P sources ((profile, declaration) # rest) known =
     (let key = governanceProfileKey P profile
      in if map_of known key \<noteq> None
         then Inl (WiringTypeError (''Obligations are declared twice for Governance Profile '' @ key @ ''.''))
         else (case createObligationLifecycleService P sources declaration of
            Inl e \<Rightarrow> Inl (WiringObligationError e)
          | Inr svc \<Rightarrow> obligation_profiles P sources rest
              (AList.update key \<lparr>os_service = svc, os_refused = False\<rparr> known)))"

definition createKernelObligationCapability ::
  "platform \<Rightarrow> 'w obligation_options \<Rightarrow> wiring_error + 'w obligation_capability" where
  "createKernelObligationCapability P opts =
     (case assertEffectiveProfileResolver (length (oo_profileDeclarations opts)) (oo_resolveEffectiveProfile opts)
             ''Obligations'' of
        Inl e \<Rightarrow> Inl e
      | Inr _ \<Rightarrow>
          (case createObligationLifecycleService P (oo_sources opts) refusal_declaration of
             Inl e \<Rightarrow> Inl (WiringObligationError e)
           | Inr refusing \<Rightarrow>
               (case createObligationLifecycleService P (oo_sources opts) (oo_declaration opts) of
                  Inl e \<Rightarrow> Inl (WiringObligationError e)
                | Inr svc \<Rightarrow>
                    (case obligation_profiles P (oo_sources opts) (oo_profileDeclarations opts) [] of
                       Inl e \<Rightarrow> Inl e
                     | Inr byProfile \<Rightarrow> Inr
                         \<lparr>oa_provider = oo_provider opts, oa_service = svc, oa_byProfile = byProfile,
                          oa_resolver = oo_resolveEffectiveProfile opts,
                          oa_refusal = \<lparr>os_service = refusing, os_refused = True\<rparr>\<rparr>))))"

definition select_obligations :: "platform \<Rightarrow> 'w obligation_capability \<Rightarrow> kernel_request \<Rightarrow> obligation_selection" where
  "select_obligations P cap r =
     (let deployment = \<lparr>os_service = oa_service cap, os_refused = False\<rparr>
      in case selectEffectiveProfile P (oa_resolver cap) r of
           RefusedSelection \<Rightarrow> oa_refusal cap
         | ProfileSelection key \<Rightarrow> given (map_of (oa_byProfile cap) key) deployment
         | DeploymentSelection \<Rightarrow> deployment)"

definition obligationCorrelationFor :: "kernel_request \<Rightarrow> obligation_correlation" where
  "obligationCorrelationFor r =
     \<lparr>oc_requestId = kq_requestId r, oc_action = governed_action r, oc_resourceScope = at_resourceScope (kq_action r)\<rparr>"

definition discharge_query_for :: "lifecycle_service \<Rightarrow> kernel_request \<Rightarrow> string \<Rightarrow> discharge_query" where
  "discharge_query_for svc r now =
     \<lparr>dq_obligationTypes = ls_declared svc, dq_correlation = obligationCorrelationFor r,
      dq_actorId = ar_id (kq_actor r), dq_trustDomainId = ar_trustDomainId (kq_actor r),
      dq_organizationId = organization_id r, dq_targetId = target_member tf_id r, dq_at = now\<rparr>"

definition undischarged :: "lifecycle_service \<Rightarrow> kernel_request \<Rightarrow> string \<Rightarrow> obligation_resolution" where
  "undischarged svc r now =
     unresolvedObligationResolution (ls_declared svc) (declare_obligations svc (obligationCorrelationFor r) now) now"

definition resolve_answer ::
  "platform \<Rightarrow> lifecycle_service \<Rightarrow> kernel_request \<Rightarrow> string \<Rightarrow> discharge_answer \<Rightarrow>
     js_error + obligation_resolution option" where
  "resolve_answer P svc r now answer =
     (case answer of
        Discharges observations \<Rightarrow>
          (case resolve_obligations P svc observations (obligationCorrelationFor r) now of
             Inl e \<Rightarrow> Inl e
           | Inr resolution \<Rightarrow> Inr (Some resolution))
      | _ \<Rightarrow> Inr (Some (undischarged svc r now)))"

definition resolveKernelObligations ::
  "platform \<Rightarrow> 'w obligation_capability option \<Rightarrow> kernel_request \<Rightarrow> string \<Rightarrow> 'w \<Rightarrow>
     (js_error + obligation_resolution option) \<times> 'w" where
  "resolveKernelObligations P capability r now w =
     (case capability of
        None \<Rightarrow> (Inr None, w)
      | Some cap \<Rightarrow>
          let selection = select_obligations P cap r;
              svc = os_service selection
          in if ls_declared svc = [] then (Inr None, w)
             else if os_refused selection then (Inr (Some (undischarged svc r now)), w)
             else (case oa_provider cap (discharge_query_for svc r now) w of
                (answer, w') \<Rightarrow> (resolve_answer P svc r now answer, w')))"

fun obligation_state_name :: "obligation_state \<Rightarrow> string" where
  "obligation_state_name Required = ''required''"
| "obligation_state_name Pending = ''pending''"
| "obligation_state_name Discharged = ''discharged''"
| "obligation_state_name Verified = ''verified''"
| "obligation_state_name Waived = ''waived''"
| "obligation_state_name Expired = ''expired''"

fun STATE_TO_EXERCISE_REASON_CODE :: "obligation_state \<Rightarrow> string" where
  "STATE_TO_EXERCISE_REASON_CODE Discharged = ''OBLIGATION_DISCHARGE_UNVERIFIED''"
| "STATE_TO_EXERCISE_REASON_CODE Expired = ''OBLIGATION_EXPIRED''"
| "STATE_TO_EXERCISE_REASON_CODE _ = ''OBLIGATION_PENDING''"

definition toObligationInstanceEvaluation :: "obligation_instance \<Rightarrow> obligation_instance_evaluation" where
  "toObligationInstanceEvaluation i =
     \<lparr>ie_id = oi_id i, ie_obligationType = oi_type i, ie_blocking = oi_blocking i, ie_state = oi_state i,
      ie_satisfied = obligationIsSatisfied i, ie_terminal = obligationIsTerminal i,
      ie_withholdsExercise = obligationWithholdsExercise i, ie_transitions = oi_transitions i,
      ie_discharge = oi_discharge i, ie_verification = oi_verification i, ie_expiresAt = oi_expiresAt i\<rparr>"

record obligation_step_facts =
  oz_evaluation :: obligation_evaluation
  oz_eligible :: bool

definition resolveKernelObligationFacts :: "obligation_resolution \<Rightarrow> obligation_step_facts" where
  "resolveKernelObligationFacts resolution =
     (let withholding = filter obligationWithholdsExercise (res_obligations resolution);
          none_withhold = withholding = []
      in \<lparr>oz_evaluation =
            \<lparr>oe_performed = True, oe_resolved = res_resolved resolution,
             oe_declaredTypes = res_declaredTypes resolution,
             oe_obligations = map toObligationInstanceEvaluation (res_obligations resolution),
             oe_exerciseEligibility = (if none_withhold then Eligible else Blocked),
             oe_allBlockingObligationsSatisfied = none_withhold,
             oe_exerciseReasonCodes = present (js_set (map (STATE_TO_EXERCISE_REASON_CODE \<circ> oi_state) withholding)),
             oe_summary =
               (if none_withhold then None
                else Some (''The authorization stands; exercise is withheld until every blocking obligation is discharged: '' @
                  join '', '' (map (\<lambda>i. oi_type i @ '' ('' @ obligation_state_name (oi_state i) @ '')'') withholding) @ ''.'')),
             oe_disregarded = present (res_disregarded resolution)\<rparr>,
          oz_eligible = none_withhold\<rparr>)"

definition applyObligationStep :: "obligation_resolution option \<Rightarrow> kernel_result \<Rightarrow> kernel_result" where
  "applyObligationStep resolution result =
     (case resolution of
        None \<Rightarrow> result
      | Some resolved \<Rightarrow> result\<lparr>kr_obligations := Some (oz_evaluation (resolveKernelObligationFacts resolved))\<rparr>)"

section \<open>External authorization\<close>

definition EXTERNAL_AUTHORIZATION_MAX_TIMEOUT_MS :: int where
  "EXTERNAL_AUTHORIZATION_MAX_TIMEOUT_MS = 30000"

record external_input =
  xi_requestId :: string
  xi_actorId :: string
  xi_trustDomainId :: string
  xi_organizationId :: "string option"
  xi_action :: string
  xi_capability :: "string option"
  xi_resourceScope :: string
  xi_targetType :: "string option"
  xi_targetId :: "string option"
  xi_at :: string

text \<open>
  What the race between the port's promise and the timer settles with, and the milliseconds the
  monotonic clock measured by then.  A port that throws before it returns a promise and one whose
  promise rejects fail alike.
\<close>

datatype external_reply = PortFailed | PortAnswered js_value | TimerFired

record 'w external_capability =
  xa_provider :: "(external_input, external_reply \<times> rat, 'w) provider"
  xa_timeoutMs :: int

definition createKernelExternalAuthorizationCapability ::
  "(external_input, external_reply \<times> rat, 'w) provider \<Rightarrow> js_number \<Rightarrow> wiring_error + 'w external_capability" where
  "createKernelExternalAuthorizationCapability port timeoutMs =
     (case timeoutMs of
        NumInt n \<Rightarrow>
          if n < 1 \<or> n > EXTERNAL_AUTHORIZATION_MAX_TIMEOUT_MS
          then Inl (KernelConfigurationError ''externalAuthorization.timeoutMs must be an integer between 1 and 30000.'')
          else Inr \<lparr>xa_provider = port, xa_timeoutMs = n\<rparr>
      | _ \<Rightarrow> Inl (KernelConfigurationError ''externalAuthorization.timeoutMs must be an integer between 1 and 30000.''))"

datatype external_outcome =
  ExternalAllowed | ExternalDenied | ExternalUnavailable | ExternalTimeout | ExternalInvalidResponse

fun external_outcome_name :: "external_outcome \<Rightarrow> string" where
  "external_outcome_name ExternalAllowed = ''allowed''"
| "external_outcome_name ExternalDenied = ''denied''"
| "external_outcome_name ExternalUnavailable = ''unavailable''"
| "external_outcome_name ExternalTimeout = ''timeout''"
| "external_outcome_name ExternalInvalidResponse = ''invalid_response''"

fun OUTCOME_REASON_CODE :: "external_outcome \<Rightarrow> string option" where
  "OUTCOME_REASON_CODE ExternalAllowed = None"
| "OUTCOME_REASON_CODE ExternalDenied = Some ''EXTERNAL_AUTHORIZATION_DENIED''"
| "OUTCOME_REASON_CODE ExternalUnavailable = Some ''EXTERNAL_AUTHORIZATION_UNAVAILABLE''"
| "OUTCOME_REASON_CODE ExternalTimeout = Some ''EXTERNAL_AUTHORIZATION_TIMEOUT''"
| "OUTCOME_REASON_CODE ExternalInvalidResponse = Some ''EXTERNAL_AUTHORIZATION_INVALID_RESPONSE''"

fun OUTCOME_SUMMARY :: "external_outcome \<Rightarrow> string" where
  "OUTCOME_SUMMARY ExternalAllowed = []"
| "OUTCOME_SUMMARY ExternalDenied = ''The configured external authorization port denied an action the Kernel had allowed.''"
| "OUTCOME_SUMMARY ExternalUnavailable = ''The configured external authorization port failed instead of answering; an unanswered external check denies.''"
| "OUTCOME_SUMMARY ExternalTimeout = ''The configured external authorization port did not answer within its configured bound; the action is denied.''"
| "OUTCOME_SUMMARY ExternalInvalidResponse = ''The configured external authorization port returned a response that is not a valid decision; the action is denied.''"

fun classify :: "js_value \<Rightarrow> external_outcome" where
  "classify (JSObject True [(key, DataProp (JSString v))]) =
     (if key \<noteq> ''decision'' then ExternalInvalidResponse
      else if v = ''allow'' then ExternalAllowed
      else if v = ''deny'' then ExternalDenied
      else ExternalInvalidResponse)"
| "classify _ = ExternalInvalidResponse"

definition toInput :: "kernel_request \<Rightarrow> string \<Rightarrow> external_input" where
  "toInput r now =
     \<lparr>xi_requestId = kq_requestId r, xi_actorId = ar_id (kq_actor r), xi_trustDomainId = ar_trustDomainId (kq_actor r),
      xi_organizationId = organization_id r, xi_action = at_type (kq_action r),
      xi_capability = at_capability (kq_action r), xi_resourceScope = at_resourceScope (kq_action r),
      xi_targetType = target_member tf_type r, xi_targetId = target_member tf_id r, xi_at = now\<rparr>"

definition race_outcome :: "int \<Rightarrow> external_reply \<Rightarrow> rat \<Rightarrow> external_outcome" where
  "race_outcome timeoutMs reply elapsed =
     (if of_int timeoutMs \<le> elapsed then ExternalTimeout
      else (case reply of
         PortFailed \<Rightarrow> ExternalUnavailable
       | PortAnswered v \<Rightarrow> classify v
       | TimerFired \<Rightarrow> ExternalTimeout))"

definition resolveExternalAuthorization ::
  "'w external_capability \<Rightarrow> kernel_request \<Rightarrow> string \<Rightarrow> 'w \<Rightarrow> external_outcome \<times> 'w" where
  "resolveExternalAuthorization cap r now w =
     (case xa_provider cap (toInput r now) w of
        ((reply, elapsed), w') \<Rightarrow> (race_outcome (xa_timeoutMs cap) reply elapsed, w'))"

definition withTraceStep :: "kernel_result \<Rightarrow> trace_status \<Rightarrow> string option \<Rightarrow> kernel_result" where
  "withTraceStep result status code =
     (let trace = kr_trace result;
          steps = kt_steps trace;
          before = (if steps = [] then 0 else ts_sequence (last steps))
      in result\<lparr>kr_trace := trace\<lparr>kt_steps := steps @
           [\<lparr>ts_sequence = before + 1, ts_operator = ''external_authorization'', ts_status = status,
             ts_reasonCodes = optional_code code, ts_metadata = None\<rparr>]\<rparr>\<rparr>)"

definition applyExternalAuthorizationStep :: "external_outcome option \<Rightarrow> kernel_result \<Rightarrow> kernel_result" where
  "applyExternalAuthorizationStep facts result =
     (case facts of
        None \<Rightarrow> result
      | Some outcome \<Rightarrow>
          let permits = outcome = ExternalAllowed;
              narrows = kr_status result = KernelAllowed \<and> \<not> permits;
              code = OUTCOME_REASON_CODE outcome;
              annotated = withTraceStep
                (result\<lparr>kr_external := Some \<lparr>xe_performed = True, xe_outcome = external_outcome_name outcome,
                   xe_narrowed = narrows, xe_reasonCode = code\<rparr>\<rparr>)
                (if permits then TracePassed else TraceFailed) code
          in (case code of
                None \<Rightarrow> annotated
              | Some c \<Rightarrow>
                  if \<not> narrows then annotated
                  else annotated\<lparr>kr_status := KernelDenied,
                         kr_reasonCodes := c # filter (\<lambda>x. x \<noteq> c) (kr_reasonCodes result),
                         kr_summary := OUTCOME_SUMMARY outcome\<rparr>))"

definition recordExternalAuthorizationNotConsulted :: "kernel_result \<Rightarrow> kernel_result" where
  "recordExternalAuthorizationNotConsulted result = withTraceStep
     (result\<lparr>kr_external := Some \<lparr>xe_performed = False, xe_outcome = ''not_consulted'', xe_narrowed = False,
        xe_reasonCode = None\<rparr>\<rparr>) TraceSkipped None"

end
