(* ===== verification/Kernel_Authority.thy ===== *)
theory Kernel_Authority
  imports Kernel_Contracts
begin

text \<open>
  The adapters about authority (\<open>governed-authority-adapter.ts\<close>, \<open>governed-constraint-adapter.ts\<close>,
  \<open>grant-adapter.ts\<close> of \<open>src/kernel/orchestration\<close>): the authority a holder has over the governed
  rights an action engages, who may exercise it for the holder, the facts about persistent
  constraints, and what a bounded grant could be derived from.

  Of a coverage the model keeps what the kernel reads: its outcome and, of a representation, the
  identity and the chain it reports.  The typographic apostrophe of one summary is an apostrophe.
\<close>

section \<open>Governed authority\<close>

record governed_query =
  gq_tenantId :: string
  gq_holderRef :: string
  gq_resourceKind :: string
  gq_resourceId :: string
  gq_governedRight :: string
  gq_requestedScope :: "js_value option"
  gq_at :: string

datatype authority_coverage =
    AuthorityCovered | ResourceNotEnrolled | NoRightAuthority | InsufficientScope
  | IncompatibleScope | AuthorityEnded

fun coverage_name :: "authority_coverage \<Rightarrow> string" where
  "coverage_name AuthorityCovered = ''covered''"
| "coverage_name ResourceNotEnrolled = ''resource_not_enrolled''"
| "coverage_name NoRightAuthority = ''no_right_authority''"
| "coverage_name InsufficientScope = ''insufficient_scope''"
| "coverage_name IncompatibleScope = ''incompatible_scope''"
| "coverage_name AuthorityEnded = ''expired''"

fun toReasonCode :: "authority_coverage \<Rightarrow> string option" where
  "toReasonCode AuthorityCovered = None"
| "toReasonCode ResourceNotEnrolled = None"
| "toReasonCode NoRightAuthority = Some ''AUTHORITY_GOVERNED_RIGHT_MISSING''"
| "toReasonCode InsufficientScope = Some ''AUTHORITY_GOVERNED_SCOPE_EXCEEDED''"
| "toReasonCode IncompatibleScope = Some ''AUTHORITY_GOVERNED_SCOPE_EXCEEDED''"
| "toReasonCode AuthorityEnded = Some ''AUTHORITY_GOVERNED_AUTHORITY_EXPIRED''"

record representation_query =
  rq_tenantId :: string
  rq_representativeRef :: string
  rq_holderRef :: string
  rq_resourceKind :: string
  rq_resourceId :: string
  rq_governedRight :: string
  rq_action :: string
  rq_requestedScope :: "js_value option"
  rq_at :: string

datatype representation_coverage =
    RepresentationNotRequired
  | Represented string "string list"
  | NoRepresentation
  | RightNotRepresented string
  | ActionNotRepresented string
  | RepresentationExceeded string
  | RepresentationIncompatible string
  | RepresentationExpired string
  | RepresentationRevoked string
  | BasisWithdrawn string

fun representation_name :: "representation_coverage \<Rightarrow> string" where
  "representation_name RepresentationNotRequired = ''not_required''"
| "representation_name (Represented i chain) = ''represented''"
| "representation_name NoRepresentation = ''no_representation''"
| "representation_name (RightNotRepresented i) = ''right_not_represented''"
| "representation_name (ActionNotRepresented i) = ''action_not_represented''"
| "representation_name (RepresentationExceeded i) = ''scope_exceeded''"
| "representation_name (RepresentationIncompatible i) = ''incompatible_scope''"
| "representation_name (RepresentationExpired i) = ''expired''"
| "representation_name (RepresentationRevoked i) = ''revoked''"
| "representation_name (BasisWithdrawn i) = ''basis_withdrawn''"

fun toRepresentationReasonCode :: "representation_coverage \<Rightarrow> string option" where
  "toRepresentationReasonCode RepresentationNotRequired = None"
| "toRepresentationReasonCode (Represented i chain) = None"
| "toRepresentationReasonCode NoRepresentation = Some ''AUTHORITY_REPRESENTATION_MISSING''"
| "toRepresentationReasonCode (RightNotRepresented i) = Some ''AUTHORITY_REPRESENTATION_MISSING''"
| "toRepresentationReasonCode (ActionNotRepresented i) = Some ''AUTHORITY_REPRESENTATION_MISSING''"
| "toRepresentationReasonCode (RepresentationExceeded i) = Some ''AUTHORITY_REPRESENTATION_SCOPE_EXCEEDED''"
| "toRepresentationReasonCode (RepresentationIncompatible i) = Some ''AUTHORITY_REPRESENTATION_SCOPE_EXCEEDED''"
| "toRepresentationReasonCode (RepresentationExpired i) = Some ''AUTHORITY_REPRESENTATION_EXPIRED''"
| "toRepresentationReasonCode (RepresentationRevoked i) = Some ''AUTHORITY_REPRESENTATION_EXPIRED''"
| "toRepresentationReasonCode (BasisWithdrawn i) = Some ''AUTHORITY_REPRESENTATION_EXPIRED''"

fun isGovernedRepresentationCovered :: "representation_coverage \<Rightarrow> bool" where
  "isGovernedRepresentationCovered (Represented i chain) = True"
| "isGovernedRepresentationCovered RepresentationNotRequired = True"
| "isGovernedRepresentationCovered _ = False"

fun representative_authority_id :: "representation_coverage \<Rightarrow> string option" where
  "representative_authority_id RepresentationNotRequired = None"
| "representative_authority_id NoRepresentation = None"
| "representative_authority_id (Represented i chain) = Some i"
| "representative_authority_id (RightNotRepresented i) = Some i"
| "representative_authority_id (ActionNotRepresented i) = Some i"
| "representative_authority_id (RepresentationExceeded i) = Some i"
| "representative_authority_id (RepresentationIncompatible i) = Some i"
| "representative_authority_id (RepresentationExpired i) = Some i"
| "representative_authority_id (RepresentationRevoked i) = Some i"
| "representative_authority_id (BasisWithdrawn i) = Some i"

fun representation_chain :: "representation_coverage \<Rightarrow> string list option" where
  "representation_chain (Represented i chain) = Some chain"
| "representation_chain _ = None"

text \<open>\<open>None\<close> is a provider that throws or rejects.\<close>

type_synonym 'w authority_provider = "(governed_query, authority_coverage option, 'w) provider"
type_synonym 'w representation_provider = "(representation_query, representation_coverage option, 'w) provider"

fun cover_rights :: "('q \<Rightarrow> 'w \<Rightarrow> 'c option \<times> 'w) \<Rightarrow> (string \<Rightarrow> 'q) \<Rightarrow> 'c \<Rightarrow> string list \<Rightarrow> 'w \<Rightarrow>
     (string \<times> 'c) list \<times> 'w" where
  "cover_rights port query otherwise [] w = ([], w)"
| "cover_rights port query otherwise (right # rights) w =
     (case port (query right) w of
        (answer, w1) \<Rightarrow>
          (case cover_rights port query otherwise rights w1 of
             (rest, w2) \<Rightarrow> ((right, given answer otherwise) # rest, w2)))"

definition coverage_codes :: "('c \<Rightarrow> string option) \<Rightarrow> (string \<times> 'c) list \<Rightarrow> string list" where
  "coverage_codes code coverages = foldl push_code [] (map (code \<circ> snd) coverages)"

record governed_authority_facts =
  gf_governedAuthority :: governed_authority_evaluation
  gf_representation :: "representation_evaluation option"
  gf_reasonCodes :: "string list"
  gf_summary :: string

definition NOT_PERFORMED :: governed_authority_facts where
  "NOT_PERFORMED =
     \<lparr>gf_governedAuthority = \<lparr>ga_performed = False, ga_enforced = False, ga_rights = []\<rparr>,
      gf_representation = None, gf_reasonCodes = [], gf_summary = []\<rparr>"

definition blocked :: "string list \<Rightarrow> string \<Rightarrow> string \<Rightarrow> string \<Rightarrow> governed_authority_facts" where
  "blocked rights holder outcome summary =
     \<lparr>gf_governedAuthority =
        \<lparr>ga_performed = True, ga_enforced = True,
         ga_rights = map (\<lambda>right. \<lparr>gr_governedRight = right, gr_holderRef = holder, gr_outcome = outcome,
                                   gr_covered = False\<rparr>) rights\<rparr>,
      gf_representation = None, gf_reasonCodes = [''AUTHORITY_GOVERNED_RIGHT_MISSING''], gf_summary = summary\<rparr>"

definition right_text :: "string \<Rightarrow> string \<Rightarrow> string" where
  "right_text right outcome = right @ '' ('' @ outcome @ '')''"

definition right_evaluation :: "string \<Rightarrow> string \<times> authority_coverage \<Rightarrow> governed_right_evaluation" where
  "right_evaluation holder entry =
     \<lparr>gr_governedRight = fst entry, gr_holderRef = holder, gr_outcome = coverage_name (snd entry),
      gr_covered = (snd entry = AuthorityCovered)\<rparr>"

definition representation_right :: "string \<times> representation_coverage \<Rightarrow> right_representation_evaluation" where
  "representation_right entry =
     \<lparr>rr_governedRight = fst entry, rr_outcome = representation_name (snd entry),
      rr_covered = isGovernedRepresentationCovered (snd entry),
      rr_representativeAuthorityId = representative_authority_id (snd entry),
      rr_chain = representation_chain (snd entry)\<rparr>"

definition resolveRepresentation ::
  "'w representation_provider option \<Rightarrow> (string \<Rightarrow> representation_query) \<Rightarrow> string \<Rightarrow> string \<Rightarrow> string list \<Rightarrow>
     bool \<Rightarrow> 'w \<Rightarrow> (representation_evaluation \<times> string list) option \<times> 'w" where
  "resolveRepresentation port query representative holder rights enforced w =
     (case port of
        None \<Rightarrow> (None, w)
      | Some ask_port \<Rightarrow>
          if representative = holder
          then (Some (\<lparr>rp_performed = True, rp_required = False, rp_holderRef = holder,
                  rp_representativeRef = representative,
                  rp_rights = map (\<lambda>right. representation_right (right, RepresentationNotRequired)) rights\<rparr>, []), w)
          else if \<not> enforced then (None, w)
          else (case cover_rights ask_port query NoRepresentation rights w of
             (coverages, w') \<Rightarrow>
               (Some (\<lparr>rp_performed = True, rp_required = True, rp_holderRef = holder,
                   rp_representativeRef = representative, rp_rights = map representation_right coverages\<rparr>,
                 coverage_codes toRepresentationReasonCode coverages), w')))"

definition authority_summary :: "string \<Rightarrow> string \<Rightarrow> string \<Rightarrow> (string \<times> authority_coverage) list \<Rightarrow> string" where
  "authority_summary holder kind resource coverages =
     (if coverage_codes toReasonCode coverages = [] then []
      else quoted holder @ '' does not hold the governed authority this action engages over '' @
        quoted (kind @ '':'' @ resource) @ '': '' @
        join '', '' (map (\<lambda>(right, c). right_text right (coverage_name c))
          (filter (\<lambda>(right, c). c \<noteq> AuthorityCovered \<and> c \<noteq> ResourceNotEnrolled) coverages)) @ ''.'')"

definition representation_summary ::
  "string \<Rightarrow> string \<Rightarrow> string \<Rightarrow> string \<Rightarrow> representation_evaluation \<Rightarrow> string list \<Rightarrow> string" where
  "representation_summary representative holder kind resource evaluation codes =
     (if codes = [] then []
      else quoted representative @ '' is not authorized to exercise '' @ quoted holder @ [CHR 0x27] @
        ''s governed authority over '' @ quoted (kind @ '':'' @ resource) @ '': '' @
        join '', '' (map (\<lambda>right. right_text (rr_governedRight right) (rr_outcome right))
          (filter (\<lambda>right. \<not> rr_covered right) (rp_rights evaluation))) @ ''.'')"

definition merge_codes :: "string list \<Rightarrow> string list \<Rightarrow> string list" where
  "merge_codes first_codes codes = first_codes @ filter (\<lambda>c. c \<notin> set first_codes) codes"

definition holder_of :: "kernel_request \<Rightarrow> string" where
  "holder_of r = given (at_governedAuthorityHolderRef (kq_action r)) (ar_id (kq_actor r))"

definition resource_kind :: "kernel_request \<Rightarrow> string" where
  "resource_kind r = given (target_member tf_type r) (at_type (kq_action r))"

definition stated_member :: "string option \<Rightarrow> string option" where
  "stated_member s = (case s of None \<Rightarrow> None | Some t \<Rightarrow> if t = [] then None else Some t)"

definition governed_query_for :: "kernel_request \<Rightarrow> string \<Rightarrow> string \<Rightarrow> string \<Rightarrow> string \<Rightarrow> governed_query" where
  "governed_query_for r tenant resource now right =
     \<lparr>gq_tenantId = tenant, gq_holderRef = holder_of r, gq_resourceKind = resource_kind r,
      gq_resourceId = resource, gq_governedRight = right,
      gq_requestedScope = at_governedRightsScope (kq_action r), gq_at = now\<rparr>"

definition representation_query_for ::
  "kernel_request \<Rightarrow> string \<Rightarrow> string \<Rightarrow> string \<Rightarrow> string \<Rightarrow> representation_query" where
  "representation_query_for r tenant resource now right =
     \<lparr>rq_tenantId = tenant, rq_representativeRef = ar_id (kq_actor r), rq_holderRef = holder_of r,
      rq_resourceKind = resource_kind r, rq_resourceId = resource, rq_governedRight = right,
      rq_action = governed_action r, rq_requestedScope = at_governedRightsScope (kq_action r), rq_at = now\<rparr>"

definition governed_facts ::
  "kernel_request \<Rightarrow> string \<Rightarrow> (string \<times> authority_coverage) list \<Rightarrow>
     (representation_evaluation \<times> string list) option \<Rightarrow> governed_authority_facts" where
  "governed_facts r resource coverages stated =
     (let codes = coverage_codes toReasonCode coverages;
          summary = authority_summary (holder_of r) (resource_kind r) resource coverages;
          evaluation = \<lparr>ga_performed = True,
            ga_enforced = list_ex (\<lambda>(right, c). c \<noteq> ResourceNotEnrolled) coverages,
            ga_rights = map (right_evaluation (holder_of r)) coverages\<rparr>
      in case stated of
           None \<Rightarrow> \<lparr>gf_governedAuthority = evaluation, gf_representation = None, gf_reasonCodes = codes,
                    gf_summary = summary\<rparr>
         | Some (rep, rep_codes) \<Rightarrow>
             \<lparr>gf_governedAuthority = evaluation, gf_representation = Some rep,
              gf_reasonCodes = merge_codes rep_codes codes,
              gf_summary = join '' '' (filter (\<lambda>part. part \<noteq> [])
                [representation_summary (ar_id (kq_actor r)) (holder_of r) (resource_kind r) resource rep rep_codes,
                 summary])\<rparr>)"

definition resolveGovernedAuthorityFacts ::
  "'w authority_provider \<Rightarrow> 'w representation_provider option \<Rightarrow> kernel_request \<Rightarrow> string \<Rightarrow> 'w \<Rightarrow>
     governed_authority_facts \<times> 'w" where
  "resolveGovernedAuthorityFacts port representatives r now w =
     (let rights = option_list (at_governedRights (kq_action r))
      in if rights = [] then (NOT_PERFORMED, w)
         else (case stated_member (organization_id r) of
            None \<Rightarrow> (blocked rights (holder_of r) ''tenant_unknown''
              ''This request engages governed rights but names no organization, so no governed authority state can be scoped to it.'', w)
          | Some tenant \<Rightarrow>
              (case stated_member (target_member tf_id r) of
                 None \<Rightarrow> (blocked rights (holder_of r) ''resource_unknown''
                   ''This request engages governed rights but identifies no target resource to hold authority over.'', w)
               | Some resource \<Rightarrow>
                   (case cover_rights port (governed_query_for r tenant resource now) NoRightAuthority rights w of
                      (coverages, w1) \<Rightarrow>
                        (case resolveRepresentation representatives (representation_query_for r tenant resource now)
                                (ar_id (kq_actor r)) (holder_of r) rights
                                (list_ex (\<lambda>(right, c). c \<noteq> ResourceNotEnrolled) coverages) w1 of
                           (stated, w2) \<Rightarrow> (governed_facts r resource coverages stated, w2))))))"

definition with_authority_fields :: "governed_authority_facts \<Rightarrow> kernel_result \<Rightarrow> kernel_result" where
  "with_authority_fields facts result =
     result\<lparr>kr_authority := (kr_authority result)
       \<lparr>au_governedAuthority := Some (gf_governedAuthority facts),
        au_representation := (case gf_representation facts of
           None \<Rightarrow> au_representation (kr_authority result)
         | Some rep \<Rightarrow> Some rep)\<rparr>\<rparr>"

definition denied :: "kernel_result \<Rightarrow> governed_authority_facts \<Rightarrow> kernel_result" where
  "denied result facts = (with_authority_fields facts result)
     \<lparr>kr_status := KernelDenied, kr_reasonCodes := merge_codes (gf_reasonCodes facts) (kr_reasonCodes result),
      kr_summary := gf_summary facts\<rparr>"

definition applyGovernedAuthorityStep ::
  "'w authority_provider \<Rightarrow> 'w representation_provider option \<Rightarrow> kernel_request \<Rightarrow> kernel_result \<Rightarrow> 'w \<Rightarrow>
     kernel_result \<times> 'w" where
  "applyGovernedAuthorityStep port representatives r result w =
     (if option_list (at_governedRights (kq_action r)) = [] \<or> \<not> viable (kr_status result) then (result, w)
      else (case resolveGovernedAuthorityFacts port representatives r (kr_evaluatedAt result) w of
         (facts, w') \<Rightarrow>
           (if gf_reasonCodes facts = [] then with_authority_fields facts result else denied result facts, w')))"

section \<open>Persistent constraints\<close>

record constraint_query =
  nq_tenantId :: string
  nq_holderRef :: string
  nq_resourceKind :: string
  nq_resourceId :: string
  nq_governedRights :: "string list"
  nq_action :: string
  nq_at :: string

text \<open>The rejection of the provider is not caught: it is the rejection of the kernel's call.\<close>

definition resolveGovernedConstraintContext ::
  "(constraint_query, string + 'c, 'w) provider option \<Rightarrow> kernel_request \<Rightarrow> string \<Rightarrow> 'w \<Rightarrow>
     (kernel_failure + 'c option) \<times> 'w" where
  "resolveGovernedConstraintContext port r now w =
     (let rights = option_list (at_governedRights (kq_action r))
      in case (port, rights, stated_member (organization_id r), stated_member (target_member tf_id r)) of
           (Some ask_port, _ # _, Some tenant, Some resource) \<Rightarrow>
             (case ask_port \<lparr>nq_tenantId = tenant, nq_holderRef = holder_of r, nq_resourceKind = resource_kind r,
                      nq_resourceId = resource, nq_governedRights = rights, nq_action = governed_action r,
                      nq_at = now\<rparr> w of
                (Inl e, w') \<Rightarrow> (Inl (ConstraintProviderThrew e), w')
              | (Inr c, w') \<Rightarrow> (Inr (Some c), w'))
         | _ \<Rightarrow> (Inr None, w))"

section \<open>Grants\<close>

definition grantCorrelationFor :: "kernel_request \<Rightarrow> string \<Rightarrow> grant_correlation" where
  "grantCorrelationFor r decision =
     \<lparr>requestId = kq_requestId r, decisionId = decision, corr_action = governed_action r,
      resourceScope = at_resourceScope (kq_action r)\<rparr>"

fun bounds_for :: "declared_governed_parameter list \<Rightarrow> grant_parameter_bound list option" where
  "bounds_for [] = Some []"
| "bounds_for (p # ps) =
     (case governedParameterBoundFor (declared_bound p) (param_value p) of
        None \<Rightarrow> None
      | Some b \<Rightarrow> map_option (Cons \<lparr>pb_dimension = dimension p, pb_bound = b\<rparr>) (bounds_for ps))"

definition parameterBoundsFor :: "declared_governed_parameter list \<Rightarrow> grant_parameter_bound list" where
  "parameterBoundsFor ps = given (bounds_for ps) []"

fun source_axis :: "platform \<Rightarrow> kernel_request \<Rightarrow> grant_bound_key \<Rightarrow> grant_bound option" where
  "source_axis P r KAction = (if governed_action r = [] then None else Some (IdentityBound (governed_action r)))"
| "source_axis P r KActionClass = map_option (IdentityBound \<circ> sem_actionClass) (at_semantics (kq_action r))"
| "source_axis P r KAmount = None"
| "source_axis P r KCounterparty = map_option IdentityBound (at_counterpartyId (kq_action r))"
| "source_axis P r KGovernanceProfile =
     map_option (IdentityBound \<circ> formatGovernanceProfileReference P \<circ> sem_governanceProfile) (at_semantics (kq_action r))"
| "source_axis P r KOrganization = map_option IdentityBound (organization_id r)"
| "source_axis P r KResourceClass = map_option (IdentityBound \<circ> sem_resourceClass) (at_semantics (kq_action r))"
| "source_axis P r KResources =
     (if at_resourceScope (kq_action r) = [] then None else Some (SetBound [at_resourceScope (kq_action r)]))"

definition sourceScopeFor :: "platform \<Rightarrow> kernel_request \<Rightarrow> grant_scope" where
  "sourceScopeFor P r =
     \<lparr>axes = source_axis P r, parameters = map_option parameterBoundsFor (at_governedParameters (kq_action r))\<rparr>"

definition validityCeilingsFor ::
  "platform \<Rightarrow> grant_declaration \<Rightarrow> kernel_result \<Rightarrow> js_error + grant_validity_ceiling list" where
  "validityCeilingsFor P declaration result =
     (let decision = (case Option.bind (kr_context result) ce_validUntil of
            None \<Rightarrow> []
          | Some until \<Rightarrow>
              if Date_parse P until = None then [] else [\<lparr>ceiling_source = DecisionCeiling, notAfter = until\<rparr>])
      in case deploymentGrantValidityCeiling P declaration (kr_evaluatedAt result) of
           Inl e \<Rightarrow> Inl e
         | Inr None \<Rightarrow> Inr decision
         | Inr (Some cap) \<Rightarrow> Inr (decision @ [cap]))"

definition deriveGrantSourceAuthorization ::
  "platform \<Rightarrow> grant_declaration \<Rightarrow> kernel_request \<Rightarrow> kernel_result \<Rightarrow> js_error + grant_source_authorization" where
  "deriveGrantSourceAuthorization P declaration r result =
     (case validityCeilingsFor P declaration result of
        Inl e \<Rightarrow> Inl e
      | Inr ceilings \<Rightarrow> Inr
          \<lparr>src_correlation = grantCorrelationFor r (kr_decisionId result), src_subject = ar_id (kq_actor r),
           src_scope = sourceScopeFor P r, authorizationPermitsExercise = (kr_status result = KernelAllowed),
           allBlockingObligationsSatisfied =
             (case kr_obligations result of None \<Rightarrow> True | Some o' \<Rightarrow> oe_allBlockingObligationsSatisfied o'),
           evaluatedAt = kr_evaluatedAt result, validityCeilings = ceilings,
           contextDigest = Option.bind (kr_context result) ce_digest, approvalDigest = None\<rparr>)"

definition NOT_ANSWERABLE_BY_APPROVAL :: "string list" where
  "NOT_ANSWERABLE_BY_APPROVAL = [''EVIDENCE_REQUIRED'', ''EVIDENCE_INVALID'', ''RECOGNITION_HANDSHAKE_INVALID'']"

definition AWAITING_APPROVAL :: "string list" where
  "AWAITING_APPROVAL = [''APPROVAL_REQUIRED'', ''APPROVAL_PENDING'']"

definition decisionAwaitsHumanApproval :: "kernel_result \<Rightarrow> bool" where
  "decisionAwaitsHumanApproval result \<longleftrightarrow>
     kr_status result = KernelApprovalRequired \<and>
     \<not> list_ex (\<lambda>c. c \<in> set NOT_ANSWERABLE_BY_APPROVAL) (kr_reasonCodes result) \<and>
     list_ex (\<lambda>c. c \<in> set AWAITING_APPROVAL) (kr_reasonCodes result)"

definition withVerifiedHumanApproval ::
  "grant_source_authorization \<Rightarrow> kernel_result \<Rightarrow> string \<Rightarrow> grant_source_authorization" where
  "withVerifiedHumanApproval source result digest =
     (if \<not> decisionAwaitsHumanApproval result \<or> digest = [] then source
      else source\<lparr>authorizationPermitsExercise := True, approvalDigest := Some digest\<rparr>)"

definition bare_bound :: "string \<Rightarrow> string \<Rightarrow> grant_bound_evaluation" where
  "bare_bound key kind =
     \<lparr>be_key = key, be_kind = kind, be_value = None, be_values = None, be_limit = None, be_unit = None,
      be_notAfter = None, be_parameterType = None, be_parameterValue = None, be_parameterLimit = None\<rparr>"

fun parameterBoundEvaluation :: "grant_parameter_bound \<Rightarrow> grant_bound_evaluation" where
  "parameterBoundEvaluation b =
     (let key = ''parameters.'' @ pb_dimension b
      in case pb_bound b of
           MaximumBound n \<Rightarrow> (bare_bound key ''maximum'')\<lparr>be_parameterType := Some IntegerType, be_parameterLimit := Some n\<rparr>
         | ExactBound v \<Rightarrow> (bare_bound key ''exact'')\<lparr>be_parameterType := Some (value_type v), be_parameterValue := Some v\<rparr>)"

fun axis_bound_evaluation :: "string \<Rightarrow> grant_bound option \<Rightarrow> grant_bound_evaluation" where
  "axis_bound_evaluation key None = bare_bound key ''identity''"
| "axis_bound_evaluation key (Some (IdentityBound v)) = (bare_bound key ''identity'')\<lparr>be_value := Some v\<rparr>"
| "axis_bound_evaluation key (Some (SetBound vs)) = (bare_bound key ''set'')\<lparr>be_values := Some vs\<rparr>"
| "axis_bound_evaluation key (Some (CeilingBound l u)) =
     (bare_bound key ''ceiling'')\<lparr>be_limit := Some l, be_unit := Some u\<rparr>"
| "axis_bound_evaluation key (Some (WindowBound t)) = (bare_bound key ''window'')\<lparr>be_notAfter := Some t\<rparr>"

definition axisBoundEvaluations :: "grant_scope \<Rightarrow> grant_bound_evaluation list" where
  "axisBoundEvaluations scope =
     map (\<lambda>key. axis_bound_evaluation (key_name key) (axes scope key)) (statedGrantBoundKeys scope)"

definition toBoundEvaluations :: "grant_scope \<Rightarrow> grant_bound_evaluation list" where
  "toBoundEvaluations scope =
     axisBoundEvaluations scope @ map parameterBoundEvaluation (option_list (parameters scope))"

fun ineligibility_code_name :: "grant_reason_code \<Rightarrow> string" where
  "ineligibility_code_name GRANT_AUTHORIZATION_NOT_PERMITTED = ''GRANT_AUTHORIZATION_NOT_PERMITTED''"
| "ineligibility_code_name GRANT_OBLIGATIONS_UNSATISFIED = ''GRANT_OBLIGATIONS_UNSATISFIED''"
| "ineligibility_code_name _ = ''GRANT_SOURCE_BOUNDS_INCOMPLETE''"

definition resolveKernelGrantFacts ::
  "platform \<Rightarrow> grant_declaration \<Rightarrow> kernel_request \<Rightarrow> kernel_result \<Rightarrow> js_error + grant_evaluation" where
  "resolveKernelGrantFacts P declaration r result =
     (case deriveGrantSourceAuthorization P declaration r result of
        Inl e \<Rightarrow> Inl e
      | Inr source \<Rightarrow>
          let assessment = assessGrantEligibility P source
          in Inr
            \<lparr>ge_performed = True, ge_eligible = eligible assessment, ge_correlation = src_correlation source,
             ge_subject = src_subject source, ge_sourceBounds = toBoundEvaluations (src_scope source),
             ge_validityCeilings = validityCeilings source,
             ge_ineligibilityReasonCodes = present (elig_reasonCodes assessment),
             ge_summary =
               (if eligible assessment then None
                else Some (''The authorization is reported exactly as the policy layers concluded it; no bounded grant may be derived from it yet: '' @
                  join '', '' (map ineligibility_code_name (elig_reasonCodes assessment)) @ ''.''))\<rparr>)"

definition applyGrantStep ::
  "platform \<Rightarrow> grant_declaration option \<Rightarrow> kernel_request \<Rightarrow> kernel_result \<Rightarrow> js_error + kernel_result" where
  "applyGrantStep P capability r result =
     (case capability of
        None \<Rightarrow> Inr result
      | Some declaration \<Rightarrow>
          (case resolveKernelGrantFacts P declaration r result of
             Inl e \<Rightarrow> Inl e
           | Inr evaluation \<Rightarrow> Inr (result\<lparr>kr_grants := Some evaluation\<rparr>)))"

end
