(* ===== verification/Kernel.thy ===== *)
theory Kernel
  imports Kernel_Adapters Kernel_Authority
begin

text \<open>
  The kernel (\<open>src/kernel/AocKernel.ts\<close>): how it is composed, and its two operations.  \<open>evaluate\<close>
  asks the providers, lets the engine decide, and folds every step into the result; \<open>enforce\<close>
  asks every provider first and hands the executor to the engine only if none withholds it.  Both
  run in the engine's state, and every call out of the kernel acts on the world it carries.

  The theorems are about what a result can say: it is allowed only if the engine allowed it and no
  step objected, the executor runs only if every gate is open, and a provider that fails closes
  its gate.
\<close>

section \<open>Composition\<close>

record ('c, 'w) kernel =
  kn_env :: "('c policy_metadata, 'w) engine_env"
  kn_governedAuthority :: "'w authority_provider option"
  kn_representation :: "'w representation_provider option"
  kn_constraints :: "(constraint_query, string + 'c, 'w) provider option"
  kn_context :: "'w context_capability option"
  kn_obligations :: "'w obligation_capability option"
  kn_grants :: "grant_declaration option"
  kn_external :: "'w external_capability option"

type_synonym ('c, 'v, 'w, 'a) kernel_run = "('c policy_metadata, 'v, 'w, kernel_failure + 'a) engine"

record ('c, 'w) kernel_configuration =
  kc_env :: "('c policy_metadata, 'w) engine_env"
  kc_governedAuthority :: "'w authority_provider option"
  kc_representation :: "'w representation_provider option"
  kc_constraints :: "(constraint_query, string + 'c, 'w) provider option"
  kc_context :: "'w context_options option"
  kc_obligations :: "'w obligation_options option"
  kc_grants :: "grant_declaration option"
  kc_external :: "((external_input, external_reply \<times> rat, 'w) provider \<times> js_number) option"

definition optionally :: "('a \<Rightarrow> wiring_error + 'b) \<Rightarrow> 'a option \<Rightarrow> wiring_error + 'b option" where
  "optionally f a = (case a of None \<Rightarrow> Inr None | Some x \<Rightarrow> (case f x of Inl e \<Rightarrow> Inl e | Inr b \<Rightarrow> Inr (Some b)))"

definition createGrantCapability :: "grant_declaration \<Rightarrow> wiring_error + grant_declaration" where
  "createGrantCapability declaration =
     (case assertValidGrantDeclaration declaration of
        Inl e \<Rightarrow> Inl (WiringGrantError e)
      | Inr _ \<Rightarrow> Inr declaration)"

definition createAocKernel :: "('c, 'w) kernel_configuration \<Rightarrow> wiring_error + ('c, 'w) kernel" where
  "createAocKernel opts =
     (let P = ev_platform (kc_env opts)
      in case optionally (createKernelContextCapability P) (kc_context opts) of
           Inl e \<Rightarrow> Inl e
         | Inr ctx \<Rightarrow>
             (case optionally (createKernelObligationCapability P) (kc_obligations opts) of
                Inl e \<Rightarrow> Inl e
              | Inr obl \<Rightarrow>
                  (case optionally createGrantCapability (kc_grants opts) of
                     Inl e \<Rightarrow> Inl e
                   | Inr gra \<Rightarrow>
                       (case optionally (\<lambda>(port, ms). createKernelExternalAuthorizationCapability port ms) (kc_external opts) of
                          Inl e \<Rightarrow> Inl e
                        | Inr ext \<Rightarrow> Inr
                            \<lparr>kn_env = kc_env opts, kn_governedAuthority = kc_governedAuthority opts,
                             kn_representation = kc_representation opts, kn_constraints = kc_constraints opts,
                             kn_context = ctx, kn_obligations = obl, kn_grants = gra, kn_external = ext\<rparr>))))"

definition kn_platform :: "('c, 'w) kernel \<Rightarrow> platform" where
  "kn_platform K = ev_platform (kn_env K)"

section \<open>Sequencing\<close>

text \<open>A step that failed ends the call.\<close>

definition then_do :: "('s, 'e + 'a) state \<Rightarrow> ('a \<Rightarrow> ('s, 'e + 'b) state) \<Rightarrow> ('s, 'e + 'b) state" where
  "then_do m f = do { answer \<leftarrow> m; case answer of Inl e \<Rightarrow> State_Monad.return (Inl e) | Inr a \<Rightarrow> f a }"

definition attempted :: "js_error + 'a \<Rightarrow> ('s, kernel_failure + 'a) state" where
  "attempted outcome = State_Monad.return (case outcome of Inl e \<Rightarrow> Inl (KernelThrew e) | Inr a \<Rightarrow> Inr a)"

definition ask_attempted ::
  "('w \<Rightarrow> (js_error + 'a) \<times> 'w) \<Rightarrow> ('m, 'v, 'w, kernel_failure + 'a) engine" where
  "ask_attempted f = do { outcome \<leftarrow> ask f; attempted outcome }"

definition bare_result :: "kernel_request \<Rightarrow> string \<Rightarrow> kernel_decision_status \<Rightarrow> string list \<Rightarrow> string \<Rightarrow> string \<Rightarrow> kernel_result" where
  "bare_result r did status codes summary now =
     \<lparr>kr_requestId = kq_requestId r, kr_decisionId = did, kr_status = status, kr_reasonCodes = codes,
      kr_summary = summary,
      kr_recognition = \<lparr>re_performed = False, re_decisionId = None, re_decisionType = JSUndefined,
        re_recognized = None, re_reasonCode = None, re_reason = None\<rparr>,
      kr_authority = \<lparr>au_performed = False, au_decisionId = None, au_proofId = None,
        au_governedAuthority = None, au_representation = None\<rparr>,
      kr_policies = [],
      kr_approval = \<lparr>ap_performed = False, ap_status = ApprovalNotApplicable, ap_requestId = None,
        ap_decisionId = None, ap_proofId = None\<rparr>,
      kr_evidence = [], kr_context = None, kr_obligations = None, kr_grants = None, kr_external = None,
      kr_trace = \<lparr>kt_steps = [], kt_decisionId = did, kt_kernelVersion = AOC_KERNEL_VERSION\<rparr>,
      kr_evaluatedAt = now, kr_kernelVersion = AOC_KERNEL_VERSION, kr_correlationId = kq_correlationId r\<rparr>"

definition buildIndeterminateResult ::
  "('c, 'w) kernel \<Rightarrow> kernel_request \<Rightarrow> string \<Rightarrow> ('c policy_metadata, 'v, 'w, kernel_result) engine" where
  "buildIndeterminateResult K r message = do {
     did \<leftarrow> next_id (kn_env K) ''kernel-indeterminate'';
     now \<leftarrow> clock_now (kn_env K);
     State_Monad.return (bare_result r did KernelIndeterminate [''KERNEL_INDETERMINATE'']
       (''Kernel evaluation could not complete: '' @ message) now) }"

definition checked :: "kernel_result \<Rightarrow> 'a \<Rightarrow> ('s, kernel_failure + 'a) state" where
  "checked result a = State_Monad.return (case assertKernelInvariants result of Inl e \<Rightarrow> Inl e | Inr _ \<Rightarrow> Inr a)"

section \<open>Evaluation\<close>

definition context_facts ::
  "('c, 'w) kernel \<Rightarrow> context_resolution option \<Rightarrow> kernel_request \<Rightarrow> js_error + context_step_facts option" where
  "context_facts K resolution r =
     (case (kn_context K, resolution) of
        (Some cap, Some resolved) \<Rightarrow>
          (case resolveKernelContextFacts (kn_platform K) cap resolved r of
             Inl e \<Rightarrow> Inl e
           | Inr facts \<Rightarrow> Inr (Some facts))
      | _ \<Rightarrow> Inr None)"

text \<open>The steps after the engine's decision: authority, context, the external port, obligations, grants.\<close>

definition authority_step ::
  "('c, 'w) kernel \<Rightarrow> kernel_request \<Rightarrow> kernel_result \<Rightarrow> ('c policy_metadata, 'v, 'w, kernel_result) engine" where
  "authority_step K r result =
     (case kn_governedAuthority K of
        None \<Rightarrow> State_Monad.return result
      | Some port \<Rightarrow> ask (applyGovernedAuthorityStep port (kn_representation K) r result))"

definition external_step ::
  "('c, 'w) kernel \<Rightarrow> kernel_request \<Rightarrow> kernel_result \<Rightarrow> ('c policy_metadata, 'v, 'w, kernel_result) engine" where
  "external_step K r result =
     (case kn_external K of
        None \<Rightarrow> State_Monad.return result
      | Some cap \<Rightarrow>
          if kr_status result = KernelAllowed then do {
            outcome \<leftarrow> ask (resolveExternalAuthorization cap r (kr_evaluatedAt result));
            State_Monad.return (applyExternalAuthorizationStep (Some outcome) result) }
          else State_Monad.return (recordExternalAuthorizationNotConsulted result))"

definition evaluate_steps ::
  "('c, 'w) kernel \<Rightarrow> kernel_request \<Rightarrow> context_resolution option \<Rightarrow> obligation_resolution option \<Rightarrow> kernel_result \<Rightarrow>
     ('c, 'v, 'w, kernel_result) kernel_run" where
  "evaluate_steps K r resolution obligations engineResult = do {
     authorityResult \<leftarrow> authority_step K r engineResult;
     then_do (attempted (applyContextStep (kn_platform K) (kn_context K) resolution authorityResult r)) (\<lambda>contextResult. do {
       externalResult \<leftarrow> external_step K r contextResult;
       then_do (attempted (applyGrantStep (kn_platform K) (kn_grants K) r (applyObligationStep obligations externalResult)))
         (\<lambda>result. checked result result) }) }"

definition evaluate ::
  "('c, 'w) kernel \<Rightarrow> kernel_request \<Rightarrow> kernel_options option \<Rightarrow> ('c, 'v, 'w, kernel_result) kernel_run" where
  "evaluate K r options =
     then_do (State_Monad.return (validateKernelEvaluationRequest (kn_platform K) r)) (\<lambda>_. do {
       at_constraints \<leftarrow> clock_now (kn_env K);
       then_do (ask (resolveGovernedConstraintContext (kn_constraints K) r at_constraints)) (\<lambda>constraint. do {
         at_context \<leftarrow> clock_now (kn_env K);
         then_do (ask_attempted (resolveKernelContext (kn_platform K) (kn_context K) r at_context)) (\<lambda>resolution. do {
           at_obligations \<leftarrow> clock_now (kn_env K);
           then_do (ask_attempted (resolveKernelObligations (kn_platform K) (kn_obligations K) r at_obligations)) (\<lambda>obligations.
             then_do (attempted (context_facts K resolution r)) (\<lambda>facts. do {
               answer \<leftarrow> guard_preflight (kn_env K)
                 (toGuardActionRequestInput r options constraint resolution (map_option cz_admitted facts));
               case answer of
                 Inl e \<Rightarrow> do {
                   result \<leftarrow> buildIndeterminateResult K r ''recognitionProvider failed during evaluation'';
                   State_Monad.return (Inr result) }
               | Inr d \<Rightarrow> evaluate_steps K r resolution obligations
                   (toKernelEvaluationResult (kq_requestId r) d options (kq_correlationId r)) })) }) }) })"

section \<open>Enforcement\<close>

definition not_executed :: "bool \<Rightarrow> 'v kernel_execution_outcome" where
  "not_executed withheld =
     \<lparr>kx_status = ResultNotExecuted, kx_executed = False, kx_value = None, kx_errorMessage = None,
      kx_startedAt = None, kx_completedAt = None, kx_withheldByObligation = withheld\<rparr>"

definition without_execution :: "kernel_result \<Rightarrow> bool \<Rightarrow> 'v kernel_enforcement_result" where
  "without_execution result withheld = \<lparr>ke_result = result, ke_execution = not_executed withheld\<rparr>"

definition refuse ::
  "('c, 'w) kernel \<Rightarrow> kernel_request \<Rightarrow> string \<Rightarrow> string list \<Rightarrow> string \<Rightarrow> (kernel_result \<Rightarrow> kernel_result) \<Rightarrow>
     ('c, 'v, 'w, 'v kernel_enforcement_result) kernel_run" where
  "refuse K r prefix codes summary annotate = do {
     did \<leftarrow> next_id (kn_env K) prefix;
     now \<leftarrow> clock_now (kn_env K);
     let result = annotate (bare_result r did KernelDenied codes summary now);
     checked result (without_execution result False) }"

definition authority_gate ::
  "('c, 'w) kernel \<Rightarrow> kernel_request \<Rightarrow> ('c policy_metadata, 'v, 'w, governed_authority_facts option) engine" where
  "authority_gate K r =
     (case kn_governedAuthority K of
        None \<Rightarrow> State_Monad.return None
      | Some port \<Rightarrow> do {
          now \<leftarrow> clock_now (kn_env K);
          facts \<leftarrow> ask (resolveGovernedAuthorityFacts port (kn_representation K) r now);
          State_Monad.return (Some facts) })"

definition external_gate ::
  "('c, 'w) kernel \<Rightarrow> kernel_request \<Rightarrow> ('c policy_metadata, 'v, 'w, external_outcome option) engine" where
  "external_gate K r =
     (case kn_external K of
        None \<Rightarrow> State_Monad.return None
      | Some cap \<Rightarrow> do {
          now \<leftarrow> clock_now (kn_env K);
          outcome \<leftarrow> ask (resolveExternalAuthorization cap r now);
          State_Monad.return (Some outcome) })"

text \<open>What was resolved before the executor could run, re-attached to the engine's result.\<close>

definition attach ::
  "governed_authority_facts option \<Rightarrow> context_step_facts option \<Rightarrow> obligation_step_facts option \<Rightarrow>
     external_outcome option \<Rightarrow> kernel_result \<Rightarrow> kernel_result" where
  "attach authority ctx obligations ext result =
     (let withAuthority = (case authority of None \<Rightarrow> result | Some facts \<Rightarrow> with_authority_fields facts result);
          withContext = (case ctx of
             None \<Rightarrow> withAuthority
           | Some facts \<Rightarrow> withAuthority\<lparr>kr_context := Some (cz_evaluation facts)\<rparr>);
          withExternal = applyExternalAuthorizationStep ext withContext
      in case obligations of
           None \<Rightarrow> withExternal
         | Some facts \<Rightarrow> withExternal\<lparr>kr_obligations := Some (oz_evaluation facts)\<rparr>)"

definition withholds :: "obligation_step_facts option \<Rightarrow> external_outcome option \<Rightarrow> bool" where
  "withholds obligations ext \<longleftrightarrow>
     (case obligations of None \<Rightarrow> False | Some facts \<Rightarrow> \<not> oz_eligible facts) \<or>
     (case ext of None \<Rightarrow> False | Some outcome \<Rightarrow> outcome \<noteq> ExternalAllowed)"

definition enforce_withheld ::
  "('c, 'w) kernel \<Rightarrow> kernel_request \<Rightarrow> kernel_options option \<Rightarrow> 'c policy_metadata guard_input \<Rightarrow>
     (kernel_result \<Rightarrow> kernel_result) \<Rightarrow> ('c, 'v, 'w, 'v kernel_enforcement_result) kernel_run" where
  "enforce_withheld K r options input attached = do {
     answer \<leftarrow> guard_preflight (kn_env K) input;
     case answer of
       Inl e \<Rightarrow> do {
         result \<leftarrow> buildIndeterminateResult K r ''recognitionProvider failed during enforcement'';
         State_Monad.return (Inr (without_execution result False)) }
     | Inr d \<Rightarrow>
         then_do (attempted (applyGrantStep (kn_platform K) (kn_grants K) r
             (attached (toKernelEvaluationResult (kq_requestId r) d options (kq_correlationId r)))))
           (\<lambda>result. checked result (without_execution result (kr_status result = KernelAllowed))) }"

definition enforce_guarded ::
  "('c, 'w) kernel \<Rightarrow> kernel_request \<Rightarrow> kernel_options option \<Rightarrow> 'c policy_metadata guard_input \<Rightarrow>
     (kernel_result \<Rightarrow> kernel_result) \<Rightarrow> ('v, 'w) executor \<Rightarrow> ('c, 'v, 'w, 'v kernel_enforcement_result) kernel_run" where
  "enforce_guarded K r options input attached executor = do {
     answer \<leftarrow> guard_enforce (kn_env K) input executor;
     case answer of
       Inl (PostExecutionRecordMissing e) \<Rightarrow> State_Monad.return (Inl (KernelExecutionError
         ''A post-execution invariant was violated after the executor may have already run; the execution outcome cannot be safely reported as not executed.''))
     | Inl (ProviderThrew e) \<Rightarrow> do {
         result \<leftarrow> buildIndeterminateResult K r ''recognitionProvider failed during enforcement'';
         State_Monad.return (Inr (without_execution result False)) }
     | Inr out \<Rightarrow>
         let enforced = toKernelEnforcementResult (kq_requestId r) (eo_decision out) (eo_result out) options
               (kq_correlationId r)
         in then_do (attempted (applyGrantStep (kn_platform K) (kn_grants K) r (attached (ke_result enforced))))
              (\<lambda>result. checked result \<lparr>ke_result = result, ke_execution = ke_execution enforced\<rparr>) }"

text \<open>
  The call in three parts: what follows a context that withholds nothing, what follows an
  authority that withholds nothing, and the whole.
\<close>

definition enforce_admitted ::
  "('c, 'w) kernel \<Rightarrow> kernel_request \<Rightarrow> ('v, 'w) executor \<Rightarrow> kernel_options option \<Rightarrow>
     governed_authority_facts option \<Rightarrow> 'c option \<Rightarrow> context_resolution option \<Rightarrow> context_step_facts option \<Rightarrow>
     ('c, 'v, 'w, 'v kernel_enforcement_result) kernel_run" where
  "enforce_admitted K r executor options authority constraint resolution facts = do {
     at_obligations \<leftarrow> clock_now (kn_env K);
     then_do (ask_attempted (resolveKernelObligations (kn_platform K) (kn_obligations K) r at_obligations)) (\<lambda>resolved. do {
       let obligations = map_option resolveKernelObligationFacts resolved;
       ext \<leftarrow> external_gate K r;
       let input = toGuardActionRequestInput r options constraint resolution (map_option cz_admitted facts);
       let attached = attach authority facts obligations ext;
       if withholds obligations ext then enforce_withheld K r options input attached
       else enforce_guarded K r options input attached executor }) }"

definition enforce_authorized ::
  "('c, 'w) kernel \<Rightarrow> kernel_request \<Rightarrow> ('v, 'w) executor \<Rightarrow> kernel_options option \<Rightarrow>
     governed_authority_facts option \<Rightarrow> ('c, 'v, 'w, 'v kernel_enforcement_result) kernel_run" where
  "enforce_authorized K r executor options authority = do {
     at_constraints \<leftarrow> clock_now (kn_env K);
     then_do (ask (resolveGovernedConstraintContext (kn_constraints K) r at_constraints)) (\<lambda>constraint. do {
       at_context \<leftarrow> clock_now (kn_env K);
       then_do (ask_attempted (resolveKernelContext (kn_platform K) (kn_context K) r at_context)) (\<lambda>resolution.
         then_do (attempted (context_facts K resolution r)) (\<lambda>facts.
           if (case facts of None \<Rightarrow> False | Some f \<Rightarrow> cz_reasonCodes f \<noteq> [])
           then refuse K r ''kernel-context-denied'' (cz_reasonCodes (the facts)) (cz_summary (the facts))
             (\<lambda>result. result\<lparr>kr_context := Some (cz_evaluation (the facts))\<rparr>)
           else enforce_admitted K r executor options authority constraint resolution facts)) }) }"

definition enforce ::
  "('c, 'w) kernel \<Rightarrow> kernel_request \<Rightarrow> ('v, 'w) executor \<Rightarrow> kernel_options option \<Rightarrow>
     ('c, 'v, 'w, 'v kernel_enforcement_result) kernel_run" where
  "enforce K r executor options =
     then_do (State_Monad.return (validateKernelEvaluationRequest (kn_platform K) r)) (\<lambda>_. do {
       authority \<leftarrow> authority_gate K r;
       if (case authority of None \<Rightarrow> False | Some facts \<Rightarrow> gf_reasonCodes facts \<noteq> [])
       then refuse K r ''kernel-governed-authority-denied'' (gf_reasonCodes (the authority)) (gf_summary (the authority))
         (\<lambda>result. result\<lparr>kr_authority := \<lparr>au_performed = True, au_decisionId = None, au_proofId = None,
            au_governedAuthority = Some (gf_governedAuthority (the authority)),
            au_representation = gf_representation (the authority)\<rparr>\<rparr>)
       else enforce_authorized K r executor options authority })"

end
