(* ===== verification/Kernel_Steps.thy ===== *)
theory Kernel_Steps
  imports Kernel
begin

text \<open>
  What the steps of \<open>evaluate\<close> keep and what they require.  The two locales are the contracts the
  kernel relies on: a step handed a result names the same decision and turns its status only into
  a denial, and a step that annotates leaves even the status; every step of
  \<open>src/kernel/orchestration/\<close> is an interpretation of one of them.  The lemmas then say what each
  gate requires when it leaves a result allowed, and compose them along \<open>evaluate\<close>.
\<close>

section \<open>Steps that only narrow\<close>

text \<open>
  The contract of a step that is handed a result: it says which decision and which recognition the
  result is about, leaves the reasons in place or replaces them by others, and changes the status
  only into a denial.  A step that only annotates leaves status, reasons and summary as they are.
\<close>

locale narrowing_step =
  fixes step :: "kernel_result \<Rightarrow> kernel_result"
  assumes same_decision: "kr_decisionId (step a) = kr_decisionId a"
    and same_recognition: "kr_recognition (step a) = kr_recognition a"
    and only_denies: "kr_status (step a) = kr_status a \<or> kr_status (step a) = KernelDenied"
    and reasons_kept: "kr_reasonCodes a \<noteq> [] \<Longrightarrow> kr_reasonCodes (step a) \<noteq> []"
begin

lemma allowed_before: "kr_status (step a) = KernelAllowed \<Longrightarrow> kr_status a = KernelAllowed"
  using only_denies [of a] by auto

lemma checked_before: "assertRecognitionPrecedesAllow a = Inr () \<Longrightarrow> assertRecognitionPrecedesAllow (step a) = Inr ()"
  using allowed_before [of a] by (auto simp add: assertRecognitionPrecedesAllow_def same_recognition split: if_splits)

end

locale annotating_step = narrowing_step +
  assumes same_status: "kr_status (step a) = kr_status a"
    and same_reasons: "kr_reasonCodes (step a) = kr_reasonCodes a"
    and same_summary: "kr_summary (step a) = kr_summary a"

lemma narrowing_comp:
  assumes "narrowing_step f" "narrowing_step g"
  shows "narrowing_step (\<lambda>a. g (f a))"
proof -
  have f: "kr_decisionId (f a) = kr_decisionId a" "kr_recognition (f a) = kr_recognition a"
    "kr_status (f a) = kr_status a \<or> kr_status (f a) = KernelDenied"
    "kr_reasonCodes a \<noteq> [] \<Longrightarrow> kr_reasonCodes (f a) \<noteq> []" for a
    using assms(1) by (auto simp add: narrowing_step_def)
  have g: "kr_decisionId (g a) = kr_decisionId a" "kr_recognition (g a) = kr_recognition a"
    "kr_status (g a) = kr_status a \<or> kr_status (g a) = KernelDenied"
    "kr_reasonCodes a \<noteq> [] \<Longrightarrow> kr_reasonCodes (g a) \<noteq> []" for a
    using assms(2) by (auto simp add: narrowing_step_def)
  show ?thesis
  proof
    fix a
    show "kr_decisionId (g (f a)) = kr_decisionId a" "kr_recognition (g (f a)) = kr_recognition a" by (simp_all add: f g)
    show "kr_status (g (f a)) = kr_status a \<or> kr_status (g (f a)) = KernelDenied" using f(3) [of a] g(3) [of "f a"] by auto
    show "kr_reasonCodes a \<noteq> [] \<Longrightarrow> kr_reasonCodes (g (f a)) \<noteq> []" using f(4) g(4) by blast
  qed
qed

lemma narrowing_id: "narrowing_step (\<lambda>a. a)"
  by unfold_locales simp_all

interpretation authority_fields: annotating_step "with_authority_fields facts"
  by unfold_locales (simp_all add: with_authority_fields_def)

interpretation authority_denial: narrowing_step "\<lambda>a. denied a facts"
  by unfold_locales (auto simp add: denied_def with_authority_fields_def merge_codes_def filter_empty_conv ex_in_conv)

interpretation context_annotation: annotating_step "\<lambda>a. a\<lparr>kr_context := ctx\<rparr>"
  by unfold_locales simp_all

interpretation context_step: narrowing_step "context_fold facts"
  by unfold_locales (auto simp add: context_fold_def)

interpretation obligation_annotation: annotating_step "\<lambda>a. a\<lparr>kr_obligations := o'\<rparr>"
  by unfold_locales simp_all

interpretation obligation_step: annotating_step "applyObligationStep o'"
  by unfold_locales (simp_all add: applyObligationStep_def split: option.splits)

interpretation grant_annotation: annotating_step "\<lambda>a. a\<lparr>kr_grants := g\<rparr>"
  by unfold_locales simp_all

interpretation external_step: narrowing_step "applyExternalAuthorizationStep o'"
  by unfold_locales
    (auto simp add: applyExternalAuthorizationStep_def withTraceStep_def Let_def split: option.splits)

interpretation external_skip: annotating_step recordExternalAuthorizationNotConsulted
  by unfold_locales (simp_all add: recordExternalAuthorizationNotConsulted_def withTraceStep_def Let_def)

lemma narrowing_attach: "narrowing_step (attach authority ctx obligations ext)"
proof -
  have a: "narrowing_step (\<lambda>a. case authority of None \<Rightarrow> a | Some facts \<Rightarrow> with_authority_fields facts a)"
    using narrowing_id authority_fields.narrowing_step_axioms by (cases authority) simp_all
  have c: "narrowing_step (\<lambda>a. case ctx of None \<Rightarrow> a | Some facts \<Rightarrow> a\<lparr>kr_context := Some (cz_evaluation facts)\<rparr>)"
    using narrowing_id context_annotation.narrowing_step_axioms by (cases ctx) simp_all
  have o': "narrowing_step (\<lambda>a. case obligations of None \<Rightarrow> a | Some facts \<Rightarrow> a\<lparr>kr_obligations := Some (oz_evaluation facts)\<rparr>)"
    using narrowing_id obligation_annotation.narrowing_step_axioms by (cases obligations) simp_all
  show ?thesis
    using narrowing_comp [OF narrowing_comp [OF narrowing_comp [OF a c] external_step.narrowing_step_axioms [of ext]] o']
    unfolding attach_def Let_def .
qed

section \<open>Sequences of steps\<close>

lemma run_then_do:
  "run_state (then_do m f) s = (case run_state m s of (Inl e, s') \<Rightarrow> (Inl e, s') | (Inr a, s') \<Rightarrow> run_state (f a) s')"
  by (simp add: then_do_def split: prod.split sum.split)

lemma run_attempt [simp]:
  "run_state (attempted outcome) s = (case outcome of Inl e \<Rightarrow> Inl (KernelThrew e) | Inr a \<Rightarrow> Inr a, s)"
  by (simp add: attempted_def)

lemma run_ask_attempt [simp]:
  "run_state (ask_attempted f) s =
     (case f (ng_world s) of (outcome, w) \<Rightarrow>
        (case outcome of Inl e \<Rightarrow> Inl (KernelThrew e) | Inr a \<Rightarrow> Inr a, s\<lparr>ng_world := w\<rparr>))"
  by (simp add: ask_attempted_def split: prod.split)

lemma run_checked [simp]:
  "run_state (checked result a) s = (case assertKernelInvariants result of Inl e \<Rightarrow> Inl e | Inr _ \<Rightarrow> Inr a, s)"
  by (simp add: checked_def)

lemma then_do_returns:
  assumes "run_state (then_do m f) s = (Inr b, s')"
  obtains a s1 where "run_state m s = (Inr a, s1)" "run_state (f a) s1 = (Inr b, s')"
  using assms by (auto simp add: run_then_do split: prod.splits sum.splits)

lemma bind_returns:
  assumes "run_state (m \<bind> f) s = (b, s')"
  obtains a s1 where "run_state m s = (a, s1)" "run_state (f a) s1 = (b, s')"
  using assms by (auto split: prod.splits)

lemma invariants_hold:
  "assertKernelInvariants result = Inr () \<longleftrightarrow>
     kr_reasonCodes result \<noteq> [] \<and>
     (kr_status result = KernelAllowed \<longrightarrow>
        re_performed (kr_recognition result) \<and> re_recognized (kr_recognition result) = Some True)"
  by (auto simp add: assertKernelInvariants_def assertReasonCodesPresent_def assertRecognitionPrecedesAllow_def
        split: sum.splits if_splits)

lemma checked_returns:
  assumes "run_state (checked result a) s = (Inr b, s')"
  shows "b = a" "assertKernelInvariants result = Inr ()" "s' = s"
  using assms by (auto split: sum.splits)

lemma attempt_returns:
  assumes "run_state (attempted outcome) s = (Inr a, s')"
  shows "outcome = Inr a" "s' = s"
  using assms by (auto split: sum.splits)

text \<open>
  A provider is asked once, at the instant the kernel's clock gives, in the world it is given in:
  the question takes both and leaves a world; nothing else of the state changes.
\<close>

definition asked ::
  "('c, 'w) kernel \<Rightarrow> (string \<Rightarrow> 'w \<Rightarrow> 'a \<times> 'w) \<Rightarrow> ('m, 'v, 'w) engine_state \<Rightarrow> 'a \<Rightarrow> ('m, 'v, 'w) engine_state \<Rightarrow> bool" where
  "asked K question s answer s' \<longleftrightarrow>
     (case ev_now (kn_env K) (ng_world s) of
        (now, w) \<Rightarrow> (case question now w of (a, w') \<Rightarrow> a = answer \<and> s' = s\<lparr>ng_world := w'\<rparr>))"

lemma asked_ask:
  assumes "run_state (clock_now (kn_env K)) s = (now, s1)" "run_state (ask (f now)) s1 = (a, s2)"
  shows "asked K f s a s2"
  using assms by (auto simp add: asked_def clock_now_def split: prod.splits)

lemma asked_attempt:
  assumes "run_state (clock_now (kn_env K)) s = (now, s1)" "run_state (ask_attempted (f now)) s1 = (Inr a, s2)"
  shows "asked K f s (Inr a) s2"
  using assms by (auto simp add: asked_def clock_now_def split: prod.splits sum.splits)

lemma asked_unique: "asked K f s a s1 \<Longrightarrow> asked K f s b s2 \<Longrightarrow> a = b \<and> s1 = s2"
  by (auto simp add: asked_def split: prod.splits)

section \<open>What each gate requires\<close>

lemma push_code_Nil [simp]: "push_code codes code = [] \<longleftrightarrow> codes = [] \<and> code = None"
  by (auto simp add: push_code_def split: option.splits)

lemma foldl_push_code_Nil: "foldl push_code codes xs = [] \<longleftrightarrow> codes = [] \<and> (\<forall>x \<in> set xs. x = None)"
  by (induction xs arbitrary: codes) auto

lemma coverage_codes_Nil: "coverage_codes code coverages = [] \<longleftrightarrow> (\<forall>e \<in> set coverages. code (snd e) = None)"
  by (simp add: coverage_codes_def foldl_push_code_Nil)

lemma cover_rights_keys: "cover_rights port query otherwise rights w = (coverages, w') \<Longrightarrow> map fst coverages = rights"
  by (induction rights arbitrary: w coverages) (auto split: prod.splits)

lemma code_None: "toReasonCode c = None \<longleftrightarrow> c = AuthorityCovered \<or> c = ResourceNotEnrolled"
  by (cases c) simp_all

lemma representation_code_None: "toRepresentationReasonCode c = None \<longleftrightarrow> isGovernedRepresentationCovered c"
  by (cases c) simp_all

lemma merge_codes_Nil [simp]: "merge_codes a b = [] \<longleftrightarrow> a = [] \<and> b = []"
  by (auto simp add: merge_codes_def filter_empty_conv)

text \<open>
  What a provider is asked and answers in one call.  Each right is asked in turn; an answer is
  missing where the provider threw.
\<close>

fun each_answer :: "('q \<Rightarrow> 'w \<Rightarrow> 'c option \<times> 'w) \<Rightarrow> (string \<Rightarrow> 'q) \<Rightarrow> string list \<Rightarrow> 'w \<Rightarrow> 'c option list \<times> 'w" where
  "each_answer port query [] w = ([], w)"
| "each_answer port query (right # rights) w =
     (case port (query right) w of
        (answer, w1) \<Rightarrow> (case each_answer port query rights w1 of (answers, w2) \<Rightarrow> (answer # answers, w2)))"

definition engaged_rights :: "kernel_request \<Rightarrow> string list" where
  "engaged_rights r = option_list (at_governedRights (kq_action r))"

text \<open>
  Authority grants a request in one call, at an instant and in a world: the action engages no
  right, or tenant and resource are stated, every right is answered as covered or as one of a
  resource that is not enrolled, and if one is covered and the actor is not the holder, a composed
  representation provider, asked next, answers every right as represented.
\<close>

definition authority_answers ::
  "'w authority_provider \<Rightarrow> kernel_request \<Rightarrow> string \<Rightarrow> string \<Rightarrow> string \<Rightarrow> 'w \<Rightarrow> authority_coverage option list \<times> 'w" where
  "authority_answers port r tenant resource now = each_answer port
     (\<lambda>right. \<lparr>gq_tenantId = tenant, gq_holderRef = holder_of r, gq_resourceKind = resource_kind r,
        gq_resourceId = resource, gq_governedRight = right,
        gq_requestedScope = at_governedRightsScope (kq_action r), gq_at = now\<rparr>) (engaged_rights r)"

definition representation_answers ::
  "'w representation_provider \<Rightarrow> kernel_request \<Rightarrow> string \<Rightarrow> string \<Rightarrow> string \<Rightarrow> 'w \<Rightarrow> representation_coverage option list \<times> 'w" where
  "representation_answers port r tenant resource now = each_answer port
     (\<lambda>right. \<lparr>rq_tenantId = tenant, rq_representativeRef = ar_id (kq_actor r), rq_holderRef = holder_of r,
        rq_resourceKind = resource_kind r, rq_resourceId = resource, rq_governedRight = right,
        rq_action = governed_action r, rq_requestedScope = at_governedRightsScope (kq_action r), rq_at = now\<rparr>)
     (engaged_rights r)"

definition represented ::
  "'w representation_provider option \<Rightarrow> kernel_request \<Rightarrow> string \<Rightarrow> string \<Rightarrow> string \<Rightarrow> 'w \<Rightarrow> bool" where
  "represented reps r tenant resource now w \<longleftrightarrow>
     (\<forall>port. reps = Some port \<and> ar_id (kq_actor r) \<noteq> holder_of r \<longrightarrow>
        (\<forall>answer \<in> set (fst (representation_answers port r tenant resource now w)).
           \<exists>coverage. answer = Some coverage \<and> isGovernedRepresentationCovered coverage))"

definition authority_granted ::
  "'w authority_provider \<Rightarrow> 'w representation_provider option \<Rightarrow> kernel_request \<Rightarrow> string \<Rightarrow> 'w \<Rightarrow> bool" where
  "authority_granted port reps r now w \<longleftrightarrow>
     engaged_rights r = [] \<or>
     (\<exists>tenant resource answers w1.
        organization_id r = Some tenant \<and> tenant \<noteq> [] \<and> target_member tf_id r = Some resource \<and> resource \<noteq> [] \<and>
        authority_answers port r tenant resource now w = (answers, w1) \<and>
        set answers \<subseteq> {Some AuthorityCovered, Some ResourceNotEnrolled} \<and>
        (Some AuthorityCovered \<in> set answers \<longrightarrow> represented reps r tenant resource now w1))"

lemma cover_rights_answers:
  "cover_rights port query otherwise rights w =
     (zip rights (map (\<lambda>a. given a otherwise) (fst (each_answer port query rights w))), snd (each_answer port query rights w))"
  by (induction rights arbitrary: w) (simp_all split: prod.split)

lemma each_answer_length: "length (fst (each_answer port query rights w)) = length rights"
  by (induction rights arbitrary: w) (simp_all add: case_prod_unfold)

lemma stated_member_iff:
  "stated_member s = Some t \<longleftrightarrow> s = Some t \<and> t \<noteq> []" "stated_member s = None \<longleftrightarrow> s = None \<or> s = Some []"
  by (auto simp add: stated_member_def split: option.split)

lemma zip_codes:
  assumes "length rights = length answers"
  shows "coverage_codes code (zip rights (map f answers)) = [] \<longleftrightarrow> (\<forall>a \<in> set answers. code (f a) = None)"
proof -
  have "snd ` set (zip rights (map f answers)) = f ` set answers"
    using assms by (metis length_map list.set_map map_snd_zip)
  then show ?thesis unfolding coverage_codes_Nil by (metis (no_types, lifting) image_iff)
qed

lemma given_code:
  "toReasonCode (given a NoRightAuthority) = None \<longleftrightarrow> a = Some AuthorityCovered \<or> a = Some ResourceNotEnrolled"
  "toRepresentationReasonCode (given b NoRepresentation) = None \<longleftrightarrow> (\<exists>c. b = Some c \<and> isGovernedRepresentationCovered c)"
  by (auto simp add: given_def code_None representation_code_None split: option.split)

lemma enforced_answers:
  assumes "length rights = length answers" "set answers \<subseteq> {Some AuthorityCovered, Some ResourceNotEnrolled}"
  shows "list_ex (\<lambda>(right, c). c \<noteq> ResourceNotEnrolled) (zip rights (map (\<lambda>a. given a NoRightAuthority) answers)) \<longleftrightarrow>
    Some AuthorityCovered \<in> set answers"
proof -
  let ?cov = "zip rights (map (\<lambda>a. given a NoRightAuthority) answers)"
  have "snd ` set ?cov = (\<lambda>a. given a NoRightAuthority) ` set answers"
    using assms(1) by (metis length_map list.set_map map_snd_zip)
  then have "(\<exists>e \<in> set ?cov. snd e \<noteq> ResourceNotEnrolled) \<longleftrightarrow> (\<exists>a \<in> set answers. given a NoRightAuthority \<noteq> ResourceNotEnrolled)"
    by (metis (no_types, lifting) image_iff)
  moreover have "given a NoRightAuthority \<noteq> ResourceNotEnrolled \<longleftrightarrow> a = Some AuthorityCovered" if "a \<in> set answers" for a
    using assms(2) that by (auto simp add: given_def)
  ultimately show ?thesis by (auto simp add: list_ex_iff case_prod_unfold)
qed

lemma authority_granted_iff:
  "gf_reasonCodes (fst (resolveGovernedAuthorityFacts port reps r now w)) = [] \<longleftrightarrow> authority_granted port reps r now w"
proof (cases "engaged_rights r = []")
  case True
  then show ?thesis by (simp add: resolveGovernedAuthorityFacts_def engaged_rights_def NOT_PERFORMED_def authority_granted_def)
next
  case rights: False
  show ?thesis
  proof (cases "stated_member (organization_id r) = None \<or> stated_member (target_member tf_id r) = None")
    case True
    then have "\<not> authority_granted port reps r now w" using rights by (auto simp add: authority_granted_def stated_member_iff)
    moreover have "gf_reasonCodes (fst (resolveGovernedAuthorityFacts port reps r now w)) \<noteq> []"
      using True rights
      by (auto simp add: resolveGovernedAuthorityFacts_def engaged_rights_def [symmetric] blocked_def Let_def split: option.split)
    ultimately show ?thesis by simp
  next
    case False
    then obtain tenant resource where known: "stated_member (organization_id r) = Some tenant"
      "stated_member (target_member tf_id r) = Some resource" by auto
    let ?q = "governed_query_for r tenant resource now" and ?p = "representation_query_for r tenant resource now"
    obtain answers w1 where a: "each_answer port ?q (engaged_rights r) w = (answers, w1)" by (rule prod.exhaust)
    let ?cov = "zip (engaged_rights r) (map (\<lambda>a. given a NoRightAuthority) answers)"
    have len: "length (engaged_rights r) = length answers" using each_answer_length [of port ?q "engaged_rights r" w] a by simp
    have c: "cover_rights port ?q NoRightAuthority (engaged_rights r) w = (?cov, w1)" by (simp add: cover_rights_answers a)
    have codes: "coverage_codes toReasonCode ?cov = [] \<longleftrightarrow> set answers \<subseteq> {Some AuthorityCovered, Some ResourceNotEnrolled}"
      by (auto simp add: zip_codes [OF len] given_code)
    note enforced = enforced_answers [OF len]
    obtain stated w2 where st: "resolveRepresentation reps ?p (ar_id (kq_actor r)) (holder_of r) (engaged_rights r)
        (list_ex (\<lambda>(right, c). c \<noteq> ResourceNotEnrolled) ?cov) w1 = (stated, w2)" by (rule prod.exhaust)
    have rep: "(case stated of None \<Rightarrow> True | Some (rep, rep_codes) \<Rightarrow> rep_codes = []) \<longleftrightarrow>
        (list_ex (\<lambda>(right, c). c \<noteq> ResourceNotEnrolled) ?cov \<longrightarrow> represented reps r tenant resource now w1)"
      using st [symmetric]
      by (auto simp add: resolveRepresentation_def represented_def cover_rights_answers zip_codes each_answer_length
          given_code representation_answers_def representation_query_for_def [abs_def] split: option.splits if_splits)
    have "fst (resolveGovernedAuthorityFacts port reps r now w) = governed_facts r resource ?cov stated"
      using known rights c st by (simp add: resolveGovernedAuthorityFacts_def engaged_rights_def [symmetric])
    then have "gf_reasonCodes (fst (resolveGovernedAuthorityFacts port reps r now w)) = [] \<longleftrightarrow>
        coverage_codes toReasonCode ?cov = [] \<and> (case stated of None \<Rightarrow> True | Some (rep, rep_codes) \<Rightarrow> rep_codes = [])"
      by (auto simp add: governed_facts_def Let_def split: option.splits prod.splits)
    also have "\<dots> \<longleftrightarrow> set answers \<subseteq> {Some AuthorityCovered, Some ResourceNotEnrolled} \<and>
        (Some AuthorityCovered \<in> set answers \<longrightarrow> represented reps r tenant resource now w1)"
      unfolding codes rep using enforced by blast
    also have "\<dots> \<longleftrightarrow> authority_granted port reps r now w"
      using known rights a
      by (auto simp add: authority_granted_def stated_member_iff authority_answers_def governed_query_for_def [abs_def])
    finally show ?thesis .
  qed
qed

text \<open>
  Authority: every right the action engages is covered or concerns a resource that is not
  enrolled, and a requester who is not the holder represents the holder in every right.
\<close>

definition authority_clear :: "kernel_request \<Rightarrow> bool \<Rightarrow> authority_evaluation \<Rightarrow> bool" where
  "authority_clear r composed au \<longleftrightarrow>
     (\<exists>ga. au_governedAuthority au = Some ga \<and> map gr_governedRight (ga_rights ga) = engaged_rights r \<and>
        list_all (\<lambda>g. gr_covered g \<or> gr_outcome g = ''resource_not_enrolled'') (ga_rights ga) \<and>
        (composed \<and> ar_id (kq_actor r) \<noteq> holder_of r \<and> list_ex gr_covered (ga_rights ga) \<longrightarrow>
           (\<exists>rep. au_representation au = Some rep \<and> map rr_governedRight (rp_rights rep) = engaged_rights r \<and>
              list_all rr_covered (rp_rights rep))))"

lemma representation_resolved:
  assumes "resolveRepresentation (Some port) query a h rights enforced w = (stated, w')" "a \<noteq> h" enforced
  obtains rep codes where "stated = Some (rep, codes)" "map rr_governedRight (rp_rights rep) = rights"
    "codes = [] \<longrightarrow> list_all rr_covered (rp_rights rep)"
proof -
  obtain coverages w1 where c: "cover_rights port query NoRepresentation rights w = (coverages, w1)" by (rule prod.exhaust)
  have "stated = Some (\<lparr>rp_performed = True, rp_required = True, rp_holderRef = h, rp_representativeRef = a,
      rp_rights = map representation_right coverages\<rparr>, coverage_codes toRepresentationReasonCode coverages)"
    using assms c by (simp add: resolveRepresentation_def)
  moreover have "map rr_governedRight (map representation_right coverages) = rights"
    using cover_rights_keys [OF c] by (simp add: representation_right_def o_def)
  moreover have "coverage_codes toRepresentationReasonCode coverages = [] \<Longrightarrow> list_all rr_covered (map representation_right coverages)"
    by (simp add: coverage_codes_Nil representation_code_None list_all_iff representation_right_def)
  ultimately show thesis using that by simp
qed

lemma authority_facts_clear:
  assumes "resolveGovernedAuthorityFacts port representatives r now w = (facts, w')"
    and "gf_reasonCodes facts = []" "engaged_rights r \<noteq> []"
  shows "authority_clear r (representatives \<noteq> None) (kr_authority (with_authority_fields facts result))"
proof -
  note rights = assms(3) [unfolded engaged_rights_def]
  obtain tenant where tenant: "stated_member (organization_id r) = Some tenant"
    using assms(1,2) rights by (cases "stated_member (organization_id r)")
      (auto simp add: resolveGovernedAuthorityFacts_def blocked_def Let_def)
  obtain resource where resource: "stated_member (target_member tf_id r) = Some resource"
    using assms(1,2) rights tenant by (cases "stated_member (target_member tf_id r)")
      (auto simp add: resolveGovernedAuthorityFacts_def blocked_def Let_def)
  obtain coverages w1 where c: "cover_rights port (governed_query_for r tenant resource now) NoRightAuthority
      (engaged_rights r) w = (coverages, w1)" by (rule prod.exhaust)
  define enforced where "enforced = list_ex (\<lambda>(right, c). c \<noteq> ResourceNotEnrolled) coverages"
  obtain stated w2 where st: "resolveRepresentation representatives (representation_query_for r tenant resource now)
      (ar_id (kq_actor r)) (holder_of r) (engaged_rights r) enforced w1 = (stated, w2)" by (rule prod.exhaust)
  have facts: "facts = governed_facts r resource coverages stated"
    using assms(1) rights tenant resource c st
    by (simp add: resolveGovernedAuthorityFacts_def engaged_rights_def enforced_def)
  have codes: "coverage_codes toReasonCode coverages = []"
    and rep_codes: "\<And>rep codes. stated = Some (rep, codes) \<Longrightarrow> codes = []"
    using assms(2) by (auto simp add: facts governed_facts_def Let_def split: option.splits prod.splits)
  let ?ga = "gf_governedAuthority facts"
  have ga: "ga_rights ?ga = map (right_evaluation (holder_of r)) coverages"
    and rep: "gf_representation facts = map_option fst stated"
    by (auto simp add: facts governed_facts_def Let_def split: option.splits prod.splits)
  have keys: "map gr_governedRight (ga_rights ?ga) = engaged_rights r"
    using cover_rights_keys [OF c] by (simp add: ga right_evaluation_def o_def)
  have covered: "list_all (\<lambda>g. gr_covered g \<or> gr_outcome g = ''resource_not_enrolled'') (ga_rights ?ga)"
    using codes by (auto simp add: ga list_all_iff coverage_codes_Nil code_None right_evaluation_def)
  have represented: "\<exists>rep. gf_representation facts = Some rep \<and> map rr_governedRight (rp_rights rep) = engaged_rights r \<and>
      list_all rr_covered (rp_rights rep)"
    if who: "representatives \<noteq> None" "ar_id (kq_actor r) \<noteq> holder_of r" "list_ex gr_covered (ga_rights ?ga)"
  proof -
    have "enforced" using who(3) by (auto simp add: enforced_def ga list_ex_iff right_evaluation_def)
    obtain q where q: "representatives = Some q" using who(1) by auto
    obtain rep codes where "stated = Some (rep, codes)" "map rr_governedRight (rp_rights rep) = engaged_rights r"
      "codes = [] \<longrightarrow> list_all rr_covered (rp_rights rep)"
      using representation_resolved [OF st [unfolded q] who(2) \<open>enforced\<close>] .
    then show ?thesis using rep rep_codes by simp
  qed
  have "au_representation (kr_authority (with_authority_fields facts result)) = gf_representation facts"
    if "gf_representation facts \<noteq> None" using that by (auto simp add: with_authority_fields_def)
  then show ?thesis unfolding authority_clear_def using keys covered represented
    by (auto simp add: with_authority_fields_def)
qed

text \<open>
  Context: the profile is established, every required fact is read, and no restrictive fact is
  ambiguous or unreadable.
\<close>

definition context_clear :: "platform \<Rightarrow> 'w context_capability \<Rightarrow> context_resolution \<Rightarrow> kernel_request \<Rightarrow> bool" where
  "context_clear P cap resolution r \<longleftrightarrow>
     list_all (\<lambda>q.
       (cr_required q \<longrightarrow> rd_status (readContextFact resolution q) = Satisfied) \<and>
       (cr_restrictive q = Some True \<longrightarrow>
          rd_status (readContextFact resolution q) \<noteq> Conflicted \<and>
          rd_status (readContextFact resolution q) \<noteq> ContextNotResolved))
     (cs_requirements (select_context P cap r))"

lemma read_key [simp]: "rd_key (readContextFact resolution q) = cr_key q"
  by (simp add: readContextFact_def bare_read_def Let_def split: option.split)

lemma present_Nil [simp]: "option_list (present xs) = xs"
  by (simp add: present_def option_list_def)

lemma requirement_codes_nonempty: "requirement_codes restrictive (requirement_evaluation resolution qs read) \<noteq> []"
  by (simp add: requirement_codes_def requirement_evaluation_def present_def split: option.split)

lemma context_facts_clear:
  assumes "resolveKernelContextFacts P cap resolution r = Inr facts" "cz_reasonCodes facts = []"
  shows "\<not> cs_refused (select_context P cap r)" "context_clear P cap resolution r"
proof -
  let ?sel = "select_context P cap r"
  let ?qs = "cs_requirements ?sel"
  show not_refused: "\<not> cs_refused ?sel"
    using assms by (auto simp add: resolveKernelContextFacts_def Let_def split: sum.splits)
  let ?reads = "readContextFacts resolution ?qs"
  obtain evaluation where ev: "toContextEvaluation P resolution ?sel ?reads = Inr evaluation"
    using assms(1) not_refused by (auto simp add: resolveKernelContextFacts_def Let_def split: sum.splits)
  have un: "option_list (ce_unsatisfiedRequirements evaluation) =
      map (requirement_evaluation resolution ?qs) (filter (read_unsatisfied ?qs) ?reads)"
    using ev by (auto simp add: toContextEvaluation_def Let_def split: sum.splits if_splits)
  have "filter (read_unsatisfied ?qs) ?reads = []"
  proof (rule ccontr)
    assume some: "filter (read_unsatisfied ?qs) ?reads \<noteq> []"
    then have "concat (map (requirement_codes (restrictive_keys ?qs))
        (map (requirement_evaluation resolution ?qs) (filter (read_unsatisfied ?qs) ?reads))) \<noteq> []"
      using requirement_codes_nonempty by (cases "filter (read_unsatisfied ?qs) ?reads") auto
    then have "js_set (concat (map (requirement_codes (restrictive_keys ?qs)) (option_list (ce_unsatisfiedRequirements evaluation)))) \<noteq> []"
      unfolding un using set_js_set by (metis set_empty)
    moreover have "option_list (ce_unsatisfiedRequirements evaluation) \<noteq> []" using some unfolding un by simp
    ultimately have "cz_reasonCodes facts \<noteq> []"
      using assms(1) not_refused ev by (auto simp add: resolveKernelContextFacts_def Let_def)
    then show False using assms(2) by simp
  qed
  then have "\<not> read_unsatisfied ?qs (readContextFact resolution q)" if "q \<in> set ?qs" for q
    using that by (auto simp add: filter_empty_conv readContextFacts_def)
  then show "context_clear P cap resolution r"
    by (auto simp add: context_clear_def list_all_iff read_unsatisfied_def required_keys_def restrictive_keys_def)
qed

text \<open>The external port: only an answer of exactly one shape, before its bound, permits.\<close>

definition allow_response :: js_value where
  "allow_response = JSObject True [(''decision'', DataProp (JSString ''allow''))]"

definition deny_response :: js_value where
  "deny_response = JSObject True [(''decision'', DataProp (JSString ''deny''))]"

lemma classify_allowed: "classify v = ExternalAllowed \<longleftrightarrow> v = allow_response"
  by (cases v rule: classify.cases) (auto simp add: allow_response_def split: if_splits)

lemma race_allowed:
  "race_outcome ms reply elapsed = ExternalAllowed \<longleftrightarrow> reply = PortAnswered allow_response \<and> elapsed < of_int ms"
  by (cases reply) (auto simp add: race_outcome_def classify_allowed)

definition port_allowed :: "'w external_capability \<Rightarrow> kernel_request \<Rightarrow> string \<Rightarrow> 'w \<Rightarrow> bool" where
  "port_allowed cap r now w \<longleftrightarrow>
     (\<exists>elapsed w'. xa_provider cap (toInput r now) w = ((PortAnswered allow_response, elapsed), w') \<and>
        elapsed < of_int (xa_timeoutMs cap))"

lemma port_allowed_iff:
  "fst (resolveExternalAuthorization cap r now w) = ExternalAllowed \<longleftrightarrow> port_allowed cap r now w"
  by (auto simp add: resolveExternalAuthorization_def race_allowed port_allowed_def split: prod.splits)

lemma port_world: "snd (resolveExternalAuthorization cap r now w) = snd (xa_provider cap (toInput r now) w)"
  by (simp add: resolveExternalAuthorization_def split: prod.splits)

text \<open>The two gates that are asked at an instant already known, where they are composed.\<close>

definition authority_passes :: "('c, 'w) kernel \<Rightarrow> kernel_request \<Rightarrow> string \<Rightarrow> 'w \<Rightarrow> 'w \<Rightarrow> bool" where
  "authority_passes K r now w w' \<longleftrightarrow>
     (case kn_governedAuthority K of
        None \<Rightarrow> w' = w
      | Some port \<Rightarrow> authority_granted port (kn_representation K) r now w \<and>
          w' = snd (resolveGovernedAuthorityFacts port (kn_representation K) r now w))"

definition port_passes :: "('c, 'w) kernel \<Rightarrow> kernel_request \<Rightarrow> string \<Rightarrow> 'w \<Rightarrow> 'w \<Rightarrow> bool" where
  "port_passes K r now w w' \<longleftrightarrow>
     (case kn_external K of
        None \<Rightarrow> w' = w
      | Some cap \<Rightarrow> port_allowed cap r now w \<and> w' = snd (xa_provider cap (toInput r now) w))"

text \<open>Obligations: none that blocks is left unsatisfied.\<close>

lemma obligations_clear:
  "oz_eligible (resolveKernelObligationFacts resolution) \<longleftrightarrow>
     (\<forall>i \<in> set (res_obligations resolution). oi_blocking i \<longrightarrow> obligationStateSatisfies (oi_state i))"
  by (auto simp add: resolveKernelObligationFacts_def Let_def filter_empty_conv obligationWithholdsExercise_def)

lemma obligation_report:
  "oe_allBlockingObligationsSatisfied (oz_evaluation (resolveKernelObligationFacts resolution)) \<longleftrightarrow>
     (\<forall>i \<in> set (res_obligations resolution). oi_blocking i \<longrightarrow> oi_state i = Verified \<or> oi_state i = Waived)"
  by (auto simp add: resolveKernelObligationFacts_def Let_def filter_empty_conv obligationWithholdsExercise_def
      obligationStateSatisfies_def SATISFYING_OBLIGATION_STATES_def)

section \<open>Evaluation narrows\<close>

lemma grant_step_returns:
  assumes "applyGrantStep P capability r result = Inr result'"
  obtains g where "result' = result\<lparr>kr_grants := g\<rparr>"
    "g = (case capability of None \<Rightarrow> kr_grants result
       | Some declaration \<Rightarrow> Some (projr (resolveKernelGrantFacts P declaration r result)))"
proof (cases capability)
  case None
  then show thesis using assms that [of "kr_grants result"] by (simp add: applyGrantStep_def)
next
  case (Some decl)
  then obtain g where "resolveKernelGrantFacts P decl r result = Inr g" "result' = result\<lparr>kr_grants := Some g\<rparr>"
    using assms by (auto simp add: applyGrantStep_def split: sum.splits)
  then show thesis using Some that by simp
qed

lemma authority_kept [simp]:
  "kr_authority (context_fold facts a) = kr_authority a"
  "kr_authority (applyExternalAuthorizationStep e a) = kr_authority a"
  "kr_authority (recordExternalAuthorizationNotConsulted a) = kr_authority a"
  "kr_authority (applyObligationStep o' a) = kr_authority a"
  by (simp_all add: context_fold_def applyExternalAuthorizationStep_def recordExternalAuthorizationNotConsulted_def
      withTraceStep_def applyObligationStep_def Let_def split: option.split)

lemma evaluate_steps_returns:
  assumes "run_state (evaluate_steps K r resolution obligations er) s = (Inr result, s')"
  obtains ar cr xr g s1 where "run_state (authority_step K r er) s = (ar, s1)"
    "applyContextStep (kn_platform K) (kn_context K) resolution ar r = Inr cr"
    "run_state (external_step K r cr) s1 = (xr, s')"
    "applyGrantStep (kn_platform K) (kn_grants K) r (applyObligationStep obligations xr) = Inr result"
    "assertKernelInvariants result = Inr ()"
  using assms unfolding evaluate_steps_def
  by (elim bind_returns then_do_returns) (auto split: sum.splits)

lemma evaluated_at_kept [simp]:
  "kr_evaluatedAt (with_authority_fields facts a) = kr_evaluatedAt a"
  "kr_evaluatedAt (context_fold cf a) = kr_evaluatedAt a"
  "kr_evaluatedAt (applyExternalAuthorizationStep e a) = kr_evaluatedAt a"
  "kr_evaluatedAt (applyObligationStep o' a) = kr_evaluatedAt a"
  by (simp_all add: with_authority_fields_def context_fold_def applyExternalAuthorizationStep_def withTraceStep_def
      applyObligationStep_def Let_def split: option.split)

lemma authority_step_allowed:
  assumes "run_state (authority_step K r er) s = (ar, s1)" "kr_status ar = KernelAllowed"
  shows "kr_status er = KernelAllowed" "kr_decisionId ar = kr_decisionId er" "kr_recognition ar = kr_recognition er"
    "kr_evaluatedAt ar = kr_evaluatedAt er"
    "kn_governedAuthority K \<noteq> None \<Longrightarrow> engaged_rights r \<noteq> [] \<Longrightarrow>
       authority_clear r (kn_representation K \<noteq> None) (kr_authority ar)"
    "\<exists>w. authority_passes K r (kr_evaluatedAt er) (ng_world s) w \<and> s1 = s\<lparr>ng_world := w\<rparr>"
proof -
  have step: "kr_status er = KernelAllowed \<and> kr_decisionId ar = kr_decisionId er \<and> kr_recognition ar = kr_recognition er \<and>
     kr_evaluatedAt ar = kr_evaluatedAt er \<and>
     (kn_governedAuthority K \<noteq> None \<longrightarrow> engaged_rights r \<noteq> [] \<longrightarrow>
       authority_clear r (kn_representation K \<noteq> None) (kr_authority ar)) \<and>
     (\<exists>w. authority_passes K r (kr_evaluatedAt er) (ng_world s) w \<and> s1 = s\<lparr>ng_world := w\<rparr>)"
  proof (cases "kn_governedAuthority K")
    case None
    then show ?thesis using assms by (simp add: authority_step_def authority_passes_def)
  next
    case (Some port)
    obtain a w where a: "applyGovernedAuthorityStep port (kn_representation K) r er (ng_world s) = (a, w)" by (rule prod.exhaust)
    have ar: "ar = a" "s1 = s\<lparr>ng_world := w\<rparr>" using assms(1) Some a by (simp_all add: authority_step_def)
    obtain facts w1 where f: "resolveGovernedAuthorityFacts port (kn_representation K) r (kr_evaluatedAt er) (ng_world s) = (facts, w1)"
      by (rule prod.exhaust)
    note granted = authority_granted_iff [of port "kn_representation K" r "kr_evaluatedAt er" "ng_world s", unfolded f fst_conv]
    show ?thesis
    proof (cases "engaged_rights r = [] \<or> \<not> viable (kr_status er)")
      case True
      then have "ar = er" "w = ng_world s" using a ar by (auto simp add: applyGovernedAuthorityStep_def engaged_rights_def)
      moreover have rights: "engaged_rights r = []" using True assms(2) \<open>ar = er\<close> by (auto simp add: viable_def)
      moreover have "facts = NOT_PERFORMED" "w1 = ng_world s"
        using f rights by (auto simp add: resolveGovernedAuthorityFacts_def engaged_rights_def)
      ultimately show ?thesis using assms(2) Some ar(2) f granted by (auto simp add: authority_passes_def NOT_PERFORMED_def)
    next
      case False
      have a': "a = (if gf_reasonCodes facts = [] then with_authority_fields facts er else denied er facts)" "w = w1"
        using a f False by (auto simp add: applyGovernedAuthorityStep_def engaged_rights_def)
      then have none: "gf_reasonCodes facts = []" using assms(2) ar by (auto simp add: denied_def split: if_splits)
      show ?thesis using a' ar none False assms(2) authority_facts_clear [OF f none] granted Some f
        by (simp add: authority_fields.same_status authority_fields.same_decision authority_fields.same_recognition
            authority_passes_def)
    qed
  qed
  then show "kr_status er = KernelAllowed" "kr_decisionId ar = kr_decisionId er" "kr_recognition ar = kr_recognition er"
    "kr_evaluatedAt ar = kr_evaluatedAt er"
    "kn_governedAuthority K \<noteq> None \<Longrightarrow> engaged_rights r \<noteq> [] \<Longrightarrow>
       authority_clear r (kn_representation K \<noteq> None) (kr_authority ar)"
    "\<exists>w. authority_passes K r (kr_evaluatedAt er) (ng_world s) w \<and> s1 = s\<lparr>ng_world := w\<rparr>" by blast+
qed

lemma context_step_returns:
  assumes "applyContextStep P capability resolution ar r = Inr cr"
  obtains (none) "cr = ar" "capability = None \<or> resolution = None"
  | (folded) cap resolved facts where "capability = Some cap" "resolution = Some resolved"
      "resolveKernelContextFacts P cap resolved r = Inr facts" "cr = context_fold facts ar"
  using assms by (cases capability; cases resolution) (auto simp add: applyContextStep_def split: sum.splits)

lemma context_step_allowed:
  assumes "applyContextStep P capability resolution ar r = Inr cr" "kr_status cr = KernelAllowed"
  shows "kr_status ar = KernelAllowed" "kr_decisionId cr = kr_decisionId ar" "kr_recognition cr = kr_recognition ar"
    "kr_authority cr = kr_authority ar" "kr_evaluatedAt cr = kr_evaluatedAt ar"
    "capability = Some cap \<Longrightarrow> resolution = Some resolved \<Longrightarrow>
       \<not> cs_refused (select_context P cap r) \<and> context_clear P cap resolved r"
proof -
  have "kr_status ar = KernelAllowed \<and> kr_decisionId cr = kr_decisionId ar \<and> kr_recognition cr = kr_recognition ar \<and>
    kr_authority cr = kr_authority ar \<and> kr_evaluatedAt cr = kr_evaluatedAt ar \<and> (capability = Some cap \<and> resolution = Some resolved \<longrightarrow>
       \<not> cs_refused (select_context P cap r) \<and> context_clear P cap resolved r)"
    using assms(1)
  proof (cases rule: context_step_returns)
    case none
    then show ?thesis using assms(2) by auto
  next
    case (folded cap' resolved' facts)
    have was: "kr_status ar = KernelAllowed" using assms(2) folded(4) context_step.allowed_before by simp
    then have "cz_reasonCodes facts = []"
      using assms(2) folded(4) by (auto simp add: context_fold_def viable_def split: if_splits)
    then show ?thesis using was context_facts_clear [OF folded(3)] folded(1,2)
      by (auto simp add: folded(4) context_step.same_decision context_step.same_recognition)
  qed
  then show "kr_status ar = KernelAllowed" "kr_decisionId cr = kr_decisionId ar" "kr_recognition cr = kr_recognition ar"
    "kr_authority cr = kr_authority ar" "kr_evaluatedAt cr = kr_evaluatedAt ar"
    "capability = Some cap \<Longrightarrow> resolution = Some resolved \<Longrightarrow>
       \<not> cs_refused (select_context P cap r) \<and> context_clear P cap resolved r" by simp_all
qed

lemma external_step_allowed:
  assumes "run_state (external_step K r cr) s1 = (xr, s')" "kr_status xr = KernelAllowed"
  shows "kr_status cr = KernelAllowed" "kr_decisionId xr = kr_decisionId cr" "kr_recognition xr = kr_recognition cr"
    "kr_authority xr = kr_authority cr" "kr_evaluatedAt xr = kr_evaluatedAt cr"
    "\<exists>w. port_passes K r (kr_evaluatedAt cr) (ng_world s1) w \<and> s' = s1\<lparr>ng_world := w\<rparr>"
proof -
  have "kr_status cr = KernelAllowed \<and> kr_decisionId xr = kr_decisionId cr \<and> kr_recognition xr = kr_recognition cr \<and>
    kr_authority xr = kr_authority cr \<and> kr_evaluatedAt xr = kr_evaluatedAt cr \<and>
    (\<exists>w. port_passes K r (kr_evaluatedAt cr) (ng_world s1) w \<and> s' = s1\<lparr>ng_world := w\<rparr>)"
  proof (cases "kn_external K")
    case None
    then show ?thesis using assms by (simp add: external_step_def port_passes_def)
  next
    case (Some c)
    show ?thesis
    proof (cases "kr_status cr = KernelAllowed")
      case True
      obtain outcome w where o: "resolveExternalAuthorization c r (kr_evaluatedAt cr) (ng_world s1) = (outcome, w)" by (rule prod.exhaust)
      have xr: "xr = applyExternalAuthorizationStep (Some outcome) cr" "s' = s1\<lparr>ng_world := w\<rparr>"
        using assms(1) Some True o by (simp_all add: external_step_def)
      have "outcome = ExternalAllowed"
        using assms(2) True unfolding xr by (cases outcome) (auto simp add: applyExternalAuthorizationStep_def Let_def)
      then have "port_passes K r (kr_evaluatedAt cr) (ng_world s1) w"
        using port_allowed_iff [of c r "kr_evaluatedAt cr" "ng_world s1"] port_world [of c r "kr_evaluatedAt cr" "ng_world s1"] o Some
        by (simp add: port_passes_def)
      then show ?thesis using True Some xr(2)
        by (auto simp add: xr(1) external_step.same_decision external_step.same_recognition)
    next
      case False
      then have "xr = recordExternalAuthorizationNotConsulted cr" using assms(1) Some by (simp add: external_step_def)
      then show ?thesis using False assms(2) external_skip.same_status by simp
    qed
  qed
  then show "kr_status cr = KernelAllowed" "kr_decisionId xr = kr_decisionId cr" "kr_recognition xr = kr_recognition cr"
    "kr_authority xr = kr_authority cr" "kr_evaluatedAt xr = kr_evaluatedAt cr"
    "\<exists>w. port_passes K r (kr_evaluatedAt cr) (ng_world s1) w \<and> s' = s1\<lparr>ng_world := w\<rparr>" by blast+
qed

lemma evaluate_steps_allowed:
  assumes run: "run_state (evaluate_steps K r resolution obligations er) s = (Inr result, s')"
    and allowed: "kr_status result = KernelAllowed"
  shows "kr_status er = KernelAllowed" "kr_decisionId result = kr_decisionId er"
    "re_recognized (kr_recognition er) = Some True"
    "kn_governedAuthority K \<noteq> None \<Longrightarrow> engaged_rights r \<noteq> [] \<Longrightarrow>
       authority_clear r (kn_representation K \<noteq> None) (kr_authority result)"
    "kn_context K = Some cap \<Longrightarrow> resolution = Some resolved \<Longrightarrow>
       \<not> cs_refused (select_context (kn_platform K) cap r) \<and> context_clear (kn_platform K) cap resolved r"
    "\<exists>w. authority_passes K r (kr_evaluatedAt er) (ng_world s) w \<and> port_passes K r (kr_evaluatedAt er) w (ng_world s') \<and>
       s' = s\<lparr>ng_world := ng_world s'\<rparr>"
    "kr_evaluatedAt result = kr_evaluatedAt er"
    "obligations = Some resolutions \<Longrightarrow> kr_obligations result = Some (oz_evaluation (resolveKernelObligationFacts resolutions))"
proof -
  obtain ar cr xr s1 where a: "run_state (authority_step K r er) s = (ar, s1)"
    and c: "applyContextStep (kn_platform K) (kn_context K) resolution ar r = Inr cr"
    and x: "run_state (external_step K r cr) s1 = (xr, s')"
    and g: "applyGrantStep (kn_platform K) (kn_grants K) r (applyObligationStep obligations xr) = Inr result"
    and i: "assertKernelInvariants result = Inr ()"
    using evaluate_steps_returns [OF run] by metis
  obtain grants where result: "result = (applyObligationStep obligations xr)\<lparr>kr_grants := grants\<rparr>"
    using grant_step_returns [OF g] by metis
  have xa: "kr_status xr = KernelAllowed" using allowed obligation_step.same_status by (simp add: result)
  note X = external_step_allowed [OF x xa]
  note C = context_step_allowed [OF c X(1)]
  note A = authority_step_allowed [OF a C(1)]
  show "kr_status er = KernelAllowed" by (fact A(1))
  show "kr_decisionId result = kr_decisionId er"
    by (simp add: result obligation_step.same_decision X(2) C(2) A(2))
  have "kr_recognition result = kr_recognition er"
    by (simp add: result obligation_step.same_recognition X(3) C(3) A(3))
  then show "re_recognized (kr_recognition er) = Some True" using i allowed by (simp add: invariants_hold)
  have "kr_authority result = kr_authority ar" by (simp add: result X(4) C(4))
  then show "kn_governedAuthority K \<noteq> None \<Longrightarrow> engaged_rights r \<noteq> [] \<Longrightarrow>
       authority_clear r (kn_representation K \<noteq> None) (kr_authority result)" using A(5) by simp
  show "kn_context K = Some cap \<Longrightarrow> resolution = Some resolved \<Longrightarrow>
       \<not> cs_refused (select_context (kn_platform K) cap r) \<and> context_clear (kn_platform K) cap resolved r"
    by (fact C(6))
  obtain w w' where "authority_passes K r (kr_evaluatedAt er) (ng_world s) w" "s1 = s\<lparr>ng_world := w\<rparr>"
    "port_passes K r (kr_evaluatedAt er) (ng_world s1) w'" "s' = s1\<lparr>ng_world := w'\<rparr>"
    using A(6) X(6) C(5) A(4) by auto
  then show "\<exists>w. authority_passes K r (kr_evaluatedAt er) (ng_world s) w \<and> port_passes K r (kr_evaluatedAt er) w (ng_world s') \<and>
       s' = s\<lparr>ng_world := ng_world s'\<rparr>" by auto
  show "kr_evaluatedAt result = kr_evaluatedAt er" by (simp add: result X(5) C(5) A(4))
  show "obligations = Some resolutions \<Longrightarrow> kr_obligations result = Some (oz_evaluation (resolveKernelObligationFacts resolutions))"
    by (simp add: result applyObligationStep_def)
qed

lemma indeterminate_status:
  assumes "run_state (buildIndeterminateResult K r message) s = (result, s')"
  shows "kr_status result = KernelIndeterminate" "kr_reasonCodes result = [''KERNEL_INDETERMINATE'']"
  using assms unfolding buildIndeterminateResult_def
  by (auto simp add: bare_result_def split: prod.splits)

lemma evaluate_returns:
  fixes s :: "('c policy_metadata, 'v, 'w) engine_state"
  assumes "run_state (evaluate K r options) s = (Inr result, s')"
  obtains (indeterminate) "kr_status result = KernelIndeterminate" "kr_reasonCodes result = [''KERNEL_INDETERMINATE'']"
  | (decided) constraint s1 resolution s2 obligations s3 facts d s4
    where "asked K (resolveGovernedConstraintContext (kn_constraints K) r) s (Inr constraint) s1"
      "asked K (resolveKernelContext (kn_platform K) (kn_context K) r) s1 (Inr resolution) s2"
      "asked K (resolveKernelObligations (kn_platform K) (kn_obligations K) r) s2 (Inr obligations) s3"
      "context_facts K resolution r = Inr facts"
      "run_state (guard_preflight (kn_env K)
         (toGuardActionRequestInput r options constraint resolution (map_option cz_admitted facts))) s3 = (Inr d, s4)"
      "run_state (evaluate_steps K r resolution obligations
         (toKernelEvaluationResult (kq_requestId r) d options (kq_correlationId r))) s4 = (Inr result, s')"
proof -
  from assms obtain constraint resolution obligations facts answer t1 t2 t3
    and sa s1 sb s2 sc s3 s3' s4 :: "('c policy_metadata, 'v, 'w) engine_state" where
    con: "run_state (clock_now (kn_env K)) s = (t1, sa)"
      "run_state (ask (resolveGovernedConstraintContext (kn_constraints K) r t1)) sa = (Inr constraint, s1)"
    and ctx: "run_state (clock_now (kn_env K)) s1 = (t2, sb)"
      "run_state (ask_attempted (resolveKernelContext (kn_platform K) (kn_context K) r t2)) sb = (Inr resolution, s2)"
    and obl: "run_state (clock_now (kn_env K)) s2 = (t3, sc)"
      "run_state (ask_attempted (resolveKernelObligations (kn_platform K) (kn_obligations K) r t3)) sc = (Inr obligations, s3')"
    and raw: "run_state (attempted (context_facts K resolution r)) s3' = (Inr facts, s3)"
    and pre: "run_state (guard_preflight (kn_env K)
         (toGuardActionRequestInput r options constraint resolution (map_option cz_admitted facts))) s3 = (answer, s4)"
    and rest: "run_state (case answer of
         Inl e \<Rightarrow> do {
           result \<leftarrow> buildIndeterminateResult K r ''recognitionProvider failed during evaluation'';
           State_Monad.return (Inr result) }
       | Inr d \<Rightarrow> evaluate_steps K r resolution obligations
           (toKernelEvaluationResult (kq_requestId r) d options (kq_correlationId r))) s4 = (Inr result, s')"
    unfolding evaluate_def by (elim then_do_returns bind_returns) (auto split: sum.splits)
  have facts: "context_facts K resolution r = Inr facts" "s3' = s3" using attempt_returns [OF raw] by simp_all
  show thesis
  proof (cases answer)
    case (Inl e)
    then obtain r' where "run_state (buildIndeterminateResult K r ''recognitionProvider failed during evaluation'') s4 = (r', s')" "r' = result"
      using rest by (auto split: prod.splits)
    then show thesis using indeterminate indeterminate_status by blast
  next
    case (Inr d)
    show thesis
      using decided [OF asked_ask [where f = "resolveGovernedConstraintContext (kn_constraints K) r", OF con] asked_attempt [where f = "resolveKernelContext (kn_platform K) (kn_context K) r", OF ctx]
          asked_attempt [where f = "resolveKernelObligations (kn_platform K) (kn_obligations K) r", OF obl, unfolded facts(2)] facts(1)] pre rest Inr by simp
  qed
qed

end
