(* ===== verification/Kernel_Safety.thy ===== *)
theory Kernel_Safety
  imports Kernel_Steps
begin

text \<open>
  The gates before the executor.  A call of \<open>enforce\<close> that depends on its executor has passed every
  gate and is the guarded execution of the engine; an allowed result of \<open>evaluate\<close> rests on an
  engine decision and on gates that were open, each in the state of that call in which it was asked;
  a provider that fails when it is asked closes its gate; the
  caller's context reaches nothing but the engine's metadata; and the grant step, which comes last,
  is read by nothing.
\<close>

section \<open>What a call rests on\<close>

text \<open>What of the request reaches the engine and decides there.\<close>

definition speaks_for :: "kernel_request \<Rightarrow> 'm enforcement_request \<Rightarrow> bool" where
  "speaks_for r q \<longleftrightarrow>
     nr_actorId q = ar_id (kq_actor r) \<and> nr_trustDomainId q = ar_trustDomainId (kq_actor r) \<and>
     nr_action q = at_type (kq_action r) \<and> nr_capability q = at_capability (kq_action r) \<and>
     nr_resourceScope q = at_resourceScope (kq_action r) \<and> nr_idempotencyKey q = kq_idempotencyKey r \<and>
     nr_actionRequestId q = Some (kq_requestId r) \<and> nr_approvalProofId q = kq_approvalProofId r"

lemma created_speaks_for:
  "created_from (request_input (toGuardActionRequestInput r options constraint resolution facts) mode t) q \<Longrightarrow> speaks_for r q"
  by (auto simp add: created_from_def speaks_for_def request_input_def toGuardActionRequestInput_def)

text \<open>
  The context a call resolved lets it pass: the profile is established and, unless nothing is
  declared, every required fact is read as satisfied and no restrictive one is ambiguous.
\<close>

definition context_admits :: "('c, 'w) kernel \<Rightarrow> kernel_request \<Rightarrow> context_resolution option \<Rightarrow> bool" where
  "context_admits K r resolution \<longleftrightarrow>
     (\<forall>cap. kn_context K = Some cap \<longrightarrow>
        (let selection = select_context (kn_platform K) cap r
         in \<not> cs_refused selection \<and>
            (case resolution of
               None \<Rightarrow> sv_declared (cs_service selection) = []
             | Some resolved \<Rightarrow> context_clear (kn_platform K) cap resolved r)))"

text \<open>
  The engine's decision in a call of \<open>evaluate\<close>: constraints, context and obligations are asked one
  after the other, each at the clock's instant in the state the one before left, and the engine
  preflights the request made of the answers in the state that results.
\<close>

definition decided_at ::
  "('c, 'w) kernel \<Rightarrow> kernel_request \<Rightarrow> kernel_options option \<Rightarrow> ('c policy_metadata, 'v, 'w) engine_state \<Rightarrow>
     context_resolution option \<Rightarrow> obligation_resolution option \<Rightarrow> enforcement_decision \<Rightarrow>
     ('c policy_metadata, 'v, 'w) engine_state \<Rightarrow> bool" where
  "decided_at K r options s resolution obligations d s' \<longleftrightarrow>
     (\<exists>constraint s1 s2 s3 facts input q s4.
        asked K (resolveGovernedConstraintContext (kn_constraints K) r) s (Inr constraint) s1 \<and>
        asked K (resolveKernelContext (kn_platform K) (kn_context K) r) s1 (Inr resolution) s2 \<and>
        asked K (resolveKernelObligations (kn_platform K) (kn_obligations K) r) s2 (Inr obligations) s3 \<and>
        context_facts K resolution r = Inr facts \<and>
        input = toGuardActionRequestInput r options constraint resolution (map_option cz_admitted facts) \<and>
        run_state (createEnforcementRequest (kn_env K) (request_input input (given (gi_mode input) PreflightMode) None)) s3 = (q, s4) \<and>
        speaks_for r q \<and> run_state (preflight (kn_env K) q) s4 = (Inr d, s'))"

text \<open>
  What an allowed evaluation rests on: that decision, under the identity and the instant the result
  names, on a recognized actor; the context of this call; its obligations, which the result reports
  as satisfied exactly if every blocking one is verified or waived; the governed authority, asked at the
  instant of the decision in the state the engine left; and the external port, asked next at the
  same instant, which leaves the world the call ends in.
\<close>

definition reports_obligations :: "kernel_result \<Rightarrow> obligation_resolution option \<Rightarrow> bool" where
  "reports_obligations result obligations \<longleftrightarrow>
     (\<forall>resolved. obligations = Some resolved \<longrightarrow>
        (\<exists>evaluation. kr_obligations result = Some evaluation \<and>
           (oe_allBlockingObligationsSatisfied evaluation \<longleftrightarrow>
              (\<forall>i \<in> set (res_obligations resolved). oi_blocking i \<longrightarrow> oi_state i = Verified \<or> oi_state i = Waived))))"

definition evaluation_rests ::
  "('c, 'w) kernel \<Rightarrow> kernel_request \<Rightarrow> kernel_options option \<Rightarrow> ('c policy_metadata, 'v, 'w) engine_state \<Rightarrow>
     kernel_result \<Rightarrow> ('c policy_metadata, 'v, 'w) engine_state \<Rightarrow> bool" where
  "evaluation_rests K r options s result s' \<longleftrightarrow>
     (\<exists>resolution obligations d s1 w.
        decided_at K r options s resolution obligations d s1 \<and> reports_obligations result obligations \<and>
        nd_id d = kr_decisionId result \<and> nd_decidedAt d = kr_evaluatedAt result \<and>
        (nd_type d = ExecuteAllowed \<or> nd_type d = DryRunAllowed) \<and>
        nd_recognitionDecisionType d \<in> JSString ` {''allow'', ''require_human_approval'', ''require_more_evidence''} \<and>
        context_admits K r resolution \<and>
        authority_passes K r (nd_decidedAt d) (ng_world s1) w \<and>
        port_passes K r (nd_decidedAt d) w (ng_world s') \<and> s' = s1\<lparr>ng_world := ng_world s'\<rparr>)"

text \<open>
  What an execution rests on: authority, constraints, context, obligations and the external port,
  asked one after the other, each at the clock's instant in the state the one before left, all of
  them passed; and the engine's own preflight in the state that results, which allows.
\<close>

definition clocked ::
  "('c, 'w) kernel \<Rightarrow> bool \<Rightarrow> (string \<Rightarrow> 'w \<Rightarrow> 'w \<Rightarrow> bool) \<Rightarrow> ('m, 'v, 'w) engine_state \<Rightarrow> ('m, 'v, 'w) engine_state \<Rightarrow> bool" where
  "clocked K composed lets s s' \<longleftrightarrow>
     (if composed
      then (case ev_now (kn_env K) (ng_world s) of (now, w) \<Rightarrow> lets now w (ng_world s') \<and> s' = s\<lparr>ng_world := ng_world s'\<rparr>)
      else s' = s)"

definition enforcement_rests ::
  "('c, 'w) kernel \<Rightarrow> kernel_request \<Rightarrow> kernel_options option \<Rightarrow> ('c policy_metadata, 'v, 'w) engine_state \<Rightarrow> bool" where
  "enforcement_rests K r options s \<longleftrightarrow>
     (\<exists>s1 constraint s2 resolution s3 obligations s4 s5 facts input q s6 d s7.
        clocked K (kn_governedAuthority K \<noteq> None) (authority_passes K r) s s1 \<and>
        asked K (resolveGovernedConstraintContext (kn_constraints K) r) s1 (Inr constraint) s2 \<and>
        asked K (resolveKernelContext (kn_platform K) (kn_context K) r) s2 (Inr resolution) s3 \<and>
        context_admits K r resolution \<and> context_facts K resolution r = Inr facts \<and>
        asked K (resolveKernelObligations (kn_platform K) (kn_obligations K) r) s3 (Inr obligations) s4 \<and>
        (\<forall>resolved. obligations = Some resolved \<longrightarrow>
           (\<forall>i \<in> set (res_obligations resolved). oi_blocking i \<longrightarrow> oi_state i = Verified \<or> oi_state i = Waived)) \<and>
        clocked K (kn_external K \<noteq> None) (port_passes K r) s4 s5 \<and>
        input = toGuardActionRequestInput r options constraint resolution (map_option cz_admitted facts) \<and>
        run_state (createEnforcementRequest (kn_env K) (request_input input (given (gi_mode input) ExecuteMode) None)) s5 = (q, s6) \<and>
        speaks_for r q \<and> run_state (preflight (kn_env K) q) s6 = (Inr d, s7) \<and> nd_allowedToExecute d)"

section \<open>An allowed evaluation\<close>

lemma context_admitted:
  assumes "asked K (resolveKernelContext (kn_platform K) (kn_context K) r) s (Inr resolution) s'"
    and "\<And>cap resolved. kn_context K = Some cap \<Longrightarrow> resolution = Some resolved \<Longrightarrow>
      \<not> cs_refused (select_context (kn_platform K) cap r) \<and> context_clear (kn_platform K) cap resolved r"
  shows "context_admits K r resolution"
proof -
  have "\<not> cs_refused (select_context (kn_platform K) cap r) \<and> sv_declared (cs_service (select_context (kn_platform K) cap r)) = []"
    if "kn_context K = Some cap" "resolution = None" for cap
    using assms(1) that
    by (auto simp add: asked_def resolveKernelContext_def classify_answer_def Let_def
        split: prod.splits if_splits sum.splits context_answer.splits)
  then show ?thesis using assms(2) unfolding context_admits_def Let_def by (cases resolution) auto
qed

lemma guard_preflight_created:
  fixes s1 :: "('c policy_metadata, 'v, 'w) engine_state"
  assumes "run_state (guard_preflight (kn_env K) (toGuardActionRequestInput r options constraint resolution facts)) s1 = (answer, s2)"
  obtains q and s0 :: "('c policy_metadata, 'v, 'w) engine_state"
  where "run_state (createEnforcementRequest (kn_env K) (request_input (toGuardActionRequestInput r options constraint resolution facts)
      (given (gi_mode (toGuardActionRequestInput r options constraint resolution facts :: 'c policy_metadata guard_input)) PreflightMode) None)) s1 = (q, s0)"
    "speaks_for r q" "run_state (preflight (kn_env K) q) s0 = (answer, s2)"
proof -
  let ?i = "toGuardActionRequestInput r options constraint resolution facts :: 'c policy_metadata guard_input"
  obtain q s0 where q: "run_state (createEnforcementRequest (kn_env K) (request_input ?i (given (gi_mode ?i) PreflightMode) None)) s1 = (q, s0)"
    by (rule prod.exhaust)
  then show thesis
    using that [OF q created_speaks_for [OF created_request [OF q]]] assms by (simp add: guard_preflight_def)
qed

lemma allowed_types: "mapDecisionTypeToStatus t = KernelAllowed \<longleftrightarrow> t = ExecuteAllowed \<or> t = DryRunAllowed"
  by (cases t) simp_all

lemma recognized_types:
  "re_recognized (buildRecognitionEvaluation d) = Some True \<longleftrightarrow>
     (\<exists>t \<in> set RECOGNIZED_RECOGNITION_TYPES. nd_recognitionDecisionType d = JSString t)"
  by (auto simp add: buildRecognitionEvaluation_def Let_def)

lemma evaluate_rests_on:
  fixes s :: "('c policy_metadata, 'v, 'w) engine_state"
  assumes "run_state (evaluate K r options) s = (Inr result, s')" and "kr_status result = KernelAllowed"
  shows "evaluation_rests K r options s result s'"
    and "kn_governedAuthority K \<noteq> None \<and> engaged_rights r \<noteq> [] \<longrightarrow>
       authority_clear r (kn_representation K \<noteq> None) (kr_authority result)"
proof -
  have "evaluation_rests K r options s result s' \<and> (kn_governedAuthority K \<noteq> None \<and> engaged_rights r \<noteq> [] \<longrightarrow>
       authority_clear r (kn_representation K \<noteq> None) (kr_authority result))"
    using assms(1)
  proof (cases rule: evaluate_returns)
    case indeterminate
    then show ?thesis using assms(2) by simp
  next
    case (decided constraint s1 resolution s2 obligations s3 facts d s4)
    let ?er = "toKernelEvaluationResult (kq_requestId r) d options (kq_correlationId r)"
    note steps = evaluate_steps_allowed [OF decided(6) assms(2)]
    obtain q and s0 :: "('c policy_metadata, 'v, 'w) engine_state" where
      q: "run_state (createEnforcementRequest (kn_env K) (request_input (toGuardActionRequestInput r options constraint resolution (map_option cz_admitted facts))
          (given (gi_mode (toGuardActionRequestInput r options constraint resolution (map_option cz_admitted facts) :: 'c policy_metadata guard_input)) PreflightMode) None)) s3 = (q, s0)"
        "speaks_for r q" "run_state (preflight (kn_env K) q) s0 = (Inr d, s4)"
      using guard_preflight_created [OF decided(5)] .
    have at_decision: "decided_at K r options s resolution obligations d s4"
      unfolding decided_at_def using decided(1-4) q by blast
    have d: "nd_id d = kr_decisionId result" "nd_decidedAt d = kr_evaluatedAt result"
      "nd_type d = ExecuteAllowed \<or> nd_type d = DryRunAllowed" "kr_evaluatedAt ?er = nd_decidedAt d"
      "nd_recognitionDecisionType d \<in> JSString ` {''allow'', ''require_human_approval'', ''require_more_evidence''}"
      using steps(1-3,7) by (auto simp add: toKernelEvaluationResult_def allowed_types recognized_types RECOGNIZED_RECOGNITION_TYPES_def)
    have "context_admits K r resolution" using context_admitted [OF decided(2)] steps(5) by blast
    moreover have "reports_obligations result obligations"
      using steps(8) by (auto simp add: reports_obligations_def obligation_report)
    ultimately show ?thesis using at_decision d steps(4,6) unfolding evaluation_rests_def by metis
  qed
  then show "evaluation_rests K r options s result s'"
    and "kn_governedAuthority K \<noteq> None \<and> engaged_rights r \<noteq> [] \<longrightarrow>
       authority_clear r (kn_representation K \<noteq> None) (kr_authority result)" by blast+
qed

section \<open>An execution\<close>

lemma authority_gate_run:
  assumes "run_state (authority_gate K r) s = (authority, s')"
    and "\<not> (case authority of None \<Rightarrow> False | Some facts \<Rightarrow> gf_reasonCodes facts \<noteq> [])"
  shows "clocked K (kn_governedAuthority K \<noteq> None) (authority_passes K r) s s'"
proof (cases "kn_governedAuthority K")
  case None
  then show ?thesis using assms by (simp add: authority_gate_def clocked_def)
next
  case (Some port)
  obtain now w where c: "ev_now (kn_env K) (ng_world s) = (now, w)" by (rule prod.exhaust)
  obtain facts w1 where f: "resolveGovernedAuthorityFacts port (kn_representation K) r now w = (facts, w1)" by (rule prod.exhaust)
  have "authority = Some facts" "s' = s\<lparr>ng_world := w1\<rparr>" using assms(1) Some c f by (simp_all add: authority_gate_def clock_now_def)
  then show ?thesis
    using assms(2) Some c f authority_granted_iff [of port "kn_representation K" r now w]
    by (simp add: clocked_def authority_passes_def)
qed

lemma external_gate_run:
  assumes "run_state (external_gate K r) s = (ext, s')" "\<not> (case ext of None \<Rightarrow> False | Some outcome \<Rightarrow> outcome \<noteq> ExternalAllowed)"
  shows "clocked K (kn_external K \<noteq> None) (port_passes K r) s s'"
proof (cases "kn_external K")
  case None
  then show ?thesis using assms by (simp add: external_gate_def clocked_def)
next
  case (Some cap)
  obtain now w where c: "ev_now (kn_env K) (ng_world s) = (now, w)" by (rule prod.exhaust)
  obtain outcome w1 where f: "resolveExternalAuthorization cap r now w = (outcome, w1)" by (rule prod.exhaust)
  have "ext = Some outcome" "s' = s\<lparr>ng_world := w1\<rparr>" using assms(1) Some c f by (simp_all add: external_gate_def clock_now_def)
  then show ?thesis
    using assms(2) Some c f port_allowed_iff [of cap r now w] port_world [of cap r now w]
    by (simp add: clocked_def port_passes_def)
qed

text \<open>
  A call that depends on its executor has passed every gate: it is the engine's guarded execution
  in the state the gates left.
\<close>

definition admitted_open ::
  "('c, 'w) kernel \<Rightarrow> kernel_request \<Rightarrow> ('m, 'v, 'w) engine_state \<Rightarrow> ('m, 'v, 'w) engine_state \<Rightarrow> bool" where
  "admitted_open K r s s' \<longleftrightarrow>
     (\<exists>obligations s1.
        asked K (resolveKernelObligations (kn_platform K) (kn_obligations K) r) s (Inr obligations) s1 \<and>
        (\<forall>resolved. obligations = Some resolved \<longrightarrow>
           (\<forall>i \<in> set (res_obligations resolved). oi_blocking i \<longrightarrow> oi_state i = Verified \<or> oi_state i = Waived)) \<and>
        clocked K (kn_external K \<noteq> None) (port_passes K r) s1 s')"

definition closed_call :: "('h \<Rightarrow> ('s, 'a) state) \<Rightarrow> 's \<Rightarrow> bool" where
  "closed_call call s \<longleftrightarrow> (\<exists>out. \<forall>h. run_state (call h) s = out)"

lemma closed_callI: "(\<And>h. run_state (call h) s = out) \<Longrightarrow> closed_call call s"
  by (auto simp add: closed_call_def)

lemma enforce_admitted_gates:
  fixes s :: "('c policy_metadata, 'v, 'w) engine_state"
  shows "closed_call (\<lambda>h. enforce_admitted K r h options authority constraint resolution facts) s \<or>
    (\<exists>s' attached. admitted_open K r s s' \<and>
       (\<forall>h. run_state (enforce_admitted K r h options authority constraint resolution facts) s = run_state (enforce_guarded K r options
          (toGuardActionRequestInput r options constraint resolution (map_option cz_admitted facts)) attached h) s'))"
proof -
  obtain t sd where c: "run_state (clock_now (kn_env K)) s = (t, sd)" by (rule prod.exhaust)
  obtain obl w where o: "resolveKernelObligations (kn_platform K) (kn_obligations K) r t (ng_world sd) = (obl, w)" by (rule prod.exhaust)
  obtain ext se where e: "run_state (external_gate K r) (sd\<lparr>ng_world := w\<rparr>) = (ext, se)" by (rule prod.exhaust)
  show ?thesis
  proof (cases obl)
    case (Inl f)
    then show ?thesis using c o by (intro disjI1 closed_callI) (simp add: enforce_admitted_def run_then_do)
  next
    case (Inr resolved)
    let ?ob = "map_option resolveKernelObligationFacts resolved"
    let ?in = "toGuardActionRequestInput r options constraint resolution (map_option cz_admitted facts)"
    have run: "run_state (enforce_admitted K r h options authority constraint resolution facts) s =
        (if withholds ?ob ext then run_state (enforce_withheld K r options ?in (attach authority facts ?ob ext)) se
         else run_state (enforce_guarded K r options ?in (attach authority facts ?ob ext) h) se)" for h
      using c o Inr e by (simp add: enforce_admitted_def run_then_do Let_def)
    show ?thesis
    proof (cases "withholds ?ob ext")
      case True
      then show ?thesis using run by (intro disjI1 closed_callI) simp
    next
      case False
      have "asked K (resolveKernelObligations (kn_platform K) (kn_obligations K) r) s (Inr resolved) (sd\<lparr>ng_world := w\<rparr>)"
        by (rule asked_attempt [OF c]) (simp add: o Inr)
      moreover have "clocked K (kn_external K \<noteq> None) (port_passes K r) (sd\<lparr>ng_world := w\<rparr>) se"
        using external_gate_run [OF e] False by (simp add: withholds_def)
      moreover have "\<forall>res. resolved = Some res \<longrightarrow>
           (\<forall>i \<in> set (res_obligations res). oi_blocking i \<longrightarrow> oi_state i = Verified \<or> oi_state i = Waived)"
        using False obligations_clear
        by (auto simp add: withholds_def obligationStateSatisfies_def SATISFYING_OBLIGATION_STATES_def)
      ultimately have "admitted_open K r s se" unfolding admitted_open_def by blast
      then show ?thesis using run False by auto
    qed
  qed
qed

lemma context_facts_admit:
  assumes "asked K (resolveKernelContext (kn_platform K) (kn_context K) r) s (Inr resolution) s'"
    and "context_facts K resolution r = Inr facts"
    and "\<not> (case facts of None \<Rightarrow> False | Some f \<Rightarrow> cz_reasonCodes f \<noteq> [])"
  shows "context_admits K r resolution"
proof (rule context_admitted [OF assms(1)])
  fix cap res assume "kn_context K = Some cap" "resolution = Some res"
  then obtain f where f: "resolveKernelContextFacts (kn_platform K) cap res r = Inr f" "facts = Some f"
    using assms(2) by (auto simp add: context_facts_def split: sum.splits)
  then have "cz_reasonCodes f = []" using assms(3) by simp
  then show "\<not> cs_refused (select_context (kn_platform K) cap r) \<and> context_clear (kn_platform K) cap res r"
    using context_facts_clear [OF f(1)] by simp
qed

lemma enforce_authorized_gates:
  fixes s :: "('c policy_metadata, 'v, 'w) engine_state"
  shows "closed_call (\<lambda>h. enforce_authorized K r h options authority) s \<or>
    (\<exists>constraint s1 resolution s2 facts s3 attached.
       asked K (resolveGovernedConstraintContext (kn_constraints K) r) s (Inr constraint) s1 \<and>
       asked K (resolveKernelContext (kn_platform K) (kn_context K) r) s1 (Inr resolution) s2 \<and>
       context_admits K r resolution \<and> context_facts K resolution r = Inr facts \<and> admitted_open K r s2 s3 \<and>
       (\<forall>h. run_state (enforce_authorized K r h options authority) s = run_state (enforce_guarded K r options
          (toGuardActionRequestInput r options constraint resolution (map_option cz_admitted facts)) attached h) s3))"
proof -
  obtain t1 sb where c1: "run_state (clock_now (kn_env K)) s = (t1, sb)" by (rule prod.exhaust)
  obtain cons w1 where k: "resolveGovernedConstraintContext (kn_constraints K) r t1 (ng_world sb) = (cons, w1)" by (rule prod.exhaust)
  obtain t2 sc where c2: "run_state (clock_now (kn_env K)) (sb\<lparr>ng_world := w1\<rparr>) = (t2, sc)" by (rule prod.exhaust)
  obtain ctx w2 where x: "resolveKernelContext (kn_platform K) (kn_context K) r t2 (ng_world sc) = (ctx, w2)" by (rule prod.exhaust)
  consider (failed) e where "cons = Inl e" | (threw) constraint e where "cons = Inr constraint" "ctx = Inl e"
    | (unread) constraint resolution e where "cons = Inr constraint" "ctx = Inr resolution" "context_facts K resolution r = Inl e"
    | (read) constraint resolution facts where "cons = Inr constraint" "ctx = Inr resolution" "context_facts K resolution r = Inr facts"
    by (cases cons; cases ctx; cases "context_facts K (projr ctx) r") auto
  then show ?thesis
  proof cases
    case failed
    then show ?thesis using c1 k by (intro disjI1 closed_callI) (simp add: enforce_authorized_def run_then_do)
  next
    case threw
    then show ?thesis using c1 k c2 x by (intro disjI1 closed_callI) (simp add: enforce_authorized_def run_then_do)
  next
    case unread
    then show ?thesis using c1 k c2 x by (intro disjI1 closed_callI) (simp add: enforce_authorized_def run_then_do)
  next
    case read
    have con: "asked K (resolveGovernedConstraintContext (kn_constraints K) r) s (Inr constraint) (sb\<lparr>ng_world := w1\<rparr>)"
      by (rule asked_ask [OF c1]) (simp add: k read)
    have ask_ctx: "asked K (resolveKernelContext (kn_platform K) (kn_context K) r) (sb\<lparr>ng_world := w1\<rparr>) (Inr resolution) (sc\<lparr>ng_world := w2\<rparr>)"
      by (rule asked_attempt [OF c2]) (simp add: x read)
    show ?thesis
    proof (cases "case facts of None \<Rightarrow> False | Some f \<Rightarrow> cz_reasonCodes f \<noteq> []")
      case True
      then show ?thesis using read c1 k c2 x by (intro disjI1 closed_callI) (simp add: enforce_authorized_def run_then_do)
    next
      case False
      have run: "run_state (enforce_authorized K r h options authority) s =
          run_state (enforce_admitted K r h options authority constraint resolution facts) (sc\<lparr>ng_world := w2\<rparr>)" for h
        using False read c1 k c2 x by (simp add: enforce_authorized_def run_then_do)
      show ?thesis
        using enforce_admitted_gates [of K r options authority constraint resolution facts "sc\<lparr>ng_world := w2\<rparr>"]
          context_facts_admit [OF ask_ctx read(3) False] con ask_ctx read(3)
        unfolding closed_call_def run by blast
    qed
  qed
qed

lemma guarded_depends:
  fixes s :: "('c policy_metadata, 'v, 'w) engine_state"
  assumes "run_state (enforce_guarded K r options input attached f) s \<noteq> run_state (enforce_guarded K r options input attached g) s"
  shows "\<exists>q s1 d s2. run_state (createEnforcementRequest (kn_env K) (request_input input (given (gi_mode input) ExecuteMode) None)) s = (q, s1) \<and>
    run_state (preflight (kn_env K) q) s1 = (Inr d, s2) \<and> nd_allowedToExecute d"
proof -
  obtain q s1 where q: "run_state (createEnforcementRequest (kn_env K)
      (request_input input (given (gi_mode input) ExecuteMode) None)) s = (q, s1)" by (rule prod.exhaust)
  have "run_state (run (kn_env K) q f) s1 \<noteq> run_state (run (kn_env K) q g) s1"
    using assms q by (auto simp add: enforce_guarded_def guard_enforce_def)
  then show ?thesis using run_depends q by blast
qed

lemma enforce_gates:
  fixes s :: "('c policy_metadata, 'v, 'w) engine_state"
  shows "closed_call (\<lambda>h. enforce K r h options) s \<or>
    (\<exists>s0 constraint s1 resolution s2 facts s3 attached.
       clocked K (kn_governedAuthority K \<noteq> None) (authority_passes K r) s s0 \<and>
       asked K (resolveGovernedConstraintContext (kn_constraints K) r) s0 (Inr constraint) s1 \<and>
       asked K (resolveKernelContext (kn_platform K) (kn_context K) r) s1 (Inr resolution) s2 \<and>
       context_admits K r resolution \<and> context_facts K resolution r = Inr facts \<and> admitted_open K r s2 s3 \<and>
       (\<forall>h. run_state (enforce K r h options) s = run_state (enforce_guarded K r options
          (toGuardActionRequestInput r options constraint resolution (map_option cz_admitted facts)) attached h) s3))"
proof -
  obtain authority sa where a: "run_state (authority_gate K r) s = (authority, sa)" by (rule prod.exhaust)
  show ?thesis
  proof (cases "validateKernelEvaluationRequest (kn_platform K) r")
    case (Inl e)
    then show ?thesis by (intro disjI1 closed_callI) (simp add: enforce_def run_then_do)
  next
    case (Inr u)
    show ?thesis
    proof (cases "case authority of None \<Rightarrow> False | Some facts \<Rightarrow> gf_reasonCodes facts \<noteq> []")
      case True
      then show ?thesis using Inr a by (intro disjI1 closed_callI) (simp add: enforce_def run_then_do)
    next
      case False
      have run: "run_state (enforce K r h options) s = run_state (enforce_authorized K r h options authority) sa" for h
        using False Inr a by (simp add: enforce_def run_then_do)
      show ?thesis
        using enforce_authorized_gates [of K r options authority sa] authority_gate_run [OF a False]
        unfolding closed_call_def run by blast
    qed
  qed
qed

lemma enforce_rests_on:
  fixes s :: "('c policy_metadata, 'v, 'w) engine_state"
  assumes "run_state (enforce K r f options) s \<noteq> run_state (enforce K r g options) s"
  shows "enforcement_rests K r options s"
proof -
  from enforce_gates [of K r options s] assms
  obtain s0 constraint s1 resolution s2 facts s3 attached where
    gates: "clocked K (kn_governedAuthority K \<noteq> None) (authority_passes K r) s s0"
      "asked K (resolveGovernedConstraintContext (kn_constraints K) r) s0 (Inr constraint) s1"
      "asked K (resolveKernelContext (kn_platform K) (kn_context K) r) s1 (Inr resolution) s2"
      "context_admits K r resolution" "context_facts K resolution r = Inr facts" "admitted_open K r s2 s3"
    and run: "\<And>h. run_state (enforce K r h options) s = run_state (enforce_guarded K r options
         (toGuardActionRequestInput r options constraint resolution (map_option cz_admitted facts)) attached h) s3"
    unfolding closed_call_def by metis
  let ?i = "toGuardActionRequestInput r options constraint resolution (map_option cz_admitted facts)"
  obtain q s4 d s5 where q: "run_state (createEnforcementRequest (kn_env K) (request_input ?i (given (gi_mode ?i) ExecuteMode) None)) s3 = (q, s4)"
    "run_state (preflight (kn_env K) q) s4 = (Inr d, s5)" "nd_allowedToExecute d"
    using guarded_depends [OF assms [unfolded run]] by blast
  have "speaks_for r q" using created_speaks_for [OF created_request [OF q(1)]] .
  then show ?thesis
    using gates(1-5) gates(6) [unfolded admitted_open_def] q unfolding enforcement_rests_def by blast
qed

section \<open>A provider that fails closes its gate\<close>

text \<open>
  The questions of one call.  A provider is asked at an instant, in a world: both follow from the
  state the call begins in, from the answers of the providers asked before, and, in an evaluation,
  from the decision of the engine, whose instant the last two are asked at.
\<close>

datatype kernel_provider = AuthorityProviders | ConstraintProvider | ContextProvider | DischargeProvider | ExternalPort

abbreviation reads :: "('c, 'w) kernel \<Rightarrow> ('m, 'v, 'w) engine_state \<Rightarrow> string \<Rightarrow> 'w \<Rightarrow> bool" where
  "reads K s now w \<equiv> ev_now (kn_env K) (ng_world s) = (now, w)"

inductive enforce_asks ::
  "('c, 'w) kernel \<Rightarrow> kernel_request \<Rightarrow> ('c policy_metadata, 'v, 'w) engine_state \<Rightarrow> kernel_provider \<Rightarrow> string \<Rightarrow> 'w \<Rightarrow> bool"
  for K r s where
  asks_authority: "reads K s now w \<Longrightarrow> enforce_asks K r s AuthorityProviders now w"
| asks_constraint: "clocked K (kn_governedAuthority K \<noteq> None) (authority_passes K r) s s1 \<Longrightarrow> reads K s1 now w \<Longrightarrow>
    enforce_asks K r s ConstraintProvider now w"
| asks_context: "clocked K (kn_governedAuthority K \<noteq> None) (authority_passes K r) s s1 \<Longrightarrow>
    asked K (resolveGovernedConstraintContext (kn_constraints K) r) s1 (Inr constraint) s2 \<Longrightarrow> reads K s2 now w \<Longrightarrow>
    enforce_asks K r s ContextProvider now w"
| asks_discharge: "clocked K (kn_governedAuthority K \<noteq> None) (authority_passes K r) s s1 \<Longrightarrow>
    asked K (resolveGovernedConstraintContext (kn_constraints K) r) s1 (Inr constraint) s2 \<Longrightarrow>
    asked K (resolveKernelContext (kn_platform K) (kn_context K) r) s2 (Inr resolution) s3 \<Longrightarrow>
    context_admits K r resolution \<Longrightarrow> reads K s3 now w \<Longrightarrow>
    enforce_asks K r s DischargeProvider now w"
| asks_port: "clocked K (kn_governedAuthority K \<noteq> None) (authority_passes K r) s s1 \<Longrightarrow>
    asked K (resolveGovernedConstraintContext (kn_constraints K) r) s1 (Inr constraint) s2 \<Longrightarrow>
    asked K (resolveKernelContext (kn_platform K) (kn_context K) r) s2 (Inr resolution) s3 \<Longrightarrow>
    context_admits K r resolution \<Longrightarrow>
    asked K (resolveKernelObligations (kn_platform K) (kn_obligations K) r) s3 (Inr obligations) s4 \<Longrightarrow> reads K s4 now w \<Longrightarrow>
    enforce_asks K r s ExternalPort now w"

inductive evaluate_asks ::
  "('c, 'w) kernel \<Rightarrow> kernel_request \<Rightarrow> kernel_options option \<Rightarrow> ('c policy_metadata, 'v, 'w) engine_state \<Rightarrow>
     kernel_provider \<Rightarrow> string \<Rightarrow> 'w \<Rightarrow> bool"
  for K r options s where
  evaluates_constraint: "reads K s now w \<Longrightarrow> evaluate_asks K r options s ConstraintProvider now w"
| evaluates_context: "asked K (resolveGovernedConstraintContext (kn_constraints K) r) s (Inr constraint) s1 \<Longrightarrow> reads K s1 now w \<Longrightarrow>
    evaluate_asks K r options s ContextProvider now w"
| evaluates_authority: "decided_at K r options s resolution obligations d s1 \<Longrightarrow>
    evaluate_asks K r options s AuthorityProviders (nd_decidedAt d) (ng_world s1)"
| evaluates_port: "decided_at K r options s resolution obligations d s1 \<Longrightarrow> authority_passes K r (nd_decidedAt d) (ng_world s1) w \<Longrightarrow>
    evaluate_asks K r options s ExternalPort (nd_decidedAt d) w"

text \<open>
  A failure, by what the provider itself answers to the question put to it then: an authority or a
  representation provider throws on one of the engaged rights, the constraint provider throws, the
  context provider of a request with a required or a restrictive fact or the discharge provider of
  one with a blocking obligation throws or answers something malformed, and the port throws, lets
  the time-out pass, or answers anything but the two objects that say allow and deny.
\<close>

definition authority_fails :: "('c, 'w) kernel \<Rightarrow> kernel_request \<Rightarrow> string \<Rightarrow> 'w \<Rightarrow> bool" where
  "authority_fails K r now w \<longleftrightarrow>
     (\<exists>port tenant resource answers w1.
        kn_governedAuthority K = Some port \<and>
        organization_id r = Some tenant \<and> tenant \<noteq> [] \<and> target_member tf_id r = Some resource \<and> resource \<noteq> [] \<and>
        authority_answers port r tenant resource now w = (answers, w1) \<and>
        (None \<in> set answers \<or>
         (\<exists>reps. kn_representation K = Some reps \<and> ar_id (kq_actor r) \<noteq> holder_of r \<and>
            set answers \<noteq> {Some ResourceNotEnrolled} \<and>
            None \<in> set (fst (representation_answers reps r tenant resource now w1)))))"

definition constraint_fails :: "('c, 'w) kernel \<Rightarrow> kernel_request \<Rightarrow> string \<Rightarrow> 'w \<Rightarrow> bool" where
  "constraint_fails K r now w \<longleftrightarrow>
     (\<exists>port tenant resource e w'.
        kn_constraints K = Some port \<and> engaged_rights r \<noteq> [] \<and>
        organization_id r = Some tenant \<and> tenant \<noteq> [] \<and> target_member tf_id r = Some resource \<and> resource \<noteq> [] \<and>
        port \<lparr>nq_tenantId = tenant, nq_holderRef = holder_of r, nq_resourceKind = resource_kind r,
              nq_resourceId = resource, nq_governedRights = engaged_rights r, nq_action = governed_action r,
              nq_at = now\<rparr> w = (Inl e, w'))"

definition context_fails :: "('c, 'w) kernel \<Rightarrow> kernel_request \<Rightarrow> string \<Rightarrow> 'w \<Rightarrow> bool" where
  "context_fails K r now w \<longleftrightarrow>
     (\<exists>cap. kn_context K = Some cap \<and>
        (let selection = select_context (kn_platform K) cap r; svc = cs_service selection
         in sv_declared svc \<noteq> [] \<and> sv_requested svc \<noteq> [] \<and>
            list_ex (\<lambda>q. cr_required q \<or> cr_restrictive q = Some True) (cs_requirements selection) \<and>
            fst (ca_provider cap (context_query_for svc r now) w) \<in> {ContextRejected, ContextMalformed}))"

definition discharge_fails :: "('c, 'w) kernel \<Rightarrow> kernel_request \<Rightarrow> string \<Rightarrow> 'w \<Rightarrow> bool" where
  "discharge_fails K r now w \<longleftrightarrow>
     (\<exists>cap. kn_obligations K = Some cap \<and>
        (let svc = os_service (select_obligations (kn_platform K) cap r)
         in list_ex (\<lambda>t. \<exists>q. map_of (ls_requirementsByType svc) t = Some q \<and> or_blocking q) (ls_declared svc) \<and>
            fst (oa_provider cap (discharge_query_for svc r now) w) \<in> {DischargesRejected, DischargesMalformed}))"

definition port_fails :: "('c, 'w) kernel \<Rightarrow> kernel_request \<Rightarrow> string \<Rightarrow> 'w \<Rightarrow> bool" where
  "port_fails K r now w \<longleftrightarrow>
     (\<exists>cap reply elapsed w'. kn_external K = Some cap \<and> xa_provider cap (toInput r now) w = ((reply, elapsed), w') \<and>
        (reply = PortFailed \<or> reply = TimerFired \<or> of_int (xa_timeoutMs cap) \<le> elapsed \<or>
         (\<exists>v. reply = PortAnswered v \<and> v \<noteq> allow_response \<and> v \<noteq> deny_response)))"

fun provider_fails :: "('c, 'w) kernel \<Rightarrow> kernel_request \<Rightarrow> kernel_provider \<Rightarrow> string \<Rightarrow> 'w \<Rightarrow> bool" where
  "provider_fails K r AuthorityProviders = authority_fails K r"
| "provider_fails K r ConstraintProvider = constraint_fails K r"
| "provider_fails K r ContextProvider = context_fails K r"
| "provider_fails K r DischargeProvider = discharge_fails K r"
| "provider_fails K r ExternalPort = port_fails K r"

lemma authority_closed:
  assumes "authority_fails K r now w" shows "\<not> authority_passes K r now w w'"
proof
  assume "authority_passes K r now w w'"
  obtain port tenant resource answers w1 where port: "kn_governedAuthority K = Some port"
      "organization_id r = Some tenant" "target_member tf_id r = Some resource"
      "authority_answers port r tenant resource now w = (answers, w1)"
    and failed: "None \<in> set answers \<or> (\<exists>reps. kn_representation K = Some reps \<and> ar_id (kq_actor r) \<noteq> holder_of r \<and>
      set answers \<noteq> {Some ResourceNotEnrolled} \<and> None \<in> set (fst (representation_answers reps r tenant resource now w1)))"
    using assms unfolding authority_fails_def by blast
  have granted: "authority_granted port (kn_representation K) r now w"
    using \<open>authority_passes K r now w w'\<close> port(1) by (simp add: authority_passes_def)
  have "engaged_rights r \<noteq> []"
    using failed port(4) by (auto simp add: authority_answers_def representation_answers_def)
  then have known: "set answers \<subseteq> {Some AuthorityCovered, Some ResourceNotEnrolled}"
      "Some AuthorityCovered \<in> set answers \<longrightarrow> represented (kn_representation K) r tenant resource now w1"
    using granted port(2-4) by (auto simp add: authority_granted_def)
  have "answers \<noteq> []" using \<open>engaged_rights r \<noteq> []\<close> port(4) each_answer_length [of port _ "engaged_rights r" w]
    by (metis authority_answers_def fst_conv length_0_conv)
  then have "set answers \<noteq> {Some ResourceNotEnrolled} \<Longrightarrow> Some AuthorityCovered \<in> set answers" 
    using known(1) by (metis insert_commute subset_insert subset_singletonD set_empty)
  then show False using failed known unfolding represented_def by blast
qed

lemma port_closed: "port_fails K r now w \<Longrightarrow> \<not> port_passes K r now w w'"
  by (auto simp add: port_fails_def port_passes_def port_allowed_def)

lemma constraint_closed:
  assumes "constraint_fails K r now w" "reads K s now w"
  shows "\<not> asked K (resolveGovernedConstraintContext (kn_constraints K) r) s (Inr constraint) s'"
  using assms
  by (auto simp add: constraint_fails_def asked_def resolveGovernedConstraintContext_def engaged_rights_def stated_member_def
      neq_Nil_conv Let_def)

lemma context_closed:
  assumes "context_fails K r now w" "reads K s now w"
    and "asked K (resolveKernelContext (kn_platform K) (kn_context K) r) s (Inr resolution) s'"
  shows "\<not> context_admits K r resolution"
proof -
  from assms(1) obtain cap where cap: "kn_context K = Some cap"
      "sv_declared (cs_service (select_context (kn_platform K) cap r)) \<noteq> []"
      "sv_requested (cs_service (select_context (kn_platform K) cap r)) \<noteq> []"
      "list_ex (\<lambda>q. cr_required q \<or> cr_restrictive q = Some True) (cs_requirements (select_context (kn_platform K) cap r))"
      "fst (ca_provider cap (context_query_for (cs_service (select_context (kn_platform K) cap r)) r now) w) \<in> {ContextRejected, ContextMalformed}"
    unfolding context_fails_def Let_def by blast
  then obtain resolved where resolved: "resolution = Some resolved" "\<not> cx_resolved resolved"
    using assms(2,3)
    by (auto simp add: asked_def resolveKernelContext_def classify_answer_def unresolvedContextResolution_def Let_def
        split: if_splits prod.splits)
  then show ?thesis using cap(1,4)
    by (auto simp add: context_admits_def context_clear_def list_all_iff list_ex_iff readContextFact_def bare_read_def Let_def)
qed

lemma discharge_closed:
  assumes "discharge_fails K r now w" "reads K s now w"
    and "asked K (resolveKernelObligations (kn_platform K) (kn_obligations K) r) s (Inr obligations) s'"
  shows "\<exists>resolved. obligations = Some resolved \<and>
    (\<exists>i \<in> set (res_obligations resolved). oi_blocking i \<and> oi_state i \<noteq> Verified \<and> oi_state i \<noteq> Waived)"
proof -
  from assms(1) obtain cap t q where cap: "kn_obligations K = Some cap"
    and t: "t \<in> set (ls_declared (os_service (select_obligations (kn_platform K) cap r)))"
      "map_of (ls_requirementsByType (os_service (select_obligations (kn_platform K) cap r))) t = Some q" "or_blocking q"
    and failed: "fst (oa_provider cap (discharge_query_for (os_service (select_obligations (kn_platform K) cap r)) r now) w)
      \<in> {DischargesRejected, DischargesMalformed}"
    unfolding discharge_fails_def Let_def list_ex_iff by blast
  let ?svc = "os_service (select_obligations (kn_platform K) cap r)"
  have "obligations = Some (undischarged ?svc r now)"
    using assms(2,3) cap t(1) failed
    by (auto simp add: asked_def resolveKernelObligations_def resolve_answer_def Let_def split: if_splits prod.splits)
  moreover have "declareObligation t True (obligationCorrelationFor r) now (or_expiresAt q) \<in>
      set (declare_obligations ?svc (obligationCorrelationFor r) now)"
    using t by (force simp add: declare_obligations_def Let_def)
  then have "\<exists>i \<in> set (res_obligations (undischarged ?svc r now)). oi_blocking i \<and> oi_state i \<noteq> Verified \<and> oi_state i \<noteq> Waived"
    by (intro bexI [where x = "declareObligation t True (obligationCorrelationFor r) now (or_expiresAt q)"])
      (simp_all add: undischarged_def unresolvedObligationResolution_def declareObligation_def)
  ultimately show ?thesis by blast
qed

lemma clocked_passes:
  assumes "clocked K True lets s s'" "reads K s now w" shows "lets now w (ng_world s')"
  using assms by (simp add: clocked_def)

lemma clocked_unique:
  assumes "clocked K composed (authority_passes K r) s s1" "clocked K composed (authority_passes K r) s s2"
  shows "s1 = s2"
proof (cases composed)
  case True
  obtain now w where "ev_now (kn_env K) (ng_world s) = (now, w)" by (rule prod.exhaust)
  then have "ng_world s1 = ng_world s2" "s1 = s\<lparr>ng_world := ng_world s1\<rparr>" "s2 = s\<lparr>ng_world := ng_world s2\<rparr>"
    using assms True by (auto simp add: clocked_def authority_passes_def split: option.splits)
  then show ?thesis by simp
next
  case False
  then show ?thesis using assms by (simp add: clocked_def)
qed

lemma decided_unique:
  assumes "decided_at K r options s resolution obligations d s1" "decided_at K r options s resolution' obligations' d' s1'"
  shows "resolution = resolution'" "d = d'" "s1 = s1'"
proof -
  obtain constraint t1 t2 t3 facts q t4 where a:
      "asked K (resolveGovernedConstraintContext (kn_constraints K) r) s (Inr constraint) t1"
      "asked K (resolveKernelContext (kn_platform K) (kn_context K) r) t1 (Inr resolution) t2"
      "asked K (resolveKernelObligations (kn_platform K) (kn_obligations K) r) t2 (Inr obligations) t3"
      "context_facts K resolution r = Inr facts"
      "run_state (createEnforcementRequest (kn_env K) (request_input (toGuardActionRequestInput r options constraint resolution (map_option cz_admitted facts))
         (given (gi_mode (toGuardActionRequestInput r options constraint resolution (map_option cz_admitted facts))) PreflightMode) None)) t3 = (q, t4)"
      "run_state (preflight (kn_env K) q) t4 = (Inr d, s1)"
    using assms(1) unfolding decided_at_def by blast
  obtain constraint' u1 u2 u3 facts' q' u4 where b:
      "asked K (resolveGovernedConstraintContext (kn_constraints K) r) s (Inr constraint') u1"
      "asked K (resolveKernelContext (kn_platform K) (kn_context K) r) u1 (Inr resolution') u2"
      "asked K (resolveKernelObligations (kn_platform K) (kn_obligations K) r) u2 (Inr obligations') u3"
      "context_facts K resolution' r = Inr facts'"
      "run_state (createEnforcementRequest (kn_env K) (request_input (toGuardActionRequestInput r options constraint' resolution' (map_option cz_admitted facts'))
         (given (gi_mode (toGuardActionRequestInput r options constraint' resolution' (map_option cz_admitted facts'))) PreflightMode) None)) u3 = (q', u4)"
      "run_state (preflight (kn_env K) q') u4 = (Inr d', s1')"
    using assms(2) unfolding decided_at_def by blast
  have "constraint = constraint'" and t1: "t1 = u1" using asked_unique [OF a(1) b(1)] by simp_all
  have "resolution = resolution'" and t2: "t2 = u2" using asked_unique [OF a(2) [unfolded t1] b(2)] by simp_all
  moreover have "t3 = u3" using asked_unique [OF a(3) [unfolded t2] b(3)] by simp
  moreover have "facts = facts'" using a(4) b(4) \<open>resolution = resolution'\<close> by simp
  ultimately have "q = q'" "t4 = u4" using a(5) b(5) \<open>constraint = constraint'\<close> by simp_all
  then show "resolution = resolution'" "d = d'" "s1 = s1'" using a(6) b(6) \<open>resolution = resolution'\<close> by simp_all
qed

lemma enforcement_not_failed:
  assumes "enforcement_rests K r options s" "enforce_asks K r s p now w" "provider_fails K r p now w"
  shows False
proof -
  from assms(1) obtain s1 constraint s2 resolution s3 obligations s4 s5 where gates:
      "clocked K (kn_governedAuthority K \<noteq> None) (authority_passes K r) s s1"
      "asked K (resolveGovernedConstraintContext (kn_constraints K) r) s1 (Inr constraint) s2"
      "asked K (resolveKernelContext (kn_platform K) (kn_context K) r) s2 (Inr resolution) s3"
      "context_admits K r resolution"
      "asked K (resolveKernelObligations (kn_platform K) (kn_obligations K) r) s3 (Inr obligations) s4"
      "\<forall>resolved. obligations = Some resolved \<longrightarrow>
         (\<forall>i \<in> set (res_obligations resolved). oi_blocking i \<longrightarrow> oi_state i = Verified \<or> oi_state i = Waived)"
      "clocked K (kn_external K \<noteq> None) (port_passes K r) s4 s5"
    unfolding enforcement_rests_def by blast
  note same1 = clocked_unique [OF gates(1)]
  note same2 = asked_unique [OF gates(2)] and same3 = asked_unique [OF gates(3)] and same4 = asked_unique [OF gates(5)]
  show False using assms(2)
  proof cases
    case asks_authority
    then show False using assms(3) gates(1) authority_closed [of K r now w]
      by (auto simp add: clocked_def authority_fails_def)
  next
    case (asks_constraint t1)
    then show False using assms(3) gates(2) constraint_closed same1 by fastforce
  next
    case (asks_context t1 c t2)
    then have "t2 = s2" using same1 same2 by blast
    then show False using assms(3) asks_context gates(3,4) context_closed by fastforce
  next
    case (asks_discharge t1 c t2 x t3)
    then have "t3 = s3" using same1 same2 same3 by blast
    then show False using assms(3) asks_discharge gates(5,6) discharge_closed by fastforce
  next
    case (asks_port t1 c t2 x t3 o' t4)
    then have "t4 = s4" using same1 same2 same3 same4 by blast
    then show False using assms(3) asks_port gates(7) port_closed [of K r now w]
      by (auto simp add: clocked_def port_fails_def)
  qed
qed

lemma evaluation_not_failed:
  assumes "evaluation_rests K r options s result s'" "evaluate_asks K r options s p now w" "provider_fails K r p now w"
  shows False
proof -
  from assms(1) obtain resolution obligations d s1 w1 where rests: "decided_at K r options s resolution obligations d s1" "context_admits K r resolution"
      "authority_passes K r (nd_decidedAt d) (ng_world s1) w1" "port_passes K r (nd_decidedAt d) w1 (ng_world s')"
    unfolding evaluation_rests_def by blast
  obtain constraint t1 t2 where a: "asked K (resolveGovernedConstraintContext (kn_constraints K) r) s (Inr constraint) t1"
      "asked K (resolveKernelContext (kn_platform K) (kn_context K) r) t1 (Inr resolution) t2"
    using rests(1) unfolding decided_at_def by blast
  show False using assms(2)
  proof cases
    case evaluates_constraint
    then show False using assms(3) a(1) constraint_closed by fastforce
  next
    case (evaluates_context c u1)
    then have "u1 = t1" using asked_unique [OF a(1)] by blast
    then show False using assms(3) evaluates_context a(2) rests(2) context_closed by fastforce
  next
    case (evaluates_authority resolution' obligations' d' s1')
    then have "d' = d" "s1' = s1" using decided_unique [OF rests(1)] by auto
    then show False using assms(3) evaluates_authority rests(3) authority_closed [of K r now w] by auto
  next
    case (evaluates_port resolution' obligations' d' s1')
    then have same: "d' = d" "s1' = s1" using decided_unique [OF rests(1)] by auto
    then have "w = w1" using evaluates_port rests(3) by (auto simp add: authority_passes_def split: option.splits)
    then show False using assms(3) evaluates_port same rests(4) port_closed [of K r now w] by auto
  qed
qed

section \<open>What the caller writes\<close>

text \<open>Nothing but the engine's metadata reads the request's context.\<close>

abbreviation with_context :: "kernel_request \<Rightarrow> (string \<times> js_value) list option \<Rightarrow> kernel_request" where
  "with_context r c \<equiv> r\<lparr>kq_context := c\<rparr>"

lemma context_unread [simp]:
  "governed_action (with_context r c) = governed_action r"
  "organization_id (with_context r c) = organization_id r"
  "target_member f (with_context r c) = target_member f r"
  "claimed_profile (with_context r c) = claimed_profile r"
  "holder_of (with_context r c) = holder_of r"
  "resource_kind (with_context r c) = resource_kind r"
  by (simp_all add: governed_action_def organization_id_def target_member_def claimed_profile_def holder_of_def resource_kind_def)

lemma context_unread_selection [simp]:
  "selectEffectiveProfile P resolver (with_context r c) = selectEffectiveProfile P resolver r"
  "select_context P cap (with_context r c) = select_context P cap r"
  "select_obligations P oc (with_context r c) = select_obligations P oc r"
  "obligationCorrelationFor (with_context r c) = obligationCorrelationFor r"
  "context_query_for svc (with_context r c) = context_query_for svc r"
  "discharge_query_for ls (with_context r c) = discharge_query_for ls r"
  "toInput (with_context r c) = toInput r"
  "undischarged ls (with_context r c) = undischarged ls r"
  by (simp_all add: fun_eq_iff selectEffectiveProfile_def effective_resolution_of_def select_context_def
      select_obligations_def obligationCorrelationFor_def context_query_for_def discharge_query_for_def toInput_def
      undischarged_def split: option.split effective_resolution.split)

lemma context_unread_facts [simp]:
  "classify_answer P svc (with_context r c) = classify_answer P svc r"
  "resolve_answer P ls (with_context r c) = resolve_answer P ls r"
  "resolveKernelContextFacts P cap res (with_context r c) = resolveKernelContextFacts P cap res r"
  "governed_query_for (with_context r c) = governed_query_for r"
  "representation_query_for (with_context r c) = representation_query_for r"
  "governed_facts (with_context r c) = governed_facts r"
  by (simp_all add: fun_eq_iff classify_answer_def resolve_answer_def resolveKernelContextFacts_def governed_query_for_def
      representation_query_for_def governed_facts_def Let_def
      split: context_answer.split discharge_answer.split option.split prod.split)

lemma context_unread_members:
  "kq_action (with_context r c) = kq_action r" "kq_actor (with_context r c) = kq_actor r"
  "kq_requestId (with_context r c) = kq_requestId r" "kq_correlationId (with_context r c) = kq_correlationId r"
  by simp_all

lemmas unread = context_unread_members context_unread context_unread_selection context_unread_facts

lemma context_unread_providers [simp]:
  "resolveKernelContext P capability (with_context r c) = resolveKernelContext P capability r"
  "resolveKernelObligations P oc (with_context r c) = resolveKernelObligations P oc r"
  "resolveExternalAuthorization xc (with_context r c) = resolveExternalAuthorization xc r"
  "resolveGovernedAuthorityFacts port reps (with_context r c) = resolveGovernedAuthorityFacts port reps r"
  "resolveGovernedConstraintContext cp (with_context r c) = resolveGovernedConstraintContext cp r"
  unfolding fun_eq_iff resolveKernelContext_def resolveKernelObligations_def resolveExternalAuthorization_def
    resolveGovernedAuthorityFacts_def resolveGovernedConstraintContext_def unread by simp_all

lemma context_unread_authority [simp]:
  "applyGovernedAuthorityStep port reps (with_context r c) = applyGovernedAuthorityStep port reps r"
  unfolding fun_eq_iff applyGovernedAuthorityStep_def unread context_unread_providers by simp

lemma context_unread_scope [simp]:
  "source_axis P (with_context r c) = source_axis P r"
  "sourceScopeFor P (with_context r c) = sourceScopeFor P r"
  "grantCorrelationFor (with_context r c) = grantCorrelationFor r"
proof -
  show axis: "source_axis P (with_context r c) = source_axis P r"
  proof
    fix key show "source_axis P (with_context r c) key = source_axis P r key" by (cases key) simp_all
  qed
  show "sourceScopeFor P (with_context r c) = sourceScopeFor P r"
    and "grantCorrelationFor (with_context r c) = grantCorrelationFor r"
    by (simp_all add: fun_eq_iff grantCorrelationFor_def sourceScopeFor_def axis)
qed

lemma context_unread_source [simp]:
  "deriveGrantSourceAuthorization P decl (with_context r c) a = deriveGrantSourceAuthorization P decl r a"
  by (simp add: deriveGrantSourceAuthorization_def split: sum.split)

lemma context_unread_grants [simp]:
  "resolveKernelGrantFacts P decl (with_context r c) a = resolveKernelGrantFacts P decl r a"
  by (simp only: resolveKernelGrantFacts_def context_unread_source)

lemma context_unread_grant_step [simp]:
  "applyGrantStep P gc (with_context r c) a = applyGrantStep P gc r a"
  by (simp only: applyGrantStep_def context_unread_grants)

lemma context_unread_steps [simp]:
  "validateKernelEvaluationRequest P (with_context r c) = validateKernelEvaluationRequest P r"
  "context_facts K res (with_context r c) = context_facts K res r"
  "applyContextStep P capability res a (with_context r c) = applyContextStep P capability res a r"
  "buildPolicyEvaluationInput (with_context r c) = buildPolicyEvaluationInput r"
  "bare_result (with_context r c) = bare_result r"
  "authority_step K (with_context r c) = authority_step K r"
  "external_step K (with_context r c) = external_step K r"
  "authority_gate K (with_context r c) = authority_gate K r"
  "external_gate K (with_context r c) = external_gate K r"
  by (simp_all add: fun_eq_iff validateKernelEvaluationRequest_def context_facts_def applyContextStep_def
      buildPolicyEvaluationInput_def bare_result_def authority_step_def external_step_def authority_gate_def external_gate_def
      cong: option.case_cong if_cong)

lemma context_unread_calls:
  fixes K :: "('c, 'w) kernel"
  assumes "guard_metadata (with_context r c) = guard_metadata (with_context r c')"
  shows "evaluate K (with_context r c) options = evaluate K (with_context r c') options"
    and "enforce K (with_context r c) f options = enforce K (with_context r c') f options"
proof -
  have input: "toGuardActionRequestInput (with_context r c) options constraint res adm =
      toGuardActionRequestInput (with_context r c') options constraint res adm" for constraint :: "'c option" and res adm
    using assms by (simp add: toGuardActionRequestInput_def)
  show "evaluate K (with_context r c) options = evaluate K (with_context r c') options"
    by (simp add: evaluate_def evaluate_steps_def buildIndeterminateResult_def input cong: sum.case_cong)
  show "enforce K (with_context r c) f options = enforce K (with_context r c') f options"
    by (simp add: enforce_def enforce_authorized_def enforce_admitted_def enforce_withheld_def enforce_guarded_def
        refuse_def buildIndeterminateResult_def input cong: sum.case_cong if_cong option.case_cong engine_failure.case_cong)
qed

text \<open>
  The names of the context the kernel keeps for itself, as the documentation lists them: the two of
  the organization, and the three namespaces of resolved facts, obligations and grants, each with
  everything below it.
\<close>

definition kept_name :: "string \<Rightarrow> bool" where
  "kept_name key \<longleftrightarrow>
     key \<in> {''organizationId'', ''organizationName'', ''aoc.context'', ''aoc.obligations'', ''aoc.grant''} \<or>
     (\<exists>rest. key \<in> {''aoc.context.'' @ rest, ''aoc.obligations.'' @ rest, ''aoc.grant.'' @ rest})"

lemma below_iff: "take (length p) key = p \<longleftrightarrow> (\<exists>rest. key = p @ rest)"
  by (metis append_eq_conv_conj append_take_drop_id)

lemma reserved_namespaces:
  "isReservedContextKey key \<longleftrightarrow> key = ''aoc.context'' \<or> (\<exists>rest. key = ''aoc.context.'' @ rest)"
  "isReservedObligationKey key \<longleftrightarrow> key = ''aoc.obligations'' \<or> (\<exists>rest. key = ''aoc.obligations.'' @ rest)"
  "isReservedGrantKey key \<longleftrightarrow> key = ''aoc.grant'' \<or> (\<exists>rest. key = ''aoc.grant.'' @ rest)"
  unfolding isReservedContextKey_def isReservedObligationKey_def isReservedGrantKey_def below_iff [symmetric]
    CONTEXT_RESERVED_REQUEST_KEY_PREFIX_def OBLIGATION_RESERVED_REQUEST_KEY_PREFIX_def GRANT_RESERVED_REQUEST_KEY_PREFIX_def
  by simp_all

lemma reserved_kept: "reserved_key key \<longleftrightarrow> kept_name key"
  by (simp only: reserved_key_def reserved_namespaces kept_name_def insert_iff empty_iff ex_disj_distrib simp_thms disj_ac)

lemma guard_metadata_cong:
  assumes "filter (\<lambda>(key, v). \<not> kept_name key) c = filter (\<lambda>(key, v). \<not> kept_name key) c'"
  shows "guard_metadata (with_context r (Some c)) = guard_metadata (with_context r (Some c'))"
  using assms by (simp add: guard_metadata_def option_list_def reserved_kept)

lemma map_of_assign: "map_of (assign k v members) key = (if key = k \<and> v \<noteq> None then v else map_of members key)"
  by (auto simp add: assign_def update_conv' split: option.split)

lemma reserved_members:
  assumes "reserved_key key"
  shows "map_of (guard_metadata r) key =
    (if key = ''organizationId'' then map_option JSString (organization_id r)
     else if key = ''organizationName'' then Option.bind (kq_organization r) (\<lambda>o'. map_option JSString (og_name o'))
     else None)"
proof -
  have free: "map_of (filter (\<lambda>(key, v). \<not> reserved_key key) members) key = None" for members :: "(string \<times> js_value) list"
    using assms by (induction members) auto
  have "key \<noteq> ''parameters''" "key \<noteq> ''correlationId''"
    using assms by (auto simp add: reserved_key_def isReservedContextKey_def isReservedObligationKey_def isReservedGrantKey_def
        CONTEXT_RESERVED_REQUEST_KEY_PREFIX_def OBLIGATION_RESERVED_REQUEST_KEY_PREFIX_def GRANT_RESERVED_REQUEST_KEY_PREFIX_def)
  then show ?thesis
    using free [of "option_list (kq_context r)"] by (auto simp add: guard_metadata_def map_of_assign)
qed

section \<open>The effective profile\<close>

lemma resolution_unclaimed:
  "effective_resolution_of P resolve (r\<lparr>kq_action := (kq_action r)\<lparr>at_semantics := a\<rparr>\<rparr>) = effective_resolution_of P resolve r"
  by (simp add: effective_resolution_of_def Let_def cong: option.case_cong if_cong)

lemma claim_cannot_select:
  "selectEffectiveProfile P resolver r = RefusedSelection \<or>
   selectEffectiveProfile P resolver r =
     selectEffectiveProfile P resolver (r\<lparr>kq_action := (kq_action r)\<lparr>at_semantics := None\<rparr>\<rparr>)"
  by (auto simp add: selectEffectiveProfile_def resolution_unclaimed claimed_profile_def
      split: option.split effective_resolution.split)

section \<open>Grants annotate\<close>

text \<open>The grant step comes last and nothing reads what it adds.\<close>

lemma kernel_fields [simp]:
  "kn_platform (K\<lparr>kn_grants := g\<rparr>) = kn_platform K"
  "context_facts (K\<lparr>kn_grants := g\<rparr>) = context_facts K"
  "authority_step (K\<lparr>kn_grants := g\<rparr>) = authority_step K"
  "external_step (K\<lparr>kn_grants := g\<rparr>) = external_step K"
  by (simp_all add: kn_platform_def context_facts_def authority_step_def external_step_def fun_eq_iff
      split: option.split)

lemma kernel_members:
  "kn_env (K\<lparr>kn_grants := g\<rparr>) = kn_env K" "kn_constraints (K\<lparr>kn_grants := g\<rparr>) = kn_constraints K"
  "kn_context (K\<lparr>kn_grants := g\<rparr>) = kn_context K" "kn_obligations (K\<lparr>kn_grants := g\<rparr>) = kn_obligations K"
  by simp_all

text \<open>
  The one way the step throws: the deployment's lifetime, counted from the instant of the decision,
  ends past the last date that can be written.
\<close>

definition unwritable_horizon :: "platform \<Rightarrow> grant_declaration \<Rightarrow> string \<Rightarrow> bool" where
  "unwritable_horizon P declaration evaluated \<longleftrightarrow>
     (\<exists>n anchor horizon. maximumGrantLifetimeSeconds declaration = Some n \<and> Date_parse P evaluated = Some anchor \<and>
        grant_horizon P anchor n = Some horizon \<and> \<bar>horizon\<bar> > MAX_DATE)"

abbreviation "invalid_time \<equiv> RangeError ''Invalid time value''"

lemma deployment_ceiling_threw:
  "deploymentGrantValidityCeiling P decl evaluated = Inl e \<longleftrightarrow> e = invalid_time \<and> unwritable_horizon P decl evaluated"
  by (auto simp add: deploymentGrantValidityCeiling_def unwritable_horizon_def toISOString_def Let_def
      split: option.splits sum.splits if_splits prod.splits)

lemma grant_facts_threw:
  "resolveKernelGrantFacts P decl r a = Inl e \<longleftrightarrow> e = invalid_time \<and> unwritable_horizon P decl (kr_evaluatedAt a)"
proof -
  have "resolveKernelGrantFacts P decl r a = Inl e \<longleftrightarrow> validityCeilingsFor P decl a = Inl e"
    by (auto simp add: resolveKernelGrantFacts_def deriveGrantSourceAuthorization_def Let_def split: sum.splits)
  also have "\<dots> \<longleftrightarrow> deploymentGrantValidityCeiling P decl (kr_evaluatedAt a) = Inl e"
    by (auto simp add: validityCeilingsFor_def Let_def split: sum.splits option.splits)
  finally show ?thesis by (simp add: deployment_ceiling_threw)
qed

lemma eligible_allowed:
  "resolveKernelGrantFacts P decl r a = Inr g \<Longrightarrow> ge_eligible g \<Longrightarrow> kr_status a = KernelAllowed"
  by (auto simp add: resolveKernelGrantFacts_def deriveGrantSourceAuthorization_def eligible_iff Let_def split: sum.splits)

text \<open>
  What composing grants makes of a call: nothing of an indeterminate one; of a decided one the same
  result with the grant evaluation, or the error of a date that cannot be written, which may also
  take the place of a violated invariant's; of any other failure the same failure.
\<close>

definition annotated ::
  "platform \<Rightarrow> grant_declaration \<Rightarrow> kernel_request \<Rightarrow> kernel_failure + kernel_result \<Rightarrow> kernel_failure + kernel_result \<Rightarrow> bool" where
  "annotated P declaration r plain granted \<longleftrightarrow>
     (case plain of
        Inl e \<Rightarrow> granted = Inl e \<or> (\<exists>m. e = KernelInvariantError m) \<and> granted = Inl (KernelThrew invalid_time)
      | Inr p \<Rightarrow>
          if kr_status p = KernelIndeterminate then granted = Inr p
          else if unwritable_horizon P declaration (kr_evaluatedAt p) then granted = Inl (KernelThrew invalid_time)
          else \<exists>g. granted = Inr (p\<lparr>kr_grants := Some g\<rparr>) \<and> resolveKernelGrantFacts P declaration r p = Inr g \<and>
                 (ge_eligible g \<longrightarrow> kr_status p = KernelAllowed))"

definition annotated_run ::
  "platform \<Rightarrow> grant_declaration \<Rightarrow> kernel_request \<Rightarrow> (kernel_failure + kernel_result) \<times> 's \<Rightarrow> (kernel_failure + kernel_result) \<times> 's \<Rightarrow> bool" where
  "annotated_run P declaration r plain granted \<longleftrightarrow>
     snd granted = snd plain \<and> annotated P declaration r (fst plain) (fst granted)"

lemma annotated_failure: "annotated_run P decl r (Inl e, s) (Inl e, s)"
  by (simp add: annotated_run_def annotated_def)

lemma annotated_then:
  assumes "\<And>a s1. annotated_run P decl r (run_state (g a) s1) (run_state (f a) s1)"
  shows "annotated_run P decl r (run_state (then_do m g) s) (run_state (then_do m f) s)"
  using assms by (simp add: run_then_do annotated_failure split: prod.split sum.split)

lemma annotated_bind:
  assumes "\<And>a s1. annotated_run P decl r (run_state (g a) s1) (run_state (f a) s1)"
  shows "annotated_run P decl r (run_state (m \<bind> g) s) (run_state (m \<bind> f) s)"
  using assms by (simp split: prod.split)

lemma annotated_step:
  assumes "kr_status p \<noteq> KernelIndeterminate"
  shows "annotated_run P decl r
    (run_state (then_do (attempted (applyGrantStep P' None r p)) (\<lambda>result. checked result result)) s)
    (run_state (then_do (attempted (applyGrantStep P (Some decl) r p)) (\<lambda>result. checked result result)) s)"
proof (cases "resolveKernelGrantFacts P decl r p")
  case (Inl e)
  then show ?thesis
    using assms grant_facts_threw [of P decl r p e]
    by (cases "assertKernelInvariants p")
      (auto simp add: annotated_run_def annotated_def applyGrantStep_def run_then_do assertKernelInvariants_def
        assertReasonCodesPresent_def assertRecognitionPrecedesAllow_def split: if_splits)
next
  case (Inr g)
  then have "\<not> unwritable_horizon P decl (kr_evaluatedAt p)"
    using grant_facts_threw [of P decl r p invalid_time] by simp
  moreover have "assertKernelInvariants (p\<lparr>kr_grants := Some g\<rparr>) = assertKernelInvariants p"
    by (auto simp add: assertKernelInvariants_def assertReasonCodesPresent_def assertRecognitionPrecedesAllow_def)
  ultimately show ?thesis
    using Inr assms(1) eligible_allowed [OF Inr]
    by (cases "assertKernelInvariants p") (simp_all add: annotated_run_def annotated_def applyGrantStep_def run_then_do)
qed

lemma steps_determinate:
  assumes "kr_status er \<noteq> KernelIndeterminate" "run_state (authority_step K r er) s = (ar, s1)"
    "applyContextStep P capability resolution ar r' = Inr cr" "run_state (external_step K r cr) s1' = (xr, s2)"
  shows "kr_status (applyObligationStep obligations xr) \<noteq> KernelIndeterminate"
proof -
  have "kr_status ar \<noteq> KernelIndeterminate"
    using assms(1,2)
    by (auto simp add: authority_step_def applyGovernedAuthorityStep_def authority_fields.same_status denied_def
        split: option.splits prod.splits if_splits)
  then have "kr_status cr \<noteq> KernelIndeterminate"
    using assms(3) context_step.only_denies by (cases rule: context_step_returns [OF assms(3)]) (metis kernel_decision_status.distinct)+
  then have "kr_status xr \<noteq> KernelIndeterminate"
    using assms(4) external_step.only_denies external_skip.same_status
    by (auto simp add: external_step_def split: option.splits prod.splits if_splits) (metis kernel_decision_status.distinct)+
  then show ?thesis by (simp add: obligation_step.same_status)
qed

lemma annotated_steps:
  assumes "kn_grants K = Some decl" "kr_status er \<noteq> KernelIndeterminate"
  shows "annotated_run (kn_platform K) decl r
    (run_state (evaluate_steps (K\<lparr>kn_grants := None\<rparr>) r resolution obligations er) s)
    (run_state (evaluate_steps K r resolution obligations er) s)"
proof -
  obtain ar s1 where a: "run_state (authority_step K r er) s = (ar, s1)" by (rule prod.exhaust)
  show ?thesis
  proof (cases "applyContextStep (kn_platform K) (kn_context K) resolution ar r")
    case (Inl e)
    then show ?thesis using a by (simp add: evaluate_steps_def run_then_do annotated_run_def annotated_def)
  next
    case (Inr cr)
    obtain xr s2 where x: "run_state (external_step K r cr) s1 = (xr, s2)" by (rule prod.exhaust)
    have "kr_status (applyObligationStep obligations xr) \<noteq> KernelIndeterminate"
      using steps_determinate [OF assms(2) a Inr x] .
    from annotated_step [OF this, of "kn_platform K" decl r "kn_platform K" s2]
    show ?thesis using a Inr x assms(1) by (simp add: evaluate_steps_def run_then_do [of "attempted (applyContextStep _ _ _ _ _)"])
  qed
qed

lemma evaluate_annotated:
  assumes "kn_grants K = Some decl"
  shows "annotated_run (kn_platform K) decl r
    (run_state (evaluate (K\<lparr>kn_grants := None\<rparr>) r options) s) (run_state (evaluate K r options) s)"
proof -
  have decided: "annotated_run (kn_platform K) decl r
      (run_state (case answer of
         Inl e \<Rightarrow> do {
           result \<leftarrow> buildIndeterminateResult (K\<lparr>kn_grants := None\<rparr>) r m;
           State_Monad.return (Inr result) }
       | Inr d \<Rightarrow> evaluate_steps (K\<lparr>kn_grants := None\<rparr>) r resolution obligations (toKernelEvaluationResult i d options c)) s1)
      (run_state (case answer of
         Inl e \<Rightarrow> do {
           result \<leftarrow> buildIndeterminateResult K r m;
           State_Monad.return (Inr result) }
       | Inr d \<Rightarrow> evaluate_steps K r resolution obligations (toKernelEvaluationResult i d options c)) s1)"
    for answer m resolution obligations i c s1
  proof (cases answer)
    case (Inl e)
    obtain u s2 where u: "run_state (buildIndeterminateResult K r m) s1 = (u, s2)" by (rule prod.exhaust)
    moreover have "run_state (buildIndeterminateResult (K\<lparr>kn_grants := None\<rparr>) r m) s1 = (u, s2)"
      using u by (simp add: buildIndeterminateResult_def)
    ultimately show ?thesis using Inl indeterminate_status [OF u] by (simp add: annotated_run_def annotated_def)
  next
    case (Inr d)
    have "kr_status (toKernelEvaluationResult i d options c) \<noteq> KernelIndeterminate"
      by (cases "nd_type d") (simp_all add: toKernelEvaluationResult_def)
    then show ?thesis using annotated_steps [OF assms] Inr by simp
  qed
  show ?thesis unfolding evaluate_def kernel_fields kernel_members
    by (intro annotated_then annotated_bind) (rule decided)
qed

end
