(* ===== verification/Kernel_Properties.thy ===== *)
theory Kernel_Properties
  imports Kernel_Safety
begin

text \<open>
  The properties of the kernel, each with a deployment in which it applies: a recognition provider,
  an authority that covers the engaged right, a port that allows, and grants.
\<close>

section \<open>Examples\<close>

definition kernel_env :: "string \<Rightarrow> (unit policy_metadata, nat) engine_env" where
  "kernel_env type =
     \<lparr>ev_platform = example_platform, ev_now = (\<lambda>n. (''2026-01-01T00:00:00.000Z'', n)),
      ev_nextId = (\<lambda>prefix n. (prefix @ replicate n CHR ''i'', Suc n)),
      ev_verifyAction = (\<lambda>i n. (Inr (Some (example_recognition type)), n)), ev_policyPack = None,
      ev_policies = createDefaultEnforcementPolicyChain example_platform, ev_allowRetryAfterFailure = False\<rparr>"

definition example_kernel_request :: kernel_request where
  "example_kernel_request =
     \<lparr>kq_requestId = ''request-1'',
      kq_actor = \<lparr>ar_id = ''agent'', ar_principalId = None, ar_trustDomainId = ''domain'', ar_type = None\<rparr>,
      kq_action =
        \<lparr>at_type = ''pay'', at_domain = None, at_jurisdiction = None, at_country = None, at_industry = None,
         at_customerId = None, at_capability = None, at_resourceScope = ''account'', at_riskLevel = None,
         at_sideEffectType = None, at_amount = None, at_currency = None, at_counterpartyId = None,
         at_dataDomains = None, at_evidenceIds = None, at_parameters = None, at_semantics = None,
         at_governedParameters = None, at_governedRights = Some [''spend''], at_governedRightsScope = None,
         at_governedAuthorityHolderRef = None\<rparr>,
      kq_target = Some \<lparr>tf_id = Some ''vault'', tf_type = None, tf_name = None, tf_adapterId = None\<rparr>,
      kq_organization = Some \<lparr>og_id = ''org'', og_name = None\<rparr>,
      kq_context = Some [(''aoc.grant'', JSString ''forged''), (''note'', JSString ''hello'')],
      kq_requestedAt = ''2026-01-01T00:00:00.000Z'', kq_correlationId = None, kq_approvalProofId = None,
      kq_approvalRequestId = None, kq_approvalDecisionId = None, kq_visaId = None, kq_ingressGrantId = None,
      kq_handshakeProofId = None, kq_idempotencyKey = Some ''k'', kq_expiresAt = None\<rparr>"

definition example_kernel :: "string \<Rightarrow> (unit, nat) kernel" where
  "example_kernel type =
     \<lparr>kn_env = kernel_env type, kn_governedAuthority = Some (\<lambda>q n. (Some AuthorityCovered, n)),
      kn_representation = None, kn_constraints = None, kn_context = None, kn_obligations = None,
      kn_grants = Some \<lparr>maximumGrantLifetimeSeconds = None\<rparr>,
      kn_external = Some \<lparr>xa_provider = (\<lambda>q n. ((PortAnswered allow_response, 5), n)), xa_timeoutMs = 100\<rparr>\<rparr>"

abbreviation kernel_start :: "(unit policy_metadata, nat, nat) engine_state" where
  "kernel_start \<equiv> empty_engine False 0"

lemma kernel_env_fields [simp]:
  "ev_policies (kernel_env type) = createDefaultEnforcementPolicyChain example_platform"
  "ev_platform (kernel_env type) = example_platform" "ev_policyPack (kernel_env type) = None"
  "ev_allowRetryAfterFailure (kernel_env type) = False"
  "fst (ev_verifyAction (kernel_env type) i n) = Inr (Some (example_recognition type))"
  "run_state (clock_now (kernel_env type)) s = (''2026-01-01T00:00:00.000Z'', s)"
  by (simp_all add: kernel_env_def clock_now_def)

lemma example_engine_allows:
  assumes "created_from (request_input (toGuardActionRequestInput example_kernel_request None constraint resolution facts) mode None) q"
    and type: "map_of RECOGNITION_TYPE_MAP type \<in> {None, Some ExecuteAllowed}" "type \<noteq> []"
    and "mode \<noteq> DryRunMode" "\<not> ng_emergencyDeny s" "ng_keys s = []"
  shows "\<exists>d s'. run_state (preflight (kernel_env type) q) s = (Inr d, s') \<and> nd_allowedToExecute d \<and>
    nd_type d = ExecuteAllowed \<and> nd_recognitionDecisionType d = JSString type"
proof -
  have "unobstructed (kernel_env type) s q"
    using assms(1,4,5,6) example_mapped [OF type]
    by (auto simp add: created_from_def unobstructed_def registered_adapter_def pack_read_def NOT_CONFIGURED_RESULT_def
        bare_pack_result_def REQUIRES_APPROVAL_PROOF_def example_recognition_def request_input_def
        toGuardActionRequestInput_def example_kernel_request_def buildTarget_def buildIntent_def target_member_def
        given_def key_verdict_def Let_def)
  from unobstructed_allowed [OF kernel_env_fields(1) this]
  obtain d s' where d: "run_state (preflight (kernel_env type) q) s = (Inr d, s')" "nd_allowedToExecute d" by blast
  obtain c where "decided_on (kernel_env type) s q d c" using preflight_cases [OF d(1)] by blast
  then have "nd_recognitionDecisionType d = JSString type" "isExecutable (nd_type d)"
    using d(2) by (auto simp add: decided_on_def example_recognition_def)
  then show ?thesis using d by (auto simp add: isExecutable_def EXECUTABLE_DECISION_TYPES_def)
qed

lemma example_created:
  assumes "run_state (createEnforcementRequest (kernel_env type) i) s = (q, s')" "\<not> ng_emergencyDeny s" "ng_keys s = []"
  shows "created_from i q" "\<not> ng_emergencyDeny s'" "ng_keys s' = []"
  using created_request [OF assms(1)] state_io_relD [OF control.io_createEnforcementRequest assms(1)] assms(2,3)
  by (simp_all add: same_control_def)

lemma preflight_stamped:
  assumes "run_state (preflight E q) s = (Inr d, s')"
  shows "\<exists>w w'. nd_id d = fst (ev_nextId E ''enforcement-decision'' w) \<and> nd_decidedAt d = fst (ev_now E w')"
proof -
  have created: "\<exists>w w'. nd_id d = fst (ev_nextId E ''enforcement-decision'' w) \<and> nd_decidedAt d = fst (ev_now E w')"
    if "run_state (createDecision E q ev recognition pack) s1 = (d, s2)" for ev recognition pack s1 s2
    using that by (auto simp add: createDecision_def saveDecision_def next_id_def clock_now_def
        attachPolicyMetadataToDecision_def Let_def split: option.splits prod.splits)
  show ?thesis using assms
    by (auto simp add: preflight_def preflight_decide_def Let_def split: prod.splits sum.splits dest!: created)
qed

lemma example_authority:
  "resolveGovernedAuthorityFacts (\<lambda>q n. (Some AuthorityCovered, n)) None example_kernel_request now w =
     (governed_facts example_kernel_request ''vault'' [(''spend'', AuthorityCovered)] None, w)"
  by (simp add: resolveGovernedAuthorityFacts_def example_kernel_request_def organization_id_def target_member_def
      stated_member_def option_list_def given_def resolveRepresentation_def)

lemma example_valid: "validateKernelEvaluationRequest example_platform example_kernel_request = Inr ()"
  by code_simp

lemma example_kernel_fields [simp]:
  "kn_env (example_kernel type) = kernel_env type" "kn_platform (example_kernel type) = example_platform"
  "kn_governedAuthority (example_kernel type) = Some (\<lambda>q n. (Some AuthorityCovered, n))"
  "kn_representation (example_kernel type) = None" "kn_constraints (example_kernel type) = None"
  "kn_context (example_kernel type) = None" "kn_obligations (example_kernel type) = None"
  "kn_grants (example_kernel type) = Some \<lparr>maximumGrantLifetimeSeconds = None\<rparr>"
  by (simp_all add: example_kernel_def kn_platform_def)

lemma example_port:
  "resolveExternalAuthorization (the (kn_external (example_kernel type))) r now w = (ExternalAllowed, w)"
  "kn_external (example_kernel type) \<noteq> None"
  by (simp_all add: example_kernel_def resolveExternalAuthorization_def race_allowed [THEN iffD2])

lemma example_authority_clear:
  "gf_reasonCodes (governed_facts example_kernel_request ''vault'' [(''spend'', AuthorityCovered)] None) = []"
  by (simp add: governed_facts_def coverage_codes_def push_code_def Let_def)

lemma grant_step_total:
  "\<exists>g. applyGrantStep P (Some \<lparr>maximumGrantLifetimeSeconds = None\<rparr>) r result = Inr (result\<lparr>kr_grants := Some g\<rparr>)"
  by (auto simp add: applyGrantStep_def resolveKernelGrantFacts_def deriveGrantSourceAuthorization_def
      validityCeilingsFor_def deploymentGrantValidityCeiling_def Let_def)

lemma codes_present: "mapDecisionToReasonCodes d \<noteq> []"
  by (simp add: mapDecisionToReasonCodes_def Let_def)

lemma example_steps:
  assumes "nd_type d = ExecuteAllowed" "nd_recognitionDecisionType d = JSString ''allow''"
  shows "\<exists>result. run_state (evaluate_steps (example_kernel ''allow'') example_kernel_request None None
      (toKernelEvaluationResult rid d None c)) s = (Inr result, s) \<and> kr_status result = KernelAllowed \<and>
      kr_decisionId result = nd_id d \<and> kr_evaluatedAt result = nd_decidedAt d \<and> kr_context result = None \<and>
      kr_obligations result = None"
proof -
  let ?er = "toKernelEvaluationResult rid d None c"
  let ?facts = "governed_facts example_kernel_request ''vault'' [(''spend'', AuthorityCovered)] None"
  let ?ar = "with_authority_fields ?facts ?er"
  let ?xr = "applyExternalAuthorizationStep (Some ExternalAllowed) ?ar"
  have er: "kr_status ?er = KernelAllowed" "kr_reasonCodes ?er \<noteq> []" "re_performed (kr_recognition ?er)"
    "re_recognized (kr_recognition ?er) = Some True"
    using assms codes_present recognized_types [of d]
    by (auto simp add: toKernelEvaluationResult_def RECOGNIZED_RECOGNITION_TYPES_def)
      (simp add: buildRecognitionEvaluation_def Let_def)
  have a: "run_state (authority_step (example_kernel ''allow'') example_kernel_request ?er) s = (?ar, s)"
    using er(1) by (simp add: authority_step_def applyGovernedAuthorityStep_def example_authority example_authority_clear
        viable_def) (simp add: example_kernel_request_def option_list_def)
  have ar: "kr_status ?ar = KernelAllowed" "kr_reasonCodes ?ar \<noteq> []" "kr_recognition ?ar = kr_recognition ?er"
    using er by (simp_all add: authority_fields.same_status authority_fields.same_reasons authority_fields.same_recognition)
  have x: "run_state (external_step (example_kernel ''allow'') example_kernel_request ?ar) s = (?xr, s)"
    using ar(1) example_port [of "''allow''"] by (auto simp add: external_step_def)
  have xr: "kr_status ?xr = KernelAllowed" "kr_reasonCodes ?xr \<noteq> []" "kr_recognition ?xr = kr_recognition ?er"
    using ar external_step.reasons_kept [of ?ar] external_step.same_recognition [of _ ?ar]
    by (simp_all add: applyExternalAuthorizationStep_def withTraceStep_def Let_def)
  obtain g where g: "applyGrantStep example_platform (Some \<lparr>maximumGrantLifetimeSeconds = None\<rparr>) example_kernel_request ?xr =
      Inr (?xr\<lparr>kr_grants := Some g\<rparr>)" using grant_step_total by blast
  have "assertKernelInvariants (?xr\<lparr>kr_grants := Some g\<rparr>) = Inr ()" using xr er by (simp add: invariants_hold)
  moreover have "kr_decisionId ?xr = nd_id d" "kr_evaluatedAt ?xr = nd_decidedAt d" "kr_context ?xr = None"
      "kr_obligations ?xr = None"
    by (simp_all add: applyExternalAuthorizationStep_def withTraceStep_def with_authority_fields_def
        toKernelEvaluationResult_def Let_def)
  ultimately show ?thesis using a x g xr(1)
    by (auto simp add: evaluate_steps_def run_then_do applyContextStep_def applyObligationStep_def)
qed

lemma example_evaluates:
  "\<exists>result s'. run_state (evaluate (example_kernel ''allow'') example_kernel_request None) kernel_start = (Inr result, s') \<and>
     kr_status result = KernelAllowed \<and> kr_decisionId result \<noteq> [] \<and>
     kr_evaluatedAt result = ''2026-01-01T00:00:00.000Z'' \<and> kr_context result = None \<and> kr_obligations result = None"
proof -
  let ?K = "example_kernel ''allow''"
  let ?i = "toGuardActionRequestInput example_kernel_request None None None None :: unit policy_metadata guard_input"
  obtain q s1 where q: "run_state (createEnforcementRequest (kernel_env ''allow'')
      (request_input ?i (given (gi_mode ?i) PreflightMode) None)) kernel_start = (q, s1)" by (rule prod.exhaust)
  note made = example_created [OF q]
  obtain d s2 where d: "run_state (preflight (kernel_env ''allow'') q) s1 = (Inr d, s2)"
      "nd_type d = ExecuteAllowed" "nd_recognitionDecisionType d = JSString ''allow''"
    using example_engine_allows [OF made(1), of "''allow''" s1] made(2,3)
    by (auto simp add: RECOGNITION_TYPE_MAP_def empty_engine_def toGuardActionRequestInput_def given_def)
  have "run_state (guard_preflight (kernel_env ''allow'') ?i) kernel_start = (Inr d, s2)"
    using q d(1) by (simp add: guard_preflight_def)
  then have "run_state (evaluate ?K example_kernel_request None) kernel_start =
      run_state (evaluate_steps ?K example_kernel_request None None
        (toKernelEvaluationResult (kq_requestId example_kernel_request) d None (kq_correlationId example_kernel_request))) s2"
    by (simp add: evaluate_def run_then_do example_valid resolveGovernedConstraintContext_def resolveKernelContext_def
        resolveKernelObligations_def context_facts_def)
  moreover have "nd_id d \<noteq> []" "nd_decidedAt d = ''2026-01-01T00:00:00.000Z''"
    using preflight_stamped [OF d(1)] by (auto simp add: kernel_env_def)
  ultimately show ?thesis using example_steps [OF d(2,3)] by metis
qed

abbreviation returning :: "'v \<Rightarrow> ('v, 'w) executor" where
  "returning v \<equiv> \<lambda>w. (Inr (Some v), w)"

lemma run_allowed:
  assumes "run_state (preflight E q) s = (Inr d, s1)" "nd_allowedToExecute d"
  shows "\<exists>out s'. run_state (run E q (returning v)) s = (Inr out, s') \<and> recorded E d s' out \<and>
    nx_executed (eo_result out) \<and> nx_value (eo_result out) = Some v"
proof -
  obtain startedAt s2 where st: "run_state (run_start E q d) s1 = (startedAt, s2)" by (rule prod.exhaust)
  obtain x s' where x: "run_state (run_finish E q d startedAt (Inr (Some v))) s2 = (x, s')" by (rule prod.exhaust)
  have "run_state (run E q (returning v)) s = (x, s')" using assms st x by (simp add: run_def)
  then show ?thesis using run_finish_recorded [OF x] by auto
qed

lemma example_guarded:
  assumes type: "map_of RECOGNITION_TYPE_MAP type \<in> {None, Some ExecuteAllowed}" "type \<noteq> []"
  shows "\<exists>out s'. run_state (guard_enforce (kernel_env type)
      (toGuardActionRequestInput example_kernel_request None None None None) (returning v)) kernel_start = (Inr out, s') \<and>
    nd_type (eo_decision out) = ExecuteAllowed \<and> nd_recognitionDecisionType (eo_decision out) = JSString type \<and>
    map_of (ng_results s') (nx_id (eo_result out)) = Some (eo_result out) \<and>
    nx_executed (eo_result out) \<and> nx_value (eo_result out) = Some v"
proof -
  let ?i = "toGuardActionRequestInput example_kernel_request None None None None :: unit policy_metadata guard_input"
  obtain q s1 where q: "run_state (createEnforcementRequest (kernel_env type)
      (request_input ?i (given (gi_mode ?i) ExecuteMode) None)) kernel_start = (q, s1)" by (rule prod.exhaust)
  note made = example_created [OF q]
  obtain d s2 where d: "run_state (preflight (kernel_env type) q) s1 = (Inr d, s2)" "nd_allowedToExecute d"
      "nd_type d = ExecuteAllowed" "nd_recognitionDecisionType d = JSString type"
    using example_engine_allows [OF made(1) type, of s1] made(2,3)
    by (auto simp add: empty_engine_def toGuardActionRequestInput_def given_def)
  show ?thesis using run_allowed [OF d(1,2), of v] q d(3,4) by (auto simp add: guard_enforce_def recorded_def)
qed

lemma example_reaches_engine:
  "\<exists>attached. (\<forall>er. kr_status (attached er) = kr_status er \<and> kr_recognition (attached er) = kr_recognition er \<and>
      (kr_reasonCodes er \<noteq> [] \<longrightarrow> kr_reasonCodes (attached er) \<noteq> [])) \<and>
     (\<forall>f. run_state (enforce (example_kernel type) example_kernel_request f None) kernel_start =
        run_state (enforce_guarded (example_kernel type) example_kernel_request None
          (toGuardActionRequestInput example_kernel_request None None None None) attached f) kernel_start)"
proof -
  let ?facts = "governed_facts example_kernel_request ''vault'' [(''spend'', AuthorityCovered)] None"
  let ?attached = "attach (Some ?facts) None None (Some ExternalAllowed)"
  have gate: "run_state (authority_gate (example_kernel type) example_kernel_request) kernel_start = (Some ?facts, kernel_start)"
    by (simp add: authority_gate_def example_authority)
  have port: "run_state (external_gate (example_kernel type) example_kernel_request) kernel_start =
      (Some ExternalAllowed, kernel_start)"
    using example_port [of type] by (auto simp add: external_gate_def)
  have "run_state (enforce (example_kernel type) example_kernel_request f None) kernel_start =
      run_state (enforce_guarded (example_kernel type) example_kernel_request None
        (toGuardActionRequestInput example_kernel_request None None None None) ?attached f) kernel_start" for f
    by (simp add: enforce_def run_then_do example_valid gate example_authority_clear enforce_authorized_def
        resolveGovernedConstraintContext_def resolveKernelContext_def context_facts_def enforce_admitted_def
        resolveKernelObligations_def port withholds_def Let_def)
  moreover have "kr_status (?attached er) = kr_status er \<and> kr_recognition (?attached er) = kr_recognition er \<and>
      kr_reasonCodes (?attached er) = kr_reasonCodes er" for er
    by (simp add: attach_def applyExternalAuthorizationStep_def withTraceStep_def Let_def authority_fields.same_status
        authority_fields.same_reasons authority_fields.same_recognition)
  ultimately show ?thesis by metis
qed

lemma example_enforced:
  assumes type: "map_of RECOGNITION_TYPE_MAP type \<in> {None, Some ExecuteAllowed}" "type \<noteq> []"
  shows "\<exists>answer s'. run_state (enforce (example_kernel type) example_kernel_request (returning v) None) kernel_start = (answer, s') \<and>
    (\<exists>x \<in> set (ng_results s'). nx_executed (snd x) \<and> nx_value (snd x) = Some v) \<and>
    (if type \<in> set RECOGNIZED_RECOGNITION_TYPES
     then \<exists>enforced. answer = Inr enforced \<and> kr_status (ke_result enforced) = KernelAllowed \<and>
       kx_value (ke_execution enforced) = Some v
     else \<exists>message. answer = Inl (KernelInvariantError message))"
proof -
  let ?K = "example_kernel type" and ?q = "example_kernel_request"
  obtain attached where kept: "kr_status (attached er) = kr_status er" "kr_recognition (attached er) = kr_recognition er"
      "kr_reasonCodes er \<noteq> [] \<Longrightarrow> kr_reasonCodes (attached er) \<noteq> []"
    and run: "run_state (enforce ?K ?q f None) kernel_start = run_state (enforce_guarded ?K ?q None
        (toGuardActionRequestInput ?q None None None None) attached f) kernel_start" for f er
    using example_reaches_engine by blast
  obtain out s' where out: "run_state (guard_enforce (kernel_env type)
      (toGuardActionRequestInput ?q None None None None) (returning v)) kernel_start = (Inr out, s')"
    "nd_type (eo_decision out) = ExecuteAllowed" "nd_recognitionDecisionType (eo_decision out) = JSString type"
    "map_of (ng_results s') (nx_id (eo_result out)) = Some (eo_result out)"
    "nx_executed (eo_result out)" "nx_value (eo_result out) = Some v"
    using example_guarded [OF type] by blast
  define er where "er = toKernelEvaluationResult (kq_requestId ?q) (eo_decision out) None (kq_correlationId ?q)"
  have er: "kr_status er = KernelAllowed" "kr_reasonCodes er \<noteq> []" "re_performed (kr_recognition er)"
    "re_recognized (kr_recognition er) = Some True \<longleftrightarrow> type \<in> set RECOGNIZED_RECOGNITION_TYPES"
    using out(2,3) codes_present recognized_types [of "eo_decision out"]
    by (auto simp add: er_def toKernelEvaluationResult_def) (simp_all add: buildRecognitionEvaluation_def Let_def)
  obtain g where g: "applyGrantStep example_platform (Some \<lparr>maximumGrantLifetimeSeconds = None\<rparr>) ?q (attached er) =
      Inr ((attached er)\<lparr>kr_grants := Some g\<rparr>)" using grant_step_total by blast
  let ?r = "(attached er)\<lparr>kr_grants := Some g\<rparr>"
  have x: "(nx_id (eo_result out), eo_result out) \<in> set (ng_results s')" using map_of_SomeD [OF out(4)] .
  have answer: "run_state (enforce ?K ?q (returning v) None) kernel_start =
      (case assertKernelInvariants ?r of
         Inl e \<Rightarrow> Inl e
       | Inr u \<Rightarrow> Inr \<lparr>ke_result = ?r, ke_execution = toKernelExecutionOutcome (eo_result out)\<rparr>, s')"
    unfolding run enforce_guarded_def
    using out(1) g by (simp add: run_then_do toKernelEnforcementResult_def Let_def er_def [symmetric] checked_def split: sum.split)
  show ?thesis
  proof (cases "type \<in> set RECOGNIZED_RECOGNITION_TYPES")
    case True
    then have "assertKernelInvariants ?r = Inr ()" using er kept [of er] by (simp add: invariants_hold)
    then have "run_state (enforce ?K ?q (returning v) None) kernel_start =
        (Inr \<lparr>ke_result = ?r, ke_execution = toKernelExecutionOutcome (eo_result out)\<rparr>, s')" using answer by simp
    moreover have "\<exists>x \<in> set (ng_results s'). nx_executed (snd x) \<and> nx_value (snd x) = Some v"
      using x out(5,6) by (metis snd_conv)
    ultimately show ?thesis using True er(1) kept(1) [of er] out(6) by (simp add: toKernelExecutionOutcome_def)
  next
    case False
    then have "\<exists>m. assertKernelInvariants ?r = Inl (KernelInvariantError m)"
      using er kept [of er] by (simp add: assertKernelInvariants_def assertReasonCodesPresent_def assertRecognitionPrecedesAllow_def)
    then obtain m where "run_state (enforce ?K ?q (returning v) None) kernel_start = (Inl (KernelInvariantError m), s')"
      using answer by auto
    then have "\<exists>answer s'. run_state (enforce ?K ?q (returning v) None) kernel_start = (answer, s') \<and>
        (\<exists>x \<in> set (ng_results s'). nx_executed (snd x) \<and> nx_value (snd x) = Some v) \<and>
        (\<exists>message. answer = Inl (KernelInvariantError message))"
      using x out(5,6) by (metis snd_conv)
    then show ?thesis using False by simp
  qed
qed

text \<open>
  C4: An allowed evaluation rests on every layer of this call.  If \<open>evaluate\<close> returns an allowed
  result, then constraints, context and obligations were asked one after the other from the state
  the call began in, each at the clock's instant; the engine, of a request that speaks for the
  caller's (the same actor, trust domain, action, scope, idempotency key and approval proof) and in
  the state they left, decided to execute or to dry-run, under the decision and the instant the
  result names and on a recognition that recognized the actor; the context it was given
  establishes the profile, every required fact and no restrictive ambiguity; the result reports the
  blocking obligations as satisfied exactly if each was resolved as verified or waived; the governed
  authority, where composed, was asked in the state the engine left and answered every engaged
  right as covered or its resource as not enrolled, and a composed representation provider every
  one of them as represented unless the actor is the holder; and the external port, asked next,
  answered that it allows before its time-out, leaving the world the call ends in.  The result
  reports the authority so, right by right.
\<close>

theorem evaluate_allowed:
  fixes s :: "('c policy_metadata, 'v, 'w) engine_state"
  assumes "run_state (evaluate K r options) s = (Inr result, s')" and "kr_status result = KernelAllowed"
  shows "evaluation_rests K r options s result s' \<and>
    (kn_governedAuthority K \<noteq> None \<and> engaged_rights r \<noteq> [] \<longrightarrow>
       authority_clear r (kn_representation K \<noteq> None) (kr_authority result))"
  using evaluate_rests_on [OF assms] by blast

theorem evaluate_allowed_witness:
  "\<exists>result s'. run_state (evaluate (example_kernel ''allow'') example_kernel_request None) kernel_start = (Inr result, s') \<and>
     kr_status result = KernelAllowed \<and>
     evaluation_rests (example_kernel ''allow'') example_kernel_request None kernel_start result s' \<and>
     authority_clear example_kernel_request False (kr_authority result)"
proof -
  obtain result s' where run: "run_state (evaluate (example_kernel ''allow'') example_kernel_request None) kernel_start = (Inr result, s')"
    "kr_status result = KernelAllowed" using example_evaluates by blast
  have "engaged_rights example_kernel_request \<noteq> []"
    by (simp add: engaged_rights_def example_kernel_request_def option_list_def)
  then show ?thesis using run evaluate_allowed [OF run] by auto
qed

text \<open>
  C3: The executor runs behind every gate of this call.  If what a call of \<open>enforce\<close> does depends
  on its executor at all, then, from the state the call began in and each at the clock's instant in
  the state the one before left: the governed authority, where composed, granted every engaged
  right or did not enrol the resource; the constraint provider answered; the context was resolved
  and admits the request; every blocking obligation was resolved as verified or waived; the
  external port, where composed, allowed in time; and the engine's preflight of a request that
  speaks for the caller's, in the state that results, allowed the execution.  Put the other way:
  while any of them is closed the call is the same whatever the executor would do.
\<close>

theorem executor_behind_gates:
  fixes s :: "('c policy_metadata, 'v, 'w) engine_state"
  assumes "run_state (enforce K r f options) s \<noteq> run_state (enforce K r g options) s"
  shows "enforcement_rests K r options s"
  by (rule enforce_rests_on [OF assms])

lemma example_recognized: "map_of RECOGNITION_TYPE_MAP ''allow'' \<in> {None, Some ExecuteAllowed}"
  "''allow'' \<in> set RECOGNIZED_RECOGNITION_TYPES" "map_of RECOGNITION_TYPE_MAP ''review_later'' \<in> {None, Some ExecuteAllowed}"
  "''review_later'' \<notin> set RECOGNIZED_RECOGNITION_TYPES"
  by (simp_all add: RECOGNITION_TYPE_MAP_def RECOGNIZED_RECOGNITION_TYPES_def)

lemma example_returns:
  "\<exists>enforced s'. run_state (enforce (example_kernel ''allow'') example_kernel_request (returning v) None) kernel_start =
     (Inr enforced, s') \<and> kr_status (ke_result enforced) = KernelAllowed \<and> kx_value (ke_execution enforced) = Some v"
  using example_enforced [OF example_recognized(1), of v] example_recognized(2) by auto

lemma example_depends:
  "run_state (enforce (example_kernel ''allow'') example_kernel_request (returning 1) None) kernel_start \<noteq>
     run_state (enforce (example_kernel ''allow'') example_kernel_request (returning 2) None) kernel_start"
  using example_returns [of 1] example_returns [of 2] by auto

theorem executor_behind_gates_witness:
  "run_state (enforce (example_kernel ''allow'') example_kernel_request (returning 1) None) kernel_start \<noteq>
     run_state (enforce (example_kernel ''allow'') example_kernel_request (returning 2) None) kernel_start \<and>
   enforcement_rests (example_kernel ''allow'') example_kernel_request None kernel_start"
  using example_depends executor_behind_gates [OF example_depends] by blast


lemma port_unread_platform [simp]: "kn_platform (K\<lparr>kn_external := x\<rparr>) = kn_platform K"
  by (simp add: kn_platform_def)

lemma port_unread [simp]:
  "clocked (K\<lparr>kn_external := x\<rparr>) = clocked K"
  "asked (K\<lparr>kn_external := x\<rparr>) = asked K"
  "authority_passes (K\<lparr>kn_external := x\<rparr>) = authority_passes K"
  "context_admits (K\<lparr>kn_external := x\<rparr>) = context_admits K"
  "context_facts (K\<lparr>kn_external := x\<rparr>) = context_facts K"
  by (simp_all add: fun_eq_iff clocked_def asked_def authority_passes_def context_admits_def context_facts_def
      split: option.split)




text \<open>
  C13: What the caller writes under a reserved name is not read.  Two requests whose contexts differ
  only in members named \<open>organizationId\<close> or \<open>organizationName\<close>, or named \<open>aoc.context\<close>,
  \<open>aoc.obligations\<close> or \<open>aoc.grant\<close> or below one of these, are evaluated and enforced alike, whatever
  is composed.
\<close>

theorem forged_context_ignored:
  fixes K :: "('c, 'w) kernel" and f :: "('v, 'w) executor"
  assumes "filter (\<lambda>(key, v). \<not> kept_name key) c = filter (\<lambda>(key, v). \<not> kept_name key) c'"
  shows "(evaluate K (r\<lparr>kq_context := Some c\<rparr>) options :: ('c, 'v, 'w, kernel_result) kernel_run) =
      evaluate K (r\<lparr>kq_context := Some c'\<rparr>) options \<and>
    enforce K (r\<lparr>kq_context := Some c\<rparr>) f options = enforce K (r\<lparr>kq_context := Some c'\<rparr>) f options"
  using context_unread_calls [OF guard_metadata_cong [OF assms]] by blast

lemma forged_names:
  "kept_name ''organizationId''" "kept_name ''organizationName''" "kept_name ''aoc.context''" "kept_name ''aoc.context.risk''"
  "kept_name ''aoc.obligations.filed''" "kept_name ''aoc.grant''" "\<not> kept_name ''note''"
  by (simp_all add: kept_name_def)

theorem forged_context_ignored_witness:
  "(evaluate (example_kernel ''allow'') (example_kernel_request\<lparr>kq_context := Some (map (\<lambda>key. (key, JSString ''forged''))
       [''organizationId'', ''organizationName'', ''aoc.context'', ''aoc.context.risk'', ''aoc.obligations.filed'', ''aoc.grant'']
       @ [(''note'', JSString ''hello'')])\<rparr>) None :: (unit, nat, nat, kernel_result) kernel_run) =
     evaluate (example_kernel ''allow'') (example_kernel_request\<lparr>kq_context := Some [(''note'', JSString ''hello'')]\<rparr>) None"
proof -
  have same: "filter (\<lambda>(key, v). \<not> kept_name key) (map (\<lambda>key. (key, JSString ''forged''))
       [''organizationId'', ''organizationName'', ''aoc.context'', ''aoc.context.risk'', ''aoc.obligations.filed'', ''aoc.grant'']
       @ [(''note'', JSString ''hello'')]) = filter (\<lambda>(key, v). \<not> kept_name key) [(''note'', JSString ''hello'')]"
    by (simp add: forged_names)
  show ?thesis
    using forged_context_ignored [OF same, of "example_kernel ''allow''" example_kernel_request None] by blast
qed

text \<open>
  C23: Composing grants changes no decision.  The evaluation with grants ends in the state the
  evaluation without them ends in; it returns the same indeterminate result, the same decided
  result with the grant evaluation added, or fails with the same error.  The one exception is the
  error of a date that cannot be written: where the deployment's lifetime, counted from the instant
  of the decision, ends past the last date, the evaluation with grants throws although the one
  without them returns, so the step is not free of effect on the outcome there.  A grant evaluation
  says a grant may be derived only of an allowed result.
\<close>

theorem grants_only_annotate:
  assumes "kn_grants K = Some declaration"
  shows "snd (run_state (evaluate K r options) s) = snd (run_state (evaluate (K\<lparr>kn_grants := None\<rparr>) r options) s) \<and>
    (case fst (run_state (evaluate (K\<lparr>kn_grants := None\<rparr>) r options) s) of
       Inl e \<Rightarrow> fst (run_state (evaluate K r options) s) = Inl e \<or>
         (\<exists>m. e = KernelInvariantError m) \<and> fst (run_state (evaluate K r options) s) = Inl (KernelThrew (RangeError ''Invalid time value''))
     | Inr plain \<Rightarrow>
         if kr_status plain = KernelIndeterminate then fst (run_state (evaluate K r options) s) = Inr plain
         else if unwritable_horizon (kn_platform K) declaration (kr_evaluatedAt plain)
         then fst (run_state (evaluate K r options) s) = Inl (KernelThrew (RangeError ''Invalid time value''))
         else \<exists>g. fst (run_state (evaluate K r options) s) = Inr (plain\<lparr>kr_grants := Some g\<rparr>) \<and>
                resolveKernelGrantFacts (kn_platform K) declaration r plain = Inr g \<and>
                (ge_eligible g \<longrightarrow> kr_status plain = KernelAllowed))"
  using evaluate_annotated [OF assms, of r options s] unfolding annotated_run_def annotated_def by blast

theorem grants_only_annotate_witness:
  "kn_grants (example_kernel ''allow'') = Some \<lparr>maximumGrantLifetimeSeconds = None\<rparr> \<and>
   (\<exists>plain g s'. run_state (evaluate ((example_kernel ''allow'')\<lparr>kn_grants := None\<rparr>) example_kernel_request None) kernel_start =
       (Inr plain, s') \<and> kr_status plain = KernelAllowed \<and>
     run_state (evaluate (example_kernel ''allow'') example_kernel_request None) kernel_start = (Inr (plain\<lparr>kr_grants := Some g\<rparr>), s'))"
proof -
  let ?K = "example_kernel ''allow''" and ?q = example_kernel_request
  let ?with = "run_state (evaluate ?K ?q None) kernel_start" and ?without = "run_state (evaluate (?K\<lparr>kn_grants := None\<rparr>) ?q None) kernel_start"
  obtain result s' where run: "?with = (Inr result, s')" "kr_status result = KernelAllowed" using example_evaluates by blast
  note all = grants_only_annotate [of ?K, OF example_kernel_fields(8), of ?q None kernel_start]
  obtain plain where plain: "fst ?without = Inr plain" using all run(1) by (cases "fst ?without") auto
  have writable: "\<not> unwritable_horizon P \<lparr>maximumGrantLifetimeSeconds = None\<rparr> t" for P t by (simp add: unwritable_horizon_def)
  note all = all [unfolded plain run(1) fst_conv snd_conv sum.case]
  have "kr_status plain \<noteq> KernelIndeterminate" using all run(2) by (cases "kr_status plain = KernelIndeterminate") simp_all
  then obtain g where "result = plain\<lparr>kr_grants := Some g\<rparr>" using all writable by auto
  moreover have "?without = (Inr plain, s')" using all plain by (metis prod.collapse)
  ultimately show ?thesis using run by auto
qed

text \<open>
  A refusal can come after the effect.  Under a recognition provider that answers a type outside
  the two tables of types, as recognized, \<open>enforce\<close> invokes the executor, records its result as
  executed, and then throws the error of a violated invariant instead of returning.
\<close>

theorem executed_then_refused:
  "\<exists>message s'. run_state (enforce (example_kernel ''review_later'') example_kernel_request (returning v) None) kernel_start =
      (Inl (KernelInvariantError message), s') \<and>
     (\<exists>x \<in> set (ng_results s'). nx_executed (snd x) \<and> nx_value (snd x) = Some v)"
  using example_enforced [OF example_recognized(3), of v] example_recognized(4) by auto

end
