(* ===== verification/Spec2Isabelle.thy ===== *)
theory Spec2Isabelle
  imports Deployment Context_Resolution Kernel_Properties
begin

text \<open>
  The authority-controlled execution core of Frontera (\<open>src/src\<close>): what has to be true before an
  agent's action has an effect, and what the program records about it.

  \<^bold>\<open>The program.\<close>  A host composes one kernel (\<open>kernel/AocKernel.ts\<close>).  It evaluates a request of an
  actor in seven steps: constraints, trusted context and obligations are read from their providers,
  the enforcement engine (\<open>features/action-enforcement\<close>) asks the recognition provider and decides
  by a chain of policies, and then governed authority, context, an external port, obligations and
  grants are folded into the result.  \<open>enforce\<close> asks all of them first and hands the caller's
  executor to the engine only if none withholds it.  From an allowed decision a bounded grant may
  be issued (\<open>features/grant-runtime\<close>), and later be exercised by the execution service
  (\<open>features/execution-runtime\<close>): it assesses the attempt against the grant, reads the emergency
  interlock (\<open>emergency-control-runtime\<close>), reserves aggregate capacity
  (\<open>exercise-control-runtime\<close>), reads interlock and grant again, and only then crosses to a
  provider through an adapter.  Amounts are exact decimals as text (\<open>monetary-runtime\<close>), typed
  parameters have their own bound algebra (\<open>governed-parameter-runtime\<close>).

  \<^bold>\<open>The theories, in the order of their imports.\<close>

  \<^item> \<open>Prelude\<close>: JavaScript values, strings, numbers and dates as far as the sources use them, and the
    shared lemmas.  \<open>Canonical_JSON\<close>: the texts that are hashed; the locale \<open>self_delimiting\<close> is what
    makes such a text determine the data.
  \<^item> \<open>Canonical_Decimal\<close>, \<open>Monetary\<close>, \<open>Governed_Parameters\<close>: decimals refine rational arithmetic
    (locale \<open>exact_decimal\<close>), assets and dimensions are trusted registries (\<open>trusted_registry\<close>), and
    the comparison of bounds is containment of the values they admit (\<open>bound_algebra\<close>).
  \<^item> \<open>Grant_Bounds\<close>, \<open>Grants\<close>, \<open>Grant_Issuance\<close>: scopes, attenuation, the grant with its identity and
    digests, and the issuance service over the contract of a store (\<open>grant_store_contract\<close>), which
    the in-memory store satisfies.
  \<^item> \<open>Exercise_Limits\<close>, \<open>Exercise_Ledger\<close>, \<open>Exercise_Capacity\<close>, \<open>Exercise_Gate\<close>: limits, the ledger
    of reservations (\<open>reservation_ledger\<close>), the bound it keeps, and the gate that fails closed.
  \<^item> \<open>Emergency_Control\<close>: the interlock; its store refines the history of operator actions
    (\<open>emergency_interlock\<close>).
  \<^item> \<open>Exercise_Assessment\<close>, \<open>Execution_Adapters\<close>, \<open>Execution_Service\<close>, \<open>Deployment\<close>: the assessment of an
    attempt, the provider boundary, the service over ports that may do anything, and the service
    over the modelled stores while other parties act on them between its calls.
  \<^item> \<open>Obligations\<close>: declarations, discharges and the life cycle (\<open>descending_lifecycle\<close>).
    \<open>Context_Resolution\<close>: sources, facts, derivations and the boundary that admits a reading.
  \<^item> \<open>Enforcement\<close>, \<open>Enforcement_Safety\<close>, \<open>Enforcement_Guards\<close>: the engine as operations in
    \<open>State_Monad\<close> on a record of its stores, what they keep (\<open>engine_frame\<close> proves a relation of
    states once for every operation), and the guards of tool calls, API handlers, webhooks and
    workflow steps.
  \<^item> \<open>Kernel_Contracts\<close>, \<open>Kernel_Adapters\<close>, \<open>Kernel_Authority\<close>, \<open>Kernel\<close>: the kernel's data, its adapters
    and its two operations.  \<open>Kernel_Steps\<close>: every step narrows or annotates (\<open>narrowing_step\<close>,
    \<open>annotating_step\<close>), and what each gate asks and requires at the instant and in the world of its
    question.  \<open>Kernel_Safety\<close> and \<open>Kernel_Properties\<close>: what an allowed result (\<open>evaluation_rests\<close>) and
    an execution (\<open>enforcement_rests\<close>) rest on, as a chain of states from the one the call began in,
    and what a provider's failure in a call does (\<open>evaluate_asks\<close>, \<open>enforce_asks\<close>).
  \<^item> This theory: from the kernel's decision through a grant to an attempt.

  \<^bold>\<open>How the code is represented.\<close>  An interface or class is a record, a union a datatype, an optional
  member an \<open>option\<close>, a \<open>Map\<close> an association list in insertion order, and a thrown error the left of a
  sum.  Names are the sources' where HOL allows them; a group of fields has a common prefix, and a
  helper the sources write inline has a name of its own in lower case.  What the sources only call
  is a parameter: SHA-256, the dates that are not in ISO form, locale comparison and fractional
  arithmetic of doubles are members of \<open>platform\<close>; clocks, identifiers, recognition, policy packs,
  authority, context, discharges, the external port, bindings, policies and adapters are functions
  that take the world and return it, so that a later call may answer otherwise and may fail in
  every way the sources catch.  A property that needs more of one of them names it: a hash without
  a collision on the two texts at hand, an honest party that does not rewrite the ledger.

  An asynchronous call is a step on the world.  Where the order of interleaved calls matters it is
  explicit: \<open>Deployment\<close> lets other parties act at every call the service awaits, and
  \<open>engine_step\<close> of \<open>Enforcement_Safety\<close> lets runs of the engine overlap at \<open>await execute()\<close>.

  \<^bold>\<open>Termination.\<close>  No definition has fuel or is partial.  The loops of the sources run over lists
  and are structural; the matcher of provider references has a lexicographic measure.  So every
  operation returns or fails with one of its errors, and statements about results are about total
  functions.

  \<^bold>\<open>What the theorems say.\<close>  Effects: an effect crosses to a provider at most once per execution, under
  a grant that stands, within its scope and capacity, with the interlock open; the grant is no
  wider than the authorization it came from, and that authorization is a decision of the kernel in
  which every layer agreed.  Execution inside the engine: behind every gate, at most once per
  idempotency key, and recorded truthfully.  Failure: providers that fail, malform or are late in
  a call close their gate in it; a forged member of a request is not read.  Data: attenuation is containment,
  decimals are exact, canonical texts determine what they commit to.  Histories: revocations,
  reservations and ledger entries are permanent, and the event chain is intact.  The other lemmas
  carry these, or state what the findings of the modelling rest on: \<open>retry_race\<close>,
  \<open>unknown_recognition_executes\<close>, \<open>unexecuted_key_spent\<close>, \<open>failed_handler_blocked\<close>, \<open>executed_then_refused\<close>,
  \<open>discharge_record_order_dependent\<close>, \<open>expired_obligation_reopens\<close>, \<open>duplicate_order_decides\<close>,
  \<open>unknown_class_laundered\<close>, \<open>freshness_bound_throws\<close>, \<open>unstated_axis_issued\<close> and
  \<open>deployment_ceiling_throws\<close>.  Where a property holds of the code and a comment says otherwise (the
  deadline of obligations, unknown recognition types, axes a grant leaves open, the digest of the
  source, grants that cannot be dated), its own text says so.

  \<^bold>\<open>Not modelled.\<close>  The SQLite stores of \<open>src/enterprise\<close> implement the modelled ports in SQL, whose
  behaviour the sources only call; their contracts are the locales above.  The composition root,
  configuration, HTTP host and processes are wiring and I/O.  Authority graph, approval and
  recognition runtimes, policy packs and evidence reach the modelled core only through providers
  that are parameters here.  Payment and trade rails are adapters behind the modelled port.  Of the
  modelled parts: strings are restricted to the code units 0 to 255; own properties only, so a key
  that names a member of \<open>Object.prototype\<close> is outside the model; values are immutable, so the
  snapshots the sources take against later mutation are the values themselves, and the kernel's
  comparison of the request with its snapshot always holds; abort signals and the late answers
  nothing reads are left out; and an answer of the external port is an answer and the time it took.
  Some ports are typed where the sources read what they are given: a coverage of governed authority
  or of representation is one of the declared outcomes or a throw, so an outcome outside the
  vocabulary and an answer that is no object are outside the model; the external port has its
  operation, so the check for it at composition is left out; and the terminal answers of an
  exercise ledger are its declared outcomes or a throw.
\<close>

section \<open>From authorization to attempt\<close>

lemma issued_axes_stated:
  assumes "issuable P request sc"
  shows "axes (src_scope (req_source request)) key \<noteq> None \<Longrightarrow> axes sc key \<noteq> None"
proof -
  obtain narrowing bounds where "attenuateGrantScope P (src_scope (req_source request)) narrowing = Attenuated sc bounds"
    using assms unfolding issuable_def by blast
  then show "axes (src_scope (req_source request)) key \<noteq> None \<Longrightarrow> axes sc key \<noteq> None"
    using attenuate_outcome [of P "src_scope (req_source request)" narrowing]
      narrowed_axes_stated [of P "src_scope (req_source request)" narrowing key] by auto
qed


lemma attempt_traced:
  assumes "issueGrant P createInMemoryBoundedGrantStore revalidate st request = (GrantIssued grant bounds cap, st')"
    and "usable (assessBoundedGrantExercise P grant revocation r t)"
  shows "eligible (assessGrantEligibility P (req_source request))"
    and "scope_admits P (src_scope (req_source request)) (attempt_of r)"
    and "er_subject r = src_subject (req_source request)" "er_correlation r = req_correlation request"
    and "src_correlation (req_source request) = req_correlation request"
    and "\<exists>now e. Date_parse P t = Some now \<and> Date_parse P (req_expiresAt request) = Some e \<and> now < e \<and>
       list_all (within_ceiling P e) (validityCeilings (req_source request))"
proof -
  obtain sc where sc: "issuable P request sc" and g: "grant = issued_grant P request sc"
    using assms(1)
  proof (cases rule: issueGrant_cases)
    case (stored sc out)
    then have "out = Issued grant" by (auto split: issue_outcome.splits)
    then have "mem_issue st (issued_grant P request sc)
        (\<lambda>_. commit_guard P revalidate request (issued_grant P request sc)) = (Issued grant, st')"
      using stored(3) by (simp add: createInMemoryBoundedGrantStore_def)
    then show thesis using that mem.issue_issued stored(1) by blast
  qed simp
  note u = assms(2) [unfolded usable_iff g issued_grant_fields]
  have "grantScopeIsWithin P (src_scope (req_source request)) sc"
    using sc attenuated_within unfolding issuable_def by blast
  then show "scope_admits P (src_scope (req_source request)) (attempt_of r)"
    using within_admits issued_axes_stated [OF sc] covers_admits u by blast
  show "eligible (assessGrantEligibility P (req_source request))" "er_subject r = src_subject (req_source request)"
    "er_correlation r = req_correlation request" "src_correlation (req_source request) = req_correlation request"
    using u sc by (auto simp add: issuable_def grantSourceMatchesCorrelation_def grantCorrelationMatches_def)
  have "\<exists>now e. Date_parse P t = Some now \<and> Date_parse P (req_expiresAt request) = Some e \<and> now < e"
    using u by (auto simp add: grant_stands_def assessGrantExercise_def Let_def split: option.splits if_splits)
  moreover have "\<exists>i e. Date_parse P (req_issuedAt request) = Some i \<and> Date_parse P (req_expiresAt request) = Some e \<and> i < e \<and>
       list_all (within_ceiling P e) (validityCeilings (req_source request) @ option_list (additionalValidityCeilings request))"
    using sc validity_accepted_iff unfolding issuable_def by blast
  ultimately show "\<exists>now e. Date_parse P t = Some now \<and> Date_parse P (req_expiresAt request) = Some e \<and> now < e \<and>
       list_all (within_ceiling P e) (validityCeilings (req_source request))" by auto
qed

text \<open>
  C5: What can be exercised is what was authorized.  If a grant was issued from a source
  authorization and an attempt is usable under it, then the source itself permitted exercise, its
  scope admits the attempt on every axis and parameter, the attempt is made by the authorized
  subject under the authorized correlation, and its instant is before the expiry, which is within
  every ceiling of the source.
\<close>

theorem attempt_within_source:
  assumes "issueGrant P createInMemoryBoundedGrantStore revalidate st request = (GrantIssued grant bounds cap, st')"
    and "usable (assessBoundedGrantExercise P grant revocation r t)"
  shows "authorizationPermitsExercise (req_source request) \<and>
    scope_admits P (src_scope (req_source request)) (attempt_of r) \<and>
    er_subject r = src_subject (req_source request) \<and> er_correlation r = req_correlation request \<and>
    (\<exists>now e. Date_parse P t = Some now \<and> Date_parse P (req_expiresAt request) = Some e \<and> now < e \<and>
       list_all (within_ceiling P e) (validityCeilings (req_source request)))"
  using attempt_traced [OF assms] by (simp add: eligible_iff)

theorem attempt_within_source_witness:
  "scope_admits example_platform (src_scope example_source_authorization) (attempt_of example_exercise)"
proof -
  have run: "case issueGrant example_platform createInMemoryBoundedGrantStore None empty_grant_store example_issuance of
      (GrantIssued g bounds cap, st') \<Rightarrow>
        usable (assessBoundedGrantExercise example_platform g None example_exercise ''2024-01-01T00:05:00Z'')
    | _ \<Rightarrow> False" by code_simp
  then obtain g bounds cap st' where g:
    "issueGrant example_platform createInMemoryBoundedGrantStore None empty_grant_store example_issuance =
       (GrantIssued g bounds cap, st')"
    "usable (assessBoundedGrantExercise example_platform g None example_exercise ''2024-01-01T00:05:00Z'')"
    by (cases "issueGrant example_platform createInMemoryBoundedGrantStore None empty_grant_store example_issuance")
      (auto split: grant_issuance_outcome.splits)
  have "req_source example_issuance = example_source_authorization" by (simp add: example_issuance_def)
  then show ?thesis using attempt_within_source [OF g] by simp
qed

lemma derived_source:
  assumes "deriveGrantSourceAuthorization P decl r result = Inr source"
  shows "src_correlation source = grantCorrelationFor r (kr_decisionId result)" "src_subject source = ar_id (kq_actor r)"
    "src_scope source = sourceScopeFor P r" "authorizationPermitsExercise source \<longleftrightarrow> kr_status result = KernelAllowed"
    "allBlockingObligationsSatisfied source \<longleftrightarrow>
      (case kr_obligations result of None \<Rightarrow> True | Some o' \<Rightarrow> oe_allBlockingObligationsSatisfied o')"
  using assms by (auto simp add: deriveGrantSourceAuthorization_def split: sum.splits)

lemma derived_source_admits:
  assumes "src_scope source = sourceScopeFor P r" "isDerivableGrantSource P source"
    and "scope_admits P (src_scope source) (attempt_of q)"
  shows "er_action q = governed_action r" "er_resource q = at_resourceScope (kq_action r)"
    "organization_id r = Some tenant \<Longrightarrow> er_organization q = Some tenant"
    "at_counterpartyId (kq_action r) = Some other \<Longrightarrow> er_counterparty q = Some other"
proof -
  have stated: "axes (sourceScopeFor P r) KAction \<noteq> None" "axes (sourceScopeFor P r) KResources \<noteq> None"
    using assms(1,2)
    by (auto simp add: isDerivableGrantSource_def missingMandatoryGrantBounds_def MANDATORY_GRANT_BOUND_KEYS_def
        statedGrantBoundKeys_def Let_def split: if_splits)
  have admitted_axis: "grant_bound_admits P b (at_axis (attempt_of q) key)" if "source_axis P r key = Some b" for key b
    using assms(1,3) that
    by (cases key) (auto simp add: scope_admits_def sourceScopeFor_def GRANT_BOUND_KEYS_def list_all_iff)
  have "source_axis P r KAction = Some (IdentityBound (governed_action r))"
    "source_axis P r KResources = Some (SetBound [at_resourceScope (kq_action r)])"
    using stated by (auto simp add: sourceScopeFor_def split: if_splits)
  from this [THEN admitted_axis] show "er_action q = governed_action r" "er_resource q = at_resourceScope (kq_action r)"
    by (simp_all add: attempt_of_def stated_axis_def)
  show "er_organization q = Some tenant" if "organization_id r = Some tenant"
    using admitted_axis [of KOrganization] that
    by (cases "er_organization q") (auto simp add: attempt_of_def stated_axis_def)
  show "er_counterparty q = Some other" if "at_counterpartyId (kq_action r) = Some other"
    using admitted_axis [of KCounterparty] that
    by (cases "er_counterparty q") (auto simp add: attempt_of_def stated_axis_def)
qed

text \<open>
  C2: What can be exercised is what the kernel decided.  If the kernel evaluated a request, a grant was
  issued from the authorization derived of the result, and an attempt is usable under the grant,
  then the result was allowed, and that evaluation rests on every layer of its own call: on the
  engine's decision, the context, the governed authority and the external port, each as it answered
  in the state of that call, with every blocking obligation verified or waived.  The attempt is for that very decision: the actor, the action, the resource, and
  where the request named them the organization and the counterparty, are the request's.
\<close>

theorem attempt_was_decided:
  fixes s :: "('c policy_metadata, 'v, 'w) engine_state"
  assumes "run_state (evaluate K r options) s = (Inr result, s')"
    and "deriveGrantSourceAuthorization (kn_platform K) decl r result = Inr (req_source request)"
    and "issueGrant (kn_platform K) createInMemoryBoundedGrantStore revalidate st request = (GrantIssued grant bounds cap, st')"
    and "usable (assessBoundedGrantExercise (kn_platform K) grant revocation q t)"
  shows "kr_status result = KernelAllowed \<and>
    er_correlation q = grantCorrelationFor r (kr_decisionId result) \<and> er_subject q = ar_id (kq_actor r) \<and>
    er_action q = governed_action r \<and> er_resource q = at_resourceScope (kq_action r) \<and>
    (\<forall>tenant. organization_id r = Some tenant \<longrightarrow> er_organization q = Some tenant) \<and>
    (\<forall>other. at_counterpartyId (kq_action r) = Some other \<longrightarrow> er_counterparty q = Some other) \<and>
    evaluation_rests K r options s result s' \<and>
    (case kr_obligations result of None \<Rightarrow> True | Some o' \<Rightarrow> oe_allBlockingObligationsSatisfied o')"
proof -
  note traced = attempt_traced [OF assms(3,4)] and source = derived_source [OF assms(2)]
  have eligible: "authorizationPermitsExercise (req_source request)" "allBlockingObligationsSatisfied (req_source request)"
    "isDerivableGrantSource (kn_platform K) (req_source request)"
    using traced(1) by (simp_all add: eligible_iff)
  have allowed: "kr_status result = KernelAllowed" using eligible(1) source(4) by simp
  note admits = derived_source_admits [OF source(3) eligible(3) traced(2)]
  show ?thesis
    using evaluate_rests_on(1) [OF assms(1) allowed] allowed admits traced(3-5) source(1,2,5) eligible(2) by simp
qed

definition example_decided_issuance :: "grant_source_authorization \<Rightarrow> grant_issuance_request" where
  "example_decided_issuance source =
     \<lparr>req_source = source, requestedBounds = None, req_subject = ''agent'', req_correlation = src_correlation source,
      req_issuedAt = ''2026-01-01T00:00:01Z'', req_expiresAt = ''2026-01-01T00:10:00Z'',
      additionalValidityCeilings = None, req_authorityBindingDigest = None\<rparr>"

definition example_decided_exercise :: "string \<Rightarrow> grant_exercise_request" where
  "example_decided_exercise decision =
     \<lparr>er_boundedGrantId = ''g'', er_subject = ''agent'', er_action = governed_action example_kernel_request,
      er_resource = ''account'', er_counterparty = None, er_organization = Some ''org'', er_amount = None,
      er_governanceProfile = None, er_actionClass = None, er_resourceClass = None, er_parameters = None,
      er_correlation = grantCorrelationFor example_kernel_request decision, er_executionId = ''e1''\<rparr>"

definition example_decided_scope :: grant_scope where
  "example_decided_scope = sourceScopeFor example_platform example_kernel_request"

lemma example_scope_kept:
  "narrowing_permitted example_platform example_decided_scope no_narrowing"
  "isWellFormedGrantScope example_platform example_decided_scope"
  "statedGrantBoundKeys example_decided_scope = [KAction, KOrganization, KResources]"
  "isConsistentGrantSemantics (narrowed_scope example_decided_scope no_narrowing)
     (semantics_marker (narrowed_scope example_decided_scope no_narrowing))"
proof -
  have "list_all (axis_permitted example_platform example_decided_scope no_narrowing) GRANT_BOUND_KEYS" by code_simp
  then have "axis_permitted example_platform example_decided_scope no_narrowing key" for key by (simp add: list_all_iff)
  moreover have "parameters example_decided_scope = None" by code_simp
  ultimately show "narrowing_permitted example_platform example_decided_scope no_narrowing"
    by (simp add: narrowing_permitted_def parameters_permitted_def no_narrowing_def)
  show "isWellFormedGrantScope example_platform example_decided_scope"
    "statedGrantBoundKeys example_decided_scope = [KAction, KOrganization, KResources]"
    "isConsistentGrantSemantics (narrowed_scope example_decided_scope no_narrowing)
     (semantics_marker (narrowed_scope example_decided_scope no_narrowing))" by code_simp+
qed

lemma example_exercise_covered:
  "covers_attempt example_platform (narrowed_scope example_decided_scope no_narrowing) (example_decided_exercise decision)"
proof -
  have "list_all (axis_covered example_platform (narrowed_scope example_decided_scope no_narrowing)
      (example_decided_exercise decision)) GRANT_BOUND_KEYS" by code_simp
  moreover have "parameters (narrowed_scope example_decided_scope no_narrowing) = None" by code_simp
  ultimately show ?thesis
    by (simp add: covers_attempt_def parameters_covered_def example_decided_exercise_def stated_parameter_def
        grantParameterBound_def option_list_def)
qed

lemma example_instants:
  "Date_parse example_platform ''2026-01-01T00:00:00.000Z'' \<noteq> None"
  "accepted (resolveGrantValidity example_platform ''2026-01-01T00:00:01Z'' (Some ''2026-01-01T00:10:00Z'') [])"
  "Date_parse example_platform ''2026-01-01T00:10:00Z'' = Some 1767226200000"
  "Date_parse example_platform ''2026-01-01T00:05:00Z'' = Some 1767225900000"
  by code_simp+

theorem attempt_was_decided_witness:
  "\<exists>result s' source grant bounds cap st'.
     run_state (evaluate (example_kernel ''allow'') example_kernel_request None) kernel_start = (Inr result, s') \<and>
     issueGrant example_platform createInMemoryBoundedGrantStore None empty_grant_store (example_decided_issuance source) =
       (GrantIssued grant bounds cap, st') \<and>
     usable (assessBoundedGrantExercise example_platform grant None (example_decided_exercise (kr_decisionId result)) ''2026-01-01T00:05:00Z'') \<and>
     kr_status result = KernelAllowed \<and>
     evaluation_rests (example_kernel ''allow'') example_kernel_request None kernel_start result s'"
proof -
  let ?P = example_platform and ?q = example_kernel_request
  obtain result s' where run: "run_state (evaluate (example_kernel ''allow'') ?q None) kernel_start = (Inr result, s')"
    and result: "kr_status result = KernelAllowed" "kr_decisionId result \<noteq> []"
      "kr_evaluatedAt result = ''2026-01-01T00:00:00.000Z''" "kr_context result = None" "kr_obligations result = None"
    using example_evaluates by blast
  obtain source where source: "deriveGrantSourceAuthorization ?P \<lparr>maximumGrantLifetimeSeconds = None\<rparr> ?q result = Inr source"
      "evaluatedAt source = kr_evaluatedAt result" "validityCeilings source = []"
    using result(4) by (simp add: deriveGrantSourceAuthorization_def validityCeilingsFor_def deploymentGrantValidityCeiling_def)
  note derived = derived_source [OF source(1), folded example_decided_scope_def]
  let ?i = "example_decided_issuance source" and ?sc = "narrowed_scope example_decided_scope no_narrowing"
  have correlation: "isWellFormedGrantCorrelation (src_correlation source)"
    using result(2) derived(1) by (simp add: isWellFormedGrantCorrelation_def grantCorrelationFor_def example_kernel_request_def governed_action_def given_def)
  have "eligible (assessGrantEligibility ?P source)"
    using correlation derived result source example_scope_kept(2,3) example_instants(1)
    by (simp add: eligible_iff isDerivableGrantSource_def missingMandatoryGrantBounds_def MANDATORY_GRANT_BOUND_KEYS_def)
      (simp add: example_kernel_request_def)
  moreover have "\<exists>bounds. attenuateGrantScope ?P (src_scope source) no_narrowing = Attenuated ?sc bounds"
    using attenuate_outcome [of ?P "src_scope source" no_narrowing] example_scope_kept(1) derived(3)
    by (cases "attenuateGrantScope ?P (src_scope source) no_narrowing") auto
  ultimately have "issuable ?P ?i ?sc"
    using correlation derived source(3) example_instants(2)
    by (simp add: issuable_def example_decided_issuance_def grantSourceMatchesCorrelation_def grantCorrelationMatches_def
        option_list_def) (simp add: example_kernel_request_def)
  then have "\<exists>bounds cap st'. issueGrant ?P createInMemoryBoundedGrantStore None empty_grant_store ?i =
      (GrantIssued (issued_grant ?P ?i ?sc) bounds cap, st')"
    using conjunct1 [OF issuance_complete [of ?P ?i ?sc None empty_grant_store]] example_scope_kept(4)
    by (simp add: commit_guard_def mem_read_def empty_grant_store_def)
  then obtain bounds cap st' where issued: "issueGrant ?P createInMemoryBoundedGrantStore None empty_grant_store ?i =
      (GrantIssued (issued_grant ?P ?i ?sc) bounds cap, st')" by blast
  have stands: "grant_stands ?P (issued_grant ?P ?i ?sc) None ''2026-01-01T00:05:00Z''"
    using example_instants(3,4) issued_grant_digest [of ?P ?i ?sc] issued_grant_semantics [of ?P ?i ?sc] example_scope_kept(4)
    by (auto simp add: grant_stands_def assessGrantExercise_def example_decided_issuance_def Let_def)
  have "isWellFormedGrantExerciseRequest (example_decided_exercise (kr_decisionId result))"
    using correlation derived(1)
    by (simp add: isWellFormedGrantExerciseRequest_def example_decided_exercise_def)
      (simp add: governed_action_def given_def example_kernel_request_def)
  then have usable: "usable (assessBoundedGrantExercise ?P (issued_grant ?P ?i ?sc) None
      (example_decided_exercise (kr_decisionId result)) ''2026-01-01T00:05:00Z'')"
    using stands example_exercise_covered derived(1)
    by (simp add: usable_iff example_decided_issuance_def) (simp add: example_decided_exercise_def)
  have "req_source ?i = source" by (simp add: example_decided_issuance_def)
  then show ?thesis
    using run issued usable attempt_was_decided [OF run, of "\<lparr>maximumGrantLifetimeSeconds = None\<rparr>" ?i None empty_grant_store]
      source(1) by (metis example_kernel_fields(2))
qed

end
